(* ===== verification/Prelude.thy ===== *)
theory Prelude
  imports Main "HOL-Library.AList"
begin

text \<open>
  Shared vocabulary of the development: the types that stand for Python's strings, dictionaries
  and dynamic values, the propagation of exceptions as values of a sum, and the generic lemmas on
  lists, dictionaries and results that the component theories use.

  Names chosen by the program (tool names, dictionary keys, identifiers that are only compared for
  equality) are Isabelle strings; text whose characters matter is a list of Unicode code points.
\<close>

named_theorems result_simps \<open>case rules for computations that may raise\<close>
named_theorems dict_simps \<open>lookups in dictionaries after an update\<close>
named_theorems store_simps \<open>field equations of the business tables and the session\<close>
named_theorems audit_simps \<open>equations of the audit trail\<close>
named_theorems node_simps \<open>equations of the graph nodes on the fields they write\<close>

section \<open>Text\<close>

text \<open>A Python string as the list of its code points.\<close>

type_synonym ustr = "int list"

text \<open>An ASCII literal of the source as code points.\<close>

definition lit :: "string \<Rightarrow> ustr" where
  "lit s = map of_char s"

lemma lit_Nil [simp]: "lit [] = []"
  by (simp add: lit_def)

lemma length_lit [simp]: "length (lit s) = length s"
  by (simp add: lit_def)

lemma inj_of_char_int: "inj (of_char :: char \<Rightarrow> int)"
proof (rule injI)
  fix x y :: char
  assume "(of_char x :: int) = of_char y"
  then show "x = y" by simp
qed

lemma lit_inject [simp]: "lit s = lit t \<longleftrightarrow> s = t"
  by (simp add: lit_def inj_map_eq_map [OF inj_of_char_int])

section \<open>Dynamic values and dictionaries\<close>

text \<open>
  The JSON-shaped values that travel in tool arguments and policy inputs. Dictionaries keep their
  insertion order, as Python's do. Floating-point members do not occur in any tool input.
\<close>

datatype pyval =
    PNone
  | PBool bool
  | PInt int
  | PStr ustr
  | PList "pyval list"
  | PDict "(string \<times> pyval) list"

type_synonym 'v dict = "(string \<times> 'v) list"

abbreviation dget :: "'v dict \<Rightarrow> string \<Rightarrow> 'v option" where
  "dget d k \<equiv> map_of d k"

text \<open>\<open>d[k] = v\<close>: an existing key keeps its place, a new one is appended.\<close>

abbreviation dset :: "string \<Rightarrow> 'v \<Rightarrow> 'v dict \<Rightarrow> 'v dict" where
  "dset k v d \<equiv> AList.update k v d"

definition dsetdefault :: "string \<Rightarrow> 'v \<Rightarrow> 'v dict \<Rightarrow> 'v dict" where
  "dsetdefault k v d = (case dget d k of None \<Rightarrow> dset k v d | Some _ \<Rightarrow> d)"

text \<open>\<open>d.get(k)\<close> on a dictionary of dynamic values: a missing key reads as \<open>None\<close>.\<close>

definition pget :: "pyval dict \<Rightarrow> string \<Rightarrow> pyval" where
  "pget d k = (case dget d k of None \<Rightarrow> PNone | Some v \<Rightarrow> v)"

text \<open>Python's \<open>==\<close> between a dynamic value and an integer: a bool compares as 0 or 1.\<close>

fun pyval_is_int :: "pyval \<Rightarrow> int \<Rightarrow> bool" where
  "pyval_is_int (PInt m) n = (m = n)"
| "pyval_is_int (PBool b) n = ((if b then 1 else 0) = n)"
| "pyval_is_int _ n = False"

text \<open>Truth value of a dynamic value, \<open>bool(v)\<close>.\<close>

fun truthy :: "pyval \<Rightarrow> bool" where
  "truthy PNone = False"
| "truthy (PBool b) = b"
| "truthy (PInt n) = (n \<noteq> 0)"
| "truthy (PStr s) = (s \<noteq> [])"
| "truthy (PList xs) = (xs \<noteq> [])"
| "truthy (PDict d) = (d \<noteq> [])"

lemma dget_dset [simp, dict_simps]: "dget (dset k v d) j = (if j = k then Some v else dget d j)"
  by (simp add: update_conv')

lemma dget_dset_same: "dget (dset k v d) k = Some v"
  by simp

lemma dget_dsetdefault [simp, dict_simps]:
  "dget (dsetdefault k v d) j =
     (if j = k then (case dget d k of None \<Rightarrow> Some v | Some w \<Rightarrow> Some w) else dget d j)"
  by (simp add: dsetdefault_def split: option.split)

lemma pget_dset [simp, dict_simps]: "pget (dset k v d) j = (if j = k then v else pget d j)"
  by (simp add: pget_def)

section \<open>Results\<close>

text \<open>Sequencing of steps that may raise: \<open>Inl\<close> is the exception that propagates.\<close>

fun and_then :: "'e + 'a \<Rightarrow> ('a \<Rightarrow> 'e + 'b) \<Rightarrow> 'e + 'b" where
  "and_then (Inl e) f = Inl e"
| "and_then (Inr x) f = f x"

lemma and_then_Inr_iff [result_simps]:
  "and_then r f = Inr y \<longleftrightarrow> (\<exists>x. r = Inr x \<and> f x = Inr y)"
  by (cases r) auto

lemma and_then_Inl_iff [result_simps]:
  "and_then r f = Inl e \<longleftrightarrow> r = Inl e \<or> (\<exists>x. r = Inr x \<and> f x = Inl e)"
  by (cases r) auto

fun is_ok :: "'e + 'a \<Rightarrow> bool" where
  "is_ok (Inl e) = False"
| "is_ok (Inr x) = True"

lemma is_ok_iff: "is_ok r \<longleftrightarrow> (\<exists>x. r = Inr x)"
  by (cases r) auto

section \<open>Lists\<close>

text \<open>\<open>xs[-n:]\<close> for a positive \<open>n\<close>: the last \<open>n\<close> elements, all of them when there are fewer.\<close>

definition last_n :: "nat \<Rightarrow> 'a list \<Rightarrow> 'a list" where
  "last_n n xs = drop (length xs - n) xs"

lemma length_last_n [simp]: "length (last_n n xs) = min n (length xs)"
  by (simp add: last_n_def)

lemma set_last_n: "set (last_n n xs) \<subseteq> set xs"
  by (simp add: last_n_def set_drop_subset)

lemma last_n_id: "length xs \<le> n \<Longrightarrow> last_n n xs = xs"
  by (simp add: last_n_def)

lemma length_filter_mono:
  "(\<And>x. x \<in> set xs \<Longrightarrow> P x \<Longrightarrow> Q x) \<Longrightarrow> length (filter P xs) \<le> length (filter Q xs)"
  by (induction xs) (auto simp: le_SucI)

text \<open>The first element satisfying a test, as \<open>session.scalar\<close> and \<open>next\<close> return it.\<close>

lemma find_Some_in: "find P xs = Some x \<Longrightarrow> x \<in> set xs \<and> P x"
  by (auto simp: find_Some_iff)

lemma find_None_all: "find P xs = None \<longleftrightarrow> (\<forall>x \<in> set xs. \<not> P x)"
  by (auto simp: find_None_iff)

lemma find_append_hit: "find P xs = Some x \<Longrightarrow> find P (xs @ ys) = Some x"
  by (induction xs) auto

lemma find_append_miss: "find P xs = None \<Longrightarrow> find P (xs @ ys) = find P ys"
  by (induction xs) (auto split: if_splits)

lemma find_map_kept: "(\<And>x. P (f x) = P x) \<Longrightarrow> find P (map f xs) = map_option f (find P xs)"
  by (induction xs) auto

end
