(* ===== verification/PyText.thy ===== *)
theory PyText
  imports Prelude
begin

text \<open>
  What the source uses of Python's \<open>str\<close> and \<open>re\<close>: case folding, splitting on white space,
  substring tests and regular expressions.

  The tables are exact for the white-space characters. Word characters are exact up to U+052F
  (Latin, Greek, Cyrillic) and cover the CJK ideographs, kana, Hangul and the full-width letters
  above it; case pairs are those of ASCII, Latin-1, Latin Extended-A, the regular pairs of Latin
  Extended-B, Greek and Cyrillic, and the full-width letters. Every other character is taken to be
  caseless and no part of a word. The digit class is ASCII.
\<close>

section \<open>Characters\<close>

definition is_space :: "int \<Rightarrow> bool" where
  "is_space c \<longleftrightarrow> (9 \<le> c \<and> c \<le> 13) \<or> (28 \<le> c \<and> c \<le> 32) \<or> c = 133 \<or> c = 160 \<or> c = 5760 \<or>
     (8192 \<le> c \<and> c \<le> 8202) \<or> c = 8232 \<or> c = 8233 \<or> c = 8239 \<or> c = 8287 \<or> c = 12288"

text \<open>The ranges of \<open>\w\<close> (letters, digits and the underscore).\<close>

definition word_ranges :: "(int \<times> int) list" where
  "word_ranges = [(48, 57), (65, 90), (95, 95), (97, 122), (170, 170), (178, 179), (181, 181),
     (185, 186), (188, 190), (192, 214), (216, 246), (248, 705), (710, 721), (736, 740),
     (748, 748), (750, 750), (880, 884), (886, 887), (890, 893), (895, 895), (902, 902),
     (904, 906), (908, 908), (910, 929), (931, 1013), (1015, 1153), (1162, 1327),
     (12353, 12438), (12449, 12538), (13312, 19903), (19968, 40959), (44032, 55203),
     (65296, 65305), (65313, 65338), (65345, 65370)]"

fun in_ranges :: "int \<Rightarrow> (int \<times> int) list \<Rightarrow> bool" where
  "in_ranges c [] = False"
| "in_ranges c ((a, b) # rs) = (if c < a then False else if c \<le> b then True else in_ranges c rs)"

definition is_word :: "int \<Rightarrow> bool" where
  "is_word c = in_ranges c word_ranges"

definition is_digit :: "int \<Rightarrow> bool" where
  "is_digit c \<longleftrightarrow> 48 \<le> c \<and> c \<le> 57"

text \<open>
  Simple case pairs: \<open>(lo, hi, step, delta)\<close> maps \<open>lo, lo + step, \<dots>, hi\<close> to the character
  \<open>delta\<close> further on.
\<close>

definition fold_ranges :: "(int \<times> int \<times> int \<times> int) list" where
  "fold_ranges = [(65, 90, 1, 32), (181, 181, 1, 775), (192, 214, 1, 32), (216, 222, 1, 32),
     (256, 302, 2, 1), (306, 310, 2, 1), (313, 327, 2, 1), (330, 374, 2, 1), (376, 376, 1, -121),
     (377, 381, 2, 1), (383, 383, 1, -268), (416, 420, 2, 1), (478, 494, 2, 1),
     (504, 542, 2, 1), (546, 562, 2, 1), (582, 590, 2, 1), (902, 902, 1, 38), (904, 906, 1, 37),
     (908, 908, 1, 64), (910, 911, 1, 63), (913, 929, 1, 32), (931, 939, 1, 32),
     (962, 962, 1, 1), (984, 1006, 2, 1), (1024, 1039, 1, 80), (1040, 1071, 1, 32),
     (1120, 1152, 2, 1), (1162, 1214, 2, 1), (1217, 1229, 2, 1), (1232, 1326, 2, 1),
     (8490, 8490, 1, -8383), (65313, 65338, 1, 32)]"

fun fold_in :: "int \<Rightarrow> (int \<times> int \<times> int \<times> int) list \<Rightarrow> int" where
  "fold_in c [] = c"
| "fold_in c ((lo, hi, st, d) # rs) =
     (if lo \<le> c \<and> c \<le> hi \<and> (c - lo) mod st = 0 then c + d else fold_in c rs)"

definition casefold_char :: "int \<Rightarrow> ustr" where
  "casefold_char c =
     (if c < 65 \<or> (90 < c \<and> c < 181) then [c]
      else if c = 223 then [115, 115]
      else if c = 304 then [105, 775]
      else [fold_in c fold_ranges])"

section \<open>String operations\<close>

definition casefold :: "ustr \<Rightarrow> ustr" where
  "casefold s = concat (map casefold_char s)"

text \<open>\<open>s.split()\<close>: the maximal runs of characters that are not white space.\<close>

fun split_ws_from :: "ustr \<Rightarrow> ustr \<Rightarrow> ustr list" where
  "split_ws_from w [] = (if w = [] then [] else [rev w])"
| "split_ws_from w (c # cs) =
     (if is_space c then (if w = [] then split_ws_from [] cs else rev w # split_ws_from [] cs)
      else split_ws_from (c # w) cs)"

definition split_ws :: "ustr \<Rightarrow> ustr list" where
  "split_ws s = split_ws_from [] s"

text \<open>\<open>s.split(c)\<close>: the pieces between the separators, empty ones included.\<close>

fun split_char_from :: "int \<Rightarrow> ustr \<Rightarrow> ustr \<Rightarrow> ustr list" where
  "split_char_from c w [] = [rev w]"
| "split_char_from c w (d # ds) =
     (if d = c then rev w # split_char_from c [] ds else split_char_from c (d # w) ds)"

definition split_char :: "int \<Rightarrow> ustr \<Rightarrow> ustr list" where
  "split_char c s = split_char_from c [] s"

text \<open>\<open>sep.join(parts)\<close> with a one-character separator.\<close>

fun join_char :: "int \<Rightarrow> ustr list \<Rightarrow> ustr" where
  "join_char c [] = []"
| "join_char c [w] = w"
| "join_char c (w # ws) = w @ c # join_char c ws"

text \<open>\<open>" ".join(s.split())\<close>\<close>

definition squeeze :: "ustr \<Rightarrow> ustr" where
  "squeeze s = join_char 32 (split_ws s)"

definition strip :: "ustr \<Rightarrow> ustr" where
  "strip s = rev (dropWhile is_space (rev (dropWhile is_space s)))"

text \<open>\<open>p in s\<close>\<close>

fun has_prefix :: "ustr \<Rightarrow> ustr \<Rightarrow> bool" where
  "has_prefix [] s = True"
| "has_prefix (p # ps) [] = False"
| "has_prefix (p # ps) (c # cs) = (p = c \<and> has_prefix ps cs)"

fun contains :: "ustr \<Rightarrow> ustr \<Rightarrow> bool" where
  "contains p [] = (p = [])"
| "contains p (c # cs) = (has_prefix p (c # cs) \<or> contains p cs)"

text \<open>\<open>re.findall(r"[...]+", s)\<close>: the maximal runs of characters of a class.\<close>

fun runs_from :: "(int \<Rightarrow> bool) \<Rightarrow> ustr \<Rightarrow> ustr \<Rightarrow> ustr list" where
  "runs_from P w [] = (if w = [] then [] else [rev w])"
| "runs_from P w (c # cs) =
     (if P c then runs_from P (c # w) cs
      else if w = [] then runs_from P [] cs else rev w # runs_from P [] cs)"

definition runs :: "(int \<Rightarrow> bool) \<Rightarrow> ustr \<Rightarrow> ustr list" where
  "runs P s = runs_from P [] s"

text \<open>\<open>re.sub(r"[...]+", c, s)\<close>: every maximal run of a class becomes one character.\<close>

fun squash_from :: "(int \<Rightarrow> bool) \<Rightarrow> int \<Rightarrow> bool \<Rightarrow> ustr \<Rightarrow> ustr" where
  "squash_from P r b [] = []"
| "squash_from P r b (c # cs) =
     (if P c then (if b then squash_from P r True cs else r # squash_from P r True cs)
      else c # squash_from P r False cs)"

definition squash :: "(int \<Rightarrow> bool) \<Rightarrow> int \<Rightarrow> ustr \<Rightarrow> ustr" where
  "squash P r s = squash_from P r False s"

text \<open>\<open>int(s)\<close> of a run of digits.\<close>

definition digits_value :: "ustr \<Rightarrow> int" where
  "digits_value s = foldl (\<lambda>n c. 10 * n + (c - 48)) 0 s"

end
