(* ===== verification/Regex.thy ===== *)
theory Regex
  imports PyText
begin

text \<open>
  Python's backtracking regular expressions on lists of code points. A position of the text is the
  pair of the characters before it (reversed) and after it. \<open>ends r p\<close> lists the positions where a
  match of \<open>r\<close> starting at \<open>p\<close> can end, in the order the backtracking engine tries them, so the
  first one is the match that \<open>re\<close> reports. All patterns of the source are compiled with
  \<open>re.IGNORECASE\<close>, so literal characters are compared by their canonical case.
\<close>

type_synonym pos = "ustr \<times> ustr"

datatype rx =
    REps
  | RSet "int \<Rightarrow> bool"
  | RSeq rx rx
  | RAlt rx rx
  | RStar rx
  | RBos                              \<comment> \<open>\<open>^\<close>\<close>
  | REos                              \<comment> \<open>\<open>$\<close>, at the end of the text\<close>
  | RWb                               \<comment> \<open>\<open>\b\<close>\<close>
  | RNotBehind "int \<Rightarrow> bool"          \<comment> \<open>\<open>(?<![...])\<close>\<close>
  | RNotAhead "int \<Rightarrow> bool"           \<comment> \<open>\<open>(?![...])\<close>\<close>

section \<open>The engine\<close>

fun at_word :: "ustr \<Rightarrow> bool" where
  "at_word [] = False"
| "at_word (c # cs) = is_word c"

fun class_at :: "(int \<Rightarrow> bool) \<Rightarrow> ustr \<Rightarrow> bool" where
  "class_at P [] = False"
| "class_at P (c # cs) = P c"

text \<open>
  Greedy repetition of a step: an iteration that consumes nothing is not repeated, so a fuel of the
  remaining length is enough.
\<close>

fun star_ends :: "nat \<Rightarrow> (pos \<Rightarrow> pos list) \<Rightarrow> pos \<Rightarrow> pos list" where
  "star_ends 0 f p = [p]"
| "star_ends (Suc n) f p =
     concat (map (star_ends n f) (filter (\<lambda>q. length (snd q) < length (snd p)) (f p))) @ [p]"

fun ends :: "rx \<Rightarrow> pos \<Rightarrow> pos list" where
  "ends REps p = [p]"
| "ends (RSet P) (pre, []) = []"
| "ends (RSet P) (pre, c # cs) = (if P c then [(c # pre, cs)] else [])"
| "ends (RSeq r s) p = concat (map (ends s) (ends r p))"
| "ends (RAlt r s) p = ends r p @ ends s p"
| "ends (RStar r) p = star_ends (length (snd p)) (ends r) p"
| "ends RBos p = (if fst p = [] then [p] else [])"
| "ends REos p = (if snd p = [] then [p] else [])"
| "ends RWb p = (if at_word (fst p) \<noteq> at_word (snd p) then [p] else [])"
| "ends (RNotBehind P) p = (if class_at P (fst p) then [] else [p])"
| "ends (RNotAhead P) p = (if class_at P (snd p) then [] else [p])"

text \<open>\<open>pattern.search\<close>: the leftmost start with a match, and the end reported there.\<close>

fun search_from :: "rx \<Rightarrow> ustr \<Rightarrow> ustr \<Rightarrow> pos option" where
  "search_from r pre [] = (case ends r (pre, []) of [] \<Rightarrow> None | q # _ \<Rightarrow> Some q)"
| "search_from r pre (c # cs) =
     (case ends r (pre, c # cs) of [] \<Rightarrow> search_from r (c # pre) cs | q # _ \<Rightarrow> Some q)"

definition search :: "rx \<Rightarrow> ustr \<Rightarrow> pos option" where
  "search r s = search_from r [] s"

definition found :: "rx \<Rightarrow> ustr \<Rightarrow> bool" where
  "found r s \<longleftrightarrow> search r s \<noteq> None"

text \<open>\<open>pattern.match\<close> (anchored at the start) and \<open>pattern.fullmatch\<close>.\<close>

definition matches_start :: "rx \<Rightarrow> ustr \<Rightarrow> bool" where
  "matches_start r s \<longleftrightarrow> ends r ([], s) \<noteq> []"

definition fullmatch :: "rx \<Rightarrow> ustr \<Rightarrow> bool" where
  "fullmatch r s \<longleftrightarrow> list_ex (\<lambda>q. snd q = []) (ends r ([], s))"

section \<open>Pattern syntax\<close>

definition canon :: "int \<Rightarrow> int" where
  "canon c = (if c = 304 \<or> c = 305 then 105 else fold_in c fold_ranges)"

definition ci_char :: "int \<Rightarrow> rx" where
  "ci_char a = RSet (\<lambda>c. c = a \<or> canon c = canon a)"

fun rseq :: "rx list \<Rightarrow> rx" where
  "rseq [] = REps"
| "rseq [r] = r"
| "rseq (r # rs) = RSeq r (rseq rs)"

fun ralt :: "rx list \<Rightarrow> rx" where
  "ralt [] = RSet (\<lambda>_. False)"
| "ralt [r] = r"
| "ralt (r # rs) = RAlt r (ralt rs)"

definition rtext :: "ustr \<Rightarrow> rx" where
  "rtext s = rseq (map ci_char s)"

abbreviation rlit :: "string \<Rightarrow> rx" where
  "rlit s \<equiv> rtext (lit s)"

definition rwords :: "string list \<Rightarrow> rx" where
  "rwords ws = ralt (map rlit ws)"

definition ropt :: "rx \<Rightarrow> rx" where
  "ropt r = RAlt r REps"

definition rplus :: "rx \<Rightarrow> rx" where
  "rplus r = RSeq r (RStar r)"

definition rspaces :: rx where
  "rspaces = rplus (RSet is_space)"

definition rspaces0 :: rx where
  "rspaces0 = RStar (RSet is_space)"

definition rdigits :: rx where
  "rdigits = rplus (RSet is_digit)"

text \<open>\<open>.*\<close>: any run of characters other than a newline.\<close>

definition rany :: rx where
  "rany = RStar (RSet (\<lambda>c. c \<noteq> 10))"

text \<open>\<open>\b(?:w1|w2|...)\b\<close>\<close>

definition rword :: "string list \<Rightarrow> rx" where
  "rword ws = rseq [RWb, rwords ws, RWb]"

section \<open>Soundness and completeness of the engine\<close>

text \<open>The declarative reading of a pattern: \<open>r\<close> matches the text between two positions.\<close>

inductive matches :: "rx \<Rightarrow> pos \<Rightarrow> pos \<Rightarrow> bool" where
  m_eps: "matches REps p p"
| m_set: "P c \<Longrightarrow> matches (RSet P) (pre, c # cs) (c # pre, cs)"
| m_seq: "matches r p q \<Longrightarrow> matches s q t \<Longrightarrow> matches (RSeq r s) p t"
| m_alt1: "matches r p q \<Longrightarrow> matches (RAlt r s) p q"
| m_alt2: "matches s p q \<Longrightarrow> matches (RAlt r s) p q"
| m_star0: "matches (RStar r) p p"
| m_star1: "matches r p q \<Longrightarrow> matches (RStar r) q t \<Longrightarrow> matches (RStar r) p t"
| m_bos: "fst p = [] \<Longrightarrow> matches RBos p p"
| m_eos: "snd p = [] \<Longrightarrow> matches REos p p"
| m_wb: "at_word (fst p) \<noteq> at_word (snd p) \<Longrightarrow> matches RWb p p"
| m_nb: "\<not> class_at P (fst p) \<Longrightarrow> matches (RNotBehind P) p p"
| m_na: "\<not> class_at P (snd p) \<Longrightarrow> matches (RNotAhead P) p p"

inductive_cases matches_star_E: "matches (RStar r) p q"
inductive_simps matches_simps:
  "matches REps p q" "matches (RSet P) p q" "matches (RSeq r s) p q" "matches (RAlt r s) p q"
  "matches RBos p q" "matches REos p q" "matches RWb p q" "matches (RNotBehind P) p q"
  "matches (RNotAhead P) p q"

text \<open>A match only moves forward over the same text: \<open>rev pre @ post\<close> is kept.\<close>

definition whole :: "pos \<Rightarrow> ustr" where
  "whole p = rev (fst p) @ snd p"

lemma matches_whole: "matches r p q \<Longrightarrow> whole q = whole p \<and> length (snd q) \<le> length (snd p)"
  by (induction rule: matches.induct) (auto simp: whole_def)

lemma same_whole_eq:
  assumes "whole p = whole q" and "length (snd p) = length (snd q)"
  shows "p = q"
  using assms by (cases p; cases q) (simp add: whole_def)

lemma star_ends_sound:
  assumes f: "\<And>p q. q \<in> set (f p) \<Longrightarrow> matches r p q"
  shows "q \<in> set (star_ends n f p) \<Longrightarrow> matches (RStar r) p q"
proof (induction n arbitrary: p)
  case 0
  then show ?case by (simp add: m_star0)
next
  case (Suc n)
  then show ?case by (auto intro: m_star0 m_star1 f)
qed

lemma star_ends_self: "p \<in> set (star_ends n f p)"
  by (cases n) simp_all

lemma star_ends_complete:
  assumes f: "\<And>p q. matches r p q \<Longrightarrow> q \<in> set (f p)"
  shows "matches (RStar r) p q \<Longrightarrow> length (snd p) \<le> n \<Longrightarrow> q \<in> set (star_ends n f p)"
proof (induction "RStar r" p q arbitrary: n rule: matches.induct)
  case (m_star0 p)
  then show ?case by (simp add: star_ends_self)
next
  case (m_star1 p q t)
  show ?case
  proof (cases "length (snd q) < length (snd p)")
    case True
    then obtain m where n: "n = Suc m" using m_star1.prems by (cases n) auto
    with True m_star1 have "t \<in> set (star_ends m f q)" by simp
    moreover have "q \<in> set (f p)" using m_star1 f by blast
    ultimately have "\<exists>r \<in> set (filter (\<lambda>r. length (snd r) < length (snd p)) (f p)).
        t \<in> set (star_ends m f r)"
      using True by (intro bexI [of _ q]) simp_all
    then show ?thesis by (simp only: n star_ends.simps set_append set_concat set_map) blast
  next
    case False
    then have "p = q" using matches_whole [OF m_star1.hyps(1)] by (intro same_whole_eq) auto
    then show ?thesis using m_star1 by blast
  qed
qed

theorem ends_iff_matches: "q \<in> set (ends r p) \<longleftrightarrow> matches r p q"
proof (induction r arbitrary: p q)
  case (RSet P)
  then show ?case by (cases p; cases "snd p") (auto simp: matches_simps)
next
  case (RStar r)
  have "q \<in> set (star_ends (length (snd p)) (ends r) p) \<longleftrightarrow> matches (RStar r) p q"
    using star_ends_sound [of "ends r" r] star_ends_complete [of r "ends r"] RStar by blast
  then show ?case by simp
next
  case (RSeq r s)
  have "q \<in> set (ends (RSeq r s) p) \<longleftrightarrow> (\<exists>t. t \<in> set (ends r p) \<and> q \<in> set (ends s t))"
    by fastforce
  also have "\<dots> \<longleftrightarrow> matches (RSeq r s) p q"
    by (simp add: RSeq matches_simps)
  finally show ?case .
qed (auto simp: matches_simps)

lemma ends_nonempty: "ends r p \<noteq> [] \<longleftrightarrow> (\<exists>q. matches r p q)"
  by (simp add: ex_in_conv flip: ends_iff_matches del: split_paired_Ex)

lemma search_from_iff:
  "search_from r pre s \<noteq> None \<longleftrightarrow>
     (\<exists>u v q. s = u @ v \<and> matches r (rev u @ pre, v) q)"
proof (induction s arbitrary: pre)
  case Nil
  then show ?case
    using ends_nonempty [of r "(pre, [])"] by (auto split: list.splits simp del: split_paired_Ex)
next
  case (Cons c cs)
  show ?case
  proof (cases "ends r (pre, c # cs)")
    case Nil
    then have no: "\<not> matches r (pre, c # cs) q" for q
      by (simp flip: ends_iff_matches)
    have "(\<exists>u v q. c # cs = u @ v \<and> matches r (rev u @ pre, v) q) \<longleftrightarrow>
          (\<exists>u v q. cs = u @ v \<and> matches r (rev u @ c # pre, v) q)"
      (is "?L \<longleftrightarrow> ?R")
    proof
      assume ?L
      then obtain u v q where "c # cs = u @ v" "matches r (rev u @ pre, v) q" by blast
      with no obtain u' where "u = c # u'" by (cases u) auto
      with \<open>c # cs = u @ v\<close> \<open>matches r (rev u @ pre, v) q\<close>
      have "cs = u' @ v" "matches r (rev u' @ c # pre, v) q" by simp_all
      then show ?R by blast
    next
      assume ?R
      then obtain u v q where "cs = u @ v" "matches r (rev u @ c # pre, v) q" by blast
      then have "c # cs = (c # u) @ v" "matches r (rev (c # u) @ pre, v) q" by simp_all
      then show ?L by blast
    qed
    with Nil Cons.IH show ?thesis by simp
  next
    case (Cons q qs)
    then have "matches r (pre, c # cs) q" by (simp flip: ends_iff_matches)
    then have "\<exists>u v q. c # cs = u @ v \<and> matches r (rev u @ pre, v) q"
      by (intro exI [of _ "[]"] exI [of _ "c # cs"] exI [of _ q]) simp
    with Cons show ?thesis by simp
  qed
qed

lemma found_iff: "found r s \<longleftrightarrow> (\<exists>u v q. s = u @ v \<and> matches r (rev u, v) q)"
  by (simp add: found_def search_def search_from_iff [of r "[]", simplified])

lemma fullmatch_iff: "fullmatch r s \<longleftrightarrow> (\<exists>q. matches r ([], s) q \<and> snd q = [])"
  unfolding fullmatch_def list_ex_iff by (meson ends_iff_matches)

section \<open>All matches\<close>

text \<open>\<open>pattern.findall\<close>: the matched texts, leftmost first; the scan resumes after a match.\<close>

fun scan :: "rx \<Rightarrow> nat \<Rightarrow> ustr \<Rightarrow> ustr \<Rightarrow> ustr list" where
  "scan r (Suc k) pre [] = []"
| "scan r 0 pre [] = (if ends r (pre, []) = [] then [] else [[]])"
| "scan r (Suc k) pre (c # cs) = scan r k (c # pre) cs"
| "scan r 0 pre (c # cs) =
     (case ends r (pre, c # cs) of
        [] \<Rightarrow> scan r 0 (c # pre) cs
      | q # _ \<Rightarrow>
          let n = length (c # cs) - length (snd q) in
          take n (c # cs) # scan r (n - 1) (c # pre) cs)"

definition findall :: "rx \<Rightarrow> ustr \<Rightarrow> ustr list" where
  "findall r s = scan r 0 [] s"

text \<open>A match ends inside the text, so what it consumed is a part of the text.\<close>

lemma matches_suffix:
  "matches r p q \<Longrightarrow> \<exists>w. snd p = w @ snd q \<and> fst q = rev w @ fst p"
proof (induction rule: matches.induct)
  case (m_seq r p q s t)
  then obtain w w' where "snd p = w @ snd q" "fst q = rev w @ fst p"
    "snd q = w' @ snd t" "fst t = rev w' @ fst q" by blast
  then show ?case by (intro exI [of _ "w @ w'"]) simp
next
  case (m_star1 r p q t)
  then obtain w w' where "snd p = w @ snd q" "fst q = rev w @ fst p"
    "snd q = w' @ snd t" "fst t = rev w' @ fst q" by blast
  then show ?case by (intro exI [of _ "w @ w'"]) simp
qed auto

lemma scan_sound:
  "w \<in> set (scan r k pre s) \<Longrightarrow>
     \<exists>u v. s = u @ w @ v \<and> matches r (rev u @ pre, w @ v) (rev w @ rev u @ pre, v)"
proof (induction r k pre s rule: scan.induct)
  case (2 r pre)
  then obtain q where q: "matches r (pre, []) q" using ends_nonempty by (auto split: if_splits)
  then have "q = (pre, [])" using matches_suffix [OF q] by (cases q) auto
  then show ?case using q 2 by (auto split: if_splits)
next
  case (3 r k pre c cs)
  then obtain u v where "cs = u @ w @ v" "matches r (rev u @ c # pre, w @ v) (rev w @ rev u @ c # pre, v)"
    by auto
  then show ?case by (intro exI [of _ "c # u"] exI [of _ v]) simp
next
  case (4 r pre c cs)
  have later: "\<exists>u v. c # cs = u @ w @ v \<and> matches r (rev u @ pre, w @ v) (rev w @ rev u @ pre, v)"
    if "\<exists>u v. cs = u @ w @ v \<and> matches r (rev u @ c # pre, w @ v) (rev w @ rev u @ c # pre, v)"
  proof -
    from that obtain u v where "cs = u @ w @ v"
      "matches r (rev u @ c # pre, w @ v) (rev w @ rev u @ c # pre, v)" by blast
    then show ?thesis by (intro exI [of _ "c # u"] exI [of _ v]) simp
  qed
  show ?case
  proof (cases "ends r (pre, c # cs)")
    case Nil
    then show ?thesis using 4 by (intro later) auto
  next
    case (Cons q qs)
    then have m: "matches r (pre, c # cs) q" by (simp flip: ends_iff_matches)
    from matches_suffix [OF m] obtain x where x: "c # cs = x @ snd q" "fst q = rev x @ pre" by auto
    let ?n = "length (c # cs) - length (snd q)"
    have n: "?n = length x" using arg_cong [OF x(1), of length] by simp
    have "w = x \<or> w \<in> set (scan r (?n - 1) (c # pre) cs)"
    proof -
      have "take ?n (c # cs) = x" unfolding n unfolding x(1) by simp
      then show ?thesis using 4(3) Cons by (auto simp: Let_def)
    qed
    then show ?thesis
    proof
      assume "w = x"
      then show ?thesis using m x by (intro exI [of _ "[]"] exI [of _ "snd q"]) (cases q, auto)
    next
      assume "w \<in> set (scan r (?n - 1) (c # pre) cs)"
      then show ?thesis using 4(2) [OF Cons refl] by (intro later) auto
    qed
  qed
qed auto

lemma findall_sound:
  "w \<in> set (findall r s) \<Longrightarrow>
     \<exists>u v. s = u @ w @ v \<and> matches r (rev u, w @ v) (rev w @ rev u, v)"
  using scan_sound [of w r 0 "[]" s] by (simp add: findall_def)

end
