(* ===== verification/Enums.thy ===== *)
theory Enums
  imports Prelude
begin

text \<open>
  The string enumerations of the source (\<open>StrEnum\<close> classes), each with its \<open>.value\<close> function and
  the list of its members in declaration order. \<open>E(v)\<close>, the lookup of a member by value that raises
  on an unknown value, is \<open>enum_of_value\<close>; the locale states what every enumeration owes it.
\<close>

section \<open>The interface of a string enumeration\<close>

definition enum_of_value :: "('e \<Rightarrow> string) \<Rightarrow> 'e list \<Rightarrow> string \<Rightarrow> 'e option" where
  "enum_of_value val members s = find (\<lambda>e. val e = s) members"

text \<open>The same lookup for a value that is text, as the decision compiler does with a priority.\<close>

definition enum_of_text :: "('e \<Rightarrow> string) \<Rightarrow> 'e list \<Rightarrow> ustr \<Rightarrow> 'e option" where
  "enum_of_text val members s = find (\<lambda>e. lit (val e) = s) members"

locale str_enum =
  fixes val :: "'e \<Rightarrow> string"
    and members :: "'e list"
  assumes members_all: "e \<in> set members"
    and values_distinct: "distinct (map val members)"
begin

lemma val_inj: "val a = val b \<longleftrightarrow> a = b"
  using values_distinct members_all by (auto simp: distinct_map dest: inj_onD)

lemma of_value_val: "enum_of_value val members (val e) = Some e"
proof -
  have "find (\<lambda>x. val x = val e) members \<noteq> None"
    using members_all by (auto simp: find_None_iff)
  then obtain x where x: "find (\<lambda>x. val x = val e) members = Some x" by blast
  then have "val x = val e" by (auto dest: find_Some_in)
  then have "x = e" by (simp add: val_inj)
  with x show ?thesis by (simp add: enum_of_value_def)
qed

lemma of_value_Some: "enum_of_value val members s = Some e \<longleftrightarrow> val e = s"
  using of_value_val by (auto simp: enum_of_value_def dest: find_Some_in)

lemma of_text_Some: "enum_of_text val members s = Some e \<longleftrightarrow> lit (val e) = s"
proof
  assume "lit (val e) = s"
  then have "enum_of_text val members s = enum_of_value val members (val e)"
    by (auto simp: enum_of_text_def enum_of_value_def)
  then show "enum_of_text val members s = Some e" by (simp add: of_value_val)
qed (auto simp: enum_of_text_def dest: find_Some_in)

end

section \<open>The enumerations\<close>

datatype order_status =
    OS_PENDING
  | OS_PROCESSING
  | OS_SHIPPED
  | OS_DELIVERED
  | OS_CANCELLED

fun order_status_value :: "order_status \<Rightarrow> string" where
  "order_status_value OS_PENDING = ''pending''"
| "order_status_value OS_PROCESSING = ''processing''"
| "order_status_value OS_SHIPPED = ''shipped''"
| "order_status_value OS_DELIVERED = ''delivered''"
| "order_status_value OS_CANCELLED = ''cancelled''"

definition all_order_statuses :: "order_status list" where
  "all_order_statuses = [OS_PENDING, OS_PROCESSING, OS_SHIPPED, OS_DELIVERED, OS_CANCELLED]"

datatype ticket_status =
    TS_OPEN
  | TS_IN_PROGRESS
  | TS_RESOLVED
  | TS_CLOSED

fun ticket_status_value :: "ticket_status \<Rightarrow> string" where
  "ticket_status_value TS_OPEN = ''open''"
| "ticket_status_value TS_IN_PROGRESS = ''in_progress''"
| "ticket_status_value TS_RESOLVED = ''resolved''"
| "ticket_status_value TS_CLOSED = ''closed''"

definition all_ticket_statuses :: "ticket_status list" where
  "all_ticket_statuses = [TS_OPEN, TS_IN_PROGRESS, TS_RESOLVED, TS_CLOSED]"

datatype refund_status =
    RS_REQUESTED
  | RS_APPROVED
  | RS_REJECTED
  | RS_PROCESSING
  | RS_COMPLETED

fun refund_status_value :: "refund_status \<Rightarrow> string" where
  "refund_status_value RS_REQUESTED = ''requested''"
| "refund_status_value RS_APPROVED = ''approved''"
| "refund_status_value RS_REJECTED = ''rejected''"
| "refund_status_value RS_PROCESSING = ''processing''"
| "refund_status_value RS_COMPLETED = ''completed''"

definition all_refund_statuses :: "refund_status list" where
  "all_refund_statuses = [RS_REQUESTED, RS_APPROVED, RS_REJECTED, RS_PROCESSING, RS_COMPLETED]"

datatype priority =
    EP_LOW
  | EP_MEDIUM
  | EP_HIGH
  | EP_URGENT

fun priority_value :: "priority \<Rightarrow> string" where
  "priority_value EP_LOW = ''low''"
| "priority_value EP_MEDIUM = ''medium''"
| "priority_value EP_HIGH = ''high''"
| "priority_value EP_URGENT = ''urgent''"

definition all_priorities :: "priority list" where
  "all_priorities = [EP_LOW, EP_MEDIUM, EP_HIGH, EP_URGENT]"

datatype escalation_status =
    ES_QUEUED
  | ES_ASSIGNED
  | ES_RESOLVED

fun escalation_status_value :: "escalation_status \<Rightarrow> string" where
  "escalation_status_value ES_QUEUED = ''queued''"
| "escalation_status_value ES_ASSIGNED = ''assigned''"
| "escalation_status_value ES_RESOLVED = ''resolved''"

definition all_escalation_statuses :: "escalation_status list" where
  "all_escalation_statuses = [ES_QUEUED, ES_ASSIGNED, ES_RESOLVED]"

datatype actor_type =
    AT_CUSTOMER
  | AT_SUPPORT_OPERATOR
  | AT_SERVICE

fun actor_type_value :: "actor_type \<Rightarrow> string" where
  "actor_type_value AT_CUSTOMER = ''customer''"
| "actor_type_value AT_SUPPORT_OPERATOR = ''support_operator''"
| "actor_type_value AT_SERVICE = ''service''"

definition all_actor_types :: "actor_type list" where
  "all_actor_types = [AT_CUSTOMER, AT_SUPPORT_OPERATOR, AT_SERVICE]"

datatype principal_type =
    PT_LOCAL_DEMO
  | PT_STATIC
  | PT_OIDC
  | PT_INTERNAL

fun principal_type_value :: "principal_type \<Rightarrow> string" where
  "principal_type_value PT_LOCAL_DEMO = ''local_demo''"
| "principal_type_value PT_STATIC = ''static''"
| "principal_type_value PT_OIDC = ''oidc''"
| "principal_type_value PT_INTERNAL = ''internal''"

definition all_principal_types :: "principal_type list" where
  "all_principal_types = [PT_LOCAL_DEMO, PT_STATIC, PT_OIDC, PT_INTERNAL]"

datatype intent =
    CUSTOMER_LOOKUP
  | ORDER_LOOKUP
  | ORDER_LIST
  | TICKET_LOOKUP
  | TICKET_LIST
  | TICKET_CREATE
  | ORDER_CANCEL
  | REFUND_REQUEST
  | HUMAN_ESCALATION
  | CAPABILITY_QUESTION
  | REFUND_POLICY
  | CANCELLATION_POLICY
  | SHIPPING_POLICY
  | SUPPORT_FAQ
  | REFUND_ELIGIBILITY
  | CANCELLATION_EXPLANATION
  | MEMORY_REMEMBER
  | MEMORY_FORGET
  | UNKNOWN

fun intent_value :: "intent \<Rightarrow> string" where
  "intent_value CUSTOMER_LOOKUP = ''customer_lookup''"
| "intent_value ORDER_LOOKUP = ''order_lookup''"
| "intent_value ORDER_LIST = ''order_list''"
| "intent_value TICKET_LOOKUP = ''ticket_lookup''"
| "intent_value TICKET_LIST = ''ticket_list''"
| "intent_value TICKET_CREATE = ''ticket_create''"
| "intent_value ORDER_CANCEL = ''order_cancel''"
| "intent_value REFUND_REQUEST = ''refund_request''"
| "intent_value HUMAN_ESCALATION = ''human_escalation''"
| "intent_value CAPABILITY_QUESTION = ''capability_question''"
| "intent_value REFUND_POLICY = ''refund_policy''"
| "intent_value CANCELLATION_POLICY = ''cancellation_policy''"
| "intent_value SHIPPING_POLICY = ''shipping_policy''"
| "intent_value SUPPORT_FAQ = ''support_faq''"
| "intent_value REFUND_ELIGIBILITY = ''refund_eligibility''"
| "intent_value CANCELLATION_EXPLANATION = ''cancellation_explanation''"
| "intent_value MEMORY_REMEMBER = ''memory_remember''"
| "intent_value MEMORY_FORGET = ''memory_forget''"
| "intent_value UNKNOWN = ''unknown''"

definition all_intents :: "intent list" where
  "all_intents = [CUSTOMER_LOOKUP, ORDER_LOOKUP, ORDER_LIST, TICKET_LOOKUP, TICKET_LIST,
     TICKET_CREATE, ORDER_CANCEL, REFUND_REQUEST, HUMAN_ESCALATION,
     CAPABILITY_QUESTION, REFUND_POLICY, CANCELLATION_POLICY, SHIPPING_POLICY,
     SUPPORT_FAQ, REFUND_ELIGIBILITY, CANCELLATION_EXPLANATION, MEMORY_REMEMBER,
     MEMORY_FORGET, UNKNOWN]"

datatype request_type =
    RT_INFORMATIONAL
  | RT_READ_ACTION
  | RT_WRITE_ACTION
  | RT_ESCALATION
  | RT_UNCLEAR
  | RT_KNOWLEDGE_ONLY
  | RT_ACTION_ONLY
  | RT_KNOWLEDGE_AND_ACTION
  | RT_MEMORY_ACTION

fun request_type_value :: "request_type \<Rightarrow> string" where
  "request_type_value RT_INFORMATIONAL = ''informational''"
| "request_type_value RT_READ_ACTION = ''read_action''"
| "request_type_value RT_WRITE_ACTION = ''write_action''"
| "request_type_value RT_ESCALATION = ''escalation''"
| "request_type_value RT_UNCLEAR = ''unclear''"
| "request_type_value RT_KNOWLEDGE_ONLY = ''knowledge_only''"
| "request_type_value RT_ACTION_ONLY = ''action_only''"
| "request_type_value RT_KNOWLEDGE_AND_ACTION = ''knowledge_and_action''"
| "request_type_value RT_MEMORY_ACTION = ''memory_action''"

definition all_request_types :: "request_type list" where
  "all_request_types = [RT_INFORMATIONAL, RT_READ_ACTION, RT_WRITE_ACTION, RT_ESCALATION, RT_UNCLEAR,
     RT_KNOWLEDGE_ONLY, RT_ACTION_ONLY, RT_KNOWLEDGE_AND_ACTION, RT_MEMORY_ACTION]"

datatype error_category =
    EC_RESOURCE_NOT_FOUND
  | EC_OWNERSHIP_VIOLATION
  | EC_INVALID_STATE
  | EC_DUPLICATE_ACTION
  | EC_INVALID_TOOL_ARGUMENTS
  | EC_UNKNOWN_TOOL
  | EC_LLM_ERROR
  | EC_TOOL_ERROR
  | EC_DEPENDENCY_ERROR
  | EC_INTERNAL_ERROR
  | EC_UNKNOWN_WRITE_OUTCOME
  | EC_POLICY_DENIED
  | EC_RETRIEVAL_ERROR
  | EC_RERANKER_ERROR
  | EC_CONFIRMATION_EXPIRED
  | EC_DEPENDENCY_FAILURE

fun error_category_value :: "error_category \<Rightarrow> string" where
  "error_category_value EC_RESOURCE_NOT_FOUND = ''resource_not_found''"
| "error_category_value EC_OWNERSHIP_VIOLATION = ''ownership_violation''"
| "error_category_value EC_INVALID_STATE = ''invalid_state''"
| "error_category_value EC_DUPLICATE_ACTION = ''duplicate_action''"
| "error_category_value EC_INVALID_TOOL_ARGUMENTS = ''invalid_tool_arguments''"
| "error_category_value EC_UNKNOWN_TOOL = ''unknown_tool''"
| "error_category_value EC_LLM_ERROR = ''llm_error''"
| "error_category_value EC_TOOL_ERROR = ''tool_error''"
| "error_category_value EC_DEPENDENCY_ERROR = ''dependency_error''"
| "error_category_value EC_INTERNAL_ERROR = ''internal_error''"
| "error_category_value EC_UNKNOWN_WRITE_OUTCOME = ''unknown_write_outcome''"
| "error_category_value EC_POLICY_DENIED = ''policy_denied''"
| "error_category_value EC_RETRIEVAL_ERROR = ''retrieval_error''"
| "error_category_value EC_RERANKER_ERROR = ''reranker_error''"
| "error_category_value EC_CONFIRMATION_EXPIRED = ''confirmation_expired''"
| "error_category_value EC_DEPENDENCY_FAILURE = ''dependency_failure''"

definition all_error_categories :: "error_category list" where
  "all_error_categories = [EC_RESOURCE_NOT_FOUND, EC_OWNERSHIP_VIOLATION, EC_INVALID_STATE,
     EC_DUPLICATE_ACTION, EC_INVALID_TOOL_ARGUMENTS, EC_UNKNOWN_TOOL, EC_LLM_ERROR,
     EC_TOOL_ERROR, EC_DEPENDENCY_ERROR, EC_INTERNAL_ERROR, EC_UNKNOWN_WRITE_OUTCOME,
     EC_POLICY_DENIED, EC_RETRIEVAL_ERROR, EC_RERANKER_ERROR, EC_CONFIRMATION_EXPIRED,
     EC_DEPENDENCY_FAILURE]"

datatype memory_type =
    MT_PREFERENCE
  | MT_SUPPORT_CONTEXT
  | MT_EXPLICIT_INSTRUCTION
  | MT_UNRESOLVED_ISSUE
  | MT_INTERACTION_SUMMARY

fun memory_type_value :: "memory_type \<Rightarrow> string" where
  "memory_type_value MT_PREFERENCE = ''preference''"
| "memory_type_value MT_SUPPORT_CONTEXT = ''support_context''"
| "memory_type_value MT_EXPLICIT_INSTRUCTION = ''explicit_instruction''"
| "memory_type_value MT_UNRESOLVED_ISSUE = ''unresolved_issue''"
| "memory_type_value MT_INTERACTION_SUMMARY = ''interaction_summary''"

definition all_memory_types :: "memory_type list" where
  "all_memory_types = [MT_PREFERENCE, MT_SUPPORT_CONTEXT, MT_EXPLICIT_INSTRUCTION, MT_UNRESOLVED_ISSUE,
     MT_INTERACTION_SUMMARY]"

datatype outcome =
    PO_ALLOW
  | PO_REQUIRE_CONFIRMATION
  | PO_REQUIRE_HUMAN
  | PO_DENY

fun outcome_value :: "outcome \<Rightarrow> string" where
  "outcome_value PO_ALLOW = ''allow''"
| "outcome_value PO_REQUIRE_CONFIRMATION = ''require_confirmation''"
| "outcome_value PO_REQUIRE_HUMAN = ''require_human''"
| "outcome_value PO_DENY = ''deny''"

definition all_outcomes :: "outcome list" where
  "all_outcomes = [PO_ALLOW, PO_REQUIRE_CONFIRMATION, PO_REQUIRE_HUMAN, PO_DENY]"

datatype action_status =
    PA_PENDING
  | PA_CONFIRMED
  | PA_REJECTED
  | PA_EXPIRED
  | PA_EXECUTED
  | PA_FAILED

fun action_status_value :: "action_status \<Rightarrow> string" where
  "action_status_value PA_PENDING = ''pending''"
| "action_status_value PA_CONFIRMED = ''confirmed''"
| "action_status_value PA_REJECTED = ''rejected''"
| "action_status_value PA_EXPIRED = ''expired''"
| "action_status_value PA_EXECUTED = ''executed''"
| "action_status_value PA_FAILED = ''failed''"

definition all_action_statuses :: "action_status list" where
  "all_action_statuses = [PA_PENDING, PA_CONFIRMED, PA_REJECTED, PA_EXPIRED, PA_EXECUTED, PA_FAILED]"

datatype failure_category =
    FC_LLM_TIMEOUT
  | FC_LLM_UNAVAILABLE
  | FC_LLM_MALFORMED_OUTPUT
  | FC_DATABASE_TRANSIENT
  | FC_DATABASE_UNAVAILABLE
  | FC_TOOL_TIMEOUT
  | FC_TOOL_TRANSIENT_FAILURE
  | FC_TOOL_PERMANENT_FAILURE
  | FC_RETRIEVAL_TIMEOUT
  | FC_RETRIEVAL_UNAVAILABLE
  | FC_RETRIEVAL_EMPTY
  | FC_RERANKER_FAILURE
  | FC_EMBEDDING_FAILURE
  | FC_POLICY_FAILURE
  | FC_MEMORY_FAILURE
  | FC_UNKNOWN_DEPENDENCY_FAILURE
  | FC_CIRCUIT_OPEN
  | FC_BULKHEAD_REJECTED
  | FC_RATE_LIMITED
  | FC_RETRY_BUDGET_EXHAUSTED

fun failure_category_value :: "failure_category \<Rightarrow> string" where
  "failure_category_value FC_LLM_TIMEOUT = ''llm_timeout''"
| "failure_category_value FC_LLM_UNAVAILABLE = ''llm_unavailable''"
| "failure_category_value FC_LLM_MALFORMED_OUTPUT = ''llm_malformed_output''"
| "failure_category_value FC_DATABASE_TRANSIENT = ''database_transient''"
| "failure_category_value FC_DATABASE_UNAVAILABLE = ''database_unavailable''"
| "failure_category_value FC_TOOL_TIMEOUT = ''tool_timeout''"
| "failure_category_value FC_TOOL_TRANSIENT_FAILURE = ''tool_transient_failure''"
| "failure_category_value FC_TOOL_PERMANENT_FAILURE = ''tool_permanent_failure''"
| "failure_category_value FC_RETRIEVAL_TIMEOUT = ''retrieval_timeout''"
| "failure_category_value FC_RETRIEVAL_UNAVAILABLE = ''retrieval_unavailable''"
| "failure_category_value FC_RETRIEVAL_EMPTY = ''retrieval_empty''"
| "failure_category_value FC_RERANKER_FAILURE = ''reranker_failure''"
| "failure_category_value FC_EMBEDDING_FAILURE = ''embedding_failure''"
| "failure_category_value FC_POLICY_FAILURE = ''policy_failure''"
| "failure_category_value FC_MEMORY_FAILURE = ''memory_failure''"
| "failure_category_value FC_UNKNOWN_DEPENDENCY_FAILURE = ''unknown_dependency_failure''"
| "failure_category_value FC_CIRCUIT_OPEN = ''circuit_open''"
| "failure_category_value FC_BULKHEAD_REJECTED = ''bulkhead_rejected''"
| "failure_category_value FC_RATE_LIMITED = ''rate_limited''"
| "failure_category_value FC_RETRY_BUDGET_EXHAUSTED = ''retry_budget_exhausted''"

definition all_failure_categories :: "failure_category list" where
  "all_failure_categories = [FC_LLM_TIMEOUT, FC_LLM_UNAVAILABLE, FC_LLM_MALFORMED_OUTPUT,
     FC_DATABASE_TRANSIENT, FC_DATABASE_UNAVAILABLE, FC_TOOL_TIMEOUT,
     FC_TOOL_TRANSIENT_FAILURE, FC_TOOL_PERMANENT_FAILURE, FC_RETRIEVAL_TIMEOUT,
     FC_RETRIEVAL_UNAVAILABLE, FC_RETRIEVAL_EMPTY, FC_RERANKER_FAILURE,
     FC_EMBEDDING_FAILURE, FC_POLICY_FAILURE, FC_MEMORY_FAILURE,
     FC_UNKNOWN_DEPENDENCY_FAILURE, FC_CIRCUIT_OPEN, FC_BULKHEAD_REJECTED,
     FC_RATE_LIMITED, FC_RETRY_BUDGET_EXHAUSTED]"

datatype failure_source =
    FS_LLM
  | FS_TOOL
  | FS_DEPENDENCY
  | FS_MEMORY
  | FS_POLICY
  | FS_AUDIT
  | FS_PROJECTION
  | FS_CHECKPOINT
  | FS_RUNTIME

fun failure_source_value :: "failure_source \<Rightarrow> string" where
  "failure_source_value FS_LLM = ''llm''"
| "failure_source_value FS_TOOL = ''tool''"
| "failure_source_value FS_DEPENDENCY = ''dependency''"
| "failure_source_value FS_MEMORY = ''memory''"
| "failure_source_value FS_POLICY = ''policy''"
| "failure_source_value FS_AUDIT = ''audit''"
| "failure_source_value FS_PROJECTION = ''projection''"
| "failure_source_value FS_CHECKPOINT = ''checkpoint''"
| "failure_source_value FS_RUNTIME = ''runtime''"

definition all_failure_sources :: "failure_source list" where
  "all_failure_sources = [FS_LLM, FS_TOOL, FS_DEPENDENCY, FS_MEMORY, FS_POLICY, FS_AUDIT, FS_PROJECTION,
     FS_CHECKPOINT, FS_RUNTIME]"

datatype circuit_state =
    CS_CLOSED
  | CS_OPEN
  | CS_HALF_OPEN

fun circuit_state_value :: "circuit_state \<Rightarrow> string" where
  "circuit_state_value CS_CLOSED = ''closed''"
| "circuit_state_value CS_OPEN = ''open''"
| "circuit_state_value CS_HALF_OPEN = ''half_open''"

definition all_circuit_states :: "circuit_state list" where
  "all_circuit_states = [CS_CLOSED, CS_OPEN, CS_HALF_OPEN]"

datatype compile_status =
    ST_COMPILED_ACTION
  | ST_CLARIFICATION_REQUIRED
  | ST_NO_ACTION
  | ST_COMPILE_REJECTED

fun compile_status_value :: "compile_status \<Rightarrow> string" where
  "compile_status_value ST_COMPILED_ACTION = ''compiled_action''"
| "compile_status_value ST_CLARIFICATION_REQUIRED = ''clarification_required''"
| "compile_status_value ST_NO_ACTION = ''no_action''"
| "compile_status_value ST_COMPILE_REJECTED = ''compile_rejected''"

definition all_compile_statuses :: "compile_status list" where
  "all_compile_statuses = [ST_COMPILED_ACTION, ST_CLARIFICATION_REQUIRED, ST_NO_ACTION, ST_COMPILE_REJECTED]"

datatype support_status =
    SS_NOT_APPLICABLE
  | SS_MISSING
  | SS_SUPPORTED
  | SS_UNSUPPORTED
  | SS_NOT_EVALUATED

fun support_status_value :: "support_status \<Rightarrow> string" where
  "support_status_value SS_NOT_APPLICABLE = ''NOT_APPLICABLE''"
| "support_status_value SS_MISSING = ''MISSING''"
| "support_status_value SS_SUPPORTED = ''SUPPORTED''"
| "support_status_value SS_UNSUPPORTED = ''UNSUPPORTED''"
| "support_status_value SS_NOT_EVALUATED = ''NOT_EVALUATED''"

definition all_support_statuses :: "support_status list" where
  "all_support_statuses = [SS_NOT_APPLICABLE, SS_MISSING, SS_SUPPORTED, SS_UNSUPPORTED, SS_NOT_EVALUATED]"

datatype clarification_cause =
    CC_MISSING_REFUND_REASON
  | CC_UNSUPPORTED_REFUND_REASON
  | CC_TARGET_REQUIRED
  | CC_CONTRADICTORY_ACTION
  | CC_OTHER

fun clarification_cause_value :: "clarification_cause \<Rightarrow> string" where
  "clarification_cause_value CC_MISSING_REFUND_REASON = ''MISSING_REFUND_REASON''"
| "clarification_cause_value CC_UNSUPPORTED_REFUND_REASON = ''UNSUPPORTED_REFUND_REASON''"
| "clarification_cause_value CC_TARGET_REQUIRED = ''TARGET_REQUIRED''"
| "clarification_cause_value CC_CONTRADICTORY_ACTION = ''CONTRADICTORY_ACTION''"
| "clarification_cause_value CC_OTHER = ''OTHER''"

definition all_clarification_causes :: "clarification_cause list" where
  "all_clarification_causes = [CC_MISSING_REFUND_REASON, CC_UNSUPPORTED_REFUND_REASON, CC_TARGET_REQUIRED,
     CC_CONTRADICTORY_ACTION, CC_OTHER]"

datatype grounding_status =
    GS_GROUNDED
  | GS_SYMBOLIC
  | GS_UNGROUNDED
  | GS_NOT_APPLICABLE
  | GS_INVALID

fun grounding_status_value :: "grounding_status \<Rightarrow> string" where
  "grounding_status_value GS_GROUNDED = ''grounded''"
| "grounding_status_value GS_SYMBOLIC = ''symbolic''"
| "grounding_status_value GS_UNGROUNDED = ''ungrounded''"
| "grounding_status_value GS_NOT_APPLICABLE = ''not_applicable''"
| "grounding_status_value GS_INVALID = ''invalid''"

definition all_grounding_statuses :: "grounding_status list" where
  "all_grounding_statuses = [GS_GROUNDED, GS_SYMBOLIC, GS_UNGROUNDED, GS_NOT_APPLICABLE, GS_INVALID]"

datatype admissibility =
    TA_ADMISSIBLE
  | TA_ADMISSIBLE_SYMBOLIC_READ
  | TA_REQUIRES_CLARIFICATION
  | TA_INVALID

fun admissibility_value :: "admissibility \<Rightarrow> string" where
  "admissibility_value TA_ADMISSIBLE = ''admissible''"
| "admissibility_value TA_ADMISSIBLE_SYMBOLIC_READ = ''admissible_symbolic_read''"
| "admissibility_value TA_REQUIRES_CLARIFICATION = ''requires_clarification''"
| "admissibility_value TA_INVALID = ''invalid''"

definition all_admissibilities :: "admissibility list" where
  "all_admissibilities = [TA_ADMISSIBLE, TA_ADMISSIBLE_SYMBOLIC_READ, TA_REQUIRES_CLARIFICATION,
     TA_INVALID]"

datatype operation_type =
    OP_READ
  | OP_WRITE

fun operation_type_value :: "operation_type \<Rightarrow> string" where
  "operation_type_value OP_READ = ''read''"
| "operation_type_value OP_WRITE = ''write''"

definition all_operation_types :: "operation_type list" where
  "all_operation_types = [OP_READ, OP_WRITE]"

section \<open>Every enumeration meets the interface\<close>

interpretation order_status_enum: str_enum order_status_value all_order_statuses
proof unfold_locales
  show "e \<in> set all_order_statuses" for e by (cases e) (simp_all add: all_order_statuses_def)
qed (simp add: all_order_statuses_def)

interpretation ticket_status_enum: str_enum ticket_status_value all_ticket_statuses
proof unfold_locales
  show "e \<in> set all_ticket_statuses" for e by (cases e) (simp_all add: all_ticket_statuses_def)
qed (simp add: all_ticket_statuses_def)

interpretation refund_status_enum: str_enum refund_status_value all_refund_statuses
proof unfold_locales
  show "e \<in> set all_refund_statuses" for e by (cases e) (simp_all add: all_refund_statuses_def)
qed (simp add: all_refund_statuses_def)

interpretation priority_enum: str_enum priority_value all_priorities
proof unfold_locales
  show "e \<in> set all_priorities" for e by (cases e) (simp_all add: all_priorities_def)
qed (simp add: all_priorities_def)

interpretation escalation_status_enum: str_enum escalation_status_value all_escalation_statuses
proof unfold_locales
  show "e \<in> set all_escalation_statuses" for e by (cases e) (simp_all add: all_escalation_statuses_def)
qed (simp add: all_escalation_statuses_def)

interpretation actor_type_enum: str_enum actor_type_value all_actor_types
proof unfold_locales
  show "e \<in> set all_actor_types" for e by (cases e) (simp_all add: all_actor_types_def)
qed (simp add: all_actor_types_def)

interpretation principal_type_enum: str_enum principal_type_value all_principal_types
proof unfold_locales
  show "e \<in> set all_principal_types" for e by (cases e) (simp_all add: all_principal_types_def)
qed (simp add: all_principal_types_def)

interpretation intent_enum: str_enum intent_value all_intents
proof unfold_locales
  show "e \<in> set all_intents" for e by (cases e) (simp_all add: all_intents_def)
qed (simp add: all_intents_def)

interpretation request_type_enum: str_enum request_type_value all_request_types
proof unfold_locales
  show "e \<in> set all_request_types" for e by (cases e) (simp_all add: all_request_types_def)
qed (simp add: all_request_types_def)

interpretation error_category_enum: str_enum error_category_value all_error_categories
proof unfold_locales
  show "e \<in> set all_error_categories" for e by (cases e) (simp_all add: all_error_categories_def)
qed (simp add: all_error_categories_def)

interpretation memory_type_enum: str_enum memory_type_value all_memory_types
proof unfold_locales
  show "e \<in> set all_memory_types" for e by (cases e) (simp_all add: all_memory_types_def)
qed (simp add: all_memory_types_def)

interpretation outcome_enum: str_enum outcome_value all_outcomes
proof unfold_locales
  show "e \<in> set all_outcomes" for e by (cases e) (simp_all add: all_outcomes_def)
qed (simp add: all_outcomes_def)

interpretation action_status_enum: str_enum action_status_value all_action_statuses
proof unfold_locales
  show "e \<in> set all_action_statuses" for e by (cases e) (simp_all add: all_action_statuses_def)
qed (simp add: all_action_statuses_def)

interpretation failure_category_enum: str_enum failure_category_value all_failure_categories
proof unfold_locales
  show "e \<in> set all_failure_categories" for e by (cases e) (simp_all add: all_failure_categories_def)
qed (simp add: all_failure_categories_def)

interpretation failure_source_enum: str_enum failure_source_value all_failure_sources
proof unfold_locales
  show "e \<in> set all_failure_sources" for e by (cases e) (simp_all add: all_failure_sources_def)
qed (simp add: all_failure_sources_def)

interpretation circuit_state_enum: str_enum circuit_state_value all_circuit_states
proof unfold_locales
  show "e \<in> set all_circuit_states" for e by (cases e) (simp_all add: all_circuit_states_def)
qed (simp add: all_circuit_states_def)

interpretation compile_status_enum: str_enum compile_status_value all_compile_statuses
proof unfold_locales
  show "e \<in> set all_compile_statuses" for e by (cases e) (simp_all add: all_compile_statuses_def)
qed (simp add: all_compile_statuses_def)

interpretation support_status_enum: str_enum support_status_value all_support_statuses
proof unfold_locales
  show "e \<in> set all_support_statuses" for e by (cases e) (simp_all add: all_support_statuses_def)
qed (simp add: all_support_statuses_def)

interpretation clarification_cause_enum: str_enum clarification_cause_value all_clarification_causes
proof unfold_locales
  show "e \<in> set all_clarification_causes" for e by (cases e) (simp_all add: all_clarification_causes_def)
qed (simp add: all_clarification_causes_def)

interpretation grounding_status_enum: str_enum grounding_status_value all_grounding_statuses
proof unfold_locales
  show "e \<in> set all_grounding_statuses" for e by (cases e) (simp_all add: all_grounding_statuses_def)
qed (simp add: all_grounding_statuses_def)

interpretation admissibility_enum: str_enum admissibility_value all_admissibilities
proof unfold_locales
  show "e \<in> set all_admissibilities" for e by (cases e) (simp_all add: all_admissibilities_def)
qed (simp add: all_admissibilities_def)

interpretation operation_type_enum: str_enum operation_type_value all_operation_types
proof unfold_locales
  show "e \<in> set all_operation_types" for e by (cases e) (simp_all add: all_operation_types_def)
qed (simp add: all_operation_types_def)

end
