(* ===== verification/Failures.thy ===== *)
theory Failures
  imports Complex_Main Enums
begin

text \<open>
  The exceptions the program handles and its two classifiers: \<open>classify_failure\<close>
  (resilience/classification.py), which decides what may be retried, and
  \<open>classify_runtime_error\<close> (agent/errors.py), which picks the category shown to the caller.
  \<open>isinstance\<close> tests follow the class hierarchy: every constructor names one concrete class, and
  the predicates say which classes are its ancestors. Times are rationals, in seconds.
\<close>

section \<open>Decimal text\<close>

fun dec_nat :: "nat \<Rightarrow> string" where
  "dec_nat n = (if n < 10 then [char_of (48 + n)] else dec_nat (n div 10) @ [char_of (48 + n mod 10)])"

declare dec_nat.simps [simp del]

definition dec :: "int \<Rightarrow> string" where
  "dec n = (if n < 0 then CHR ''-'' # dec_nat (nat (- n)) else dec_nat (nat n))"

section \<open>Exceptions\<close>

text \<open>A \<open>Retry-After\<close> header: absent, a number of seconds, a date, or neither.\<close>

datatype retry_after = RA_none | RA_seconds rat | RA_date rat | RA_bad

datatype exn =
    ResourceNotFoundError string int
  | OwnershipError string int int
  | InvalidStateTransitionError string
  | DuplicateActionError string
  | ToolValidationError string
  | ResilienceError failure_category
  | RetryExhaustedError failure_category nat
  | CircuitOpenError string
  | BulkheadRejectedError string
  | RateLimitExceededError string rat
  | RetryBudgetExhaustedError string
  | UnknownWriteOutcomeError string
  | AuditPersistenceError
  | PyTimeoutError
  | HttpxTimeoutException
  | HttpStatusError retry_after
  | PyConnectionError
  | OperationalError
  | IntegrityError
  | OtherDBAPIError bool             \<comment> \<open>\<open>connection_invalidated\<close>\<close>
  | PydanticValidationError
  | PyValueError
  | PyTypeError
  | OtherError

fun is_tool_error :: "exn \<Rightarrow> bool" where
  "is_tool_error (ResourceNotFoundError r i) = True"
| "is_tool_error (OwnershipError r i c) = True"
| "is_tool_error (InvalidStateTransitionError m) = True"
| "is_tool_error (DuplicateActionError m) = True"
| "is_tool_error (ToolValidationError m) = True"
| "is_tool_error _ = False"

text \<open>The \<open>category\<close> attribute of a \<open>ResilienceError\<close> and its subclasses.\<close>

fun resilience_category :: "exn \<Rightarrow> failure_category option" where
  "resilience_category (ResilienceError c) = Some c"
| "resilience_category (RetryExhaustedError c n) = Some c"
| "resilience_category (CircuitOpenError s) = Some FC_CIRCUIT_OPEN"
| "resilience_category (BulkheadRejectedError s) = Some FC_BULKHEAD_REJECTED"
| "resilience_category (RateLimitExceededError s r) = Some FC_RATE_LIMITED"
| "resilience_category (RetryBudgetExhaustedError s) = Some FC_RETRY_BUDGET_EXHAUSTED"
| "resilience_category (UnknownWriteOutcomeError t) = Some FC_TOOL_TIMEOUT"
| "resilience_category AuditPersistenceError = Some FC_UNKNOWN_DEPENDENCY_FAILURE"
| "resilience_category _ = None"

fun is_unknown_write :: "exn \<Rightarrow> bool" where
  "is_unknown_write (UnknownWriteOutcomeError t) = True"
| "is_unknown_write _ = False"

lemma is_unknown_write_iff: "is_unknown_write e \<longleftrightarrow> (\<exists>t. e = UnknownWriteOutcomeError t)"
  by (cases e) simp_all

fun is_timeout :: "exn \<Rightarrow> bool" where
  "is_timeout PyTimeoutError = True"
| "is_timeout HttpxTimeoutException = True"
| "is_timeout _ = False"

text \<open>\<open>OperationalError\<close> and \<open>IntegrityError\<close> are subclasses of \<open>DBAPIError\<close>.\<close>

fun is_dbapi :: "exn \<Rightarrow> bool" where
  "is_dbapi OperationalError = True"
| "is_dbapi IntegrityError = True"
| "is_dbapi (OtherDBAPIError b) = True"
| "is_dbapi _ = False"

text \<open>Pydantic's \<open>ValidationError\<close> is a \<open>ValueError\<close>.\<close>

fun is_value_error :: "exn \<Rightarrow> bool" where
  "is_value_error PyValueError = True"
| "is_value_error PydanticValidationError = True"
| "is_value_error _ = False"

definition is_value_or_type :: "exn \<Rightarrow> bool" where
  "is_value_or_type e \<longleftrightarrow> is_value_error e \<or> e = PyTypeError"

text \<open>\<open>str(error)\<close> of the tool errors, whose text reaches the conversation state.\<close>

fun exn_message :: "exn \<Rightarrow> string" where
  "exn_message (ResourceNotFoundError r i) = r @ '' '' @ dec i @ '' was not found''"
| "exn_message (OwnershipError r i c) =
     r @ '' '' @ dec i @ '' does not belong to customer '' @ dec c"
| "exn_message (InvalidStateTransitionError m) = m"
| "exn_message (DuplicateActionError m) = m"
| "exn_message (ToolValidationError m) = m"
| "exn_message _ = ''dependency failure''"

section \<open>Classification of dependency failures\<close>

definition classify_failure :: "exn \<Rightarrow> string \<Rightarrow> string \<Rightarrow> failure_category" where
  "classify_failure e dependency operation =
     (case resilience_category e of
        Some c \<Rightarrow> c
      | None \<Rightarrow>
          if is_timeout e then
            (if dependency = ''llm'' then FC_LLM_TIMEOUT
             else if dependency = ''retrieval'' then FC_RETRIEVAL_TIMEOUT
             else if dependency = ''tool'' then FC_TOOL_TIMEOUT
             else FC_UNKNOWN_DEPENDENCY_FAILURE)
          else if dependency = ''llm'' \<and> is_value_or_type e then FC_LLM_MALFORMED_OUTPUT
          else if dependency = ''tool'' \<and> is_value_or_type e then FC_TOOL_PERMANENT_FAILURE
          else if is_dbapi e then
            (if dependency = ''database'' then FC_DATABASE_UNAVAILABLE else FC_DATABASE_TRANSIENT)
          else if is_tool_error e then FC_TOOL_PERMANENT_FAILURE
          else if dependency = ''retrieval'' then FC_RETRIEVAL_UNAVAILABLE
          else if dependency = ''memory'' then FC_MEMORY_FAILURE
          else if dependency = ''policy'' then FC_POLICY_FAILURE
          else if dependency = ''llm'' then FC_LLM_UNAVAILABLE
          else if dependency = ''tool'' then
            (if operation = ''read'' then FC_TOOL_TRANSIENT_FAILURE else FC_TOOL_PERMANENT_FAILURE)
          else FC_UNKNOWN_DEPENDENCY_FAILURE)"

definition is_retryable :: "failure_category \<Rightarrow> string \<Rightarrow> bool" where
  "is_retryable c operation =
     (if operation = ''write'' then False
      else c \<in> {FC_LLM_TIMEOUT, FC_LLM_UNAVAILABLE, FC_DATABASE_TRANSIENT, FC_DATABASE_UNAVAILABLE,
                 FC_TOOL_TIMEOUT, FC_TOOL_TRANSIENT_FAILURE, FC_RETRIEVAL_TIMEOUT,
                 FC_RETRIEVAL_UNAVAILABLE, FC_EMBEDDING_FAILURE})"

lemma write_never_retryable [simp]: "is_retryable c ''write'' = False"
  by (simp add: is_retryable_def)

lemma tool_error_permanent: "is_tool_error e \<Longrightarrow> classify_failure e d op = FC_TOOL_PERMANENT_FAILURE"
  by (cases e) (simp_all add: classify_failure_def is_value_or_type_def)

lemma tool_error_not_retryable: "is_tool_error e \<Longrightarrow> \<not> is_retryable (classify_failure e d op) op'"
  by (simp add: tool_error_permanent is_retryable_def)

section \<open>Classification of runtime errors\<close>

record runtime_classification =
  rc_category :: error_category
  rc_failure :: "string option"

definition known_tool_category :: "exn \<Rightarrow> error_category option" where
  "known_tool_category e =
     (case e of
        ResourceNotFoundError r i \<Rightarrow> Some EC_RESOURCE_NOT_FOUND
      | OwnershipError r i c \<Rightarrow> Some EC_OWNERSHIP_VIOLATION
      | InvalidStateTransitionError m \<Rightarrow> Some EC_INVALID_STATE
      | DuplicateActionError m \<Rightarrow> Some EC_DUPLICATE_ACTION
      | _ \<Rightarrow> None)"

abbreviation rclass :: "error_category \<Rightarrow> string option \<Rightarrow> runtime_classification" where
  "rclass c f \<equiv> \<lparr>rc_category = c, rc_failure = f\<rparr>"

definition llm_or_dependency :: "failure_source \<Rightarrow> error_category" where
  "llm_or_dependency src = (if src = FS_LLM then EC_LLM_ERROR else EC_DEPENDENCY_ERROR)"

definition classify_runtime_error :: "exn \<Rightarrow> failure_source \<Rightarrow> runtime_classification" where
  "classify_runtime_error e src =
     (if is_unknown_write e then
        rclass EC_UNKNOWN_WRITE_OUTCOME (Some (failure_category_value FC_TOOL_TIMEOUT))
      else case resilience_category e of
        Some c \<Rightarrow> rclass (llm_or_dependency src) (Some (failure_category_value c))
      | None \<Rightarrow>
          if is_timeout e then
            rclass (llm_or_dependency src)
              (Some (failure_category_value (classify_failure e
                 (if src \<in> {FS_LLM, FS_TOOL} then failure_source_value src else ''database'')
                 ''write'')))
          else if is_dbapi e then
            rclass EC_DEPENDENCY_ERROR
              (Some (failure_category_value (classify_failure e ''database'' ''write'')))
          else if e = PyConnectionError then
            rclass (llm_or_dependency src)
              (Some (if src = FS_LLM then ''llm_unavailable'' else ''unknown_dependency_failure''))
          else if src = FS_LLM then rclass EC_LLM_ERROR (Some ''llm_unavailable'')
          else if src = FS_TOOL then
            (case known_tool_category e of
               Some c \<Rightarrow> rclass c None
             | None \<Rightarrow>
                 if is_tool_error e then rclass EC_TOOL_ERROR (Some ''tool_failure'')
                 else if is_value_error e then rclass EC_TOOL_ERROR (Some ''tool_failure'')
                 else rclass EC_INTERNAL_ERROR (Some ''internal_error''))
          else if src \<in> {FS_DEPENDENCY, FS_AUDIT, FS_PROJECTION, FS_CHECKPOINT} then
            rclass EC_DEPENDENCY_ERROR None
          else rclass EC_INTERNAL_ERROR (Some ''internal_error''))"

text \<open>The node helper \<open>error_category\<close> (nodes/common.py).\<close>

definition tool_error_category :: "exn \<Rightarrow> error_category" where
  "tool_error_category e = rc_category (classify_runtime_error e FS_TOOL)"

section \<open>Degraded answers\<close>

definition degraded_message :: "failure_category \<Rightarrow> bool \<Rightarrow> string" where
  "degraded_message c knowledge_only =
     (if c \<in> {FC_RETRIEVAL_TIMEOUT, FC_RETRIEVAL_UNAVAILABLE, FC_EMBEDDING_FAILURE,
               FC_RERANKER_FAILURE} then
        (if knowledge_only
         then ''I can't reliably retrieve the support knowledge right now, so I won't guess.''
         else ''I couldn't retrieve the policy knowledge right now, so I won't claim exact policy details.'')
      else if c = FC_MEMORY_FAILURE then
        ''I couldn't update persistent memory, but I can continue with this request.''
      else if c \<in> {FC_LLM_TIMEOUT, FC_LLM_UNAVAILABLE, FC_LLM_MALFORMED_OUTPUT} then
        ''I couldn't understand that request reliably. Please rephrase it.''
      else if c = FC_POLICY_FAILURE then
        ''I couldn't safely evaluate authorization for that operation, so I did not execute it.''
      else ''I couldn't complete that request safely. Please try again.'')"

text \<open>
  A tool failure is shown with the category of its class, whatever else is true of it, and a write
  of unknown outcome keeps its category for every source.
\<close>

lemma classify_tool_errors [simp]:
  "classify_runtime_error (ResourceNotFoundError r i) FS_TOOL = rclass EC_RESOURCE_NOT_FOUND None"
  "classify_runtime_error (OwnershipError r i c) FS_TOOL = rclass EC_OWNERSHIP_VIOLATION None"
  "classify_runtime_error (InvalidStateTransitionError m) FS_TOOL = rclass EC_INVALID_STATE None"
  "classify_runtime_error (DuplicateActionError m) FS_TOOL = rclass EC_DUPLICATE_ACTION None"
  by (simp_all add: classify_runtime_error_def known_tool_category_def)

lemma classify_unknown_write [simp]:
  "rc_category (classify_runtime_error (UnknownWriteOutcomeError t) src) = EC_UNKNOWN_WRITE_OUTCOME"
  by (simp add: classify_runtime_error_def)

lemma unknown_write_category_only:
  "rc_category (classify_runtime_error e src) = EC_UNKNOWN_WRITE_OUTCOME \<Longrightarrow>
     \<exists>t. e = UnknownWriteOutcomeError t"
  by (auto simp: classify_runtime_error_def is_unknown_write_iff llm_or_dependency_def known_tool_category_def
      split: option.splits if_splits exn.splits)

end
