(* ===== verification/Circuit.thy ===== *)
theory Circuit
  imports Failures
begin

text \<open>
  The reliability controller (resilience/control.py): circuit breakers, bulkheads, the retry budget
  and the request rate limits, all keyed by service identity. Every operation is a function of the
  configuration, the reading of the monotonic clock and the controller's state; an operation that
  may raise returns the exception together with the state it leaves behind. The controller's lock
  makes each operation atomic, so a concurrent run is an interleaving of these steps.
\<close>

section \<open>Configuration (resilience/config.py)\<close>

record resilience_config =
  enabled :: bool
  max_retries :: int
  initial_backoff_ms :: int
  max_backoff_ms :: int
  jitter_ratio :: rat
  retry_budget_attempts :: int
  retry_budget_window :: rat
  max_retry_after :: rat
  circuit_failure_threshold :: int
  circuit_recovery :: rat
  circuit_half_open_attempts :: int
  bulkhead_default_limit :: int
  bulkhead_provider_limit :: int
  principal_rate_limit :: int
  customer_rate_limit :: int
  provider_rate_limit :: int
  rate_limit_window :: rat
  llm_timeout :: rat
  retrieval_timeout :: rat

definition default_config :: resilience_config where
  "default_config = \<lparr>enabled = True, max_retries = 2, initial_backoff_ms = 100,
     max_backoff_ms = 500, jitter_ratio = 1/5, retry_budget_attempts = 100,
     retry_budget_window = 60, max_retry_after = 30, circuit_failure_threshold = 5,
     circuit_recovery = 30, circuit_half_open_attempts = 1, bulkhead_default_limit = 32,
     bulkhead_provider_limit = 8, principal_rate_limit = 600, customer_rate_limit = 600,
     provider_rate_limit = 600, rate_limit_window = 60, llm_timeout = 30,
     retrieval_timeout = 5\<rparr>"

section \<open>State\<close>

record circuit =
  c_state :: circuit_state
  failure_count :: int
  opened_at :: rat
  half_open_in_flight :: int
  recovery_attempts :: int

definition fresh_circuit :: circuit where
  "fresh_circuit = \<lparr>c_state = CS_CLOSED, failure_count = 0, opened_at = 0,
     half_open_in_flight = 0, recovery_attempts = 0\<rparr>"

text \<open>
  The \<open>defaultdict\<close>s are total functions; a bulkhead semaphore is its capacity and the number of
  permits left.
\<close>

record controller =
  circuits :: "string \<Rightarrow> circuit"
  bulkheads :: "string \<Rightarrow> (int \<times> int) option"
  retry_attempts :: "string \<Rightarrow> rat list"
  rate_events :: "string \<times> string \<Rightarrow> rat list"

definition fresh_controller :: controller where
  "fresh_controller = \<lparr>circuits = (\<lambda>_. fresh_circuit), bulkheads = (\<lambda>_. None),
     retry_attempts = (\<lambda>_. []), rate_events = (\<lambda>_. [])\<rparr>"

abbreviation set_circuit :: "string \<Rightarrow> circuit \<Rightarrow> controller \<Rightarrow> controller" where
  "set_circuit s c ctl \<equiv> ctl\<lparr>circuits := (circuits ctl)(s := c)\<rparr>"

section \<open>Circuit breaker\<close>

definition open_circuit :: "rat \<Rightarrow> circuit \<Rightarrow> circuit" where
  "open_circuit now c = c\<lparr>c_state := CS_OPEN, opened_at := now, half_open_in_flight := 0\<rparr>"

text \<open>The second half of \<open>before_call\<close>: a half-open circuit admits a bounded number of probes.\<close>

definition half_open_admit ::
  "resilience_config \<Rightarrow> string \<Rightarrow> circuit \<Rightarrow> controller \<Rightarrow> exn option \<times> controller" where
  "half_open_admit cfg s c ctl =
     (if c_state c = CS_HALF_OPEN then
        (if half_open_in_flight c \<ge> circuit_half_open_attempts cfg
         then (Some (CircuitOpenError s), set_circuit s c ctl)
         else (None, set_circuit s (c\<lparr>half_open_in_flight := half_open_in_flight c + 1,
                                      recovery_attempts := recovery_attempts c + 1\<rparr>) ctl))
      else (None, set_circuit s c ctl))"

definition before_call ::
  "resilience_config \<Rightarrow> rat \<Rightarrow> string \<Rightarrow> controller \<Rightarrow> exn option \<times> controller" where
  "before_call cfg now s ctl =
     (let c = circuits ctl s in
      if c_state c = CS_OPEN then
        (if now - opened_at c < circuit_recovery cfg then (Some (CircuitOpenError s), ctl)
         else half_open_admit cfg s (c\<lparr>c_state := CS_HALF_OPEN, half_open_in_flight := 0\<rparr>) ctl)
      else half_open_admit cfg s c ctl)"

definition record_success :: "string \<Rightarrow> controller \<Rightarrow> controller" where
  "record_success s ctl =
     set_circuit s ((circuits ctl s)\<lparr>c_state := CS_CLOSED, failure_count := 0,
                                      half_open_in_flight := 0\<rparr>) ctl"

definition cancel_call :: "string \<Rightarrow> controller \<Rightarrow> controller" where
  "cancel_call s ctl =
     (let c = circuits ctl s in
      if c_state c = CS_HALF_OPEN \<and> half_open_in_flight c > 0
      then set_circuit s (c\<lparr>half_open_in_flight := half_open_in_flight c - 1\<rparr>) ctl
      else ctl)"

definition record_failure :: "resilience_config \<Rightarrow> rat \<Rightarrow> string \<Rightarrow> controller \<Rightarrow> controller" where
  "record_failure cfg now s ctl =
     (let c = circuits ctl s in
      if c_state c = CS_HALF_OPEN then set_circuit s (open_circuit now c) ctl
      else
        let c' = c\<lparr>failure_count := failure_count c + 1\<rparr> in
        if failure_count c' \<ge> circuit_failure_threshold cfg
        then set_circuit s (open_circuit now c') ctl
        else set_circuit s c' ctl)"

definition circuit_state_of :: "string \<Rightarrow> controller \<Rightarrow> circuit_state" where
  "circuit_state_of s ctl = c_state (circuits ctl s)"

section \<open>Bulkhead\<close>

definition get_bulkhead ::
  "resilience_config \<Rightarrow> string \<Rightarrow> string \<Rightarrow> controller \<Rightarrow> (int \<times> int)" where
  "get_bulkhead cfg s dependency ctl =
     (case bulkheads ctl s of
        Some b \<Rightarrow> b
      | None \<Rightarrow>
          let capacity = (if dependency = ''llm'' then bulkhead_provider_limit cfg
                          else bulkhead_default_limit cfg)
          in (capacity, capacity))"

text \<open>Entering the context manager; the source's wait is zero by default, so it never blocks.\<close>

definition bulkhead_enter ::
  "resilience_config \<Rightarrow> string \<Rightarrow> string \<Rightarrow> controller \<Rightarrow> exn option \<times> controller" where
  "bulkhead_enter cfg s dependency ctl =
     (let (capacity, free) = get_bulkhead cfg s dependency ctl in
      if free \<le> 0
      then (Some (BulkheadRejectedError s), ctl\<lparr>bulkheads := (bulkheads ctl)(s \<mapsto> (capacity, free))\<rparr>)
      else (None, ctl\<lparr>bulkheads := (bulkheads ctl)(s \<mapsto> (capacity, free - 1))\<rparr>))"

definition bulkhead_exit :: "string \<Rightarrow> controller \<Rightarrow> controller" where
  "bulkhead_exit s ctl =
     (case bulkheads ctl s of
        None \<Rightarrow> ctl
      | Some (capacity, free) \<Rightarrow> ctl\<lparr>bulkheads := (bulkheads ctl)(s \<mapsto> (capacity, free + 1))\<rparr>)"

section \<open>Sliding windows: retry budget and rate limits\<close>

text \<open>\<open>_expire\<close>: events at or before the cutoff leave from the front.\<close>

fun expire :: "rat list \<Rightarrow> rat \<Rightarrow> rat list" where
  "expire [] cutoff = []"
| "expire (t # ts) cutoff = (if t \<le> cutoff then expire ts cutoff else t # ts)"

definition consume_retry_budget ::
  "resilience_config \<Rightarrow> rat \<Rightarrow> string \<Rightarrow> controller \<Rightarrow> bool \<times> controller" where
  "consume_retry_budget cfg now s ctl =
     (let events = expire (retry_attempts ctl s) (now - retry_budget_window cfg) in
      if int (length events) \<ge> retry_budget_attempts cfg
      then (False, ctl\<lparr>retry_attempts := (retry_attempts ctl)(s := events)\<rparr>)
      else (True, ctl\<lparr>retry_attempts := (retry_attempts ctl)(s := events @ [now])\<rparr>))"

text \<open>
  \<open>_consume_rate_limit\<close>. The key is hashed by \<open>_bounded_identity\<close> (a truncated SHA-256), the
  parameter \<open>dg\<close>. With a limit of zero and no event the source reads \<open>events[0]\<close> of an empty deque.
\<close>

definition consume_rate_limit ::
  "(string \<Rightarrow> string) \<Rightarrow> resilience_config \<Rightarrow> rat \<Rightarrow> string \<Rightarrow> string \<Rightarrow> int \<Rightarrow> controller \<Rightarrow>
     exn option \<times> controller" where
  "consume_rate_limit dg cfg now scope raw_key limit ctl =
     (let key = (scope, dg raw_key);
          events = expire (rate_events ctl key) (now - rate_limit_window cfg);
          ctl' = ctl\<lparr>rate_events := (rate_events ctl)(key := events)\<rparr> in
      if int (length events) \<ge> limit
      then (case events of
              [] \<Rightarrow> (Some OtherError, ctl')
            | t # _ \<Rightarrow> (Some (RateLimitExceededError scope
                               (max 0 (rate_limit_window cfg - (now - t)))), ctl'))
      else (None, ctl\<lparr>rate_events := (rate_events ctl)(key := events @ [now])\<rparr>))"

definition rollback_rate_limit ::
  "(string \<Rightarrow> string) \<Rightarrow> string \<Rightarrow> string \<Rightarrow> controller \<Rightarrow> controller" where
  "rollback_rate_limit dg scope raw_key ctl =
     (let key = (scope, dg raw_key) in
      ctl\<lparr>rate_events := (rate_events ctl)(key := butlast (rate_events ctl key))\<rparr>)"

fun is_rate_limited :: "exn \<Rightarrow> bool" where
  "is_rate_limited (RateLimitExceededError s r) = True"
| "is_rate_limited _ = False"

definition enforce_request_limits ::
  "(string \<Rightarrow> string) \<Rightarrow> resilience_config \<Rightarrow> rat \<Rightarrow> rat \<Rightarrow> string \<Rightarrow> int \<Rightarrow> controller \<Rightarrow>
     exn option \<times> controller" where
  "enforce_request_limits dg cfg now1 now2 actor customer ctl =
     (case consume_rate_limit dg cfg now1 ''principal'' actor (principal_rate_limit cfg) ctl of
        (Some e, ctl1) \<Rightarrow> (Some e, ctl1)
      | (None, ctl1) \<Rightarrow>
          (case consume_rate_limit dg cfg now2 ''customer'' (dec customer)
                  (customer_rate_limit cfg) ctl1 of
             (None, ctl2) \<Rightarrow> (None, ctl2)
           | (Some e, ctl2) \<Rightarrow>
               if is_rate_limited e
               then (Some e, rollback_rate_limit dg ''principal'' actor ctl2)
               else (Some e, ctl2)))"

definition enforce_provider_limit ::
  "(string \<Rightarrow> string) \<Rightarrow> resilience_config \<Rightarrow> rat \<Rightarrow> string \<Rightarrow> controller \<Rightarrow>
     exn option \<times> controller" where
  "enforce_provider_limit dg cfg now identity ctl =
     consume_rate_limit dg cfg now ''provider'' identity (provider_rate_limit cfg) ctl"

end
