(* ===== verification/Circuit_Safety.thy ===== *)
theory Circuit_Safety
  imports Circuit_Laws
begin

text \<open>
  The controller as a state machine: its steps, the states they reach, the invariant of breakers,
  bulkheads and windows, and the properties of the controller that the rest of the program uses.
\<close>

section \<open>Steps\<close>

text \<open>The bounds that the settings validators enforce on the configuration.\<close>

definition config_ok :: "resilience_config \<Rightarrow> bool" where
  "config_ok cfg \<longleftrightarrow> 1 \<le> circuit_failure_threshold cfg \<and> 1 \<le> circuit_half_open_attempts cfg \<and>
     0 \<le> bulkhead_default_limit cfg \<and> 0 \<le> bulkhead_provider_limit cfg \<and>
     0 \<le> retry_budget_attempts cfg"

text \<open>
  One atomic operation by any thread, at any reading of the clock. A bulkhead is left only by a
  caller that entered it, so a permit is missing then.
\<close>

inductive ctl_step :: "(string \<Rightarrow> string) \<Rightarrow> resilience_config \<Rightarrow> controller \<Rightarrow> controller \<Rightarrow> bool"
  for dg cfg where
  step_before: "ctl_step dg cfg ctl (snd (before_call cfg now s ctl))"
| step_success: "ctl_step dg cfg ctl (record_success s ctl)"
| step_cancel: "ctl_step dg cfg ctl (cancel_call s ctl)"
| step_failure: "ctl_step dg cfg ctl (record_failure cfg now s ctl)"
| step_enter: "ctl_step dg cfg ctl (snd (bulkhead_enter cfg s dep ctl))"
| step_exit: "bulkheads ctl s = Some (cap, free) \<Longrightarrow> free < cap \<Longrightarrow>
     ctl_step dg cfg ctl (bulkhead_exit s ctl)"
| step_retry: "ctl_step dg cfg ctl (snd (consume_retry_budget cfg now s ctl))"
| step_rate: "ctl_step dg cfg ctl (snd (consume_rate_limit dg cfg now scope key limit ctl))"
| step_rollback: "ctl_step dg cfg ctl (rollback_rate_limit dg scope key ctl)"

inductive ctl_reachable :: "(string \<Rightarrow> string) \<Rightarrow> resilience_config \<Rightarrow> controller \<Rightarrow> bool"
  for dg cfg where
  start: "ctl_reachable dg cfg fresh_controller"
| more: "ctl_reachable dg cfg ctl \<Longrightarrow> ctl_step dg cfg ctl ctl' \<Longrightarrow> ctl_reachable dg cfg ctl'"

section \<open>Invariant\<close>

definition circuit_ok :: "resilience_config \<Rightarrow> circuit \<Rightarrow> bool" where
  "circuit_ok cfg c \<longleftrightarrow>
     0 \<le> half_open_in_flight c \<and> half_open_in_flight c \<le> circuit_half_open_attempts cfg \<and>
     0 \<le> failure_count c \<and>
     (c_state c \<noteq> CS_HALF_OPEN \<longrightarrow> half_open_in_flight c = 0) \<and>
     (c_state c = CS_CLOSED \<longrightarrow> failure_count c < circuit_failure_threshold cfg)"

definition bulkhead_ok :: "(int \<times> int) option \<Rightarrow> bool" where
  "bulkhead_ok b = (case b of None \<Rightarrow> True | Some (cap, free) \<Rightarrow> 0 \<le> free \<and> free \<le> cap)"

definition ctl_ok :: "resilience_config \<Rightarrow> controller \<Rightarrow> bool" where
  "ctl_ok cfg ctl \<longleftrightarrow> (\<forall>s. circuit_ok cfg (circuits ctl s)) \<and> (\<forall>s. bulkhead_ok (bulkheads ctl s)) \<and>
     (\<forall>s. int (length (retry_attempts ctl s)) \<le> retry_budget_attempts cfg)"

lemmas circuit_defs = before_call_def half_open_admit_def record_success_def cancel_call_def
  record_failure_def open_circuit_def bulkhead_enter_def bulkhead_exit_def get_bulkhead_def
  consume_retry_budget_def consume_rate_limit_def rollback_rate_limit_def Let_def

lemma length_expire: "length (expire ts c) \<le> length ts"
  by (induction ts) auto

lemma circuit_ok_step:
  assumes "ctl_step dg cfg ctl ctl'" and "config_ok cfg" and "\<And>s. circuit_ok cfg (circuits ctl s)"
  shows "circuit_ok cfg (circuits ctl' x)"
  using assms
proof (induction rule: ctl_step.induct)
  case (step_before ctl now s)
  from step_before(1) step_before(2) [of s] step_before(2) [of x] show ?case
    by (auto simp: before_call_def half_open_admit_def Let_def circuit_ok_def config_ok_def)
next
  case (step_success ctl s)
  from step_success(1) step_success(2) [of s] step_success(2) [of x] show ?case
    by (auto simp: record_success_def circuit_ok_def config_ok_def)
next
  case (step_cancel ctl s)
  from step_cancel(2) [of s] step_cancel(2) [of x] show ?case
    by (auto simp: cancel_call_def circuit_ok_def Let_def)
next
  case (step_failure ctl now s)
  from step_failure(1) step_failure(2) [of s] step_failure(2) [of x] show ?case
    by (auto simp: record_failure_def open_circuit_def circuit_ok_def config_ok_def Let_def)
qed (auto simp: bulkhead_enter_def bulkhead_exit_def consume_retry_budget_def
    consume_rate_limit_def rollback_rate_limit_def Let_def split: list.splits prod.splits)

lemma bulkhead_ok_step:
  assumes "ctl_step dg cfg ctl ctl'" and "config_ok cfg" and "\<And>s. bulkhead_ok (bulkheads ctl s)"
  shows "bulkhead_ok (bulkheads ctl' x)"
  using assms
proof (induction rule: ctl_step.induct)
  case (step_enter ctl s dep)
  from step_enter(1) step_enter(2) [of s] step_enter(2) [of x] show ?case
    by (auto simp: bulkhead_enter_def get_bulkhead_def bulkhead_ok_def config_ok_def Let_def
        split: option.splits prod.splits)
next
  case (step_exit ctl s cap free)
  from step_exit(1,2) step_exit(4) [of s] step_exit(4) [of x] show ?case
    by (auto simp: bulkhead_exit_def bulkhead_ok_def)
qed (auto simp: before_call_def half_open_admit_def record_success_def cancel_call_def
    record_failure_def consume_retry_budget_def consume_rate_limit_def rollback_rate_limit_def
    Let_def split: list.splits)

lemma retry_ok_step:
  assumes "ctl_step dg cfg ctl ctl'"
    and "\<forall>s. int (length (retry_attempts ctl s)) \<le> retry_budget_attempts cfg"
  shows "\<forall>s. int (length (retry_attempts ctl' s)) \<le> retry_budget_attempts cfg"
  using assms
proof (induction rule: ctl_step.induct)
  case (step_retry ctl now s)
  have "int (length (expire (retry_attempts ctl s) c)) \<le> retry_budget_attempts cfg" for c
    using step_retry length_expire [of "retry_attempts ctl s" c] by (meson of_nat_mono order_trans)
  with step_retry show ?case
    by (auto simp: consume_retry_budget_def Let_def not_le)
qed (auto simp: before_call_def half_open_admit_def record_success_def cancel_call_def
    record_failure_def bulkhead_enter_def bulkhead_exit_def consume_rate_limit_def
    rollback_rate_limit_def Let_def split: list.splits prod.splits option.splits)

lemma ctl_ok_step: "ctl_step dg cfg ctl ctl' \<Longrightarrow> config_ok cfg \<Longrightarrow> ctl_ok cfg ctl \<Longrightarrow> ctl_ok cfg ctl'"
  unfolding ctl_ok_def using circuit_ok_step bulkhead_ok_step retry_ok_step by blast

lemma ctl_ok_fresh: "config_ok cfg \<Longrightarrow> ctl_ok cfg fresh_controller"
  by (simp add: ctl_ok_def fresh_controller_def circuit_ok_def fresh_circuit_def bulkhead_ok_def
      config_ok_def)

section \<open>Properties\<close>

text \<open>C1. In every state the controller can reach by any interleaving of its operations, every
  breaker has between zero and its limit of half-open probes in flight (none unless it is half
  open), a closed breaker has fewer failures than its threshold, no bulkhead hands out more permits
  than it has, and the retry window of a service holds no more retries than the budget.\<close>

theorem reachable_controller_ok:
  assumes "ctl_reachable dg cfg ctl" and "config_ok cfg"
  shows "ctl_ok cfg ctl"
  using assms by (induction rule: ctl_reachable.induct) (auto intro: ctl_ok_fresh ctl_ok_step)

theorem reachable_controller_ok_witness:
  "ctl_ok default_config (record_failure default_config 7 ''tool:get_order'' fresh_controller)"
proof -
  have "config_ok default_config" by (simp add: config_ok_def default_config_def)
  moreover have "ctl_reachable id default_config
      (record_failure default_config 7 ''tool:get_order'' fresh_controller)"
    by (rule ctl_reachable.more [OF ctl_reachable.start ctl_step.step_failure])
  ultimately show ?thesis by (intro reachable_controller_ok)
qed

text \<open>C2. Retry storms are bounded: whatever the outcome of the calls, the retries the budget
  admits for a service within any window of its length never exceed the configured number.\<close>

theorem retry_budget_window_bound:
  assumes "sorted ts" and "retry_attempts ctl s = []" and "0 \<le> retry_budget_attempts cfg"
  shows "int (in_window (retry_budget_window cfg) t (admitted (ask_retry cfg s) ts ctl))
           \<le> retry_budget_attempts cfg"
  using assms by (rule retry_window.admitted_bound)

theorem retry_budget_window_bound_witness:
  "int (in_window 60 9 (admitted (ask_retry default_config ''llm:p'') [1, 2, 9] fresh_controller))
     \<le> 100"
  using retry_budget_window_bound [of "[1, 2, 9]" fresh_controller "''llm:p''" default_config 9]
  by (simp add: fresh_controller_def default_config_def)

text \<open>A rate limit is a true sliding window: the requests it admits for one principal,
  customer or provider within any window never exceed the limit.\<close>

theorem rate_limit_window_bound:
  assumes "sorted ts" and "rate_events ctl (scope, dg key) = []" and "0 \<le> limit"
  shows "int (in_window (rate_limit_window cfg) t
           (admitted (ask_rate dg cfg scope key limit) ts ctl)) \<le> limit"
  using assms by (rule rate_window.admitted_bound)

theorem rate_limit_window_bound_witness:
  "int (in_window 60 9
     (admitted (ask_rate id default_config ''principal'' ''a'' 2) [1, 2, 9] fresh_controller)) \<le> 2"
  using rate_limit_window_bound
    [of "[1, 2, 9]" fresh_controller "''principal''" id "''a''" 2 default_config 9]
  by (simp add: fresh_controller_def default_config_def)

text \<open>A request refused by the customer limit is not charged to the principal: the principal's
  window is left as if the request had never been counted.\<close>

theorem refused_request_not_charged:
  assumes "enforce_request_limits dg cfg now1 now2 actor customer ctl
             = (Some (RateLimitExceededError ''customer'' r), ctl')"
  shows "rate_events ctl' (''principal'', dg actor) =
           expire (rate_events ctl (''principal'', dg actor)) (now1 - rate_limit_window cfg)"
  using assms
  by (auto simp: enforce_request_limits_def consume_rate_limit_def rollback_rate_limit_def Let_def
      split: list.splits if_splits prod.splits option.splits)

theorem refused_request_not_charged_witness:
  "rate_events (snd (enforce_request_limits id (default_config\<lparr>customer_rate_limit := 1\<rparr>) 5 5
      ''op'' 7 (fresh_controller\<lparr>rate_events := (\<lambda>k. if k = (''customer'', ''7'') then [1] else [])\<rparr>)))
     (''principal'', ''op'') = []"
proof -
  let ?cfg = "default_config\<lparr>customer_rate_limit := 1\<rparr>"
  let ?ctl = "fresh_controller\<lparr>rate_events := (\<lambda>k. if k = (''customer'', ''7'') then [1] else [])\<rparr>"
  have d: "dec 7 = ''7''" by (simp add: dec_def dec_nat.simps) code_simp
  obtain ctl' where "enforce_request_limits id ?cfg 5 5 ''op'' 7 ?ctl
      = (Some (RateLimitExceededError ''customer'' 56), ctl')"
    by (simp add: enforce_request_limits_def consume_rate_limit_def Let_def d default_config_def
        max_def)
  then show ?thesis
    using refused_request_not_charged [of id ?cfg 5 5 "''op''" 7 ?ctl 56 ctl'] by simp
qed

text \<open>A half-open breaker with \<open>k\<close> probes in flight admits only the rest of its quota.\<close>

definition ask_circuit :: "resilience_config \<Rightarrow> string \<Rightarrow> rat \<Rightarrow> controller \<Rightarrow> bool \<times> controller" where
  "ask_circuit cfg s now ctl = (let (e, ctl') = before_call cfg now s ctl in (e = None, ctl'))"

lemma half_open_probes:
  assumes "c_state (circuits ctl s) = CS_HALF_OPEN"
    and "half_open_in_flight (circuits ctl s) \<le> circuit_half_open_attempts cfg"
  shows "int (length (admitted (ask_circuit cfg s) ts ctl)) =
           min (int (length ts))
             (circuit_half_open_attempts cfg - half_open_in_flight (circuits ctl s))"
  using assms
proof (induction ts arbitrary: ctl)
  case (Cons t ts)
  let ?c = "circuits ctl s"
  show ?case
  proof (cases "half_open_in_flight ?c \<ge> circuit_half_open_attempts cfg")
    case True
    then have "ask_circuit cfg s t ctl = (False, ctl)"
      using Cons.prems by (simp add: ask_circuit_def before_call_def half_open_admit_def Let_def)
    then show ?thesis using Cons.IH [OF Cons.prems] True Cons.prems by simp
  next
    case False
    define ctl' where "ctl' = set_circuit s (?c\<lparr>half_open_in_flight := half_open_in_flight ?c + 1,
      recovery_attempts := recovery_attempts ?c + 1\<rparr>) ctl"
    have "ask_circuit cfg s t ctl = (True, ctl')"
      using Cons.prems False
      by (simp add: ask_circuit_def before_call_def half_open_admit_def ctl'_def Let_def)
    moreover have "int (length (admitted (ask_circuit cfg s) ts ctl')) =
        min (int (length ts)) (circuit_half_open_attempts cfg - (half_open_in_flight ?c + 1))"
      using Cons.IH [of ctl'] Cons.prems False by (simp add: ctl'_def)
    ultimately show ?thesis using False by simp
  qed
qed simp

text \<open>C3. An open breaker refuses every call before its recovery time; after it, as long as no
  probe has reported, it admits exactly its quota of half-open probes, however many calls come.\<close>

theorem open_circuit_probe_quota:
  assumes "c_state (circuits ctl s) = CS_OPEN" and "0 \<le> circuit_half_open_attempts cfg"
  shows "int (length (admitted (ask_circuit cfg s)
            (map (\<lambda>d. opened_at (circuits ctl s) + d) ds) ctl)) =
           (if \<forall>d \<in> set ds. d < circuit_recovery cfg then 0
            else min (int (length (dropWhile (\<lambda>d. d < circuit_recovery cfg) ds)))
                   (circuit_half_open_attempts cfg))"
  using assms
proof (induction ds)
  case (Cons d ds)
  let ?c = "circuits ctl s"
  show ?case
  proof (cases "d < circuit_recovery cfg")
    case True
    then have "ask_circuit cfg s (opened_at ?c + d) ctl = (False, ctl)"
      using Cons.prems by (simp add: ask_circuit_def before_call_def Let_def)
    then show ?thesis using Cons True by simp
  next
    case False
    define ctl0 where "ctl0 = set_circuit s
      (?c\<lparr>c_state := CS_HALF_OPEN, half_open_in_flight := 0\<rparr>) ctl"
    have same: "ask_circuit cfg s (opened_at ?c + d) ctl = ask_circuit cfg s t ctl0" for t
      using Cons.prems False
      by (simp add: ask_circuit_def before_call_def half_open_admit_def ctl0_def Let_def)
    have "admitted (ask_circuit cfg s) (map (\<lambda>d. opened_at ?c + d) (d # ds)) ctl =
        admitted (ask_circuit cfg s) (map (\<lambda>d. opened_at ?c + d) (d # ds)) ctl0"
      by (simp add: same [of "opened_at ?c + d"])
    moreover have "int (length (admitted (ask_circuit cfg s) ts ctl0)) =
        min (int (length ts)) (circuit_half_open_attempts cfg)" for ts
      using half_open_probes [of ctl0 s cfg] Cons.prems by (simp add: ctl0_def)
    ultimately have quota: "int (length (admitted (ask_circuit cfg s)
        (map (\<lambda>d. opened_at ?c + d) (d # ds)) ctl)) =
        min (int (length (d # ds))) (circuit_half_open_attempts cfg)"
      by (simp only: length_map)
    then show ?thesis by (subst quota) (use False in simp)
  qed
qed simp

theorem open_circuit_probe_quota_witness:
  "int (length (admitted (ask_circuit default_config ''s'')
      (map (\<lambda>d. 0 + d) [1, 29, 30, 31, 32])
      (fresh_controller\<lparr>circuits := (\<lambda>_. fresh_circuit\<lparr>c_state := CS_OPEN\<rparr>)\<rparr>))) = 1"
  using open_circuit_probe_quota
    [of "fresh_controller\<lparr>circuits := (\<lambda>_. fresh_circuit\<lparr>c_state := CS_OPEN\<rparr>)\<rparr>" "''s''"
        default_config "[1, 29, 30, 31, 32]"]
  by (simp add: default_config_def fresh_circuit_def)

end
