(* ===== verification/Retry.thy ===== *)
theory Retry
  imports Circuit
begin

text \<open>
  \<open>run_with_retry\<close> (resilience/retry.py). The call is a record: what is called, under which name and
  policy, and the run-time services it reads (clocks, random source, sleeper). These services act
  on an environment of their own type \<open>'e\<close>; the operation acts on a world \<open>'w\<close> and either returns or
  raises. The result carries the number of times the operation was started, the local variable
  \<open>attempts_started\<close> of the source.
\<close>

record ('e, 'w, 'a) call =
  operation :: "'w \<Rightarrow> (exn + 'a) \<times> 'w"
  dependency :: string
  operation_type :: string
  service_identity :: string
  provider_rate_limited :: bool
  timeout_seconds :: "rat option"
  deadline :: "rat option"
  policy :: resilience_config
  identity_digest :: "string \<Rightarrow> string"
  clock :: "'e \<Rightarrow> rat \<times> 'e"
  control_clock :: "'e \<Rightarrow> rat \<times> 'e"
  wall_clock :: "'e \<Rightarrow> rat \<times> 'e"
  random_source :: "'e \<Rightarrow> rat \<times> 'e"
  sleeper :: "rat \<Rightarrow> 'e \<Rightarrow> 'e"

text \<open>The controller (absent when none is passed), the environment and the world.\<close>

type_synonym ('e, 'w) rstate = "controller option \<times> 'e \<times> 'w"

section \<open>Deadline and delay\<close>

definition backoff_ms :: "resilience_config \<Rightarrow> nat \<Rightarrow> int" where
  "backoff_ms cfg attempt = min (initial_backoff_ms cfg * 2 ^ (attempt - 1)) (max_backoff_ms cfg)"

definition sequence_deadline ::
  "rat \<Rightarrow> rat option \<Rightarrow> nat \<Rightarrow> resilience_config \<Rightarrow> rat option" where
  "sequence_deadline started timeout attempts_allowed cfg =
     (case timeout of
        None \<Rightarrow> None
      | Some t \<Rightarrow>
          Some (started + t * of_nat attempts_allowed
                + of_int (sum_list (map (backoff_ms cfg) [1..<attempts_allowed])) / 1000))"

text \<open>\<open>_retry_after_seconds\<close>: the header of an HTTP error, else the error's own attribute.\<close>

definition retry_after_seconds :: "exn \<Rightarrow> rat \<Rightarrow> rat option" where
  "retry_after_seconds e now =
     (case e of
        HttpStatusError (RA_seconds v) \<Rightarrow> Some (max 0 v)
      | HttpStatusError (RA_date d) \<Rightarrow> Some (max 0 (d - now))
      | RateLimitExceededError s v \<Rightarrow> (if v \<ge> 0 then Some v else None)
      | _ \<Rightarrow> None)"

definition retry_delay :: "exn \<Rightarrow> nat \<Rightarrow> resilience_config \<Rightarrow> rat \<Rightarrow> rat \<Rightarrow> rat" where
  "retry_delay e attempt cfg sample now =
     (let base = of_int (backoff_ms cfg attempt) / 1000;
          jitter_sample = min 1 (max 0 sample);
          jitter_factor = 1 + jitter_ratio cfg * (2 * jitter_sample - 1);
          jittered = max 0 (base * jitter_factor) in
      case retry_after_seconds e now of
        None \<Rightarrow> jittered
      | Some ra \<Rightarrow> max jittered (min ra (max_retry_after cfg)))"

section \<open>One attempt\<close>

text \<open>
  The body of the \<open>try\<close> block: the outcome, whether the operation was started, and the state. The
  bulkhead is a context manager, so it is left however the block ends.
\<close>

definition run_operation ::
  "('e, 'w, 'a) call \<Rightarrow> controller \<Rightarrow> 'e \<Rightarrow> 'w \<Rightarrow> (exn + 'a) \<times> bool \<times> ('e, 'w) rstate" where
  "run_operation c ctl e w =
     (let (r, w') = operation c w; ctl' = bulkhead_exit (service_identity c) ctl in
      case r of
        Inl x \<Rightarrow> (Inl x, True, (Some ctl', e, w'))
      | Inr a \<Rightarrow> (Inr a, True, (Some (record_success (service_identity c) ctl'), e, w')))"

definition guarded_operation ::
  "('e, 'w, 'a) call \<Rightarrow> controller \<Rightarrow> 'e \<Rightarrow> 'w \<Rightarrow> (exn + 'a) \<times> bool \<times> ('e, 'w) rstate" where
  "guarded_operation c ctl e w =
     (let s = service_identity c; (now, e1) = control_clock c e in
      case before_call (policy c) now s ctl of
        (Some x, ctl1) \<Rightarrow> (Inl x, False, (Some (bulkhead_exit s ctl1), e1, w))
      | (None, ctl1) \<Rightarrow>
          if provider_rate_limited c then
            (let (now2, e2) = control_clock c e1 in
             case enforce_provider_limit (identity_digest c) (policy c) now2 s ctl1 of
               (Some x, ctl2) \<Rightarrow>
                 (let ctl3 = (if is_rate_limited x then cancel_call s ctl2 else ctl2) in
                  (Inl x, False, (Some (bulkhead_exit s ctl3), e2, w)))
             | (None, ctl2) \<Rightarrow> run_operation c ctl2 e2 w)
          else run_operation c ctl1 e1 w)"

definition attempt_once ::
  "('e, 'w, 'a) call \<Rightarrow> ('e, 'w) rstate \<Rightarrow> (exn + 'a) \<times> bool \<times> ('e, 'w) rstate" where
  "attempt_once c st =
     (case st of
        (None, e, w) \<Rightarrow> (let (r, w') = operation c w in (r, True, (None, e, w')))
      | (Some ctl, e, w) \<Rightarrow>
          (case bulkhead_enter (policy c) (service_identity c) (dependency c) ctl of
             (Some x, ctl1) \<Rightarrow> (Inl x, False, (Some ctl1, e, w))
           | (None, ctl1) \<Rightarrow> guarded_operation c ctl1 e w))"

section \<open>The handler of a failed attempt\<close>

definition note_failure :: "('e, 'w, 'a) call \<Rightarrow> ('e, 'w) rstate \<Rightarrow> ('e, 'w) rstate" where
  "note_failure c st =
     (case st of
        (None, e, w) \<Rightarrow> st
      | (Some ctl, e, w) \<Rightarrow>
          (let (now, e') = control_clock c e in
           (Some (record_failure (policy c) now (service_identity c) ctl), e', w)))"

text \<open>The retry budget is asked only when a retry is still wanted and a controller is there.\<close>

definition ask_budget :: "('e, 'w, 'a) call \<Rightarrow> bool \<Rightarrow> ('e, 'w) rstate \<Rightarrow> bool \<times> ('e, 'w) rstate" where
  "ask_budget c retry st =
     (case st of
        (Some ctl, e, w) \<Rightarrow>
          if retry then
            (let (now, e') = control_clock c e;
                 (ok, ctl') = consume_retry_budget (policy c) now (service_identity c) ctl in
             (ok, (Some ctl', e', w)))
          else (True, st)
      | (None, e, w) \<Rightarrow> (True, st))"

text \<open>The deadline may cancel the retry or shorten its delay.\<close>

definition fit_deadline ::
  "('e, 'w, 'a) call \<Rightarrow> rat option \<Rightarrow> bool \<Rightarrow> rat \<Rightarrow> 'e \<Rightarrow> bool \<times> rat \<times> 'e" where
  "fit_deadline c effective retry delay e =
     (case effective of
        None \<Rightarrow> (retry, delay, e)
      | Some d \<Rightarrow>
          if retry then
            (let (now, e') = clock c e;
                 remaining = d - now;
                 budget = (case timeout_seconds c of None \<Rightarrow> 0 | Some t \<Rightarrow> t) in
             if remaining \<le> budget then (False, delay, e')
             else if delay > remaining - budget then (True, max 0 (remaining - budget), e')
             else (True, delay, e'))
          else (retry, delay, e))"

datatype verdict = Raise exn | Again rat

definition is_half_open :: "('e, 'w, 'a) call \<Rightarrow> ('e, 'w) rstate \<Rightarrow> bool" where
  "is_half_open c st =
     (case fst st of None \<Rightarrow> False
      | Some ctl \<Rightarrow> circuit_state_of (service_identity c) ctl = CS_HALF_OPEN)"

definition handle_failure ::
  "('e, 'w, 'a) call \<Rightarrow> rat option \<Rightarrow> nat \<Rightarrow> nat \<Rightarrow> nat \<Rightarrow> exn \<Rightarrow> bool \<Rightarrow> ('e, 'w) rstate \<Rightarrow>
     verdict \<times> failure_category \<times> ('e, 'w) rstate" where
  "handle_failure c effective allowed attempt started x op_started st =
     (let category = classify_failure x (dependency c) (operation_type c) in
      if is_unknown_write x then (Raise x, category, note_failure c st)
      else
        let replay_safe = is_retryable category (operation_type c);
            st1 = (if op_started \<and> (replay_safe \<or> is_half_open c st) then note_failure c st else st);
            retry1 = (attempt < allowed \<and> replay_safe);
            (ctl1, e1, w1) = st1;
            (sample, e2) = random_source c e1;
            (wall, e3) = wall_clock c e2;
            delay = retry_delay x attempt (policy c) sample wall;
            (ok, st2) = ask_budget c retry1 (ctl1, e3, w1);
            category2 = (if ok then category else FC_RETRY_BUDGET_EXHAUSTED);
            (ctl3, e4, w3) = st2;
            (retry, delay2, e5) = fit_deadline c effective (retry1 \<and> ok) delay e4 in
        if retry then (Again delay2, category2, (ctl3, sleeper c delay2 e5, w3))
        else if \<not> replay_safe then (Raise x, category2, (ctl3, e5, w3))
        else if category2 = FC_RETRY_BUDGET_EXHAUSTED
        then (Raise (RetryBudgetExhaustedError (service_identity c)), category2, (ctl3, e5, w3))
        else (Raise (RetryExhaustedError category2 started), category2, (ctl3, e5, w3)))"

section \<open>The loop\<close>

definition deadline_passed ::
  "('e, 'w, 'a) call \<Rightarrow> rat option \<Rightarrow> ('e, 'w) rstate \<Rightarrow> bool \<times> ('e, 'w) rstate" where
  "deadline_passed c effective st =
     (case effective of
        None \<Rightarrow> (False, st)
      | Some d \<Rightarrow> (case st of (ctl, e, w) \<Rightarrow> let (now, e') = clock c e in (now \<ge> d, (ctl, e', w))))"

fun retry_loop ::
  "('e, 'w, 'a) call \<Rightarrow> rat option \<Rightarrow> nat \<Rightarrow> nat \<Rightarrow> nat \<Rightarrow> failure_category option \<Rightarrow> nat \<Rightarrow>
     ('e, 'w) rstate \<Rightarrow> (exn + 'a) \<times> nat \<times> ('e, 'w) rstate" where
  "retry_loop c effective allowed 0 attempt prev started st =
     (Inl (case prev of None \<Rightarrow> OtherError | Some k \<Rightarrow> RetryExhaustedError k started), started, st)"
| "retry_loop c effective allowed (Suc left) attempt prev started st =
     (case deadline_passed c effective st of
        (True, st1) \<Rightarrow>
          (Inl (RetryExhaustedError
                 (case prev of None \<Rightarrow> FC_UNKNOWN_DEPENDENCY_FAILURE | Some k \<Rightarrow> k) started),
           started, st1)
      | (False, st1) \<Rightarrow>
          (case attempt_once c st1 of
             (Inr a, op_started, st2) \<Rightarrow> (Inr a, (if op_started then Suc started else started), st2)
           | (Inl x, op_started, st2) \<Rightarrow>
               (let started' = (if op_started then Suc started else started) in
                case handle_failure c effective allowed attempt started' x op_started st2 of
                  (Raise y, category, st3) \<Rightarrow> (Inl y, started', st3)
                | (Again delay, category, st3) \<Rightarrow>
                    retry_loop c effective allowed left (Suc attempt) (Some category) started' st3)))"

definition attempts_allowed :: "resilience_config \<Rightarrow> nat" where
  "attempts_allowed cfg = (if enabled cfg then nat (max_retries cfg + 1) else 1)"

definition run_with_retry ::
  "('e, 'w, 'a) call \<Rightarrow> ('e, 'w) rstate \<Rightarrow> (exn + 'a) \<times> nat \<times> ('e, 'w) rstate" where
  "run_with_retry c st =
     (let allowed = attempts_allowed (policy c) in
      case deadline c of
        Some d \<Rightarrow> retry_loop c (Some d) allowed allowed 1 None 0 st
      | None \<Rightarrow>
          (case st of (ctl, e, w) \<Rightarrow>
             let (now, e') = clock c e in
             retry_loop c (sequence_deadline now (timeout_seconds c) allowed (policy c))
               allowed allowed 1 None 0 (ctl, e', w)))"

end
