(* ===== verification/Retry_Laws.thy ===== *)
theory Retry_Laws
  imports Retry Circuit_Safety
begin

text \<open>
  What \<open>run_with_retry\<close> guarantees: how often the operation runs and on which worlds, that a write is
  never repeated, that permits and half-open probes are given back, and the bounds of its delays.
\<close>

section \<open>What one attempt and its handler do to the world\<close>

definition step_world :: "('e, 'w, 'a) call \<Rightarrow> 'w \<Rightarrow> 'w" where
  "step_world c w = snd (operation c w)"

lemmas attempt_defs = attempt_once_def guarded_operation_def run_operation_def

lemma attempt_once_world:
  assumes "attempt_once c (ctl, e, w) = (r, b, (ctl', e', w'))"
  shows "if b then w' = step_world c w \<and> r = fst (operation c w)
         else w' = w \<and> (\<exists>x. r = Inl x)"
  using assms by (auto simp: attempt_defs step_world_def Let_def split: option.splits prod.splits if_splits sum.splits)

lemma note_failure_world: "note_failure c (ctl, e, w) = (ctl', e', w') \<Longrightarrow> w' = w"
  by (auto simp: note_failure_def split: option.splits prod.splits)

lemma ask_budget_world: "ask_budget c b (ctl, e, w) = (ok, ctl', e', w') \<Longrightarrow> w' = w"
  by (auto simp: ask_budget_def split: option.splits prod.splits if_splits)

lemma fit_deadline_True: "fit_deadline c d b delay e = (True, delay', e') \<Longrightarrow> b"
  by (auto simp: fit_deadline_def split: option.splits if_splits)

text \<open>The handler only ever keeps the world as the attempt left it.\<close>

lemma handle_failure_world:
  assumes "handle_failure c d allowed attempt n x b (ctl, e, w) = (v, k, (ctl', e', w'))"
  shows "w' = w"
  using assms
  by (auto simp: handle_failure_def Let_def split: prod.splits if_splits
      dest!: note_failure_world ask_budget_world)

text \<open>It asks for another attempt only after a failure that is safe to repeat.\<close>

lemma handle_failure_again:
  assumes "handle_failure c d allowed attempt n x b st = (Again delay, k, st')"
  shows "\<not> is_unknown_write x \<and> attempt < allowed \<and>
         is_retryable (classify_failure x (dependency c) (operation_type c)) (operation_type c)"
  using assms by (auto simp: handle_failure_def Let_def dest!: fit_deadline_True
      split: prod.splits if_splits)

section \<open>The attempts of a whole call\<close>

text \<open>
  The started attempts act on the worlds \<open>w\<close>, \<open>f w\<close>, \<open>f (f w)\<close>, ... where \<open>f\<close> is the effect of the
  operation; every one but the last failed in a way that is safe to repeat.
\<close>

definition repeated_safely :: "('e, 'w, 'a) call \<Rightarrow> 'w \<Rightarrow> nat \<Rightarrow> bool" where
  "repeated_safely c w m \<longleftrightarrow>
     (\<forall>k. Suc k < m \<longrightarrow> (\<exists>x. fst (operation c ((step_world c ^^ k) w)) = Inl x \<and>
        \<not> is_unknown_write x \<and>
        is_retryable (classify_failure x (dependency c) (operation_type c)) (operation_type c)))"

definition attempts_explain ::
  "('e, 'w, 'a) call \<Rightarrow> 'w \<Rightarrow> nat \<Rightarrow> (exn + 'a) \<Rightarrow> 'w \<Rightarrow> bool" where
  "attempts_explain c w m r w' \<longleftrightarrow>
     w' = (step_world c ^^ m) w \<and> repeated_safely c w m \<and>
     (\<forall>a. r = Inr a \<longrightarrow> 0 < m \<and> fst (operation c ((step_world c ^^ (m - 1)) w)) = Inr a)"

lemma attempts_explain_0: "attempts_explain c w 0 (Inl x) w"
  by (simp add: attempts_explain_def repeated_safely_def)

lemma attempts_explain_1:
  "r = fst (operation c w) \<Longrightarrow> attempts_explain c w 1 r (step_world c w)"
  by (simp add: attempts_explain_def repeated_safely_def)

lemma attempts_explain_Suc:
  assumes "attempts_explain c (step_world c w) m r w'" and "fst (operation c w) = Inl x"
    and "\<not> is_unknown_write x"
    and "is_retryable (classify_failure x (dependency c) (operation_type c)) (operation_type c)"
  shows "attempts_explain c w (Suc m) r w'"
proof -
  have "repeated_safely c w (Suc m)"
    unfolding repeated_safely_def
  proof (intro allI impI)
    fix k assume "Suc k < Suc m"
    then show "\<exists>x. fst (operation c ((step_world c ^^ k) w)) = Inl x \<and> \<not> is_unknown_write x \<and>
        is_retryable (classify_failure x (dependency c) (operation_type c)) (operation_type c)"
      using assms by (cases k)
        (auto simp: attempts_explain_def repeated_safely_def funpow_swap1)
  qed
  moreover have "fst (operation c ((step_world c ^^ (Suc m - 1)) w)) = Inr a" if "r = Inr a" for a
    using assms(1) that by (cases m) (auto simp: attempts_explain_def funpow_swap1)
  ultimately show ?thesis
    using assms(1) by (simp add: attempts_explain_def funpow_swap1)
qed

lemma deadline_passed_world: "deadline_passed c d (ctl, e, w) = (b, ctl', e', w') \<Longrightarrow> w' = w"
  by (auto simp: deadline_passed_def Let_def split: option.splits prod.splits)

lemma retry_loop_explain:
  assumes "retry_loop c d allowed left attempt prev started (ctl, e, w) = (r, n, (ctl', e', w'))"
  shows "\<exists>m. n = started + m \<and> m \<le> left \<and> attempts_explain c w m r w'"
  using assms
proof (induction left arbitrary: attempt prev started ctl e w)
  case 0
  then show ?case using attempts_explain_0 by auto
next
  case (Suc left)
  obtain b ctl1 e1 w1 where dl: "deadline_passed c d (ctl, e, w) = (b, ctl1, e1, w1)"
    by (metis prod_cases4)
  have w1: "w1 = w" using deadline_passed_world [OF dl] .
  show ?case
  proof (cases b)
    case True
    then show ?thesis using Suc.prems dl w1 attempts_explain_0 by auto
  next
    case False
    obtain q ops ctl2 e2 w2 where at: "attempt_once c (ctl1, e1, w1) = (q, ops, ctl2, e2, w2)"
      by (metis prod_cases5)
    note aw = attempt_once_world [OF at]
    show ?thesis
    proof (cases q)
      case (Inr a)
      then have "ops" using aw by (auto split: if_splits)
      then show ?thesis
        using Suc.prems dl False at Inr aw w1 attempts_explain_1 [of r c w]
        by (intro exI [of _ 1]) auto
    next
      case (Inl x)
      let ?n = "if ops then Suc started else started"
      obtain v k ctl3 e3 w3 where hf:
        "handle_failure c d allowed attempt ?n x ops (ctl2, e2, w2) = (v, k, ctl3, e3, w3)"
        by (metis prod_cases5)
      have w3: "w3 = w2" using handle_failure_world [OF hf] .
      show ?thesis
      proof (cases v)
        case (Raise y)
        then show ?thesis
          using Suc.prems dl False at Inl hf w3 aw w1 attempts_explain_0 [of c w y]
            attempts_explain_1 [of "Inl x" c w]
          by (cases ops) (auto simp: attempts_explain_def repeated_safely_def)
      next
        case (Again delay)
        have safe: "\<not> is_unknown_write x \<and>
            is_retryable (classify_failure x (dependency c) (operation_type c)) (operation_type c)"
          using handle_failure_again hf Again by blast
        have "retry_loop c d allowed left (Suc attempt) (Some k) ?n (ctl3, e3, w2)
            = (r, n, (ctl', e', w'))"
          using Suc.prems dl False at Inl hf Again w3 by (simp add: Let_def)
        then obtain m where m: "n = ?n + m" "m \<le> left" "attempts_explain c w2 m r w'"
          using Suc.IH by blast
        show ?thesis
        proof (cases ops)
          case True
          then have "attempts_explain c w (Suc m) r w'"
            using aw w1 m(3) safe Inl by (intro attempts_explain_Suc) auto
          then show ?thesis using m True by (intro exI [of _ "Suc m"]) auto
        next
          case False
          then have "w2 = w" using aw w1 by auto
          with m False show ?thesis by auto
        qed
      qed
    qed
  qed
qed

lemma run_with_retry_explain:
  assumes "run_with_retry c (ctl, e, w) = (r, n, (ctl', e', w'))"
  shows "n \<le> attempts_allowed (policy c) \<and> attempts_explain c w n r w'"
  using assms
  by (auto simp: run_with_retry_def Let_def split: option.splits prod.splits
      dest!: retry_loop_explain)

section \<open>Permits and probes are given back\<close>

abbreviation in_flight :: "string \<Rightarrow> controller \<Rightarrow> int" where
  "in_flight s ctl \<equiv> half_open_in_flight (circuits ctl s)"

text \<open>A slot is held only while the breaker is half open, and then exactly one by this call.\<close>

definition holds_slot :: "string \<Rightarrow> controller \<Rightarrow> bool" where
  "holds_slot s ctl \<longleftrightarrow> in_flight s ctl = 0 \<or> (circuit_state_of s ctl = CS_HALF_OPEN \<and> in_flight s ctl = 1)"

lemma before_call_slot:
  assumes "before_call cfg now s ctl = (x, ctl')" and "in_flight s ctl = 0"
  shows "bulkheads ctl' = bulkheads ctl \<and> holds_slot s ctl' \<and> (x \<noteq> None \<longrightarrow> in_flight s ctl' = 0)"
  using assms
  by (auto simp: before_call_def half_open_admit_def holds_slot_def circuit_state_of_def Let_def
      split: if_splits)

lemma provider_limit_frame:
  assumes "enforce_provider_limit dg cfg now s ctl = (x, ctl')"
  shows "bulkheads ctl' = bulkheads ctl \<and> circuits ctl' = circuits ctl \<and>
         (0 < provider_rate_limit cfg \<longrightarrow> (\<forall>y. x = Some y \<longrightarrow> is_rate_limited y))"
  using assms
  by (auto simp: enforce_provider_limit_def consume_rate_limit_def Let_def split: list.splits if_splits)

lemma cancel_call_slot:
  "holds_slot s ctl \<Longrightarrow> bulkheads (cancel_call s ctl) = bulkheads ctl \<and> in_flight s (cancel_call s ctl) = 0"
  by (auto simp: cancel_call_def holds_slot_def circuit_state_of_def Let_def)

lemma bulkhead_exit_circuits [simp]: "circuits (bulkhead_exit s ctl) = circuits ctl"
  by (simp add: bulkhead_exit_def split: option.split prod.split)

lemma record_success_slot:
  "bulkheads (record_success s ctl) = bulkheads ctl \<and> in_flight s (record_success s ctl) = 0"
  by (simp add: record_success_def)

lemma record_failure_slot:
  "holds_slot s ctl \<Longrightarrow> bulkheads (record_failure cfg now s ctl) = bulkheads ctl \<and>
     in_flight s (record_failure cfg now s ctl) = 0"
  by (auto simp: record_failure_def open_circuit_def holds_slot_def circuit_state_of_def Let_def)

lemma bulkhead_enter_exit:
  assumes "bulkhead_enter cfg s dep ctl = (None, ctl1)" and "bulkheads ctl2 = bulkheads ctl1"
  shows "get_bulkhead cfg s dep (bulkhead_exit s ctl2) = get_bulkhead cfg s dep ctl"
proof -
  obtain cap free where g: "get_bulkhead cfg s dep ctl = (cap, free)" by fastforce
  with assms have "bulkheads ctl2 s = Some (cap, free - 1)"
    by (auto simp: bulkhead_enter_def split: if_splits)
  then have "get_bulkhead cfg s dep (bulkhead_exit s ctl2) = (cap, free)"
    by (simp add: bulkhead_exit_def get_bulkhead_def)
  with g show ?thesis by simp
qed

lemma bulkhead_enter_frame:
  assumes "bulkhead_enter cfg s dep ctl = (x, ctl1)"
  shows "circuits ctl1 = circuits ctl \<and>
         (x \<noteq> None \<longrightarrow> get_bulkhead cfg s dep ctl1 = get_bulkhead cfg s dep ctl)"
  using assms
  by (auto simp: bulkhead_enter_def get_bulkhead_def Let_def split: if_splits prod.splits option.splits)

text \<open>What a call must leave as it found it: its permits, and no probe in flight.\<close>

definition permits :: "('e, 'w, 'a) call \<Rightarrow> controller \<Rightarrow> int \<times> int" where
  "permits c ctl = get_bulkhead (policy c) (service_identity c) (dependency c) ctl"

definition limit_positive :: "('e, 'w, 'a) call \<Rightarrow> bool" where
  "limit_positive c \<longleftrightarrow> (provider_rate_limited c \<longrightarrow> 0 < provider_rate_limit (policy c))"

lemma run_operation_release:
  assumes "run_operation c ctl1 e w = (q, ops, (ctl', e', w'))"
    and "bulkhead_enter (policy c) (service_identity c) (dependency c) ctl = (None, ctl0)"
    and "bulkheads ctl1 = bulkheads ctl0" and "holds_slot (service_identity c) ctl1"
  shows "\<exists>ctl2. ctl' = Some ctl2 \<and> permits c ctl2 = permits c ctl \<and>
           holds_slot (service_identity c) ctl2 \<and> ops \<and>
           (\<forall>a. q = Inr a \<longrightarrow> in_flight (service_identity c) ctl2 = 0)"
proof -
  let ?s = "service_identity c"
  obtain r w2 where op: "operation c w = (r, w2)" by fastforce
  have kept: "permits c (bulkhead_exit ?s ctl1) = permits c ctl"
    using bulkhead_enter_exit [OF assms(2,3)] by (simp add: permits_def)
  show ?thesis
  proof (cases r)
    case (Inl x)
    then show ?thesis using assms(1,4) op kept by (auto simp: run_operation_def holds_slot_def circuit_state_of_def)
  next
    case (Inr a)
    have "permits c (record_success ?s (bulkhead_exit ?s ctl1)) = permits c (bulkhead_exit ?s ctl1)"
      by (simp add: permits_def get_bulkhead_def record_success_slot)
    then show ?thesis using Inr assms(1) op kept record_success_slot [of ?s "bulkhead_exit ?s ctl1"]
      by (auto simp: run_operation_def holds_slot_def)
  qed
qed

lemma attempt_once_release:
  assumes "attempt_once c (Some ctl, e, w) = (q, ops, (ctl', e', w'))"
    and flight: "in_flight (service_identity c) ctl = 0" and "limit_positive c"
  shows "\<exists>ctl2. ctl' = Some ctl2 \<and> permits c ctl2 = permits c ctl \<and>
           holds_slot (service_identity c) ctl2 \<and>
           (\<not> ops \<or> (\<exists>a. q = Inr a) \<longrightarrow> in_flight (service_identity c) ctl2 = 0)"
proof -
  let ?s = "service_identity c" and ?cfg = "policy c" and ?d = "dependency c"
  obtain x ctl1 where enter: "bulkhead_enter ?cfg ?s ?d ctl = (x, ctl1)" by fastforce
  have fl1: "in_flight ?s ctl1 = 0" using bulkhead_enter_frame [OF enter] flight by simp
  show ?thesis
  proof (cases x)
    case (Some y)
    then show ?thesis using assms(1) enter bulkhead_enter_frame [OF enter] flight
      by (auto simp: attempt_once_def permits_def holds_slot_def)
  next
    case None
    note enter = enter [unfolded None]
    obtain now e1 where ck: "control_clock c e = (now, e1)" by fastforce
    obtain y ctl2 where bc: "before_call ?cfg now ?s ctl1 = (y, ctl2)" by fastforce
    note slot = before_call_slot [OF bc fl1]
    have g: "guarded_operation c ctl1 e w = (q, ops, (ctl', e', w'))"
      using assms(1) enter by (simp add: attempt_once_def)
    show ?thesis
    proof (cases y)
      case (Some z)
      then show ?thesis
        using g ck bc slot bulkhead_enter_exit [OF enter, of ctl2]
        by (auto simp: guarded_operation_def permits_def holds_slot_def)
    next
      case no: None
      show ?thesis
      proof (cases "provider_rate_limited c")
        case False
        then have "run_operation c ctl2 e1 w = (q, ops, (ctl', e', w'))"
          using g ck bc no by (simp add: guarded_operation_def)
        from run_operation_release [OF this enter] slot show ?thesis by force
      next
        case True
        obtain now2 e2 where ck2: "control_clock c e1 = (now2, e2)" by fastforce
        obtain z ctl3 where pl:
          "enforce_provider_limit (identity_digest c) ?cfg now2 ?s ctl2 = (z, ctl3)" by fastforce
        note fr = provider_limit_frame [OF pl]
        have slot3: "bulkheads ctl3 = bulkheads ctl1 \<and> holds_slot ?s ctl3"
          using fr slot by (simp add: holds_slot_def circuit_state_of_def)
        show ?thesis
        proof (cases z)
          case None
          then have "run_operation c ctl3 e2 w = (q, ops, (ctl', e', w'))"
            using g ck bc no True ck2 pl by (simp add: guarded_operation_def)
          from run_operation_release [OF this enter] slot3 show ?thesis by force
        next
          case (Some v)
          then have "is_rate_limited v" using fr True \<open>limit_positive c\<close>
            by (simp add: limit_positive_def)
          then show ?thesis
            using g ck bc no True ck2 pl Some cancel_call_slot [of ?s ctl3] slot3
              bulkhead_enter_exit [OF enter, of "cancel_call ?s ctl3"]
            by (auto simp: guarded_operation_def permits_def holds_slot_def Let_def)
        qed
      qed
    qed
  qed
qed

lemma note_failure_release:
  assumes "note_failure c (Some ctl, e, w) = (ctl', e', w')"
    and "holds_slot (service_identity c) ctl"
  shows "\<exists>ctl2. ctl' = Some ctl2 \<and> permits c ctl2 = permits c ctl \<and>
           in_flight (service_identity c) ctl2 = 0"
  using assms record_failure_slot [OF assms(2)]
  by (auto simp: note_failure_def permits_def get_bulkhead_def split: prod.splits)

lemma ask_budget_release:
  assumes "ask_budget c b (Some ctl, e, w) = (ok, ctl', e', w')"
  shows "\<exists>ctl2. ctl' = Some ctl2 \<and> permits c ctl2 = permits c ctl \<and> circuits ctl2 = circuits ctl"
  using assms
  by (auto simp: ask_budget_def permits_def get_bulkhead_def consume_retry_budget_def Let_def
      split: prod.splits if_splits)

lemma handle_failure_release:
  assumes "handle_failure c d allowed attempt n x ops (Some ctl, e, w) = (v, k, (ctl', e', w'))"
    and "holds_slot (service_identity c) ctl"
    and "\<not> ops \<longrightarrow> in_flight (service_identity c) ctl = 0"
    and "is_unknown_write x \<longrightarrow> ops"
  shows "\<exists>ctl2. ctl' = Some ctl2 \<and> permits c ctl2 = permits c ctl \<and>
           in_flight (service_identity c) ctl2 = 0"
proof (cases "is_unknown_write x")
  case True
  then show ?thesis using assms note_failure_release by (auto simp: handle_failure_def Let_def)
next
  case False
  define st1 where "st1 = (if ops \<and> (is_retryable (classify_failure x (dependency c)
      (operation_type c)) (operation_type c) \<or> is_half_open c (Some ctl, e, w))
    then note_failure c (Some ctl, e, w) else (Some ctl, e, w))"
  obtain ctl1 e1 w1 where st1: "st1 = (ctl1, e1, w1)" by (metis prod_cases3)
  have "\<exists>ctl2. ctl1 = Some ctl2 \<and> permits c ctl2 = permits c ctl \<and> in_flight (service_identity c) ctl2 = 0"
  proof (cases "st1 = note_failure c (Some ctl, e, w)")
    case True
    then show ?thesis using note_failure_release [of c ctl e w ctl1 e1 w1] st1 assms(2) by simp
  next
    case False
    then have same: "st1 = (Some ctl, e, w)" by (auto simp: st1_def split: if_splits)
    have "in_flight (service_identity c) ctl = 0"
      using False same assms(2,3)
      by (auto simp: st1_def is_half_open_def holds_slot_def split: if_splits)
    then show ?thesis using same st1 by simp
  qed
  then obtain ctl2 where ctl2: "ctl1 = Some ctl2" "permits c ctl2 = permits c ctl"
      "in_flight (service_identity c) ctl2 = 0" by blast
  show ?thesis
    using assms(1) False st1 [unfolded st1_def] ctl2
    by (auto simp: handle_failure_def Let_def split: prod.splits if_splits
        dest!: ask_budget_release)
qed

lemma deadline_passed_frame:
  "deadline_passed c d (ctl, e, w) = (b, st) \<Longrightarrow> \<exists>e'. st = (ctl, e', w)"
  by (auto simp: deadline_passed_def split: option.splits prod.splits)

text \<open>An operation that raises a write of unknown outcome has been started.\<close>

lemma attempt_once_unknown_write:
  assumes "attempt_once c st = (Inl x, False, st')"
  shows "\<not> is_unknown_write x"
  using assms
  by (auto simp: attempt_defs bulkhead_enter_def before_call_def half_open_admit_def
      enforce_provider_limit_def consume_rate_limit_def Let_def
      split: option.splits prod.splits if_splits sum.splits list.splits)

lemma retry_loop_release:
  assumes "retry_loop c d allowed left attempt k0 n0 (Some ctl, e, w) = (r, n, (ctl', e', w'))"
    and "in_flight (service_identity c) ctl = 0" and lim: "limit_positive c"
  shows "\<exists>ctl2. ctl' = Some ctl2 \<and> permits c ctl2 = permits c ctl \<and>
           in_flight (service_identity c) ctl2 = 0"
  using assms(1,2)
proof (induction left arbitrary: attempt k0 n0 ctl e w)
  case 0
  then show ?case by auto
next
  case (Suc left)
  obtain b st1 where dl: "deadline_passed c d (Some ctl, e, w) = (b, st1)" by (metis surj_pair)
  from deadline_passed_frame [OF dl] obtain e1 where st1: "st1 = (Some ctl, e1, w)" by blast
  show ?case
  proof (cases b)
    case True
    then show ?thesis using Suc.prems dl st1 by auto
  next
    case False
    obtain q ops ctl2 e2 w2 where at: "attempt_once c (Some ctl, e1, w) = (q, ops, (ctl2, e2, w2))"
      by (metis prod_cases3)
    obtain cc where cc: "ctl2 = Some cc" "permits c cc = permits c ctl"
        "holds_slot (service_identity c) cc"
        "\<not> ops \<or> (\<exists>a. q = Inr a) \<longrightarrow> in_flight (service_identity c) cc = 0"
      using attempt_once_release [OF at Suc.prems(2) lim] by blast
    show ?thesis
    proof (cases q)
      case (Inr a)
      then show ?thesis using Suc.prems dl st1 False at cc by auto
    next
      case (Inl x)
      let ?n = "if ops then Suc n0 else n0"
      obtain v k ctl3 e3 w3 where
        hf: "handle_failure c d allowed attempt ?n x ops (ctl2, e2, w2) = (v, k, (ctl3, e3, w3))"
        by (metis prod_cases3)
      have "is_unknown_write x \<longrightarrow> ops"
        using at Inl attempt_once_unknown_write [of c "(Some ctl, e1, w)" x "(ctl2, e2, w2)"]
        by (cases ops) auto
      with hf cc obtain dd where dd: "ctl3 = Some dd" "permits c dd = permits c ctl"
          "in_flight (service_identity c) dd = 0"
        using handle_failure_release [of c d allowed attempt ?n x ops cc e2 w2 v k ctl3 e3 w3]
        by auto
      show ?thesis
      proof (cases v)
        case (Raise y)
        then show ?thesis using Suc.prems dl st1 False at Inl hf dd by (auto simp: Let_def)
      next
        case (Again delay)
        then have "retry_loop c d allowed left (Suc attempt) (Some k) ?n (Some dd, e3, w3)
            = (r, n, (ctl', e', w'))"
          using Suc.prems dl st1 False at Inl hf dd by (simp add: Let_def)
        from Suc.IH [OF this dd(3)] show ?thesis using dd(2) by simp
      qed
    qed
  qed
qed

section \<open>A concrete call\<close>

text \<open>A call on still clocks whose operation fails with a timeout while the counter is below two.\<close>

definition probe_call :: "string \<Rightarrow> (unit, nat, nat) call" where
  "probe_call op =
     \<lparr>operation = (\<lambda>w. (if w < 2 then Inl PyTimeoutError else Inr w, Suc w)), dependency = ''llm'',
      operation_type = op, service_identity = ''llm:m'', provider_rate_limited = True,
      timeout_seconds = None, deadline = None, policy = default_config, identity_digest = id,
      clock = (\<lambda>e. (0, e)), control_clock = (\<lambda>e. (0, e)), wall_clock = (\<lambda>e. (0, e)),
      random_source = (\<lambda>e. (1/2, e)), sleeper = (\<lambda>_ e. e)\<rparr>"

lemma probe_read_run:
  "run_with_retry (probe_call ''read'') (None, (), 0) = (Inr 2, 3, (None, (), 3))"
proof -
  have "case run_with_retry (probe_call ''read'') (None, (), 0) of (r, n, (c, e, w)) \<Rightarrow>
      r = Inr 2 \<and> n = 3 \<and> Option.is_none c \<and> w = 3"
    by code_simp
  then show ?thesis by (simp add: Option.is_none_def split: prod.splits)
qed

lemma probe_write_run:
  "run_with_retry (probe_call ''write'') (None, (), 2) = (Inr 2, 1, (None, (), 3))"
proof -
  have "case run_with_retry (probe_call ''write'') (None, (), 2) of (r, n, (c, e, w)) \<Rightarrow>
      r = Inr 2 \<and> n = 1 \<and> Option.is_none c \<and> w = 3"
    by code_simp
  then show ?thesis by (simp add: Option.is_none_def split: prod.splits)
qed

section \<open>Properties\<close>

text \<open>C4. A retried call runs its operation at most \<open>max_retries + 1\<close> times (once when resilience is
  disabled); every run but the last failed with an error that is safe to repeat and is not a write
  of unknown outcome; and a returned value is the value of the last run.\<close>

theorem retry_runs_bounded:
  assumes "run_with_retry c (ctl, e, w) = (r, n, (ctl', e', w'))"
  shows "n \<le> attempts_allowed (policy c) \<and> repeated_safely c w n \<and>
         w' = (step_world c ^^ n) w \<and>
         (\<forall>a. r = Inr a \<longrightarrow> 0 < n \<and> fst (operation c ((step_world c ^^ (n - 1)) w)) = Inr a)"
  using run_with_retry_explain [OF assms] by (simp add: attempts_explain_def)

lemma retry_runs_bounded_witness:
  "repeated_safely (probe_call ''read'') 0 3 \<and> 3 \<le> attempts_allowed (policy (probe_call ''read''))"
  using retry_runs_bounded [OF probe_read_run] by blast

text \<open>C5. A business write is never replayed: with operation type \<open>write\<close> the operation runs at most
  once, the world is untouched or is the effect of that single run, and a success is its result.\<close>

theorem write_runs_at_most_once:
  assumes "run_with_retry c (ctl, e, w) = (r, n, (ctl', e', w'))" and "operation_type c = ''write''"
  shows "n \<le> 1 \<and> w' = (if n = 0 then w else step_world c w) \<and>
         (\<forall>a. r = Inr a \<longrightarrow> n = 1 \<and> fst (operation c w) = Inr a)"
proof -
  have ex: "attempts_explain c w n r w'" using run_with_retry_explain [OF assms(1)] by simp
  have n: "n \<le> 1"
  proof (rule ccontr)
    assume "\<not> n \<le> 1"
    then have "Suc 0 < n" by simp
    with ex show False using assms(2)
      by (auto simp: attempts_explain_def repeated_safely_def dest: spec [of _ 0])
  qed
  then show ?thesis using ex by (cases n) (auto simp: attempts_explain_def)
qed

lemma write_runs_at_most_once_witness:
  "operation_type (probe_call ''write'') = ''write'' \<and> fst (operation (probe_call ''write'') 2) = Inr 2"
  using write_runs_at_most_once [OF probe_write_run] by (simp add: probe_call_def)

text \<open>Whatever a retried call does, it gives back every bulkhead permit it took and leaves no
  half-open probe slot in flight, on success, on failure and on rejection alike: no error path
  leaks a permit or wedges the breaker.\<close>

theorem retry_releases_permits:
  assumes "run_with_retry c (Some ctl, e, w) = (r, n, (ctl', e', w'))"
    and "half_open_in_flight (circuits ctl (service_identity c)) = 0"
    and "provider_rate_limited c \<longrightarrow> 0 < provider_rate_limit (policy c)"
  shows "\<exists>ctl2. ctl' = Some ctl2 \<and>
           get_bulkhead (policy c) (service_identity c) (dependency c) ctl2 =
             get_bulkhead (policy c) (service_identity c) (dependency c) ctl \<and>
           half_open_in_flight (circuits ctl2 (service_identity c)) = 0"
  using assms retry_loop_release [of c _ _ _ _ _ _ ctl]
  by (auto simp: run_with_retry_def limit_positive_def permits_def Let_def
      split: option.splits prod.splits)

lemma retry_releases_permits_witness:
  "\<exists>r n ctl st. run_with_retry (probe_call ''read'') (Some fresh_controller, (), 0) = (r, n, (Some ctl, st)) \<and>
     get_bulkhead default_config ''llm:m'' ''llm'' ctl = (8, 8)"
proof -
  obtain r n ctl' e' w' where
    run: "run_with_retry (probe_call ''read'') (Some fresh_controller, (), 0) = (r, n, (ctl', e', w'))"
    by (metis prod_cases5)
  from retry_releases_permits [OF run] run show ?thesis
    by (fastforce simp: probe_call_def fresh_controller_def fresh_circuit_def default_config_def
        get_bulkhead_def)
qed

lemma backoff_bounds:
  assumes "0 \<le> initial_backoff_ms cfg" and "0 \<le> max_backoff_ms cfg"
  shows "0 \<le> backoff_ms cfg k \<and> backoff_ms cfg k \<le> max_backoff_ms cfg"
  using assms by (simp add: backoff_ms_def)

lemma jitter_bounds:
  fixes base j u m :: rat
  assumes "0 \<le> base" "base \<le> m" "0 \<le> j" "0 \<le> u" "u \<le> 1"
  shows "base * (1 + j * (2 * u - 1)) \<le> m * (1 + j)"
proof -
  have "j * (2 * u - 1) \<le> j" using assms mult_left_mono [of "2 * u - 1" 1 j] by simp
  then have "base * (1 + j * (2 * u - 1)) \<le> base * (1 + j)"
    using assms(1) by (intro mult_left_mono) auto
  also have "\<dots> \<le> m * (1 + j)" using assms by (intro mult_right_mono) auto
  finally show ?thesis .
qed

text \<open>The delay before a retry is never negative and never exceeds the larger of the jittered
  maximal backoff and the configured cap on a server's \<open>Retry-After\<close>, whatever the random source
  and the server answer.\<close>

theorem retry_delay_bounds:
  assumes "0 \<le> initial_backoff_ms cfg" and "0 \<le> max_backoff_ms cfg" and "0 \<le> jitter_ratio cfg"
  shows "0 \<le> retry_delay x attempt cfg sample now \<and>
         retry_delay x attempt cfg sample now \<le>
           max (of_int (max_backoff_ms cfg) / 1000 * (1 + jitter_ratio cfg)) (max_retry_after cfg)"
proof -
  let ?base = "of_int (backoff_ms cfg attempt) / 1000 :: rat"
  let ?m = "of_int (max_backoff_ms cfg) / 1000 :: rat"
  let ?u = "min 1 (max 0 sample)"
  have b: "0 \<le> ?base" "?base \<le> ?m" and m: "0 \<le> ?m"
    using backoff_bounds [OF assms(1,2)] assms(2) by (auto simp: divide_right_mono)
  have "?base * (1 + jitter_ratio cfg * (2 * ?u - 1)) \<le> ?m * (1 + jitter_ratio cfg)"
    by (rule jitter_bounds) (use b assms(3) in auto)
  moreover have "0 \<le> ?m * (1 + jitter_ratio cfg)" using m assms(3) by simp
  ultimately show ?thesis
    by (auto simp: retry_delay_def Let_def split: option.split)
qed

lemma retry_delay_bounds_witness:
  "retry_delay PyTimeoutError 3 default_config 7 0 \<le> 30"
  using retry_delay_bounds [of default_config PyTimeoutError 3 7 0] by (simp add: default_config_def)

end
