(* ===== verification/Domain.thy ===== *)
theory Domain
  imports Failures
begin

text \<open>
  The authenticated context of a request (auth/models.py, core/context.py) and the business data
  (models/entities.py, schemas/domain.py): one record per table, one record for the whole database,
  and the JSON form of every response.
\<close>

section \<open>Principals and the execution context\<close>

record principal =
  actor_id :: string
  actor_kind :: actor_type
  principal_kind :: principal_type
  roles :: "string list"
  groups :: "string list"
  principal_tenant :: "string option"
  principal_customer :: "int option"
  customer_ids :: "int list"

record execution_context =
  request_id :: string
  conversation_id :: string
  ctx_principal :: principal
  ctx_tenant :: string
  effective_customer :: int

text \<open>
  The model validator of \<open>ExecutionContext\<close>: a principal bound to a tenant replaces the default
  tenant and may not act in another one; a customer acts only for itself.
\<close>

definition bound_tenant :: "execution_context \<Rightarrow> string" where
  "bound_tenant ctx =
     (case principal_tenant (ctx_principal ctx) of
        Some t \<Rightarrow> if ctx_tenant ctx = ''default'' then t else ctx_tenant ctx
      | None \<Rightarrow> ctx_tenant ctx)"

definition validate_context :: "execution_context \<Rightarrow> exn + execution_context" where
  "validate_context ctx =
     (let p = ctx_principal ctx in
      if effective_customer ctx \<le> 0 then Inl PydanticValidationError
      else if principal_tenant p \<noteq> None \<and> principal_tenant p \<noteq> Some (bound_tenant ctx)
      then Inl PydanticValidationError
      else if actor_kind p = AT_CUSTOMER \<and> principal_customer p \<noteq> Some (effective_customer ctx)
      then Inl PydanticValidationError
      else Inr (ctx\<lparr>ctx_tenant := bound_tenant ctx\<rparr>))"

definition context_ok :: "execution_context \<Rightarrow> bool" where
  "context_ok ctx \<longleftrightarrow> validate_context ctx = Inr ctx"

text \<open>\<open>safe_metadata\<close>, as the dictionary it returns.\<close>

abbreviation pstr :: "string \<Rightarrow> pyval" where
  "pstr s \<equiv> PStr (lit s)"

definition safe_metadata :: "execution_context \<Rightarrow> pyval dict" where
  "safe_metadata ctx =
     [(''request_id'', pstr (request_id ctx)),
      (''conversation_id'', pstr (conversation_id ctx)),
      (''actor_id'', pstr (actor_id (ctx_principal ctx))),
      (''actor_type'', pstr (actor_type_value (actor_kind (ctx_principal ctx)))),
      (''principal_type'', pstr (principal_type_value (principal_kind (ctx_principal ctx)))),
      (''tenant_id'', pstr (ctx_tenant ctx)),
      (''roles'', PList (map pstr (roles (ctx_principal ctx)))),
      (''effective_customer_id'', PInt (effective_customer ctx))]"

text \<open>What a validated context promises, and that validating it again changes nothing.\<close>

lemma context_ok_iff:
  "context_ok ctx \<longleftrightarrow> 0 < effective_customer ctx \<and>
     (\<forall>t. principal_tenant (ctx_principal ctx) = Some t \<longrightarrow> t = ctx_tenant ctx) \<and>
     (actor_kind (ctx_principal ctx) = AT_CUSTOMER \<longrightarrow>
        principal_customer (ctx_principal ctx) = Some (effective_customer ctx))"
proof -
  have "ctx\<lparr>ctx_tenant := u\<rparr> = ctx \<longleftrightarrow> u = ctx_tenant ctx" for u
    by (cases ctx) auto
  then show ?thesis
    by (cases "principal_tenant (ctx_principal ctx)")
       (auto simp: context_ok_def validate_context_def bound_tenant_def Let_def)
qed

lemma validate_context_ok: "validate_context ctx = Inr ctx' \<Longrightarrow> context_ok ctx'"
  unfolding context_ok_iff validate_context_def Let_def
  by (auto split: if_splits)

section \<open>Tables\<close>

record customer_row =
  cu_id :: int
  cu_tenant :: string
  cu_name :: ustr
  cu_email :: ustr
  cu_created :: string

record order_row =
  or_id :: int
  or_tenant :: string
  or_customer :: int
  or_status :: order_status
  or_total :: string
  or_created :: string

record ticket_row =
  ti_id :: int
  ti_tenant :: string
  ti_customer :: int
  ti_order :: "int option"
  ti_category :: ustr
  ti_status :: ticket_status
  ti_description :: ustr
  ti_created :: string

record refund_row =
  rf_id :: int
  rf_tenant :: string
  rf_customer :: int
  rf_order :: int
  rf_reason :: ustr
  rf_status :: refund_status
  rf_created :: string

record escalation_row =
  es_id :: int
  es_tenant :: string
  es_customer :: int
  es_ticket :: "int option"
  es_order :: "int option"
  es_reason :: ustr
  es_priority :: priority
  es_summary :: ustr
  es_status :: escalation_status
  es_created :: string

record receipt_row =
  rc_tenant :: string
  rc_actor :: string
  rc_operation :: string
  rc_key :: string
  rc_customer :: int
  rc_fingerprint :: string
  rc_result :: int

record store =
  customers :: "customer_row list"
  orders :: "order_row list"
  tickets :: "ticket_row list"
  refunds :: "refund_row list"
  escalations :: "escalation_row list"
  receipts :: "receipt_row list"

definition active_refund :: "refund_row \<Rightarrow> bool" where
  "active_refund r \<longleftrightarrow> rf_status r \<in> {RS_REQUESTED, RS_APPROVED, RS_PROCESSING}"

section \<open>Responses\<close>

text \<open>\<open>model_dump(mode="json")\<close> of the response models.\<close>

definition popt :: "int option \<Rightarrow> pyval" where
  "popt x = (case x of None \<Rightarrow> PNone | Some i \<Rightarrow> PInt i)"

definition dump_customer :: "customer_row \<Rightarrow> pyval dict" where
  "dump_customer c = [(''id'', PInt (cu_id c)), (''name'', PStr (cu_name c)),
     (''email'', PStr (cu_email c)), (''created_at'', pstr (cu_created c))]"

definition dump_order :: "order_row \<Rightarrow> pyval dict" where
  "dump_order r = [(''id'', PInt (or_id r)), (''customer_id'', PInt (or_customer r)),
     (''status'', pstr (order_status_value (or_status r))), (''total_amount'', pstr (or_total r)),
     (''created_at'', pstr (or_created r))]"

definition dump_ticket :: "ticket_row \<Rightarrow> pyval dict" where
  "dump_ticket t = [(''id'', PInt (ti_id t)), (''customer_id'', PInt (ti_customer t)),
     (''order_id'', popt (ti_order t)), (''category'', PStr (ti_category t)),
     (''status'', pstr (ticket_status_value (ti_status t))),
     (''description'', PStr (ti_description t)), (''created_at'', pstr (ti_created t))]"

definition dump_refund :: "refund_row \<Rightarrow> pyval dict" where
  "dump_refund r = [(''id'', PInt (rf_id r)), (''customer_id'', PInt (rf_customer r)),
     (''order_id'', PInt (rf_order r)), (''reason'', PStr (rf_reason r)),
     (''status'', pstr (refund_status_value (rf_status r))), (''created_at'', pstr (rf_created r))]"

definition dump_escalation :: "escalation_row \<Rightarrow> pyval dict" where
  "dump_escalation e = [(''id'', PInt (es_id e)), (''customer_id'', PInt (es_customer e)),
     (''ticket_id'', popt (es_ticket e)), (''order_id'', popt (es_order e)),
     (''reason'', PStr (es_reason e)), (''priority'', pstr (priority_value (es_priority e))),
     (''summary'', PStr (es_summary e)), (''status'', pstr (escalation_status_value (es_status e))),
     (''created_at'', pstr (es_created e))]"

text \<open>What a tool returns; a cancellation has its own output model.\<close>

datatype tool_output =
    CustomerOut customer_row
  | OrderOut order_row
  | OrdersOut "order_row list"
  | TicketOut ticket_row
  | TicketsOut "ticket_row list"
  | RefundOut refund_row
  | EscalationOut escalation_row
  | CancelOut int int order_status bool string

text \<open>\<open>serialise_result\<close> (nodes/common.py): a model is dumped, a list becomes \<open>items\<close>.\<close>

fun serialise_result :: "tool_output \<Rightarrow> pyval dict" where
  "serialise_result (CustomerOut c) = dump_customer c"
| "serialise_result (OrderOut r) = dump_order r"
| "serialise_result (OrdersOut rs) = [(''items'', PList (map (PDict \<circ> dump_order) rs))]"
| "serialise_result (TicketOut t) = dump_ticket t"
| "serialise_result (TicketsOut ts) = [(''items'', PList (map (PDict \<circ> dump_ticket) ts))]"
| "serialise_result (RefundOut r) = dump_refund r"
| "serialise_result (EscalationOut e) = dump_escalation e"
| "serialise_result (CancelOut i c s changed m) =
     [(''order_id'', PInt i), (''customer_id'', PInt c), (''status'', pstr (order_status_value s)),
      (''changed'', PBool changed), (''message'', pstr m)]"

end
