(* ===== verification/Store.thy ===== *)
theory Store
  imports Domain
begin

text \<open>
  The business database as the tools use it: reads by id and tenant, inserts that are checked by the
  unique constraints at flush, savepoints and commit, and the idempotency receipts of
  services/idempotency.py.

  What the database engine and the operating environment decide is a record of parameters: the ids
  it allocates, its clock, the SHA-256 fingerprint of a payload, what other transactions commit
  while this one runs, and whether a commit fails. Foreign keys are not checked: every insert below
  follows a lookup of the rows it refers to.
\<close>

record db =
  new_ticket_id :: "store \<Rightarrow> int"
  new_refund_id :: "store \<Rightarrow> int"
  new_escalation_id :: "store \<Rightarrow> int"
  now_text :: "store \<Rightarrow> string"
  fingerprint :: "pyval dict \<Rightarrow> string"
  others :: "store \<Rightarrow> store"
  commit_fault :: "store \<Rightarrow> (exn \<times> bool) option"

section \<open>Reads (services/customer_service.py, order_service.py, ticket_service.py)\<close>

definition find_customer :: "store \<Rightarrow> int \<Rightarrow> string \<Rightarrow> customer_row option" where
  "find_customer st i t = find (\<lambda>c. cu_id c = i \<and> cu_tenant c = t) (customers st)"

definition find_customer_for_scope ::
  "store \<Rightarrow> int \<Rightarrow> int \<Rightarrow> string \<Rightarrow> customer_row option" where
  "find_customer_for_scope st i scope t =
     find (\<lambda>c. cu_id c = i \<and> cu_id c = scope \<and> cu_tenant c = t) (customers st)"

definition customer_orders :: "store \<Rightarrow> int \<Rightarrow> string \<Rightarrow> order_row list" where
  "customer_orders st i t =
     sort_key or_id (filter (\<lambda>r. or_customer r = i \<and> or_tenant r = t) (orders st))"

definition customer_tickets :: "store \<Rightarrow> int \<Rightarrow> string \<Rightarrow> ticket_row list" where
  "customer_tickets st i t =
     sort_key ti_id (filter (\<lambda>r. ti_customer r = i \<and> ti_tenant r = t) (tickets st))"

definition find_order :: "store \<Rightarrow> int \<Rightarrow> string \<Rightarrow> order_row option" where
  "find_order st i t = find (\<lambda>r. or_id r = i \<and> or_tenant r = t) (orders st)"

definition find_order_for_customer :: "store \<Rightarrow> int \<Rightarrow> int \<Rightarrow> string \<Rightarrow> order_row option" where
  "find_order_for_customer st i c t =
     find (\<lambda>r. or_id r = i \<and> or_customer r = c \<and> or_tenant r = t) (orders st)"

definition find_ticket :: "store \<Rightarrow> int \<Rightarrow> string \<Rightarrow> ticket_row option" where
  "find_ticket st i t = find (\<lambda>r. ti_id r = i \<and> ti_tenant r = t) (tickets st)"

definition find_ticket_for_customer :: "store \<Rightarrow> int \<Rightarrow> int \<Rightarrow> string \<Rightarrow> ticket_row option" where
  "find_ticket_for_customer st i c t =
     find (\<lambda>r. ti_id r = i \<and> ti_customer r = c \<and> ti_tenant r = t) (tickets st)"

definition find_refund :: "store \<Rightarrow> int \<Rightarrow> string \<Rightarrow> refund_row option" where
  "find_refund st i t = find (\<lambda>r. rf_id r = i \<and> rf_tenant r = t) (refunds st)"

definition find_escalation :: "store \<Rightarrow> int \<Rightarrow> string \<Rightarrow> escalation_row option" where
  "find_escalation st i t = find (\<lambda>r. es_id r = i \<and> es_tenant r = t) (escalations st)"

section \<open>Writes\<close>

text \<open>
  A write reaches the database at \<open>flush\<close>: rows committed meanwhile by other transactions are seen by
  the constraints, and a violated unique index raises \<open>IntegrityError\<close>.
\<close>

definition flush_ticket :: "db \<Rightarrow> ticket_row \<Rightarrow> store \<Rightarrow> (exn + ticket_row) \<times> store" where
  "flush_ticket d r st =
     (let st1 = others d st in (Inr r, st1\<lparr>tickets := tickets st1 @ [r]\<rparr>))"

definition flush_escalation ::
  "db \<Rightarrow> escalation_row \<Rightarrow> store \<Rightarrow> (exn + escalation_row) \<times> store" where
  "flush_escalation d r st =
     (let st1 = others d st in (Inr r, st1\<lparr>escalations := escalations st1 @ [r]\<rparr>))"

definition refund_conflict :: "refund_row \<Rightarrow> store \<Rightarrow> bool" where
  "refund_conflict r st \<longleftrightarrow>
     active_refund r \<and>
     (\<exists>q \<in> set (refunds st). active_refund q \<and> rf_tenant q = rf_tenant r \<and> rf_order q = rf_order r)"

definition flush_refund :: "db \<Rightarrow> refund_row \<Rightarrow> store \<Rightarrow> (exn + refund_row) \<times> store" where
  "flush_refund d r st =
     (let st1 = others d st in
      if refund_conflict r st1 then (Inl IntegrityError, st1)
      else (Inr r, st1\<lparr>refunds := refunds st1 @ [r]\<rparr>))"

text \<open>Setting the status of an order, by primary key.\<close>

definition set_order_status :: "int \<Rightarrow> order_status \<Rightarrow> store \<Rightarrow> store" where
  "set_order_status i s st =
     st\<lparr>orders := map (\<lambda>r. if or_id r = i then r\<lparr>or_status := s\<rparr> else r) (orders st)\<rparr>"

section \<open>Idempotency receipts (services/idempotency.py)\<close>

record idempotency_scope =
  sc_actor :: string
  sc_key :: string
  sc_tenant :: string

definition make_scope :: "string \<Rightarrow> string \<Rightarrow> string \<Rightarrow> exn + idempotency_scope" where
  "make_scope actor key tenant =
     (if 1 \<le> length actor \<and> length actor \<le> 200 \<and> 8 \<le> length key \<and> length key \<le> 200 \<and>
         1 \<le> length tenant \<and> length tenant \<le> 200
      then Inr \<lparr>sc_actor = actor, sc_key = key, sc_tenant = tenant\<rparr>
      else Inl PydanticValidationError)"

definition receipt_for :: "idempotency_scope \<Rightarrow> string \<Rightarrow> receipt_row \<Rightarrow> bool" where
  "receipt_for sc operation r \<longleftrightarrow>
     rc_actor r = sc_actor sc \<and> rc_tenant r = sc_tenant sc \<and> rc_operation r = operation \<and>
     rc_key r = sc_key sc"

definition get_receipt :: "store \<Rightarrow> idempotency_scope \<Rightarrow> string \<Rightarrow> receipt_row option" where
  "get_receipt st sc operation = find (receipt_for sc operation) (receipts st)"

definition validate_receipt :: "receipt_row \<Rightarrow> int \<Rightarrow> string \<Rightarrow> exn + unit" where
  "validate_receipt r customer f =
     (if rc_customer r \<noteq> customer \<or> rc_fingerprint r \<noteq> f
      then Inl (DuplicateActionError ''Idempotency key was already used for a different request'')
      else Inr ())"

definition flush_receipt :: "db \<Rightarrow> receipt_row \<Rightarrow> store \<Rightarrow> (exn + unit) \<times> store" where
  "flush_receipt d r st =
     (let st1 = others d st in
      if \<exists>q \<in> set (receipts st1). rc_tenant q = rc_tenant r \<and> rc_actor q = rc_actor r \<and>
            rc_operation q = rc_operation r \<and> rc_key q = rc_key r
      then (Inl IntegrityError, st1)
      else (Inr (), st1\<lparr>receipts := receipts st1 @ [r]\<rparr>))"

type_synonym 'a business = "store \<Rightarrow> (exn + 'a) \<times> store"

text \<open>
  \<open>execute_idempotent\<close>. The block \<open>begin_nested\<close> is a savepoint: when it fails the session falls back
  to the rows it had, with what the other transactions committed meanwhile.
\<close>

definition replay_receipt ::
  "receipt_row \<Rightarrow> int \<Rightarrow> string \<Rightarrow> (int \<Rightarrow> store \<Rightarrow> exn + 'a) \<Rightarrow> store \<Rightarrow> (exn + 'a) \<times> store" where
  "replay_receipt r customer f load st =
     (and_then (validate_receipt r customer f) (\<lambda>_. load (rc_result r) st), st)"

definition nested_action ::
  "db \<Rightarrow> idempotency_scope \<Rightarrow> string \<Rightarrow> int \<Rightarrow> string \<Rightarrow> ('a \<times> int) business \<Rightarrow> 'a business" where
  "nested_action d sc operation customer f perform st =
     (case perform st of
        (Inl x, st1) \<Rightarrow> (Inl x, others d st)
      | (Inr (a, i), st1) \<Rightarrow>
          (case flush_receipt d \<lparr>rc_tenant = sc_tenant sc, rc_actor = sc_actor sc,
                  rc_operation = operation, rc_key = sc_key sc, rc_customer = customer,
                  rc_fingerprint = f, rc_result = i\<rparr> st1 of
             (Inl x, st2) \<Rightarrow> (Inl x, others d st)
           | (Inr u, st2) \<Rightarrow> (Inr a, st2)))"

definition execute_idempotent ::
  "db \<Rightarrow> idempotency_scope \<Rightarrow> string \<Rightarrow> int \<Rightarrow> pyval dict \<Rightarrow> ('a \<times> int) business \<Rightarrow>
     (int \<Rightarrow> store \<Rightarrow> exn + 'a) \<Rightarrow> 'a business" where
  "execute_idempotent d sc operation customer payload perform load st =
     (let f = fingerprint d payload in
      case get_receipt st sc operation of
        Some r \<Rightarrow> replay_receipt r customer f load st
      | None \<Rightarrow>
          (case nested_action d sc operation customer f perform st of
             (Inr a, st1) \<Rightarrow> (Inr a, st1)
           | (Inl x, st1) \<Rightarrow>
               if x = IntegrityError then
                 (case get_receipt st1 sc operation of
                    None \<Rightarrow> (Inl IntegrityError, st1)
                  | Some r \<Rightarrow> replay_receipt r customer f load st1)
               else (Inl x, st1)))"

section \<open>Commit\<close>

text \<open>
  A session is its view of the rows and what is durable. A commit that fails may have been applied or
  not; \<open>commit_business_write\<close> reports a lost connection as a write of unknown outcome. After a rollback
  a new transaction starts from the durable rows, with what others committed meanwhile.
\<close>

record session =
  work :: store
  durable :: store

definition commit :: "db \<Rightarrow> session \<Rightarrow> (exn + unit) \<times> session" where
  "commit d ss =
     (case commit_fault d (work ss) of
        None \<Rightarrow> (Inr (), ss\<lparr>durable := work ss\<rparr>)
      | Some (x, applied) \<Rightarrow> (Inl x, if applied then ss\<lparr>durable := work ss\<rparr> else ss))"

definition rollback :: "db \<Rightarrow> session \<Rightarrow> session" where
  "rollback d ss = (let st = others d (durable ss) in ss\<lparr>work := st, durable := st\<rparr>)"

fun connection_invalidated :: "exn \<Rightarrow> bool" where
  "connection_invalidated (OtherDBAPIError b) = b"
| "connection_invalidated _ = False"

definition commit_business_write :: "db \<Rightarrow> string \<Rightarrow> session \<Rightarrow> (exn + unit) \<times> session" where
  "commit_business_write d operation ss =
     (case commit d ss of
        (Inr u, ss') \<Rightarrow> (Inr u, ss')
      | (Inl x, ss') \<Rightarrow>
          if x = PyTimeoutError \<or> x = OperationalError \<or> connection_invalidated x
          then (Inl (UnknownWriteOutcomeError operation), ss') else (Inl x, ss'))"

end
