(* ===== verification/Store_Laws.thy ===== *)
theory Store_Laws
  imports Store
begin

text \<open>
  What the database promises the tools: the invariant of its unique indexes, what may change under a
  session's feet, and the contract of an idempotent action as a locale. The four write tools
  interpret the locale in the theory \<open>Tools\<close>.
\<close>

section \<open>The invariant of the unique indexes\<close>

definition receipt_key :: "receipt_row \<Rightarrow> string \<times> string \<times> string \<times> string" where
  "receipt_key r = (rc_tenant r, rc_actor r, rc_operation r, rc_key r)"

definition refund_target :: "refund_row \<Rightarrow> string \<times> int" where
  "refund_target r = (rf_tenant r, rf_order r)"

definition store_ok :: "store \<Rightarrow> bool" where
  "store_ok st \<longleftrightarrow> distinct (map receipt_key (receipts st)) \<and>
     distinct (map refund_target (filter active_refund (refunds st)))"

lemma store_ok_cong:
  "receipts st' = receipts st \<Longrightarrow> refunds st' = refunds st \<Longrightarrow> store_ok st' = store_ok st"
  by (simp add: store_ok_def)

text \<open>Two active refunds of one order are one and the same row.\<close>

lemma one_active_refund:
  assumes "store_ok st" and "r \<in> set (refunds st)" "q \<in> set (refunds st)"
    and "active_refund r" "active_refund q" and "refund_target r = refund_target q"
  shows "r = q"
  using assms by (auto simp: store_ok_def distinct_map dest: inj_onD)

section \<open>Rows that stay\<close>

text \<open>
  \<open>keeps st st'\<close>: receipts are only added, and a row found by id and tenant is still found. Nothing in
  the program deletes a row; the environment is assumed not to either, and to respect the indexes.
\<close>

definition keeps :: "store \<Rightarrow> store \<Rightarrow> bool" where
  "keeps st st' \<longleftrightarrow>
     (\<exists>rs. receipts st' = receipts st @ rs) \<and>
     (\<forall>i t. (find_order st i t \<noteq> None \<longrightarrow> find_order st' i t \<noteq> None) \<and>
            (find_ticket st i t \<noteq> None \<longrightarrow> find_ticket st' i t \<noteq> None) \<and>
            (find_refund st i t \<noteq> None \<longrightarrow> find_refund st' i t \<noteq> None) \<and>
            (find_escalation st i t \<noteq> None \<longrightarrow> find_escalation st' i t \<noteq> None))"

definition others_ok :: "db \<Rightarrow> bool" where
  "others_ok d \<longleftrightarrow> (\<forall>st. keeps st (others d st) \<and> (store_ok st \<longrightarrow> store_ok (others d st)))"

lemma keeps_refl [simp, intro]: "keeps st st"
  by (simp add: keeps_def)

lemma keeps_trans: "keeps a b \<Longrightarrow> keeps b c \<Longrightarrow> keeps a c"
  unfolding keeps_def by (metis append.assoc)

lemma keeps_others [intro]: "others_ok d \<Longrightarrow> keeps st (others d st)"
  by (simp add: others_ok_def)

lemma store_ok_others [intro]: "others_ok d \<Longrightarrow> store_ok st \<Longrightarrow> store_ok (others d st)"
  by (simp add: others_ok_def)

lemma keeps_receipt:
  "keeps st st' \<Longrightarrow> get_receipt st sc operation = Some r \<Longrightarrow> get_receipt st' sc operation = Some r"
  by (auto simp: keeps_def get_receipt_def find_append_hit)

lemma keeps_append [intro]:
  "keeps st (st\<lparr>tickets := tickets st @ ts\<rparr>)"
  "keeps st (st\<lparr>refunds := refunds st @ fs\<rparr>)"
  "keeps st (st\<lparr>escalations := escalations st @ es\<rparr>)"
  "keeps st (st\<lparr>receipts := receipts st @ rs\<rparr>)"
  by (auto simp: keeps_def find_order_def find_ticket_def find_refund_def find_escalation_def
      dest: find_append_hit)

lemma keeps_set_order_status [intro]: "keeps st (set_order_status i s st)"
  by (simp add: keeps_def find_order_def find_ticket_def find_refund_def find_escalation_def
      set_order_status_def find_map_kept)

section \<open>Flushing\<close>

lemma flush_keeps:
  assumes "others_ok d"
  shows "flush_ticket d r1 st = (q1, st') \<Longrightarrow> keeps st st'"
    "flush_escalation d r2 st = (q2, st') \<Longrightarrow> keeps st st'"
    "flush_refund d r3 st = (q3, st') \<Longrightarrow> keeps st st'"
    "flush_receipt d r4 st = (q4, st') \<Longrightarrow> keeps st st'"
  using keeps_others [OF assms, of st]
  by (auto simp: flush_ticket_def flush_escalation_def flush_refund_def flush_receipt_def Let_def
      intro: keeps_trans keeps_append split: if_splits)

lemma flush_store_ok:
  assumes "others_ok d" and "store_ok st"
  shows "flush_ticket d r1 st = (q1, st') \<Longrightarrow> store_ok st'"
    "flush_escalation d r2 st = (q2, st') \<Longrightarrow> store_ok st'"
    "flush_refund d r3 st = (q3, st') \<Longrightarrow> store_ok st'"
    "flush_receipt d r4 st = (q4, st') \<Longrightarrow> store_ok st'"
  using store_ok_others [OF assms]
  by (auto simp: flush_ticket_def flush_escalation_def flush_refund_def flush_receipt_def Let_def
      store_ok_def refund_conflict_def refund_target_def receipt_key_def image_iff split: if_splits)
    blast+

lemma flush_receipt_found:
  assumes "flush_receipt d r st = (Inr u, st')"
  shows "get_receipt st' \<lparr>sc_actor = rc_actor r, sc_key = rc_key r, sc_tenant = rc_tenant r\<rparr>
           (rc_operation r) = Some r"
proof -
  let ?sc = "\<lparr>sc_actor = rc_actor r, sc_key = rc_key r, sc_tenant = rc_tenant r\<rparr>"
  have "find (receipt_for ?sc (rc_operation r)) (receipts (others d st)) = None"
    using assms by (auto simp: flush_receipt_def receipt_for_def find_None_iff Let_def split: if_splits)
  then show ?thesis
    using assms by (auto simp: flush_receipt_def get_receipt_def find_append_miss receipt_for_def Let_def
        split: if_splits)
qed

section \<open>The contract of an idempotent action\<close>

text \<open>A receipt of another request refuses the key, whatever the action.\<close>

lemma conflicting_receipt:
  assumes "get_receipt st sc operation = Some r"
    and "rc_customer r \<noteq> customer \<or> rc_fingerprint r \<noteq> fingerprint d payload"
  shows "execute_idempotent d sc operation customer payload perform load st =
    (Inl (DuplicateActionError ''Idempotency key was already used for a different request''), st)"
  using assms by (auto simp: execute_idempotent_def replay_receipt_def validate_receipt_def)

locale idempotent_action =
  fixes perform :: "db \<Rightarrow> ('a \<times> int) business"
    and load :: "int \<Rightarrow> store \<Rightarrow> exn + 'a"
  assumes perform_keeps: "others_ok d \<Longrightarrow> perform d st = (r, st') \<Longrightarrow> keeps st st'"
    and perform_ok: "others_ok d \<Longrightarrow> store_ok st \<Longrightarrow> perform d st = (r, st') \<Longrightarrow> store_ok st'"
    and perform_load: "others_ok d \<Longrightarrow> perform d st = (Inr (a, i), st') \<Longrightarrow> is_ok (load i st')"
    and load_kept: "is_ok (load i st) \<Longrightarrow> keeps st st' \<Longrightarrow> is_ok (load i st')"
begin

abbreviation run ::
  "db \<Rightarrow> idempotency_scope \<Rightarrow> string \<Rightarrow> int \<Rightarrow> pyval dict \<Rightarrow> store \<Rightarrow> (exn + 'a) \<times> store" where
  "run d sc operation customer payload \<equiv>
     execute_idempotent d sc operation customer payload (perform d) load"

lemma nested_keeps:
  assumes "others_ok d" and "nested_action d sc operation customer f (perform d) st = (r, st')"
  shows "keeps st st'" and "store_ok st \<Longrightarrow> store_ok st'"
  using assms
  by (auto simp: nested_action_def split: prod.splits sum.splits
      intro: keeps_trans perform_keeps flush_keeps flush_store_ok perform_ok)

lemma nested_recorded:
  assumes "others_ok d" and "nested_action d sc operation customer f (perform d) st = (Inr a, st')"
  shows "\<exists>r. get_receipt st' sc operation = Some r \<and> rc_customer r = customer \<and>
           rc_fingerprint r = f \<and> is_ok (load (rc_result r) st')"
proof -
  from assms(2) obtain i st1 where p: "perform d st = (Inr (a, i), st1)"
    and fl: "flush_receipt d \<lparr>rc_tenant = sc_tenant sc, rc_actor = sc_actor sc,
          rc_operation = operation, rc_key = sc_key sc, rc_customer = customer,
          rc_fingerprint = f, rc_result = i\<rparr> st1 = (Inr (), st')"
    by (auto simp: nested_action_def split: prod.splits sum.splits)
  have "is_ok (load i st')"
    using perform_load [OF assms(1) p] flush_keeps(4) [OF assms(1) fl] load_kept by blast
  then show ?thesis using flush_receipt_found [OF fl] by (cases sc) simp
qed

lemma run_keeps:
  assumes "others_ok d" and "run d sc operation customer payload st = (r, st')"
  shows "keeps st st'"
  using assms nested_keeps(1) [OF assms(1)]
  by (fastforce simp: execute_idempotent_def replay_receipt_def Let_def
      split: option.splits prod.splits sum.splits if_splits)

lemma run_ok:
  assumes "others_ok d" and "run d sc operation customer payload st = (r, st')" and "store_ok st"
  shows "store_ok st'"
  using assms nested_keeps(2) [OF assms(1) _ assms(3)]
  by (fastforce simp: execute_idempotent_def replay_receipt_def Let_def
      split: option.splits prod.splits sum.splits if_splits)

text \<open>A success leaves a receipt of this very request, whose result can be loaded.\<close>

lemma replay_recorded:
  assumes "replay_receipt r customer f load st = (Inr a, st')"
  shows "st' = st \<and> rc_customer r = customer \<and> rc_fingerprint r = f \<and> is_ok (load (rc_result r) st)"
  using assms by (auto simp: replay_receipt_def validate_receipt_def is_ok_iff and_then_Inr_iff
      split: if_splits)

lemma run_recorded:
  assumes "others_ok d" and "run d sc operation customer payload st = (Inr a, st')"
  shows "\<exists>r. get_receipt st' sc operation = Some r \<and> rc_customer r = customer \<and>
           rc_fingerprint r = fingerprint d payload \<and> is_ok (load (rc_result r) st')"
proof (cases "get_receipt st sc operation")
  case (Some r)
  then have "replay_receipt r customer (fingerprint d payload) load st = (Inr a, st')"
    using assms(2) by (simp add: execute_idempotent_def Let_def)
  from replay_recorded [OF this] show ?thesis using Some by blast
next
  case None
  obtain q st1 where n:
    "nested_action d sc operation customer (fingerprint d payload) (perform d) st = (q, st1)"
    by fastforce
  show ?thesis
  proof (cases q)
    case (Inr b)
    then show ?thesis using nested_recorded [OF assms(1), of sc operation customer] n None assms(2)
      by (auto simp: execute_idempotent_def)
  next
    case (Inl x)
    then obtain r where "get_receipt st1 sc operation = Some r"
      and rep: "replay_receipt r customer (fingerprint d payload) load st1 = (Inr a, st')"
      using None n assms(2)
      by (auto simp: execute_idempotent_def Let_def split: if_splits option.splits)
    then show ?thesis using replay_recorded [OF rep] by blast
  qed
qed

text \<open>A repeated request returns without writing.\<close>

lemma run_again:
  assumes "others_ok d" and "run d sc operation customer payload st = (Inr a, st1)"
    and "keeps st1 st2"
  shows "\<exists>b. run d sc operation customer payload st2 = (Inr b, st2)"
proof -
  obtain r where r: "get_receipt st1 sc operation = Some r" "rc_customer r = customer"
      "rc_fingerprint r = fingerprint d payload" "is_ok (load (rc_result r) st1)"
    using run_recorded [OF assms(1,2)] by blast
  have "is_ok (load (rc_result r) st2)" using load_kept [OF r(4) assms(3)] .
  then show ?thesis using keeps_receipt [OF assms(3) r(1)] r(2,3)
    by (auto simp: execute_idempotent_def replay_receipt_def validate_receipt_def is_ok_iff)
qed

end

end
