(* ===== verification/Tools.thy ===== *)
theory Tools
  imports Store_Laws
begin

text \<open>
  The business tools (tools/*.py), their registry and the adapters that bind them to an execution
  context (agent/tool_catalog.py). Input models validate a dictionary of dynamic values: the lax
  conversions of the validation library are the parameter \<open>coercion\<close>, the field constraints are
  written out.
\<close>

section \<open>Input models\<close>

record coercion =
  as_int :: "pyval \<Rightarrow> int option"
  as_text :: "pyval \<Rightarrow> ustr option"

text \<open>What validation is relied on to do: an integer and a string are taken as they are.\<close>

definition coercion_ok :: "coercion \<Rightarrow> bool" where
  "coercion_ok co \<longleftrightarrow> (\<forall>n. as_int co (PInt n) = Some n) \<and> (\<forall>s. as_text co (PStr s) = Some s)"

datatype input_model =
    GetCustomerInput
  | GetOrderInput
  | GetTicketInput
  | CreateSupportTicketInput
  | CancelOrderInput
  | RequestRefundInput
  | EscalateToHumanInput

text \<open>Their instances, with the fields in the order of the classes.\<close>

datatype tool_input =
    GetCustomerArgs int
  | GetOrderArgs int int
  | GetTicketArgs int int
  | CreateTicketArgs int "int option" ustr ustr
  | CancelArgs int int
  | RefundArgs int int ustr
  | EscalateArgs int "int option" "int option" ustr priority ustr

definition field_pos :: "coercion \<Rightarrow> pyval dict \<Rightarrow> string \<Rightarrow> exn + int" where
  "field_pos co args k =
     (case dget args k of
        None \<Rightarrow> Inl PydanticValidationError
      | Some v \<Rightarrow>
          (case as_int co v of
             None \<Rightarrow> Inl PydanticValidationError
           | Some n \<Rightarrow> if n > 0 then Inr n else Inl PydanticValidationError))"

definition field_pos_opt :: "coercion \<Rightarrow> pyval dict \<Rightarrow> string \<Rightarrow> exn + int option" where
  "field_pos_opt co args k =
     (case dget args k of
        None \<Rightarrow> Inr None
      | Some PNone \<Rightarrow> Inr None
      | Some v \<Rightarrow> and_then (field_pos co args k) (\<lambda>n. Inr (Some n)))"

definition field_text :: "coercion \<Rightarrow> pyval dict \<Rightarrow> string \<Rightarrow> nat \<Rightarrow> exn + ustr" where
  "field_text co args k hi =
     (case dget args k of
        None \<Rightarrow> Inl PydanticValidationError
      | Some v \<Rightarrow>
          (case as_text co v of
             None \<Rightarrow> Inl PydanticValidationError
           | Some s \<Rightarrow> if 1 \<le> length s \<and> length s \<le> hi then Inr s else Inl PydanticValidationError))"

definition field_priority :: "coercion \<Rightarrow> pyval dict \<Rightarrow> string \<Rightarrow> exn + priority" where
  "field_priority co args k =
     (case dget args k of
        None \<Rightarrow> Inl PydanticValidationError
      | Some v \<Rightarrow>
          (case Option.bind (as_text co v) (enum_of_text priority_value all_priorities) of
             None \<Rightarrow> Inl PydanticValidationError
           | Some p \<Rightarrow> Inr p))"

fun validate_input :: "coercion \<Rightarrow> input_model \<Rightarrow> pyval dict \<Rightarrow> exn + tool_input" where
  "validate_input co GetCustomerInput a =
     and_then (field_pos co a ''customer_id'') (\<lambda>c. Inr (GetCustomerArgs c))"
| "validate_input co GetOrderInput a =
     and_then (field_pos co a ''order_id'') (\<lambda>i.
     and_then (field_pos co a ''customer_id'') (\<lambda>c. Inr (GetOrderArgs i c)))"
| "validate_input co GetTicketInput a =
     and_then (field_pos co a ''ticket_id'') (\<lambda>i.
     and_then (field_pos co a ''customer_id'') (\<lambda>c. Inr (GetTicketArgs i c)))"
| "validate_input co CreateSupportTicketInput a =
     and_then (field_pos co a ''customer_id'') (\<lambda>c.
     and_then (field_pos_opt co a ''order_id'') (\<lambda>i.
     and_then (field_text co a ''category'' 100) (\<lambda>k.
     and_then (field_text co a ''description'' 5000) (\<lambda>t. Inr (CreateTicketArgs c i k t)))))"
| "validate_input co CancelOrderInput a =
     and_then (field_pos co a ''customer_id'') (\<lambda>c.
     and_then (field_pos co a ''order_id'') (\<lambda>i. Inr (CancelArgs c i)))"
| "validate_input co RequestRefundInput a =
     and_then (field_pos co a ''customer_id'') (\<lambda>c.
     and_then (field_pos co a ''order_id'') (\<lambda>i.
     and_then (field_text co a ''reason'' 2000) (\<lambda>r. Inr (RefundArgs c i r))))"
| "validate_input co EscalateToHumanInput a =
     and_then (field_pos co a ''customer_id'') (\<lambda>c.
     and_then (field_pos_opt co a ''ticket_id'') (\<lambda>t.
     and_then (field_pos_opt co a ''order_id'') (\<lambda>i.
     and_then (field_text co a ''reason'' 2000) (\<lambda>r.
     and_then (field_priority co a ''priority'') (\<lambda>p.
     and_then (field_text co a ''summary'' 5000) (\<lambda>s. Inr (EscalateArgs c t i r p s)))))))"

text \<open>\<open>model_dump(mode="json")\<close>.\<close>

fun dump_input :: "tool_input \<Rightarrow> pyval dict" where
  "dump_input (GetCustomerArgs c) = [(''customer_id'', PInt c)]"
| "dump_input (GetOrderArgs i c) = [(''order_id'', PInt i), (''customer_id'', PInt c)]"
| "dump_input (GetTicketArgs i c) = [(''ticket_id'', PInt i), (''customer_id'', PInt c)]"
| "dump_input (CreateTicketArgs c i k t) =
     [(''customer_id'', PInt c), (''order_id'', popt i), (''category'', PStr k),
      (''description'', PStr t)]"
| "dump_input (CancelArgs c i) = [(''customer_id'', PInt c), (''order_id'', PInt i)]"
| "dump_input (RefundArgs c i r) =
     [(''customer_id'', PInt c), (''order_id'', PInt i), (''reason'', PStr r)]"
| "dump_input (EscalateArgs c t i r p s) =
     [(''customer_id'', PInt c), (''ticket_id'', popt t), (''order_id'', popt i),
      (''reason'', PStr r), (''priority'', pstr (priority_value p)), (''summary'', PStr s)]"

fun input_customer :: "tool_input \<Rightarrow> int" where
  "input_customer (GetCustomerArgs c) = c"
| "input_customer (GetOrderArgs i c) = c"
| "input_customer (GetTicketArgs i c) = c"
| "input_customer (CreateTicketArgs c i k t) = c"
| "input_customer (CancelArgs c i) = c"
| "input_customer (RefundArgs c i r) = c"
| "input_customer (EscalateArgs c t i r p s) = c"

section \<open>Reading tools\<close>

definition lookup_or :: "string \<Rightarrow> int \<Rightarrow> 'a option \<Rightarrow> exn + 'a" where
  "lookup_or resource i x =
     (case x of None \<Rightarrow> Inl (ResourceNotFoundError resource i) | Some r \<Rightarrow> Inr r)"

definition get_customer :: "store \<Rightarrow> string \<Rightarrow> int \<Rightarrow> exn + tool_output" where
  "get_customer st tenant c =
     and_then (lookup_or ''Customer'' c (find_customer_for_scope st c c tenant))
       (\<lambda>r. Inr (CustomerOut r))"

definition get_customer_orders :: "store \<Rightarrow> string \<Rightarrow> int \<Rightarrow> exn + tool_output" where
  "get_customer_orders st tenant c =
     and_then (lookup_or ''Customer'' c (find_customer st c tenant))
       (\<lambda>_. Inr (OrdersOut (customer_orders st c tenant)))"

definition get_customer_tickets :: "store \<Rightarrow> string \<Rightarrow> int \<Rightarrow> exn + tool_output" where
  "get_customer_tickets st tenant c =
     and_then (lookup_or ''Customer'' c (find_customer st c tenant))
       (\<lambda>_. Inr (TicketsOut (customer_tickets st c tenant)))"

definition get_order :: "store \<Rightarrow> string \<Rightarrow> int \<Rightarrow> int \<Rightarrow> exn + tool_output" where
  "get_order st tenant i c =
     (case find_order st i tenant of
        Some r \<Rightarrow> if or_customer r \<noteq> c then Inl (OwnershipError ''Order'' i c)
                  else and_then (lookup_or ''Order'' i (find_order_for_customer st i c tenant))
                         (\<lambda>q. Inr (OrderOut q))
      | None \<Rightarrow> and_then (lookup_or ''Order'' i (find_order_for_customer st i c tenant))
                         (\<lambda>q. Inr (OrderOut q)))"

definition get_ticket :: "store \<Rightarrow> string \<Rightarrow> int \<Rightarrow> int \<Rightarrow> exn + tool_output" where
  "get_ticket st tenant i c =
     and_then (lookup_or ''Support ticket'' i (find_ticket_for_customer st i c tenant))
       (\<lambda>r. Inr (TicketOut r))"

section \<open>Cancelling an order\<close>

text \<open>An order that must be owned by the customer, as several tools look it up.\<close>

definition owned_order :: "store \<Rightarrow> string \<Rightarrow> int \<Rightarrow> int \<Rightarrow> exn + order_row" where
  "owned_order st tenant i c =
     (case find_order st i tenant of
        None \<Rightarrow> Inl (ResourceNotFoundError ''Order'' i)
      | Some r \<Rightarrow> if or_customer r \<noteq> c then Inl (OwnershipError ''Order'' i c) else Inr r)"

definition validate_cancel_order :: "store \<Rightarrow> string \<Rightarrow> int \<Rightarrow> int \<Rightarrow> exn + order_row" where
  "validate_cancel_order st tenant c i =
     and_then (owned_order st tenant i c) (\<lambda>r.
       if or_status r \<in> {OS_PENDING, OS_PROCESSING, OS_CANCELLED} then Inr r
       else Inl (InvalidStateTransitionError
              (''Order '' @ dec (or_id r) @ '' cannot be cancelled from status '' @
               order_status_value (or_status r))))"

definition load_cancelled :: "string \<Rightarrow> int \<Rightarrow> store \<Rightarrow> exn + tool_output" where
  "load_cancelled tenant i st =
     and_then (lookup_or ''Order'' i (find_order st i tenant)) (\<lambda>r.
       Inr (CancelOut (or_id r) (or_customer r) (or_status r) False ''Order was already cancelled''))"

definition perform_cancel ::
  "string \<Rightarrow> int \<Rightarrow> int \<Rightarrow> db \<Rightarrow> (tool_output \<times> int) business" where
  "perform_cancel tenant c i d st =
     (case validate_cancel_order st tenant c i of
        Inl x \<Rightarrow> (Inl x, st)
      | Inr r \<Rightarrow>
          if or_status r = OS_CANCELLED
          then (and_then (load_cancelled tenant (or_id r) st) (\<lambda>out. Inr (out, or_id r)), st)
          else (Inr (CancelOut (or_id r) (or_customer r) OS_CANCELLED True ''Order cancelled'', or_id r),
                others d (set_order_status (or_id r) OS_CANCELLED st)))"

definition duplicate_on_conflict :: "string \<Rightarrow> (exn + 'a) \<times> store \<Rightarrow> (exn + 'a) \<times> store" where
  "duplicate_on_conflict m rs =
     (case rs of (r, st) \<Rightarrow> (if r = Inl IntegrityError then Inl (DuplicateActionError m) else r, st))"

definition cancel_order ::
  "db \<Rightarrow> string \<Rightarrow> idempotency_scope \<Rightarrow> int \<Rightarrow> int \<Rightarrow> tool_output business" where
  "cancel_order d tenant sc c i st =
     duplicate_on_conflict ''Cancellation request conflicts with an existing action''
       (execute_idempotent d sc ''cancel_order'' c (dump_input (CancelArgs c i))
          (perform_cancel tenant c i d) (load_cancelled tenant) st)"

section \<open>Requesting a refund\<close>

definition validate_refund_request :: "store \<Rightarrow> string \<Rightarrow> int \<Rightarrow> int \<Rightarrow> exn + unit" where
  "validate_refund_request st tenant c i =
     and_then (owned_order st tenant i c) (\<lambda>r.
       if or_status r \<noteq> OS_DELIVERED
       then Inl (InvalidStateTransitionError
              (''Order '' @ dec (or_id r) @ '' is not eligible for a refund from status '' @
               order_status_value (or_status r)))
       else if find (\<lambda>q. rf_order q = i \<and> rf_tenant q = tenant \<and> active_refund q) (refunds st) \<noteq> None
       then Inl (DuplicateActionError
              (''An active refund request already exists for order '' @ dec (or_id r)))
       else Inr ())"

definition load_refund :: "string \<Rightarrow> int \<Rightarrow> store \<Rightarrow> exn + tool_output" where
  "load_refund tenant i st =
     and_then (lookup_or ''Refund request'' i (find_refund st i tenant)) (\<lambda>r. Inr (RefundOut r))"

definition perform_refund ::
  "string \<Rightarrow> int \<Rightarrow> int \<Rightarrow> ustr \<Rightarrow> db \<Rightarrow> (tool_output \<times> int) business" where
  "perform_refund tenant c i reason d st =
     (case validate_refund_request st tenant c i of
        Inl x \<Rightarrow> (Inl x, st)
      | Inr u \<Rightarrow>
          (case flush_refund d \<lparr>rf_id = new_refund_id d st, rf_tenant = tenant, rf_customer = c,
                  rf_order = i, rf_reason = reason, rf_status = RS_REQUESTED,
                  rf_created = now_text d st\<rparr> st of
             (Inl x, st1) \<Rightarrow> (Inl x, st1)
           | (Inr r, st1) \<Rightarrow> (Inr (RefundOut r, rf_id r), st1)))"

definition request_refund ::
  "db \<Rightarrow> string \<Rightarrow> idempotency_scope \<Rightarrow> int \<Rightarrow> int \<Rightarrow> ustr \<Rightarrow> tool_output business" where
  "request_refund d tenant sc c i reason st =
     duplicate_on_conflict (''An active refund request already exists for order '' @ dec i)
       (execute_idempotent d sc ''request_refund'' c (dump_input (RefundArgs c i reason))
          (perform_refund tenant c i reason d) (load_refund tenant) st)"

section \<open>Tickets and escalations\<close>

definition check_order :: "store \<Rightarrow> string \<Rightarrow> int option \<Rightarrow> int \<Rightarrow> exn + unit" where
  "check_order st tenant i c =
     (case i of None \<Rightarrow> Inr () | Some i \<Rightarrow> and_then (owned_order st tenant i c) (\<lambda>_. Inr ()))"

definition check_ticket :: "store \<Rightarrow> string \<Rightarrow> int option \<Rightarrow> int \<Rightarrow> exn + unit" where
  "check_ticket st tenant i c =
     (case i of
        None \<Rightarrow> Inr ()
      | Some i \<Rightarrow>
          (case find_ticket st i tenant of
             None \<Rightarrow> Inl (ResourceNotFoundError ''Support ticket'' i)
           | Some r \<Rightarrow> if ti_customer r \<noteq> c then Inl (OwnershipError ''Support ticket'' i c) else Inr ()))"

definition load_ticket :: "string \<Rightarrow> int \<Rightarrow> store \<Rightarrow> exn + tool_output" where
  "load_ticket tenant i st =
     and_then (lookup_or ''Support ticket'' i (find_ticket st i tenant)) (\<lambda>r. Inr (TicketOut r))"

definition perform_ticket ::
  "string \<Rightarrow> int \<Rightarrow> int option \<Rightarrow> ustr \<Rightarrow> ustr \<Rightarrow> db \<Rightarrow> (tool_output \<times> int) business" where
  "perform_ticket tenant c i category description d st =
     (case and_then (lookup_or ''Customer'' c (find_customer st c tenant))
             (\<lambda>_. check_order st tenant i c) of
        Inl x \<Rightarrow> (Inl x, st)
      | Inr u \<Rightarrow>
          (case flush_ticket d \<lparr>ti_id = new_ticket_id d st, ti_tenant = tenant, ti_customer = c,
                  ti_order = i, ti_category = category, ti_status = TS_OPEN,
                  ti_description = description, ti_created = now_text d st\<rparr> st of
             (Inl x, st1) \<Rightarrow> (Inl x, st1)
           | (Inr r, st1) \<Rightarrow> (Inr (TicketOut r, ti_id r), st1)))"

definition create_support_ticket ::
  "db \<Rightarrow> string \<Rightarrow> idempotency_scope \<Rightarrow> int \<Rightarrow> int option \<Rightarrow> ustr \<Rightarrow> ustr \<Rightarrow> tool_output business" where
  "create_support_ticket d tenant sc c i category description st =
     execute_idempotent d sc ''create_support_ticket'' c
       (dump_input (CreateTicketArgs c i category description))
       (perform_ticket tenant c i category description d) (load_ticket tenant) st"

definition load_escalation :: "string \<Rightarrow> int \<Rightarrow> store \<Rightarrow> exn + tool_output" where
  "load_escalation tenant i st =
     and_then (lookup_or ''Escalation'' i (find_escalation st i tenant)) (\<lambda>r. Inr (EscalationOut r))"

definition perform_escalation ::
  "string \<Rightarrow> int \<Rightarrow> int option \<Rightarrow> int option \<Rightarrow> ustr \<Rightarrow> priority \<Rightarrow> ustr \<Rightarrow> db \<Rightarrow>
     (tool_output \<times> int) business" where
  "perform_escalation tenant c t i reason p summary d st =
     (case and_then (lookup_or ''Customer'' c (find_customer st c tenant)) (\<lambda>_.
           and_then (check_ticket st tenant t c) (\<lambda>_. check_order st tenant i c)) of
        Inl x \<Rightarrow> (Inl x, st)
      | Inr u \<Rightarrow>
          (case flush_escalation d \<lparr>es_id = new_escalation_id d st, es_tenant = tenant,
                  es_customer = c, es_ticket = t, es_order = i, es_reason = reason,
                  es_priority = p, es_summary = summary, es_status = ES_QUEUED,
                  es_created = now_text d st\<rparr> st of
             (Inl x, st1) \<Rightarrow> (Inl x, st1)
           | (Inr r, st1) \<Rightarrow> (Inr (EscalationOut r, es_id r), st1)))"

definition escalate_to_human ::
  "db \<Rightarrow> string \<Rightarrow> idempotency_scope \<Rightarrow> int \<Rightarrow> int option \<Rightarrow> int option \<Rightarrow> ustr \<Rightarrow> priority \<Rightarrow> ustr \<Rightarrow>
     tool_output business" where
  "escalate_to_human d tenant sc c t i reason p summary st =
     execute_idempotent d sc ''escalate_to_human'' c
       (dump_input (EscalateArgs c t i reason p summary))
       (perform_escalation tenant c t i reason p summary d) (load_escalation tenant) st"

end
