(* ===== verification/Catalog.thy ===== *)
theory Catalog
  imports Tools
begin

text \<open>
  The tool registry (tools/base.py, tools/registry.py) and the adapters of agent/tool_catalog.py,
  which bind a validated input to the execution context before a business tool runs.
\<close>

section \<open>Risk levels\<close>

datatype risk_level = READ_ONLY | LOW | CONFIRMATION_REQUIRED | HUMAN_HANDLING

fun risk_value :: "risk_level \<Rightarrow> int" where
  "risk_value READ_ONLY = 0"
| "risk_value LOW = 1"
| "risk_value CONFIRMATION_REQUIRED = 2"
| "risk_value HUMAN_HANDLING = 3"

lemma risk_value_inj: "risk_value a = risk_value b \<Longrightarrow> a = b"
  by (cases a; cases b) auto

text \<open>An \<open>IntEnum\<close> is ordered by its values.\<close>

instantiation risk_level :: linorder
begin

definition less_eq_risk_level :: "risk_level \<Rightarrow> risk_level \<Rightarrow> bool" where
  "less_eq_risk_level a b \<longleftrightarrow> risk_value a \<le> risk_value b"

definition less_risk_level :: "risk_level \<Rightarrow> risk_level \<Rightarrow> bool" where
  "less_risk_level a b \<longleftrightarrow> risk_value a < risk_value b"

instance
  by standard (auto simp: less_eq_risk_level_def less_risk_level_def dest: risk_value_inj)

end

section \<open>The registry\<close>

record tool_metadata =
  tool_description :: string
  tool_operation :: operation_type
  tool_risk :: risk_level

definition tool_registry :: "(string \<times> tool_metadata) list" where
  "tool_registry =
     [(''get_customer'', \<lparr>tool_description = ''Retrieve a customer by ID.'',
         tool_operation = OP_READ, tool_risk = READ_ONLY\<rparr>),
      (''get_customer_orders'', \<lparr>tool_description = ''List orders for a customer.'',
         tool_operation = OP_READ, tool_risk = READ_ONLY\<rparr>),
      (''get_order'', \<lparr>tool_description = ''Retrieve an order by ID.'',
         tool_operation = OP_READ, tool_risk = READ_ONLY\<rparr>),
      (''get_customer_tickets'', \<lparr>tool_description = ''List support tickets for a customer.'',
         tool_operation = OP_READ, tool_risk = READ_ONLY\<rparr>),
      (''get_ticket'', \<lparr>tool_description = ''Retrieve a support ticket by ID.'',
         tool_operation = OP_READ, tool_risk = READ_ONLY\<rparr>),
      (''create_support_ticket'', \<lparr>tool_description = ''Create a support ticket.'',
         tool_operation = OP_WRITE, tool_risk = LOW\<rparr>),
      (''cancel_order'', \<lparr>tool_description = ''Cancel an eligible customer order.'',
         tool_operation = OP_WRITE, tool_risk = CONFIRMATION_REQUIRED\<rparr>),
      (''request_refund'', \<lparr>tool_description = ''Request a refund for a delivered order.'',
         tool_operation = OP_WRITE, tool_risk = CONFIRMATION_REQUIRED\<rparr>),
      (''escalate_to_human'', \<lparr>tool_description = ''Queue a case for human handling.'',
         tool_operation = OP_WRITE, tool_risk = HUMAN_HANDLING\<rparr>)]"

definition get_tool :: "string \<Rightarrow> tool_metadata option" where
  "get_tool name = map_of tool_registry name"

section \<open>The catalogue\<close>

definition tool_definitions :: "(string \<times> input_model) list" where
  "tool_definitions =
     [(''get_customer'', GetCustomerInput), (''get_customer_orders'', GetCustomerInput),
      (''get_order'', GetOrderInput), (''get_customer_tickets'', GetCustomerInput),
      (''get_ticket'', GetTicketInput), (''create_support_ticket'', CreateSupportTicketInput),
      (''cancel_order'', CancelOrderInput), (''request_refund'', RequestRefundInput),
      (''escalate_to_human'', EscalateToHumanInput)]"

text \<open>\<open>get_agent_tool_definition\<close>, by its input model.\<close>

definition get_agent_tool_definition :: "string \<Rightarrow> input_model option" where
  "get_agent_tool_definition name =
     (if get_tool name = None then None else map_of tool_definitions name)"

lemmas catalog_defs = get_agent_tool_definition_def get_tool_def tool_registry_def tool_definitions_def

definition is_write_tool :: "string \<Rightarrow> bool" where
  "is_write_tool name \<longleftrightarrow>
     (case get_tool name of None \<Rightarrow> False | Some m \<Rightarrow> tool_operation m = OP_WRITE)"

text \<open>\<open>_scoped\<close>: the input must name the customer of the context.\<close>

definition scoped :: "execution_context \<Rightarrow> tool_input \<Rightarrow> exn + tool_input" where
  "scoped ctx inp =
     (if input_customer inp \<noteq> effective_customer ctx
      then Inl (OwnershipError ''Customer scope'' (input_customer inp) (effective_customer ctx))
      else Inr inp)"

definition require_idempotency :: "idempotency_scope option \<Rightarrow> exn + idempotency_scope" where
  "require_idempotency sc = (case sc of None \<Rightarrow> Inl PyValueError | Some s \<Rightarrow> Inr s)"

definition with_scope :: "idempotency_scope option \<Rightarrow> (idempotency_scope \<Rightarrow> 'a business) \<Rightarrow> 'a business" where
  "with_scope sc f st =
     (case require_idempotency sc of Inl x \<Rightarrow> (Inl x, st) | Inr s \<Rightarrow> f s st)"

text \<open>
  \<open>AgentToolDefinition.execute\<close>. The three tools on \<open>GetCustomerInput\<close> differ by name; every other
  input model has one tool.
\<close>

definition run_tool ::
  "db \<Rightarrow> execution_context \<Rightarrow> string \<Rightarrow> tool_input \<Rightarrow> idempotency_scope option \<Rightarrow>
     tool_output business" where
  "run_tool d ctx name inp sc st =
     (let tenant = ctx_tenant ctx in
      case scoped ctx inp of
        Inl x \<Rightarrow> (Inl x, st)
      | Inr (GetCustomerArgs c) \<Rightarrow>
          (if name = ''get_customer_orders'' then get_customer_orders st tenant c
           else if name = ''get_customer_tickets'' then get_customer_tickets st tenant c
           else get_customer st tenant c, st)
      | Inr (GetOrderArgs i c) \<Rightarrow> (get_order st tenant i c, st)
      | Inr (GetTicketArgs i c) \<Rightarrow> (get_ticket st tenant i c, st)
      | Inr (CreateTicketArgs c i k t) \<Rightarrow>
          with_scope sc (\<lambda>s. create_support_ticket d tenant s c i k t) st
      | Inr (CancelArgs c i) \<Rightarrow> with_scope sc (\<lambda>s. cancel_order d tenant s c i) st
      | Inr (RefundArgs c i r) \<Rightarrow> with_scope sc (\<lambda>s. request_refund d tenant s c i r) st
      | Inr (EscalateArgs c t i r p s') \<Rightarrow>
          with_scope sc (\<lambda>s. escalate_to_human d tenant s c t i r p s') st)"

fun writes :: "tool_input \<Rightarrow> bool" where
  "writes (CreateTicketArgs c i k t) = True"
| "writes (CancelArgs c i) = True"
| "writes (RefundArgs c i r) = True"
| "writes (EscalateArgs c t i r p s) = True"
| "writes _ = False"

text \<open>The registry's classification agrees with what the tool of that input does.\<close>

lemma registry_complete:
  "get_agent_tool_definition name = Some m \<Longrightarrow> get_tool name \<noteq> None"
  by (auto simp: get_agent_tool_definition_def split: if_splits)

lemma write_tool_iff:
  "is_write_tool name \<longleftrightarrow>
     name \<in> {''create_support_ticket'', ''cancel_order'', ''request_refund'', ''escalate_to_human''}"
  by (simp add: is_write_tool_def get_tool_def tool_registry_def)

lemma validated_writes:
  assumes "get_agent_tool_definition name = Some m" and "validate_input co m args = Inr inp"
  shows "writes inp = is_write_tool name"
proof -
  have "m \<in> {GetCustomerInput, GetOrderInput, GetTicketInput} \<and> \<not> is_write_tool name \<or>
        m \<in> {CreateSupportTicketInput, CancelOrderInput, RequestRefundInput, EscalateToHumanInput} \<and>
        is_write_tool name"
    using assms(1) by (auto simp: catalog_defs is_write_tool_def split: if_splits)
  then show ?thesis using assms(2) by (auto simp: result_simps)
qed

end
