(* ===== verification/Tools_Laws.thy ===== *)
theory Tools_Laws
  imports Catalog
begin

text \<open>
  The contract of the tools: the four write tools are idempotent actions, a failed tool leaves no
  trace, the indexes hold after every tool, reads stay inside the caller's tenant and customer, and
  what exactly a cancellation and a refund change.
\<close>

section \<open>The write tools are idempotent actions\<close>

lemma load_ok_iff:
  "is_ok (load_cancelled t i st) \<longleftrightarrow> find_order st i t \<noteq> None"
  "is_ok (load_refund t i st) \<longleftrightarrow> find_refund st i t \<noteq> None"
  "is_ok (load_ticket t i st) \<longleftrightarrow> find_ticket st i t \<noteq> None"
  "is_ok (load_escalation t i st) \<longleftrightarrow> find_escalation st i t \<noteq> None"
  by (auto simp: load_cancelled_def load_refund_def load_ticket_def load_escalation_def lookup_or_def
      split: option.split)

lemma loads_kept:
  "is_ok (load_cancelled t i st) \<Longrightarrow> keeps st st' \<Longrightarrow> is_ok (load_cancelled t i st')"
  "is_ok (load_refund t i st) \<Longrightarrow> keeps st st' \<Longrightarrow> is_ok (load_refund t i st')"
  "is_ok (load_ticket t i st) \<Longrightarrow> keeps st st' \<Longrightarrow> is_ok (load_ticket t i st')"
  "is_ok (load_escalation t i st) \<Longrightarrow> keeps st st' \<Longrightarrow> is_ok (load_escalation t i st')"
  unfolding load_ok_iff keeps_def by blast+

lemma owned_order_Inr:
  "owned_order st t i c = Inr r \<longleftrightarrow> find_order st i t = Some r \<and> or_customer r = c"
  by (auto simp: owned_order_def split: option.splits if_splits)

lemma find_order_found: "find_order st i t = Some r \<Longrightarrow> r \<in> set (orders st) \<and> or_id r = i \<and> or_tenant r = t"
  by (auto simp: find_order_def dest: find_Some_in)

lemma validate_cancel_Inr:
  "validate_cancel_order st t c i = Inr r \<longleftrightarrow>
     find_order st i t = Some r \<and> or_customer r = c \<and>
     or_status r \<in> {OS_PENDING, OS_PROCESSING, OS_CANCELLED}"
  by (auto simp: validate_cancel_order_def owned_order_Inr and_then_Inr_iff)

lemma set_order_status_store_ok [simp]: "store_ok (set_order_status i s st) = store_ok st"
  by (rule store_ok_cong) (simp_all add: set_order_status_def)

lemma find_order_set_status:
  "find_order (set_order_status j s st) i t =
     map_option (\<lambda>r. if or_id r = j then r\<lparr>or_status := s\<rparr> else r) (find_order st i t)"
  by (simp add: find_order_def set_order_status_def find_map_kept)

interpretation cancel_tool: idempotent_action "perform_cancel t c i" "load_cancelled t"
proof
  fix d st r st' assume d: "others_ok d" and p: "perform_cancel t c i d st = (r, st')"
  show "keeps st st'"
    using p d keeps_trans [OF keeps_set_order_status keeps_others [OF d]]
    by (auto simp: perform_cancel_def split: sum.splits if_splits)
  show "store_ok st \<Longrightarrow> store_ok st'"
    using p d by (auto simp: perform_cancel_def split: sum.splits if_splits)
next
  fix d st a j st' assume d: "others_ok d" and p: "perform_cancel t c i d st = (Inr (a, j), st')"
  have "find_order st' j t \<noteq> None"
  proof -
    obtain r where r: "find_order st i t = Some r" "or_id r = j"
      using p by (auto simp: perform_cancel_def validate_cancel_Inr result_simps
          split: sum.splits if_splits)
    then have "find_order st j t \<noteq> None" using find_order_found [of st i t r] by auto
    moreover have "keeps st st'"
      using p d keeps_trans [OF keeps_set_order_status keeps_others [OF d]]
      by (auto simp: perform_cancel_def split: sum.splits if_splits)
    ultimately show ?thesis unfolding keeps_def by blast
  qed
  then show "is_ok (load_cancelled t j st')" by (simp add: load_ok_iff)
qed (rule loads_kept)

text \<open>A flushed row is found again by its id.\<close>

lemma found_after_append: "P r \<Longrightarrow> find P (xs @ [r]) \<noteq> None"
  by (auto simp: find_None_iff)

lemma flush_loaded:
  "flush_refund d f st = (Inr f', st') \<Longrightarrow> f' = f \<and> is_ok (load_refund (rf_tenant f) (rf_id f) st')"
  "flush_ticket d t st = (Inr t', st') \<Longrightarrow> t' = t \<and> is_ok (load_ticket (ti_tenant t) (ti_id t) st')"
  "flush_escalation d e st = (Inr e', st') \<Longrightarrow>
     e' = e \<and> is_ok (load_escalation (es_tenant e) (es_id e) st')"
  unfolding load_ok_iff flush_refund_def flush_ticket_def flush_escalation_def find_refund_def
    find_ticket_def find_escalation_def Let_def
  using found_after_append [of "\<lambda>r. rf_id r = rf_id f \<and> rf_tenant r = rf_tenant f" f]
    found_after_append [of "\<lambda>r. ti_id r = ti_id t \<and> ti_tenant r = ti_tenant t" t]
    found_after_append [of "\<lambda>r. es_id r = es_id e \<and> es_tenant r = es_tenant e" e]
  by (auto split: if_splits)

lemmas perform_splits = prod.splits sum.splits if_splits
lemmas perform_defs = perform_refund_def perform_ticket_def perform_escalation_def

interpretation refund_tool: idempotent_action "perform_refund t c i reason" "load_refund t"
  by unfold_locales
    (auto simp: perform_defs split: perform_splits intro: flush_keeps flush_store_ok loads_kept
      dest: flush_loaded)

interpretation ticket_tool: idempotent_action "perform_ticket t c i category description" "load_ticket t"
  by unfold_locales
    (auto simp: perform_defs split: perform_splits intro: flush_keeps flush_store_ok loads_kept
      dest: flush_loaded)

interpretation escalation_tool:
  idempotent_action "perform_escalation t c k i reason p summary" "load_escalation t"
  by unfold_locales
    (auto simp: perform_defs split: perform_splits intro: flush_keeps flush_store_ok loads_kept
      dest: flush_loaded)

section \<open>A tool run as an idempotent action\<close>

fun operation_name :: "tool_input \<Rightarrow> string" where
  "operation_name (CreateTicketArgs c i k t) = ''create_support_ticket''"
| "operation_name (CancelArgs c i) = ''cancel_order''"
| "operation_name (RefundArgs c i r) = ''request_refund''"
| "operation_name (EscalateArgs c t i r p s) = ''escalate_to_human''"
| "operation_name _ = []"

definition same_customer :: "execution_context \<Rightarrow> tool_input \<Rightarrow> bool" where
  "same_customer ctx inp \<longleftrightarrow> input_customer inp = effective_customer ctx"

lemma run_tool_scope: "run_tool d ctx name inp sc st = (Inr out, st') \<Longrightarrow> same_customer ctx inp"
  by (auto simp: run_tool_def scoped_def same_customer_def split: if_splits)

lemma run_tool_write:
  assumes "writes inp" and "same_customer ctx inp"
  shows "run_tool d ctx name inp (Some sc) st =
    (case inp of
       CreateTicketArgs c i k t \<Rightarrow> create_support_ticket d (ctx_tenant ctx) sc c i k t st
     | CancelArgs c i \<Rightarrow> cancel_order d (ctx_tenant ctx) sc c i st
     | RefundArgs c i r \<Rightarrow> request_refund d (ctx_tenant ctx) sc c i r st
     | EscalateArgs c t i r p s \<Rightarrow> escalate_to_human d (ctx_tenant ctx) sc c t i r p s st)"
  using assms
  by (cases inp) (auto simp: run_tool_def scoped_def same_customer_def with_scope_def
      require_idempotency_def)

lemma duplicate_Inr_iff:
  "duplicate_on_conflict m q = (Inr a, st) \<longleftrightarrow> q = (Inr a, st)"
  by (auto simp: duplicate_on_conflict_def split: prod.splits)

lemma duplicate_Inl: "duplicate_on_conflict m (Inl (DuplicateActionError n), st) = (Inl (DuplicateActionError n), st)"
  by (simp add: duplicate_on_conflict_def)

lemma duplicate_snd: "snd (duplicate_on_conflict m q) = snd q"
  by (simp add: duplicate_on_conflict_def split: prod.split)

lemmas tool_defs = create_support_ticket_def cancel_order_def request_refund_def escalate_to_human_def

lemma execute_failed_trace:
  "execute_idempotent d sc operation c p perform load st = (Inl x, st') \<Longrightarrow>
     st' = st \<or> st' = others d st"
  by (auto simp: execute_idempotent_def nested_action_def replay_receipt_def Let_def
      split: option.splits prod.splits sum.splits if_splits)

text \<open>Whatever write tool succeeded, its receipt is on file.\<close>

lemma write_tool_recorded:
  assumes "others_ok d" and "writes inp" and "run_tool d ctx name inp (Some sc) st = (Inr out, st1)"
  shows "\<exists>r. get_receipt st1 sc (operation_name inp) = Some r \<and>
           rc_customer r = effective_customer ctx \<and> rc_fingerprint r = fingerprint d (dump_input inp)"
proof -
  note scope = run_tool_scope [OF assms(3)]
  note run = assms(3) [unfolded run_tool_write [OF assms(2) scope]]
  show ?thesis
    using assms(2) run scope
    by (cases inp) (auto simp: tool_defs duplicate_Inr_iff same_customer_def
        dest!: ticket_tool.run_recorded [OF assms(1)] cancel_tool.run_recorded [OF assms(1)]
          refund_tool.run_recorded [OF assms(1)] escalation_tool.run_recorded [OF assms(1)])
qed

text \<open>Reading a field back from a dump, and what a validated field satisfies.\<close>

lemma field_put:
  assumes "coercion_ok co"
  shows "dget a k = Some (PInt n) \<Longrightarrow> 0 < n \<Longrightarrow> field_pos co a k = Inr n"
    "dget a k = Some (popt x) \<Longrightarrow> (\<forall>n. x = Some n \<longrightarrow> 0 < n) \<Longrightarrow> field_pos_opt co a k = Inr x"
    "dget a k = Some (PStr s) \<Longrightarrow> Suc 0 \<le> length s \<and> length s \<le> hi \<Longrightarrow> field_text co a k hi = Inr s"
    "dget a k = Some (pstr (priority_value p)) \<Longrightarrow> field_priority co a k = Inr p"
  using assms priority_enum.of_text_Some [of "lit (priority_value p)" p]
  by (auto simp: coercion_ok_def field_pos_def field_pos_opt_def field_text_def field_priority_def
      popt_def split: option.splits)

lemma field_got:
  "field_pos co a k = Inr n \<Longrightarrow> 0 < n"
  "field_pos_opt co a k = Inr x \<Longrightarrow> (\<forall>n. x = Some n \<longrightarrow> 0 < n)"
  "field_text co a k hi = Inr t \<Longrightarrow> Suc 0 \<le> length t \<and> length t \<le> hi"
  by (auto simp: field_pos_def field_pos_opt_def field_text_def and_then_Inr_iff
      split: option.splits if_splits pyval.splits)

section \<open>A concrete database\<close>

text \<open>One customer with two orders, alone on its database; used to apply the theorems.\<close>

definition demo_db :: db where
  "demo_db = \<lparr>new_ticket_id = (\<lambda>st. int (length (tickets st)) + 1),
     new_refund_id = (\<lambda>st. int (length (refunds st)) + 1),
     new_escalation_id = (\<lambda>st. int (length (escalations st)) + 1), now_text = (\<lambda>_. ''2026-01-01''),
     fingerprint = (\<lambda>p. if pget p ''order_id'' = PInt 1 then ''one'' else ''other''),
     others = (\<lambda>st. st), commit_fault = (\<lambda>_. None)\<rparr>"

definition demo_store :: store where
  "demo_store = \<lparr>customers = [\<lparr>cu_id = 7, cu_tenant = ''default'', cu_name = lit ''Ada'',
       cu_email = lit ''ada@example.com'', cu_created = ''2026-01-01''\<rparr>],
     orders = [\<lparr>or_id = 1, or_tenant = ''default'', or_customer = 7, or_status = OS_PENDING,
                or_total = ''10.00'', or_created = ''2026-01-01''\<rparr>,
               \<lparr>or_id = 2, or_tenant = ''default'', or_customer = 7, or_status = OS_DELIVERED,
                or_total = ''25.00'', or_created = ''2026-01-01''\<rparr>],
     tickets = [], refunds = [], escalations = [], receipts = []\<rparr>"

definition demo_context :: execution_context where
  "demo_context = \<lparr>request_id = ''r1'', conversation_id = ''c1'',
     ctx_principal = \<lparr>actor_id = ''ada'', actor_kind = AT_CUSTOMER, principal_kind = PT_STATIC,
       roles = [], groups = [], principal_tenant = None, principal_customer = Some 7,
       customer_ids = [7]\<rparr>, ctx_tenant = ''default'', effective_customer = 7\<rparr>"

definition demo_scope :: idempotency_scope where
  "demo_scope = \<lparr>sc_actor = ''ada'', sc_key = ''action-1'', sc_tenant = ''default''\<rparr>"

definition plain_coercion :: coercion where
  "plain_coercion = \<lparr>as_int = (\<lambda>v. case v of PInt n \<Rightarrow> Some n | _ \<Rightarrow> None),
     as_text = (\<lambda>v. case v of PStr s \<Rightarrow> Some s | _ \<Rightarrow> None)\<rparr>"

lemma demo_others_ok: "others_ok demo_db"
  by (simp add: others_ok_def demo_db_def)

lemma demo_others: "others demo_db = (\<lambda>st. st)"
  by (simp add: demo_db_def)

lemma plain_coercion_ok: "coercion_ok plain_coercion"
  by (simp add: coercion_ok_def plain_coercion_def)

definition demo_cancelled :: store where
  "demo_cancelled =
     snd (run_tool demo_db demo_context ''cancel_order'' (CancelArgs 7 1) (Some demo_scope) demo_store)"

lemma demo_cancel_run:
  "run_tool demo_db demo_context ''cancel_order'' (CancelArgs 7 1) (Some demo_scope) demo_store =
     (Inr (CancelOut 1 7 OS_CANCELLED True ''Order cancelled''), demo_cancelled)"
proof -
  have "fst (run_tool demo_db demo_context ''cancel_order'' (CancelArgs 7 1) (Some demo_scope) demo_store)
      = Inr (CancelOut 1 7 OS_CANCELLED True ''Order cancelled'')"
    by code_simp
  then show ?thesis by (simp add: demo_cancelled_def prod_eq_iff)
qed

section \<open>Properties\<close>

lemma write_tool_again:
  assumes "others_ok d" and "writes inp" and "keeps st1 st2"
    and "run_tool d ctx name inp (Some sc) st = (Inr out, st1)"
  shows "\<exists>out'. run_tool d ctx name inp (Some sc) st2 = (Inr out', st2)"
proof -
  note scope = run_tool_scope [OF assms(4)]
  note run = assms(4) [unfolded run_tool_write [OF assms(2) scope]]
  show ?thesis
    unfolding run_tool_write [OF assms(2) scope]
    using assms(2) run
    by (cases inp) (auto simp: tool_defs duplicate_Inr_iff
        dest!: ticket_tool.run_again [OF assms(1) _ assms(3)]
          cancel_tool.run_again [OF assms(1) _ assms(3)]
          refund_tool.run_again [OF assms(1) _ assms(3)]
          escalation_tool.run_again [OF assms(1) _ assms(3)])
qed

text \<open>C6. A write tool that succeeded may be repeated: the same request under the same idempotency key,
  on any later state of the database, succeeds again and writes nothing.\<close>

theorem write_tool_idempotent:
  assumes "others_ok d" and "writes inp" and "keeps st1 st2"
    and "run_tool d ctx name inp (Some sc) st = (Inr out, st1)"
  shows "\<exists>out'. run_tool d ctx name inp (Some sc) st2 = (Inr out', st2)"
  using assms by (rule write_tool_again)

lemma write_tool_idempotent_witness:
  "\<exists>out'. run_tool demo_db demo_context ''cancel_order'' (CancelArgs 7 1) (Some demo_scope) demo_cancelled =
     (Inr out', demo_cancelled)"
  by (rule write_tool_idempotent [OF demo_others_ok _ keeps_refl demo_cancel_run]) simp

text \<open>An idempotency key cannot be reused: a different request of the same tool under the key of a
  request that succeeded is refused, and nothing is written.\<close>

theorem idempotency_key_not_reusable:
  assumes "others_ok d" and "writes inp" and "keeps st1 st2"
    and "run_tool d ctx name inp (Some sc) st = (Inr out, st1)"
    and "operation_name inp' = operation_name inp" and "input_customer inp' = effective_customer ctx"
    and "fingerprint d (dump_input inp') \<noteq> fingerprint d (dump_input inp)"
  shows "run_tool d ctx name inp' (Some sc) st2 =
    (Inl (DuplicateActionError ''Idempotency key was already used for a different request''), st2)"
proof -
  have scope': "same_customer ctx inp'" using assms(6) by (simp add: same_customer_def)
  have w': "writes inp'" using assms(2,5) by (cases inp; cases inp') auto
  obtain r where r: "get_receipt st1 sc (operation_name inp) = Some r"
      "rc_fingerprint r = fingerprint d (dump_input inp)"
    using write_tool_recorded [OF assms(1,2,4)] by blast
  then have r2: "get_receipt st2 sc (operation_name inp') = Some r"
    using keeps_receipt [OF assms(3)] assms(5) by simp
  have conflict: "execute_idempotent d sc (operation_name inp') c (dump_input inp') perform load st2 =
    (Inl (DuplicateActionError ''Idempotency key was already used for a different request''), st2)"
    for c :: int and perform load
    using r2 r(2) assms(7) by (intro conflicting_receipt) auto
  show ?thesis
    unfolding run_tool_write [OF w' scope']
    using w' conflict by (cases inp') (auto simp: tool_defs duplicate_Inl)
qed

lemma idempotency_key_not_reusable_witness:
  "run_tool demo_db demo_context ''cancel_order'' (CancelArgs 7 2) (Some demo_scope) demo_cancelled =
     (Inl (DuplicateActionError ''Idempotency key was already used for a different request''), demo_cancelled)"
  by (rule idempotency_key_not_reusable [OF demo_others_ok _ keeps_refl demo_cancel_run])
     (simp_all add: demo_context_def demo_db_def pget_def)

lemma failed_tool_trace:
  assumes "run_tool d ctx name inp sc st = (Inl x, st')"
  shows "st' = st \<or> st' = others d st"
proof -
  have dup: "q = (r, st') \<Longrightarrow> duplicate_on_conflict m q = (Inl x, st') \<Longrightarrow> \<exists>y. r = Inl y"
    for m and q :: "(exn + tool_output) \<times> store" and r
    by (auto simp: duplicate_on_conflict_def split: if_splits)
  show ?thesis
    using assms execute_failed_trace
    by (fastforce simp: run_tool_def with_scope_def require_idempotency_def tool_defs
        duplicate_on_conflict_def Let_def
        split: sum.splits option.splits tool_input.splits prod.splits if_splits)
qed

text \<open>A tool that fails leaves no trace: the rows are those it found, or those with what other
  transactions committed meanwhile; the savepoint takes back every partial effect.\<close>

theorem failed_tool_leaves_no_trace:
  assumes "run_tool d ctx name inp sc st = (Inl x, st')"
  shows "st' = st \<or> st' = others d st"
  using assms by (rule failed_tool_trace)

lemma failed_tool_leaves_no_trace_witness:
  "run_tool demo_db demo_context ''cancel_order'' (CancelArgs 7 9) (Some demo_scope) demo_store =
     (Inl (ResourceNotFoundError ''Order'' 9), demo_store)"
proof -
  obtain st' where run: "run_tool demo_db demo_context ''cancel_order'' (CancelArgs 7 9) (Some demo_scope)
      demo_store = (Inl (ResourceNotFoundError ''Order'' 9), st')"
  proof
    have "fst (run_tool demo_db demo_context ''cancel_order'' (CancelArgs 7 9) (Some demo_scope) demo_store)
        = Inl (ResourceNotFoundError ''Order'' 9)" by code_simp
    then show "run_tool demo_db demo_context ''cancel_order'' (CancelArgs 7 9) (Some demo_scope) demo_store
        = (Inl (ResourceNotFoundError ''Order'' 9), snd (run_tool demo_db demo_context ''cancel_order''
             (CancelArgs 7 9) (Some demo_scope) demo_store))"
      by (simp add: prod_eq_iff)
  qed
  from failed_tool_leaves_no_trace [OF run] run show ?thesis by (auto simp: demo_others)
qed

text \<open>Every tool keeps the unique indexes: receipts never share a key and an order never has two
  active refunds, under any interference of other transactions that respect the indexes.\<close>

theorem tools_keep_indexes:
  assumes "others_ok d" and "store_ok st" and "run_tool d ctx name inp sc st = (r, st')"
  shows "store_ok st'"
proof (cases "writes inp \<and> same_customer ctx inp \<and> sc \<noteq> None")
  case True
  then obtain s where sc: "sc = Some s" by blast
  have frame: "duplicate_on_conflict m q = (r, st') \<Longrightarrow> \<exists>r'. q = (r', st')"
    for m and q :: "(exn + tool_output) \<times> store"
    by (cases q) (auto simp: duplicate_on_conflict_def)
  have run: "run_tool d ctx name inp (Some s) st = (r, st')" using assms(3) sc by simp
  show ?thesis
    using True run unfolding run_tool_write [OF conjunct1 [OF True] conjunct1 [OF conjunct2 [OF True]]]
    by (cases inp) (auto simp: tool_defs
        dest!: frame intro: ticket_tool.run_ok [OF assms(1) _ assms(2)]
          cancel_tool.run_ok [OF assms(1) _ assms(2)] refund_tool.run_ok [OF assms(1) _ assms(2)]
          escalation_tool.run_ok [OF assms(1) _ assms(2)])
next
  case False
  then have "st' = st"
    using assms(3)
    by (cases inp) (auto simp: run_tool_def scoped_def same_customer_def with_scope_def
        require_idempotency_def Let_def split: if_splits)
  then show ?thesis using assms(2) by simp
qed

lemma tools_keep_indexes_witness: "store_ok demo_store \<and> store_ok demo_cancelled"
proof -
  have "store_ok demo_store" by (simp add: store_ok_def demo_store_def)
  with tools_keep_indexes [OF demo_others_ok this demo_cancel_run] show ?thesis by simp
qed

text \<open>Rows that belong to the tenant and the customer of a context.\<close>

fun output_within :: "string \<Rightarrow> int \<Rightarrow> tool_output \<Rightarrow> bool" where
  "output_within t c (CustomerOut r) \<longleftrightarrow> cu_tenant r = t \<and> cu_id r = c"
| "output_within t c (OrderOut r) \<longleftrightarrow> or_tenant r = t \<and> or_customer r = c"
| "output_within t c (OrdersOut rs) \<longleftrightarrow> (\<forall>r \<in> set rs. or_tenant r = t \<and> or_customer r = c)"
| "output_within t c (TicketOut r) \<longleftrightarrow> ti_tenant r = t \<and> ti_customer r = c"
| "output_within t c (TicketsOut rs) \<longleftrightarrow> (\<forall>r \<in> set rs. ti_tenant r = t \<and> ti_customer r = c)"
| "output_within t c _ \<longleftrightarrow> False"

text \<open>C7. Tenant and customer isolation of reads: a reading tool writes nothing and returns only rows
  of the context's own tenant and customer, whatever ids the arguments name.\<close>

theorem reads_stay_in_scope:
  assumes "run_tool d ctx name inp sc st = (Inr out, st')" and "\<not> writes inp"
  shows "st' = st \<and> output_within (ctx_tenant ctx) (effective_customer ctx) out"
  using assms
  by (cases inp) (auto simp: run_tool_def scoped_def get_customer_def get_customer_orders_def
      get_customer_tickets_def get_order_def get_ticket_def lookup_or_def find_customer_for_scope_def
      find_order_for_customer_def find_ticket_for_customer_def customer_orders_def customer_tickets_def
      and_then_Inr_iff Let_def dest!: find_Some_in split: option.splits if_splits)

lemma reads_stay_in_scope_witness:
  "\<exists>out. run_tool demo_db demo_context ''get_order'' (GetOrderArgs 2 7) None demo_store = (Inr out, demo_store) \<and>
     output_within ''default'' 7 out"
proof -
  define run where "run = run_tool demo_db demo_context ''get_order'' (GetOrderArgs 2 7) None demo_store"
  have "is_ok (fst run)" unfolding run_def by code_simp
  then obtain out st' where r: "run_tool demo_db demo_context ''get_order'' (GetOrderArgs 2 7) None demo_store
      = (Inr out, st')"
    by (auto simp: is_ok_iff run_def) (metis prod.collapse)
  from reads_stay_in_scope [OF r] r show ?thesis by (auto simp: demo_context_def)
qed

text \<open>C8. What a cancellation changes, when no other transaction interferes: the order belongs to the
  context's customer in its tenant and was pending or processing, its status becomes cancelled, one
  receipt is filed, and no other row of any table changes.\<close>

theorem cancellation_effect:
  assumes "run_tool d ctx name (CancelArgs c i) (Some sc) st = (Inr (CancelOut j k s True m), st')"
    and "others d = (\<lambda>s. s)"
  shows "\<exists>r receipt. find_order st i (ctx_tenant ctx) = Some r \<and>
           or_customer r = effective_customer ctx \<and> or_status r \<in> {OS_PENDING, OS_PROCESSING} \<and>
           st' = (set_order_status i OS_CANCELLED st)\<lparr>receipts := receipts st @ [receipt]\<rparr> \<and>
           receipt_for sc ''cancel_order'' receipt"
proof -
  let ?t = "ctx_tenant ctx"
  have c: "c = effective_customer ctx" using run_tool_scope [OF assms(1)] by (simp add: same_customer_def)
  have run: "execute_idempotent d sc ''cancel_order'' c (dump_input (CancelArgs c i))
      (perform_cancel ?t c i d) (load_cancelled ?t) st = (Inr (CancelOut j k s True m), st')"
    using assms(1) run_tool_write [of "CancelArgs c i" ctx d name sc st] run_tool_scope [OF assms(1)]
    by (simp add: cancel_order_def duplicate_Inr_iff)
  have not_loaded: "replay_receipt r c f (load_cancelled ?t) u \<noteq> (Inr (CancelOut j k s True m), st')"
    for r f u
    by (auto simp: replay_receipt_def load_cancelled_def and_then_Inr_iff)
  with run have "nested_action d sc ''cancel_order'' c (fingerprint d (dump_input (CancelArgs c i)))
      (perform_cancel ?t c i d) st = (Inr (CancelOut j k s True m), st')"
    by (auto simp: execute_idempotent_def Let_def split: option.splits prod.splits sum.splits if_splits)
  then obtain n st1 where p: "perform_cancel ?t c i d st = (Inr (CancelOut j k s True m, n), st1)"
    and f: "flush_receipt d \<lparr>rc_tenant = sc_tenant sc, rc_actor = sc_actor sc,
          rc_operation = ''cancel_order'', rc_key = sc_key sc, rc_customer = c,
          rc_fingerprint = fingerprint d (dump_input (CancelArgs c i)), rc_result = n\<rparr> st1 = (Inr (), st')"
    by (auto simp: nested_action_def split: prod.splits sum.splits)
  obtain r where r: "find_order st i ?t = Some r" "or_customer r = c"
      "or_status r \<in> {OS_PENDING, OS_PROCESSING}" and st1: "st1 = set_order_status (or_id r) OS_CANCELLED st"
    using p assms(2) by (auto simp: perform_cancel_def validate_cancel_Inr load_cancelled_def
        and_then_Inr_iff split: sum.splits if_splits)
  have "or_id r = i" using find_order_found [OF r(1)] by simp
  then show ?thesis using r st1 f assms(2) c
    by (fastforce simp: flush_receipt_def receipt_for_def set_order_status_def Let_def split: if_splits)
qed

lemma cancellation_effect_witness:
  "\<exists>receipt. demo_cancelled =
     (set_order_status 1 OS_CANCELLED demo_store)\<lparr>receipts := [receipt]\<rparr>"
  using cancellation_effect [OF demo_cancel_run demo_others] by (auto simp: demo_store_def)

text \<open>What a first refund request changes, when no other transaction interferes: the order belongs
  to the context's customer, was delivered and had no active refund; one requested refund of that
  order and one receipt are added, and no other row changes.\<close>

theorem refund_effect:
  assumes "run_tool d ctx name (RefundArgs c i reason) (Some sc) st = (Inr (RefundOut q), st')"
    and "others d = (\<lambda>s. s)" and "get_receipt st sc ''request_refund'' = None"
  shows "\<exists>r receipt. find_order st i (ctx_tenant ctx) = Some r \<and>
           or_customer r = effective_customer ctx \<and> or_status r = OS_DELIVERED \<and>
           (\<forall>f \<in> set (refunds st). rf_order f = i \<and> rf_tenant f = ctx_tenant ctx \<longrightarrow> \<not> active_refund f) \<and>
           rf_order q = i \<and> rf_customer q = effective_customer ctx \<and> rf_tenant q = ctx_tenant ctx \<and>
           rf_reason q = reason \<and> rf_status q = RS_REQUESTED \<and>
           st' = st\<lparr>refunds := refunds st @ [q], receipts := receipts st @ [receipt]\<rparr> \<and>
           receipt_for sc ''request_refund'' receipt"
proof -
  let ?t = "ctx_tenant ctx"
  have c: "c = effective_customer ctx" using run_tool_scope [OF assms(1)] by (simp add: same_customer_def)
  have run: "execute_idempotent d sc ''request_refund'' c (dump_input (RefundArgs c i reason))
      (perform_refund ?t c i reason d) (load_refund ?t) st = (Inr (RefundOut q), st')"
    using assms(1) run_tool_write [of "RefundArgs c i reason" ctx d name sc st] run_tool_scope [OF assms(1)]
    by (simp add: request_refund_def duplicate_Inr_iff)
  then have "nested_action d sc ''request_refund'' c (fingerprint d (dump_input (RefundArgs c i reason)))
      (perform_refund ?t c i reason d) st = (Inr (RefundOut q), st')"
    using assms(2,3)
    by (auto simp: execute_idempotent_def nested_action_def Let_def
        split: option.splits prod.splits sum.splits if_splits)
  then obtain n st1 where p: "perform_refund ?t c i reason d st = (Inr (RefundOut q, n), st1)"
    and f: "flush_receipt d \<lparr>rc_tenant = sc_tenant sc, rc_actor = sc_actor sc,
          rc_operation = ''request_refund'', rc_key = sc_key sc, rc_customer = c,
          rc_fingerprint = fingerprint d (dump_input (RefundArgs c i reason)), rc_result = n\<rparr> st1 =
          (Inr (), st')"
    by (auto simp: nested_action_def split: prod.splits sum.splits)
  obtain r where r: "find_order st i ?t = Some r" "or_customer r = c" "or_status r = OS_DELIVERED"
      and none: "find (\<lambda>q. rf_order q = i \<and> rf_tenant q = ?t \<and> active_refund q) (refunds st) = None"
    using p by (auto simp: perform_refund_def validate_refund_request_def owned_order_Inr
        and_then_Inr_iff split: sum.splits prod.splits if_splits)
  have q: "st1 = st\<lparr>refunds := refunds st @ [q]\<rparr>" "rf_order q = i" "rf_customer q = c"
      "rf_tenant q = ?t" "rf_reason q = reason" "rf_status q = RS_REQUESTED"
    using p assms(2) by (auto simp: perform_refund_def flush_refund_def Let_def
        split: sum.splits prod.splits if_splits)
  show ?thesis using r q f none assms(2) c
    by (fastforce simp: flush_receipt_def receipt_for_def find_None_all Let_def split: if_splits)
qed

lemma refund_effect_witness:
  "\<exists>q st'. run_tool demo_db demo_context ''request_refund'' (RefundArgs 7 2 (lit ''broken''))
     (Some demo_scope) demo_store = (Inr (RefundOut q), st') \<and> refunds st' = [q] \<and> rf_order q = 2"
proof -
  define run where "run = run_tool demo_db demo_context ''request_refund''
    (RefundArgs 7 2 (lit ''broken'')) (Some demo_scope) demo_store"
  have "case fst run of Inr (RefundOut q) \<Rightarrow> True | _ \<Rightarrow> False" unfolding run_def by code_simp
  then obtain q st' where r: "run_tool demo_db demo_context ''request_refund''
      (RefundArgs 7 2 (lit ''broken'')) (Some demo_scope) demo_store = (Inr (RefundOut q), st')"
    by (auto simp: run_def split: sum.splits tool_output.splits) (metis prod.collapse)
  have none: "get_receipt demo_store demo_scope ''request_refund'' = None"
    by (simp add: get_receipt_def demo_store_def)
  from refund_effect [OF r demo_others none] r show ?thesis by (auto simp: demo_store_def)
qed

text \<open>Arguments survive their JSON form: dumping a validated input and validating the dump again
  gives the same input, so what is stored with a pending action is what is executed.\<close>

theorem input_roundtrip:
  assumes "coercion_ok co" and "validate_input co m args = Inr inp"
  shows "validate_input co m (dump_input inp) = Inr inp"
  using assms
  by (cases m) (auto simp: and_then_Inr_iff field_put dest!: field_got)

lemma input_roundtrip_witness:
  "validate_input plain_coercion CancelOrderInput (dump_input (CancelArgs 7 1)) = Inr (CancelArgs 7 1)"
proof -
  have "validate_input plain_coercion CancelOrderInput
      [(''order_id'', PInt 1), (''customer_id'', PInt 7)] = Inr (CancelArgs 7 1)" by code_simp
  from input_roundtrip [OF plain_coercion_ok this] show ?thesis .
qed

end
