(* ===== verification/Policy.thy ===== *)
theory Policy
  imports Catalog PyText
begin

text \<open>
  The authority policy (policies/rules.py, engine.py), pending actions and audit events
  (policies/models.py) and the parsing of confirmations (policies/confirmation.py). Clock readings
  are rationals, in seconds; the SHA-256 digest is a parameter.
\<close>

section \<open>Models\<close>

record policy_decision =
  d_outcome :: outcome
  d_tool :: string
  d_risk :: int
  d_reasons :: "string list"
  d_conditions :: "string list"

record pending_action =
  pa_id :: string
  pa_conversation :: string
  pa_tenant :: string
  pa_actor :: string
  pa_actor_kind :: actor_type
  pa_customer :: int
  pa_tool :: string
  pa_arguments :: "pyval dict"
  pa_risk :: int
  pa_intent :: "string option"
  pa_entities :: "pyval dict"
  pa_validation :: "pyval dict"
  pa_inputs :: "pyval dict"
  pa_inputs_hash :: "string option"
  pa_created :: rat
  pa_status :: action_status

record audit_event =
  ev_id :: string
  ev_run :: string
  ev_request :: string
  ev_conversation :: string
  ev_tenant :: string
  ev_actor :: string
  ev_actor_kind :: actor_type
  ev_roles :: "string list"
  ev_customer :: int
  ev_action :: "string option"
  ev_tool :: string
  ev_risk :: int
  ev_outcome :: outcome
  ev_reasons :: "string list"
  ev_time :: rat
  ev_stage :: string
  ev_confirmation :: "string option"
  ev_revalidation :: bool
  ev_execution :: "string option"

text \<open>The length limits of the event model; a violation raises before anything is stored.\<close>

definition make_event :: "audit_event \<Rightarrow> exn + audit_event" where
  "make_event e =
     (if length (ev_roles e) \<le> 20 \<and> length (ev_reasons e) \<le> 10 then Inr e
      else Inl PydanticValidationError)"

text \<open>Python's \<open>or\<close> on an optional string: the empty string counts as absent.\<close>

definition or_text :: "string option \<Rightarrow> string \<Rightarrow> string" where
  "or_text x y = (case x of None \<Rightarrow> y | Some s \<Rightarrow> if s = [] then y else s)"

definition stable_policy_event_id ::
  "(string \<Rightarrow> string) \<Rightarrow> string \<Rightarrow> string option \<Rightarrow> string \<Rightarrow> string \<Rightarrow> string" where
  "stable_policy_event_id dg run action stage marker =
     ''audit_'' @ dg (or_text action run @ ''|'' @ stage @ ''|'' @ marker)"

section \<open>The default policy\<close>

definition evaluate_default_policy ::
  "string \<Rightarrow> execution_context \<Rightarrow> pyval dict \<Rightarrow> policy_decision" where
  "evaluate_default_policy name ctx args =
     (case get_tool name of
        None \<Rightarrow> \<lparr>d_outcome = PO_DENY, d_tool = name, d_risk = -1, d_reasons = [''unknown_tool''],
                  d_conditions = []\<rparr>
      | Some m \<Rightarrow>
          let risk = risk_value (tool_risk m); requested = pget args ''customer_id'' in
          if effective_customer ctx \<le> 0 then
            \<lparr>d_outcome = PO_DENY, d_tool = name, d_risk = risk,
              d_reasons = [''known_customer_required''], d_conditions = [''authenticated_customer'']\<rparr>
          else if requested \<noteq> PNone \<and> \<not> pyval_is_int requested (effective_customer ctx) then
            \<lparr>d_outcome = PO_DENY, d_tool = name, d_risk = risk,
              d_reasons = [''ownership_required''], d_conditions = [''customer_ownership'']\<rparr>
          else if risk \<le> 1 then
            \<lparr>d_outcome = PO_ALLOW, d_tool = name, d_risk = risk,
              d_reasons = [''risk_policy_allows_automatic_execution''], d_conditions = []\<rparr>
          else if risk = 2 then
            \<lparr>d_outcome = PO_REQUIRE_CONFIRMATION, d_tool = name, d_risk = risk,
              d_reasons = [''customer_impacting_write''],
              d_conditions = [''explicit_confirmation'', ''pre_execution_revalidation'']\<rparr>
          else
            \<lparr>d_outcome = PO_REQUIRE_HUMAN, d_tool = name, d_risk = risk,
              d_reasons = [''human_controlled_action''], d_conditions = [''dedicated_human_path'']\<rparr>)"

section \<open>Confirmation\<close>

text \<open>
  The normalisation of replies: the Turkish capital letters are exchanged before case folding, then
  runs of punctuation become a blank and blanks are squeezed.
\<close>

definition turkish :: "int \<Rightarrow> int" where
  "turkish c = (if c = 73 then 305 else if c = 304 then 105 else c)"

definition is_punctuation :: "int \<Rightarrow> bool" where
  "is_punctuation c \<longleftrightarrow> c \<in> {44, 46, 33, 63, 59, 58}"

definition normalize_reply :: "ustr \<Rightarrow> ustr" where
  "normalize_reply s = squeeze (squash is_punctuation 32 (casefold (map turkish s)))"

definition confirm_phrases :: "ustr list" where
  "confirm_phrases =
     [lit ''yes'', lit ''confirm'', lit ''confirmed'', lit ''proceed'', lit ''do it'',
      lit ''yes proceed'', lit ''yes please'', lit ''yes please proceed'',
      lit ''yes please proceed with the refund'',
      lit ''yes please proceed with the refund request'', lit ''i confirm'',
      [305] @ lit '' confirm'', lit ''proceed with the refund'',
      lit ''proceed with the refund request'', lit ''go ahead'', lit ''please continue'',
      lit ''approved'', lit ''evet'', lit ''onayl'' @ [305] @ lit ''yorum'', lit ''onayla'',
      lit ''devam et'', lit ''i'' @ [351] @ lit ''lemi onayl'' @ [305] @ lit ''yorum'']"

definition reject_phrases :: "ustr list" where
  "reject_phrases =
     [lit ''no'', lit ''cancel'', lit ''never mind'', lit ''don'' @ [39] @ lit ''t do it'',
      lit ''do not do it'', lit ''don'' @ [39] @ lit ''t proceed'', lit ''do not proceed'',
      lit ''no cancel it'', lit ''stop'', lit ''hay'' @ [305] @ lit ''r'', lit ''iptal'',
      lit ''iptal et'', lit ''vazge'' @ [231] @ lit ''tim'',
      lit ''onaylam'' @ [305] @ lit ''yorum'']"

definition parse_confirmation :: "ustr \<Rightarrow> string" where
  "parse_confirmation s =
     (let n = normalize_reply s in
      if n \<in> set confirm_phrases then ''confirmed''
      else if n \<in> set reject_phrases then ''rejected''
      else ''ambiguous'')"

definition is_expired :: "pending_action \<Rightarrow> rat \<Rightarrow> rat \<Rightarrow> bool" where
  "is_expired a now ttl \<longleftrightarrow> now - pa_created a \<ge> ttl"

definition transition :: "pending_action \<Rightarrow> action_status \<Rightarrow> pending_action" where
  "transition a s = a\<lparr>pa_status := s\<rparr>"

definition belongs_to_context :: "pending_action \<Rightarrow> execution_context \<Rightarrow> bool" where
  "belongs_to_context a ctx \<longleftrightarrow>
     pa_conversation a = conversation_id ctx \<and> pa_tenant a = ctx_tenant ctx \<and>
     pa_actor a = actor_id (ctx_principal ctx) \<and> pa_actor_kind a = actor_kind (ctx_principal ctx) \<and>
     pa_customer a = effective_customer ctx"

section \<open>Laws\<close>

lemma transition_simps [simp]:
  "pa_status (transition a s) = s"
  "pa_id (transition a s) = pa_id a"
  "pa_tool (transition a s) = pa_tool a"
  "pa_arguments (transition a s) = pa_arguments a"
  "pa_inputs (transition a s) = pa_inputs a"
  "pa_entities (transition a s) = pa_entities a"
  "belongs_to_context (transition a s) ctx = belongs_to_context a ctx"
  by (simp_all add: transition_def belongs_to_context_def)

lemma risk_of_tool:
  assumes "get_tool name = Some m"
  shows "tool_risk m = HUMAN_HANDLING \<longleftrightarrow> name = ''escalate_to_human''"
    and "tool_risk m = CONFIRMATION_REQUIRED \<longleftrightarrow> name \<in> {''cancel_order'', ''request_refund''}"
  using assms by (auto simp: get_tool_def tool_registry_def split: if_splits)

definition outcome_of_risk :: "risk_level \<Rightarrow> outcome" where
  "outcome_of_risk r =
     (case r of HUMAN_HANDLING \<Rightarrow> PO_REQUIRE_HUMAN | CONFIRMATION_REQUIRED \<Rightarrow> PO_REQUIRE_CONFIRMATION
      | _ \<Rightarrow> PO_ALLOW)"

lemma policy_outcome_risk:
  "get_tool name = Some m \<Longrightarrow>
   d_outcome (evaluate_default_policy name ctx args) =
     (if effective_customer ctx \<le> 0 \<or>
         (pget args ''customer_id'' \<noteq> PNone \<and>
          \<not> pyval_is_int (pget args ''customer_id'') (effective_customer ctx)) then PO_DENY
      else outcome_of_risk (tool_risk m))"
  by (cases "tool_risk m") (simp_all add: evaluate_default_policy_def outcome_of_risk_def Let_def)

lemma policy_outcome_cases:
  "d_outcome (evaluate_default_policy name ctx args) =
     (if get_tool name = None \<or> effective_customer ctx \<le> 0 \<or>
         (pget args ''customer_id'' \<noteq> PNone \<and>
          \<not> pyval_is_int (pget args ''customer_id'') (effective_customer ctx)) then PO_DENY
      else if name = ''escalate_to_human'' then PO_REQUIRE_HUMAN
      else if name \<in> {''cancel_order'', ''request_refund''} then PO_REQUIRE_CONFIRMATION
      else PO_ALLOW)"
proof (cases "get_tool name")
  case None
  then show ?thesis by (simp add: evaluate_default_policy_def)
next
  case (Some m)
  show ?thesis
    unfolding policy_outcome_risk [OF Some] risk_of_tool [OF Some, symmetric]
    using Some by (cases "tool_risk m") (simp_all add: outcome_of_risk_def)
qed

lemma policy_tool [simp]: "d_tool (evaluate_default_policy name ctx args) = name"
  by (simp add: evaluate_default_policy_def Let_def split: option.split)

lemma policy_reasons_short: "length (d_reasons (evaluate_default_policy name ctx args)) \<le> 10"
  by (simp add: evaluate_default_policy_def Let_def split: option.split)

end
