(* ===== verification/Audit_Trail.thy ===== *)
theory Audit_Trail
  imports Policy "HOL-Library.Multiset"
begin

text \<open>
  The audit trail (policies/repository.py): a bounded deque in memory, or the table of the business
  database. Both answer the same three queries; their common contract is a locale that both
  interpret. What the driver may raise at a commit is a parameter.
\<close>

section \<open>The two repositories\<close>

datatype audit_log = MemoryLog nat "audit_event list" | SqlLog "audit_event list"

fun logged :: "audit_log \<Rightarrow> audit_event list" where
  "logged (MemoryLog cap es) = es"
| "logged (SqlLog es) = es"

definition same_event :: "audit_event \<Rightarrow> audit_event \<Rightarrow> bool" where
  "same_event e q \<longleftrightarrow> ev_id q = ev_id e \<and> ev_tenant q = ev_tenant e"

text \<open>
  \<open>append\<close>: the deque drops its oldest event; the table ignores an event whose id it has for the
  tenant. The id is unique over all tenants, so the id of another tenant's event is a conflict.
\<close>

fun append_event ::
  "(audit_event \<Rightarrow> exn option) \<Rightarrow> audit_event \<Rightarrow> audit_log \<Rightarrow> exn option \<times> audit_log" where
  "append_event fault e (MemoryLog cap es) = (None, MemoryLog cap (last_n cap (es @ [e])))"
| "append_event fault e (SqlLog es) =
     (if list_ex (same_event e) es then (None, SqlLog es)
      else case fault e of
        Some x \<Rightarrow> (Some x, SqlLog es)
      | None \<Rightarrow> if list_ex (\<lambda>q. ev_id q = ev_id e) es then (Some IntegrityError, SqlLog es)
                else (None, SqlLog (es @ [e])))"

text \<open>\<open>append_policy_audit\<close>: whatever the repository raises becomes an audit failure.\<close>

definition append_policy_audit ::
  "(audit_event \<Rightarrow> exn option) \<Rightarrow> audit_event \<Rightarrow> audit_log \<Rightarrow> (exn + unit) \<times> audit_log" where
  "append_policy_audit fault e l =
     (case append_event fault e l of
        (None, l') \<Rightarrow> (Inr (), l')
      | (Some x, l') \<Rightarrow> (Inl AuditPersistenceError, l'))"

section \<open>Queries\<close>

definition bounded_limit :: "int \<Rightarrow> nat" where
  "bounded_limit limit = nat (min (max limit 1) 100)"

text \<open>The table is read newest first and reversed, so events of equal time keep their order.\<close>

fun query_events :: "(audit_event \<Rightarrow> bool) \<Rightarrow> int \<Rightarrow> audit_log \<Rightarrow> audit_event list" where
  "query_events P limit (MemoryLog cap es) = last_n (bounded_limit limit) (filter P es)"
| "query_events P limit (SqlLog es) = last_n (bounded_limit limit) (sort_key ev_time (filter P es))"

definition list_for_agent_run :: "string \<Rightarrow> string \<Rightarrow> int \<Rightarrow> audit_log \<Rightarrow> audit_event list" where
  "list_for_agent_run run tenant = query_events (\<lambda>e. ev_run e = run \<and> ev_tenant e = tenant)"

definition list_for_conversation :: "string \<Rightarrow> string \<Rightarrow> int \<Rightarrow> audit_log \<Rightarrow> audit_event list" where
  "list_for_conversation c tenant = query_events (\<lambda>e. ev_conversation e = c \<and> ev_tenant e = tenant)"

definition list_for_customer :: "int \<Rightarrow> string \<Rightarrow> int \<Rightarrow> audit_log \<Rightarrow> audit_event list" where
  "list_for_customer c tenant = query_events (\<lambda>e. ev_customer e = c \<and> ev_tenant e = tenant)"

section \<open>The contract of an audit repository\<close>

locale audit_repository =
  fixes append_to :: "audit_event \<Rightarrow> 'l \<Rightarrow> exn option \<times> 'l"
    and all_events :: "'l \<Rightarrow> audit_event list"
    and query :: "(audit_event \<Rightarrow> bool) \<Rightarrow> int \<Rightarrow> 'l \<Rightarrow> audit_event list"
  assumes query_sound: "e \<in> set (query P limit l) \<Longrightarrow> e \<in> set (all_events l) \<and> P e"
    and query_bounded: "length (query P limit l) \<le> bounded_limit limit"
    and append_failed: "append_to e l = (Some x, l') \<Longrightarrow> l' = l"
    and append_only: "append_to e l = (None, l') \<Longrightarrow> q \<in> set (all_events l') \<Longrightarrow>
          q = e \<or> q \<in> set (all_events l)"
    and append_latest: "append_to e l = (None, l') \<Longrightarrow> \<forall>q \<in> set (all_events l). ev_id q \<noteq> ev_id e \<and>
          ev_time q \<le> ev_time e \<Longrightarrow> 0 < length (all_events l') \<Longrightarrow> P e \<Longrightarrow> last (query P limit l') = e"
begin

text \<open>No event ever comes back that was not appended, and never more than a hundred.\<close>

lemma query_capped: "length (query P limit l) \<le> 100"
  using query_bounded [of P limit l] by (simp add: bounded_limit_def)

lemma query_after_append:
  assumes "append_to e l = (r, l')" and "q \<in> set (query P limit l')"
  shows "P q \<and> (q = e \<or> q \<in> set (all_events l))"
proof (cases r)
  case None
  then show ?thesis using assms query_sound [OF assms(2)] append_only by blast
next
  case (Some x)
  then show ?thesis using assms append_failed query_sound [OF assms(2)] by blast
qed

end

lemma last_last_n: "0 < n \<Longrightarrow> xs \<noteq> [] \<Longrightarrow> last (last_n n xs) = last xs"
  by (simp add: last_n_def last_drop)

lemma last_n_Nil_iff: "0 < n \<Longrightarrow> last_n n xs = [] \<longleftrightarrow> xs = []"
  by (cases xs) (auto simp: last_n_def)

lemma bounded_limit_pos [simp]: "0 < bounded_limit limit"
  by (simp add: bounded_limit_def)

lemma filter_sort_key_same: "filter (\<lambda>x. k = f x) (sort_key f xs) = filter (\<lambda>x. k = f x) xs"
  using sort_key_stable [of f k xs] unfolding eq_commute [of k] .

lemma sort_key_latest:
  fixes f :: "'a \<Rightarrow> rat"
  assumes "\<forall>q \<in> set xs. f q \<le> f e"
  shows "sort_key f (xs @ [e]) = sort_key f xs @ [e]"
proof (rule properties_for_sort_key)
  show "mset (sort_key f xs @ [e]) = mset (xs @ [e])" by simp
  show "sorted (map f (sort_key f xs @ [e]))" using assms by (auto simp: sorted_append)
  show "filter (\<lambda>x. f k = f x) (sort_key f xs @ [e]) = filter (\<lambda>x. f k = f x) (xs @ [e])"
    if "k \<in> set (sort_key f xs @ [e])" for k
    using filter_sort_key_same [of "f k" f xs] by simp
qed

lemma append_sql_None:
  "append_event fault e (SqlLog es) = (None, l') \<Longrightarrow>
     l' = SqlLog (es @ [e]) \<or> l' = SqlLog es \<and> (\<exists>q \<in> set es. same_event e q)"
  by (auto simp: list_ex_iff split: if_splits option.splits)

text \<open>Both repositories keep the contract; only a deque of no capacity forgets the newest event.\<close>

fun keeps_latest :: "audit_log \<Rightarrow> bool" where
  "keeps_latest (MemoryLog cap es) = (0 < cap)"
| "keeps_latest (SqlLog es) = True"

interpretation repository: audit_repository "append_event fault" logged query_events
proof
  fix e P limit l assume "e \<in> set (query_events P limit l)"
  then show "e \<in> set (logged l) \<and> P e"
    by (cases l) (use set_last_n in fastforce)+
next
  fix P limit l show "length (query_events P limit l) \<le> bounded_limit limit"
    by (cases l) simp_all
next
  fix e l x l' assume "append_event fault e l = (Some x, l')"
  then show "l' = l" by (cases l) (auto split: if_splits option.splits)
next
  fix e l l' q assume a: "append_event fault e l = (None, l')" and q: "q \<in> set (logged l')"
  show "q = e \<or> q \<in> set (logged l)"
  proof (cases l)
    case (MemoryLog cap es)
    then show ?thesis using a q set_last_n [of cap "es @ [e]"] by auto
  next
    case (SqlLog es)
    then show ?thesis using append_sql_None [of fault e es l'] a q by auto
  qed
next
  fix e l l' P limit
  assume a: "append_event fault e l = (None, l')" and new: "\<forall>q \<in> set (logged l). ev_id q \<noteq> ev_id e \<and>
    ev_time q \<le> ev_time e" and ne: "0 < length (logged l')" and P: "P e"
  show "last (query_events P limit l') = e"
  proof (cases l)
    case (MemoryLog cap es)
    then have l': "l' = MemoryLog cap (last_n cap (es @ [e]))" using a by simp
    then have "0 < cap" using ne by auto
    then have "last_n cap (es @ [e]) = last_n (cap - 1) es @ [e]"
      by (simp add: last_n_def)
    then show ?thesis using l' P by (simp add: last_last_n)
  next
    case (SqlLog es)
    then have l': "l' = SqlLog (es @ [e])"
      using append_sql_None [of fault e es l'] a new by (auto simp: same_event_def)
    have "sort_key ev_time (filter P es @ [e]) = sort_key ev_time (filter P es) @ [e]"
      using new SqlLog by (intro sort_key_latest) auto
    then show ?thesis using l' P by (simp add: last_last_n)
  qed
qed

section \<open>Properties\<close>

text \<open>The audit trail of a conversation is bounded and stays in its tenant: whatever was appended,
  a query returns at most a hundred events, each of the conversation and tenant asked for and each
  either the event just appended or one that was there before.\<close>

theorem audit_query_scope:
  assumes "append_event fault e l = (r, l')" and "q \<in> set (list_for_conversation c tenant limit l')"
  shows "ev_conversation q = c \<and> ev_tenant q = tenant \<and> (q = e \<or> q \<in> set (logged l)) \<and>
         length (list_for_conversation c tenant limit l') \<le> 100"
  using repository.query_after_append [OF assms(1), of q _ limit] assms(2)
    repository.query_capped [of _ limit l']
  unfolding list_for_conversation_def by blast

text \<open>The newest event is never hidden by the limit: an event with a fresh id and the latest time is
  the last one of every query it belongs to, in memory and in the database alike.\<close>

theorem audit_newest_visible:
  assumes "append_event fault e l = (None, l')" and "keeps_latest l"
    and "\<forall>q \<in> set (logged l). ev_id q \<noteq> ev_id e \<and> ev_time q \<le> ev_time e"
  shows "last (list_for_agent_run (ev_run e) (ev_tenant e) limit l') = e"
proof -
  have "0 < length (logged l')"
    using assms(1,2,3)
    by (cases l) (auto simp: same_event_def list_ex_iff last_n_Nil_iff split: if_splits option.splits)
  then show ?thesis
    unfolding list_for_agent_run_def by (intro repository.append_latest [OF assms(1,3)]) auto
qed

section \<open>Applied\<close>

definition demo_event :: "string \<Rightarrow> rat \<Rightarrow> audit_event" where
  "demo_event i t = \<lparr>ev_id = i, ev_run = ''run'', ev_request = ''r1'', ev_conversation = ''c1'',
     ev_tenant = ''default'', ev_actor = ''ada'', ev_actor_kind = AT_CUSTOMER, ev_roles = [],
     ev_customer = 7, ev_action = None, ev_tool = ''cancel_order'', ev_risk = 2,
     ev_outcome = PO_ALLOW, ev_reasons = [], ev_time = t, ev_stage = ''execution'',
     ev_confirmation = None, ev_revalidation = False, ev_execution = None\<rparr>"

lemma audit_query_scope_witness:
  "ev_conversation (demo_event ''b'' 2) = ''c1'' \<and>
   length (list_for_conversation ''c1'' ''default'' 500 (SqlLog [demo_event ''a'' 1, demo_event ''b'' 2])) \<le> 100"
proof -
  have run: "append_event (\<lambda>_. None) (demo_event ''b'' 2) (SqlLog [demo_event ''a'' 1]) =
      (None, SqlLog [demo_event ''a'' 1, demo_event ''b'' 2])"
    by (simp add: demo_event_def same_event_def)
  have "demo_event ''b'' 2 \<in> set (list_for_conversation ''c1'' ''default'' 500
      (SqlLog [demo_event ''a'' 1, demo_event ''b'' 2]))"
    by (simp add: list_for_conversation_def bounded_limit_def demo_event_def last_n_def)
  from audit_query_scope [OF run this] show ?thesis by blast
qed

lemma audit_newest_visible_witness:
  "last (list_for_agent_run ''run'' ''default'' 1 (MemoryLog 1 [demo_event ''b'' 2])) = demo_event ''b'' 2"
proof -
  have run: "append_event (\<lambda>_. None) (demo_event ''b'' 2) (MemoryLog 1 [demo_event ''a'' 1]) =
      (None, MemoryLog 1 [demo_event ''b'' 2])"
    by (simp add: last_n_def)
  have "last (list_for_agent_run (ev_run (demo_event ''b'' 2)) (ev_tenant (demo_event ''b'' 2)) 1
      (MemoryLog 1 [demo_event ''b'' 2])) = demo_event ''b'' 2"
    by (rule audit_newest_visible [OF run]) (simp_all add: demo_event_def)
  then show ?thesis by (simp add: demo_event_def)
qed

end
