(* ===== verification/Decision.thy ===== *)
theory Decision
  imports Domain Regex
begin

text \<open>
  The semantic decision (agent/schemas.py): what the language model proposes, after its JSON was
  validated. \<open>SemanticTarget\<close> and its validator, the discriminated targets of the third contract
  version and their normalisation; then the grounding of a target in the user's own words
  (agent/semantic_grounding.py) and its admissibility (agent/target_admissibility.py).
\<close>

section \<open>Targets and decisions\<close>

datatype target_type = EXPLICIT_ORDER | LATEST_ORDER | EXPLICIT_TICKET

fun target_type_value :: "target_type \<Rightarrow> string" where
  "target_type_value EXPLICIT_ORDER = ''explicit_order''"
| "target_type_value LATEST_ORDER = ''latest_order''"
| "target_type_value EXPLICIT_TICKET = ''explicit_ticket''"

record semantic_target =
  tg_type :: target_type
  tg_order :: "int option"
  tg_ticket :: "int option"

definition positive :: "int option \<Rightarrow> bool" where
  "positive x = (case x of None \<Rightarrow> True | Some n \<Rightarrow> 0 < n)"

text \<open>\<open>SemanticTarget(...)\<close>: the field constraints and the validator.\<close>

definition make_target :: "target_type \<Rightarrow> int option \<Rightarrow> int option \<Rightarrow> exn + semantic_target" where
  "make_target k oid tid =
     (if \<not> positive oid \<or> \<not> positive tid \<or>
         (k = EXPLICIT_ORDER \<and> oid = None) \<or>
         (k = EXPLICIT_TICKET \<and> tid = None) \<or>
         (k = LATEST_ORDER \<and> (oid \<noteq> None \<or> tid \<noteq> None)) \<or>
         (k = EXPLICIT_ORDER \<and> tid \<noteq> None) \<or>
         (k = EXPLICIT_TICKET \<and> oid \<noteq> None)
      then Inl PydanticValidationError
      else Inr \<lparr>tg_type = k, tg_order = oid, tg_ticket = tid\<rparr>)"

definition target_ok :: "semantic_target \<Rightarrow> bool" where
  "target_ok t \<longleftrightarrow> make_target (tg_type t) (tg_order t) (tg_ticket t) = Inr t"

record memory_candidate =
  mc_type :: memory_type
  mc_content :: ustr
  mc_key :: ustr
  mc_confidence :: rat
  mc_explicit :: bool

record 't decision_of =
  sd_intent :: intent
  sd_request :: request_type
  sd_target :: "'t option"
  sd_reason :: ustr
  sd_category :: "ustr option"
  sd_description :: "ustr option"
  sd_priority :: "ustr option"
  sd_summary :: "ustr option"
  sd_clarification :: bool
  sd_retrieval :: bool
  sd_query :: "ustr option"
  sd_memory :: "memory_candidate option"
  sd_memory_key :: "ustr option"

type_synonym semantic_decision = "semantic_target decision_of"

text \<open>The length limits of the decision models (both versions have the same).\<close>

definition short :: "nat \<Rightarrow> ustr option \<Rightarrow> bool" where
  "short n x = (case x of None \<Rightarrow> True | Some s \<Rightarrow> length s \<le> n)"

definition decision_fits :: "'t decision_of \<Rightarrow> bool" where
  "decision_fits d \<longleftrightarrow>
     length (sd_reason d) \<le> 300 \<and> short 100 (sd_category d) \<and> short 5000 (sd_description d) \<and>
     short 20 (sd_priority d) \<and> short 5000 (sd_summary d) \<and> short 500 (sd_query d) \<and>
     short 64 (sd_memory_key d)"

text \<open>The targets of version 3 carry exactly the identifier their type needs.\<close>

datatype target_v3 = OrderV3 int | LatestV3 | TicketV3 int

type_synonym decision_v3 = "target_v3 decision_of"

fun target_v3_ok :: "target_v3 \<Rightarrow> bool" where
  "target_v3_ok (OrderV3 n) = (0 < n)"
| "target_v3_ok LatestV3 = True"
| "target_v3_ok (TicketV3 n) = (0 < n)"

fun normalize_target :: "target_v3 \<Rightarrow> exn + semantic_target" where
  "normalize_target (OrderV3 n) = make_target EXPLICIT_ORDER (Some n) None"
| "normalize_target LatestV3 = make_target LATEST_ORDER None None"
| "normalize_target (TicketV3 n) = make_target EXPLICIT_TICKET None (Some n)"

definition retarget :: "'a decision_of \<Rightarrow> 'b option \<Rightarrow> 'b decision_of" where
  "retarget d t =
     \<lparr>sd_intent = sd_intent d, sd_request = sd_request d, sd_target = t, sd_reason = sd_reason d,
      sd_category = sd_category d, sd_description = sd_description d, sd_priority = sd_priority d,
      sd_summary = sd_summary d, sd_clarification = sd_clarification d,
      sd_retrieval = sd_retrieval d, sd_query = sd_query d, sd_memory = sd_memory d,
      sd_memory_key = sd_memory_key d\<rparr>"

definition normalize_semantic_decision :: "decision_v3 \<Rightarrow> exn + semantic_decision" where
  "normalize_semantic_decision d =
     (case sd_target d of
        None \<Rightarrow> if decision_fits d then Inr (retarget d None) else Inl PydanticValidationError
      | Some t \<Rightarrow> and_then (normalize_target t) (\<lambda>t'.
          if decision_fits d then Inr (retarget d (Some t')) else Inl PydanticValidationError))"

section \<open>Grounding\<close>

text \<open>\<open>(?<![A-Za-z0-9_-])([1-9][0-9]*)(?![A-Za-z0-9_-])\<close>\<close>

definition id_char :: "int \<Rightarrow> bool" where
  "id_char c \<longleftrightarrow> (65 \<le> c \<and> c \<le> 90) \<or> (97 \<le> c \<and> c \<le> 122) \<or> (48 \<le> c \<and> c \<le> 57) \<or> c = 95 \<or> c = 45"

definition domain_integer_id :: rx where
  "domain_integer_id =
     rseq [RNotBehind id_char, RSet (\<lambda>c. 49 \<le> c \<and> c \<le> 57),
           RStar (RSet (\<lambda>c. 48 \<le> c \<and> c \<le> 57)), RNotAhead id_char]"

text \<open>The source compares the decimal texts of the numbers, which is to compare the numbers.\<close>

definition user_domain_ids :: "ustr \<Rightarrow> int list" where
  "user_domain_ids s = map digits_value (findall domain_integer_id s)"

record semantic_grounding =
  gr_status :: grounding_status
  gr_reference :: "string option"
  gr_source :: "string option"

definition validate_semantic_grounding :: "semantic_decision \<Rightarrow> ustr \<Rightarrow> semantic_grounding" where
  "validate_semantic_grounding d message =
     (case sd_target d of
        None \<Rightarrow> \<lparr>gr_status = GS_NOT_APPLICABLE, gr_reference = None, gr_source = None\<rparr>
      | Some t \<Rightarrow>
          let ref = Some (target_type_value (tg_type t)) in
          if tg_type t = LATEST_ORDER
          then \<lparr>gr_status = GS_SYMBOLIC, gr_reference = ref, gr_source = None\<rparr>
          else
            (case (if tg_type t = EXPLICIT_ORDER then tg_order t else tg_ticket t) of
               None \<Rightarrow> \<lparr>gr_status = GS_INVALID, gr_reference = ref, gr_source = None\<rparr>
             | Some i \<Rightarrow>
                 if i \<in> set (user_domain_ids message)
                 then \<lparr>gr_status = GS_GROUNDED, gr_reference = ref,
                       gr_source = Some ''current_user_message''\<rparr>
                 else \<lparr>gr_status = GS_UNGROUNDED, gr_reference = ref, gr_source = None\<rparr>))"

section \<open>Admissibility\<close>

definition destructive_intent :: "intent \<Rightarrow> bool" where
  "destructive_intent k \<longleftrightarrow> k \<in> {ORDER_CANCEL, REFUND_REQUEST}"

definition assess_target_admissibility ::
  "intent \<Rightarrow> semantic_target option \<Rightarrow> semantic_grounding option \<Rightarrow> admissibility" where
  "assess_target_admissibility k target grounding =
     (case target of
        None \<Rightarrow> if destructive_intent k then TA_REQUIRES_CLARIFICATION else TA_ADMISSIBLE
      | Some t \<Rightarrow>
          if tg_type t = LATEST_ORDER then
            (if destructive_intent k then TA_REQUIRES_CLARIFICATION else TA_ADMISSIBLE_SYMBOLIC_READ)
          else case grounding of
            None \<Rightarrow> TA_ADMISSIBLE
          | Some g \<Rightarrow> if gr_status g \<in> {GS_UNGROUNDED, GS_INVALID} then TA_REQUIRES_CLARIFICATION
                      else TA_ADMISSIBLE)"

section \<open>Laws\<close>

lemma target_ok_iff:
  "target_ok t \<longleftrightarrow>
     (case tg_type t of
        EXPLICIT_ORDER \<Rightarrow> (\<exists>n > 0. tg_order t = Some n) \<and> tg_ticket t = None
      | LATEST_ORDER \<Rightarrow> tg_order t = None \<and> tg_ticket t = None
      | EXPLICIT_TICKET \<Rightarrow> (\<exists>n > 0. tg_ticket t = Some n) \<and> tg_order t = None)"
proof (cases t)
  case (fields k oid tid)
  then show ?thesis
    by (cases k; cases oid; cases tid) (simp_all add: target_ok_def make_target_def positive_def)
qed

lemma make_target_ok:
  assumes "make_target k oid tid = Inr t"
  shows "target_ok t"
proof -
  have "t = \<lparr>tg_type = k, tg_order = oid, tg_ticket = tid\<rparr>"
    using assms unfolding make_target_def by (simp split: if_split_asm)
  then show ?thesis using assms by (simp add: target_ok_def)
qed

lemma normalize_target_ok: "target_v3_ok t \<Longrightarrow> \<exists>t'. normalize_target t = Inr t' \<and> target_ok t'"
  by (cases t) (auto simp: make_target_def positive_def target_ok_def)

text \<open>A digit run as the pattern finds it: what stands before and after it is no identifier character.\<close>

definition id_token :: "ustr \<Rightarrow> ustr \<Rightarrow> ustr \<Rightarrow> bool" where
  "id_token u w v \<longleftrightarrow>
     w \<noteq> [] \<and> (\<forall>c \<in> set w. 48 \<le> c \<and> c \<le> 57) \<and> hd w \<noteq> 48 \<and>
     \<not> class_at id_char (rev u) \<and> \<not> class_at id_char v"

lemma star_digits:
  assumes "matches (RStar (RSet P)) p q"
  shows "\<exists>w. snd p = w @ snd q \<and> fst q = rev w @ fst p \<and> (\<forall>c \<in> set w. P c)"
proof -
  define r where "r = RStar (RSet P)"
  from assms have "matches r p q" by (simp add: r_def)
  then show ?thesis using r_def
  proof (induction rule: matches.induct)
    case (m_star1 s p q t)
    then obtain w where w: "snd q = w @ snd t" "fst t = rev w @ fst q" "\<forall>c \<in> set w. P c" by auto
    from m_star1 have "matches (RSet P) p q" by simp
    then obtain c where "P c" "snd p = c # snd q" "fst q = c # fst p"
      by (auto simp: matches_simps)
    with w show ?case by (intro exI [of _ "c # w"]) auto
  qed auto
qed

lemma domain_id_token:
  assumes "w \<in> set (findall domain_integer_id s)"
  shows "\<exists>u v. s = u @ w @ v \<and> id_token u w v"
proof -
  from findall_sound [OF assms] obtain u v where s: "s = u @ w @ v"
    and m: "matches domain_integer_id (rev u, w @ v) (rev w @ rev u, v)" by blast
  from m obtain c x where cx: "w @ v = c # x" "\<not> class_at id_char (rev u)" "49 \<le> c" "c \<le> 57"
    and st: "matches (RStar (RSet (\<lambda>c. 48 \<le> c \<and> c \<le> 57))) (c # rev u, x) (rev w @ rev u, v)"
    and na: "\<not> class_at id_char v"
    by (auto simp: domain_integer_id_def matches_simps)
  from star_digits [OF st] obtain y where y: "x = y @ v" "rev w @ rev u = rev y @ c # rev u"
    "\<forall>d \<in> set y. 48 \<le> d \<and> d \<le> 57" by auto
  then have "w = c # y" using cx(1) by simp
  then show ?thesis using s cx na y(3) by (auto simp: id_token_def)
qed

lemma grounded_token:
  assumes "gr_status (validate_semantic_grounding d message) = GS_GROUNDED"
  shows "\<exists>t i u w v. sd_target d = Some t \<and>
    (if tg_type t = EXPLICIT_ORDER then tg_order t else tg_ticket t) = Some i \<and>
    tg_type t \<noteq> LATEST_ORDER \<and> message = u @ w @ v \<and> id_token u w v \<and> digits_value w = i"
proof -
  obtain t where t: "sd_target d = Some t"
    using assms by (cases "sd_target d") (simp_all add: validate_semantic_grounding_def)
  let ?i = "if tg_type t = EXPLICIT_ORDER then tg_order t else tg_ticket t"
  have k: "tg_type t \<noteq> LATEST_ORDER"
    using assms t by (auto simp: validate_semantic_grounding_def)
  obtain i where i: "?i = Some i"
    using assms t k by (cases ?i) (simp_all add: validate_semantic_grounding_def Let_def)
  then have "i \<in> set (user_domain_ids message)"
    using assms t k by (simp add: validate_semantic_grounding_def Let_def split: if_splits)
  then obtain w where "w \<in> set (findall domain_integer_id message)" "digits_value w = i"
    by (auto simp: user_domain_ids_def)
  with domain_id_token [of w message] t k i show ?thesis by blast
qed

end
