(* ===== verification/Compiler.thy ===== *)
theory Compiler
  imports Decision Tools Catalog "HOL-Library.List_Lexorder" "HOL-Library.Char_ord"
begin

text \<open>
  The decision compiler (agent/decision_compiler.py): it turns a semantic decision into a registered
  tool with arguments bound to the execution context, or into a clarification or a rejection. The
  resolver of business targets reads the orders of the store.
\<close>

section \<open>Routes and tools of the intents\<close>

definition action_tools :: "(intent \<times> string) list" where
  "action_tools = [(ORDER_CANCEL, ''cancel_order''), (REFUND_REQUEST, ''request_refund''),
     (TICKET_CREATE, ''create_support_ticket''), (HUMAN_ESCALATION, ''escalate_to_human'')]"

definition read_tools :: "(intent \<times> string) list" where
  "read_tools = [(CUSTOMER_LOOKUP, ''get_customer''), (ORDER_LOOKUP, ''get_order''),
     (ORDER_LIST, ''get_customer_orders''), (TICKET_LOOKUP, ''get_ticket''),
     (TICKET_LIST, ''get_customer_tickets'')]"

definition knowledge_intents :: "intent list" where
  "knowledge_intents =
     [CAPABILITY_QUESTION, REFUND_POLICY, CANCELLATION_POLICY, SHIPPING_POLICY, SUPPORT_FAQ]"

definition knowledge_and_action_intents :: "intent list" where
  "knowledge_and_action_intents = [REFUND_ELIGIBILITY, CANCELLATION_EXPLANATION]"

definition knowledge_queries :: "(intent \<times> ustr) list" where
  "knowledge_queries = [(REFUND_ELIGIBILITY, lit ''refund eligibility policy''),
     (CANCELLATION_EXPLANATION, lit ''cancellation after shipment'')]"

definition memory_intents :: "intent list" where
  "memory_intents = [MEMORY_REMEMBER, MEMORY_FORGET]"

definition semantic_intent_routes :: "(intent \<times> string) list" where
  "semantic_intent_routes =
     map (\<lambda>p. (fst p, ''action'')) action_tools @ map (\<lambda>p. (fst p, ''read'')) read_tools @
     map (\<lambda>k. (k, ''knowledge'')) knowledge_intents @
     map (\<lambda>k. (k, ''knowledge_and_action'')) knowledge_and_action_intents @
     map (\<lambda>k. (k, ''memory'')) memory_intents @ [(UNKNOWN, ''clarification'')]"

section \<open>Markers in the user's words\<close>

definition ticket_request_markers :: "ustr list" where
  "ticket_request_markers =
     [lit ''ticket'', lit ''support'', lit ''open'', lit ''create'', lit ''record'',
      lit ''kay'' @ [305] @ lit ''t'', lit ''destek'', lit ''a'' @ [231],
      lit ''olu'' @ [351] @ lit ''tur'']"

definition generic_reason_words :: "ustr list" where
  "generic_reason_words =
     [lit ''a'', lit ''an'', lit ''and'', lit ''arrived'', lit ''because'', lit ''for'',
      lit ''i'', lit ''item'', lit ''it'', lit ''my'', lit ''need'', lit ''number'', lit ''of'',
      lit ''order'', lit ''please'', lit ''refund'', lit ''request'', lit ''the'', lit ''to'',
      lit ''want'', lit ''bir'', lit ''ben'', lit ''benim'', lit ''geldi'',
      lit ''geldi'' @ [287] @ lit ''i'', lit ''iade'', lit ''iadesi'',
      lit ''i'' @ [231] @ lit ''in'', lit ''l'' @ [252] @ lit ''tfen'', lit ''numaral'' @ [305],
      lit ''para'', lit ''sipari'' @ [351], lit ''sipari'' @ [351] @ lit ''e'',
      lit ''sipari'' @ [351] @ lit ''i'', lit ''yap'', lit ''yap'' @ [305] @ lit ''n'']"

definition latest_order_markers :: "ustr list" where
  "latest_order_markers =
     [lit ''latest'', lit ''last order'', lit ''most recent'', lit ''recent order'',
      lit ''recent orders'', lit ''en son'', lit ''son sipari'' @ [351],
      lit ''son sipari'' @ [351] @ lit ''ler'', lit ''en yeni'',
      lit ''yak'' @ [305] @ lit ''n tarihli'']"

definition contradictory_cancel_markers :: "ustr list" where
  "contradictory_cancel_markers =
     [lit ''don'' @ [39] @ lit ''t cancel'', lit ''do not cancel'', lit ''no cancel'',
      lit ''no, cancel'', lit ''never cancel'', lit ''not cancel'', lit ''no longer cancel'',
      lit ''not sure'', lit ''uncertain'', lit ''maybe'', lit ''cancel etmeyin'',
      lit ''hay'' @ [305] @ lit ''r iptal'', lit ''hay'' @ [305] @ lit ''r, iptal'',
      lit ''iptal etme'', lit ''iptal etmeyin'', lit ''iptal etmek istemiyorum'',
      lit ''vazge'' @ [231], lit ''emin de'' @ [287] @ lit ''ilim'',
      lit ''karars'' @ [305] @ lit ''z'', lit ''keep it active'', lit ''keep it open'',
      lit ''aktif kals'' @ [305] @ lit ''n'',
      lit ''a'' @ [231, 305] @ lit ''k kals'' @ [305] @ lit ''n'']"

definition unsupported_reason_markers :: "ustr list" where
  "unsupported_reason_markers =
     [lit ''make up a reason'', lit ''invent a reason'', lit ''fabricate a reason'',
      lit ''bir neden uydur'', lit ''neden uydur'', lit ''bir sebep uydur'', lit ''sebep uydur'']"

text \<open>\<open>re.findall(r"[\w'...]+", s.casefold())\<close>, where the class adds the right quotation mark.\<close>

definition words_of :: "ustr \<Rightarrow> ustr list" where
  "words_of s = runs (\<lambda>c. is_word c \<or> c = 8217) (casefold s)"

definition contains_ticket_request :: "ustr \<Rightarrow> bool" where
  "contains_ticket_request s \<longleftrightarrow> list_ex (\<lambda>w. w \<in> set ticket_request_markers) (words_of s)"

definition has_marker :: "ustr list \<Rightarrow> ustr \<Rightarrow> bool" where
  "has_marker ms s \<longleftrightarrow> list_ex (\<lambda>m. contains m s) ms"

definition is_latest_order_request :: "ustr \<Rightarrow> bool" where
  "is_latest_order_request s \<longleftrightarrow> has_marker latest_order_markers (squeeze (casefold s))"

definition is_contradictory_cancel :: "ustr \<Rightarrow> bool" where
  "is_contradictory_cancel s \<longleftrightarrow>
     (let n = squeeze (casefold s) in
      (contains (lit ''cancel'') n \<or> contains (lit ''iptal'') n) \<and>
      has_marker contradictory_cancel_markers n)"

definition reason_is_user_supported :: "ustr \<Rightarrow> ustr \<Rightarrow> bool" where
  "reason_is_user_supported reason s \<longleftrightarrow>
     \<not> has_marker unsupported_reason_markers (squeeze (casefold s)) \<and>
     (let rw = filter (\<lambda>w. w \<notin> set generic_reason_words) (words_of reason);
          mw = filter (\<lambda>w. w \<notin> set generic_reason_words) (words_of s) in
      rw \<noteq> [] \<and> list_all (\<lambda>w. w \<in> set mw) rw)"

section \<open>Resolving an order\<close>

text \<open>Newest first by creation time (ISO texts order like their times), then by id.\<close>

definition latest_order :: "store \<Rightarrow> int \<Rightarrow> string \<Rightarrow> order_row option" where
  "latest_order st c tenant =
     (case rev (sort_key or_created (sort_key or_id
              (filter (\<lambda>r. or_customer r = c \<and> or_tenant r = tenant) (orders st)))) of
        [] \<Rightarrow> None
      | r # _ \<Rightarrow> Some r)"

definition resolve_order_id :: "store \<Rightarrow> semantic_target \<Rightarrow> int \<Rightarrow> string \<Rightarrow> int option" where
  "resolve_order_id st t c tenant =
     (if tg_type t = EXPLICIT_ORDER then tg_order t
      else if tg_type t \<noteq> LATEST_ORDER then None
      else map_option or_id (latest_order st c tenant))"

definition wrong_order_target :: "semantic_target option \<Rightarrow> bool" where
  "wrong_order_target t = (case t of None \<Rightarrow> False | Some t \<Rightarrow> tg_type t = EXPLICIT_TICKET)"

definition order_target :: "store \<Rightarrow> semantic_target option \<Rightarrow> int \<Rightarrow> string \<Rightarrow> int option" where
  "order_target st t c tenant =
     (case t of
        None \<Rightarrow> None
      | Some t \<Rightarrow> if tg_type t = EXPLICIT_TICKET then None else resolve_order_id st t c tenant)"

section \<open>Results\<close>

record compiled_decision =
  cd_status :: compile_status
  cd_intent :: intent
  cd_request :: request_type
  cd_tool :: "string option"
  cd_arguments :: "pyval dict"
  cd_retrieval :: bool
  cd_query :: "ustr option"
  cd_memory :: "memory_candidate option"
  cd_memory_key :: "ustr option"
  cd_reason :: ustr
  cd_rejection :: "string option"
  cd_support :: support_status
  cd_validated :: bool
  cd_cause :: "clarification_cause option"
  cd_missing :: "string list"

definition blank_compiled :: "compile_status \<Rightarrow> intent \<Rightarrow> request_type \<Rightarrow> ustr \<Rightarrow> compiled_decision" where
  "blank_compiled s k q reason =
     \<lparr>cd_status = s, cd_intent = k, cd_request = q, cd_tool = None, cd_arguments = [],
      cd_retrieval = False, cd_query = None, cd_memory = None, cd_memory_key = None,
      cd_reason = reason, cd_rejection = None, cd_support = SS_NOT_APPLICABLE,
      cd_validated = False, cd_cause = None, cd_missing = []\<rparr>"

definition missing_required_fields :: "intent \<Rightarrow> string \<Rightarrow> string list" where
  "missing_required_fields k reason =
     (let n = casefold (lit reason) in
      if k \<in> {ORDER_CANCEL, REFUND_REQUEST, ORDER_LOOKUP} \<and>
         (contains (lit ''specific'') n \<or> contains (lit ''authorized target'') n) then [''order_id'']
      else if k = REFUND_REQUEST \<and> contains (lit ''refund reason'') n then [''reason'']
      else if k = HUMAN_ESCALATION \<and> contains (lit ''escalation details'') n
      then [''reason'', ''priority'', ''summary'']
      else if k = TICKET_CREATE \<and> contains (lit ''category and description'') n
      then [''category'', ''description'']
      else if k = TICKET_LOOKUP \<and> contains (lit ''specific ticket'') n then [''ticket_id'']
      else [])"

definition default_support :: "intent \<Rightarrow> support_status" where
  "default_support k = (if k = REFUND_REQUEST then SS_NOT_EVALUATED else SS_NOT_APPLICABLE)"

definition clarification_with ::
  "support_status option \<Rightarrow> bool \<Rightarrow> clarification_cause \<Rightarrow> semantic_decision \<Rightarrow> string \<Rightarrow>
     compiled_decision" where
  "clarification_with support validated cause d reason =
     (blank_compiled ST_CLARIFICATION_REQUIRED (sd_intent d) RT_UNCLEAR (lit reason))
       \<lparr>cd_support := (case support of None \<Rightarrow> default_support (sd_intent d) | Some s \<Rightarrow> s),
        cd_validated := validated, cd_cause := Some cause,
        cd_missing := missing_required_fields (sd_intent d) reason\<rparr>"

abbreviation clarify :: "semantic_decision \<Rightarrow> string \<Rightarrow> compiled_decision" where
  "clarify d reason \<equiv> clarification_with None False CC_OTHER d reason"

definition rejected :: "semantic_decision \<Rightarrow> string \<Rightarrow> compiled_decision" where
  "rejected d reason =
     (blank_compiled ST_COMPILE_REJECTED (sd_intent d) RT_UNCLEAR
        (lit ''The request could not be compiled safely.''))
       \<lparr>cd_rejection := Some reason, cd_support := default_support (sd_intent d)\<rparr>"

definition action_with ::
  "support_status \<Rightarrow> bool \<Rightarrow> semantic_decision \<Rightarrow> execution_context \<Rightarrow> string \<Rightarrow> pyval dict \<Rightarrow>
     compiled_decision" where
  "action_with support validated d ctx tool args =
     (blank_compiled ST_COMPILED_ACTION (sd_intent d)
        (if tool \<in> set (map snd action_tools) then RT_WRITE_ACTION else RT_READ_ACTION) (sd_reason d))
       \<lparr>cd_tool := Some tool, cd_arguments := (''customer_id'', PInt (effective_customer ctx)) # args,
        cd_support := support, cd_validated := validated\<rparr>"

abbreviation act :: "semantic_decision \<Rightarrow> execution_context \<Rightarrow> string \<Rightarrow> pyval dict \<Rightarrow> compiled_decision" where
  "act d ctx tool args \<equiv> action_with SS_NOT_APPLICABLE False d ctx tool args"

text \<open>An optional text that is present and not empty.\<close>

definition given :: "ustr option \<Rightarrow> bool" where
  "given x = (case x of None \<Rightarrow> False | Some s \<Rightarrow> s \<noteq> [])"

abbreviation ptext :: "ustr option \<Rightarrow> pyval" where
  "ptext x \<equiv> (case x of None \<Rightarrow> PNone | Some s \<Rightarrow> PStr s)"

section \<open>Actions\<close>

definition compile_refund ::
  "semantic_decision \<Rightarrow> execution_context \<Rightarrow> ustr \<Rightarrow> bool \<Rightarrow> int \<Rightarrow> compiled_decision" where
  "compile_refund d ctx message restored oid =
     (if sd_reason d = [] then
        clarification_with (Some SS_MISSING) False CC_MISSING_REFUND_REASON d
          ''A refund reason is required.''
      else if \<not> restored \<and> \<not> reason_is_user_supported (sd_reason d) message then
        clarification_with (Some SS_UNSUPPORTED) True CC_UNSUPPORTED_REFUND_REASON d
          ''The refund reason must come from the customer request.''
      else action_with SS_SUPPORTED True d ctx ''request_refund''
             [(''order_id'', PInt oid), (''reason'', PStr (sd_reason d))])"

definition compile_ticket ::
  "store \<Rightarrow> semantic_decision \<Rightarrow> execution_context \<Rightarrow> ustr \<Rightarrow> compiled_decision" where
  "compile_ticket st d ctx message =
     (let finish = (\<lambda>oid. act d ctx ''create_support_ticket''
             [(''order_id'', popt oid), (''category'', ptext (sd_category d)),
              (''description'', ptext (sd_description d))]) in
      if \<not> given (sd_category d) \<or> \<not> given (sd_description d) then
        clarify d ''Ticket category and description are required.''
      else if message \<noteq> [] \<and> \<not> contains_ticket_request message then
        clarify d ''The customer must explicitly request a support ticket.''
      else case sd_target d of
        None \<Rightarrow> finish None
      | Some t \<Rightarrow>
          if wrong_order_target (Some t) then rejected d ''Ticket creation received a ticket target.''
          else (case order_target st (Some t) (effective_customer ctx) (ctx_tenant ctx) of
                  None \<Rightarrow> clarify d ''The referenced order could not be resolved.''
                | Some oid \<Rightarrow> finish (Some oid)))"

definition compile_escalation ::
  "store \<Rightarrow> semantic_decision \<Rightarrow> execution_context \<Rightarrow> compiled_decision" where
  "compile_escalation st d ctx =
     (if sd_reason d = [] \<or> \<not> given (sd_priority d) \<or> \<not> given (sd_summary d) then
        clarify d ''Escalation details are required.''
      else case Option.bind (sd_priority d) (enum_of_text priority_value all_priorities) of
        None \<Rightarrow> rejected d ''Unsupported escalation priority.''
      | Some p \<Rightarrow>
          let finish = (\<lambda>tid oid. act d ctx ''escalate_to_human''
                [(''ticket_id'', popt tid), (''order_id'', popt oid), (''reason'', PStr (sd_reason d)),
                 (''priority'', pstr (priority_value p)), (''summary'', ptext (sd_summary d))]) in
          case sd_target d of
            None \<Rightarrow> finish None None
          | Some t \<Rightarrow>
              if tg_type t \<in> {EXPLICIT_ORDER, LATEST_ORDER} then
                (case order_target st (Some t) (effective_customer ctx) (ctx_tenant ctx) of
                   None \<Rightarrow> clarify d ''The referenced order could not be resolved.''
                 | Some oid \<Rightarrow> finish None (Some oid))
              else finish (tg_ticket t) None)"

definition compile_action ::
  "store \<Rightarrow> semantic_decision \<Rightarrow> execution_context \<Rightarrow> ustr \<Rightarrow> bool \<Rightarrow> compiled_decision" where
  "compile_action st d ctx message restored =
     (if sd_intent d \<in> {ORDER_CANCEL, REFUND_REQUEST} then
        (if wrong_order_target (sd_target d) then rejected d ''Order action received a ticket target.''
         else case order_target st (sd_target d) (effective_customer ctx) (ctx_tenant ctx) of
           None \<Rightarrow> clarify d ''A specific order is required.''
         | Some oid \<Rightarrow>
             if sd_intent d = ORDER_CANCEL then act d ctx ''cancel_order'' [(''order_id'', PInt oid)]
             else compile_refund d ctx message restored oid)
      else if sd_intent d = TICKET_CREATE then compile_ticket st d ctx message
      else if sd_intent d = HUMAN_ESCALATION then compile_escalation st d ctx
      else rejected d ''Executable semantic intent is unsupported.'')"

section \<open>Reads, knowledge and memory\<close>

definition compile_read ::
  "store \<Rightarrow> semantic_decision \<Rightarrow> execution_context \<Rightarrow> ustr \<Rightarrow> compiled_decision" where
  "compile_read st d ctx message =
     (case sd_intent d of
        CUSTOMER_LOOKUP \<Rightarrow>
          if sd_target d \<noteq> None then rejected d ''Customer lookup does not accept a target.''
          else act d ctx ''get_customer'' []
      | ORDER_LIST \<Rightarrow>
          if sd_target d \<noteq> None then rejected d ''Order list does not accept a target.''
          else act d ctx ''get_customer_orders'' []
      | TICKET_LIST \<Rightarrow>
          if sd_target d \<noteq> None then rejected d ''Ticket list does not accept a target.''
          else act d ctx ''get_customer_tickets'' []
      | ORDER_LOOKUP \<Rightarrow>
          if wrong_order_target (sd_target d) then rejected d ''Order lookup received a ticket target.''
          else if (case sd_target d of None \<Rightarrow> False | Some t \<Rightarrow> tg_type t = LATEST_ORDER) \<and>
                  \<not> is_latest_order_request message then
            clarify d ''A latest-order reference is not grounded in the current request.''
          else (case order_target st (sd_target d) (effective_customer ctx) (ctx_tenant ctx) of
                  None \<Rightarrow> clarify d ''A specific order is required.''
                | Some oid \<Rightarrow> act d ctx ''get_order'' [(''order_id'', PInt oid)])
      | TICKET_LOOKUP \<Rightarrow>
          (case sd_target d of
             None \<Rightarrow> clarify d ''A specific ticket is required.''
           | Some t \<Rightarrow>
               if tg_type t \<noteq> EXPLICIT_TICKET then rejected d ''Ticket lookup received a non-ticket target.''
               else act d ctx ''get_ticket'' [(''ticket_id'', popt (tg_ticket t))])
      | _ \<Rightarrow> rejected d ''Read semantic intent is unsupported.'')"

definition compile_knowledge :: "semantic_decision \<Rightarrow> compiled_decision" where
  "compile_knowledge d =
     (if sd_clarification d \<and> \<not> given (sd_query d) then
        clarify d ''The knowledge request needs clarification.''
      else (blank_compiled ST_NO_ACTION (sd_intent d) RT_KNOWLEDGE_ONLY (sd_reason d))
             \<lparr>cd_retrieval := sd_retrieval d, cd_query := sd_query d\<rparr>)"

definition compile_knowledge_and_action ::
  "store \<Rightarrow> semantic_decision \<Rightarrow> execution_context \<Rightarrow> compiled_decision" where
  "compile_knowledge_and_action st d ctx =
     (if wrong_order_target (sd_target d) then
        rejected d ''Knowledge-and-action request received a ticket target.''
      else case order_target st (sd_target d) (effective_customer ctx) (ctx_tenant ctx) of
        None \<Rightarrow> clarify d ''A specific order is required.''
      | Some oid \<Rightarrow>
          (blank_compiled ST_COMPILED_ACTION (sd_intent d) RT_KNOWLEDGE_AND_ACTION (sd_reason d))
            \<lparr>cd_tool := Some ''get_order'',
             cd_arguments := [(''customer_id'', PInt (effective_customer ctx)), (''order_id'', PInt oid)],
             cd_retrieval := True,
             cd_query := (if \<not> sd_retrieval d \<or> \<not> given (sd_query d)
                          then map_of knowledge_queries (sd_intent d) else sd_query d)\<rparr>)"

definition compile_memory :: "semantic_decision \<Rightarrow> compiled_decision" where
  "compile_memory d =
     (if sd_intent d = MEMORY_REMEMBER \<and> sd_memory d = None then clarify d ''A specific memory is required.''
      else if sd_intent d = MEMORY_FORGET \<and> \<not> given (sd_memory_key d) then
        clarify d ''A memory key is required.''
      else (blank_compiled ST_NO_ACTION (sd_intent d) RT_MEMORY_ACTION (sd_reason d))
             \<lparr>cd_memory := sd_memory d, cd_memory_key := sd_memory_key d\<rparr>)"

section \<open>The compiler\<close>

definition compile ::
  "store \<Rightarrow> semantic_decision \<Rightarrow> execution_context \<Rightarrow> semantic_grounding option \<Rightarrow> ustr \<Rightarrow> bool \<Rightarrow>
     compiled_decision" where
  "compile st d ctx grounding message restored =
     (case map_of semantic_intent_routes (sd_intent d) of
        None \<Rightarrow> rejected d ''Semantic intent has no compiler route.''
      | Some route \<Rightarrow>
          if route = ''knowledge'' then compile_knowledge d
          else if assess_target_admissibility (sd_intent d) (sd_target d) grounding
                  \<in> {TA_REQUIRES_CLARIFICATION, TA_INVALID} then
            clarify d ''The request needs a specific, authorized target.''
          else if route = ''action'' then
            (if sd_intent d = ORDER_CANCEL \<and> is_contradictory_cancel message then
               clarify d ''The cancellation request is contradictory and needs clarification.''
             else compile_action st d ctx message restored)
          else if route = ''read'' then compile_read st d ctx message
          else if route = ''knowledge_and_action'' then compile_knowledge_and_action st d ctx
          else if route = ''memory'' then compile_memory d
          else clarify d ''The request needs clarification.'')"

end
