(* ===== verification/Compiler_Laws.thy ===== *)
theory Compiler_Laws
  imports Compiler Policy
begin

text \<open>
  What the compiler guarantees: every intent has a route, a compiled action is bound to the context
  and validates against its tool's input model, a destructive action names an order the user wrote,
  and a refund reason has words of its own, all of them the user's.
\<close>

section \<open>Results\<close>

lemma status_simps [simp]:
  "cd_status (clarification_with s v c d r) = ST_CLARIFICATION_REQUIRED"
  "cd_status (rejected d r) = ST_COMPILE_REJECTED"
  "cd_status (action_with u v d ctx t a) = ST_COMPILED_ACTION"
  "cd_tool (action_with u v d ctx t a) = Some t"
  "cd_arguments (action_with u v d ctx t a) = (''customer_id'', PInt (effective_customer ctx)) # a"
  "cd_intent (action_with u v d ctx t a) = sd_intent d"
  by (simp_all add: clarification_with_def rejected_def action_with_def blank_compiled_def)

lemma route_of:
  "map_of semantic_intent_routes k = Some
     (if k \<in> {ORDER_CANCEL, REFUND_REQUEST, TICKET_CREATE, HUMAN_ESCALATION} then ''action''
      else if k \<in> {CUSTOMER_LOOKUP, ORDER_LOOKUP, ORDER_LIST, TICKET_LOOKUP, TICKET_LIST} then ''read''
      else if k \<in> set knowledge_intents then ''knowledge''
      else if k \<in> set knowledge_and_action_intents then ''knowledge_and_action''
      else if k \<in> set memory_intents then ''memory'' else ''clarification'')"
  by (cases k) (simp_all add: semantic_intent_routes_def action_tools_def read_tools_def
      knowledge_intents_def knowledge_and_action_intents_def memory_intents_def)

definition admissible_target :: "semantic_decision \<Rightarrow> semantic_grounding option \<Rightarrow> bool" where
  "admissible_target d g \<longleftrightarrow>
     assess_target_admissibility (sd_intent d) (sd_target d) g \<notin> {TA_REQUIRES_CLARIFICATION, TA_INVALID}"

lemma compile_cases:
  assumes "cd_status (compile st d ctx g msg restored) = ST_COMPILED_ACTION"
  shows "admissible_target d g \<and>
    (sd_intent d \<in> {ORDER_CANCEL, REFUND_REQUEST, TICKET_CREATE, HUMAN_ESCALATION} \<and>
       compile st d ctx g msg restored = compile_action st d ctx msg restored \<or>
     sd_intent d \<in> {CUSTOMER_LOOKUP, ORDER_LOOKUP, ORDER_LIST, TICKET_LOOKUP, TICKET_LIST} \<and>
       compile st d ctx g msg restored = compile_read st d ctx msg \<or>
     sd_intent d \<in> {REFUND_ELIGIBILITY, CANCELLATION_EXPLANATION} \<and>
       compile st d ctx g msg restored = compile_knowledge_and_action st d ctx)"
proof -
  have k: "cd_status (compile_knowledge d) \<noteq> ST_COMPILED_ACTION"
    "cd_status (compile_memory d) \<noteq> ST_COMPILED_ACTION"
    by (simp_all add: compile_knowledge_def compile_memory_def blank_compiled_def)
  have adm: "admissible_target d g"
    using assms k by (auto simp: compile_def route_of admissible_target_def split: if_splits)
  then show ?thesis
    using assms k
    by (cases "sd_intent d")
       (simp_all add: compile_def route_of admissible_target_def knowledge_intents_def
        knowledge_and_action_intents_def memory_intents_def split: if_splits)
qed

section \<open>The forms of a compiled action\<close>

definition order_found :: "store \<Rightarrow> semantic_decision \<Rightarrow> execution_context \<Rightarrow> int \<Rightarrow> bool" where
  "order_found st d ctx oid \<longleftrightarrow>
     order_target st (sd_target d) (effective_customer ctx) (ctx_tenant ctx) = Some oid"

lemma compiled_destructive:
  assumes "cd_status (compile_action st d ctx msg restored) = ST_COMPILED_ACTION"
    and "sd_intent d \<in> {ORDER_CANCEL, REFUND_REQUEST}"
  shows "\<exists>oid. order_found st d ctx oid \<and>
    (sd_intent d = ORDER_CANCEL \<and>
       compile_action st d ctx msg restored = act d ctx ''cancel_order'' [(''order_id'', PInt oid)] \<or>
     sd_intent d = REFUND_REQUEST \<and> sd_reason d \<noteq> [] \<and>
       (\<not> restored \<longrightarrow> reason_is_user_supported (sd_reason d) msg) \<and>
       compile_action st d ctx msg restored = action_with SS_SUPPORTED True d ctx ''request_refund''
         [(''order_id'', PInt oid), (''reason'', PStr (sd_reason d))])"
  using assms
  by (auto simp: compile_action_def compile_refund_def order_found_def split: if_splits option.splits)

lemma reason_supported_iff:
  "reason_is_user_supported reason msg \<longleftrightarrow>
     (\<forall>m \<in> set unsupported_reason_markers. \<not> contains m (squeeze (casefold msg))) \<and>
     set (words_of reason) - set generic_reason_words \<noteq> {} \<and>
     set (words_of reason) - set generic_reason_words \<subseteq> set (words_of msg)"
  by (auto simp: reason_is_user_supported_def has_marker_def list_ex_iff list_all_iff filter_empty_conv)

lemma compiled_refund_iff:
  assumes "sd_intent d = REFUND_REQUEST"
  shows "cd_status (compile_action st d ctx msg restored) = ST_COMPILED_ACTION \<longleftrightarrow>
    (\<exists>oid. order_found st d ctx oid) \<and> sd_reason d \<noteq> [] \<and>
    (restored \<or> reason_is_user_supported (sd_reason d) msg)"
  using assms
  by (auto simp: compile_action_def compile_refund_def order_found_def order_target_def wrong_order_target_def
      split: option.splits)

lemma compiled_refund_form:
  assumes "sd_intent d = REFUND_REQUEST"
    and "cd_status (compile_action st d ctx msg restored) = ST_COMPILED_ACTION"
  shows "cd_tool (compile_action st d ctx msg restored) = Some ''request_refund''"
    and "dget (cd_arguments (compile_action st d ctx msg restored)) ''reason'' = Some (PStr (sd_reason d))"
  using compiled_destructive [OF assms(2)] assms(1) by auto

lemma compiled_ticket:
  assumes "cd_status (compile_ticket st d ctx msg) = ST_COMPILED_ACTION"
  shows "\<exists>oid. (oid = None \<or> (\<exists>i. oid = Some i \<and> order_found st d ctx i)) \<and>
    given (sd_category d) \<and> given (sd_description d) \<and>
    compile_ticket st d ctx msg = act d ctx ''create_support_ticket''
      [(''order_id'', popt oid), (''category'', ptext (sd_category d)),
       (''description'', ptext (sd_description d))]"
  using assms
  by (auto simp: compile_ticket_def order_found_def Let_def split: if_splits option.splits)

lemma compiled_escalation:
  assumes "cd_status (compile_escalation st d ctx) = ST_COMPILED_ACTION"
  shows "\<exists>tid oid p. (oid = None \<or> (\<exists>i. oid = Some i \<and> order_found st d ctx i)) \<and>
    (tid = None \<or> (\<exists>t. sd_target d = Some t \<and> tg_type t = EXPLICIT_TICKET \<and> tid = tg_ticket t)) \<and>
    sd_reason d \<noteq> [] \<and> given (sd_summary d) \<and>
    compile_escalation st d ctx = act d ctx ''escalate_to_human''
      [(''ticket_id'', popt tid), (''order_id'', popt oid), (''reason'', PStr (sd_reason d)),
       (''priority'', pstr (priority_value p)), (''summary'', ptext (sd_summary d))]"
proof -
  obtain p where p: "Option.bind (sd_priority d) (enum_of_text priority_value all_priorities) = Some p"
    and r: "sd_reason d \<noteq> []" "given (sd_summary d)" "given (sd_priority d)"
    using assms by (auto simp: compile_escalation_def split: if_splits option.splits)
  show ?thesis
  proof (cases "sd_target d")
    case None
    then show ?thesis using p r
      by (intro exI [of _ None] exI [of _ p]) (simp add: compile_escalation_def popt_def)
  next
    case (Some t)
    show ?thesis
    proof (cases "tg_type t = EXPLICIT_TICKET")
      case True
      then show ?thesis using p r Some
        by (intro exI [of _ "tg_ticket t"] exI [of _ None] exI [of _ p])
           (simp add: compile_escalation_def popt_def)
    next
      case False
      then have k: "tg_type t \<in> {EXPLICIT_ORDER, LATEST_ORDER}" by (cases "tg_type t") auto
      then obtain i where i: "order_found st d ctx i"
        using assms p r Some by (auto simp: compile_escalation_def order_found_def split: option.splits)
      then show ?thesis using p r Some k
        by (intro exI [of _ None] exI [of _ "Some i"] exI [of _ p])
           (simp add: compile_escalation_def order_found_def popt_def)
    qed
  qed
qed

lemma compiled_read:
  assumes "cd_status (compile_read st d ctx msg) = ST_COMPILED_ACTION"
  shows "(\<exists>tool \<in> {''get_customer'', ''get_customer_orders'', ''get_customer_tickets''}.
            compile_read st d ctx msg = act d ctx tool []) \<or>
    (\<exists>oid. order_found st d ctx oid \<and> compile_read st d ctx msg = act d ctx ''get_order'' [(''order_id'', PInt oid)]) \<or>
    (\<exists>t. sd_target d = Some t \<and> tg_type t = EXPLICIT_TICKET \<and>
       compile_read st d ctx msg = act d ctx ''get_ticket'' [(''ticket_id'', popt (tg_ticket t))])"
  using assms
  by (cases "sd_intent d") (auto simp: compile_read_def order_found_def split: if_splits option.splits)

end
