(* ===== verification/Text_Laws.thy ===== *)
theory Text_Laws
  imports PyText
begin

text \<open>
  Laws of the string operations: the words of a text under concatenation, stripping, joining and case
  folding, and substrings.
\<close>

section \<open>Substrings and joins\<close>

lemma join_char_append:
  "join_char c (ws @ vs) =
     (if ws = [] then join_char c vs else if vs = [] then join_char c ws
      else join_char c ws @ c # join_char c vs)"
proof (induction ws rule: join_char.induct [of _ c])
  case (2 c w)
  then show ?case by (cases vs) auto
qed auto

lemma contains_iff: "contains p s \<longleftrightarrow> (\<exists>u v. s = u @ p @ v)"
proof -
  have pre: "has_prefix p s \<longleftrightarrow> (\<exists>v. s = p @ v)" for p s
    by (induction p s rule: has_prefix.induct) auto
  show ?thesis
  proof (induction p s rule: contains.induct)
    case (2 p c cs)
    have "(\<exists>u v. c # cs = u @ p @ v) \<longleftrightarrow> (\<exists>v. c # cs = p @ v) \<or> (\<exists>u v. cs = u @ p @ v)"
      by (metis append_Cons append_Nil append_eq_Cons_conv)
    then show ?case using 2 pre by auto
  qed auto
qed

lemma contains_append: "contains p s \<Longrightarrow> contains p (s @ t)" "contains p s \<Longrightarrow> contains p (t @ s)"
  unfolding contains_iff by (metis append.assoc)+

lemma contains_trans: "contains p s \<Longrightarrow> contains s t \<Longrightarrow> contains p t"
  unfolding contains_iff by (metis append.assoc)

section \<open>The words of a text\<close>

lemma split_ws_from_sep:
  "is_space c \<Longrightarrow> split_ws_from w (s @ c # t) = split_ws_from w s @ split_ws t"
  by (induction s arbitrary: w) (auto simp: split_ws_def)

lemma split_ws_sep: "is_space c \<Longrightarrow> split_ws (s @ c # t) = split_ws s @ split_ws t"
  by (simp add: split_ws_def split_ws_from_sep)

lemma squeeze_sep:
  "squeeze (s @ 32 # t) =
     (if split_ws s = [] then squeeze t else if split_ws t = [] then squeeze s
      else squeeze s @ [32] @ squeeze t)"
  by (simp add: squeeze_def split_ws_sep is_space_def join_char_append)

lemma contains_squeeze_more:
  assumes "contains p (squeeze s)"
  shows "contains p (squeeze (s @ 32 # t))" and "contains p (squeeze (t @ 32 # s))"
proof -
  have empty: "p = []" if "split_ws s = []"
    using that assms by (simp add: squeeze_def)
  have any: "contains [] x" for x by (cases x) simp_all
  show "contains p (squeeze (s @ 32 # t))"
    using assms empty any contains_append(1) unfolding squeeze_sep by (auto split: if_split)
  show "contains p (squeeze (t @ 32 # s))"
    using assms empty any contains_append(2) [of p "squeeze s" "squeeze t @ [32]"]
    unfolding squeeze_sep by (auto split: if_split)
qed

lemma casefold_append: "casefold (s @ t) = casefold s @ casefold t"
  by (simp add: casefold_def)

lemma split_ws_Nil [simp]: "split_ws [] = []"
  by (simp add: split_ws_def)

lemma split_ws_left: "\<forall>c \<in> set a. is_space c \<Longrightarrow> split_ws (a @ s) = split_ws s"
  by (induction a) (simp_all add: split_ws_def)

lemma split_ws_right: "\<forall>c \<in> set a. is_space c \<Longrightarrow> split_ws (s @ a) = split_ws s"
proof (cases a)
  case (Cons c b)
  assume "\<forall>c \<in> set a. is_space c"
  then show ?thesis using split_ws_left [of b "[]"] by (simp add: Cons split_ws_sep)
qed simp

lemma split_ws_strip [simp]: "split_ws (strip s) = split_ws s"
proof -
  let ?t = "dropWhile is_space s"
  have "split_ws s = split_ws ?t"
    using split_ws_left [of "takeWhile is_space s" ?t] by (auto dest: set_takeWhileD)
  moreover have "?t = strip s @ rev (takeWhile is_space (rev ?t))"
    unfolding strip_def rev_append [symmetric] by simp
  then have "split_ws ?t = split_ws (strip s)"
    using split_ws_right [of "rev (takeWhile is_space (rev ?t))" "strip s"] by (auto dest: set_takeWhileD)
  ultimately show ?thesis by simp
qed

lemma split_ws_join:
  "is_space c \<Longrightarrow> split_ws (join_char c ws) = concat (map split_ws ws)"
  by (induction c ws rule: join_char.induct) (simp_all add: split_ws_sep)

section \<open>Stripped texts\<close>

definition stripped :: "ustr \<Rightarrow> bool" where
  "stripped s \<longleftrightarrow> s \<noteq> [] \<and> \<not> is_space (hd s) \<and> \<not> is_space (last s)"

lemma dropWhile_hd: "s \<noteq> [] \<Longrightarrow> \<not> P (hd s) \<Longrightarrow> dropWhile P s = s"
  by (cases s) auto

lemma strip_stripped: "stripped s \<Longrightarrow> strip s = s"
  by (simp add: stripped_def strip_def dropWhile_hd hd_rev)

lemma strip_cases: "strip s = [] \<or> stripped (strip s)"
proof (cases "strip s = []")
  case False
  let ?t = "dropWhile is_space s"
  have t: "?t \<noteq> []" using False by (intro notI) (simp add: strip_def)
  have r: "dropWhile is_space (rev ?t) \<noteq> []" using False by (simp add: strip_def)
  have "\<not> is_space (last (strip s))" using hd_dropWhile [OF r] r by (simp add: strip_def last_rev)
  moreover have "\<exists>v. ?t = strip s @ v"
    unfolding strip_def by (metis dropWhile_eq_drop append_take_drop_id rev_append rev_rev_ident)
  then have "hd (strip s) = hd ?t" using False by (metis hd_append2)
  then have "\<not> is_space (hd (strip s))" using hd_dropWhile [OF t] by simp
  ultimately show ?thesis using False by (simp add: stripped_def)
qed simp

lemma stripped_append: "stripped s \<Longrightarrow> stripped t \<Longrightarrow> stripped (s @ u @ t)"
  by (auto simp: stripped_def)

section \<open>Case folding keeps the words apart\<close>

lemma fold_in_cases:
  "fold_in c rs = c \<or> (\<exists>(lo, hi, st, d) \<in> set rs. lo \<le> c \<and> c \<le> hi \<and> fold_in c rs = c + d)"
  by (induction c rs rule: fold_in.induct) auto

lemma fold_ranges_spaces:
  "\<forall>(lo, hi, st, d) \<in> set fold_ranges. \<forall>c. lo \<le> c \<and> c \<le> hi \<longrightarrow> \<not> is_space c \<and> \<not> is_space (c + d)"
  unfolding fold_ranges_def by (simp add: is_space_def)

lemma casefold_space: "is_space c \<Longrightarrow> casefold_char c = [c]"
proof -
  assume c: "is_space c"
  then have "fold_in c fold_ranges = c" using fold_in_cases [of c fold_ranges] fold_ranges_spaces by blast
  moreover have "c \<noteq> 223" "c \<noteq> 304" using c by (auto simp: is_space_def)
  ultimately show ?thesis by (simp add: casefold_char_def)
qed

lemma fold_in_nonspace: "\<not> is_space c \<Longrightarrow> \<not> is_space (fold_in c fold_ranges)"
  using fold_in_cases [of c fold_ranges] fold_ranges_spaces by fastforce

lemma casefold_nonspace:
  "\<not> is_space c \<Longrightarrow> casefold_char c \<noteq> [] \<and> (\<forall>d \<in> set (casefold_char c). \<not> is_space d)"
  using fold_in_nonspace [of c] by (auto simp: casefold_char_def) (auto simp: is_space_def)

lemma split_ws_from_run:
  "\<forall>d \<in> set ds. \<not> is_space d \<Longrightarrow> split_ws_from w (ds @ s) = split_ws_from (rev ds @ w) s"
  by (induction ds arbitrary: w) simp_all

lemma split_ws_from_casefold:
  "split_ws_from (rev (casefold (rev w))) (casefold s) = map casefold (split_ws_from w s)"
proof (induction s arbitrary: w)
  case Nil
  have "casefold_char c \<noteq> []" for c by (simp add: casefold_char_def)
  then have "casefold (rev w) = [] \<longleftrightarrow> w = []" by (cases w) (simp_all add: casefold_def)
  then show ?case by (simp add: casefold_def)
next
  case (Cons c s)
  have cs: "casefold (c # s) = casefold_char c @ casefold s" by (simp add: casefold_def)
  show ?case
  proof (cases "is_space c")
    case True
    have "casefold_char d \<noteq> []" for d by (simp add: casefold_char_def)
    then have "casefold (rev w) = [] \<longleftrightarrow> w = []" by (cases w) (simp_all add: casefold_def)
    then show ?thesis using True Cons.IH [of "[]"] by (simp add: cs casefold_space) (simp add: casefold_def)
  next
    case False
    have "rev (casefold_char c) @ rev (casefold (rev w)) = rev (casefold (rev (c # w)))"
      by (simp add: casefold_def)
    then show ?thesis using False Cons.IH [of "c # w"] casefold_nonspace [OF False]
      by (simp add: cs split_ws_from_run)
  qed
qed

lemma split_ws_casefold: "split_ws (casefold s) = map casefold (split_ws s)"
  using split_ws_from_casefold [of "[]" s] by (simp add: split_ws_def casefold_def)

end
