(* ===== verification/Compiler_Safety.thy ===== *)
theory Compiler_Safety
  imports Compiler_Laws Tools_Laws Text_Laws
begin

text \<open>The properties of the compiler, and what a conversation's earlier words do to a later request.\<close>

section \<open>Markers of a longer conversation\<close>

lemma has_marker_more:
  "has_marker ms (squeeze (casefold s)) \<Longrightarrow> has_marker ms (squeeze (casefold (s @ 32 # t)))"
  "has_marker ms (squeeze (casefold s)) \<Longrightarrow> has_marker ms (squeeze (casefold (t @ 32 # s)))"
proof -
  have c: "casefold [32] = [32]" by (simp add: casefold_def casefold_char_def)
  have e: "casefold (a @ 32 # b) = casefold a @ 32 # casefold b" for a b
    using c casefold_append [of a "[32] @ b"] casefold_append [of "[32]" b] by simp
  show "has_marker ms (squeeze (casefold s)) \<Longrightarrow> has_marker ms (squeeze (casefold (s @ 32 # t)))"
    unfolding e has_marker_def list_ex_iff using contains_squeeze_more(1) by blast
  show "has_marker ms (squeeze (casefold s)) \<Longrightarrow> has_marker ms (squeeze (casefold (t @ 32 # s)))"
    unfolding e has_marker_def list_ex_iff using contains_squeeze_more(2) by blast
qed

section \<open>A concrete request\<close>

definition demo_decision :: "intent \<Rightarrow> int \<Rightarrow> string \<Rightarrow> semantic_decision" where
  "demo_decision k n reason =
     \<lparr>sd_intent = k, sd_request = RT_UNCLEAR,
      sd_target = Some \<lparr>tg_type = EXPLICIT_ORDER, tg_order = Some n, tg_ticket = None\<rparr>,
      sd_reason = lit reason, sd_category = None, sd_description = None, sd_priority = None,
      sd_summary = None, sd_clarification = False, sd_retrieval = False, sd_query = None,
      sd_memory = None, sd_memory_key = None\<rparr>"

definition demo_words :: ustr where
  "demo_words = lit ''Please refund order 12, it arrived broken''"

lemma demo_refund_compiled:
  "cd_status (compile demo_store (demo_decision REFUND_REQUEST 12 ''arrived broken'') demo_context
     (Some (validate_semantic_grounding (demo_decision REFUND_REQUEST 12 ''arrived broken'') demo_words))
     demo_words False) = ST_COMPILED_ACTION"
  by code_simp

section \<open>Properties\<close>

text \<open>Every intent the model may propose has exactly one route, so no decision falls through the
  compiler, and a tool is only ever compiled for an intent whose route runs tools.\<close>

theorem every_intent_routed:
  "(\<exists>!r. (k, r) \<in> set semantic_intent_routes) \<and>
   (k \<in> fst ` set action_tools \<longleftrightarrow> map_of semantic_intent_routes k = Some ''action'') \<and>
   (k \<in> fst ` set read_tools \<longleftrightarrow> map_of semantic_intent_routes k = Some ''read'')"
  by (cases k) (auto simp: route_of semantic_intent_routes_def action_tools_def read_tools_def
      knowledge_intents_def knowledge_and_action_intents_def memory_intents_def)

text \<open>C9. Nothing destructive is invented: when the compiler turns a fresh (not restored) request into a
  cancellation or a refund, the order it names is a number the user wrote in the conversation, as
  a token of its own; the symbolic latest order never qualifies.\<close>

theorem destructive_target_from_user:
  assumes "cd_status (compile st d ctx (Some (validate_semantic_grounding d msg)) msg restored) = ST_COMPILED_ACTION"
    and "sd_intent d \<in> {ORDER_CANCEL, REFUND_REQUEST}"
  shows "\<exists>i u w v.
    dget (cd_arguments (compile st d ctx (Some (validate_semantic_grounding d msg)) msg restored)) ''order_id''
      = Some (PInt i) \<and>
    msg = u @ w @ v \<and> id_token u w v \<and> digits_value w = i"
proof -
  let ?g = "validate_semantic_grounding d msg"
  have adm: "admissible_target d (Some ?g)"
    and act: "compile st d ctx (Some ?g) msg restored = compile_action st d ctx msg restored"
    using compile_cases [OF assms(1)] assms(2) by auto
  have compiled: "cd_status (compile_action st d ctx msg restored) = ST_COMPILED_ACTION"
    using assms(1) act by simp
  from compiled_destructive [OF compiled assms(2)] obtain oid where found: "order_found st d ctx oid"
    and arg: "dget (cd_arguments (compile_action st d ctx msg restored)) ''order_id'' = Some (PInt oid)"
    by fastforce
  obtain t where t: "sd_target d = Some t" and k: "tg_type t \<noteq> LATEST_ORDER"
    and g: "gr_status ?g \<notin> {GS_UNGROUNDED, GS_INVALID}"
    using adm assms(2)
    by (auto simp: admissible_target_def assess_target_admissibility_def destructive_intent_def
        split: option.splits if_splits)
  have e: "tg_type t = EXPLICIT_ORDER"
    using found t k by (cases "tg_type t") (auto simp: order_found_def order_target_def)
  then have o: "tg_order t = Some oid"
    using found t by (simp add: order_found_def order_target_def resolve_order_id_def)
  have "gr_status ?g = GS_GROUNDED"
    using g t e o by (auto simp: validate_semantic_grounding_def Let_def split: if_splits)
  from grounded_token [OF this] t e o obtain u w v where
    "msg = u @ w @ v" "id_token u w v" "digits_value w = oid" by auto
  then show ?thesis using arg unfolding act by (intro exI [of _ oid] exI [of _ u] exI [of _ w] exI [of _ v]) simp
qed

lemma destructive_target_from_user_witness:
  "\<exists>i u w v. demo_words = u @ w @ v \<and> id_token u w v \<and> digits_value w = i"
  using destructive_target_from_user [OF demo_refund_compiled] by (auto simp: demo_decision_def)

text \<open>C10. A refund request is compiled exactly when its target is admissible and resolves to an order, its
  reason is not empty and, unless it is a restored action, the conversation asks nobody to make up
  a reason, the reason has a word that is no generic refund language, and every such word of it is one of
  the words the user wrote; the tool then gets this reason and no other. A restored action keeps its
  reason without a second look at the conversation, but never an empty one.\<close>

theorem refund_reason_from_user:
  assumes "sd_intent d = REFUND_REQUEST"
  shows "(cd_status (compile st d ctx g msg restored) = ST_COMPILED_ACTION \<longleftrightarrow>
      admissible_target d g \<and> (\<exists>oid. order_found st d ctx oid) \<and> sd_reason d \<noteq> [] \<and>
      (restored \<or>
         (\<forall>m \<in> set unsupported_reason_markers. \<not> contains m (squeeze (casefold msg))) \<and>
         set (words_of (sd_reason d)) - set generic_reason_words \<noteq> {} \<and>
         set (words_of (sd_reason d)) - set generic_reason_words \<subseteq> set (words_of msg))) \<and>
    (cd_status (compile st d ctx g msg restored) = ST_COMPILED_ACTION \<longrightarrow>
      cd_tool (compile st d ctx g msg restored) = Some ''request_refund'' \<and>
      dget (cd_arguments (compile st d ctx g msg restored)) ''reason'' = Some (PStr (sd_reason d)))"
proof -
  have act: "compile st d ctx g msg restored =
      (if admissible_target d g then compile_action st d ctx msg restored
       else clarify d ''The request needs a specific, authorized target.'')"
    using assms by (simp add: compile_def route_of admissible_target_def knowledge_intents_def)
  show ?thesis
    by (simp add: act assms compiled_refund_iff reason_supported_iff compiled_refund_form conj_ac)
qed

lemma refund_reason_from_user_witness:
  "lit ''broken'' \<in> set (words_of demo_words) \<and>
   cd_status (compile demo_store (demo_decision REFUND_REQUEST 12 ''refund order'') demo_context
     (Some (validate_semantic_grounding (demo_decision REFUND_REQUEST 12 ''refund order'') demo_words))
     demo_words False) \<noteq> ST_COMPILED_ACTION"
proof -
  have k: "sd_intent (demo_decision REFUND_REQUEST 12 r) = REFUND_REQUEST" for r by (simp add: demo_decision_def)
  have "lit ''broken'' \<in> set (words_of (sd_reason (demo_decision REFUND_REQUEST 12 ''arrived broken'')))"
    "lit ''broken'' \<notin> set generic_reason_words" by code_simp+
  moreover have "list_all (\<lambda>w. w \<in> set generic_reason_words)
      (words_of (sd_reason (demo_decision REFUND_REQUEST 12 ''refund order'')))" by code_simp
  ultimately show ?thesis
    using refund_reason_from_user [OF k, of demo_store "''arrived broken''"] demo_refund_compiled
      refund_reason_from_user [OF k, of demo_store "''refund order''"]
    by (auto simp: list_all_iff)
qed

text \<open>The words of the whole conversation decide whether a cancellation is contradictory, so a doubt
  once voiced blocks every later cancellation: adding messages never makes it go away.\<close>

theorem contradiction_is_sticky:
  assumes "is_contradictory_cancel earlier" and "sd_intent d = ORDER_CANCEL"
  shows "cd_status (compile st d ctx g (earlier @ 32 # later) restored) = ST_CLARIFICATION_REQUIRED"
proof -
  have more: "contains m (squeeze (casefold earlier)) \<Longrightarrow>
      contains m (squeeze (casefold (earlier @ 32 # later)))" for m
    using has_marker_more(1) [of "[m]" earlier later] by (simp add: has_marker_def)
  have "is_contradictory_cancel (earlier @ 32 # later)"
    using assms(1) more has_marker_more(1) by (auto simp: is_contradictory_cancel_def Let_def)
  then show ?thesis using assms(2) by (simp add: compile_def route_of)
qed

lemma contradiction_is_sticky_witness:
  "cd_status (compile demo_store (demo_decision ORDER_CANCEL 12 []) demo_context None
     (lit ''maybe cancel order 12'' @ 32 # lit ''yes, cancel order 12'') False) = ST_CLARIFICATION_REQUIRED"
proof -
  have "is_contradictory_cancel (lit ''maybe cancel order 12'')" by code_simp
  then show ?thesis by (rule contradiction_is_sticky) (simp add: demo_decision_def)
qed

section \<open>Compiled arguments are valid\<close>

text \<open>Orders and customers carry positive ids, as an autoincremented primary key does.\<close>

definition ids_positive :: "store \<Rightarrow> bool" where
  "ids_positive st \<longleftrightarrow> (\<forall>r \<in> set (orders st). 0 < or_id r)"

definition well_formed_decision :: "semantic_decision \<Rightarrow> bool" where
  "well_formed_decision d \<longleftrightarrow> decision_fits d \<and> (\<forall>t. sd_target d = Some t \<longrightarrow> target_ok t)"

lemma latest_order_in: "latest_order st c t = Some r \<Longrightarrow> r \<in> set (orders st) \<and> or_customer r = c \<and> or_tenant r = t"
proof -
  let ?xs = "sort_key or_created (sort_key or_id (filter (\<lambda>r. or_customer r = c \<and> or_tenant r = t) (orders st)))"
  assume "latest_order st c t = Some r"
  then have "r \<in> set (rev ?xs)"
    unfolding latest_order_def by (cases "rev ?xs") (auto simp del: set_rev)
  then show ?thesis by simp
qed

lemma order_found_pos:
  assumes "order_found st d ctx oid" and "ids_positive st" and "well_formed_decision d"
  shows "0 < oid"
proof -
  obtain t where t: "sd_target d = Some t" using assms(1)
    by (cases "sd_target d") (simp_all add: order_found_def order_target_def)
  then have ok: "target_ok t" using assms(3) by (simp add: well_formed_decision_def)
  show ?thesis
  proof (cases "tg_type t")
    case EXPLICIT_ORDER
    then show ?thesis using assms(1) t ok
      by (auto simp: order_found_def order_target_def resolve_order_id_def target_ok_iff)
  next
    case LATEST_ORDER
    then obtain r where "latest_order st (effective_customer ctx) (ctx_tenant ctx) = Some r" "oid = or_id r"
      using assms(1) t by (auto simp: order_found_def order_target_def resolve_order_id_def)
    then show ?thesis using assms(2) by (auto simp: ids_positive_def dest: latest_order_in)
  next
    case EXPLICIT_TICKET
    then show ?thesis using assms(1) t by (simp add: order_found_def order_target_def)
  qed
qed

lemma ticket_target_pos:
  "sd_target d = Some t \<Longrightarrow> tg_type t = EXPLICIT_TICKET \<Longrightarrow> well_formed_decision d \<Longrightarrow>
     \<exists>n. tg_ticket t = Some n \<and> 0 < n"
  by (auto simp: well_formed_decision_def target_ok_iff)

lemma given_iff: "given x \<longleftrightarrow> (\<exists>s. x = Some s \<and> s \<noteq> [])"
  by (cases x) (auto simp: given_def)

text \<open>A compiled decision whose tool, arguments and customer stand up to the catalogue and the policy.\<close>

definition ready_to_run :: "coercion \<Rightarrow> execution_context \<Rightarrow> compiled_decision \<Rightarrow> bool" where
  "ready_to_run co ctx c \<longleftrightarrow>
     (\<exists>tool m inp. cd_tool c = Some tool \<and> get_agent_tool_definition tool = Some m \<and>
        validate_input co m (cd_arguments c) = Inr inp \<and>
        input_customer inp = effective_customer ctx \<and>
        d_outcome (evaluate_default_policy tool ctx (cd_arguments c)) \<noteq> PO_DENY)"

lemma ready_intro:
  assumes "cd_tool c = Some tool" and "cd_arguments c = (''customer_id'', PInt (effective_customer ctx)) # args"
    and "get_agent_tool_definition tool = Some m"
    and "validate_input co m ((''customer_id'', PInt (effective_customer ctx)) # args) = Inr inp"
    and "input_customer inp = effective_customer ctx" and "0 < effective_customer ctx"
  shows "ready_to_run co ctx c"
proof -
  have "d_outcome (evaluate_default_policy tool ctx (cd_arguments c)) \<noteq> PO_DENY"
    using registry_complete [OF assms(3)] assms(2,6) by (simp add: policy_outcome_cases pget_def)
  then show ?thesis using assms unfolding ready_to_run_def by auto
qed

lemma defined_tools:
  "get_agent_tool_definition ''get_customer'' = Some GetCustomerInput"
  "get_agent_tool_definition ''get_customer_orders'' = Some GetCustomerInput"
  "get_agent_tool_definition ''get_customer_tickets'' = Some GetCustomerInput"
  "get_agent_tool_definition ''get_order'' = Some GetOrderInput"
  "get_agent_tool_definition ''get_ticket'' = Some GetTicketInput"
  "get_agent_tool_definition ''create_support_ticket'' = Some CreateSupportTicketInput"
  "get_agent_tool_definition ''cancel_order'' = Some CancelOrderInput"
  "get_agent_tool_definition ''request_refund'' = Some RequestRefundInput"
  "get_agent_tool_definition ''escalate_to_human'' = Some EscalateToHumanInput"
  by (simp_all add: catalog_defs)

lemma ready_forms:
  assumes co: "coercion_ok co" and c: "0 < effective_customer ctx"
  shows "tool \<in> {''get_customer'', ''get_customer_orders'', ''get_customer_tickets''} \<Longrightarrow>
      ready_to_run co ctx (action_with u v d ctx tool [])"
    and "0 < oid \<Longrightarrow> ready_to_run co ctx (action_with u v d ctx ''get_order'' [(''order_id'', PInt oid)])"
    and "0 < oid \<Longrightarrow> ready_to_run co ctx (action_with u v d ctx ''cancel_order'' [(''order_id'', PInt oid)])"
    and "0 < tid \<Longrightarrow> ready_to_run co ctx (action_with u v d ctx ''get_ticket'' [(''ticket_id'', PInt tid)])"
    and "0 < oid \<Longrightarrow> r \<noteq> [] \<Longrightarrow> length r \<le> 300 \<Longrightarrow> ready_to_run co ctx
      (action_with u v d ctx ''request_refund'' [(''order_id'', PInt oid), (''reason'', PStr r)])"
  subgoal by (rule ready_intro [where m = GetCustomerInput]) (use co c in \<open>auto simp: field_put defined_tools\<close>)
  subgoal by (rule ready_intro [where m = GetOrderInput]) (use co c in \<open>auto simp: field_put defined_tools\<close>)
  subgoal by (rule ready_intro [where m = CancelOrderInput]) (use co c in \<open>auto simp: field_put defined_tools\<close>)
  subgoal by (rule ready_intro [where m = GetTicketInput]) (use co c in \<open>auto simp: field_put defined_tools\<close>)
  subgoal by (rule ready_intro [where m = RequestRefundInput])
      (use co c in \<open>auto simp: field_put defined_tools Suc_le_eq\<close>)
  done

lemma ready_ticket:
  assumes "coercion_ok co" "0 < effective_customer ctx" "\<forall>i. oid = Some i \<longrightarrow> 0 < i"
    and "k \<noteq> []" "length k \<le> 100" "t \<noteq> []" "length t \<le> 5000"
  shows "ready_to_run co ctx (action_with u v d ctx ''create_support_ticket''
      [(''order_id'', popt oid), (''category'', PStr k), (''description'', PStr t)])"
  by (rule ready_intro [where m = CreateSupportTicketInput])
     (use assms in \<open>auto simp: field_put defined_tools Suc_le_eq\<close>)

lemma ready_escalation:
  assumes "coercion_ok co" "0 < effective_customer ctx" "\<forall>i. oid = Some i \<longrightarrow> 0 < i"
    "\<forall>i. tid = Some i \<longrightarrow> 0 < i"
    and "r \<noteq> []" "length r \<le> 300" "s \<noteq> []" "length s \<le> 5000"
  shows "ready_to_run co ctx (action_with u v d ctx ''escalate_to_human''
      [(''ticket_id'', popt tid), (''order_id'', popt oid), (''reason'', PStr r),
       (''priority'', pstr (priority_value p)), (''summary'', PStr s)])"
  by (rule ready_intro [where m = EscalateToHumanInput])
     (use assms in \<open>auto simp: field_put defined_tools Suc_le_eq\<close>)

lemma compiled_ready:
  assumes "cd_status (compile st d ctx g msg restored) = ST_COMPILED_ACTION"
    and co: "coercion_ok co" and wf: "well_formed_decision d" and ids: "ids_positive st"
    and c: "0 < effective_customer ctx"
  shows "ready_to_run co ctx (compile st d ctx g msg restored)"
proof -
  note pos = order_found_pos [OF _ ids wf]
  have fits: "length (sd_reason d) \<le> 300" "short 100 (sd_category d)" "short 5000 (sd_description d)"
    "short 5000 (sd_summary d)"
    using wf by (auto simp: well_formed_decision_def decision_fits_def)
  consider (destructive) "sd_intent d \<in> {ORDER_CANCEL, REFUND_REQUEST}"
      "compile st d ctx g msg restored = compile_action st d ctx msg restored"
    | (ticket) "compile st d ctx g msg restored = compile_ticket st d ctx msg"
    | (escalation) "compile st d ctx g msg restored = compile_escalation st d ctx"
    | (read) "compile st d ctx g msg restored = compile_read st d ctx msg"
    | (both) "compile st d ctx g msg restored = compile_knowledge_and_action st d ctx"
    using compile_cases [OF assms(1)] by (auto simp: compile_action_def)
  then show ?thesis
  proof cases
    case destructive
    then show ?thesis
      using compiled_destructive [of st d ctx msg restored] assms(1) ready_forms [OF co c] pos fits(1)
      by auto
  next
    case ticket
    then obtain oid where o: "oid = None \<or> (\<exists>i. oid = Some i \<and> order_found st d ctx i)"
      and g: "given (sd_category d)" "given (sd_description d)"
      and e: "compile_ticket st d ctx msg = act d ctx ''create_support_ticket''
        [(''order_id'', popt oid), (''category'', ptext (sd_category d)), (''description'', ptext (sd_description d))]"
      using compiled_ticket [of st d ctx msg] assms(1) by auto
    have "\<forall>i. oid = Some i \<longrightarrow> 0 < i" using o pos by auto
    then show ?thesis unfolding ticket e using g fits co c
      by (auto simp: given_iff short_def intro!: ready_ticket)
  next
    case escalation
    then obtain tid oid p where o: "oid = None \<or> (\<exists>i. oid = Some i \<and> order_found st d ctx i)"
      and t: "tid = None \<or> (\<exists>t. sd_target d = Some t \<and> tg_type t = EXPLICIT_TICKET \<and> tid = tg_ticket t)"
      and g: "sd_reason d \<noteq> []" "given (sd_summary d)"
      and e: "compile_escalation st d ctx = act d ctx ''escalate_to_human''
        [(''ticket_id'', popt tid), (''order_id'', popt oid), (''reason'', PStr (sd_reason d)),
         (''priority'', pstr (priority_value p)), (''summary'', ptext (sd_summary d))]"
      using compiled_escalation [of st d ctx] assms(1) by auto
    have "\<forall>i. oid = Some i \<longrightarrow> 0 < i" using o pos by auto
    moreover have "\<forall>i. tid = Some i \<longrightarrow> 0 < i"
    proof (intro allI impI)
      fix i assume "tid = Some i"
      then obtain u where "sd_target d = Some u" "tg_type u = EXPLICIT_TICKET" "tg_ticket u = Some i"
        using t by auto
      then show "0 < i" using ticket_target_pos [of d u] wf by auto
    qed
    ultimately have "\<forall>i. oid = Some i \<longrightarrow> 0 < i" "\<forall>i. tid = Some i \<longrightarrow> 0 < i" by blast+
    then show ?thesis unfolding escalation e using g fits co c
      by (auto simp: given_iff short_def intro!: ready_escalation)
  next
    case read
    then show ?thesis
      using compiled_read [of st d ctx msg] assms(1) ready_forms [OF co c] pos ticket_target_pos [OF _ _ wf]
      by (fastforce simp: popt_def)
  next
    case both
    then obtain oid where "order_found st d ctx oid"
      and f: "cd_tool (compile st d ctx g msg restored) = Some ''get_order''"
        "cd_arguments (compile st d ctx g msg restored) =
          [(''customer_id'', PInt (effective_customer ctx)), (''order_id'', PInt oid)]"
      using assms(1) by (auto simp: compile_knowledge_and_action_def order_found_def blank_compiled_def
          split: if_splits option.splits)
    then show ?thesis
      by (intro ready_intro [OF f defined_tools(4) _ _ c]) (use co c pos in \<open>auto simp: field_put\<close>)
  qed
qed

text \<open>C11. A compiled action is ready to run: its tool is registered, its arguments name the customer of
  the context, they pass the tool's own input validation, and the default policy does not deny it.\<close>

theorem compiled_action_valid:
  assumes "cd_status (compile st d ctx g msg restored) = ST_COMPILED_ACTION"
    and "coercion_ok co" and "well_formed_decision d" and "ids_positive st"
    and "0 < effective_customer ctx"
  shows "\<exists>tool m inp. cd_tool (compile st d ctx g msg restored) = Some tool \<and>
    get_agent_tool_definition tool = Some m \<and>
    validate_input co m (cd_arguments (compile st d ctx g msg restored)) = Inr inp \<and>
    input_customer inp = effective_customer ctx \<and>
    d_outcome (evaluate_default_policy tool ctx (cd_arguments (compile st d ctx g msg restored))) \<noteq> PO_DENY"
  using compiled_ready [OF assms] unfolding ready_to_run_def .

lemma compiled_action_valid_witness:
  "\<exists>tool m inp. get_agent_tool_definition tool = Some m \<and>
     validate_input plain_coercion m (cd_arguments (compile demo_store
       (demo_decision REFUND_REQUEST 12 ''arrived broken'') demo_context
       (Some (validate_semantic_grounding (demo_decision REFUND_REQUEST 12 ''arrived broken'') demo_words))
       demo_words False)) = Inr inp \<and> input_customer inp = 7"
proof -
  have "well_formed_decision (demo_decision REFUND_REQUEST 12 ''arrived broken'')"
    by (simp add: well_formed_decision_def demo_decision_def decision_fits_def short_def target_ok_iff)
  moreover have "ids_positive demo_store" by (simp add: ids_positive_def demo_store_def)
  moreover have "effective_customer demo_context = 7" by (simp add: demo_context_def)
  ultimately show ?thesis
    using compiled_action_valid [OF demo_refund_compiled plain_coercion_ok] by fastforce
qed

end
