(* ===== verification/Pending.thy ===== *)
theory Pending
  imports Policy Decision "HOL-Library.List_Lexorder" "HOL-Library.Char_ord"
begin

text \<open>
  The stored payload of a pending action (agent/nodes/pending_payload.py): its policy inputs as
  canonical JSON, the comparison of the stored inputs with those rebuilt at confirmation time, and
  the decision a confirmed action is compiled from. Every value here is JSON already, so
  \<open>_json_value\<close> is the identity; the SHA-256 digest is a parameter.
\<close>

section \<open>JSON text\<close>

definition hex_digit :: "int \<Rightarrow> int" where
  "hex_digit n = (if n < 10 then 48 + n else 87 + n)"

definition u_escape :: "int \<Rightarrow> ustr" where
  "u_escape c = [92, 117, hex_digit (c div 4096 mod 16), hex_digit (c div 256 mod 16),
                 hex_digit (c div 16 mod 16), hex_digit (c mod 16)]"

text \<open>One character of a JSON string; with \<open>ensure_ascii\<close> the non-ASCII ones are escaped.\<close>

definition json_char :: "bool \<Rightarrow> int \<Rightarrow> ustr" where
  "json_char ensure_ascii c =
     (if c = 34 then [92, 34] else if c = 92 then [92, 92]
      else if c = 10 then [92, 110] else if c = 13 then [92, 114] else if c = 9 then [92, 116]
      else if c = 8 then [92, 98] else if c = 12 then [92, 102]
      else if c < 32 then u_escape c
      else if \<not> ensure_ascii \<or> c < 127 then [c]
      else if c < 65536 then u_escape c
      else u_escape (55296 + (c - 65536) div 1024) @ u_escape (56320 + (c - 65536) mod 1024))"

definition json_string :: "bool \<Rightarrow> ustr \<Rightarrow> ustr" where
  "json_string a s = 34 # concat (map (json_char a) s) @ [34]"

text \<open>\<open>sort_keys=True\<close>: the members of every dictionary in the order of their keys.\<close>

primrec sort_keys :: "pyval \<Rightarrow> pyval" where
  "sort_keys PNone = PNone"
| "sort_keys (PBool b) = PBool b"
| "sort_keys (PInt n) = PInt n"
| "sort_keys (PStr s) = PStr s"
| "sort_keys (PList xs) = PList (map sort_keys xs)"
| "sort_keys (PDict d) = PDict (sort_key fst (map (map_prod id sort_keys) d))"

text \<open>\<open>json.dumps(value, separators=(",", ":"))\<close>\<close>

primrec json_text :: "bool \<Rightarrow> pyval \<Rightarrow> ustr" where
  "json_text a PNone = lit ''null''"
| "json_text a (PBool b) = (if b then lit ''true'' else lit ''false'')"
| "json_text a (PInt n) = lit (dec n)"
| "json_text a (PStr s) = json_string a s"
| "json_text a (PList xs) = 91 # join_char 44 (map (json_text a) xs) @ [93]"
| "json_text a (PDict d) =
     123 # join_char 44 (map (\<lambda>p. json_string a (lit (fst p)) @ 58 # snd p)
             (map (map_prod id (json_text a)) d)) @ [125]"

definition serialize_policy_inputs :: "pyval dict \<Rightarrow> ustr" where
  "serialize_policy_inputs d = json_text False (PDict d)"

definition normalize_policy_inputs :: "pyval dict \<Rightarrow> ustr" where
  "normalize_policy_inputs d = json_text False (sort_keys (PDict d))"

definition hash_policy_inputs :: "(ustr \<Rightarrow> string) \<Rightarrow> pyval dict \<Rightarrow> string" where
  "hash_policy_inputs dg d = dg (normalize_policy_inputs d)"

section \<open>Comparison\<close>

definition dupdate :: "'v dict \<Rightarrow> 'v dict \<Rightarrow> 'v dict" where
  "dupdate d e = foldl (\<lambda>d p. dset (fst p) (snd p) d) d e"

definition sub_path :: "string \<Rightarrow> string \<Rightarrow> string" where
  "sub_path prefix k = (if prefix = [] then k else prefix @ ''.'' @ k)"

text \<open>\<open>_flatten\<close>: the leaves by their dotted paths; an empty dictionary has no leaf.\<close>

fun flatten :: "pyval \<Rightarrow> string \<Rightarrow> ustr dict"
and flatten_items :: "(string \<times> pyval) list \<Rightarrow> string \<Rightarrow> ustr dict \<Rightarrow> ustr dict" where
  "flatten (PDict d) prefix = flatten_items d prefix []"
| "flatten v prefix = [(prefix, json_text True (sort_keys v))]"
| "flatten_items [] prefix acc = acc"
| "flatten_items ((k, v) # r) prefix acc =
     flatten_items r prefix (dupdate acc (flatten v (sub_path prefix k)))"

record input_diff =
  di_missing :: "string list"
  di_added :: "string list"
  di_changed :: "string list"

definition sorted_keys :: "(string \<Rightarrow> bool) \<Rightarrow> 'v dict \<Rightarrow> string list" where
  "sorted_keys P d = sort (remdups (filter P (map fst d)))"

definition policy_input_diff :: "pyval dict \<Rightarrow> pyval dict \<Rightarrow> input_diff" where
  "policy_input_diff original restored =
     (let a = flatten (PDict original) []; b = flatten (PDict restored) [] in
      \<lparr>di_missing = sorted_keys (\<lambda>k. dget b k = None) a,
       di_added = sorted_keys (\<lambda>k. dget a k = None) b,
       di_changed = sorted_keys (\<lambda>k. dget b k \<noteq> None \<and> dget a k \<noteq> dget b k) a\<rparr>)"

definition no_diff :: "input_diff \<Rightarrow> bool" where
  "no_diff x \<longleftrightarrow> di_missing x = [] \<and> di_added x = [] \<and> di_changed x = []"

definition dump_diff :: "input_diff \<Rightarrow> pyval dict" where
  "dump_diff x = [(''missing'', PList (map pstr (di_missing x))),
     (''added'', PList (map pstr (di_added x))), (''changed'', PList (map pstr (di_changed x)))]"

section \<open>Building and rebuilding the inputs\<close>

definition build_policy_context :: "execution_context \<Rightarrow> pyval dict" where
  "build_policy_context ctx =
     (let p = ctx_principal ctx in
      [(''conversation_id'', pstr (conversation_id ctx)), (''tenant_id'', pstr (ctx_tenant ctx)),
       (''effective_customer_id'', PInt (effective_customer ctx)), (''actor_id'', pstr (actor_id p)),
       (''actor_type'', pstr (actor_type_value (actor_kind p))),
       (''principal_type'', pstr (principal_type_value (principal_kind p))),
       (''roles'', PList (map pstr (sort (roles p)))),
       (''groups'', PList (map pstr (sort (groups p))))])"

definition build_policy_inputs ::
  "execution_context \<Rightarrow> string \<Rightarrow> pyval dict \<Rightarrow> policy_decision \<Rightarrow> pyval dict" where
  "build_policy_inputs ctx tool args d =
     [(''schema_version'', PInt 1), (''tool_name'', pstr tool), (''arguments'', PDict args),
      (''context'', PDict (build_policy_context ctx)),
      (''outcome'', pstr (outcome_value (d_outcome d))), (''risk_level'', PInt (d_risk d)),
      (''reasons'', PList (map pstr (d_reasons d))),
      (''required_conditions'', PList (map pstr (d_conditions d)))]"

definition restore_pending_arguments :: "pending_action \<Rightarrow> pyval dict" where
  "restore_pending_arguments a =
     (let base = (case pget (pa_inputs a) ''arguments'' of PDict d \<Rightarrow> d | _ \<Rightarrow> pa_arguments a) in
      fold (\<lambda>k args. let v = pget (pa_entities a) k in
                     if v = PNone then args else dsetdefault k v args)
        [''customer_id'', ''order_id'', ''ticket_id'', ''reason'', ''category'', ''description''] base)"

definition restore_policy_inputs ::
  "pending_action \<Rightarrow> execution_context \<Rightarrow> pyval dict \<Rightarrow> pyval dict" where
  "restore_policy_inputs a ctx args =
     dset ''context'' (PDict (build_policy_context ctx))
       (dset ''arguments'' (PDict args)
         (dset ''tool_name'' (pstr (pa_tool a))
           (dset ''schema_version''
              (case dget (pa_inputs a) ''schema_version'' of None \<Rightarrow> PInt 1 | Some v \<Rightarrow> v)
              (pa_inputs a))))"

section \<open>The decision of a confirmed action\<close>

definition tool_intents :: "(string \<times> intent) list" where
  "tool_intents = [(''cancel_order'', ORDER_CANCEL), (''request_refund'', REFUND_REQUEST),
     (''create_support_ticket'', TICKET_CREATE), (''escalate_to_human'', HUMAN_ESCALATION)]"

text \<open>\<open>str(v)\<close>; the text of containers is the interpreter's and a parameter.\<close>

fun py_str :: "(pyval \<Rightarrow> ustr) \<Rightarrow> pyval \<Rightarrow> ustr" where
  "py_str rep PNone = lit ''None''"
| "py_str rep (PBool b) = (if b then lit ''True'' else lit ''False'')"
| "py_str rep (PInt n) = lit (dec n)"
| "py_str rep (PStr s) = s"
| "py_str rep v = rep v"

definition optional_text :: "pyval \<Rightarrow> ustr option" where
  "optional_text v = (case v of PStr s \<Rightarrow> if s = [] then None else Some s | _ \<Rightarrow> None)"

text \<open>\<open>isinstance(v, int) and v > 0\<close>; a bool is an integer.\<close>

fun positive_int :: "pyval \<Rightarrow> int option" where
  "positive_int (PInt n) = (if 0 < n then Some n else None)"
| "positive_int (PBool b) = (if b then Some 1 else None)"
| "positive_int _ = None"

definition restored_target :: "pyval dict \<Rightarrow> exn + semantic_target option" where
  "restored_target args =
     (case positive_int (pget args ''order_id'') of
        Some n \<Rightarrow> and_then (make_target EXPLICIT_ORDER (Some n) None) (\<lambda>t. Inr (Some t))
      | None \<Rightarrow>
          (case positive_int (pget args ''ticket_id'') of
             Some n \<Rightarrow> and_then (make_target EXPLICIT_TICKET None (Some n)) (\<lambda>t. Inr (Some t))
           | None \<Rightarrow> Inr None))"

text \<open>The decision with the fields a constructor call leaves out.\<close>

definition plain_decision :: "intent \<Rightarrow> request_type \<Rightarrow> ustr \<Rightarrow> 't decision_of" where
  "plain_decision k q reason =
     \<lparr>sd_intent = k, sd_request = q, sd_target = None, sd_reason = reason, sd_category = None,
      sd_description = None, sd_priority = None, sd_summary = None, sd_clarification = False,
      sd_retrieval = False, sd_query = None, sd_memory = None, sd_memory_key = None\<rparr>"

definition validated_decision :: "'t decision_of \<Rightarrow> exn + 't decision_of" where
  "validated_decision d = (if decision_fits d then Inr d else Inl PydanticValidationError)"

definition restore_pending_decision ::
  "(pyval \<Rightarrow> ustr) \<Rightarrow> pending_action \<Rightarrow> pyval dict \<Rightarrow> exn + semantic_decision option" where
  "restore_pending_decision rep a args =
     (case Option.bind (pa_intent a) (enum_of_value intent_value all_intents) of
        None \<Rightarrow> Inr None
      | Some stored \<Rightarrow>
          let k = (case map_of tool_intents (pa_tool a) of None \<Rightarrow> stored | Some t \<Rightarrow> t);
              reason = (case dget args ''reason'' of None \<Rightarrow> [] | Some v \<Rightarrow> py_str rep v) in
          and_then (restored_target args) (\<lambda>target.
          and_then (validated_decision
             ((plain_decision k RT_WRITE_ACTION reason)
                \<lparr>sd_target := target,
                 sd_category := optional_text (pget args ''category''),
                 sd_description := optional_text (pget args ''description''),
                 sd_priority := optional_text (pget args ''priority''),
                 sd_summary := optional_text (pget args ''summary'')\<rparr>)) (\<lambda>d. Inr (Some d))))"

definition of_bools :: "bool list \<Rightarrow> int" where
  "of_bools bs = int (length (filter id bs))"

definition restored_field_count :: "pending_action \<Rightarrow> pyval dict \<Rightarrow> int" where
  "restored_field_count a args =
     of_bools [pa_intent a \<notin> {None, Some []}, pa_tool a \<noteq> [], args \<noteq> [], pa_entities a \<noteq> [],
               pa_inputs a \<noteq> [], pa_validation a \<noteq> []]"

end
