(* ===== verification/Messages.thy ===== *)
theory Messages
  imports Policy Regex
begin

text \<open>
  The deterministic readings of a user message (agent/nodes/workflow_lifecycle.py): interruptions of
  a workflow, attempts to override instructions or to borrow another customer's scope, resumption
  and replacement. Each pattern of the source is a \<open>rx\<close> term of the same name. All patterns compiled
  with \<open>re.IGNORECASE\<close> use case-insensitive literals; those without it use \<open>rslit\<close>.
\<close>

section \<open>Case-sensitive literals and substitution\<close>

definition rstext :: "ustr \<Rightarrow> rx" where
  "rstext s = rseq (map (\<lambda>a. RSet (\<lambda>c. c = a)) s)"

abbreviation rslit :: "string \<Rightarrow> rx" where
  "rslit s \<equiv> rstext (lit s)"

text \<open>\<open>pattern.sub("", s)\<close> for a pattern that matches no empty text.\<close>

fun drop_from :: "rx \<Rightarrow> nat \<Rightarrow> ustr \<Rightarrow> ustr \<Rightarrow> ustr" where
  "drop_from r k pre [] = []"
| "drop_from r (Suc k) pre (c # cs) = drop_from r k (c # pre) cs"
| "drop_from r 0 pre (c # cs) =
     (case ends r (pre, c # cs) of
        [] \<Rightarrow> c # drop_from r 0 (c # pre) cs
      | q # _ \<Rightarrow> drop_from r (length (c # cs) - length (snd q) - 1) (c # pre) cs)"

definition drop_matches :: "rx \<Rightarrow> ustr \<Rightarrow> ustr" where
  "drop_matches r s = drop_from r 0 [] s"

section \<open>Patterns\<close>

definition question_prefix :: rx where
  "question_prefix =
     rseq [RBos, ralt [rlit ''what'', rlit ''when'', rlit ''where'', rlit ''why'', rlit ''how'',
      rlit ''who'', rlit ''which'', rlit ''can you'', rlit ''could you'', rlit ''would you'',
      rlit ''do you'', rlit ''tell me'', rlit ''explain'', rlit ''show me'', rlit ''check'',
      rlit ''nedir'', rlit ''ne zaman'', rlit ''nerede'', rlit ''neden'',
      rtext (lit ''nas'' @ [305] @ lit ''l''), rlit ''kim'', rlit ''hangi'', rlit ''bana anlat'',
      rlit ''kontrol et''], RWb]"

definition confirmation_like_prefix :: rx where
  "confirmation_like_prefix =
     rseq [RBos, ralt [rlit ''yes'', rlit ''no'', rlit ''confirm'', rlit ''proceed'',
      rlit ''approved'', rlit ''go ahead'', rlit ''stop'', rlit ''cancel'', rlit ''evet'',
      rtext (lit ''hay'' @ [305] @ lit ''r''), rlit ''onay'', rlit ''devam et'', rlit ''iptal'',
      rtext (lit ''vazge'' @ [231])]]"

definition mixed_request_marker :: rx where
  "mixed_request_marker =
     rseq [RWb, ralt [rlit ''but'', rlit ''first'', rlit ''however'', rlit ''instead'',
      rlit ''actually'', rlit ''rather'', rlit ''ama'', rtext ([246] @ lit ''nce''),
      rlit ''ancak'', rlit ''yerine''], RWb]"

definition explicit_replacement :: rx where
  "explicit_replacement =
     ralt [rseq [RBos, ropt (rseq [rlit ''actually'', rspaces]), ropt (rseq [rlit ''please'',
      rspaces]), rwords [''cancel'', ''refund'', ''create'', ''open'', ''escalate'', ''connect'',
      ''i want'', ''i need''], RWb], rseq [RWb, rlit ''instead'', RWb]]"

definition override_marker :: rx where
  "override_marker =
     ralt [rseq [RWb, rwords [''ignore'', ''disregard'', ''forget''], rspaces,
      ropt (rseq [rlit ''all'', rspaces]), ropt (rseq [rlit ''your'', rspaces]),
      rwords [''previous'', ''prior'', ''earlier''], rspaces, rwords [''instructions'',
      ''rules''], RWb], rseq [RWb, rwords [''bypass'', ''override'', ''skip''], rspaces,
      ropt (rseq [rlit ''the'', rspaces]), ropt (rseq [rlit ''system'', rspaces]),
      rwords [''confirmation'', ''validation'', ''policy''], RWb]]"

definition pending_override_marker :: rx where
  "pending_override_marker =
     rseq [RWb, rwords [''ignore'', ''disregard'', ''bypass'', ''override'', ''skip''], RWb,
      rany, RWb, ralt [rseq [rlit ''rule'', ropt (rlit ''s'')], rlit ''confirmation'',
      rlit ''validation'', rlit ''policy'', rseq [rlit ''safeguard'', ropt (rlit ''s'')]], RWb]"

definition role_override_marker :: rx where
  "role_override_marker =
     ralt [rseq [RWb, ralt [rseq [rlit ''you'', rspaces, rlit ''are''],
      rtext (lit ''you'' @ [39] @ lit ''re'')], rspaces, ropt (rseq [rlit ''now'', rspaces]),
      ropt (rseq [rlit ''a'', ropt (rlit ''n''), rspaces]), rlit ''admin'', RWb], rseq [RWb,
      rlit ''disable'', rspaces, ropt (rseq [rlit ''all'', rspaces]), ropt (rseq [rlit ''the'',
      rspaces]), rlit ''safeguard'', ropt (rlit ''s''), RWb]]"

definition impersonation_override_marker :: rx where
  "impersonation_override_marker =
     ralt [rseq [ralt [RBos, RSet (\<lambda>c. c \<in> {10, 91})], rspaces0, rwords [''system'',
      ''developer'', ''internal''], ropt (ralt [rseq [rspaces, rlit ''message''], rseq [rspaces,
      rlit ''instruction'']]), rspaces0, RSet (\<lambda>c. c \<in> {58, 93})], rseq [RWb,
      rwords [''system'', ''developer'', ''internal''], rspaces0, rlit '':'', rspaces0],
      rseq [RWb, rwords [''system'', ''developer'', ''internal''], rspaces, rwords [''message'',
      ''instruction''], RWb]]"

definition bounded_override_marker :: rx where
  "bounded_override_marker =
     ralt [rseq [RWb, ralt [rseq [rlit ''this'', rspaces, rlit ''is'', rspaces, rlit ''a'',
      rspaces, rlit ''test'', rspaces, rlit ''environment''], rseq [rlit ''test'', rspaces,
      rlit ''mode''], rseq [rlit '' safeguard'', ropt (rlit ''s''), rspaces, rlit ''do'',
      ropt (rlit ''es''), rlit ''n'', ropt (RSet (\<lambda>c. c \<in> {39, 8217})), rlit ''t'',
      rspaces, rlit ''apply''], rseq [rlit ''safeguard'', ropt (rlit ''s''), rspaces,
      ropt (rseq [rlit ''are'', rspaces]), rlit ''disabled''], rseq [rlit ''security'', rspaces,
      rlit ''check'', ropt (rlit ''s''), rspaces, ropt (rseq [rlit ''are'', rspaces]),
      rlit ''disabled'']], RWb], rseq [RWb, ralt [rseq [rlit ''i'',
      ropt (RSet (\<lambda>c. c \<in> {39, 8217})), rlit ''m''], rseq [rlit ''i'', rspaces,
      rlit ''am'']], rspaces, ropt (rseq [rlit ''the'', rspaces]), rwords [''engineer'',
      ''developer'', ''architect''], RWb, rany, RWb, rwords [''run'', ''execute'', ''approve'',
      ''authorize'', ''refund'', ''cancel'', ''proceed''], RWb], rseq [RWb,
      ralt [rseq [rlit ''internal'', rspaces, rlit ''operator''], rseq [rlit ''operator'',
      rspaces, rlit ''override''], rseq [rlit ''internal'', rspaces, rlit ''support'', rspaces,
      rlit ''override'']], RWb, rany, RWb, rwords [''proceed'', ''execute'', ''approve'',
      ''authorize'', ''refund'', ''cancel''], RWb], rseq [RWb, ralt [rseq [rlit ''sistem'',
      rspaces, rtext (lit ''mesaj'' @ [305])], rseq [rlit ''sistem'', rspaces,
      rtext (lit ''talimat'' @ [305])], rseq [rtext (lit ''geli'' @ [351] @ lit ''tirici''),
      rspaces, rtext (lit ''talimat'' @ [305])], rseq [rlit ''dahili'', rspaces,
      ralt [rtext (lit ''operat'' @ [246] @ lit ''r''), rlit ''destek''], rspaces,
      ralt [rtext (lit ''talimat'' @ [305]), rseq [rtext (lit ''ge'' @ [231] @ lit ''ersiz''),
      rspaces, rtext (lit ''k'' @ [305] @ lit ''lma'')]]]], RWb, rany, RWb, ralt [rlit ''kapat'',
      rseq [rlit ''devre'', rspaces, rtext (lit ''d'' @ [305, 351, 305]), rspaces,
      rtext (lit ''b'' @ [305] @ lit ''rak'')], rlit ''atla'', rlit ''bypass'', rlit ''onayla'',
      rlit ''uygula'', rlit ''iade'', rlit ''iptal''], RWb]]"

definition turkish_override_marker :: rx where
  "turkish_override_marker =
     rseq [RWb, ralt [rseq [rtext ([246] @ lit ''nceki''), rspaces,
      rtext (lit ''talimatlar'' @ [305])], rseq [rtext (lit ''g'' @ [252] @ lit ''venlik''),
      rspaces, rlit ''kontrollerini''], rtext (lit ''korumalar'' @ [305]), rseq [rlit ''onay'',
      rspaces, rtext (lit ''gere'' @ [287] @ lit ''ini'')]], RWb, rany, RWb,
      ralt [rseq [rlit ''yok'', rspaces, rlit ''say''], rlit ''kapat'', rseq [rlit ''devre'',
      rspaces, rtext (lit ''d'' @ [305, 351, 305]), rspaces,
      rtext (lit ''b'' @ [305] @ lit ''rak'')], rlit ''atla'', rlit ''bypass'',
      rtext (lit ''ge'' @ [231]), rlit ''onayla'', rlit ''uygula''], RWb]"

definition authority_claim_marker :: rx where
  "authority_claim_marker =
     ralt [rseq [RWb, rwords [''company'', ''support'', ''manager'', ''account''], RWb, rany,
      RWb, ralt [rseq [rlit ''permanently'', rspaces, rlit ''authorized''],
      rseq [rlit ''upgraded'', rspaces, rlit ''to''], rseq [rlit ''already'', rspaces,
      rlit ''approved''], rseq [rlit ''authorized'', rspaces, rlit ''for''],
      rseq [rlit ''approved'', rspaces, rlit ''all'', rspaces, rlit ''future'']], RWb, rany, RWb,
      rwords [''automatic'', ''unlimited'', ''future'', ''all'', ''refund'', ''action'',
      ''approval'', ''authorization''], RWb], rseq [RWb, ralt [rseq [rlit ''permanently'',
      rspaces, rlit ''authorized''], rseq [rlit ''upgraded'', rspaces, rlit ''to'', rspaces,
      rlit ''unlimited'', rspaces, rlit ''refund'', rspaces, rlit ''approval''],
      rseq [rlit ''approved'', rspaces, rlit ''all'', rspaces, rlit ''future'', rspaces,
      rlit ''action'', ropt (rlit ''s'')]], RWb], rseq [RWb, ralt [rlit ''support'',
      rseq [rlit ''customer'', rspaces, rlit ''service''], rlit ''manager'', rlit ''company''],
      RWb, rany, RWb, ralt [rlit ''told'', rlit ''said'', rlit ''approved'', rlit ''authorized'',
      rseq [rlit ''pre'', ropt (RSet (\<lambda>c. c \<in> {45, 32})), rlit ''approved''],
      rlit ''granted''], RWb, rany, RWb, ralt [rseq [rlit ''never'', rspaces, rlit ''need''],
      rseq [rlit ''no'', rspaces, rlit ''longer'', rspaces, rlit ''need''], rlit ''without'',
      rlit ''automatic'', rlit ''unlimited'', rlit ''future'', rlit ''confirmation'',
      rlit ''verification'', rlit ''refund'', rlit ''action'', rseq [rlit ''check'',
      ropt (rlit ''s'')]], RWb]]"

definition refund_marker :: rx where
  "refund_marker =
     rseq [RWb, rwords [''refund'', ''reimburse'', ''money back''], RWb]"

definition cancel_marker :: rx where
  "cancel_marker =
     rseq [RWb, rwords [''cancel'', ''cancellation''], RWb]"

definition turkish_refund_marker :: rx where
  "turkish_refund_marker =
     rseq [RWb, ralt [rlit ''iade'', rseq [rlit ''geri'', rspaces,
      rtext ([246] @ lit ''deme'')]], RWb]"

definition turkish_cancel_marker :: rx where
  "turkish_cancel_marker =
     rseq [RWb, rwords [''iptal'', ''iptali''], RWb]"

definition negated_refund :: rx where
  "negated_refund =
     rseq [RWb, ralt [rlit ''do not'', rtext (lit ''don'' @ [39] @ lit ''t''),
      rlit ''do not want'', rtext (lit ''don'' @ [39] @ lit ''t want''),
      rlit ''not asking for''], rspaces, ropt (rseq [rlit ''a'', rspaces]), rlit ''refund'', RWb]"

definition knowledge_marker :: rx where
  "knowledge_marker =
     rseq [RWb, ralt [rlit ''explain'', rlit ''how'', rlit ''what'', rlit ''policy'',
      rlit ''information'', rlit ''tell me'', rseq [rlit ''work'', ropt (rlit ''s'')],
      rlit ''possible''], RWb]"

definition conflicting_action_marker :: rx where
  "conflicting_action_marker =
     rseq [RWb, rwords [''cancel'', ''submit'', ''create'', ''execute'', ''approve'',
      ''authorize''], RWb]"

definition cross_customer_marker :: rx where
  "cross_customer_marker =
     ralt [rseq [RWb, rwords [''another'', ''other'', ''different'', ''previous'', ''former''],
      rspaces, rlit ''customer'', RWb], rseq [RWb, rlit ''someone'', rspaces, rlit ''else'',
      ropt (ralt [rtext ([39] @ lit ''s''), rlit ''s'']), RWb]]"

definition cross_customer_resource :: rx where
  "cross_customer_resource =
     rseq [RWb, ralt [rlit ''order'', rlit ''ticket'', rseq [rlit ''detail'', ropt (rlit ''s'')],
      rlit ''refund'', rlit ''approval'', rlit ''account'', rlit ''information'',
      rlit ''status'', rlit ''amount'', rlit ''existence''], RWb]"

definition indirect_scope_subject :: rx where
  "indirect_scope_subject =
     rseq [RWb, ralt [rseq [rlit ''my'', rspaces, rwords [''colleague'', ''manager'']],
      rlit ''their'', rseq [rlit ''someone'', rspaces, rlit ''else''], rlit ''they''], RWb]"

definition indirect_scope_authority :: rx where
  "indirect_scope_authority =
     rseq [RWb, ralt [rlit ''said'', rlit ''told'', rseq [rlit ''gave'', rspaces, rlit ''me'',
      rspaces, rlit ''permission''], rlit ''authorized'', rlit ''approved'', rseq [rlit ''can'',
      rspaces, rwords [''see'', ''access'']], rlit ''permission'', rlit ''allowed''], RWb]"

definition suffix_lead :: rx where
  "suffix_lead =
     rseq [RBos, ralt [rslit ''first'', rslit ''however'', rslit ''instead'', rslit ''actually'',
      rslit ''rather'', rstext ([246] @ lit ''nce''), rslit ''ancak'', rslit ''yerine''],
      rspaces]"

definition override_target :: rx where
  "override_target =
     rseq [RWb, ralt [rslit ''disable'', rslit ''skip'', rslit ''bypass'', rslit ''override'',
      rslit ''approve'', rslit ''authorize'', rslit ''execute'', rslit ''refund'',
      rslit ''cancel'', rslit ''confirmation'', rslit ''validation'', rslit ''security'',
      rseq [rslit ''safeguard'', ropt (rslit ''s'')]], RWb]"

definition pending_override_target :: rx where
  "pending_override_target =
     rseq [RWb, ralt [rslit ''refund'', rslit ''reimburse'', rslit ''cancel'', rslit ''execute'',
      rslit ''approve'', rslit ''authorize'', rslit ''proceed'', rslit ''action'',
      rslit ''tool''], RWb]"

definition without_confirmation :: rx where
  "without_confirmation =
     rseq [RWb, ralt [rslit ''approve'', rslit ''authorize''], RWb, rany, RWb, rslit ''without'',
      rspaces, rslit ''confirmation'', RWb]"

definition refund_instead :: rx where
  "refund_instead =
     rseq [RWb, ralt [rslit ''instead'', rslit ''rather'', rseq [rslit ''let'',
      ropt (RSet (\<lambda>c. c \<in> {39, 8217})), rslit ''s''], rslit ''no'',
      rstext (lit ''hay'' @ [305] @ lit ''r''), rslit ''yerine'', rslit ''iade''], RWb]"

definition cancel_instead :: rx where
  "cancel_instead =
     rseq [RWb, ralt [rslit ''instead'', rslit ''rather'', rseq [rslit ''let'',
      ropt (RSet (\<lambda>c. c \<in> {39, 8217})), rslit ''s''], rslit ''no'',
      rstext (lit ''hay'' @ [305] @ lit ''r''), rslit ''yerine'', rslit ''iptal''], RWb]"

definition resume_phrases :: "ustr list" where
  "resume_phrases =
     [lit ''continue'', lit ''resume'', lit ''continue my request'', lit ''resume my request'',
      lit ''continue the previous request'', lit ''resume the previous request'',
      lit ''continue with my refund'', lit ''continue with the refund'',
      lit ''continue my refund'', lit ''resume my refund'', lit ''resume the refund'',
      lit ''continue refund request'', lit ''resume refund request'',
      lit ''continue with my cancellation'', lit ''continue with the cancellation'',
      lit ''continue cancellation'', lit ''resume my cancellation'',
      lit ''resume the cancellation'', lit ''continue cancellation request'',
      lit ''resume cancellation request'', lit ''please continue'', lit ''proceed'',
      lit ''go ahead'', [246] @ lit ''nceki iste'' @ [287] @ lit ''e devam et'',
      lit ''iste'' @ [287] @ lit ''ime devam et'',
      lit ''iade i'' @ [351] @ lit ''lemine devam et'',
      lit ''iptal i'' @ [351] @ lit ''lemine devam et'']"

definition memory_summary_phrases :: "ustr list" where
  "memory_summary_phrases =
     [lit ''what do you remember about me'', lit ''what information do you remember about me'',
      lit ''what preferences do you remember about me'', lit ''what do you remember'']"

section \<open>Predicates\<close>

text \<open>\<open>_normalize\<close> is the normalisation of replies, \<open>normalize_reply\<close>.\<close>

definition is_instruction_override_attempt :: "ustr \<Rightarrow> bool" where
  "is_instruction_override_attempt message =
     (let n = squeeze (casefold message) in
      if found bounded_override_marker n \<or> found turkish_override_marker n then True
      else if found impersonation_override_marker n \<and> found override_target n then True
      else if found role_override_marker n then True
      else if found override_marker n then found refund_marker n \<or> found cancel_marker n
      else if found pending_override_marker n then found pending_override_target n
      else found refund_marker n \<and> found without_confirmation n)"

text \<open>What follows the first marker of a mixed request, without a repeated lead.\<close>

definition mixed_suffix :: "ustr \<Rightarrow> ustr" where
  "mixed_suffix n =
     (case search mixed_request_marker n of
        None \<Rightarrow> []
      | Some q \<Rightarrow>
          let s = strip (snd q) in
          (case ends suffix_lead ([], s) of [] \<Rightarrow> s | t # _ \<Rightarrow> snd t))"

definition is_interruption_candidate :: "ustr \<Rightarrow> bool" where
  "is_interruption_candidate message =
     (let n = normalize_reply message in
      if n = [] then False
      else if is_instruction_override_attempt n then True
      else
        let marker = found mixed_request_marker n;
            suffix = mixed_suffix n;
            stripped = strip message;
            question = ((stripped \<noteq> [] \<and> last stripped = 63) \<or> matches_start question_prefix n \<or>
                        (suffix \<noteq> [] \<and> matches_start question_prefix suffix)) in
        if matches_start confirmation_like_prefix n then
          (marker \<and> (question \<or> found explicit_replacement suffix)) \<or> found explicit_replacement n
        else question \<or> found explicit_replacement n \<or> marker)"

definition is_authority_claim_attempt :: "ustr \<Rightarrow> bool" where
  "is_authority_claim_attempt message = found authority_claim_marker (normalize_reply message)"

definition is_memory_summary_request :: "ustr \<Rightarrow> bool" where
  "is_memory_summary_request message \<longleftrightarrow> normalize_reply message \<in> set memory_summary_phrases"

definition has_conflicting_intents :: "ustr \<Rightarrow> bool" where
  "has_conflicting_intents message =
     (let n = normalize_reply message in
      if \<not> found negated_refund n \<or> \<not> found knowledge_marker n then False
      else found conflicting_action_marker (drop_matches negated_refund n))"

definition is_cross_customer_access_attempt :: "ustr \<Rightarrow> bool" where
  "is_cross_customer_access_attempt message =
     (let n = normalize_reply message in
      (found cross_customer_marker n \<or>
       (found indirect_scope_subject n \<and> found indirect_scope_authority n)) \<and>
      found cross_customer_resource n)"

definition is_resume_request :: "ustr \<Rightarrow> bool" where
  "is_resume_request message \<longleftrightarrow> normalize_reply message \<in> set resume_phrases"

definition explicit_replacement_intent :: "ustr \<Rightarrow> intent option \<Rightarrow> intent option" where
  "explicit_replacement_intent message previous =
     (let n = normalize_reply message in
      if previous = Some ORDER_CANCEL \<and> (found refund_marker n \<or> found turkish_refund_marker n) \<and>
         found refund_instead n then Some REFUND_REQUEST
      else if previous = Some REFUND_REQUEST \<and> (found cancel_marker n \<or> found turkish_cancel_marker n) \<and>
         found cancel_instead n then Some ORDER_CANCEL
      else None)"

text \<open>Every listed phrase is its own normal form, so it is reachable by typing it.\<close>

lemma confirmation_normalized:
  "list_all (\<lambda>m. parse_confirmation m = ''confirmed'') confirm_phrases"
  "list_all (\<lambda>m. parse_confirmation m = ''rejected'') reject_phrases"
  by code_simp+

end
