(* ===== verification/Memory_Policy.thy ===== *)
theory Memory_Policy
  imports Messages Decision
begin

text \<open>
  The gate in front of the customer's long-term memory: the data-loss classification of a candidate
  (memory/dlp.py), the policy that decides whether it may be stored and the screening of memory
  requests (memory/policy.py), and the deterministic extraction of a request
  (memory/extraction.py). Patterns are \<open>rx\<close> terms of the source's names; a lazy repetition of
  separators between digits accepts the same digits as a greedy one and is written as such.
\<close>

section \<open>Enumerations\<close>

datatype sensitivity_level = SL_PUBLIC | SL_INTERNAL | SL_SENSITIVE | SL_RESTRICTED

datatype retention_policy = RP_STANDARD | RP_SHORT | RP_NO_STORE

datatype storage_eligibility = SE_ALLOWED | SE_REDACT | SE_REJECT

datatype redaction_state = RD_NOT_REQUIRED | RD_REDACTED | RD_REJECTED

datatype sensitive_data =
    SD_EMAIL | SD_PHONE | SD_CREDIT_CARD | SD_IBAN | SD_API_TOKEN | SD_PASSWORD | SD_SECRET
  | SD_NATIONAL_IDENTIFIER | SD_HEALTHCARE

fun sensitive_data_value :: "sensitive_data \<Rightarrow> string" where
  "sensitive_data_value SD_EMAIL = ''email''"
| "sensitive_data_value SD_PHONE = ''phone''"
| "sensitive_data_value SD_CREDIT_CARD = ''credit_card''"
| "sensitive_data_value SD_IBAN = ''iban''"
| "sensitive_data_value SD_API_TOKEN = ''api_token''"
| "sensitive_data_value SD_PASSWORD = ''password''"
| "sensitive_data_value SD_SECRET = ''secret''"
| "sensitive_data_value SD_NATIONAL_IDENTIFIER = ''national_identifier''"
| "sensitive_data_value SD_HEALTHCARE = ''healthcare''"

section \<open>Substitution and classes\<close>

text \<open>A class under \<open>re.IGNORECASE\<close>: a character or its case variant is in it.\<close>

definition ci_class :: "(int \<Rightarrow> bool) \<Rightarrow> int \<Rightarrow> bool" where
  "ci_class P c \<longleftrightarrow> P c \<or> P (canon c) \<or> P (canon c - 32)"

text \<open>\<open>r{lo,hi}\<close> and \<open>r{n,}\<close> for a pattern that matches no empty text.\<close>

fun rupto :: "nat \<Rightarrow> rx \<Rightarrow> rx" where
  "rupto 0 r = REps"
| "rupto (Suc n) r = ropt (RSeq r (rupto n r))"

definition rtimes :: "nat \<Rightarrow> nat \<Rightarrow> rx \<Rightarrow> rx" where
  "rtimes lo hi r = rseq (replicate lo r @ [rupto (hi - lo) r])"

definition rtimes_from :: "nat \<Rightarrow> rx \<Rightarrow> rx" where
  "rtimes_from n r = rseq (replicate n r @ [RStar r])"

text \<open>\<open>pattern.sub(text, s)\<close> for a pattern that matches no empty text.\<close>

fun replace_from :: "rx \<Rightarrow> ustr \<Rightarrow> nat \<Rightarrow> ustr \<Rightarrow> ustr \<Rightarrow> ustr" where
  "replace_from r w k pre [] = []"
| "replace_from r w (Suc k) pre (c # cs) = replace_from r w k (c # pre) cs"
| "replace_from r w 0 pre (c # cs) =
     (case ends r (pre, c # cs) of
        [] \<Rightarrow> c # replace_from r w 0 (c # pre) cs
      | q # _ \<Rightarrow> w @ replace_from r w (length (c # cs) - length (snd q) - 1) (c # pre) cs)"

definition replace_matches :: "rx \<Rightarrow> ustr \<Rightarrow> ustr \<Rightarrow> ustr" where
  "replace_matches r w s = replace_from r w 0 [] s"

definition found_any :: "rx list \<Rightarrow> ustr \<Rightarrow> bool" where
  "found_any rs s \<longleftrightarrow> list_ex (\<lambda>r. found r s) rs"

section \<open>Data-loss classification\<close>

definition email_pattern :: rx where
  "email_pattern =
     rseq [RNotBehind (\<lambda>c. is_word c \<or> c \<in> {46, 43, 45}),
      rplus (RSet (\<lambda>c. is_word c \<or> c \<in> {46, 43, 45})), rslit ''@'',
      rplus (RSet (\<lambda>c. is_word c \<or> c = 45)), rplus (rseq [rslit ''.'',
      rplus (RSet (\<lambda>c. is_word c \<or> c = 45))]),
      RNotAhead (\<lambda>c. is_word c \<or> c \<in> {46, 45})]"

definition phone_pattern :: rx where
  "phone_pattern =
     rseq [RNotBehind is_digit, rseq [ropt (rslit ''+''), RSet is_digit,
      rtimes_from 8 (RSet (\<lambda>c. is_digit c \<or> is_space c \<or> c \<in> {40, 41, 46, 45})),
      RSet is_digit], RNotAhead is_digit]"

definition card_pattern :: rx where
  "card_pattern =
     rseq [RNotBehind is_digit, rtimes 13 19 (rseq [RSet is_digit,
      RStar (RSet (\<lambda>c. c \<in> {32, 45}))]), RNotAhead is_digit]"

definition iban_pattern :: rx where
  "iban_pattern =
     rseq [RWb, rtimes 2 2 (RSet (ci_class (\<lambda>c. (65 \<le> c \<and> c \<le> 90)))),
      rtimes 2 2 (RSet is_digit),
      rtimes 11 30 (RSet (ci_class (\<lambda>c. (65 \<le> c \<and> c \<le> 90) \<or> (48 \<le> c \<and> c \<le> 57)))),
      RWb]"

definition api_token_pattern :: rx where
  "api_token_pattern =
     rseq [RWb, ralt [rseq [rslit ''sk-'',
      rtimes_from 16 (RSet (\<lambda>c. (65 \<le> c \<and> c \<le> 90) \<or> (97 \<le> c \<and> c \<le> 122) \<or> (48 \<le> c \<and> c \<le> 57) \<or> c \<in> {95, 45}))],
      rseq [rslit ''gh'', RSet (\<lambda>c. c \<in> {112, 111, 117, 115, 114}), rslit ''_'',
      rtimes_from 16 (RSet (\<lambda>c. (65 \<le> c \<and> c \<le> 90) \<or> (97 \<le> c \<and> c \<le> 122) \<or> (48 \<le> c \<and> c \<le> 57) \<or> c \<in> {95, 45}))],
      rseq [rslit ''xox'', RSet (\<lambda>c. c \<in> {98, 97, 112, 114, 115}), rslit ''-'',
      rtimes_from 16 (RSet (\<lambda>c. (65 \<le> c \<and> c \<le> 90) \<or> (97 \<le> c \<and> c \<le> 122) \<or> (48 \<le> c \<and> c \<le> 57) \<or> c = 45))]],
      RWb]"

definition bearer_pattern :: rx where
  "bearer_pattern =
     rseq [RWb, rlit ''Bearer'', rspaces,
      rtimes_from 20 (RSet (ci_class (\<lambda>c. (65 \<le> c \<and> c \<le> 90) \<or> (97 \<le> c \<and> c \<le> 122) \<or> (48 \<le> c \<and> c \<le> 57) \<or> c \<in> {46, 95, 126, 43, 47, 61, 45})))]"

definition password_pattern :: rx where
  "password_pattern =
     rseq [RWb, ralt [rlit ''password'', rlit ''passwd'', rlit ''passcode'', rlit ''parola'',
      rtext ([351] @ lit ''ifre''), rlit ''sifre''], ralt [rseq [rspaces, rlit ''is'', rspaces0],
      rseq [rspaces0, RSet (\<lambda>c. c \<in> {58, 61}), rspaces0]],
      rplus (RSet (\<lambda>c. \<not> is_space c))]"

definition secret_pattern :: rx where
  "secret_pattern =
     rseq [RWb, ralt [rlit ''secret'', rseq [rlit ''api'',
      ropt (RSet (\<lambda>c. c \<in> {95, 32, 45})), rlit ''key''], rseq [rlit ''access'',
      ropt (RSet (\<lambda>c. c \<in> {95, 32, 45})), rlit ''token''], rseq [rlit ''client'',
      ropt (RSet (\<lambda>c. c \<in> {95, 32, 45})), rlit ''secret''], rseq [rlit ''gizli'',
      ropt (RSet (\<lambda>c. c \<in> {95, 32, 45})), rlit ''anahtar'']], RWb,
      ropt (rseq [rspaces0, RSet (\<lambda>c. c \<in> {58, 61}), rspaces0,
      rplus (RSet (\<lambda>c. \<not> is_space c))])]"

definition national_id_pattern :: rx where
  "national_id_pattern =
     rseq [RWb, ralt [rlit ''ssn'', rseq [rlit ''national'',
      ropt (RSet (\<lambda>c. c \<in> {95, 32, 45})), rlit ''id''], rseq [rlit ''tax'',
      ropt (RSet (\<lambda>c. c \<in> {95, 32, 45})), rlit ''id''], rlit ''tckn'',
      rseq [rlit ''tc'', ropt (RSet (\<lambda>c. c \<in> {95, 32, 45})), rlit ''kimlik''],
      rseq [rlit ''kimlik'', ropt (RSet (\<lambda>c. c \<in> {95, 32, 45})), rlit ''no'']],
      rspaces0, ropt (RSet (\<lambda>c. c \<in> {58, 35, 61})), rspaces0,
      rtimes 6 20 (RSet is_digit), RWb]"

definition healthcare_terms :: rx where
  "healthcare_terms =
     rseq [RWb, ralt [rlit ''diagnosis'', rlit ''diagnosed'', rlit ''prescription'',
      rlit ''medication'', rlit ''medical'', rlit ''health'', rlit ''doctor'', rlit ''hospital'',
      rtext (lit ''te'' @ [351] @ lit ''his''), rlit ''teshis'',
      rtext (lit ''re'' @ [231] @ lit ''ete''), rlit ''recete'', rtext (lit ''ila'' @ [231]),
      rlit ''ilac'', rtext (lit ''sa'' @ [287] @ lit ''l'' @ [305] @ lit ''k''), rlit ''saglik'',
      rlit ''doktor'', rlit ''hastane''], RWb]"

text \<open>The Luhn check of \<open>_valid_card\<close>, from the first digit on.\<close>

fun luhn_sum :: "nat \<Rightarrow> nat \<Rightarrow> ustr \<Rightarrow> int" where
  "luhn_sum parity i [] = 0"
| "luhn_sum parity i (c # cs) =
     (let d = c - 48;
          e = (if i mod 2 = parity then (if 9 < 2 * d then 2 * d - 9 else 2 * d) else d) in
      e + luhn_sum parity (Suc i) cs)"

definition valid_card :: "ustr \<Rightarrow> bool" where
  "valid_card s \<longleftrightarrow>
     (let ds = filter is_digit s in
      13 \<le> length ds \<and> length ds \<le> 19 \<and> luhn_sum (length ds mod 2) 0 ds mod 10 = 0)"

definition has_card :: "ustr \<Rightarrow> bool" where
  "has_card s \<longleftrightarrow> list_ex valid_card (findall card_pattern s)"

text \<open>The types found in a content, in the order both functions of the source test them.\<close>

definition detected_types :: "ustr \<Rightarrow> sensitive_data list" where
  "detected_types s =
     map fst (filter snd
       [(SD_EMAIL, found email_pattern s), (SD_PHONE, found phone_pattern s),
        (SD_CREDIT_CARD, has_card s), (SD_IBAN, found iban_pattern (filter (\<lambda>c. c \<noteq> 32) s)),
        (SD_API_TOKEN, found api_token_pattern s \<or> found bearer_pattern s),
        (SD_PASSWORD, found password_pattern s), (SD_SECRET, found secret_pattern s),
        (SD_NATIONAL_IDENTIFIER, found national_id_pattern s),
        (SD_HEALTHCARE, found healthcare_terms s)])"

definition restricted_types :: "sensitive_data list" where
  "restricted_types = [SD_CREDIT_CARD, SD_IBAN, SD_API_TOKEN, SD_PASSWORD, SD_SECRET,
     SD_NATIONAL_IDENTIFIER, SD_HEALTHCARE]"

definition redact_content :: "ustr \<Rightarrow> sensitive_data list \<Rightarrow> ustr" where
  "redact_content s detected =
     (let t = (if SD_EMAIL \<in> set detected
               then replace_matches email_pattern (lit ''[REDACTED_EMAIL]'') s else s) in
      if SD_PHONE \<in> set detected then replace_matches phone_pattern (lit ''[REDACTED_PHONE]'') t
      else t)"

record dlp_classification =
  dc_candidate :: memory_candidate
  dc_sensitivity :: sensitivity_level
  dc_retention :: retention_policy
  dc_eligibility :: storage_eligibility
  dc_redaction :: redaction_state

definition classify_candidate :: "memory_candidate \<Rightarrow> dlp_classification" where
  "classify_candidate m =
     (let detected = detected_types (mc_content m) in
      if list_ex (\<lambda>k. k \<in> set restricted_types) detected then
        \<lparr>dc_candidate = m, dc_sensitivity = SL_RESTRICTED, dc_retention = RP_NO_STORE,
         dc_eligibility = SE_REJECT, dc_redaction = RD_REJECTED\<rparr>
      else if detected \<noteq> [] then
        \<lparr>dc_candidate = m\<lparr>mc_content := redact_content (mc_content m) detected\<rparr>,
         dc_sensitivity = SL_SENSITIVE, dc_retention = RP_SHORT, dc_eligibility = SE_REDACT,
         dc_redaction = RD_REDACTED\<rparr>
      else
        \<lparr>dc_candidate = m, dc_sensitivity = SL_INTERNAL, dc_retention = RP_STANDARD,
         dc_eligibility = SE_ALLOWED, dc_redaction = RD_NOT_REQUIRED\<rparr>)"

section \<open>The memory policy\<close>

definition key_pattern :: rx where
  "key_pattern =
     rseq [RBos, RSet (\<lambda>c. (97 \<le> c \<and> c \<le> 122)),
      rtimes 1 63 (RSet (\<lambda>c. (97 \<le> c \<and> c \<le> 122) \<or> (48 \<le> c \<and> c \<le> 57) \<or> c = 95)),
      REos]"

definition rejected_patterns :: "ustr list" where
  "rejected_patterns =
     [lit ''password'', lit ''credit card'', lit ''card number'', lit ''api key'',
      lit ''access token'', lit ''secret'', lit ''ssn'', lit ''medical'', lit ''ignore policy'',
      lit ''cancel every order'', lit ''refund every order'']"

definition authority_claim_patterns :: "rx list" where
  "authority_claim_patterns =
     [rseq [RWb, ralt [rlit ''i am'', rtext (lit ''i'' @ [39] @ lit ''m''), rlit ''i am now'',
       rlit ''you are'', rtext (lit ''you'' @ [39] @ lit ''re'')], rspaces,
       ropt (rseq [rlit ''the'', rspaces]), ropt (rseq [ropt (rseq [rlit ''a'',
       ropt (rlit ''n''), rspaces]), rwords [''system'', ''account'', ''support''], rspaces]),
       ropt (rseq [rlit ''a'', ropt (rlit ''n''), rspaces]), rwords [''admin'',
       ''administrator'', ''manager'', ''owner'', ''superuser'', ''support operator''], RWb],
      rseq [RWb, rwords [''i have'', ''give me'', ''grant me''], rspaces,
       ropt (rwords [''admin'', ''administrator'', ''manager'', ''owner'', ''superuser'',
       ''support operator'']), rspaces0, ralt [rseq [rlit ''permission'', ropt (rlit ''s'')],
       rseq [rlit ''privilege'', ropt (rlit ''s'')], rlit ''authority'', rlit ''access''], RWb],
      rseq [RWb, rwords [''my'', ''the''], rspaces, rlit ''manager'', rspaces,
       ropt (rseq [rlit ''has'', rspaces]), ralt [rlit ''approved'', rlit ''authorized'',
       rseq [rlit ''allow'', ropt (rlit ''s'')], rlit ''permitted''], RWb],
      rseq [RWb, ralt [rlit ''i'', rlit ''we'', rseq [rlit ''my'', rspaces, rlit ''account'']],
       RWb, rany, RWb, rwords [''have'', ''has'', ''got'', ''received''], RWb, rany, RWb,
       ropt (rwords [''admin'', ''administrator'', ''manager'', ''operator'', ''support'']),
       rspaces0, ralt [rlit ''approval'', rlit ''authorization'', rseq [rlit ''permission'',
       ropt (rlit ''s'')], rseq [rlit ''privilege'', ropt (rlit ''s'')], rlit ''authority''],
       RWb],
      rseq [RWb, rwords [''approved'', ''authorized'', ''permission'', ''permitted''], RWb, rany,
       RWb, ropt (rseq [rlit ''all'', rspaces]), ralt [rseq [rlit ''refund'', ropt (rlit ''s'')],
       rseq [rlit ''cancellation'', ropt (rlit ''s'')], rseq [rlit ''action'',
       ropt (rlit ''s'')], rseq [rlit ''order'', ropt (rlit ''s'')]], RWb, rany, RWb,
       rwords [''for'', ''on''], rspaces, rwords [''my'', ''this''], rspaces, rlit ''account'',
       RWb],
      rseq [RWb, rwords [''support'', ''manager'', ''company''], RWb, rspaces,
       ropt (rseq [rlit ''already'', rspaces]), rwords [''approved'', ''authorized'',
       ''permitted''], RWb, rany, RWb, rwords [''all'', ''future'', ''any'', ''unlimited''], RWb],
      rseq [RWb, ralt [rlit ''admin'', rlit ''administrator'', rlit ''manager'', rlit ''yetki'',
       rtext (lit ''y'' @ [246] @ lit ''netici'')], RWb, rany, RWb, rwords [''onay'', ''izin'',
       ''refund'', ''iade'', ''cancel'', ''iptal''], RWb],
      rseq [RWb, rwords [''automatic'', ''auto'', ''always''], rspaces, rwords [''approval'',
       ''approved'', ''authorization'', ''authorized'', ''permission'', ''permitted''], RWb,
       rany, RWb, ralt [rseq [rlit ''refund'', ropt (rlit ''s'')], rseq [rlit ''cancellation'',
       ropt (rlit ''s'')], rseq [rlit ''action'', ropt (rlit ''s'')], rseq [rlit ''order'',
       ropt (rlit ''s'')], rlit ''iade'', rlit ''iptal''], RWb],
      rseq [RWb, rwords [''approval'', ''authorization'', ''permission'', ''approval rights''],
       RWb, rany, RWb, rwords [''for'', ''on''], rspaces, rwords [''my'', ''this''], rspaces,
       rlit ''account'', RWb],
      ralt [rseq [RWb, rwords [''refund'', ''iade'', ''cancellation'', ''cancel'', ''iptal''],
       RWb, rany, RWb, ralt [rlit ''approval'', rlit ''authorization'', rlit ''permission'',
       rseq [rlit ''privilege'', ropt (rlit ''s'')], rlit ''authority'', rlit ''access''], RWb],
       rseq [RWb, ralt [rlit ''approval'', rlit ''authorization'', rlit ''permission'',
       rseq [rlit ''privilege'', ropt (rlit ''s'')], rlit ''authority'', rlit ''access''], RWb,
       rany, RWb, rwords [''refund'', ''iade'', ''cancellation'', ''cancel'', ''iptal''], RWb]],
      rseq [RWb, rwords [''user'', ''customer'', ''account holder''], RWb, rany, RWb,
       ralt [rlit ''admin'', rlit ''administrator'', rlit ''manager'', rlit ''owner'',
       rlit ''superuser'', rlit ''support operator'', rlit ''approval'', rlit ''authorization'',
       rlit ''permission'', rseq [rlit ''privilege'', ropt (rlit ''s'')], rlit ''authority''],
       RWb]]"

definition authority_override_patterns :: "rx list" where
  "authority_override_patterns =
     [rseq [RWb, rwords [''skip'', ''bypass'', ''avoid'', ''without''], rspaces,
       ropt (rseq [rlit ''the'', rspaces]), ralt [rlit ''confirmation'', rlit ''approval'',
       rlit ''verification'', rlit ''validation'', rseq [rlit ''check'', ropt (rlit ''s'')],
       rseq [rlit ''safeguard'', ropt (rlit ''s'')]], RWb],
      rseq [RWb, ralt [rtext (lit ''don'' @ [39] @ lit ''t''), rlit ''do not'', rlit ''never'',
       rlit ''no longer''], rspaces, ralt [rlit ''need'', rseq [rlit ''need'',
       ropt (rlit ''s'')], rlit ''require'', rseq [rlit ''require'', ropt (rlit ''s'')]],
       rspaces, ropt (rseq [rlit ''the'', rspaces]), ralt [rlit ''confirmation'',
       rlit ''approval'', rlit ''verification'', rlit ''validation'', rseq [rlit ''check'',
       ropt (rlit ''s'')]], RWb],
      rseq [RWb, rwords [''my'', ''this'', ''the''], rspaces, rwords [''account'', ''profile''],
       RWb, rany, RWb, ralt [rtext (lit ''don'' @ [39] @ lit ''t''), rlit ''do not'',
       rtext (lit ''doesn'' @ [39] @ lit ''t''), rlit ''does not'', rlit ''no longer''], rspaces,
       ralt [rlit ''need'', rseq [rlit ''need'', ropt (rlit ''s'')], rlit ''require'',
       rseq [rlit ''require'', ropt (rlit ''s'')]], rspaces, ropt (rseq [rlit ''the'', rspaces]),
       ralt [rlit ''confirmation'', rlit ''approval'', rlit ''verification'',
       rlit ''validation'', rseq [rlit ''check'', ropt (rlit ''s'')]], RWb],
      rseq [RWb, rwords [''no'', ''without''], rspaces, ropt (rseq [rlit ''the'', rspaces]),
       ralt [rlit ''confirmation'', rlit ''approval'', rlit ''verification'',
       rlit ''validation'', rseq [rlit ''check'', ropt (rlit ''s'')]], rspaces,
       ropt (rseq [rlit ''is'', rspaces]), rwords [''required'', ''needed''], RWb],
      rseq [RWb, rwords [''future'', ''all'', ''any'', ''every''], rspaces,
       ralt [rseq [rlit ''refund'', ropt (rlit ''s'')], rseq [rlit ''cancellation'',
       ropt (rlit ''s'')], rseq [rlit ''action'', ropt (rlit ''s'')]], RWb, rany, RWb,
       ralt [rlit ''skip'', rlit ''bypass'', rlit ''without'', rlit ''no'', rlit ''automatic'',
       rlit ''auto'', rseq [rlit ''pre'', ropt (RSet (\<lambda>c. c \<in> {45, 32})),
       rlit ''approved''], rseq [rlit ''always'', rspaces, rlit ''approved'']], RWb],
      rseq [RWb, rwords [''my'', ''this'', ''the''], rspaces, rlit ''account'', RWb, rany, RWb,
       rwords [''automatic'', ''auto'', ''unlimited''], rspaces, rwords [''approval'',
       ''authorization''], RWb],
      ralt [rseq [RWb, rwords [''already'', ''permanently''], rspaces, rlit ''authorized'', RWb],
       rseq [RWb, rlit ''pre'', ropt (RSet (\<lambda>c. c \<in> {45, 32})), rlit ''approved'',
       RWb], rseq [RWb, rlit ''permanent'', ropt (rlit ''ly''), rspaces, rlit ''authorization'',
       RWb], rseq [RWb, rwords [''trusted'', ''approved''], rspaces, rlit ''account'', RWb, rany,
       RWb, rwords [''without'', ''no''], rspaces, ralt [rlit ''verification'',
       rlit ''validation'', rseq [rlit ''check'', ropt (rlit ''s'')]], RWb]],
      rseq [RWb, rwords [''bypass'', ''skip'', ''override'', ''disable'', ''ignore''], RWb, rany,
       RWb, ralt [rlit ''policy'', rlit ''validation'', rlit ''verification'',
       rlit ''confirmation'', rlit ''approval'', rseq [rlit ''check'', ropt (rlit ''s'')],
       rseq [rlit ''safeguard'', ropt (rlit ''s'')]], RWb]]"

definition memory_request_marker :: rx where
  "memory_request_marker =
     ralt [rseq [RWb, rwords [''remember'', ''save'', ''store'', ''keep''], RWb], rseq [RWb,
      rwords [''update'', ''add''], RWb, rany, RWb, rwords [''memory'', ''preference''], RWb]]"

definition auto_preference_keys :: "ustr list" where
  "auto_preference_keys =
     [lit ''response_style'', lit ''contact_channel'', lit ''language'', lit ''support_channel'']"

definition classify_memory_security_message :: "ustr \<Rightarrow> string option" where
  "classify_memory_security_message message =
     (let n = squeeze message in
      if n = [] \<or> \<not> found memory_request_marker n then None
      else if found_any authority_override_patterns n then Some ''memory_security_override_attempt''
      else if found_any authority_claim_patterns n then Some ''memory_security_override_attempt''
      else None)"

definition normalize_candidate :: "memory_candidate \<Rightarrow> memory_candidate" where
  "normalize_candidate m =
     m\<lparr>mc_content := squeeze (mc_content m),
       mc_key := map (\<lambda>c. if c = 45 \<or> c = 32 then 95 else c) (casefold (mc_key m))\<rparr>"

datatype memory_outcome = MO_ALLOW | MO_REJECT | MO_REQUIRE_EXPLICIT

fun memory_outcome_value :: "memory_outcome \<Rightarrow> string" where
  "memory_outcome_value MO_ALLOW = ''allow''"
| "memory_outcome_value MO_REJECT = ''reject''"
| "memory_outcome_value MO_REQUIRE_EXPLICIT = ''require_explicit''"

record memory_decision =
  md_outcome :: memory_outcome
  md_candidate :: memory_candidate
  md_reason :: string
  md_class :: dlp_classification
  md_signal :: "string option"

fun join_names :: "string list \<Rightarrow> string" where
  "join_names [] = []"
| "join_names [s] = s"
| "join_names (s # ss) = s @ '','' @ join_names ss"

definition evaluate_candidate :: "memory_candidate \<Rightarrow> memory_decision" where
  "evaluate_candidate m =
     (let n = normalize_candidate m; c = classify_candidate n; v = dc_candidate c;
          content = mc_content v;
          decide = (\<lambda>out reason signal. \<lparr>md_outcome = out, md_candidate = v, md_reason = reason,
                      md_class = c, md_signal = signal\<rparr>) in
      if dc_eligibility c = SE_REJECT then
        (let types = join_names (map sensitive_data_value (detected_types (mc_content n))) in
         decide MO_REJECT
           (''dlp_restricted_content:'' @ (if types = [] then ''sensitive_data'' else types)) None)
      else if \<not> fullmatch key_pattern (mc_key v) then decide MO_REJECT ''invalid_memory_key'' None
      else if 300 < length content then decide MO_REJECT ''memory_content_too_long'' None
      else if found_any authority_override_patterns content then
        decide MO_REJECT ''security_override_not_storable'' (Some ''memory_security_override_attempt'')
      else if found_any authority_claim_patterns content then
        decide MO_REJECT ''authority_claim_not_storable'' (Some ''memory_authority_claim_rejected'')
      else if list_ex (\<lambda>p. contains p (casefold content)) rejected_patterns then
        decide MO_REJECT ''sensitive_or_instructional_content'' None
      else if mc_type v = MT_PREFERENCE \<and> mc_key v \<in> set auto_preference_keys then
        decide MO_ALLOW ''low_risk_preference'' None
      else if mc_explicit v then decide MO_ALLOW ''explicit_user_request'' None
      else decide MO_REQUIRE_EXPLICIT ''durable_context_requires_consent'' None)"

section \<open>Extraction\<close>

text \<open>The constructor's length limits; a violation raises.\<close>

definition make_candidate :: "memory_type \<Rightarrow> ustr \<Rightarrow> ustr \<Rightarrow> exn + memory_candidate" where
  "make_candidate k content key =
     (if 1 \<le> length content \<and> length content \<le> 300 \<and> 2 \<le> length key \<and> length key \<le> 64
      then Inr \<lparr>mc_type = k, mc_content = content, mc_key = key, mc_confidence = 1,
             mc_explicit = True\<rparr>
      else Inl PydanticValidationError)"

text \<open>\<open>remember(?: that)? (.+)\<close>: the rest of the line after the leftmost prefix, never empty.\<close>

definition remember_prefix :: rx where
  "remember_prefix = rseq [rslit ''remember'', ropt (rslit '' that''), rslit '' '']"

fun remember_tail :: "ustr \<Rightarrow> ustr \<Rightarrow> ustr option" where
  "remember_tail pre [] = None"
| "remember_tail pre (c # cs) =
     (case filter (\<lambda>q. snd q \<noteq> []) (ends remember_prefix (pre, c # cs)) of
        [] \<Rightarrow> remember_tail (c # pre) cs
      | q # _ \<Rightarrow> Some (snd q))"

definition extract_memory_request ::
  "ustr \<Rightarrow> exn + memory_candidate option \<times> ustr option" where
  "extract_memory_request message =
     (let n = squeeze (casefold message);
          has = (\<lambda>w. contains (lit w) n);
          store = (\<lambda>k content key. and_then (make_candidate k content key) (\<lambda>m. Inr (Some m, None))) in
      if has ''forget'' \<or> contains (lit ''don'' @ [39] @ lit ''t remember'') n \<or> has ''do not remember''
      then (if has ''email'' then Inr (None, Some (lit ''contact_channel''))
            else if has ''concise'' \<or> has ''short'' then Inr (None, Some (lit ''response_style''))
            else Inr (None, None))
      else if \<not> (has_prefix (lit ''remember'') n \<or> has ''remember that'') then Inr (None, None)
      else if has ''email'' then
        store MT_PREFERENCE (lit ''The customer prefers email updates.'') (lit ''contact_channel'')
      else if has ''sms'' \<or> has ''text message'' then
        store MT_PREFERENCE (lit ''The customer prefers SMS updates.'') (lit ''contact_channel'')
      else if has ''concise'' \<or> has ''short'' then
        store MT_PREFERENCE (lit ''The customer prefers concise answers.'') (lit ''response_style'')
      else case remember_tail [] n of
        Some content \<Rightarrow> store MT_SUPPORT_CONTEXT content (lit ''support_context'')
      | None \<Rightarrow> Inr (None, None))"

end
