(* ===== verification/Agent_State.thy ===== *)
theory Agent_State
  imports Pending Memory_Policy Compiler Audit_Trail Retry
begin

text \<open>
  The state of a conversation (agent/state.py), the world a turn acts on, and the platform it runs
  on. The state is the typed dictionary of the graph, one field per key; a key that may be absent
  or \<open>None\<close> is an option. The world holds the business session, the audit trail, the reliability
  controller, the environment of the run-time services and a counter of the calls to external
  services. The platform collects what is not part of this code: the database engine, the
  conversions of the validation library, digests, clocks and identifiers, and the services handed
  to the graph's constructor (language model, knowledge retriever, answer generator, memory).
\<close>

section \<open>The state\<close>

datatype role = User | Assistant

datatype workflow_state =
    WF_ACTIVE | WF_WAITING_CONFIRMATION | WF_SUSPENDED | WF_SUPERSEDED | WF_COMPLETED | WF_CANCELLED

record suspended =
  sw_intent :: intent
  sw_action :: "pending_action option"
  sw_decision :: "semantic_decision option"
  sw_entities :: "pyval dict"
  sw_arguments :: "pyval dict"
  sw_missing :: "string list"
  sw_validation :: "pyval dict"
  sw_inputs :: "pyval dict"
  sw_source :: workflow_state
  sw_id :: string
  sw_superseded_by :: "string option"

text \<open>The diagnostic fields a revalidation writes.\<close>

record revalidation_trace =
  tr_original_hash :: "string option"
  tr_restored_hash :: "string option"
  tr_diff :: "ustr option"
  tr_original :: "ustr option"
  tr_restored :: "ustr option"
  tr_original_normalized :: "ustr option"
  tr_restored_normalized :: "ustr option"
  tr_stage :: "string option"
  tr_result :: "string option"

record agent_state =
  s_context :: "execution_context option"
  s_conversation :: "string option"
  s_conv_tenant :: "string option"
  s_conv_customer :: "int option"
  s_conv_actor :: "string option"
  s_conv_actor_type :: "string option"
  s_messages :: "(role \<times> ustr) list"
  s_intent :: "intent option"
  s_request :: "request_type option"
  s_decision :: "semantic_decision option"
  s_compiled :: "compiled_decision option"
  s_grounding :: "ustr option"
  s_grounding_reference :: "ustr option"
  s_grounding_source :: "ustr option"
  s_target_validation :: "ustr option"
  s_tool :: "string option"
  s_arguments :: "pyval dict"
  s_result :: "pyval dict option"
  s_pending :: "pending_action option"
  s_policy :: "policy_decision option"
  s_confirmation :: "string option"
  s_action_id :: "string option"
  s_retrieval :: bool
  s_query :: "ustr option"
  s_chunks :: "pyval list"
  s_answer_status :: "string option"
  s_answer :: "ustr option"
  s_citations :: "ustr list"
  s_retry_count :: int
  s_last_error :: "string option"
  s_error :: "error_category option"
  s_reason :: "ustr option"
  s_response :: ustr
  s_run :: string
  s_execution :: "string option"
  s_memory_context :: "pyval dict list"
  s_memory_candidate :: "memory_candidate option"
  s_memory_key :: "ustr option"
  s_memory_status :: "string option"
  s_memory_outcome :: "string option"
  s_failure :: "string option"
  s_degraded :: "string list"
  s_recovery :: "string option"
  s_write_unknown :: bool
  s_replay :: bool
  s_idempotency :: "string option"
  s_security :: "string option"
  s_memory_security :: "string option"
  s_summary_requested :: bool
  s_previous_intent :: "intent option"
  s_workflow_decision :: "semantic_decision option"
  s_missing :: "string list"
  s_entities :: "pyval dict"
  s_workflow_active :: bool
  s_resume_status :: "string option"
  s_workflow_state :: "workflow_state option"
  s_interruption_pending :: bool
  s_interruption_status :: "string option"
  s_previous_workflow_intent :: "intent option"
  s_interruption_intent :: "intent option"
  s_resume_source :: "string option"
  s_suspended :: "suspended option"
  s_superseded :: "suspended option"
  s_workflow_id :: "string option"
  s_previous_workflow_id :: "string option"
  s_superseded_by :: "string option"
  s_transition :: "string option"
  s_interruption_type :: "string option"
  s_wf_arguments :: "pyval dict"
  s_wf_validation :: "pyval dict"
  s_wf_inputs :: "pyval dict"
  s_restored :: bool
  s_restored_count :: int
  s_resumed :: bool
  s_trace :: revalidation_trace

text \<open>\<open>_latest_user_message\<close>, the same helper in every node.\<close>

definition latest_user_message :: "agent_state \<Rightarrow> ustr" where
  "latest_user_message s =
     (case find (\<lambda>m. fst m = User) (rev (s_messages s)) of None \<Rightarrow> [] | Some m \<Rightarrow> snd m)"

section \<open>The platform\<close>

record structured_decision =
  v1_intent :: intent
  v1_request :: request_type
  v1_tool :: "string option"
  v1_arguments :: "pyval dict"
  v1_reason :: ustr
  v1_retrieval :: bool
  v1_query :: "ustr option"
  v1_memory :: "memory_candidate option"
  v1_memory_key :: "ustr option"

datatype proposal =
    DirectV1 structured_decision
  | SemanticV2 semantic_decision
  | SemanticV3 decision_v3

record retrieval_result =
  rv_chunks :: "pyval list"
  rv_degraded :: "string list"

record grounded_answer =
  ga_answer :: ustr
  ga_citations :: "ustr list"
  ga_status :: string

record memory_result =
  mr_status :: string
  mr_reason :: "string option"
  mr_signal :: "string option"

record 'e platform =
  p_db :: db
  p_coercion :: coercion
  p_digest :: "ustr \<Rightarrow> string"
  p_text :: "pyval \<Rightarrow> ustr"
  p_now :: "'e \<Rightarrow> rat \<times> 'e"
  p_uuid :: "'e \<Rightarrow> string \<times> 'e"
  p_clock :: "'e \<Rightarrow> rat \<times> 'e"
  p_control_clock :: "'e \<Rightarrow> rat \<times> 'e"
  p_wall_clock :: "'e \<Rightarrow> rat \<times> 'e"
  p_random :: "'e \<Rightarrow> rat \<times> 'e"
  p_sleep :: "rat \<Rightarrow> 'e \<Rightarrow> 'e"
  p_identity :: "string \<Rightarrow> string"
  p_audit_fault :: "audit_event \<Rightarrow> exn option"
  p_ttl :: rat
  p_resilience :: resilience_config
  p_contract :: string
  p_provider_name :: string
  p_provider :: "nat \<Rightarrow> (role \<times> ustr) list \<Rightarrow> int \<Rightarrow> pyval dict list \<Rightarrow> exn + proposal"
  p_retriever_name :: string
  p_retriever :: "nat \<Rightarrow> ustr \<Rightarrow> exn + retrieval_result"
  p_generator :: "ustr \<Rightarrow> pyval list \<Rightarrow> exn + grounded_answer"
  p_recall :: "nat \<Rightarrow> int \<Rightarrow> ustr \<Rightarrow> principal \<Rightarrow> exn + pyval dict list"
  p_remember :: "nat \<Rightarrow> int \<Rightarrow> memory_candidate \<Rightarrow> string \<Rightarrow> exn + memory_result"
  p_forget :: "nat \<Rightarrow> int \<Rightarrow> ustr \<Rightarrow> string \<Rightarrow> exn + memory_result"

record 'e world =
  w_session :: session
  w_audit :: audit_log
  w_controller :: "controller option"
  w_env :: 'e
  w_calls :: nat

text \<open>
  A node reads the state and the world; it returns the state with its updates merged, or the
  exception that leaves the graph, and the world it leaves behind.
\<close>

type_synonym 'e node = "agent_state \<Rightarrow> 'e world \<Rightarrow> (exn + agent_state) \<times> 'e world"

section \<open>Calls with retries\<close>

definition make_call ::
  "'e platform \<Rightarrow> ('w \<Rightarrow> (exn + 'a) \<times> 'w) \<Rightarrow> string \<Rightarrow> string \<Rightarrow> string \<Rightarrow> bool \<Rightarrow> rat option \<Rightarrow>
     ('e, 'w, 'a) call" where
  "make_call p f dep op ident limited timeout =
     \<lparr>operation = f, dependency = dep, operation_type = op, service_identity = ident,
      provider_rate_limited = limited, timeout_seconds = timeout, deadline = None,
      policy = p_resilience p, identity_digest = p_identity p, clock = p_clock p,
      control_clock = p_control_clock p, wall_clock = p_wall_clock p, random_source = p_random p,
      sleeper = p_sleep p\<rparr>"

text \<open>A call on the business session, and a call to an external service, which counts its attempts.\<close>

definition call_session ::
  "'e platform \<Rightarrow> (session \<Rightarrow> (exn + 'a) \<times> session) \<Rightarrow> string \<Rightarrow> string \<Rightarrow> string \<Rightarrow> 'e world \<Rightarrow>
     (exn + 'a) \<times> 'e world" where
  "call_session p f dep op ident w =
     (case run_with_retry (make_call p f dep op ident False None)
             (w_controller w, w_env w, w_session w) of
        (r, n, ctl, e, ss) \<Rightarrow> (r, w\<lparr>w_session := ss, w_controller := ctl, w_env := e\<rparr>))"

definition call_service ::
  "'e platform \<Rightarrow> (nat \<Rightarrow> exn + 'a) \<Rightarrow> string \<Rightarrow> string \<Rightarrow> bool \<Rightarrow> rat option \<Rightarrow> 'e world \<Rightarrow>
     (exn + 'a) \<times> 'e world" where
  "call_service p f dep ident limited timeout w =
     (case run_with_retry (make_call p (\<lambda>k. (f k, Suc k)) dep ''read'' ident limited timeout)
             (w_controller w, w_env w, w_calls w) of
        (r, n, ctl, e, k) \<Rightarrow> (r, w\<lparr>w_calls := k, w_controller := ctl, w_env := e\<rparr>))"

text \<open>The exceptions \<open>(RetryExhaustedError, ResilienceError)\<close> the nodes catch, by their category.\<close>

abbreviation resilience_error :: "exn \<Rightarrow> failure_category option" where
  "resilience_error x \<equiv> resilience_category x"

section \<open>Clock, identifiers and audit\<close>

definition now :: "'e platform \<Rightarrow> 'e world \<Rightarrow> rat \<times> 'e world" where
  "now p w = (case p_now p (w_env w) of (t, e) \<Rightarrow> (t, w\<lparr>w_env := e\<rparr>))"

definition fresh_action_id :: "'e platform \<Rightarrow> 'e world \<Rightarrow> string \<times> 'e world" where
  "fresh_action_id p w = (case p_uuid p (w_env w) of (u, e) \<Rightarrow> (''act_'' @ u, w\<lparr>w_env := e\<rparr>))"

text \<open>\<open>state.get("action_id") or f"act_{uuid4().hex}"\<close>\<close>

definition action_id_or_fresh :: "'e platform \<Rightarrow> agent_state \<Rightarrow> 'e world \<Rightarrow> string \<times> 'e world" where
  "action_id_or_fresh p s w =
     (if or_text (s_action_id s) [] = [] then fresh_action_id p w
      else (or_text (s_action_id s) [], w))"

definition event_id :: "'e platform \<Rightarrow> string \<Rightarrow> string option \<Rightarrow> string \<Rightarrow> string \<Rightarrow> string" where
  "event_id p = stable_policy_event_id (\<lambda>x. p_digest p (lit x))"

text \<open>
  The events share the identity of the context; an event is built, then appended. The audit table
  lives in the business session, so appending commits that session.
\<close>

definition context_event ::
  "string \<Rightarrow> execution_context \<Rightarrow> string \<Rightarrow> string option \<Rightarrow> string \<Rightarrow> int \<Rightarrow> outcome \<Rightarrow>
     string list \<Rightarrow> string \<Rightarrow> string option \<Rightarrow> rat \<Rightarrow> audit_event" where
  "context_event i ctx run action tool risk out reasons stage confirmation t =
     \<lparr>ev_id = i, ev_run = run, ev_request = request_id ctx, ev_conversation = conversation_id ctx,
      ev_tenant = ctx_tenant ctx, ev_actor = actor_id (ctx_principal ctx),
      ev_actor_kind = actor_kind (ctx_principal ctx), ev_roles = roles (ctx_principal ctx),
      ev_customer = effective_customer ctx, ev_action = action, ev_tool = tool, ev_risk = risk,
      ev_outcome = out, ev_reasons = reasons, ev_time = t, ev_stage = stage,
      ev_confirmation = confirmation, ev_revalidation = False, ev_execution = None\<rparr>"

fun audit_session ::
  "db \<Rightarrow> (audit_event \<Rightarrow> exn option) \<Rightarrow> audit_event \<Rightarrow> audit_log \<Rightarrow> session \<Rightarrow> session" where
  "audit_session d fault e (MemoryLog cap es) ss = ss"
| "audit_session d fault e (SqlLog es) ss =
     (if list_ex (same_event e) es then ss
      else case fault e of
        Some x \<Rightarrow> if x = IntegrityError then rollback d ss else ss
      | None \<Rightarrow> if list_ex (\<lambda>q. ev_id q = ev_id e) es then rollback d ss
                else ss\<lparr>durable := work ss\<rparr>)"

definition write_audit :: "'e platform \<Rightarrow> audit_event \<Rightarrow> 'e world \<Rightarrow> (exn + unit) \<times> 'e world" where
  "write_audit p e0 w =
     (case make_event e0 of
        Inl x \<Rightarrow> (Inl x, w)
      | Inr e \<Rightarrow>
          (case append_policy_audit (p_audit_fault p) e (w_audit w) of
             (r, l) \<Rightarrow>
               (r, w\<lparr>w_session := audit_session (p_db p) (p_audit_fault p) e (w_audit w) (w_session w),
                    w_audit := l\<rparr>)))"

text \<open>Running a step that may raise, then a continuation on the world it leaves.\<close>

fun after :: "(exn + 'a) \<times> 'w \<Rightarrow> ('a \<Rightarrow> 'w \<Rightarrow> (exn + 'b) \<times> 'w) \<Rightarrow> (exn + 'b) \<times> 'w" where
  "after (Inl x, w) f = (Inl x, w)"
| "after (Inr a, w) f = f a w"

end
