(* ===== verification/Nodes_Entry.thy ===== *)
theory Nodes_Entry
  imports Agent_State
begin

text \<open>
  The nodes that open a turn: \<open>_load_context\<close> (agent/graph.py), the security boundary
  (nodes/understand_request.py), memory retrieval (nodes/retrieve_memory.py), the check of a pending
  action (nodes/check_pending.py), the restoration of a confirmed one (nodes/restore_pending.py) and
  the resumption of an incomplete request (nodes/resume_workflow.py).
\<close>

section \<open>Loading the context\<close>

definition reject_entry :: "error_category \<Rightarrow> string \<Rightarrow> agent_state \<Rightarrow> agent_state" where
  "reject_entry c m s =
     s\<lparr>s_intent := Some UNKNOWN, s_request := Some RT_UNCLEAR, s_error := Some c,
       s_last_error := Some m, s_tool := None, s_result := None\<rparr>"

definition differs :: "'a option \<Rightarrow> 'a \<Rightarrow> bool" where
  "differs x y \<longleftrightarrow> (case x of None \<Rightarrow> False | Some z \<Rightarrow> z \<noteq> y)"

definition foreign_conversation :: "agent_state \<Rightarrow> execution_context \<Rightarrow> bool" where
  "foreign_conversation s ctx \<longleftrightarrow>
     differs (s_conv_customer s) (effective_customer ctx) \<or> differs (s_conv_tenant s) (ctx_tenant ctx) \<or>
     differs (s_conv_actor s) (actor_id (ctx_principal ctx)) \<or>
     differs (s_conv_actor_type s) (actor_type_value (actor_kind (ctx_principal ctx)))"

text \<open>The fields of one turn are cleared; pending action, action id and workflow fields stay.\<close>

definition reset_turn :: "execution_context \<Rightarrow> agent_state \<Rightarrow> agent_state" where
  "reset_turn ctx s =
     s\<lparr>s_conv_customer := Some (effective_customer ctx), s_conv_tenant := Some (ctx_tenant ctx),
       s_conv_actor := Some (actor_id (ctx_principal ctx)),
       s_conv_actor_type := Some (actor_type_value (actor_kind (ctx_principal ctx))),
       s_retry_count := 0, s_last_error := None, s_error := None, s_tool := None, s_arguments := [],
       s_decision := None, s_compiled := None, s_grounding := Some (lit ''not_applicable''),
       s_grounding_reference := None, s_grounding_source := None,
       s_target_validation := Some (lit ''not_recorded''), s_result := None, s_chunks := [],
       s_answer_status := None, s_answer := None, s_citations := [], s_retrieval := False,
       s_query := None, s_policy := None, s_confirmation := None, s_execution := None,
       s_memory_context := [], s_memory_candidate := None, s_memory_key := None,
       s_memory_status := None, s_memory_outcome := None, s_memory_security := None,
       s_summary_requested := False, s_failure := None, s_degraded := [], s_recovery := None,
       s_write_unknown := False, s_replay := False, s_idempotency := None, s_restored := False,
       s_restored_count := 0, s_resumed := False, s_interruption_pending := False,
       s_interruption_status := None, s_interruption_intent := None, s_resume_source := None,
       s_transition := None, s_interruption_type := None\<rparr>"

definition load_context :: "'e node" where
  "load_context s w =
     (Inr (case s_context s of
        None \<Rightarrow> reject_entry EC_POLICY_DENIED ''Authenticated execution context is required.'' s
      | Some ctx \<Rightarrow>
          if s_conversation s \<noteq> Some (conversation_id ctx)
          then reject_entry EC_OWNERSHIP_VIOLATION ''Execution context does not match request state.'' s
          else if foreign_conversation s ctx
          then reject_entry EC_OWNERSHIP_VIOLATION
                 ''Conversation belongs to a different execution context.'' s
          else reset_turn ctx s), w)"

section \<open>The security boundary\<close>

definition rejected_pending :: "pending_action option \<Rightarrow> pending_action option" where
  "rejected_pending a =
     (case a of
        None \<Rightarrow> None
      | Some a \<Rightarrow> Some (if pa_status a = PA_PENDING then transition a PA_REJECTED else a))"

definition security_block :: "string \<Rightarrow> bool \<Rightarrow> agent_state \<Rightarrow> agent_state" where
  "security_block signal memory_rejection s =
     (let a = rejected_pending (s_pending s);
          t = s\<lparr>s_decision := Some (plain_decision UNKNOWN RT_UNCLEAR (lit signal)),
               s_intent := Some UNKNOWN, s_request := Some RT_UNCLEAR, s_tool := None,
               s_arguments := [], s_pending := a, s_workflow_decision := None, s_missing := [],
               s_workflow_active := False, s_interruption_pending := False,
               s_interruption_status := Some ''security_blocked'',
               s_workflow_state := Some WF_CANCELLED, s_suspended := None, s_superseded := None,
               s_confirmation := Some (if a \<noteq> None then ''rejected'' else ''blocked''),
               s_security := Some signal, s_reason := Some (lit signal),
               s_error := Some EC_POLICY_DENIED,
               s_last_error := Some ''The request attempted to cross a deterministic authority boundary.''\<rparr> in
      if memory_rejection
      then t\<lparr>s_memory_status := Some ''reject'', s_memory_outcome := Some ''reject'',
             s_memory_security := Some signal\<rparr>
      else t)"

definition ownership_block :: "agent_state \<Rightarrow> agent_state" where
  "ownership_block s =
     s\<lparr>s_decision := Some (plain_decision UNKNOWN RT_UNCLEAR (lit ''cross_customer_access_attempt'')),
       s_intent := Some UNKNOWN, s_request := Some RT_UNCLEAR, s_tool := None, s_arguments := [],
       s_pending := None, s_security := Some ''cross_customer_access_attempt'',
       s_reason := Some (lit ''cross_customer_access_attempt''),
       s_error := Some EC_OWNERSHIP_VIOLATION,
       s_last_error := Some ''The request crossed the authenticated customer scope.'',
       s_workflow_active := False, s_workflow_state := Some WF_CANCELLED,
       s_confirmation := Some ''blocked''\<rparr>"

definition security_boundary :: "'e node" where
  "security_boundary s w =
     (let m = latest_user_message s in
      (Inr (case classify_memory_security_message m of
         Some signal \<Rightarrow> security_block signal True s
       | None \<Rightarrow>
           if is_instruction_override_attempt m then security_block ''instruction_override_attempt'' False s
           else if is_authority_claim_attempt m then security_block ''authority_claim_attempt'' False s
           else if is_cross_customer_access_attempt m then ownership_block s
           else s\<lparr>s_security := None\<rparr>), w))"

section \<open>Memory retrieval\<close>

definition retrieve_memory :: "'e platform \<Rightarrow> 'e node" where
  "retrieve_memory p s w =
     (case s_context s of
        None \<Rightarrow>
          (Inr (s\<lparr>s_memory_context := [], s_error := Some EC_POLICY_DENIED,
                 s_last_error := Some ''Authenticated execution context is required for memory.''\<rparr>), w)
      | Some ctx \<Rightarrow>
          (case call_service p (\<lambda>k. p_recall p k (effective_customer ctx) (latest_user_message s)
                   (ctx_principal ctx)) ''memory'' ''memory:postgres'' False None w of
             (Inr records, w1) \<Rightarrow> (Inr (s\<lparr>s_memory_context := records\<rparr>), w1)
           | (Inl x, w1) \<Rightarrow>
               (case resilience_error x of
                  None \<Rightarrow> (Inl x, w1)
                | Some c \<Rightarrow>
                    (Inr (s\<lparr>s_memory_context := [], s_failure := Some (failure_category_value c),
                           s_degraded := [''memory''],
                           s_recovery := Some ''continue_without_memory''\<rparr>), w1))))"

section \<open>The pending action\<close>

definition check_pending_action :: "rat \<Rightarrow> rat \<Rightarrow> agent_state \<Rightarrow> pending_action \<Rightarrow> agent_state" where
  "check_pending_action ttl t s a =
     (let m = latest_user_message s; parsed = parse_confirmation m in
      if pa_status a = PA_PENDING then
        (if is_expired a t ttl then
           s\<lparr>s_pending := Some (transition a PA_EXPIRED), s_confirmation := Some ''expired''\<rparr>
         else if parsed = ''confirmed'' then
           s\<lparr>s_pending := Some (transition a PA_CONFIRMED), s_confirmation := Some ''confirmed''\<rparr>
         else if parsed = ''rejected'' then
           s\<lparr>s_pending := Some (transition a PA_REJECTED), s_confirmation := Some ''rejected'',
             s_workflow_state := Some WF_CANCELLED\<rparr>
         else if is_interruption_candidate m then
           s\<lparr>s_confirmation := Some ''inspect_interruption'', s_interruption_pending := True\<rparr>
         else s\<lparr>s_confirmation := Some ''ambiguous''\<rparr>)
      else if parsed = ''confirmed'' then
        (if pa_status a = PA_EXECUTED then
           s\<lparr>s_confirmation := Some ''no_pending'', s_replay := True,
             s_idempotency := Some ''replay_prevented'',
             s_reason := Some (lit ''idempotency_replay_prevented''),
             s_workflow_state := Some WF_COMPLETED\<rparr>
         else s\<lparr>s_confirmation := Some ''no_pending''\<rparr>)
      else s\<lparr>s_confirmation := Some ''normal'', s_pending := None\<rparr>)"

definition check_no_pending :: "agent_state \<Rightarrow> agent_state" where
  "check_no_pending s =
     (let m = latest_user_message s in
      if is_resume_request m then
        s\<lparr>s_confirmation := Some (if s_suspended s = None then ''resume_unavailable'' else ''resume_suspended''),
          s_resume_source := Some ''explicit_user_resume''\<rparr>
      else s\<lparr>s_confirmation := Some (if parse_confirmation m \<noteq> ''ambiguous'' then ''no_pending'' else ''normal'')\<rparr>)"

text \<open>The clock is read only for an action that is still pending.\<close>

definition inspect_pending :: "'e platform \<Rightarrow> agent_state \<Rightarrow> 'e world \<Rightarrow> agent_state \<times> 'e world" where
  "inspect_pending p s w =
     (case s_pending s of
        None \<Rightarrow> (check_no_pending s, w)
      | Some a \<Rightarrow>
          (case s_context s of
             None \<Rightarrow>
               (s\<lparr>s_confirmation := Some ''ownership_error'',
                 s_last_error := Some ''Pending action belongs to another execution context.'',
                 s_error := Some EC_OWNERSHIP_VIOLATION\<rparr>, w)
           | Some ctx \<Rightarrow>
               if \<not> belongs_to_context a ctx then
                 (s\<lparr>s_confirmation := Some ''ownership_error'',
                   s_last_error := Some ''Pending action belongs to another execution context.'',
                   s_error := Some EC_OWNERSHIP_VIOLATION\<rparr>, w)
               else if pa_status a = PA_PENDING then
                 (case now p w of (t, w1) \<Rightarrow> (check_pending_action (p_ttl p) t s a, w1))
               else (check_pending_action (p_ttl p) 0 s a, w)))"

definition record_confirmation_event ::
  "'e platform \<Rightarrow> agent_state \<Rightarrow> agent_state \<Rightarrow> 'e world \<Rightarrow> (exn + unit) \<times> 'e world" where
  "record_confirmation_event p s result w =
     (case (s_confirmation result,
            (case s_pending result of None \<Rightarrow> s_pending s | Some a \<Rightarrow> Some a), s_context s) of
        (Some status, Some a, Some ctx) \<Rightarrow>
          if status \<in> {''confirmed'', ''rejected'', ''expired''} then
            (case now p w of (t, w1) \<Rightarrow>
               write_audit p
                 (context_event (event_id p (s_run s) (Some (pa_id a)) ''confirmation'' status) ctx
                   (s_run s) (Some (pa_id a)) (pa_tool a) (pa_risk a) PO_REQUIRE_CONFIRMATION
                   [''confirmation_'' @ status] ''confirmation'' (Some status) t) w1)
          else (Inr (), w)
      | _ \<Rightarrow> (Inr (), w))"

definition check_pending :: "'e platform \<Rightarrow> 'e node" where
  "check_pending p s w =
     (case inspect_pending p s w of
        (t, w1) \<Rightarrow> after (record_confirmation_event p s t w1) (\<lambda>u w2. (Inr t, w2)))"

section \<open>Restoring a confirmed action\<close>

text \<open>A stored text value read back; absent and \<open>None\<close> are the same.\<close>

definition stored_text :: "pyval \<Rightarrow> ustr option" where
  "stored_text v = (case v of PStr s \<Rightarrow> Some s | _ \<Rightarrow> None)"

definition stored_text_or :: "string \<Rightarrow> pyval dict \<Rightarrow> string \<Rightarrow> ustr option" where
  "stored_text_or fallback d k =
     (case dget d k of None \<Rightarrow> Some (lit fallback) | Some v \<Rightarrow> stored_text v)"

definition deny_restore :: "error_category \<Rightarrow> string \<Rightarrow> agent_state \<Rightarrow> agent_state" where
  "deny_restore c m s =
     s\<lparr>s_restored := False, s_restored_count := 0, s_resumed := False, s_error := Some c,
       s_last_error := Some m\<rparr>"

definition restore_pending :: "'e platform \<Rightarrow> 'e node" where
  "restore_pending p s w =
     ((case s_pending s of
         None \<Rightarrow> Inr (deny_restore EC_POLICY_DENIED ''Confirmed pending action payload is unavailable.'' s)
       | Some a \<Rightarrow>
           if pa_status a \<noteq> PA_CONFIRMED
           then Inr (deny_restore EC_POLICY_DENIED ''Confirmed pending action payload is unavailable.'' s)
           else let args = restore_pending_arguments a in
             and_then (restore_pending_decision (p_text p) a args) (\<lambda>decision.
               case decision of
                 None \<Rightarrow> Inr (deny_restore EC_INVALID_TOOL_ARGUMENTS
                           ''Pending action intent is unavailable for compilation.'' s)
               | Some d \<Rightarrow>
                   Inr (s\<lparr>s_decision := Some d, s_intent := Some (sd_intent d),
                     s_request := Some (sd_request d), s_tool := Some (pa_tool a),
                     s_arguments := args, s_entities := pa_entities a,
                     s_reason := stored_text (pget (pa_validation a) ''decision_reason''),
                     s_grounding := stored_text_or ''not_recorded'' (pa_validation a) ''grounding_status'',
                     s_grounding_reference :=
                       stored_text (pget (pa_validation a) ''grounding_reference_type''),
                     s_grounding_source :=
                       stored_text (pget (pa_validation a) ''grounding_trusted_source''),
                     s_target_validation :=
                       stored_text_or ''not_recorded'' (pa_validation a) ''target_validation_status'',
                     s_restored := True, s_restored_count := restored_field_count a args,
                     s_resumed := True, s_error := None, s_last_error := None\<rparr>))), w)"

section \<open>Resuming an incomplete request\<close>

definition order_follow_up :: rx where
  "order_follow_up =
     rseq [RBos, ropt (rseq [rlit ''my'', rspaces]), rlit ''order'', ropt (rseq [rspaces,
      rwords [''number'', ''id'']]), rspaces0, ropt (rseq [rlit ''is'', rspaces0]),
      ropt (RSet (\<lambda>c. c \<in> {58, 35, 45})), rspaces0, rdigits, rspaces0,
      ropt (RSet (\<lambda>c. c \<in> {46, 33})), REos]"

definition numeric_follow_up :: rx where
  "numeric_follow_up =
     rseq [RBos, ropt (rslit ''#''), rspaces0, rdigits, rspaces0,
      ropt (RSet (\<lambda>c. c \<in> {46, 33})), REos]"

text \<open>The patterns have one run of digits and no other digit, so the group is all digits of the text.\<close>

definition parse_order_id :: "ustr \<Rightarrow> int option" where
  "parse_order_id m =
     (if fullmatch numeric_follow_up m \<or> fullmatch order_follow_up m then
        (let v = digits_value (filter is_digit m) in if 0 < v then Some v else None)
      else None)"

definition reset_workflow :: "agent_state \<Rightarrow> agent_state" where
  "reset_workflow s =
     s\<lparr>s_previous_intent := None, s_workflow_decision := None, s_missing := [], s_entities := [],
       s_workflow_active := False, s_resume_status := Some ''reset''\<rparr>"

definition interruption_or_wait :: "ustr \<Rightarrow> agent_state \<Rightarrow> agent_state" where
  "interruption_or_wait m s =
     (if is_interruption_candidate m then
        s\<lparr>s_resume_status := Some ''inspect_interruption'', s_interruption_pending := True\<rparr>
      else
        s\<lparr>s_resume_status := Some ''waiting_for_fields'', s_interruption_pending := False,
          s_workflow_state := Some WF_ACTIVE\<rparr>)"

definition partial_resume ::
  "semantic_decision \<Rightarrow> pyval dict \<Rightarrow> string list \<Rightarrow> agent_state \<Rightarrow> agent_state" where
  "partial_resume d entities remaining s =
     s\<lparr>s_decision := Some d, s_workflow_decision := Some d, s_previous_intent := Some (sd_intent d),
       s_entities := entities, s_missing := remaining, s_workflow_active := True,
       s_resume_status := Some ''waiting_for_fields'', s_interruption_pending := False,
       s_workflow_state := Some WF_ACTIVE\<rparr>"

definition finish_resume :: "semantic_decision \<Rightarrow> pyval dict \<Rightarrow> agent_state \<Rightarrow> agent_state" where
  "finish_resume d entities s =
     s\<lparr>s_decision := Some d, s_previous_intent := Some (sd_intent d), s_entities := entities,
       s_missing := [], s_workflow_active := False, s_resume_status := Some ''resumed'',
       s_interruption_pending := False, s_workflow_state := Some WF_ACTIVE\<rparr>"

text \<open>The second half of the node: the reason, once the order is known.\<close>

definition resume_reason ::
  "ustr \<Rightarrow> semantic_decision \<Rightarrow> pyval dict \<Rightarrow> string list \<Rightarrow> agent_state \<Rightarrow> agent_state" where
  "resume_reason m d entities remaining s =
     (if ''reason'' \<in> set remaining then
        (if m = [] \<or> parse_order_id m \<noteq> None then
           (if is_interruption_candidate m then interruption_or_wait m s
            else partial_resume d entities remaining s)
         else
           let rest = remove1 ''reason'' remaining; d' = d\<lparr>sd_reason := m\<rparr>;
               es = dset ''reason'' (PStr m) entities in
           if rest \<noteq> [] then partial_resume d' es rest s else finish_resume d' es s)
      else if remaining \<noteq> [] then partial_resume d entities remaining s
      else finish_resume d entities s)"

definition resume_workflow :: "'e node" where
  "resume_workflow s w =
     (Inr (case s_workflow_decision s of
        None \<Rightarrow> reset_workflow s
      | Some d \<Rightarrow>
          if \<not> s_workflow_active s \<or> s_missing s = [] then reset_workflow s
          else
            let m = strip (latest_user_message s) in
            if ''order_id'' \<in> set (s_missing s) then
              (case parse_order_id m of
                 None \<Rightarrow> interruption_or_wait m s
               | Some i \<Rightarrow>
                   resume_reason m
                     (d\<lparr>sd_target := Some \<lparr>tg_type = EXPLICIT_ORDER, tg_order = Some i, tg_ticket = None\<rparr>\<rparr>)
                     (dset ''order_id'' (PInt i) (s_entities s)) (remove1 ''order_id'' (s_missing s)) s)
            else resume_reason m d (s_entities s) (s_missing s) s), w)"

end
