(* ===== verification/Nodes_Workflow.thy ===== *)
theory Nodes_Workflow
  imports Nodes_Entry
begin

text \<open>
  Understanding and compiling a request (nodes/understand_request.py, nodes/compile_decision.py,
  nodes/select_tool.py, nodes/validate_tool.py) and the suspension, replacement and resumption of a
  workflow (nodes/workflow_lifecycle.py).
\<close>

section \<open>Understanding\<close>

definition matches_contract :: "proposal \<Rightarrow> string \<Rightarrow> bool" where
  "matches_contract d version =
     (case d of
        DirectV1 x \<Rightarrow> version = ''direct_tool_v1''
      | SemanticV2 x \<Rightarrow> version = ''semantic_decision_v2''
      | SemanticV3 x \<Rightarrow> version = ''semantic_decision_v3'')"

definition llm_failure :: "string \<Rightarrow> string \<Rightarrow> agent_state \<Rightarrow> agent_state" where
  "llm_failure m failure s =
     s\<lparr>s_intent := Some UNKNOWN, s_request := Some RT_UNCLEAR, s_last_error := Some m,
       s_error := Some EC_LLM_ERROR, s_failure := Some failure, s_recovery := Some ''clarify'',
       s_security := None\<rparr>"

definition understood ::
  "semantic_decision \<Rightarrow> intent \<Rightarrow> request_type \<Rightarrow> ustr \<Rightarrow> agent_state \<Rightarrow> agent_state" where
  "understood d k q reason s =
     s\<lparr>s_decision := Some d, s_intent := Some k, s_request := Some q, s_tool := None,
       s_arguments := [], s_reason := Some reason, s_last_error := None, s_error := None,
       s_security := None\<rparr>"

text \<open>An explicit replacement of a pending cancellation by a refund, or the reverse.\<close>

definition replacement_decision :: "intent \<Rightarrow> pending_action \<Rightarrow> exn + semantic_decision" where
  "replacement_decision k a =
     and_then (case positive_int (pget (pa_arguments a) ''order_id'') of
                 None \<Rightarrow> Inr None
               | Some n \<Rightarrow> and_then (make_target EXPLICIT_ORDER (Some n) None) (\<lambda>t. Inr (Some t)))
       (\<lambda>target. validated_decision
          ((plain_decision k RT_WRITE_ACTION (lit ''explicit_workflow_replacement''))\<lparr>sd_target := target\<rparr>))"

definition previous_pending_intent :: "agent_state \<Rightarrow> intent option" where
  "previous_pending_intent s =
     (case s_pending s of None \<Rightarrow> None
      | Some a \<Rightarrow> Option.bind (pa_intent a) (enum_of_value intent_value all_intents))"

definition accept_proposal :: "ustr \<Rightarrow> proposal \<Rightarrow> agent_state \<Rightarrow> exn + agent_state" where
  "accept_proposal message d s =
     (case d of
        SemanticV2 x \<Rightarrow> Inr (s\<lparr>s_decision := Some x, s_last_error := None, s_error := None\<rparr>)
      | SemanticV3 x \<Rightarrow> and_then (normalize_semantic_decision x) (\<lambda>y.
          Inr (s\<lparr>s_decision := Some y, s_last_error := None, s_error := None\<rparr>))
      | DirectV1 x \<Rightarrow> and_then (extract_memory_request message) (\<lambda>(m, k).
          Inr (s\<lparr>s_intent := Some (v1_intent x), s_request := Some (v1_request x),
            s_tool := v1_tool x, s_arguments := v1_arguments x, s_reason := Some (v1_reason x),
            s_retrieval := v1_retrieval x, s_query := v1_query x,
            s_memory_candidate := (case v1_memory x of None \<Rightarrow> m | Some c \<Rightarrow> Some c),
            s_memory_key := (if given (v1_memory_key x) then v1_memory_key x else k),
            s_last_error := None, s_error := None, s_security := None\<rparr>)))"

definition ask_provider :: "'e platform \<Rightarrow> execution_context \<Rightarrow> 'e node" where
  "ask_provider p ctx s w =
     (case call_service p (\<lambda>k. p_provider p k (s_messages s) (effective_customer ctx) (s_memory_context s))
             ''llm'' (''llm:'' @ p_provider_name p) True (Some (llm_timeout (p_resilience p))) w of
        (Inl x, w1) \<Rightarrow>
          (case resilience_error x of
             Some c \<Rightarrow> (Inr (llm_failure ''The request could not be classified.'' (failure_category_value c) s), w1)
           | None \<Rightarrow>
               if is_value_or_type x
               then (Inr (llm_failure ''The model response did not match the required schema.''
                            ''llm_malformed_output'' s), w1)
               else (Inl x, w1))
      | (Inr d, w1) \<Rightarrow>
          if \<not> matches_contract d (p_contract p)
          then (Inr (llm_failure ''The provider returned the wrong decision contract.''
                       ''llm_contract_mismatch'' s), w1)
          else (accept_proposal (latest_user_message s) d s, w1))"

text \<open>\<open>state["execution_context"]\<close> raises when the key is absent (\<open>KeyError\<close>, here \<open>OtherError\<close>).\<close>

definition understand_request :: "'e platform \<Rightarrow> 'e node" where
  "understand_request p s w =
     (let m = latest_user_message s in
      case (explicit_replacement_intent m (previous_pending_intent s), s_pending s) of
        (Some k, Some a) \<Rightarrow>
          (and_then (replacement_decision k a) (\<lambda>d.
             Inr ((understood d k RT_WRITE_ACTION (sd_reason d) s)\<lparr>s_retrieval := False\<rparr>)), w)
      | _ \<Rightarrow>
          if is_memory_summary_request m then
            (Inr ((understood (plain_decision SUPPORT_FAQ RT_KNOWLEDGE_ONLY (lit ''memory_summary_request''))
                    SUPPORT_FAQ RT_KNOWLEDGE_ONLY (lit ''memory_summary_request'') s)
                    \<lparr>s_summary_requested := True, s_retrieval := False\<rparr>), w)
          else if has_conflicting_intents m then
            (Inr (understood
                    ((plain_decision UNKNOWN RT_UNCLEAR (lit ''conflicting_request_intents''))\<lparr>sd_clarification := True\<rparr>)
                    UNKNOWN RT_UNCLEAR (lit ''conflicting_request_intents'') s), w)
          else (case s_context s of
                  None \<Rightarrow> (Inl OtherError, w)
                | Some ctx \<Rightarrow> ask_provider p ctx s w))"

section \<open>Compiling\<close>

definition user_conversation :: "agent_state \<Rightarrow> ustr" where
  "user_conversation s = join_char 32 (map snd (filter (\<lambda>m. fst m = User) (s_messages s)))"

definition collected_entities :: "semantic_decision \<Rightarrow> pyval dict" where
  "collected_entities d =
     (case sd_target d of
        None \<Rightarrow> []
      | Some t \<Rightarrow> (case tg_order t of None \<Rightarrow> [] | Some n \<Rightarrow> [(''order_id'', PInt n)]) @
                  (case tg_ticket t of None \<Rightarrow> [] | Some n \<Rightarrow> [(''ticket_id'', PInt n)])) @
     (if sd_reason d = [] then [] else [(''reason'', PStr (sd_reason d))])"

text \<open>The grounding a confirmed action carries, read back from its stored validation.\<close>

definition named_reference :: "ustr option \<Rightarrow> string option" where
  "named_reference x =
     (case x of None \<Rightarrow> None
      | Some r \<Rightarrow> find (\<lambda>k. lit k = r) [''explicit_order'', ''explicit_ticket'', ''latest_order''])"

definition restored_grounding :: "agent_state \<Rightarrow> semantic_decision \<Rightarrow> semantic_grounding" where
  "restored_grounding s d =
     \<lparr>gr_status =
        (case enum_of_text grounding_status_value all_grounding_statuses
                (case s_grounding s of None \<Rightarrow> lit ''not_applicable'' | Some g \<Rightarrow> g) of
           None \<Rightarrow> GS_INVALID | Some g \<Rightarrow> g),
      gr_reference = (if sd_target d = None then None else named_reference (s_grounding_reference s)),
      gr_source = (if s_grounding_source s = Some (lit ''current_user_message'')
                   then Some ''current_user_message'' else None)\<rparr>"

definition ref_text :: "string option \<Rightarrow> ustr option" where
  "ref_text x = map_option lit x"

definition workflow_id_or :: "agent_state \<Rightarrow> string" where
  "workflow_id_or s = or_text (s_workflow_id s) (''workflow:'' @ s_run s)"

definition compile_rejected ::
  "compiled_decision \<Rightarrow> semantic_decision \<Rightarrow> semantic_grounding \<Rightarrow> admissibility \<Rightarrow> agent_state \<Rightarrow>
     agent_state" where
  "compile_rejected r d g adm s =
     s\<lparr>s_intent := Some (cd_intent r), s_request := Some (cd_request r), s_tool := None,
       s_arguments := [], s_error := Some EC_INVALID_TOOL_ARGUMENTS,
       s_last_error := Some ''The semantic request could not be compiled safely.'',
       s_reason := Some (cd_reason r), s_compiled := Some r,
       s_grounding := Some (lit (grounding_status_value (gr_status g))),
       s_grounding_reference := ref_text (gr_reference g),
       s_grounding_source := ref_text (gr_source g),
       s_target_validation := Some (lit (admissibility_value adm)),
       s_previous_intent := Some (sd_intent d), s_workflow_decision := None, s_missing := [],
       s_entities := collected_entities d, s_workflow_active := False, s_resume_status := None,
       s_workflow_state := Some (if s_suspended s \<noteq> None then WF_SUSPENDED else WF_COMPLETED),
       s_workflow_id := Some (workflow_id_or s)\<rparr>"

definition optional_pstr :: "ustr option \<Rightarrow> pyval" where
  "optional_pstr x = (case x of None \<Rightarrow> PNone | Some t \<Rightarrow> PStr t)"

definition compile_accepted ::
  "compiled_decision \<Rightarrow> semantic_decision \<Rightarrow> semantic_grounding \<Rightarrow> admissibility \<Rightarrow> agent_state \<Rightarrow>
     agent_state" where
  "compile_accepted r d g adm s =
     (let clarification = (cd_status r = ST_CLARIFICATION_REQUIRED);
          active = (clarification \<and> cd_missing r \<noteq> []) in
      s\<lparr>s_intent := Some (cd_intent r), s_request := Some (cd_request r), s_tool := cd_tool r,
        s_arguments := cd_arguments r, s_retrieval := cd_retrieval r, s_query := cd_query r,
        s_memory_candidate := cd_memory r, s_memory_key := cd_memory_key r,
        s_reason := Some (cd_reason r), s_compiled := Some r,
        s_grounding := Some (lit (grounding_status_value (gr_status g))),
        s_grounding_reference := ref_text (gr_reference g),
        s_grounding_source := ref_text (gr_source g),
        s_target_validation := Some (lit (admissibility_value adm)),
        s_previous_intent := Some (sd_intent d),
        s_workflow_decision := (if clarification then Some d else None),
        s_missing := cd_missing r, s_entities := collected_entities d, s_workflow_active := active,
        s_resume_status := None,
        s_workflow_state := Some (if s_suspended s \<noteq> None then WF_SUSPENDED
                                  else if active then WF_ACTIVE else WF_COMPLETED),
        s_workflow_id := Some (workflow_id_or s), s_wf_arguments := cd_arguments r,
        s_wf_validation :=
          [(''grounding_status'', pstr (grounding_status_value (gr_status g))),
           (''grounding_reference_type'', optional_pstr (ref_text (gr_reference g))),
           (''grounding_trusted_source'', optional_pstr (ref_text (gr_source g))),
           (''target_validation_status'', pstr (admissibility_value adm)),
           (''decision_reason'', PStr (cd_reason r))],
        s_wf_inputs := [], s_error := None, s_last_error := None\<rparr>)"

definition compile_decision :: "'e platform \<Rightarrow> 'e node" where
  "compile_decision p s w =
     (case s_decision s of
        None \<Rightarrow> (Inr s, w)
      | Some d \<Rightarrow>
          (case s_context s of
             None \<Rightarrow> (Inl OtherError, w)
           | Some ctx \<Rightarrow>
               let message = user_conversation s;
                   g = (if s_restored s then restored_grounding s d
                        else validate_semantic_grounding d message);
                   adm = assess_target_admissibility (sd_intent d) (sd_target d) (Some g);
                   r = compile (work (w_session w)) d ctx (Some g) message
                         (s_restored s \<and> s_grounding s = Some (lit ''not_applicable'')) in
               (Inr (if cd_status r = ST_COMPILE_REJECTED then compile_rejected r d g adm s
                     else compile_accepted r d g adm s), w)))"

section \<open>Selecting and validating the tool\<close>

definition select_tool :: "'e node" where
  "select_tool s w =
     (Inr (if s_error s \<noteq> None then s
           else if s_request s \<in> {Some RT_INFORMATIONAL, Some RT_UNCLEAR, Some RT_KNOWLEDGE_ONLY} \<or>
                   s_intent s \<in> {Some MEMORY_REMEMBER, Some MEMORY_FORGET}
           then s\<lparr>s_tool := None, s_arguments := []\<rparr>
           else if or_text (s_tool s) [] = [] then
             s\<lparr>s_last_error := Some ''No registered tool was selected for this request.'',
               s_error := Some EC_INVALID_TOOL_ARGUMENTS\<rparr>
           else s), w)"

definition reject_tool :: "error_category \<Rightarrow> string \<Rightarrow> agent_state \<Rightarrow> agent_state" where
  "reject_tool c m s =
     s\<lparr>s_last_error := Some m, s_error := Some c, s_target_validation := Some (lit ''rejected'')\<rparr>"

text \<open>Every input model has a \<open>customer_id\<close>, so the context's customer is always filled in.\<close>

definition validate_tool :: "'e platform \<Rightarrow> 'e node" where
  "validate_tool p s w =
     (Inr (let name = or_text (s_tool s) [] in
        if name = [] \<or> s_error s \<noteq> None then s
        else case get_agent_tool_definition name of
          None \<Rightarrow> reject_tool EC_UNKNOWN_TOOL (''Tool '' @ name @ '' is not registered.'') s
        | Some model \<Rightarrow>
            (case s_context s of
               None \<Rightarrow> reject_tool EC_POLICY_DENIED ''Authenticated execution context is required.'' s
             | Some ctx \<Rightarrow>
                 let requested = pget (s_arguments s) ''customer_id'' in
                 if requested \<noteq> PNone \<and> \<not> pyval_is_int requested (effective_customer ctx) then
                   reject_tool EC_OWNERSHIP_VIOLATION
                     ''The selected resource does not belong to this customer.'' s
                 else (case validate_input (p_coercion p) model
                              (dset ''customer_id'' (PInt (effective_customer ctx)) (s_arguments s)) of
                         Inl x \<Rightarrow> reject_tool EC_INVALID_TOOL_ARGUMENTS
                                    ''The selected tool arguments were invalid.'' s
                       | Inr inp \<Rightarrow> s\<lparr>s_arguments := dump_input inp,
                                     s_target_validation := Some (lit ''validated'')\<rparr>))), w)"

section \<open>Suspending and resuming a workflow\<close>

definition workflow_id_of :: "agent_state \<Rightarrow> string" where
  "workflow_id_of s =
     (if or_text (s_workflow_id s) [] \<noteq> [] then or_text (s_workflow_id s) []
      else case s_pending s of Some a \<Rightarrow> pa_id a | None \<Rightarrow> ''workflow:'' @ s_run s)"

definition workflow_intent :: "agent_state \<Rightarrow> intent option" where
  "workflow_intent s =
     (case s_pending s of
        Some a \<Rightarrow>
          if pa_status a = PA_PENDING \<and> or_text (pa_intent a) [] \<noteq> []
          then enum_of_value intent_value all_intents (or_text (pa_intent a) [])
          else (case s_workflow_decision s of Some d \<Rightarrow> Some (sd_intent d) | None \<Rightarrow> s_previous_intent s)
      | None \<Rightarrow>
          (case s_workflow_decision s of Some d \<Rightarrow> Some (sd_intent d) | None \<Rightarrow> s_previous_intent s))"

definition current_intent :: "agent_state \<Rightarrow> intent option" where
  "current_intent s = (case s_decision s of Some d \<Rightarrow> Some (sd_intent d) | None \<Rightarrow> s_intent s)"

definition is_superseding_request :: "agent_state \<Rightarrow> bool" where
  "is_superseding_request s =
     (case s_decision s of
        None \<Rightarrow> False
      | Some d \<Rightarrow>
          if sd_intent d \<in> {REFUND_POLICY, CANCELLATION_POLICY, SHIPPING_POLICY, SUPPORT_FAQ,
                            REFUND_ELIGIBILITY, CANCELLATION_EXPLANATION, CAPABILITY_QUESTION}
          then False
          else sd_request d \<in> {RT_WRITE_ACTION, RT_ACTION_ONLY, RT_KNOWLEDGE_AND_ACTION, RT_ESCALATION})"

definition capture_workflow :: "agent_state \<Rightarrow> intent \<Rightarrow> suspended" where
  "capture_workflow s k =
     (case s_pending s of
        Some a \<Rightarrow>
          \<lparr>sw_intent = k, sw_action = Some a, sw_decision = None, sw_entities = pa_entities a,
           sw_arguments = pa_arguments a, sw_missing = [], sw_validation = pa_validation a,
           sw_inputs = pa_inputs a, sw_source = WF_WAITING_CONFIRMATION, sw_id = workflow_id_of s,
           sw_superseded_by = None\<rparr>
      | None \<Rightarrow>
          \<lparr>sw_intent = k, sw_action = None, sw_decision = s_workflow_decision s,
           sw_entities = s_entities s, sw_arguments = s_wf_arguments s, sw_missing = s_missing s,
           sw_validation = s_wf_validation s, sw_inputs = s_wf_inputs s, sw_source = WF_ACTIVE,
           sw_id = workflow_id_of s, sw_superseded_by = None\<rparr>)"

definition continue_workflow :: "intent option \<Rightarrow> agent_state \<Rightarrow> agent_state" where
  "continue_workflow previous s =
     s\<lparr>s_intent := Some (case previous of None \<Rightarrow> UNKNOWN | Some k \<Rightarrow> k), s_decision := None,
       s_tool := None, s_arguments := [],
       s_confirmation := (if s_pending s \<noteq> None then Some ''ambiguous'' else None),
       s_interruption_pending := False, s_interruption_status := Some ''continued'',
       s_workflow_state := Some (if s_pending s \<noteq> None then WF_WAITING_CONFIRMATION else WF_ACTIVE)\<rparr>"

definition leave_workflow :: "intent \<Rightarrow> intent option \<Rightarrow> agent_state \<Rightarrow> agent_state" where
  "leave_workflow previous interruption s =
     (let snapshot = capture_workflow s previous; superseded = is_superseding_request s;
          new_id = (if superseded then Some (''workflow:'' @ s_run s) else s_workflow_id s);
          waiting = (s_pending s \<noteq> None) in
      s\<lparr>s_pending := None, s_action_id := None, s_workflow_decision := None, s_missing := [],
        s_entities := [], s_workflow_active := False, s_interruption_pending := False,
        s_interruption_status := Some (if superseded then ''superseded'' else ''suspended''),
        s_workflow_state := Some (if superseded then WF_SUPERSEDED else WF_SUSPENDED),
        s_previous_workflow_intent := Some previous, s_interruption_intent := interruption,
        s_suspended := (if superseded then None else Some snapshot),
        s_superseded := (if superseded
          then Some (snapshot\<lparr>sw_source := WF_SUPERSEDED, sw_superseded_by := new_id\<rparr>) else None),
        s_workflow_id := new_id,
        s_previous_workflow_id := Some (sw_id snapshot),
        s_superseded_by := (if superseded then new_id else None),
        s_transition := Some
          (if superseded then (if waiting then ''waiting_confirmation_to_superseded'' else ''active_to_superseded'')
           else if waiting then ''waiting_confirmation_to_suspended'' else ''active_to_suspended''),
        s_interruption_type := Some (if superseded then ''explicit_replacement'' else ''temporary_request''),
        s_confirmation := Some ''interrupted''\<rparr>)"

definition handle_workflow_interruption :: "'e node" where
  "handle_workflow_interruption s w =
     (Inr (case workflow_intent s of
        None \<Rightarrow> continue_workflow None s
      | Some previous \<Rightarrow>
          if current_intent s \<in> {None, Some UNKNOWN} \<or> current_intent s = Some previous
          then continue_workflow (Some previous) s
          else leave_workflow previous (current_intent s) s), w)"

section \<open>Restoring a suspended workflow\<close>

definition deny_resume :: "string \<Rightarrow> agent_state \<Rightarrow> agent_state" where
  "deny_resume status s =
     s\<lparr>s_interruption_status := Some status, s_resume_status := Some ''reset'',
       s_resume_source := Some ''explicit_user_resume''\<rparr>"

definition snapshot_fields :: "suspended \<Rightarrow> int" where
  "snapshot_fields x =
     of_bools [True, sw_action x \<noteq> None, sw_decision x \<noteq> None, sw_entities x \<noteq> [],
               sw_arguments x \<noteq> [], sw_missing x \<noteq> [], sw_validation x \<noteq> [], sw_inputs x \<noteq> []]"

text \<open>\<open>str(validation.get(k, default))\<close> and \<open>_optional_string\<close>.\<close>

definition validation_text :: "'e platform \<Rightarrow> pyval dict \<Rightarrow> string \<Rightarrow> string \<Rightarrow> ustr option" where
  "validation_text p d k fallback =
     Some (case dget d k of None \<Rightarrow> lit fallback | Some v \<Rightarrow> py_str (p_text p) v)"

definition resume_common :: "'e platform \<Rightarrow> suspended \<Rightarrow> agent_state \<Rightarrow> agent_state" where
  "resume_common p x s =
     s\<lparr>s_intent := Some (sw_intent x), s_entities := sw_entities x, s_arguments := sw_arguments x,
       s_interruption_pending := False, s_interruption_status := Some ''resumed'',
       s_resume_status := Some ''resumed'', s_resume_source := Some ''explicit_user_resume'',
       s_suspended := None,
       s_workflow_id := (if sw_id x \<noteq> [] then Some (sw_id x) else s_workflow_id s),
       s_previous_workflow_id := s_workflow_id s, s_superseded_by := None,
       s_transition := Some ''suspended_to_resumed'', s_interruption_type := Some ''explicit_resume'',
       s_restored_count := snapshot_fields x, s_error := None, s_last_error := None,
       s_grounding := validation_text p (sw_validation x) ''grounding_status'' ''not_recorded'',
       s_grounding_reference := stored_text (pget (sw_validation x) ''grounding_reference_type''),
       s_grounding_source := stored_text (pget (sw_validation x) ''grounding_trusted_source''),
       s_target_validation :=
         validation_text p (sw_validation x) ''target_validation_status'' ''not_recorded''\<rparr>"

definition restore_suspended_workflow :: "'e platform \<Rightarrow> 'e node" where
  "restore_suspended_workflow p s w =
     (Inr (case s_suspended s of
        None \<Rightarrow> deny_resume ''resume_unavailable'' s
      | Some x \<Rightarrow>
          (case sw_action x of
             Some a \<Rightarrow>
               if (case s_context s of None \<Rightarrow> True | Some ctx \<Rightarrow> \<not> belongs_to_context a ctx)
               then deny_resume ''resume_denied'' s
               else (resume_common p x s)
                 \<lparr>s_pending := Some a, s_workflow_decision := None, s_missing := [],
                  s_workflow_active := False, s_workflow_state := Some WF_WAITING_CONFIRMATION,
                  s_confirmation := Some ''resumed'', s_tool := Some (pa_tool a),
                  s_action_id := Some (pa_id a)\<rparr>
           | None \<Rightarrow>
               (resume_common p x s)
                 \<lparr>s_pending := None, s_workflow_decision := sw_decision x, s_missing := sw_missing x,
                  s_workflow_active := True, s_workflow_state := Some WF_ACTIVE,
                  s_confirmation := None, s_tool := None\<rparr>)), w)"

end
