(* ===== verification/Pending_Laws.thy ===== *)
theory Pending_Laws
  imports Pending
begin

text \<open>
  What the comparison of policy inputs decides, and that an action whose stored payload was not
  touched is rebuilt from it exactly.
\<close>

section \<open>The comparison\<close>

lemma sorted_keys_Nil: "sorted_keys P d = [] \<longleftrightarrow> (\<forall>k v. (k, v) \<in> set d \<longrightarrow> \<not> P k)"
proof -
  have "sorted_keys P d = [] \<longleftrightarrow> filter P (map fst d) = []"
    unfolding sorted_keys_def by (metis remdups_eq_nil_iff set_empty set_sort)
  also have "\<dots> \<longleftrightarrow> (\<forall>k v. (k, v) \<in> set d \<longrightarrow> \<not> P k)"
    by (force simp: filter_empty_conv)
  finally show ?thesis .
qed

lemma key_iff: "(\<exists>v. (k, v) \<in> set d) \<longleftrightarrow> dget d k \<noteq> None"
  by (metis (no_types, lifting) fst_conv image_iff map_of_eq_None_iff prod.collapse)

lemma sorted_keys_empty: "sorted_keys P d = [] \<longleftrightarrow> (\<forall>k. dget d k \<noteq> None \<longrightarrow> \<not> P k)"
  unfolding sorted_keys_Nil using key_iff [of _ d] by blast

text \<open>No difference is reported exactly when the two payloads have the same leaves.\<close>

lemma no_diff_iff:
  "no_diff (policy_input_diff x y) \<longleftrightarrow>
     (\<forall>k. dget (flatten (PDict x) []) k = dget (flatten (PDict y) []) k)"
  (is "_ \<longleftrightarrow> (\<forall>k. ?a k = ?b k)")
proof
  assume "no_diff (policy_input_diff x y)"
  then have "(\<forall>k. ?a k \<noteq> None \<longrightarrow> \<not> ?b k = None) \<and> (\<forall>k. ?b k \<noteq> None \<longrightarrow> \<not> ?a k = None) \<and>
      (\<forall>k. ?a k \<noteq> None \<longrightarrow> \<not> (?b k \<noteq> None \<and> ?a k \<noteq> ?b k))"
    unfolding no_diff_def policy_input_diff_def Let_def input_diff.simps sorted_keys_empty .
  then have m: "?a k \<noteq> None \<longrightarrow> ?b k \<noteq> None" and n: "?b k \<noteq> None \<longrightarrow> ?a k \<noteq> None"
    and c: "?a k \<noteq> None \<longrightarrow> ?b k \<noteq> None \<longrightarrow> ?a k = ?b k" for k
    by blast+
  show "\<forall>k. ?a k = ?b k"
  proof
    fix k show "?a k = ?b k" using m [of k] n [of k] c [of k] by fastforce
  qed
next
  assume "\<forall>k. ?a k = ?b k"
  then show "no_diff (policy_input_diff x y)"
    by (simp add: no_diff_def policy_input_diff_def Let_def sorted_keys_empty)
qed

lemma no_diff_refl [simp]: "no_diff (policy_input_diff x x)"
  by (simp add: no_diff_iff)

section \<open>Leaves\<close>

lemma dget_dupdate [simp, dict_simps]:
  "distinct (map fst e) \<Longrightarrow> dget (dupdate d e) k = (case dget e k of None \<Rightarrow> dget d k | Some v \<Rightarrow> Some v)"
proof (induction e arbitrary: d)
  case Nil
  then show ?case by (simp add: dupdate_def)
next
  case (Cons p e)
  have "dget (dupdate d (p # e)) k = dget (dupdate (dset (fst p) (snd p) d) e) k"
    by (simp add: dupdate_def)
  also have "\<dots> = (case dget e k of None \<Rightarrow> dget (dset (fst p) (snd p) d) k | Some v \<Rightarrow> Some v)"
    using Cons by simp
  also have "\<dots> = (case dget (p # e) k of None \<Rightarrow> dget d k | Some v \<Rightarrow> Some v)"
    using Cons.prems by (cases p) (force split: option.split dest: map_of_SomeD)
  finally show ?case .
qed

section \<open>Rebuilding\<close>

lemma restore_unchanged:
  assumes "pa_inputs a = build_policy_inputs ctx (pa_tool a) args d"
  shows "restore_policy_inputs a ctx args = pa_inputs a"
  unfolding restore_policy_inputs_def assms by (simp add: build_policy_inputs_def)

text \<open>The fallbacks of a stored action never replace an argument the customer was shown.\<close>

lemma restore_keeps:
  assumes "pget (pa_inputs a) ''arguments'' = PDict args" and "dget args k = Some v"
  shows "dget (restore_pending_arguments a) k = Some v"
proof -
  have step: "dget (if pget (pa_entities a) j = PNone then d
                    else dsetdefault j (pget (pa_entities a) j) d) k = Some v"
    if "dget d k = Some v" for j d
    using that by (auto split: option.split)
  show ?thesis
    unfolding restore_pending_arguments_def Let_def using assms step by simp
qed

end
