(* ===== verification/Nodes_Policy.thy ===== *)
theory Nodes_Policy
  imports Nodes_Workflow Pending_Laws
begin

text \<open>
  The policy nodes: evaluation of a validated tool call (nodes/evaluate_policy.py), creation of a
  pending action (nodes/create_pending.py), and revalidation of a confirmed one
  (nodes/revalidate.py). The engine (policies/engine.py) is the default policy, which never raises,
  so the fail-closed branch of the evaluation is unreachable and has no counterpart.
\<close>

section \<open>Evaluation\<close>

definition deny_node :: "error_category \<Rightarrow> string \<Rightarrow> agent_state \<Rightarrow> agent_state" where
  "deny_node c m s = s\<lparr>s_error := Some c, s_last_error := Some m\<rparr>"

definition evaluate_policy :: "'e platform \<Rightarrow> 'e node" where
  "evaluate_policy p s w =
     (let name = or_text (s_tool s) [] in
      if name = [] then
        (Inr (deny_node EC_POLICY_DENIED ''Policy evaluation requires a selected tool.'' s), w)
      else case s_context s of
        None \<Rightarrow> (Inr (deny_node EC_POLICY_DENIED ''Authenticated execution context is required.'' s), w)
      | Some ctx \<Rightarrow>
          let d = evaluate_default_policy name ctx (s_arguments s) in
          (case action_id_or_fresh p s w of (action, w1) \<Rightarrow>
           (case now p w1 of (t, w2) \<Rightarrow>
              after (write_audit p
                 (context_event
                   (event_id p (s_run s) (Some action) ''policy_evaluation'' (outcome_value (d_outcome d)))
                   ctx (s_run s) (Some action) name (d_risk d) (d_outcome d) (d_reasons d)
                   ''policy_evaluation''
                   (if d_outcome d = PO_REQUIRE_CONFIRMATION then Some ''required'' else None) t) w2)
               (\<lambda>u w3. (Inr
                  (let s1 = s\<lparr>s_policy := Some d, s_action_id := Some action\<rparr> in
                   if d_outcome d = PO_DENY
                   then deny_node EC_POLICY_DENIED ''Policy denied the selected action.'' s1
                   else s1), w3)))))"

section \<open>Creating the pending action\<close>

text \<open>\<open>isinstance(value, (str, int, bool))\<close>\<close>

fun scalar :: "pyval \<Rightarrow> bool" where
  "scalar (PStr s) = True"
| "scalar (PInt n) = True"
| "scalar (PBool b) = True"
| "scalar _ = False"

definition collect_arguments :: "pyval dict \<Rightarrow> pyval dict \<Rightarrow> pyval dict" where
  "collect_arguments args entities =
     fold (\<lambda>k es. let v = pget args k in if scalar v then dsetdefault k v es else es)
       [''order_id'', ''ticket_id'', ''reason'', ''category'', ''description''] entities"

definition text_or :: "string \<Rightarrow> ustr option \<Rightarrow> pyval" where
  "text_or fallback x = (case x of None \<Rightarrow> pstr fallback | Some t \<Rightarrow> PStr t)"

definition new_pending_action ::
  "'e platform \<Rightarrow> agent_state \<Rightarrow> execution_context \<Rightarrow> string \<Rightarrow> policy_decision \<Rightarrow> string \<Rightarrow> rat \<Rightarrow>
     pending_action" where
  "new_pending_action p s ctx tool d action t =
     (let inputs = build_policy_inputs ctx tool (s_arguments s) d in
      \<lparr>pa_id = action, pa_conversation = conversation_id ctx, pa_tenant = ctx_tenant ctx,
       pa_actor = actor_id (ctx_principal ctx), pa_actor_kind = actor_kind (ctx_principal ctx),
       pa_customer = effective_customer ctx, pa_tool = tool, pa_arguments = s_arguments s,
       pa_risk = d_risk d, pa_intent = map_option intent_value (s_intent s),
       pa_entities = collect_arguments (s_arguments s) (s_entities s),
       pa_validation =
         [(''grounding_status'', text_or ''not_recorded'' (s_grounding s)),
          (''grounding_reference_type'', optional_pstr (s_grounding_reference s)),
          (''grounding_trusted_source'', optional_pstr (s_grounding_source s)),
          (''target_validation_status'', text_or ''not_recorded'' (s_target_validation s)),
          (''decision_reason'', optional_pstr (s_reason s))],
       pa_inputs = inputs, pa_inputs_hash = Some (hash_policy_inputs (p_digest p) inputs),
       pa_created = t, pa_status = PA_PENDING\<rparr>)"

definition create_pending :: "'e platform \<Rightarrow> 'e node" where
  "create_pending p s w =
     (case (s_policy s, s_tool s) of
        (Some d, Some tool) \<Rightarrow>
          if d_outcome d \<noteq> PO_REQUIRE_CONFIRMATION then (Inr s, w)
          else (case action_id_or_fresh p s w of (action, w1) \<Rightarrow>
             (case s_context s of
                None \<Rightarrow> (Inl OtherError, w1)
              | Some ctx \<Rightarrow>
                  (case now p w1 of (t, w2) \<Rightarrow>
                     (Inr (s\<lparr>s_pending := Some (new_pending_action p s ctx tool d action t),
                            s_action_id := Some action, s_execution := Some ''pending'',
                            s_workflow_state := Some WF_WAITING_CONFIRMATION,
                            s_workflow_id := Some (workflow_id_or s)\<rparr>), w2))))
      | _ \<Rightarrow> (Inr s, w))"

section \<open>Revalidation\<close>

definition fail_revalidation :: "error_category \<Rightarrow> string \<Rightarrow> agent_state \<Rightarrow> agent_state" where
  "fail_revalidation c m s =
     s\<lparr>s_pending := map_option (\<lambda>a. transition a PA_FAILED) (s_pending s), s_error := Some c,
       s_last_error := Some m\<rparr>"

definition stage :: "string \<Rightarrow> string \<Rightarrow> agent_state \<Rightarrow> agent_state" where
  "stage st r s = s\<lparr>s_trace := (s_trace s)\<lparr>tr_stage := Some st, tr_result := Some r\<rparr>\<rparr>"

definition trace_inputs ::
  "'e platform \<Rightarrow> pending_action \<Rightarrow> pyval dict \<Rightarrow> input_diff \<Rightarrow> agent_state \<Rightarrow> agent_state" where
  "trace_inputs p a restored x s =
     s\<lparr>s_trace :=
        \<lparr>tr_original_hash = Some (let h = or_text (pa_inputs_hash a) [] in
            if h = [] then hash_policy_inputs (p_digest p) (pa_inputs a) else h),
         tr_restored_hash = Some (hash_policy_inputs (p_digest p) restored),
         tr_diff = Some (json_text True (sort_keys (PDict (dump_diff x)))),
         tr_original = Some (serialize_policy_inputs (pa_inputs a)),
         tr_restored = Some (serialize_policy_inputs restored),
         tr_original_normalized = Some (normalize_policy_inputs (pa_inputs a)),
         tr_restored_normalized = Some (normalize_policy_inputs restored),
         tr_stage = Some ''policy_input_comparison'', tr_result = Some ''matched''\<rparr>\<rparr>"

text \<open>The business rules a confirmed action must still meet.\<close>

definition revalidate_business ::
  "store \<Rightarrow> string \<Rightarrow> string \<Rightarrow> tool_input \<Rightarrow> exn + bool" where
  "revalidate_business st tenant tool inp =
     (case inp of
        CancelArgs c i \<Rightarrow>
          if tool = ''cancel_order'' then and_then (validate_cancel_order st tenant c i) (\<lambda>r. Inr True)
          else Inr False
      | RefundArgs c i r \<Rightarrow>
          if tool = ''request_refund'' then and_then (validate_refund_request st tenant c i) (\<lambda>u. Inr True)
          else Inr False
      | _ \<Rightarrow> Inr False)"

definition restored_state :: "pending_action \<Rightarrow> tool_input \<Rightarrow> agent_state \<Rightarrow> agent_state" where
  "restored_state a inp s =
     (let t = s\<lparr>s_tool := Some (pa_tool a), s_arguments := dump_input inp,
               s_reason := stored_text (pget (pa_validation a) ''decision_reason''),
               s_grounding := stored_text_or ''not_recorded'' (pa_validation a) ''grounding_status'',
               s_grounding_reference := stored_text (pget (pa_validation a) ''grounding_reference_type''),
               s_grounding_source := stored_text (pget (pa_validation a) ''grounding_trusted_source''),
               s_target_validation := Some (lit ''validated''), s_error := None, s_last_error := None\<rparr> in
      case Option.bind (pa_intent a) (enum_of_value intent_value all_intents) of
        None \<Rightarrow> t
      | Some k \<Rightarrow> t\<lparr>s_intent := Some k\<rparr>)"

text \<open>
  \<open>_revalidate_action\<close>. A failed model validation and a tool error are caught; every other
  exception of the body leaves the node, and there is none.
\<close>

definition revalidate_inputs ::
  "'e platform \<Rightarrow> store \<Rightarrow> execution_context \<Rightarrow> pending_action \<Rightarrow> tool_input \<Rightarrow> agent_state \<Rightarrow>
     agent_state" where
  "revalidate_inputs p st ctx a inp s =
     (let args = dump_input inp; restored = restore_policy_inputs a ctx args;
          x = policy_input_diff (pa_inputs a) restored;
          s1 = trace_inputs p a restored x s;
          policy = evaluate_default_policy (pa_tool a) ctx args in
      if \<not> no_diff x then
        stage ''policy_input_comparison'' ''input_mismatch''
          (fail_revalidation EC_POLICY_DENIED ''Pending policy inputs changed before revalidation.'' s1)
      else if input_customer inp \<noteq> effective_customer ctx then
        stage ''customer_scope_validation'' ''ownership_mismatch''
          (fail_revalidation EC_OWNERSHIP_VIOLATION ''Pending action customer scope failed.'' s1)
      else if d_outcome policy = PO_DENY then
        stage ''policy_evaluation'' ''denied''
          (fail_revalidation EC_POLICY_DENIED ''Pending policy revalidation denied.'' s1)
      else if d_outcome policy \<notin> {PO_ALLOW, PO_REQUIRE_CONFIRMATION} then
        stage ''policy_evaluation'' ''different_authority_path''
          (fail_revalidation EC_POLICY_DENIED ''Pending action requires a different authority path.'' s1)
      else case revalidate_business st (ctx_tenant ctx) (pa_tool a) inp of
        Inl y \<Rightarrow>
          stage ''business_state_validation'' (error_category_value (tool_error_category y))
            (fail_revalidation (tool_error_category y) (exn_message y) s1)
      | Inr False \<Rightarrow>
          stage ''business_state_validation'' ''unsupported_revalidation_tool''
            (fail_revalidation EC_POLICY_DENIED ''Pending tool is not revalidatable.'' s1)
      | Inr True \<Rightarrow> stage ''complete'' ''allowed'' (restored_state a inp s1))"

definition revalidate_action ::
  "'e platform \<Rightarrow> store \<Rightarrow> pending_action \<Rightarrow> agent_state \<Rightarrow> agent_state" where
  "revalidate_action p st a s =
     (case s_context s of
        None \<Rightarrow> fail_revalidation EC_OWNERSHIP_VIOLATION ''Pending action ownership failed.'' s
      | Some ctx \<Rightarrow>
          if \<not> belongs_to_context a ctx then
            fail_revalidation EC_OWNERSHIP_VIOLATION ''Pending action ownership failed.'' s
          else case get_agent_tool_definition (pa_tool a) of
            None \<Rightarrow> fail_revalidation EC_UNKNOWN_TOOL ''Pending tool is not registered.'' s
          | Some model \<Rightarrow>
              (case validate_input (p_coercion p) model (restore_pending_arguments a) of
                 Inl y \<Rightarrow>
                   stage ''argument_normalization'' ''invalid_arguments''
                     (fail_revalidation EC_INVALID_TOOL_ARGUMENTS ''Pending arguments are invalid.'' s)
               | Inr inp \<Rightarrow> revalidate_inputs p st ctx a inp s))"

definition record_revalidation_event ::
  "'e platform \<Rightarrow> agent_state \<Rightarrow> agent_state \<Rightarrow> pending_action \<Rightarrow> 'e world \<Rightarrow>
     (exn + unit) \<times> 'e world" where
  "record_revalidation_event p s result a w =
     (case s_context s of
        None \<Rightarrow> (Inr (), w)
      | Some ctx \<Rightarrow>
          (case now p w of (t, w1) \<Rightarrow>
             let allowed = (s_error result = None) in
             write_audit p
               ((context_event
                  (event_id p (s_run s) (Some (pa_id a)) ''policy_revalidation''
                    (if allowed then ''allow'' else ''deny''))
                  ctx (s_run s) (Some (pa_id a)) (pa_tool a) (pa_risk a)
                  (if allowed then PO_ALLOW else PO_DENY)
                  [if allowed then ''revalidated'' else ''revalidation_denied''] ''policy_revalidation''
                  (Some ''confirmed'') t)\<lparr>ev_revalidation := True\<rparr>) w1))"

definition revalidate :: "'e platform \<Rightarrow> 'e node" where
  "revalidate p s w =
     (case s_pending s of
        None \<Rightarrow> (Inr (fail_revalidation EC_POLICY_DENIED ''There is no confirmable pending action.'' s), w)
      | Some a \<Rightarrow>
          if pa_status a \<noteq> PA_CONFIRMED then
            (Inr (fail_revalidation EC_POLICY_DENIED ''There is no confirmable pending action.'' s), w)
          else
            let t = revalidate_action p (work (w_session w)) a s in
            after (record_revalidation_event p s t a w) (\<lambda>u w1. (Inr t, w1)))"

end
