(* ===== verification/Nodes_Execution.thy ===== *)
theory Nodes_Execution
  imports Nodes_Policy Catalog
begin

text \<open>
  The nodes that act: the audit of an execution (nodes/execution_audit.py), the execution of a tool
  (nodes/execute_tool.py), of a confirmed action (nodes/confirmed.py) and of an escalation to a human
  (nodes/human.py), memory operations (nodes/memory_action.py) and knowledge retrieval
  (nodes/retrieve_knowledge.py).
\<close>

section \<open>The audit of an execution\<close>

definition execution_reason :: "string \<Rightarrow> string" where
  "execution_reason status =
     (if status = ''attempted'' then ''execution_attempted''
      else if status = ''success'' then ''execution_succeeded''
      else if status = ''failure'' then ''execution_failed'' else ''execution_unknown'')"

definition execution_event ::
  "'e platform \<Rightarrow> agent_state \<Rightarrow> execution_context \<Rightarrow> string \<Rightarrow> string \<Rightarrow> string option \<Rightarrow> rat \<Rightarrow>
     audit_event" where
  "execution_event p s ctx tool status failure t =
     (let action = (if or_text (s_action_id s) [] \<noteq> [] then s_action_id s
                    else map_option pa_id (s_pending s));
          risk = (case s_policy s of Some d \<Rightarrow> d_risk d
                  | None \<Rightarrow> (case s_pending s of Some a \<Rightarrow> pa_risk a | None \<Rightarrow> 0));
          out = (case s_policy s of Some d \<Rightarrow> d_outcome d
                 | None \<Rightarrow> if s_pending s = None \<and> tool = ''escalate_to_human''
                           then PO_REQUIRE_HUMAN else PO_ALLOW);
          confirmed = (s_pending s \<noteq> None) in
      (context_event (event_id p (s_run s) action ''execution'' status) ctx (s_run s) action tool risk
         out (execution_reason status # (case failure of None \<Rightarrow> [] | Some f \<Rightarrow> [f])) ''execution''
         (if confirmed then Some ''confirmed'' else None) t)
        \<lparr>ev_revalidation := confirmed, ev_execution := Some status\<rparr>)"

definition record_execution_event ::
  "'e platform \<Rightarrow> agent_state \<Rightarrow> string \<Rightarrow> string option \<Rightarrow> 'e world \<Rightarrow> (exn + unit) \<times> 'e world" where
  "record_execution_event p s status failure w =
     (case s_context s of
        None \<Rightarrow> (Inr (), w)
      | Some ctx \<Rightarrow>
          let tool = or_text (s_tool s) [] in
          if tool = [] then (Inr (), w)
          else (case now p w of (t, w1) \<Rightarrow>
                  write_audit p (execution_event p s ctx tool status failure t) w1))"

section \<open>Executing a tool\<close>

definition fail_execution :: "string \<Rightarrow> error_category \<Rightarrow> agent_state \<Rightarrow> agent_state" where
  "fail_execution m c s =
     s\<lparr>s_last_error := Some m, s_error := Some c, s_execution := Some ''failed''\<rparr>"

definition roll :: "'e platform \<Rightarrow> 'e world \<Rightarrow> 'e world" where
  "roll p w = w\<lparr>w_session := rollback (p_db p) (w_session w)\<rparr>"

text \<open>One attempt on the session: run the tool, commit a write, roll back whatever fails.\<close>

definition tool_attempt ::
  "db \<Rightarrow> execution_context \<Rightarrow> string \<Rightarrow> tool_input \<Rightarrow> idempotency_scope option \<Rightarrow> bool \<Rightarrow> session \<Rightarrow>
     (exn + tool_output) \<times> session" where
  "tool_attempt d ctx name inp sc write ss =
     (case run_tool d ctx name inp sc (work ss) of
        (Inl x, st) \<Rightarrow> (Inl x, rollback d (ss\<lparr>work := st\<rparr>))
      | (Inr out, st) \<Rightarrow>
          if write then
            (case commit_business_write d name (ss\<lparr>work := st\<rparr>) of
               (Inl x, ss') \<Rightarrow> (Inl x, rollback d ss')
             | (Inr u, ss') \<Rightarrow> (Inr out, ss'))
          else (Inr out, ss\<lparr>work := st\<rparr>))"

text \<open>An event that cannot be stored leaves the node, after a rollback when the execution had started.\<close>

definition audit_or_raise ::
  "'e platform \<Rightarrow> bool \<Rightarrow> agent_state \<Rightarrow> string \<Rightarrow> string option \<Rightarrow> agent_state \<Rightarrow> 'e world \<Rightarrow>
     (exn + agent_state) \<times> 'e world" where
  "audit_or_raise p started s status failure result w =
     (if started then
        (case record_execution_event p s status failure w of
           (Inl y, w1) \<Rightarrow> (Inl y, roll p w1)
         | (Inr u, w1) \<Rightarrow> (Inr result, w1))
      else (Inr result, w))"

text \<open>The five handlers of the call, in the order of the source.\<close>

definition execution_failed ::
  "'e platform \<Rightarrow> bool \<Rightarrow> agent_state \<Rightarrow> exn \<Rightarrow> 'e world \<Rightarrow> (exn + agent_state) \<times> 'e world" where
  "execution_failed p started s x w =
     (let c = classify_runtime_error x FS_TOOL;
          category = Some (error_category_value (rc_category c)) in
      if is_unknown_write x then
        audit_or_raise p started s ''unknown'' (Some (error_category_value EC_UNKNOWN_WRITE_OUTCOME))
          ((fail_execution ''The write outcome could not be confirmed.'' EC_UNKNOWN_WRITE_OUTCOME s)
             \<lparr>s_failure := Some ''tool_timeout'', s_recovery := Some ''no_replay'',
              s_write_unknown := True\<rparr>) w
      else case resilience_error x of
        Some f \<Rightarrow>
          audit_or_raise p started s ''failure'' category
            ((fail_execution ''The selected dependency could not be reached reliably.'' (rc_category c) s)
               \<lparr>s_failure := Some (failure_category_value f), s_recovery := Some ''fail_safely''\<rparr>) w
      | None \<Rightarrow>
          audit_or_raise p started s ''failure'' category
            ((fail_execution
                (if is_tool_error x then exn_message x else ''The selected tool could not be executed.'')
                (rc_category c) s)\<lparr>s_failure := rc_failure c\<rparr>) (roll p w))"

definition execution_done :: "tool_output \<Rightarrow> agent_state \<Rightarrow> agent_state" where
  "execution_done out s =
     s\<lparr>s_result := Some (serialise_result out), s_execution := Some ''executed'',
       s_last_error := None, s_error := None\<rparr>"

definition run_execution ::
  "'e platform \<Rightarrow> execution_context \<Rightarrow> string \<Rightarrow> tool_input \<Rightarrow> idempotency_scope option \<Rightarrow> bool \<Rightarrow>
     bool \<Rightarrow> 'e node" where
  "run_execution p ctx name inp sc write started s w =
     (case call_session p (tool_attempt (p_db p) ctx name inp sc write) ''tool''
             (if write then ''write'' else ''read'') (''tool:'' @ name) w of
        (Inl x, w1) \<Rightarrow> execution_failed p started s x w1
      | (Inr out, w1) \<Rightarrow>
          if write then audit_or_raise p True s ''success'' None (execution_done out s) w1
          else (Inr (execution_done out s), w1))"

text \<open>A write needs a key, its scope and the event that announces it.\<close>

definition start_write ::
  "'e platform \<Rightarrow> execution_context \<Rightarrow> string \<Rightarrow> tool_input \<Rightarrow> string \<Rightarrow> 'e node" where
  "start_write p ctx name inp action s w =
     (case make_scope (actor_id (ctx_principal ctx)) action (ctx_tenant ctx) of
        Inl x \<Rightarrow> (Inl x, w)
      | Inr sc \<Rightarrow>
          after (record_execution_event p s ''attempted'' None w)
            (\<lambda>u w1. run_execution p ctx name inp (Some sc) True True s w1))"

definition execute_tool :: "'e platform \<Rightarrow> 'e node" where
  "execute_tool p s w =
     (case s_tool s of
        None \<Rightarrow> (Inr (fail_execution ''No tool was selected.'' EC_INVALID_TOOL_ARGUMENTS s), w)
      | Some name \<Rightarrow>
          (case get_agent_tool_definition name of
             None \<Rightarrow>
               (Inr (fail_execution (''Tool '' @ name @ '' is not registered.'') EC_UNKNOWN_TOOL s), w)
           | Some model \<Rightarrow>
               (case s_context s of
                  None \<Rightarrow>
                    (Inr (fail_execution ''Authenticated execution context is required.'' EC_POLICY_DENIED s), w)
                | Some ctx \<Rightarrow>
                    (case validate_input (p_coercion p) model (s_arguments s) of
                       Inl x \<Rightarrow> (Inl x, w)
                     | Inr inp \<Rightarrow>
                         if input_customer inp \<noteq> effective_customer ctx then
                           (Inr (fail_execution ''Tool customer scope conflicts with execution context.''
                                   EC_OWNERSHIP_VIOLATION s), w)
                         else if \<not> is_write_tool name then
                           run_execution p ctx name inp None False False s w
                         else if or_text (s_action_id s) [] = [] then
                           (Inr (fail_execution ''Business write is missing its idempotency key.''
                                   EC_POLICY_DENIED s), w)
                         else start_write p ctx name inp (or_text (s_action_id s) []) s w))))"

text \<open>\<open>result.get("tool_execution_status")\<close> reads the node's own update, which always sets it.\<close>

definition execute_confirmed :: "'e platform \<Rightarrow> 'e node" where
  "execute_confirmed p s w =
     after (execute_tool p s w) (\<lambda>t w1.
       (Inr (case s_pending s of
          None \<Rightarrow> t
        | Some a \<Rightarrow>
            t\<lparr>s_pending := Some (transition a
                (if s_execution t = Some ''executed'' then PA_EXECUTED else PA_FAILED))\<rparr>), w1))"

section \<open>Escalating to a human\<close>

text \<open>
  Unlike a tool execution, the whole body is inside the handlers: a failed validation or a failed
  announcement becomes a result, and its failure event is written only once the execution started.
\<close>

definition escalation_failed ::
  "'e platform \<Rightarrow> bool \<Rightarrow> agent_state \<Rightarrow> exn \<Rightarrow> 'e world \<Rightarrow> (exn + agent_state) \<times> 'e world" where
  "escalation_failed p started s x w =
     (let c = classify_runtime_error x FS_TOOL;
          report = (\<lambda>status failure result w1.
            if started then after (record_execution_event p s status failure w1) (\<lambda>u w2. (Inr result, w2))
            else (Inr result, w1)) in
      if is_unknown_write x then
        report ''unknown'' (Some (error_category_value EC_UNKNOWN_WRITE_OUTCOME))
          ((fail_execution ''The escalation outcome could not be confirmed.'' EC_UNKNOWN_WRITE_OUTCOME s)
             \<lparr>s_failure := Some ''tool_timeout'', s_recovery := Some ''no_replay'',
              s_write_unknown := True\<rparr>) (roll p w)
      else if is_tool_error x then
        report ''failure'' (Some (error_category_value (rc_category c)))
          ((fail_execution (exn_message x) (rc_category c) s)\<lparr>s_failure := rc_failure c\<rparr>) (roll p w)
      else
        report ''failure'' (Some (error_category_value (rc_category c)))
          ((fail_execution ''The human escalation path could not be completed.'' (rc_category c) s)
             \<lparr>s_failure := rc_failure c\<rparr>) (if started then roll p w else w))"

definition run_escalation ::
  "'e platform \<Rightarrow> execution_context \<Rightarrow> tool_input \<Rightarrow> idempotency_scope \<Rightarrow> 'e node" where
  "run_escalation p ctx inp sc s w =
     (case call_session p (tool_attempt (p_db p) ctx ''escalate_to_human'' inp (Some sc) True) ''tool''
             ''write'' ''tool:escalate_to_human'' w of
        (Inl x, w1) \<Rightarrow> escalation_failed p True s x w1
      | (Inr out, w1) \<Rightarrow>
          after (record_execution_event p s ''success'' None w1)
            (\<lambda>u w2. (Inr (execution_done out s), w2)))"

text \<open>The scope is built inside the attempt, so its validation fails there, after the announcement.\<close>

definition start_escalation ::
  "'e platform \<Rightarrow> execution_context \<Rightarrow> tool_input \<Rightarrow> string \<Rightarrow> 'e node" where
  "start_escalation p ctx inp action s w =
     (case record_execution_event p s ''attempted'' None w of
        (Inl x, w1) \<Rightarrow> escalation_failed p False s x w1
      | (Inr u, w1) \<Rightarrow>
          (case make_scope (actor_id (ctx_principal ctx)) action (ctx_tenant ctx) of
             Inr sc \<Rightarrow> run_escalation p ctx inp sc s w1
           | Inl x \<Rightarrow>
               (case call_session p (\<lambda>ss. (Inl x, rollback (p_db p) ss)) ''tool'' ''write''
                       ''tool:escalate_to_human'' w1 of
                  (Inl y, w2) \<Rightarrow> escalation_failed p True s y w2
                | (Inr out, w2) \<Rightarrow> (Inr (execution_done out s), w2))))"

definition execute_human_escalation :: "'e platform \<Rightarrow> 'e node" where
  "execute_human_escalation p s w =
     (if s_tool s \<noteq> Some ''escalate_to_human'' then
        (Inr (fail_execution ''Only the registered escalation tool may use the human path.''
                EC_POLICY_DENIED s), w)
      else case s_context s of
        None \<Rightarrow>
          (Inr (fail_execution ''Authenticated execution context is required.'' EC_POLICY_DENIED s), w)
      | Some ctx \<Rightarrow>
          (case validate_input (p_coercion p) EscalateToHumanInput (s_arguments s) of
             Inl x \<Rightarrow> escalation_failed p False s x w
           | Inr inp \<Rightarrow>
               if input_customer inp \<noteq> effective_customer ctx then
                 (Inr (fail_execution ''Tool customer scope conflicts with execution context.''
                         EC_OWNERSHIP_VIOLATION s), w)
               else if or_text (s_action_id s) [] = [] then
                 (Inr (fail_execution ''Business write is missing its idempotency key.''
                         EC_POLICY_DENIED s), w)
               else start_escalation p ctx inp (or_text (s_action_id s) []) s w))"

section \<open>Memory operations\<close>

definition reject_memory :: "error_category \<Rightarrow> string \<Rightarrow> agent_state \<Rightarrow> agent_state" where
  "reject_memory c m s =
     s\<lparr>s_memory_status := Some ''rejected'', s_memory_outcome := Some ''reject'',
       s_last_error := Some m, s_error := Some c\<rparr>"

definition memory_failure :: "exn \<Rightarrow> agent_state \<Rightarrow> agent_state" where
  "memory_failure x s =
     (let c = classify_runtime_error x FS_MEMORY in
      s\<lparr>s_memory_status := Some ''failed'', s_memory_outcome := Some ''failed'',
        s_failure := Some (or_text (rc_failure c) (failure_category_value FC_MEMORY_FAILURE)),
        s_recovery := Some ''fail_safely'', s_error := Some (rc_category c),
        s_last_error := Some ''Persistent memory could not be updated.''\<rparr>)"

definition next_call :: "'e world \<Rightarrow> 'e world" where
  "next_call w = w\<lparr>w_calls := Suc (w_calls w)\<rparr>"

definition remember_memory :: "'e platform \<Rightarrow> execution_context \<Rightarrow> 'e node" where
  "remember_memory p ctx s w =
     (case s_memory_candidate s of
        None \<Rightarrow> (Inr (reject_memory EC_INVALID_TOOL_ARGUMENTS ''A specific memory was not provided.'' s), w)
      | Some m \<Rightarrow>
          (Inr (case p_remember p (w_calls w) (effective_customer ctx) m (ctx_tenant ctx) of
             Inl x \<Rightarrow> memory_failure x s
           | Inr r \<Rightarrow>
               s\<lparr>s_memory_status := Some (mr_status r), s_memory_outcome := Some (mr_status r),
                 s_reason := map_option lit (mr_reason r), s_security := mr_signal r,
                 s_memory_security := mr_signal r, s_last_error := None,
                 s_error := (if mr_status r \<in> {''persisted'', ''deduplicated''} then None
                             else Some EC_POLICY_DENIED)\<rparr>), next_call w))"

definition forget_memory :: "'e platform \<Rightarrow> execution_context \<Rightarrow> 'e node" where
  "forget_memory p ctx s w =
     (if \<not> given (s_memory_key s) then
        (Inr (reject_memory EC_INVALID_TOOL_ARGUMENTS ''Please specify which memory to forget.'' s), w)
      else
        (Inr (case p_forget p (w_calls w) (effective_customer ctx) (the (s_memory_key s)) (ctx_tenant ctx) of
           Inl x \<Rightarrow> memory_failure x s
         | Inr r \<Rightarrow>
             s\<lparr>s_memory_status := Some (mr_status r), s_memory_outcome := Some (mr_status r),
               s_last_error := (if mr_status r = ''forgotten'' then None else mr_reason r),
               s_error := (if mr_status r \<in> {''forgotten'', ''not_found''} then None
                           else Some EC_POLICY_DENIED)\<rparr>), next_call w))"

definition memory_action :: "'e platform \<Rightarrow> 'e node" where
  "memory_action p s w =
     (case s_context s of
        None \<Rightarrow>
          (Inr (reject_memory EC_POLICY_DENIED ''Authenticated execution context is required for memory.'' s), w)
      | Some ctx \<Rightarrow>
          if s_intent s = Some MEMORY_REMEMBER then remember_memory p ctx s w
          else if s_intent s = Some MEMORY_FORGET then forget_memory p ctx s w
          else (Inr (reject_memory EC_POLICY_DENIED ''Memory operation was not recognized.'' s), w))"

section \<open>Knowledge retrieval\<close>

text \<open>\<open>normalize_knowledge_query\<close> (rag/answer_generator.py).\<close>

definition settlement_turkish :: rx where
  "settlement_turkish =
     rseq [RWb, ralt [rseq [rslit ''para'', rspaces, rslit ''ne'', rspaces, rslit ''zaman'',
      rspaces, rslit ''yatar''], rseq [rslit ''ne'', rspaces, rslit ''zaman'', rspaces,
      ralt [rstext (lit ''hesab'' @ [305] @ lit ''ma''),
      rstext (lit ''ge'' @ [231] @ lit ''er'')]], rseq [rslit ''iade'', rspaces,
      rstext (lit ''s'' @ [252] @ lit ''resi'')], rseq [rslit ''geri'', rspaces,
      rstext ([246] @ lit ''deme''), rspaces, rstext (lit ''s'' @ [252] @ lit ''resi'')]], RWb]"

definition eligibility_period :: rx where
  "eligibility_period =
     rseq [RWb, ralt [rseq [rslit ''iade'', rspaces, rslit ''uygunluk'', rspaces,
      rstext (lit ''s'' @ [252] @ lit ''resi'')], rseq [rslit ''uygunluk'', rspaces,
      rstext (lit ''s'' @ [252] @ lit ''resi'')]], RWb]"

definition eligibility_terms :: rx where
  "eligibility_terms =
     rseq [RWb, ralt [rseq [rslit ''iade'', rspaces, rstext ([351] @ lit ''art'')],
      rseq [rslit ''iade'', rspaces, rstext (lit ''ko'' @ [351] @ lit ''ul'')],
      rseq [rslit ''geri'', rspaces, rstext ([246] @ lit ''deme''), rspaces,
      rstext ([351] @ lit ''art'')]], RStar (RSet is_word), RWb]"

definition settlement_english :: rx where
  "settlement_english =
     rseq [RWb, ralt [rseq [rslit ''processing'', rspaces, rslit ''time''], rslit ''settlement'',
      rseq [rslit ''when'', rspaces, rslit ''will'', rany, rslit ''refund''],
      rseq [rslit ''refund'', rany, rslit ''take'']], RWb]"

definition how_long :: rx where
  "how_long =
     rseq [RWb, rslit ''how'', rspaces, rslit ''long'', RWb]"

definition refund_words :: rx where
  "refund_words =
     rseq [RWb, ralt [rslit ''refund'', rslit ''return'', rslit ''reimburse'',
      rseq [rslit ''money'', rspaces, rslit ''back'']], RWb]"

definition normalize_knowledge_query :: "ustr \<Rightarrow> ustr" where
  "normalize_knowledge_query query =
     (let n = squeeze (casefold (map (\<lambda>c. if c = 304 then 73 else c) query)) in
      if found settlement_turkish n then lit ''refund processing review settlement''
      else if found eligibility_period n then lit ''refund eligibility delivered 30 calendar days''
      else if found eligibility_terms n then lit ''refund eligibility delivered damaged returned''
      else if found settlement_english n \<or> (found how_long n \<and> found refund_words n)
      then lit ''refund processing review settlement''
      else query)"

definition knowledge_query :: "agent_state \<Rightarrow> ustr" where
  "knowledge_query s =
     (let m = latest_user_message s; q = normalize_knowledge_query m in
      if q = m then normalize_knowledge_query (if given (s_query s) then the (s_query s) else m) else q)"

definition retrieval_failed :: "'e platform \<Rightarrow> failure_category \<Rightarrow> agent_state \<Rightarrow> agent_state" where
  "retrieval_failed p c s =
     (let base = s\<lparr>s_failure := Some (failure_category_value c), s_recovery := Some ''degraded'',
                   s_degraded := [''retrieval''], s_answer_status := Some ''retrieval_unavailable''\<rparr> in
      case s_result s of
        None \<Rightarrow> base\<lparr>s_last_error := Some (degraded_message c True), s_error := Some EC_RETRIEVAL_ERROR\<rparr>
      | Some r \<Rightarrow>
          base\<lparr>s_answer := Some
            ((if pget r ''status'' = PNone then lit ''The current business result was retrieved. ''
              else lit ''The current business result is '' @ py_str (p_text p) (pget r ''status'') @ lit ''. '')
             @ lit (degraded_message c False))\<rparr>)"

definition knowledge_text :: "agent_state \<Rightarrow> ustr \<Rightarrow> ustr" where
  "knowledge_text s answer =
     (case s_result s of
        None \<Rightarrow> answer
      | Some r \<Rightarrow>
          answer @
          (case pget r ''status'' of
             PStr v \<Rightarrow> lit '' The business system reports the specific resource status as '' @ [39] @ v
                       @ [39] @ lit ''.''
           | _ \<Rightarrow> []) @
          lit '' Business-system state is authoritative for the specific customer request.'')"

definition retrieve_knowledge :: "'e platform \<Rightarrow> 'e node" where
  "retrieve_knowledge p s w =
     (case call_service p (\<lambda>k. p_retriever p k (knowledge_query s)) ''retrieval''
             (''retrieval:'' @ p_retriever_name p) False (Some (retrieval_timeout (p_resilience p))) w of
        (Inl x, w1) \<Rightarrow>
          (case resilience_error x of
             None \<Rightarrow> (Inl x, w1)
           | Some c \<Rightarrow> (Inr (retrieval_failed p c s), w1))
      | (Inr rv, w1) \<Rightarrow>
          (and_then (p_generator p (latest_user_message s) (rv_chunks rv)) (\<lambda>g.
             Inr (s\<lparr>s_chunks := rv_chunks rv, s_answer := Some (knowledge_text s (ga_answer g)),
               s_citations := ga_citations g, s_answer_status := Some (ga_status g),
               s_degraded := rv_degraded rv,
               s_recovery := (if rv_degraded rv \<noteq> [] then Some ''degraded'' else None)\<rparr>)), w1))"

end
