(* ===== verification/Respond.thy ===== *)
theory Respond
  imports Nodes_Execution
begin

text \<open>
  The reply of a turn (nodes/respond.py): one message chosen from the state by a fixed precedence,
  adjusted to the remembered preferences, and the lifecycle state the workflow is left in.
\<close>

section \<open>Messages of errors and tools\<close>

definition order_id_text :: "pyval \<Rightarrow> ustr option" where
  "order_id_text v =
     (case v of
        PInt n \<Rightarrow> Some (lit (dec n))
      | PBool b \<Rightarrow> Some (if b then lit ''True'' else lit ''False'')
      | PStr s \<Rightarrow> if strip s = [] then None else Some s
      | _ \<Rightarrow> None)"

definition mentioned_order :: "agent_state \<Rightarrow> ustr option" where
  "mentioned_order s =
     (case order_id_text (pget (s_arguments s) ''order_id'') of
        Some x \<Rightarrow> Some x
      | None \<Rightarrow> (case s_pending s of None \<Rightarrow> None
                 | Some a \<Rightarrow> order_id_text (pget (pa_arguments a) ''order_id'')))"

definition state_message :: "agent_state \<Rightarrow> ustr" where
  "state_message s =
     (let operation = (if or_text (s_tool s) [] \<noteq> [] then s_tool s else map_option pa_tool (s_pending s)) in
      if operation = None \<or> operation = Some ''cancel_order''
      then (lit ''I can'' @ [39] @ lit ''t cancel this order because it has already moved to a stage where cancellation is unavailable.'')
      else (lit ''I can'' @ [39] @ lit ''t complete this request because the resource is no longer in an eligible state.''))"

fun category_message :: "agent_state \<Rightarrow> error_category \<Rightarrow> ustr" where
  "category_message s EC_RESOURCE_NOT_FOUND =
     (case mentioned_order s of
        Some i \<Rightarrow> (lit ''I couldn'' @ [39] @ lit ''t find order #'') @ i @
                  lit '' in our system. Please verify the order number and try again.''
      | None \<Rightarrow> (lit ''I couldn'' @ [39] @ lit ''t find that resource in our system. Please verify the details and try again.''))"
| "category_message s EC_OWNERSHIP_VIOLATION = (lit ''I can'' @ [39] @ lit ''t access another customer'' @ [39] @ lit ''s information.'')"
| "category_message s EC_INVALID_STATE = state_message s"
| "category_message s EC_DUPLICATE_ACTION = lit ''It looks like this refund request is already being processed.''"
| "category_message s EC_INVALID_TOOL_ARGUMENTS =
     lit ''I need a little more specific information to do that safely.''"
| "category_message s EC_UNKNOWN_TOOL = (lit ''I can'' @ [39] @ lit ''t perform that operation.'')"
| "category_message s EC_POLICY_DENIED =
     (lit ''I couldn'' @ [39] @ lit ''t complete this request because it did not pass our verification checks. '') @
     lit ''A support specialist can review it if needed.''"
| "category_message s EC_LLM_ERROR = (lit ''I couldn'' @ [39] @ lit ''t understand that request reliably. Please rephrase it.'')"
| "category_message s EC_TOOL_ERROR = lit ''The business operation could not be completed safely.''"
| "category_message s EC_DEPENDENCY_ERROR = (lit ''I couldn'' @ [39] @ lit ''t complete that dependency operation safely.'')"
| "category_message s EC_INTERNAL_ERROR = lit ''The request could not be completed safely.''"
| "category_message s EC_UNKNOWN_WRITE_OUTCOME =
     (lit ''I couldn'' @ [39] @ lit ''t confirm whether the action completed, so I won'' @ [39] @ lit ''t repeat it automatically.'')"
| "category_message s EC_RETRIEVAL_ERROR =
     lit ''The knowledge service is temporarily unavailable. Please try again.''"
| "category_message s EC_RERANKER_ERROR =
     lit ''The knowledge service could not rank results reliably. Please try again.''"
| "category_message s EC_CONFIRMATION_EXPIRED = lit ''That confirmation expired. Please request the action again.''"
| "category_message s EC_DEPENDENCY_FAILURE = (lit ''I couldn'' @ [39] @ lit ''t complete that dependency operation safely.'')"

definition error_message :: "error_category option \<Rightarrow> agent_state \<Rightarrow> ustr" where
  "error_message c s =
     (case c of None \<Rightarrow> (lit ''I couldn'' @ [39] @ lit ''t complete that request.'') | Some c \<Rightarrow> category_message s c)"

definition item_count :: "pyval dict option \<Rightarrow> nat" where
  "item_count r =
     (case r of None \<Rightarrow> 0 | Some d \<Rightarrow> (case pget d ''items'' of PList xs \<Rightarrow> length xs | _ \<Rightarrow> 0))"

definition tool_message :: "string \<Rightarrow> pyval dict option \<Rightarrow> ustr" where
  "tool_message name r =
     (if name = ''get_customer_orders'' then
        lit ''I found '' @ lit (dec (int (item_count r))) @ lit '' order(s) for this customer.''
      else if name = ''get_customer_tickets'' then
        lit ''I found '' @ lit (dec (int (item_count r))) @ lit '' support ticket(s) for this customer.''
      else if name = ''get_customer'' then lit ''I found the customer record.''
      else if name = ''get_order'' then lit ''I found the order record.''
      else if name = ''get_ticket'' then lit ''I found the support ticket.''
      else if name = ''escalate_to_human'' then (lit ''I'' @ [39] @ lit ''ll connect you with a human support specialist.'')
      else if name = ''create_support_ticket'' then lit ''Your support ticket was created.''
      else lit ''The requested business operation completed.'')"

section \<open>Suspended requests\<close>

definition has_suspended_mutation :: "agent_state \<Rightarrow> bool" where
  "has_suspended_mutation s =
     (case s_suspended s of None \<Rightarrow> False | Some x \<Rightarrow> sw_action x \<noteq> None)"

definition suspended_label :: "agent_state \<Rightarrow> ustr" where
  "suspended_label s =
     (if map_option sw_intent (s_suspended s) = Some ORDER_CANCEL then lit ''cancellation request''
      else lit ''refund request'')"

definition suspended_retrieval_unavailable :: "agent_state \<Rightarrow> bool" where
  "suspended_retrieval_unavailable s \<longleftrightarrow>
     has_suspended_mutation s \<and>
     (s_error s = Some EC_RETRIEVAL_ERROR \<or> s_answer_status s = Some ''retrieval_unavailable'')"

definition unavailable_suspended_message :: "agent_state \<Rightarrow> ustr" where
  "unavailable_suspended_message s =
     (lit ''I couldn'' @ [39] @ lit ''t find a reliable answer for that question right now. Your '') @ suspended_label s @
     lit '' is still saved and waiting for confirmation. After we finish your question, you can continue the '' @
     suspended_label s @ lit ''.''"

definition suspended_pending_message :: "agent_state \<Rightarrow> ustr" where
  "suspended_pending_message s =
     (lit ''I couldn'' @ [39] @ lit ''t complete that question reliably right now. Your '') @ suspended_label s @
     lit '' is still saved and waiting for confirmation. It was not confirmed or executed; you can continue the '' @
     suspended_label s @ (lit '' when you'' @ [39] @ lit ''re ready.'')"

definition confirmation_request_message :: "pending_action \<Rightarrow> ustr" where
  "confirmation_request_message a =
     (if pa_tool a = ''request_refund'' then
        lit ''I can submit your refund request. Before I continue, I need your confirmation. '' @
        lit ''Would you like me to proceed?''
      else if pa_tool a = ''cancel_order'' then
        lit ''I can submit your cancellation request. Before I continue, I need your confirmation. '' @
        lit ''Would you like me to proceed?''
      else lit ''I can submit this request. Before I continue, I need your confirmation. '' @
           lit ''Would you like me to proceed?'')"

section \<open>Knowledge and memory\<close>

text \<open>\<open>s.replace(p, "")\<close> for a text that is not empty.\<close>

fun erase_from :: "ustr \<Rightarrow> nat \<Rightarrow> ustr \<Rightarrow> ustr" where
  "erase_from p k [] = []"
| "erase_from p (Suc k) (c # cs) = erase_from p k cs"
| "erase_from p 0 (c # cs) =
     (if has_prefix p (c # cs) then erase_from p (length p - 1) cs else c # erase_from p 0 cs)"

definition customer_knowledge_answer :: "agent_state \<Rightarrow> ustr" where
  "customer_knowledge_answer s =
     (let a0 = (case s_answer s of None \<Rightarrow> [] | Some a \<Rightarrow> a);
          prefix = lit ''Based on the retrieved evidence: '';
          a1 = (if has_prefix prefix a0 then drop (length prefix) a0 else a0);
          a2 = fold (\<lambda>c a. if c = [] then a else erase_from ([32, 91] @ c @ [93]) 0 a) (s_citations s) a1;
          answer = squeeze a2 in
      if has_suspended_mutation s then
        lit ''I can answer that first. '' @ answer @ lit '' Your '' @ suspended_label s @
        lit '' is still saved and waiting for confirmation. After we finish your question, you can continue the '' @
        suspended_label s @ lit ''.''
      else answer)"

definition summary_item :: "'e platform \<Rightarrow> pyval dict \<Rightarrow> ustr option" where
  "summary_item p d =
     (let k = (case dget d ''memory_type'' of None \<Rightarrow> [] | Some v \<Rightarrow> py_str (p_text p) v) in
      if k \<notin> {lit ''preference'', lit ''support_context''} then None
      else case (pget d ''content'', pget d ''normalized_key'') of
        (PStr content, PStr key) \<Rightarrow>
          (case make_candidate (if k = lit ''preference'' then MT_PREFERENCE else MT_SUPPORT_CONTEXT)
                  content key of
             Inl x \<Rightarrow> None
           | Inr m \<Rightarrow> if md_outcome (evaluate_candidate m) = MO_ALLOW then Some content else None)
      | _ \<Rightarrow> None)"

definition memory_summary_message :: "'e platform \<Rightarrow> agent_state \<Rightarrow> ustr" where
  "memory_summary_message p s =
     (let found = map the (filter (\<lambda>x. x \<noteq> None) (map (summary_item p) (s_memory_context s))) in
      if found = [] then (lit ''I don'' @ [39] @ lit ''t have any saved preferences or support context for you yet.'')
      else lit ''I remember: '' @ join_char 32 (take 3 found))"

text \<open>\<open>message.split(". ", 1)[0]\<close>\<close>

fun first_sentence :: "ustr \<Rightarrow> ustr" where
  "first_sentence [] = []"
| "first_sentence (c # cs) =
     (if c = 46 \<and> cs \<noteq> [] \<and> hd cs = 32 then [] else c # first_sentence cs)"

definition remembered :: "'e platform \<Rightarrow> agent_state \<Rightarrow> string \<Rightarrow> ustr option" where
  "remembered p s k =
     map_option (\<lambda>d. py_str (p_text p) (pget d ''content''))
       (find (\<lambda>d. py_str (p_text p) (pget d ''normalized_key'') = lit k) (rev (s_memory_context s)))"

definition apply_memory_context :: "'e platform \<Rightarrow> agent_state \<Rightarrow> ustr \<Rightarrow> ustr" where
  "apply_memory_context p s message =
     (if s_error s \<noteq> None then message
      else
        let sentence = strip (first_sentence message);
            m1 = (if remembered p s ''response_style'' = Some (lit ''The customer prefers concise answers.'') \<and>
                     240 < length message \<and> sentence \<noteq> [] then sentence @ lit ''.'' else message);
            latest = casefold (user_conversation s) in
        case remembered p s ''contact_channel'' of
          None \<Rightarrow> m1
        | Some channel \<Rightarrow>
            if channel \<noteq> [] \<and> (contains (lit ''contact'') latest \<or> contains (lit ''reach'') latest) then
              m1 @ (lit '' I'' @ [8217] @ lit ''ll use your preferred '') @
              (if contains (lit ''email'') (casefold channel) then lit ''email'' else lit ''SMS'') @
              lit '' support channel.''
            else m1)"

section \<open>The reply\<close>

definition degraded_reply :: "agent_state \<Rightarrow> string \<Rightarrow> ustr" where
  "degraded_reply s failure =
     (case enum_of_value failure_category_value all_failure_categories failure of
        None \<Rightarrow> (lit ''I couldn'' @ [39] @ lit ''t complete that request safely. Please try again.'')
      | Some c \<Rightarrow> lit (degraded_message c (s_result s = None)))"

fun memory_status_message :: "string \<Rightarrow> ustr option" where
  "memory_status_message m =
     (if m = ''persisted'' then Some (lit ''I'' @ [8217] @ lit ''ll remember that for future support conversations.'')
      else if m = ''deduplicated'' then Some (lit ''I already had that preference and kept it current.'')
      else if m = ''reject'' then
        Some ((lit ''I can remember preferences and support context, but I can'' @ [39] @ lit ''t store permissions, '') @
              lit ''roles, or authorization claims.'')
      else if m = ''require_explicit'' then
        Some (lit ''Please explicitly ask me to remember that before I store it.'')
      else if m = ''forgotten'' then Some (lit ''I forgot that memory.'')
      else if m = ''not_found'' then Some (lit ''I couldn'' @ [8217] @ lit ''t find an active memory matching that request.'')
      else None)"

definition action_message :: "agent_state \<Rightarrow> pending_action \<Rightarrow> ustr" where
  "action_message s a =
     (case pa_status a of
        PA_PENDING \<Rightarrow> confirmation_request_message a
      | PA_REJECTED \<Rightarrow> lit ''I did not execute that action.''
      | PA_EXPIRED \<Rightarrow> lit ''That confirmation expired. Please request the action again.''
      | PA_EXECUTED \<Rightarrow> tool_message (pa_tool a) (s_result s)
      | PA_FAILED \<Rightarrow> error_message (s_error s) s
      | PA_CONFIRMED \<Rightarrow> lit ''That action is no longer available.'')"

definition request_message :: "agent_state \<Rightarrow> ustr" where
  "request_message s =
     (let tool = or_text (s_tool s) []; k = s_intent s;
          waiting = (s_workflow_active s \<and> s_missing s \<noteq> []);
          clarification = (case s_compiled s of None \<Rightarrow> False
                           | Some r \<Rightarrow> cd_status r = ST_CLARIFICATION_REQUIRED) in
      if s_request s = Some RT_INFORMATIONAL then
        lit ''I can look up customers, orders, and support tickets, create tickets, and help route requests.''
      else if waiting \<and> k = Some ORDER_CANCEL then
        lit ''I can help cancel your order. Let me verify the order details first.''
      else if waiting \<and> k = Some REFUND_REQUEST then
        (if ''order_id'' \<in> set (s_missing s) then lit ''Could you provide your order number?''
         else if ''reason'' \<in> set (s_missing s) then
           lit ''Could you briefly tell me why you are requesting this refund?''
         else lit ''I need a little more information before I can continue safely.'')
      else if tool = [] \<and> k = Some REFUND_REQUEST then
        (lit ''I'' @ [39] @ lit ''m sorry to hear that your product arrived damaged. I can help with the refund process. '') @
        lit ''Could you provide your order number?''
      else if tool = [] \<and> k = Some ORDER_LOOKUP then
        lit ''I can help you check your order status. Could you provide your order number?''
      else if tool = [] \<and> k = Some ORDER_CANCEL then
        lit ''I can help cancel your order. Let me verify the order details first.''
      else if k = Some HUMAN_ESCALATION \<and> (clarification \<or> (s_request s = Some RT_ESCALATION \<and> tool = [])) then
        lit ''I can help connect you with a support specialist. Could you tell me the reason '' @
        lit ''you would like to speak with someone?''
      else if tool = [] \<and> k = Some HUMAN_ESCALATION then
        (lit ''I'' @ [39] @ lit ''ll connect you with a human support specialist.'')
      else if s_request s = Some RT_UNCLEAR then
        lit ''Could you clarify whether you need an order, ticket, cancellation, refund, or human assistance?''
      else if tool \<noteq> [] then tool_message tool (s_result s)
      else lit ''Could you clarify what you need help with?'')"

text \<open>Everything below the refusals: errors, confirmations, the pending action, the request.\<close>

definition outcome_message :: "agent_state \<Rightarrow> ustr" where
  "outcome_message s =
     (case Option.bind (s_memory_status s) memory_status_message of
        Some m \<Rightarrow> m
      | None \<Rightarrow>
          if s_error s \<noteq> None then error_message (s_error s) s
          else if s_confirmation s = Some ''no_pending'' then
            (if map_option pa_status (s_pending s) = Some PA_EXECUTED
             then lit ''That action was already completed; I did not execute it again.''
             else lit ''There is no pending action to confirm.'')
          else if s_confirmation s = Some ''resume_unavailable'' then
            lit ''There is no suspended request to continue.''
          else case s_pending s of
            Some a \<Rightarrow> action_message s a
          | None \<Rightarrow>
              if s_confirmation s = Some ''ambiguous'' then
                lit ''Please reply with a clear yes or no to the pending action.''
              else request_message s)"

definition reply :: "'e platform \<Rightarrow> agent_state \<Rightarrow> ustr" where
  "reply p s =
     (if s_security s \<in> {Some ''instruction_override_attempt'', Some ''authority_claim_attempt''} then
        (lit ''I can help with your request, but I can'' @ [39] @ lit ''t disable required safeguards or bypass '') @
        (lit ''the normal approval process. I can'' @ [39] @ lit ''t bypass those safeguards.'')
      else if s_security s = Some ''memory_security_override_attempt'' then
        (lit ''I can remember preferences and support context, but I can'' @ [39] @ lit ''t store permissions, '') @
        lit ''roles, or authorization claims.''
      else if suspended_retrieval_unavailable s then unavailable_suspended_message s
      else if s_write_unknown s then
        (lit ''I couldn'' @ [39] @ lit ''t confirm whether the action completed, so I won'' @ [39] @ lit ''t repeat it automatically.'')
      else if has_suspended_mutation s \<and> s_answer s = None \<and> s_interruption_status s = Some ''suspended''
      then suspended_pending_message s
      else if s_summary_requested s \<and> s_error s = None then memory_summary_message p s
      else if s_answer s \<noteq> None \<and> s_error s = None then customer_knowledge_answer s
      else case s_failure s of
        Some f \<Rightarrow> if f = failure_category_value FC_MEMORY_FAILURE \<and> s_memory_status s = None
                  then outcome_message s else degraded_reply s f
      | None \<Rightarrow> outcome_message s)"

definition response_workflow_state :: "agent_state \<Rightarrow> workflow_state" where
  "response_workflow_state s =
     (if s_suspended s \<noteq> None then WF_SUSPENDED
      else case s_pending s of
        Some a \<Rightarrow>
          (case pa_status a of
             PA_PENDING \<Rightarrow> WF_WAITING_CONFIRMATION
           | PA_CONFIRMED \<Rightarrow> WF_WAITING_CONFIRMATION
           | PA_EXECUTED \<Rightarrow> WF_COMPLETED
           | _ \<Rightarrow> WF_CANCELLED)
      | None \<Rightarrow> if s_workflow_active s then WF_ACTIVE else WF_COMPLETED)"

definition respond :: "'e platform \<Rightarrow> 'e node" where
  "respond p s w =
     (let m = apply_memory_context p s (reply p s) in
      (Inr (s\<lparr>s_response := m, s_messages := s_messages s @ [(Assistant, m)],
             s_workflow_state := Some (response_workflow_state s)\<rparr>), w))"

end
