(* ===== verification/Graph.thy ===== *)
theory Graph
  imports Respond
begin

text \<open>
  The graph of a turn (agent/graph.py): its nodes, the routing function after each node, and the run
  from \<open>START\<close> to \<open>END\<close>. The engine of the graph library runs one node, merges its updates into the
  state and follows the edge chosen there; tracing around the nodes is not modelled.
\<close>

section \<open>Nodes and edges\<close>

datatype node_name =
    LOAD_CONTEXT | SECURITY_BOUNDARY | RETRIEVE_MEMORY | CHECK_PENDING_ACTION
  | RESTORE_PENDING_ACTION | RESTORE_SUSPENDED_WORKFLOW | RESUME_WORKFLOW | UNDERSTAND_REQUEST
  | HANDLE_WORKFLOW_INTERRUPTION | COMPILE_DECISION | SELECT_TOOL_OR_RESPONSE | VALIDATE_TOOL
  | EVALUATE_POLICY | INSPECT_RISK | POLICY_REVALIDATION | CREATE_PENDING_ACTION | EXECUTE_TOOL
  | EXECUTE_CONFIRMED_ACTION | EXECUTE_HUMAN_ESCALATION | MEMORY_ACTION | RETRIEVE_KNOWLEDGE | RESPOND

definition after_context :: "agent_state \<Rightarrow> node_name" where
  "after_context s = (if s_error s \<noteq> None then RESPOND else SECURITY_BOUNDARY)"

definition after_security_boundary :: "agent_state \<Rightarrow> node_name" where
  "after_security_boundary s = (if s_security s \<noteq> None then RESPOND else RETRIEVE_MEMORY)"

definition after_pending :: "agent_state \<Rightarrow> node_name" where
  "after_pending s =
     (let status = or_text (s_confirmation s) ''normal'' in
      if status = ''resume_suspended'' then RESTORE_SUSPENDED_WORKFLOW
      else if status = ''inspect_interruption'' then UNDERSTAND_REQUEST
      else if status = ''normal'' \<and> s_workflow_active s then RESUME_WORKFLOW
      else if status = ''normal'' then UNDERSTAND_REQUEST
      else if status = ''confirmed'' then RESTORE_PENDING_ACTION
      else RESPOND)"

definition after_workflow_resume :: "agent_state \<Rightarrow> node_name" where
  "after_workflow_resume s =
     (if s_resume_status s = Some ''resumed'' then COMPILE_DECISION
      else if s_resume_status s = Some ''inspect_interruption'' then UNDERSTAND_REQUEST
      else if s_resume_status s = Some ''waiting_for_fields'' then RESPOND
      else UNDERSTAND_REQUEST)"

definition after_understanding :: "agent_state \<Rightarrow> node_name" where
  "after_understanding s =
     (if s_error s \<noteq> None then RESPOND
      else if s_interruption_pending s then HANDLE_WORKFLOW_INTERRUPTION
      else COMPILE_DECISION)"

definition after_workflow_interruption :: "agent_state \<Rightarrow> node_name" where
  "after_workflow_interruption s =
     (if s_interruption_status s \<in> {Some ''suspended'', Some ''superseded''} then COMPILE_DECISION
      else RESPOND)"

definition after_pending_restore :: "agent_state \<Rightarrow> node_name" where
  "after_pending_restore s = (if s_resumed s then COMPILE_DECISION else RESPOND)"

definition after_selection :: "agent_state \<Rightarrow> node_name" where
  "after_selection s =
     (if s_error s \<noteq> None then RESPOND
      else if map_option cd_status (s_compiled s) = Some ST_CLARIFICATION_REQUIRED then RESPOND
      else if s_intent s \<in> {Some MEMORY_REMEMBER, Some MEMORY_FORGET} then MEMORY_ACTION
      else if s_request s \<in> {Some RT_INFORMATIONAL, Some RT_UNCLEAR, Some RT_KNOWLEDGE_ONLY} then
        (if s_retrieval s then RETRIEVE_KNOWLEDGE else RESPOND)
      else VALIDATE_TOOL)"

definition after_validation :: "agent_state \<Rightarrow> node_name" where
  "after_validation s =
     (if s_error s \<noteq> None then RESPOND
      else if s_confirmation s = Some ''confirmed'' then POLICY_REVALIDATION
      else EVALUATE_POLICY)"

definition after_policy :: "agent_state \<Rightarrow> node_name" where
  "after_policy s =
     (if s_error s \<noteq> None then RESPOND
      else case s_policy s of
        None \<Rightarrow> RESPOND
      | Some d \<Rightarrow>
          if d_outcome d = PO_DENY then RESPOND
          else if d_outcome d = PO_ALLOW then EXECUTE_TOOL
          else if d_outcome d = PO_REQUIRE_CONFIRMATION then CREATE_PENDING_ACTION
          else EXECUTE_HUMAN_ESCALATION)"

definition after_revalidation :: "agent_state \<Rightarrow> node_name" where
  "after_revalidation s = (if s_error s \<noteq> None then RESPOND else EXECUTE_CONFIRMED_ACTION)"

definition after_execution :: "agent_state \<Rightarrow> node_name" where
  "after_execution s =
     (if s_error s \<noteq> None then RESPOND
      else if s_retrieval s then RETRIEVE_KNOWLEDGE else RESPOND)"

text \<open>The edges of \<open>build_graph\<close>; \<open>None\<close> is \<open>END\<close>.\<close>

fun next_node :: "node_name \<Rightarrow> agent_state \<Rightarrow> node_name option" where
  "next_node LOAD_CONTEXT s = Some (after_context s)"
| "next_node SECURITY_BOUNDARY s = Some (after_security_boundary s)"
| "next_node RETRIEVE_MEMORY s = Some CHECK_PENDING_ACTION"
| "next_node CHECK_PENDING_ACTION s = Some (after_pending s)"
| "next_node RESTORE_PENDING_ACTION s = Some (after_pending_restore s)"
| "next_node RESTORE_SUSPENDED_WORKFLOW s = Some RESPOND"
| "next_node RESUME_WORKFLOW s = Some (after_workflow_resume s)"
| "next_node UNDERSTAND_REQUEST s = Some (after_understanding s)"
| "next_node HANDLE_WORKFLOW_INTERRUPTION s = Some (after_workflow_interruption s)"
| "next_node COMPILE_DECISION s = Some SELECT_TOOL_OR_RESPONSE"
| "next_node SELECT_TOOL_OR_RESPONSE s = Some (after_selection s)"
| "next_node VALIDATE_TOOL s = Some (after_validation s)"
| "next_node EVALUATE_POLICY s = Some INSPECT_RISK"
| "next_node INSPECT_RISK s = Some (after_policy s)"
| "next_node POLICY_REVALIDATION s = Some (after_revalidation s)"
| "next_node CREATE_PENDING_ACTION s = Some RESPOND"
| "next_node EXECUTE_TOOL s = Some (after_execution s)"
| "next_node EXECUTE_CONFIRMED_ACTION s = Some RESPOND"
| "next_node EXECUTE_HUMAN_ESCALATION s = Some RESPOND"
| "next_node MEMORY_ACTION s = Some RESPOND"
| "next_node RETRIEVE_KNOWLEDGE s = Some RESPOND"
| "next_node RESPOND s = None"

text \<open>Unconfirmed tools run in the same node function as confirmed ones (\<open>make_confirmed_execution_node\<close>).\<close>

definition inspect_risk :: "'e node" where
  "inspect_risk s w = (Inr s, w)"

fun run_node :: "'e platform \<Rightarrow> node_name \<Rightarrow> 'e node" where
  "run_node p LOAD_CONTEXT = load_context"
| "run_node p SECURITY_BOUNDARY = security_boundary"
| "run_node p RETRIEVE_MEMORY = retrieve_memory p"
| "run_node p CHECK_PENDING_ACTION = check_pending p"
| "run_node p RESTORE_PENDING_ACTION = restore_pending p"
| "run_node p RESTORE_SUSPENDED_WORKFLOW = restore_suspended_workflow p"
| "run_node p RESUME_WORKFLOW = resume_workflow"
| "run_node p UNDERSTAND_REQUEST = understand_request p"
| "run_node p HANDLE_WORKFLOW_INTERRUPTION = handle_workflow_interruption"
| "run_node p COMPILE_DECISION = compile_decision p"
| "run_node p SELECT_TOOL_OR_RESPONSE = select_tool"
| "run_node p VALIDATE_TOOL = validate_tool p"
| "run_node p EVALUATE_POLICY = evaluate_policy p"
| "run_node p INSPECT_RISK = inspect_risk"
| "run_node p POLICY_REVALIDATION = revalidate p"
| "run_node p CREATE_PENDING_ACTION = create_pending p"
| "run_node p EXECUTE_TOOL = execute_confirmed p"
| "run_node p EXECUTE_CONFIRMED_ACTION = execute_confirmed p"
| "run_node p EXECUTE_HUMAN_ESCALATION = execute_human_escalation p"
| "run_node p MEMORY_ACTION = memory_action p"
| "run_node p RETRIEVE_KNOWLEDGE = retrieve_knowledge p"
| "run_node p RESPOND = respond p"

section \<open>The graph has no cycle\<close>

fun rank :: "node_name \<Rightarrow> nat" where
  "rank LOAD_CONTEXT = 17"
| "rank SECURITY_BOUNDARY = 16"
| "rank RETRIEVE_MEMORY = 15"
| "rank CHECK_PENDING_ACTION = 14"
| "rank RESTORE_PENDING_ACTION = 13"
| "rank RESTORE_SUSPENDED_WORKFLOW = 13"
| "rank RESUME_WORKFLOW = 13"
| "rank UNDERSTAND_REQUEST = 12"
| "rank HANDLE_WORKFLOW_INTERRUPTION = 11"
| "rank COMPILE_DECISION = 10"
| "rank SELECT_TOOL_OR_RESPONSE = 9"
| "rank VALIDATE_TOOL = 8"
| "rank EVALUATE_POLICY = 7"
| "rank INSPECT_RISK = 6"
| "rank POLICY_REVALIDATION = 6"
| "rank CREATE_PENDING_ACTION = 2"
| "rank EXECUTE_TOOL = 2"
| "rank EXECUTE_CONFIRMED_ACTION = 2"
| "rank EXECUTE_HUMAN_ESCALATION = 2"
| "rank MEMORY_ACTION = 2"
| "rank RETRIEVE_KNOWLEDGE = 1"
| "rank RESPOND = 0"

lemmas routing_defs = after_context_def after_security_boundary_def after_pending_def
  after_workflow_resume_def after_understanding_def after_workflow_interruption_def
  after_pending_restore_def after_selection_def after_validation_def after_policy_def
  after_revalidation_def after_execution_def

lemma next_node_rank: "next_node n s = Some m \<Longrightarrow> rank m < rank n"
  by (cases n) (auto simp: routing_defs Let_def split: if_splits option.splits)

section \<open>The run of a turn\<close>

text \<open>
  A run returns the exception that ended it, if any, the state the checkpoint keeps (the one merged
  after the last node that finished), the world, and the nodes it ran in order. It always stops,
  because every edge lowers the rank.
\<close>

function run_from ::
  "'e platform \<Rightarrow> node_name \<Rightarrow> agent_state \<Rightarrow> 'e world \<Rightarrow>
     exn option \<times> agent_state \<times> 'e world \<times> node_name list" where
  "run_from p n s w =
     (case run_node p n s w of
        (Inl x, w1) \<Rightarrow> (Some x, s, w1, [n])
      | (Inr t, w1) \<Rightarrow>
          (case next_node n t of
             None \<Rightarrow> (None, t, w1, [n])
           | Some m \<Rightarrow> (case run_from p m t w1 of (r, u, w2, ns) \<Rightarrow> (r, u, w2, n # ns))))"
  by pat_completeness auto

termination
  by (relation "measure (\<lambda>(p, n, s, w). rank n)") (auto dest: next_node_rank)

declare run_from.simps [simp del]

text \<open>
  The input of a turn, merged into the checkpointed state of the conversation: the new user message is
  appended, the context, conversation and run identifiers are set.
\<close>

definition begin_turn :: "execution_context \<Rightarrow> string \<Rightarrow> ustr \<Rightarrow> agent_state \<Rightarrow> agent_state" where
  "begin_turn ctx run message s =
     s\<lparr>s_context := Some ctx, s_conversation := Some (conversation_id ctx), s_run := run,
       s_messages := s_messages s @ [(User, message)]\<rparr>"

definition run_turn ::
  "'e platform \<Rightarrow> execution_context \<Rightarrow> string \<Rightarrow> ustr \<Rightarrow> agent_state \<Rightarrow> 'e world \<Rightarrow>
     exn option \<times> agent_state \<times> 'e world \<times> node_name list" where
  "run_turn p ctx run message s w = run_from p LOAD_CONTEXT (begin_turn ctx run message s) w"

text \<open>The nodes a run reaches, each with the state and the world it starts from.\<close>

inductive reaches ::
  "'e platform \<Rightarrow> agent_state \<Rightarrow> 'e world \<Rightarrow> node_name \<Rightarrow> agent_state \<Rightarrow> 'e world \<Rightarrow> bool"
  for p s0 w0 where
  start: "reaches p s0 w0 LOAD_CONTEXT s0 w0"
| step: "reaches p s0 w0 n s w \<Longrightarrow> run_node p n s w = (Inr t, w1) \<Longrightarrow> next_node n t = Some m \<Longrightarrow>
     reaches p s0 w0 m t w1"

end
