(* ===== verification/Turn_Phases.thy ===== *)
theory Turn_Phases
  imports Graph
begin

text \<open>
  What is known at every node of a turn, relative to the state the turn started from: which fields
  are still those of the start, whether the turn is on the confirmed path, what the policy said of the
  tool about to run. One lemma per node shows that its update leads to the phase of the next node;
  rule induction then gives the phase of every node a turn reaches.
\<close>

section \<open>Phases\<close>

definition same_turn :: "agent_state \<Rightarrow> agent_state \<Rightarrow> bool" where
  "same_turn s0 s \<longleftrightarrow> s_context s = s_context s0 \<and> s_messages s = s_messages s0 \<and> s_run s = s_run s0"

text \<open>The pending action of the start, confirmed in this turn's message by its owner, in time.\<close>

definition confirmable :: "'e platform \<Rightarrow> agent_state \<Rightarrow> pending_action \<Rightarrow> bool" where
  "confirmable p s0 a \<longleftrightarrow>
     s_pending s0 = Some a \<and> pa_status a = PA_PENDING \<and>
     (\<exists>ctx. s_context s0 = Some ctx \<and> belongs_to_context a ctx) \<and>
     parse_confirmation (latest_user_message s0) = ''confirmed'' \<and>
     (\<exists>e. \<not> is_expired a (fst (p_now p e)) (p_ttl p))"

definition confirmed_by :: "'e platform \<Rightarrow> agent_state \<Rightarrow> agent_state \<Rightarrow> bool" where
  "confirmed_by p s0 s \<longleftrightarrow>
     s_confirmation s = Some ''confirmed'' \<and>
     (\<exists>a. confirmable p s0 a \<and> s_pending s = Some (transition a PA_CONFIRMED))"

definition unconfirmed :: "agent_state \<Rightarrow> bool" where
  "unconfirmed s \<longleftrightarrow> s_confirmation s \<noteq> Some ''confirmed''"

text \<open>The policy's verdict on the selected tool, with an action id drawn.\<close>

definition judged :: "outcome \<Rightarrow> agent_state \<Rightarrow> bool" where
  "judged out s \<longleftrightarrow>
     s_pending s = None \<and> unconfirmed s \<and> or_text (s_action_id s) [] \<noteq> [] \<and>
     (\<exists>ctx name. s_context s = Some ctx \<and> s_tool s = Some name \<and> name \<noteq> [] \<and>
        s_policy s = Some (evaluate_default_policy name ctx (s_arguments s)) \<and>
        d_outcome (evaluate_default_policy name ctx (s_arguments s)) = out)"

text \<open>What a successful revalidation established on the rows it read.\<close>

definition revalidated :: "'e platform \<Rightarrow> agent_state \<Rightarrow> store \<Rightarrow> pending_action \<Rightarrow> tool_input \<Rightarrow> bool" where
  "revalidated p s st a inp \<longleftrightarrow>
     (\<exists>ctx model. s_context s = Some ctx \<and> belongs_to_context a ctx \<and>
        get_agent_tool_definition (pa_tool a) = Some model \<and>
        validate_input (p_coercion p) model (restore_pending_arguments a) = Inr inp \<and>
        no_diff (policy_input_diff (pa_inputs a) (restore_policy_inputs a ctx (dump_input inp))) \<and>
        input_customer inp = effective_customer ctx \<and>
        d_outcome (evaluate_default_policy (pa_tool a) ctx (dump_input inp)) \<in> {PO_ALLOW, PO_REQUIRE_CONFIRMATION} \<and>
        revalidate_business st (ctx_tenant ctx) (pa_tool a) inp = Inr True)"

definition entry_phase :: "agent_state \<Rightarrow> agent_state \<Rightarrow> bool" where
  "entry_phase s0 s \<longleftrightarrow>
     same_turn s0 s \<and> s_context s0 \<noteq> None \<and> s_pending s = s_pending s0 \<and> s_confirmation s = None \<and>
     \<not> s_interruption_pending s"

definition compiling :: "'e platform \<Rightarrow> agent_state \<Rightarrow> agent_state \<Rightarrow> bool" where
  "compiling p s0 s \<longleftrightarrow> confirmed_by p s0 s \<or> (unconfirmed s \<and> s_pending s = None)"

fun phase ::
  "'e platform \<Rightarrow> agent_state \<Rightarrow> node_name \<Rightarrow> agent_state \<Rightarrow> 'e world \<Rightarrow> bool" where
  "phase p s0 LOAD_CONTEXT s w = (s = s0)"
| "phase p s0 SECURITY_BOUNDARY s w = entry_phase s0 s"
| "phase p s0 RETRIEVE_MEMORY s w = entry_phase s0 s"
| "phase p s0 CHECK_PENDING_ACTION s w = entry_phase s0 s"
| "phase p s0 RESTORE_PENDING_ACTION s w = (same_turn s0 s \<and> confirmed_by p s0 s)"
| "phase p s0 RESUME_WORKFLOW s w =
     (same_turn s0 s \<and> unconfirmed s \<and> s_pending s = None)"
| "phase p s0 UNDERSTAND_REQUEST s w =
     (same_turn s0 s \<and> unconfirmed s \<and> (s_pending s = None \<or> s_interruption_pending s))"
| "phase p s0 HANDLE_WORKFLOW_INTERRUPTION s w = (same_turn s0 s \<and> unconfirmed s)"
| "phase p s0 COMPILE_DECISION s w = (same_turn s0 s \<and> compiling p s0 s)"
| "phase p s0 SELECT_TOOL_OR_RESPONSE s w = (same_turn s0 s \<and> compiling p s0 s)"
| "phase p s0 VALIDATE_TOOL s w = (same_turn s0 s \<and> compiling p s0 s)"
| "phase p s0 EVALUATE_POLICY s w = (same_turn s0 s \<and> unconfirmed s \<and> s_pending s = None)"
| "phase p s0 INSPECT_RISK s w =
     (same_turn s0 s \<and> (s_error s = None \<longrightarrow> (\<exists>out. judged out s)))"
| "phase p s0 POLICY_REVALIDATION s w = (same_turn s0 s \<and> confirmed_by p s0 s)"
| "phase p s0 CREATE_PENDING_ACTION s w = (same_turn s0 s \<and> judged PO_REQUIRE_CONFIRMATION s)"
| "phase p s0 EXECUTE_TOOL s w = (same_turn s0 s \<and> judged PO_ALLOW s)"
| "phase p s0 EXECUTE_HUMAN_ESCALATION s w = (same_turn s0 s \<and> judged PO_REQUIRE_HUMAN s)"
| "phase p s0 EXECUTE_CONFIRMED_ACTION s w =
     (same_turn s0 s \<and> confirmed_by p s0 s \<and>
      (\<exists>a inp. s_pending s = Some a \<and> s_tool s = Some (pa_tool a) \<and> s_arguments s = dump_input inp \<and>
         revalidated p s (work (w_session w)) a inp))"
| "phase p s0 _ s w = same_turn s0 s"

lemma same_turn_refl [simp]: "same_turn s s"
  by (simp add: same_turn_def)

lemma latest_message_same: "same_turn s0 s \<Longrightarrow> latest_user_message s = latest_user_message s0"
  by (simp add: same_turn_def latest_user_message_def)

section \<open>The world after an audit\<close>

lemma after_Inr_iff: "after q f = (Inr b, w') \<longleftrightarrow> (\<exists>a w. q = (Inr a, w) \<and> f a w = (Inr b, w'))"
  by (cases q; cases "fst q") auto

lemma now_session [simp]: "w_session (snd (now p w)) = w_session w" "w_audit (snd (now p w)) = w_audit w"
  by (simp_all add: now_def split: prod.split)

lemma now_time: "fst (now p w) = fst (p_now p (w_env w))"
  by (simp add: now_def split: prod.split)

text \<open>An event that was stored leaves the rows of the transaction as they were.\<close>

lemma write_audit_work:
  assumes "write_audit p e w = (Inr u, w')"
  shows "work (w_session w') = work (w_session w)"
proof -
  obtain e' l where e: "make_event e = Inr e'"
    and l: "append_policy_audit (p_audit_fault p) e' (w_audit w) = (Inr u, l)"
    and w': "w' = w\<lparr>w_session := audit_session (p_db p) (p_audit_fault p) e' (w_audit w) (w_session w),
                    w_audit := l\<rparr>"
    using assms by (auto simp: write_audit_def split: sum.splits prod.splits)
  have "work (audit_session (p_db p) (p_audit_fault p) e' (w_audit w) (w_session w)) = work (w_session w)"
    using l by (cases "w_audit w")
      (auto simp: append_policy_audit_def split: option.splits if_splits prod.splits)
  then show ?thesis using w' by simp
qed

section \<open>Entry\<close>

lemma load_phase:
  assumes "load_context s w = (Inr t, w1)" and "after_context t = m"
  shows "phase p s m t w1"
  using assms
  by (auto simp: load_context_def after_context_def reject_entry_def reset_turn_def entry_phase_def
      same_turn_def split: option.splits if_splits)

lemma security_phase:
  assumes "entry_phase s0 s" and "security_boundary s w = (Inr t, w1)"
    and "after_security_boundary t = m"
  shows "phase p s0 m t w1"
proof (cases "t = s\<lparr>s_security := None\<rparr>")
  case True
  then show ?thesis using assms(1,3)
    by (auto simp: after_security_boundary_def entry_phase_def same_turn_def)
next
  case False
  then have "t = ownership_block s \<or> (\<exists>signal b. t = security_block signal b s)"
    using assms(2) by (auto simp: security_boundary_def Let_def split: option.splits if_splits)
  then have "same_turn s t" "s_security t \<noteq> None"
    by (auto simp: ownership_block_def security_block_def Let_def same_turn_def)
  then show ?thesis using assms(1,3)
    by (auto simp: after_security_boundary_def entry_phase_def same_turn_def)
qed

lemma memory_phase:
  assumes "entry_phase s0 s" and "retrieve_memory p s w = (Inr t, w1)"
  shows "phase p s0 CHECK_PENDING_ACTION t w1"
  using assms
  by (auto simp: retrieve_memory_def entry_phase_def same_turn_def split: option.splits sum.splits prod.splits)

text \<open>The outcomes of the check: confirmed, an interruption, nothing pending, or a plain reply.\<close>

lemma after_pending_simps:
  "s_confirmation s = Some ''confirmed'' \<Longrightarrow> after_pending s = RESTORE_PENDING_ACTION"
  "s_confirmation s = Some ''inspect_interruption'' \<Longrightarrow> after_pending s = UNDERSTAND_REQUEST"
  "s_confirmation s = Some ''normal'' \<Longrightarrow>
     after_pending s = (if s_workflow_active s then RESUME_WORKFLOW else UNDERSTAND_REQUEST)"
  "s_confirmation s = Some ''resume_suspended'' \<Longrightarrow> after_pending s = RESTORE_SUSPENDED_WORKFLOW"
  "s_confirmation s = Some ''no_pending'' \<Longrightarrow> after_pending s = RESPOND"
  "s_confirmation s = Some ''resume_unavailable'' \<Longrightarrow> after_pending s = RESPOND"
  "s_confirmation s = Some ''expired'' \<Longrightarrow> after_pending s = RESPOND"
  "s_confirmation s = Some ''rejected'' \<Longrightarrow> after_pending s = RESPOND"
  "s_confirmation s = Some ''ambiguous'' \<Longrightarrow> after_pending s = RESPOND"
  "s_confirmation s = Some ''ownership_error'' \<Longrightarrow> after_pending s = RESPOND"
  by (simp_all add: after_pending_def or_text_def)

definition plain_reply :: "agent_state \<Rightarrow> bool" where
  "plain_reply t \<longleftrightarrow> unconfirmed t \<and>
     (after_pending t = RESPOND \<or> after_pending t = RESTORE_SUSPENDED_WORKFLOW)"

lemma plain_replyI:
  "s_confirmation t = Some ''resume_suspended'' \<Longrightarrow> plain_reply t"
  "s_confirmation t = Some ''no_pending'' \<Longrightarrow> plain_reply t"
  "s_confirmation t = Some ''resume_unavailable'' \<Longrightarrow> plain_reply t"
  "s_confirmation t = Some ''expired'' \<Longrightarrow> plain_reply t"
  "s_confirmation t = Some ''rejected'' \<Longrightarrow> plain_reply t"
  "s_confirmation t = Some ''ambiguous'' \<Longrightarrow> plain_reply t"
  "s_confirmation t = Some ''ownership_error'' \<Longrightarrow> plain_reply t"
  by (simp_all add: plain_reply_def after_pending_simps unconfirmed_def)

definition checked :: "'e platform \<Rightarrow> agent_state \<Rightarrow> agent_state \<Rightarrow> bool" where
  "checked p s0 t \<longleftrightarrow> same_turn s0 t \<and>
     (confirmed_by p s0 t \<or>
      (s_confirmation t = Some ''inspect_interruption'' \<and> s_interruption_pending t) \<or>
      (s_confirmation t = Some ''normal'' \<and> s_pending t = None) \<or> plain_reply t)"

lemma checkedI:
  "same_turn s0 t \<Longrightarrow> confirmed_by p s0 t \<Longrightarrow> checked p s0 t"
  "same_turn s0 t \<Longrightarrow> s_confirmation t = Some ''inspect_interruption'' \<Longrightarrow> s_interruption_pending t \<Longrightarrow>
     checked p s0 t"
  "same_turn s0 t \<Longrightarrow> s_confirmation t = Some ''normal'' \<Longrightarrow> s_pending t = None \<Longrightarrow> checked p s0 t"
  "same_turn s0 t \<Longrightarrow> plain_reply t \<Longrightarrow> checked p s0 t"
  by (simp_all add: checked_def)

lemma checked_phase:
  assumes "checked p s0 t" and m: "after_pending t = m"
  shows "phase p s0 m t w"
proof -
  have st: "same_turn s0 t" using assms(1) by (simp add: checked_def)
  consider "confirmed_by p s0 t"
    | "s_confirmation t = Some ''inspect_interruption''" "s_interruption_pending t"
    | "s_confirmation t = Some ''normal''" "s_pending t = None"
    | "plain_reply t"
    using assms(1) unfolding checked_def by (elim conjE disjE)
  then show ?thesis
  proof cases
    case 1
    then have "m = RESTORE_PENDING_ACTION" using m by (simp add: confirmed_by_def after_pending_simps)
    then show ?thesis using 1 st by simp
  next
    case 2
    then have "m = UNDERSTAND_REQUEST" using m by (simp add: after_pending_simps)
    then show ?thesis using 2 st by (simp add: unconfirmed_def)
  next
    case 3
    then have "m = UNDERSTAND_REQUEST \<or> m = RESUME_WORKFLOW"
      using m by (cases "s_workflow_active t") (simp_all add: after_pending_simps)
    then show ?thesis using 3 st by (elim disjE) (simp_all add: unconfirmed_def)
  next
    case 4
    then have "m = RESPOND \<or> m = RESTORE_SUSPENDED_WORKFLOW" using m by (simp add: plain_reply_def)
    then show ?thesis using st by (elim disjE) simp_all
  qed
qed

lemma entry_context:
  assumes "entry_phase s0 s"
  shows "\<exists>ctx. s_context s = Some ctx \<and> s_context s0 = Some ctx"
  using assms unfolding entry_phase_def same_turn_def by (metis not_None_eq)

lemma confirmed_check:
  assumes e: "entry_phase s0 s" and a: "s_pending s = Some a" and ctx: "s_context s = Some ctx"
    and b: "belongs_to_context a ctx" and t: "t = fst (p_now p e)"
    and c: "pa_status a = PA_PENDING" "\<not> is_expired a t (p_ttl p)"
      "parse_confirmation (latest_user_message s) = ''confirmed''"
  shows "checked p s0 (check_pending_action (p_ttl p) t s a)"
proof -
  have st: "same_turn s0 s" using e by (simp add: entry_phase_def)
  have "confirmable p s0 a"
    using a ctx b e t c by (auto simp: confirmable_def entry_phase_def same_turn_def latest_user_message_def)
  moreover have q: "check_pending_action (p_ttl p) t s a =
      s\<lparr>s_pending := Some (transition a PA_CONFIRMED), s_confirmation := Some ''confirmed''\<rparr>"
    using c by (simp add: check_pending_action_def)
  ultimately have "confirmed_by p s0 (check_pending_action (p_ttl p) t s a)"
    unfolding confirmed_by_def by (intro conjI exI [of _ a]) (simp_all add: q)
  moreover have "same_turn s0 (check_pending_action (p_ttl p) t s a)"
    using st by (simp add: q same_turn_def)
  ultimately show ?thesis by (intro checkedI(1))
qed

lemma check_action_checked:
  assumes e: "entry_phase s0 s" and a: "s_pending s = Some a" and ctx: "s_context s = Some ctx"
    and b: "belongs_to_context a ctx"
    and t: "pa_status a = PA_PENDING \<Longrightarrow> t = fst (p_now p e)"
  shows "checked p s0 (check_pending_action (p_ttl p) t s a)"
proof (cases "pa_status a = PA_PENDING \<and> \<not> is_expired a t (p_ttl p) \<and>
    parse_confirmation (latest_user_message s) = ''confirmed''")
  case True
  then show ?thesis using confirmed_check [OF e a ctx b t] by simp
next
  case False
  have "same_turn s (check_pending_action (p_ttl p) t s a)"
    by (simp add: check_pending_action_def Let_def same_turn_def)
  moreover have "same_turn s0 s" using e by (simp add: entry_phase_def)
  ultimately have s: "same_turn s0 (check_pending_action (p_ttl p) t s a)"
    by (simp add: same_turn_def)
  show ?thesis
  proof (cases "pa_status a = PA_PENDING")
    case True
    let ?c = "check_pending_action (p_ttl p) t s a"
    have "plain_reply ?c \<or> s_confirmation ?c = Some ''inspect_interruption'' \<and> s_interruption_pending ?c"
      using False True
      by (cases "is_expired a t (p_ttl p)") (simp_all add: check_pending_action_def Let_def plain_replyI)
    then show ?thesis using s by (elim disjE conjE) (simp_all add: checkedI)
  next
    case other: False
    let ?c = "check_pending_action (p_ttl p) t s a"
    have "plain_reply ?c \<or> s_confirmation ?c = Some ''normal'' \<and> s_pending ?c = None"
      using other by (simp add: check_pending_action_def Let_def plain_replyI)
    then show ?thesis using s by (elim disjE conjE) (simp_all add: checkedI)
  qed
qed

lemma check_no_pending_cases:
  assumes "s_pending s = None"
  shows "plain_reply (check_no_pending s) \<or>
    s_confirmation (check_no_pending s) = Some ''normal'' \<and> s_pending (check_no_pending s) = None"
proof (cases "is_resume_request (latest_user_message s)")
  case True
  then show ?thesis
    by (cases "s_suspended s = None") (simp_all add: check_no_pending_def plain_replyI)
next
  case False
  then show ?thesis using assms
    by (cases "parse_confirmation (latest_user_message s) = ''ambiguous''")
       (simp_all add: check_no_pending_def plain_replyI)
qed

lemma inspect_checked:
  assumes e: "entry_phase s0 s" and i: "inspect_pending p s w = (t, w1)"
  shows "checked p s0 t"
proof -
  obtain ctx where ctx: "s_context s = Some ctx" using entry_context [OF e] by blast
  have st: "same_turn s0 s" using e by (simp add: entry_phase_def)
  show ?thesis
  proof (cases "s_pending s")
    case None
    then have t: "t = check_no_pending s" using i by (simp add: inspect_pending_def)
    have "same_turn s0 t" using st by (simp add: t check_no_pending_def Let_def same_turn_def)
    then show ?thesis using check_no_pending_cases [OF None] t by (elim disjE conjE) (simp_all add: checkedI)
  next
    case (Some a)
    show ?thesis
    proof (cases "belongs_to_context a ctx")
      case False
      then have "s_confirmation t = Some ''ownership_error''" "same_turn s t"
        using Some ctx i by (auto simp: inspect_pending_def same_turn_def)
      then show ?thesis using st by (intro checkedI(4)) (simp_all add: same_turn_def plain_replyI)
    next
      case b: True
      show ?thesis
      proof (cases "pa_status a = PA_PENDING")
        case True
        then have "t = check_pending_action (p_ttl p) (fst (now p w)) s a"
          using Some ctx b i by (auto simp: inspect_pending_def split: prod.splits)
        then show ?thesis
          using check_action_checked [OF e Some ctx b, of "fst (now p w)" p "w_env w"] by (simp add: now_time)
      next
        case False
        then have "t = check_pending_action (p_ttl p) 0 s a"
          using Some ctx b i by (auto simp: inspect_pending_def)
        then show ?thesis using check_action_checked [OF e Some ctx b, of 0 p] False by simp
      qed
    qed
  qed
qed

lemma check_phase:
  assumes "entry_phase s0 s" and "check_pending p s w = (Inr t, w1)" and "after_pending t = m"
  shows "phase p s0 m t w1"
proof -
  obtain w2 where "inspect_pending p s w = (t, w2)"
    using assms(2) by (auto simp: check_pending_def after_Inr_iff split: prod.splits)
  from inspect_checked [OF assms(1) this] show ?thesis using assms(3) by (rule checked_phase)
qed

section \<open>Restoring, resuming, understanding\<close>

lemma restore_phase:
  assumes "same_turn s0 s" and c: "confirmed_by p s0 s" and r: "restore_pending p s w = (Inr t, w1)"
    and m: "after_pending_restore t = m"
  shows "phase p s0 m t w1"
proof -
  have "same_turn s t \<and> s_pending t = s_pending s \<and> s_confirmation t = s_confirmation s"
    using r by (auto simp: restore_pending_def deny_restore_def same_turn_def Let_def result_simps
        split: option.splits if_splits)
  then have "same_turn s0 t" "confirmed_by p s0 t"
    using assms(1) c by (auto simp: same_turn_def confirmed_by_def)
  then show ?thesis using m by (auto simp: after_pending_restore_def compiling_def split: if_splits)
qed

lemma resume_effect:
  assumes "resume_workflow s w = (Inr t, w1)"
  shows "same_turn s t \<and> s_pending t = s_pending s \<and> s_confirmation t = s_confirmation s"
proof -
  have r: "same_turn s (resume_reason m d es rs s) \<and> s_pending (resume_reason m d es rs s) = s_pending s \<and>
      s_confirmation (resume_reason m d es rs s) = s_confirmation s" for m d es rs
    by (simp add: resume_reason_def interruption_or_wait_def partial_resume_def finish_resume_def
        same_turn_def Let_def)
  show ?thesis
    using assms r by (auto simp: resume_workflow_def reset_workflow_def interruption_or_wait_def
        same_turn_def Let_def split: option.splits if_splits)
qed

lemma resume_phase:
  assumes "same_turn s0 s" and "unconfirmed s" and "s_pending s = None"
    and r: "resume_workflow s w = (Inr t, w1)" and m: "after_workflow_resume t = m"
  shows "phase p s0 m t w1"
proof -
  have "same_turn s0 t" "unconfirmed t" "s_pending t = None"
    using resume_effect [OF r] assms(1-3) by (auto simp: same_turn_def unconfirmed_def)
  then show ?thesis using m by (auto simp: after_workflow_resume_def compiling_def split: if_splits)
qed

text \<open>Understanding a request leaves the pending action and the confirmation alone.\<close>

lemma ask_provider_effect:
  assumes "ask_provider p ctx s w = (Inr t, w1)"
  shows "same_turn s t \<and> s_pending t = s_pending s \<and> s_confirmation t = s_confirmation s \<and>
         s_interruption_pending t = s_interruption_pending s"
proof -
  have a: "same_turn s t \<and> s_pending t = s_pending s \<and> s_confirmation t = s_confirmation s \<and>
         s_interruption_pending t = s_interruption_pending s"
    if "accept_proposal m d s = Inr t" for m d
    using that by (cases d) (auto simp: accept_proposal_def same_turn_def result_simps)
  show ?thesis
    using assms a
    by (auto simp: ask_provider_def llm_failure_def same_turn_def
        split: sum.splits prod.splits option.splits if_splits)
qed

lemma understand_effect:
  assumes "understand_request p s w = (Inr t, w1)"
  shows "same_turn s t \<and> s_pending t = s_pending s \<and> s_confirmation t = s_confirmation s \<and>
         s_interruption_pending t = s_interruption_pending s"
proof (cases "(\<exists>ctx. ask_provider p ctx s w = (Inr t, w1))")
  case True
  then show ?thesis using ask_provider_effect by blast
next
  case False
  then show ?thesis
    using assms by (auto simp: understand_request_def understood_def same_turn_def Let_def result_simps
        split: option.splits if_splits)
qed

lemma understand_phase:
  assumes "same_turn s0 s" and "unconfirmed s" and i: "s_pending s = None \<or> s_interruption_pending s"
    and r: "understand_request p s w = (Inr t, w1)" and m: "after_understanding t = m"
  shows "phase p s0 m t w1"
proof -
  have "same_turn s0 t" "unconfirmed t" "s_pending t = None \<or> s_interruption_pending t"
    using understand_effect [OF r] assms(1-3) by (auto simp: same_turn_def unconfirmed_def)
  then show ?thesis using m by (auto simp: after_understanding_def compiling_def split: if_splits)
qed

lemma interruption_phase:
  assumes "same_turn s0 s" and r: "handle_workflow_interruption s w = (Inr t, w1)"
    and m: "after_workflow_interruption t = m"
  shows "phase p s0 m t w1"
proof (cases "\<exists>k. t = continue_workflow k s")
  case True
  then have "m = RESPOND" "same_turn s0 t"
    using m assms(1) by (auto simp: after_workflow_interruption_def continue_workflow_def same_turn_def)
  then show ?thesis by simp
next
  case False
  then obtain k j where "t = leave_workflow k j s"
    using r by (auto simp: handle_workflow_interruption_def split: option.splits if_splits)
  then have "m = COMPILE_DECISION" "same_turn s0 t" "unconfirmed t" "s_pending t = None"
    using m assms(1)
    by (auto simp: after_workflow_interruption_def leave_workflow_def same_turn_def unconfirmed_def Let_def)
  then show ?thesis by (simp add: compiling_def)
qed

section \<open>Compiling, selecting, validating\<close>

definition same_path :: "agent_state \<Rightarrow> agent_state \<Rightarrow> bool" where
  "same_path s t \<longleftrightarrow> same_turn s t \<and> s_pending t = s_pending s \<and> s_confirmation t = s_confirmation s"

lemma same_path_compiling:
  assumes "same_path s t" and "same_turn s0 s" and "compiling p s0 s"
  shows "same_turn s0 t \<and> compiling p s0 t"
  using assms by (auto simp: same_path_def same_turn_def compiling_def confirmed_by_def unconfirmed_def)

lemma compile_effect:
  assumes "compile_decision p s w = (Inr t, w1)"
  shows "same_path s t"
proof -
  have "same_path s (compile_rejected r d g adm s)" "same_path s (compile_accepted r d g adm s)"
    for r d g adm
    by (simp_all add: compile_rejected_def compile_accepted_def same_path_def same_turn_def Let_def)
  then show ?thesis
    using assms by (auto simp: compile_decision_def Let_def same_path_def split: option.splits if_splits)
qed

lemma select_effect: "select_tool s w = (Inr t, w1) \<Longrightarrow> same_path s t"
  by (auto simp: select_tool_def same_path_def same_turn_def split: if_splits)

lemma validate_effect: "validate_tool p s w = (Inr t, w1) \<Longrightarrow> same_path s t"
  by (auto simp: validate_tool_def reject_tool_def same_path_def same_turn_def Let_def
      split: option.splits sum.splits if_splits)

lemma validate_phase:
  assumes "same_turn s0 s" and "compiling p s0 s" and r: "validate_tool p s w = (Inr t, w1)"
    and m: "after_validation t = m"
  shows "phase p s0 m t w1"
  using same_path_compiling [OF validate_effect [OF r] assms(1,2)] m
  by (auto simp: after_validation_def compiling_def unconfirmed_def confirmed_by_def split: if_splits)

section \<open>Policy\<close>

lemma action_id_or_fresh_nonempty:
  "action_id_or_fresh p s w = (i, w1) \<Longrightarrow> i \<noteq> []"
  by (auto simp: action_id_or_fresh_def fresh_action_id_def split: prod.splits if_splits)

lemma evaluate_phase:
  assumes "same_turn s0 s" and "unconfirmed s" and "s_pending s = None"
    and r: "evaluate_policy p s w = (Inr t, w1)"
  shows "phase p s0 INSPECT_RISK t w1"
proof (cases "or_text (s_tool s) [] = [] \<or> s_context s = None")
  case True
  then have "s_error t \<noteq> None \<and> same_turn s t"
    using r by (auto simp: evaluate_policy_def deny_node_def same_turn_def Let_def split: option.splits if_splits)
  then show ?thesis using assms(1) by (auto simp: same_turn_def)
next
  case False
  then obtain ctx name where ctx: "s_context s = Some ctx" and name: "s_tool s = Some name" "name \<noteq> []"
    by (auto simp: or_text_def split: option.splits if_splits)
  let ?d = "evaluate_default_policy name ctx (s_arguments s)"
  obtain i w2 where i: "action_id_or_fresh p s w = (i, w2)" by fastforce
  have t: "t = s\<lparr>s_policy := Some ?d, s_action_id := Some i\<rparr> \<or>
      t = deny_node EC_POLICY_DENIED ''Policy denied the selected action.''
            (s\<lparr>s_policy := Some ?d, s_action_id := Some i\<rparr>)"
    using r ctx name i
    by (auto simp: evaluate_policy_def or_text_def Let_def after_Inr_iff split: prod.splits if_splits)
  have st: "same_turn s0 t" "s_pending t = None" "unconfirmed t" "s_context t = Some ctx" "s_tool t = Some name"
    "s_arguments t = s_arguments s" "s_policy t = Some ?d" "s_action_id t = Some i"
    using t assms(1-3) ctx name(1) by (auto simp: same_turn_def deny_node_def unconfirmed_def)
  moreover have "judged (d_outcome ?d) t"
    using st name(2) action_id_or_fresh_nonempty [OF i] by (simp add: judged_def or_text_def)
  ultimately show ?thesis by auto
qed

lemma inspect_phase:
  assumes "phase p s0 INSPECT_RISK s w" and m: "after_policy s = m"
  shows "phase p s0 m s w"
proof (cases "s_error s = None \<and> s_policy s \<noteq> None")
  case False
  then show ?thesis using assms by (auto simp: after_policy_def)
next
  case True
  then obtain out where j: "judged out s" using assms(1) by auto
  then have "\<exists>d. s_policy s = Some d \<and> d_outcome d = out" by (auto simp: judged_def)
  then show ?thesis using True j assms by (cases out) (auto simp: after_policy_def)
qed

end
