(* ===== verification/Turn_Safety.thy ===== *)
theory Turn_Safety
  imports Turn_Phases
begin

text \<open>
  What a turn may do: revalidation, the phase of every node a turn reaches, and what each node may
  change in the business rows.
\<close>

section \<open>Revalidation\<close>

lemma fail_revalidation_error [simp]: "s_error (fail_revalidation c m s) \<noteq> None"
  by (simp add: fail_revalidation_def Let_def)

lemma stage_error [simp]: "s_error (stage a b s) = s_error s"
  by (simp add: stage_def Let_def)

lemma revalidate_inputs_allowed:
  assumes "s_error (revalidate_inputs p st ctx a inp s) = None" and "s_context s = Some ctx"
    and "belongs_to_context a ctx" and "get_agent_tool_definition (pa_tool a) = Some model"
    and "validate_input (p_coercion p) model (restore_pending_arguments a) = Inr inp"
  shows "revalidated p s st a inp \<and>
         (\<exists>s1. revalidate_inputs p st ctx a inp s = stage ''complete'' ''allowed'' (restored_state a inp s1) \<and>
               same_path s s1)"
  using assms
  by (auto simp: revalidate_inputs_def revalidated_def Let_def trace_inputs_def same_path_def same_turn_def
      split: if_splits sum.splits bool.splits)

lemma restored_path: "same_path s (stage a b (restored_state pa inp s))"
  by (auto simp: same_path_def same_turn_def restored_state_def stage_def Let_def split: option.splits)

lemma restored_call:
  "s_tool (stage a b (restored_state pa inp s)) = Some (pa_tool pa)"
  "s_arguments (stage a b (restored_state pa inp s)) = dump_input inp"
  by (auto simp: restored_state_def stage_def Let_def split: option.splits)

lemma same_path_trans: "same_path s t \<Longrightarrow> same_path t u \<Longrightarrow> same_path s u"
  by (simp add: same_path_def same_turn_def)

text \<open>A revalidation without an error has established its judgement on the rows it read.\<close>

lemma revalidate_action_allowed:
  assumes "s_error (revalidate_action p st a s) = None"
  shows "\<exists>inp. revalidated p s st a inp \<and> same_path s (revalidate_action p st a s) \<and>
    s_tool (revalidate_action p st a s) = Some (pa_tool a) \<and>
    s_arguments (revalidate_action p st a s) = dump_input inp"
proof -
  obtain ctx model inp where c: "s_context s = Some ctx" "belongs_to_context a ctx"
      "get_agent_tool_definition (pa_tool a) = Some model"
      "validate_input (p_coercion p) model (restore_pending_arguments a) = Inr inp"
    and q: "revalidate_action p st a s = revalidate_inputs p st ctx a inp s"
    using assms by (auto simp: revalidate_action_def split: option.splits sum.splits if_splits)
  obtain s1 where s1: "revalidated p s st a inp" "same_path s s1"
      "revalidate_inputs p st ctx a inp s = stage ''complete'' ''allowed'' (restored_state a inp s1)"
    using revalidate_inputs_allowed [OF _ c] assms q by auto
  then show ?thesis using q same_path_trans [OF s1(2) restored_path] restored_call by metis
qed

lemma record_revalidation_work:
  assumes "record_revalidation_event p s r a w = (Inr u, w1)"
  shows "work (w_session w1) = work (w_session w)"
proof (cases "s_context s")
  case None
  then show ?thesis using assms by (simp add: record_revalidation_event_def)
next
  case (Some ctx)
  obtain t w2 where n: "now p w = (t, w2)" by fastforce
  then have "w_session w2 = w_session w" using now_session(1) [of p w] by simp
  then show ?thesis using assms
    by (auto simp: record_revalidation_event_def Some n Let_def dest: write_audit_work)
qed

lemma revalidated_context:
  "s_context t = s_context s \<Longrightarrow> revalidated p t st a inp = revalidated p s st a inp"
  by (simp add: revalidated_def)

lemma same_path_confirmed:
  "same_path s t \<Longrightarrow> confirmed_by p s0 s \<Longrightarrow> confirmed_by p s0 t"
  by (simp add: same_path_def confirmed_by_def)

lemma revalidate_phase:
  assumes "same_turn s0 s" and "confirmed_by p s0 s" and r: "revalidate p s w = (Inr t, w1)"
    and m: "after_revalidation t = m"
  shows "phase p s0 m t w1"
proof -
  obtain a where a: "s_pending s = Some a" "pa_status a = PA_CONFIRMED"
    using assms(2) by (auto simp: confirmed_by_def)
  then have t: "t = revalidate_action p (work (w_session w)) a s"
    using r by (simp add: revalidate_def Let_def after_Inr_iff)
  have e: "record_revalidation_event p s t a w = (Inr (), w1)"
    using r a unfolding t by (simp add: revalidate_def Let_def after_Inr_iff)
  show ?thesis
  proof (cases "s_error t = None")
    case True
    then obtain inp where v: "revalidated p s (work (w_session w)) a inp" "same_path s t"
        "s_tool t = Some (pa_tool a)" "s_arguments t = dump_input inp"
      using revalidate_action_allowed t by blast
    then have "same_turn s0 t" "confirmed_by p s0 t" "s_pending t = Some a" "s_context t = s_context s"
      using assms(1,2) a(1) same_path_confirmed [OF v(2)] by (auto simp: same_path_def same_turn_def)
    moreover have "m = EXECUTE_CONFIRMED_ACTION" using m True by (simp add: after_revalidation_def)
    ultimately show ?thesis
      using v record_revalidation_work [OF e] revalidated_context [of t s p "work (w_session w)" a inp]
      by (auto intro!: exI [of _ inp])
  next
    case False
    have "same_turn s t"
      unfolding t by (auto simp: revalidate_action_def revalidate_inputs_def fail_revalidation_def
          stage_def trace_inputs_def restored_state_def same_turn_def Let_def
          split: option.splits sum.splits bool.splits)
    then show ?thesis using m False assms(1) by (simp add: after_revalidation_def same_turn_def)
  qed
qed

section \<open>The acting nodes keep the identity of the turn\<close>

lemma audited_result: "audit_or_raise p b s st f r w = (Inr t, w1) \<Longrightarrow> t = r"
  by (auto simp: audit_or_raise_def split: if_splits prod.splits sum.splits)

lemma execution_failed_turn: "execution_failed p b s x w = (Inr t, w1) \<Longrightarrow> same_turn s t"
  by (auto simp: execution_failed_def fail_execution_def same_turn_def Let_def
      split: option.splits if_splits dest!: audited_result)

lemma run_execution_turn: "run_execution p ctx name inp sc b c s w = (Inr t, w1) \<Longrightarrow> same_turn s t"
  by (auto simp: run_execution_def execution_done_def same_turn_def
      split: prod.splits sum.splits if_splits dest!: audited_result
        execution_failed_turn [unfolded same_turn_def])

lemma execute_tool_turn: "execute_tool p s w = (Inr t, w1) \<Longrightarrow> same_turn s t"
  by (auto simp: execute_tool_def start_write_def after_Inr_iff fail_execution_def
      split: option.splits sum.splits if_splits
      dest: run_execution_turn) (simp_all add: same_turn_def)

lemma execute_confirmed_turn: "execute_confirmed p s w = (Inr t, w1) \<Longrightarrow> same_turn s t"
  by (auto simp: execute_confirmed_def after_Inr_iff same_turn_def split: option.splits
      dest!: execute_tool_turn [unfolded same_turn_def])

lemma escalation_failed_turn: "escalation_failed p b s x w = (Inr t, w1) \<Longrightarrow> same_turn s t"
  by (auto simp: escalation_failed_def fail_execution_def same_turn_def after_Inr_iff Let_def
      split: if_splits)

lemma escalation_turn: "execute_human_escalation p s w = (Inr t, w1) \<Longrightarrow> same_turn s t"
  by (auto simp: execute_human_escalation_def start_escalation_def run_escalation_def execution_done_def
      fail_execution_def after_Inr_iff split: option.splits sum.splits prod.splits if_splits
      dest: escalation_failed_turn) (simp_all add: same_turn_def)

lemma create_turn: "create_pending p s w = (Inr t, w1) \<Longrightarrow> same_turn s t"
  by (auto simp: create_pending_def same_turn_def split: option.splits prod.splits if_splits)

lemma memory_turn: "memory_action p s w = (Inr t, w1) \<Longrightarrow> same_turn s t"
  by (auto simp: memory_action_def remember_memory_def forget_memory_def memory_failure_def
      reject_memory_def same_turn_def Let_def split: option.splits sum.splits if_splits)

lemma knowledge_turn: "retrieve_knowledge p s w = (Inr t, w1) \<Longrightarrow> same_turn s t"
  by (auto simp: retrieve_knowledge_def retrieval_failed_def same_turn_def Let_def result_simps
      split: option.splits sum.splits prod.splits)

lemma restore_suspended_turn: "restore_suspended_workflow p s w = (Inr t, w1) \<Longrightarrow> same_turn s t"
  by (auto simp: restore_suspended_workflow_def resume_common_def deny_resume_def same_turn_def
      split: option.splits if_splits)

lemma same_turn_trans: "same_turn s0 s \<Longrightarrow> same_turn s t \<Longrightarrow> same_turn s0 t"
  by (simp add: same_turn_def)

section \<open>Every node of a turn is in its phase\<close>

lemma selection_phase:
  assumes "same_turn s0 s" and "compiling p s0 s" and "select_tool s w = (Inr t, w1)"
    and m: "after_selection t = m"
  shows "phase p s0 m t w1"
  using same_path_compiling [OF select_effect [OF assms(3)] assms(1,2)] m
  by (auto simp: after_selection_def split: if_splits)

lemma policy_phase_identity: "inspect_risk s w = (Inr t, w1) \<longleftrightarrow> t = s \<and> w1 = w"
  by (auto simp: inspect_risk_def)

lemma node_phase:
  assumes "phase p s0 n s w" and r: "run_node p n s w = (Inr t, w1)" and m: "next_node n t = Some m"
  shows "phase p s0 m t w1"
proof (cases n)
  case LOAD_CONTEXT
  then show ?thesis using assms load_phase by fastforce
next
  case SECURITY_BOUNDARY
  then show ?thesis using assms security_phase by fastforce
next
  case RETRIEVE_MEMORY
  then show ?thesis using assms memory_phase by fastforce
next
  case CHECK_PENDING_ACTION
  then show ?thesis using assms check_phase by fastforce
next
  case RESTORE_PENDING_ACTION
  then show ?thesis using assms restore_phase by fastforce
next
  case RESUME_WORKFLOW
  then show ?thesis using assms resume_phase by fastforce
next
  case UNDERSTAND_REQUEST
  then show ?thesis using assms understand_phase by fastforce
next
  case HANDLE_WORKFLOW_INTERRUPTION
  then show ?thesis using assms interruption_phase by fastforce
next
  case COMPILE_DECISION
  then show ?thesis using assms same_path_compiling [OF compile_effect] by fastforce
next
  case SELECT_TOOL_OR_RESPONSE
  then show ?thesis using assms selection_phase by fastforce
next
  case VALIDATE_TOOL
  then show ?thesis using assms validate_phase by fastforce
next
  case EVALUATE_POLICY
  then show ?thesis using assms evaluate_phase by fastforce
next
  case INSPECT_RISK
  then show ?thesis using assms inspect_phase [of p s0 s w m] by (simp add: policy_phase_identity)
next
  case POLICY_REVALIDATION
  then show ?thesis using assms revalidate_phase by fastforce
next
  case EXECUTE_TOOL
  then have "m = RESPOND \<or> m = RETRIEVE_KNOWLEDGE"
    using m by (auto simp: after_execution_def split: if_splits)
  then show ?thesis using EXECUTE_TOOL assms(1) r execute_confirmed_turn same_turn_trans by fastforce
next
  case CREATE_PENDING_ACTION
  then show ?thesis using assms create_turn same_turn_trans by fastforce
next
  case EXECUTE_CONFIRMED_ACTION
  then show ?thesis using assms execute_confirmed_turn same_turn_trans by fastforce
next
  case EXECUTE_HUMAN_ESCALATION
  then show ?thesis using assms escalation_turn same_turn_trans by fastforce
next
  case MEMORY_ACTION
  then show ?thesis using assms memory_turn same_turn_trans by fastforce
next
  case RETRIEVE_KNOWLEDGE
  then show ?thesis using assms knowledge_turn same_turn_trans by fastforce
next
  case RESTORE_SUSPENDED_WORKFLOW
  then show ?thesis using assms restore_suspended_turn same_turn_trans by fastforce
qed (use m in auto)

theorem reaches_phase: "reaches p s0 w0 n s w \<Longrightarrow> phase p s0 n s w"
  by (induction rule: reaches.induct) (simp, erule (2) node_phase)

end
