(* ===== verification/Turn_Effects.thy ===== *)
theory Turn_Effects
  imports Turn_Safety Tools_Laws Retry_Laws
begin

text \<open>
  What a turn may change in the orders and refunds: an interface for properties of the business
  session that rolling back and committing keep, one lemma per node inside it, its instances for a session
  without uncommitted rows and for the order and refund rows, and the lemma that a run that changed
  these has executed a confirmed action.
\<close>

section \<open>A run and the nodes it reaches\<close>

lemma run_from_node:
  assumes "run_from p n s w = (r, t, w', ns)"
  shows "(\<exists>x. run_node p n s w = (Inl x, w') \<and> r = Some x \<and> t = s \<and> ns = [n]) \<or>
    (run_node p n s w = (Inr t, w') \<and> next_node n t = None \<and> r = None \<and> ns = [n]) \<or>
    (\<exists>u w1 m ms. run_node p n s w = (Inr u, w1) \<and> next_node n u = Some m \<and>
       run_from p m u w1 = (r, t, w', ms) \<and> ns = n # ms)"
  using assms by (subst (asm) run_from.simps) (auto split: sum.splits option.splits prod.splits)

text \<open>The last node a run visits, and what each visited node started from.\<close>

lemma run_from_last:
  assumes "run_from p n s w = (r, t, w', ns)" and "reaches p s0 w0 n s w"
  shows "\<exists>m u v. reaches p s0 w0 m u v \<and> snd (run_node p m u v) = w' \<and> last ns = m \<and>
    (case r of None \<Rightarrow> fst (run_node p m u v) = Inr t \<and> next_node m t = None
     | Some x \<Rightarrow> fst (run_node p m u v) = Inl x \<and> t = u)"
  using assms
proof (induction "rank n" arbitrary: n s w ns rule: less_induct)
  case less
  from run_from_node [OF less.prems(1)] show ?case
  proof (elim disjE exE conjE)
    fix u w1 m ms
    assume n: "run_node p n s w = (Inr u, w1)" "next_node n u = Some m"
      and r: "run_from p m u w1 = (r, t, w', ms)" and ns: "ns = n # ms"
    have "ms \<noteq> []" using run_from_node [OF r] by auto
    then show ?thesis
      using less.hyps [OF next_node_rank [OF n(2)] r reaches.step [OF less.prems(2) n]] ns by simp
  next
    assume "run_node p n s w = (Inr t, w')" "next_node n t = None" "r = None" "ns = [n]"
    then show ?thesis using less.prems(2) by (intro exI [of _ n] exI [of _ s] exI [of _ w]) simp
  qed (use less.prems(2) in auto)
qed

lemma run_from_visited:
  assumes "run_from p n s w = (r, t, w', ns)" and "reaches p s0 w0 n s w" and "m \<in> set ns"
  shows "\<exists>u v. reaches p s0 w0 m u v"
  using assms
proof (induction "rank n" arbitrary: n s w ns rule: less_induct)
  case less
  from run_from_node [OF less.prems(1)] show ?case
  proof (elim disjE exE conjE)
    fix u w1 k ms
    assume n: "run_node p n s w = (Inr u, w1)" "next_node n u = Some k"
      and r: "run_from p k u w1 = (r, t, w', ms)" and ns: "ns = n # ms"
    show ?thesis
    proof (cases "m = n")
      case False
      then show ?thesis
        using less.hyps [OF next_node_rank [OF n(2)] r reaches.step [OF less.prems(2) n]] less.prems(3) ns by simp
    qed (use less.prems(2) in auto)
  qed (use less.prems(2,3) in auto)
qed

text \<open>Conversely, a run visits every node it reaches.\<close>

lemma reaches_visited:
  assumes "reaches p s0 w0 m u v" and "run_from p LOAD_CONTEXT s0 w0 = (r, t, w', ns)"
  shows "m \<in> set ns \<and> (\<exists>ms. run_from p m u v = (r, t, w', ms) \<and> set ms \<subseteq> set ns)"
  using assms(1)
proof (induction rule: reaches.induct)
  case start
  have "LOAD_CONTEXT \<in> set ns" using run_from_node [OF assms(2)] by auto
  then show ?case using assms(2) by auto
next
  case (step n s w u w1 m)
  then obtain ms where "run_from p n s w = (r, t, w', ms)" "set ms \<subseteq> set ns" by blast
  from run_from_node [OF this(1)] step.hyps(2,3) this(2) obtain ks where
    k: "run_from p m u w1 = (r, t, w', ks)" "set ks \<subseteq> set ns" by auto
  then show ?case using run_from_node [OF k(1)] by auto
qed

section \<open>Calls keep what their operation keeps\<close>

lemma step_world_kept:
  assumes "\<And>w. P w \<Longrightarrow> P (step_world c w)" and "P w"
  shows "P ((step_world c ^^ k) w)"
  using assms by (induction k) auto

lemma call_session_kept:
  assumes "\<And>ss. P ss \<Longrightarrow> P (snd (f ss))" and "P (w_session w)"
  shows "P (w_session (snd (call_session p f dep op ident w)))"
proof -
  let ?c = "make_call p f dep op ident False None"
  obtain r n ctl e ss where q:
    "run_with_retry ?c (w_controller w, w_env w, w_session w) = (r, n, ctl, e, ss)"
    by (metis prod_cases5)
  have "ss = (step_world ?c ^^ n) (w_session w)"
    using run_with_retry_explain [OF q] by (simp add: attempts_explain_def)
  moreover have "P (step_world ?c ss)" if "P ss" for ss
    using assms(1) [OF that] by (simp add: step_world_def make_call_def)
  ultimately have "P ss" using step_world_kept [of P ?c] assms(2) by blast
  then show ?thesis by (simp add: call_session_def q)
qed

lemma call_service_session: "w_session (snd (call_service p f dep ident limited t w)) = w_session w"
  by (simp add: call_service_def split: prod.split)

section \<open>An interface: facts of the session that a turn keeps\<close>

locale steady_session =
  fixes p :: "'e platform" and P :: "session \<Rightarrow> bool"
  assumes rollback_kept: "P ss \<Longrightarrow> P (rollback (p_db p) ss)"
    and commit_kept: "P ss \<Longrightarrow> P (ss\<lparr>durable := work ss\<rparr>)"
begin

abbreviation steady :: "'e world \<Rightarrow> bool" where
  "steady w \<equiv> P (w_session w)"

lemma audit_kept: "steady w \<Longrightarrow> steady (snd (write_audit p e w))"
proof -
  assume s: "steady w"
  have "P (audit_session (p_db p) g e' l (w_session w))" for g e' l
    using s by (cases l) (simp_all add: rollback_kept commit_kept split: option.split)
  then show ?thesis using s by (simp add: write_audit_def split: sum.split prod.split)
qed

lemma now_kept: "steady w \<Longrightarrow> steady (snd (now p w))"
  by simp

lemma after_kept:
  assumes "steady (snd q)" and "\<And>a w. steady w \<Longrightarrow> steady (snd (f a w))"
  shows "steady (snd (after q f))"
  using assms by (cases q; cases "fst q") auto

lemma roll_kept: "steady w \<Longrightarrow> steady (roll p w)"
  by (simp add: roll_def rollback_kept)

lemma event_kept:
  assumes "steady w"
  shows "steady (snd (case now p w of (t, w1) \<Rightarrow> write_audit p (g t) w1))"
  using audit_kept [of "snd (now p w)"] now_kept [OF assms] by (simp add: case_prod_beta)

lemma execution_event_kept: "steady w \<Longrightarrow> steady (snd (record_execution_event p s st f w))"
  using event_kept by (simp add: record_execution_event_def Let_def split: option.split)

lemma confirmation_event_kept: "steady w \<Longrightarrow> steady (snd (record_confirmation_event p s r w))"
  using event_kept by (simp add: record_confirmation_event_def split: option.split)

lemma revalidation_event_kept: "steady w \<Longrightarrow> steady (snd (record_revalidation_event p s r a w))"
  using event_kept by (simp add: record_revalidation_event_def Let_def split: option.split)

lemma audit_or_raise_kept: "steady w \<Longrightarrow> steady (snd (audit_or_raise p b s st f r w))"
  using execution_event_kept [of w s st f] roll_kept
  by (auto simp: audit_or_raise_def split: prod.split sum.split)

lemma execution_failed_kept: "steady w \<Longrightarrow> steady (snd (execution_failed p b s x w))"
  by (simp add: execution_failed_def Let_def audit_or_raise_kept roll_kept split: option.split)

lemma escalation_failed_kept:
  assumes "steady w"
  shows "steady (snd (escalation_failed p b s x w))"
proof -
  have r: "steady (snd (if b then after (record_execution_event p s st f w1) (\<lambda>u w2. (Inr r, w2)) else (Inr r, w1)))"
    if "steady w1" for st f w1 and r :: agent_state
    using that by (simp add: after_kept execution_event_kept)
  show ?thesis using assms r roll_kept by (simp add: escalation_failed_def Let_def)
qed

text \<open>A tool that keeps the fact on the rows it works on keeps it when attempted.\<close>

lemma attempt_kept:
  assumes run: "\<And>ss. P ss \<Longrightarrow> P (ss\<lparr>work := snd (run_tool (p_db p) ctx name inp sc (work ss))\<rparr>)" and "P ss"
  shows "P (snd (tool_attempt (p_db p) ctx name inp sc b ss))"
proof -
  let ?s1 = "ss\<lparr>work := snd (run_tool (p_db p) ctx name inp sc (work ss))\<rparr>"
  have s1: "P ?s1" using run assms(2) by blast
  then have "P (snd (commit_business_write (p_db p) name ?s1))"
    using commit_kept [OF s1]
    by (auto simp: commit_business_write_def commit_def split: option.split sum.split prod.split)
  then show ?thesis using s1
    by (auto simp: tool_attempt_def rollback_kept split: sum.split prod.split)
qed

lemma run_execution_kept:
  assumes "\<And>ss. P ss \<Longrightarrow> P (snd (tool_attempt (p_db p) ctx name inp sc b ss))" and "steady w"
  shows "steady (snd (run_execution p ctx name inp sc b started s w))"
proof -
  let ?q = "call_session p (tool_attempt (p_db p) ctx name inp sc b) ''tool''
              (if b then ''write'' else ''read'') (''tool:'' @ name) w"
  have "steady (snd ?q)" using call_session_kept [of P] assms by blast
  then show ?thesis
    by (cases ?q; cases "fst ?q") (auto simp: run_execution_def execution_failed_kept audit_or_raise_kept)
qed

lemma start_write_kept:
  assumes "\<And>sc ss. P ss \<Longrightarrow> P (snd (tool_attempt (p_db p) ctx name inp sc True ss))" and "steady w"
  shows "steady (snd (start_write p ctx name inp action s w))"
  using assms(2) by (auto simp: start_write_def intro!: after_kept execution_event_kept run_execution_kept assms(1)
      split: sum.split)

definition steady_tool :: "execution_context \<Rightarrow> string \<Rightarrow> pyval dict \<Rightarrow> bool" where
  "steady_tool ctx name args \<longleftrightarrow>
     (\<forall>m inp sc ss. get_agent_tool_definition name = Some m \<and> validate_input (p_coercion p) m args = Inr inp \<and>
        P ss \<longrightarrow> P (snd (tool_attempt (p_db p) ctx name inp sc (is_write_tool name) ss)))"

lemma store_steady_tool:
  assumes "\<And>m inp sc ss. get_agent_tool_definition name = Some m \<Longrightarrow> validate_input (p_coercion p) m args = Inr inp \<Longrightarrow>
    P ss \<Longrightarrow> P (ss\<lparr>work := snd (run_tool (p_db p) ctx name inp sc (work ss))\<rparr>)"
  shows "steady_tool ctx name args"
  unfolding steady_tool_def using attempt_kept assms by blast

lemma steady_toolD:
  assumes "steady_tool ctx name args" and "get_agent_tool_definition name = Some m"
    and "validate_input (p_coercion p) m args = Inr inp" and "is_write_tool name = b" and "P ss"
  shows "P (snd (tool_attempt (p_db p) ctx name inp sc b ss))"
  using assms unfolding steady_tool_def by blast

lemma execute_tool_kept:
  assumes "\<And>ctx name. s_context s = Some ctx \<Longrightarrow> s_tool s = Some name \<Longrightarrow> steady_tool ctx name (s_arguments s)"
    and "steady w"
  shows "steady (snd (execute_tool p s w))"
  using assms
  by (auto simp: execute_tool_def intro!: run_execution_kept start_write_kept intro: steady_toolD
      split: option.split sum.split)

lemma execute_confirmed_kept:
  assumes "\<And>ctx name. s_context s = Some ctx \<Longrightarrow> s_tool s = Some name \<Longrightarrow> steady_tool ctx name (s_arguments s)"
    and "steady w"
  shows "steady (snd (execute_confirmed p s w))"
  unfolding execute_confirmed_def
  by (rule after_kept) (use execute_tool_kept [OF assms] in simp_all)

lemma run_escalation_kept:
  assumes "\<And>ss. P ss \<Longrightarrow> P (snd (tool_attempt (p_db p) ctx ''escalate_to_human'' inp (Some sc) True ss))"
    and "steady w"
  shows "steady (snd (run_escalation p ctx inp sc s w))"
proof -
  let ?q = "call_session p (tool_attempt (p_db p) ctx ''escalate_to_human'' inp (Some sc) True) ''tool''
              ''write'' ''tool:escalate_to_human'' w"
  have "steady (snd ?q)" using call_session_kept [of P] assms by blast
  then show ?thesis
    by (cases ?q; cases "fst ?q") (auto simp: run_escalation_def escalation_failed_kept
        intro!: after_kept execution_event_kept)
qed

lemma start_escalation_kept:
  assumes "\<And>sc ss. P ss \<Longrightarrow> P (snd (tool_attempt (p_db p) ctx ''escalate_to_human'' inp sc True ss))"
    and "steady w"
  shows "steady (snd (start_escalation p ctx inp action s w))"
proof -
  obtain r w1 where q: "record_execution_event p s ''attempted'' None w = (r, w1)" by fastforce
  then have w1: "steady w1" using execution_event_kept [OF assms(2), of s "''attempted''" None] by simp
  show ?thesis
  proof (cases "\<exists>u x. r = Inr u \<and> make_scope (actor_id (ctx_principal ctx)) action (ctx_tenant ctx) = Inl x")
    case True
    then obtain u x where x: "r = Inr u" "make_scope (actor_id (ctx_principal ctx)) action (ctx_tenant ctx) = Inl x"
      by blast
    let ?q = "call_session p (\<lambda>ss. (Inl x, rollback (p_db p) ss)) ''tool'' ''write'' ''tool:escalate_to_human'' w1
      :: (exn + tool_output) \<times> 'e world"
    have "steady (snd ?q)" by (rule call_session_kept [of P]) (simp_all add: rollback_kept w1)
    then show ?thesis using x
      by (cases ?q; cases "fst ?q") (simp_all add: start_escalation_def q escalation_failed_kept)
  next
    case False
    then show ?thesis using w1
      by (auto simp: start_escalation_def q escalation_failed_kept intro!: run_escalation_kept assms(1)
          split: sum.split)
  qed
qed

lemma execute_human_kept:
  assumes "\<And>ctx. s_context s = Some ctx \<Longrightarrow> steady_tool ctx ''escalate_to_human'' (s_arguments s)" and "steady w"
  shows "steady (snd (execute_human_escalation p s w))"
proof -
  have "get_agent_tool_definition ''escalate_to_human'' = Some EscalateToHumanInput"
    "is_write_tool ''escalate_to_human''"
    by (simp_all add: catalog_defs is_write_tool_def)
  then show ?thesis using assms
    by (auto simp: execute_human_escalation_def intro!: start_escalation_kept escalation_failed_kept
        intro: steady_toolD split: option.split sum.split)
qed

text \<open>Every node keeps the fact, when the tool it may run does.\<close>

definition steady_call :: "node_name \<Rightarrow> agent_state \<Rightarrow> bool" where
  "steady_call n s \<longleftrightarrow>
     (\<forall>ctx name. s_context s = Some ctx \<longrightarrow>
        (n \<in> {EXECUTE_TOOL, EXECUTE_CONFIRMED_ACTION} \<and> s_tool s = Some name \<or>
         n = EXECUTE_HUMAN_ESCALATION \<and> name = ''escalate_to_human'') \<longrightarrow>
        steady_tool ctx name (s_arguments s))"

lemma service_kept:
  "steady w \<Longrightarrow> call_service p f dep ident limited t w = (r, w1) \<Longrightarrow> steady w1"
  using call_service_session [of p f dep ident limited t w] by simp

lemma retrieve_kept: "steady w \<Longrightarrow> steady (snd (retrieve_memory p s w))"
  by (auto simp: retrieve_memory_def dest: service_kept split: option.split sum.split prod.split)

lemma knowledge_kept: "steady w \<Longrightarrow> steady (snd (retrieve_knowledge p s w))"
  by (auto simp: retrieve_knowledge_def dest: service_kept split: option.split sum.split prod.split)

lemma understand_kept: "steady w \<Longrightarrow> steady (snd (understand_request p s w))"
  by (auto simp: understand_request_def ask_provider_def Let_def dest: service_kept
      split: option.split sum.split prod.split)

lemma memory_action_kept: "steady w \<Longrightarrow> steady (snd (memory_action p s w))"
  by (auto simp: memory_action_def remember_memory_def forget_memory_def next_call_def split: option.split)

lemma check_kept: "steady w \<Longrightarrow> steady (snd (check_pending p s w))"
proof -
  assume s: "steady w"
  obtain t w1 where i: "inspect_pending p s w = (t, w1)" by fastforce
  have "w1 = w \<or> w1 = snd (now p w)"
    using i by (auto simp: inspect_pending_def split: option.splits if_splits prod.splits)
  then have "steady w1" using s now_kept [OF s] by auto
  then show ?thesis by (auto simp: check_pending_def i intro!: after_kept confirmation_event_kept)
qed

lemma fresh_kept: "steady w \<Longrightarrow> steady (snd (fresh_action_id p w))" "steady w \<Longrightarrow> steady (snd (action_id_or_fresh p s w))"
  by (auto simp: fresh_action_id_def action_id_or_fresh_def split: prod.split)

lemma evaluate_kept: "steady w \<Longrightarrow> steady (snd (evaluate_policy p s w))"
proof -
  assume s: "steady w"
  obtain i w1 where a: "action_id_or_fresh p s w = (i, w1)" by fastforce
  obtain t w2 where n: "now p w1 = (t, w2)" by fastforce
  have "steady w2" using fresh_kept(2) [OF s, of s] now_kept [of w1] a n by simp
  then show ?thesis
    using s by (auto simp: evaluate_policy_def Let_def a n intro!: after_kept audit_kept split: option.split)
qed

lemma revalidate_kept: "steady w \<Longrightarrow> steady (snd (revalidate p s w))"
  by (auto simp: revalidate_def Let_def intro!: after_kept revalidation_event_kept split: option.split)

lemma create_pending_kept: "steady w \<Longrightarrow> steady (snd (create_pending p s w))"
proof -
  assume s: "steady w"
  obtain i w1 where a: "action_id_or_fresh p s w = (i, w1)" by fastforce
  obtain t w2 where n: "now p w1 = (t, w2)" by fastforce
  have "steady w1" "steady w2" using fresh_kept(2) [OF s, of s] now_kept [of w1] a n by simp_all
  then show ?thesis
    using s by (auto simp: create_pending_def Let_def a n split: option.split)
qed

text \<open>The other nodes return the world they were given.\<close>

lemma pure_nodes:
  "snd (load_context s w) = w" "snd (security_boundary s w) = w" "snd (restore_pending p s w) = w"
  "snd (restore_suspended_workflow p s w) = w" "snd (resume_workflow s w) = w"
  "snd (handle_workflow_interruption s w) = w" "snd (compile_decision p s w) = w"
  "snd (select_tool s w) = w" "snd (validate_tool p s w) = w" "snd (inspect_risk s w) = w"
  "snd (respond p s w) = w"
  by (simp_all add: load_context_def security_boundary_def restore_pending_def
      restore_suspended_workflow_def resume_workflow_def handle_workflow_interruption_def
      compile_decision_def select_tool_def validate_tool_def inspect_risk_def respond_def Let_def
      split: option.split)

lemma node_kept:
  assumes "steady w" and "steady_call n s"
  shows "steady (snd (run_node p n s w))"
proof (cases n)
  case EXECUTE_TOOL
  then show ?thesis using assms execute_confirmed_kept by (simp add: steady_call_def)
next
  case EXECUTE_CONFIRMED_ACTION
  then show ?thesis using assms execute_confirmed_kept by (simp add: steady_call_def)
next
  case EXECUTE_HUMAN_ESCALATION
  then show ?thesis using assms execute_human_kept by (simp add: steady_call_def)
qed (use assms(1) in \<open>simp_all add: pure_nodes retrieve_kept knowledge_kept understand_kept
      memory_action_kept check_kept evaluate_kept revalidate_kept create_pending_kept\<close>)

text \<open>So does a whole run, when every call it reaches does.\<close>

lemma reaches_kept:
  assumes "reaches p s0 w0 n s w" and "steady w0"
    and "\<And>m t v. reaches p s0 w0 m t v \<Longrightarrow> rank n < rank m \<Longrightarrow> steady_call m t"
  shows "steady w"
  using assms(1,3)
proof (induction rule: reaches.induct)
  case start
  then show ?case using assms(2) by simp
next
  case (step n s w t w1 m)
  note r = next_node_rank [OF step.hyps(3)]
  have "steady w" using step.IH step.prems r by (meson less_trans)
  then show ?case using node_kept [of w n s] step.prems [OF step.hyps(1) r] step.hyps(2) by simp
qed

lemma run_kept:
  assumes "run_from p LOAD_CONTEXT s0 w0 = (r, t, w', ns)" and "steady w0"
    and "\<And>m t v. reaches p s0 w0 m t v \<Longrightarrow> steady_call m t"
  shows "steady w'"
proof -
  obtain m u v where m: "reaches p s0 w0 m u v" "snd (run_node p m u v) = w'"
    using run_from_last [OF assms(1) reaches.start] by blast
  then show ?thesis using node_kept [OF reaches_kept [OF m(1) assms(2)] assms(3) [OF m(1)]] assms(3) by simp
qed

end

section \<open>Clean sessions\<close>

text \<open>A session without uncommitted rows: every tool commits what it wrote or rolls it back.\<close>

definition session_clean :: "session \<Rightarrow> bool" where
  "session_clean ss \<longleftrightarrow> work ss = durable ss"

lemma rollback_clean [simp]: "session_clean (rollback d ss)"
  by (simp add: session_clean_def rollback_def Let_def)

lemma commit_clean [simp]: "session_clean (ss\<lparr>durable := work ss\<rparr>)"
  by (simp add: session_clean_def)

interpretation clean_session: steady_session p session_clean for p :: "'e platform"
  by unfold_locales simp_all

lemma read_tool_store: "\<not> writes inp \<Longrightarrow> snd (run_tool d ctx name inp sc st) = st"
  by (cases inp) (auto simp: run_tool_def scoped_def Let_def split: if_split)

lemma attempt_clean:
  assumes "session_clean ss" and "b = writes inp"
  shows "session_clean (snd (tool_attempt d ctx name inp sc b ss))"
proof (cases "run_tool d ctx name inp sc (work ss)")
  case (Pair r st)
  show ?thesis
  proof (cases b)
    case True
    have "session_clean ss'" if "commit_business_write d name (ss\<lparr>work := st\<rparr>) = (Inr u, ss')" for u ss'
      using that by (auto simp: commit_business_write_def commit_def session_clean_def
          split: option.splits prod.splits sum.splits if_splits)
    then show ?thesis using True by (auto simp: tool_attempt_def Pair split: sum.split prod.split)
  next
    case False
    then have "st = work ss" using read_tool_store [of inp d ctx name sc "work ss"] assms(2) Pair by simp
    then show ?thesis using False assms(1) by (simp add: tool_attempt_def Pair split: sum.split)
  qed
qed

lemma steady_tool_clean: "steady_session.steady_tool p session_clean ctx name args"
  unfolding clean_session.steady_tool_def
  by (intro allI impI, elim conjE, rule attempt_clean) (simp_all add: validated_writes)

lemma run_clean:
  assumes "run_from p LOAD_CONTEXT s0 w0 = (r, t, w', ns)" and "session_clean (w_session w0)"
  shows "session_clean (w_session w')"
proof (rule clean_session.run_kept [OF assms])
  show "steady_session.steady_call p session_clean m t" if "reaches p s0 w0 m t v" for m t v
    unfolding clean_session.steady_call_def using steady_tool_clean by blast
qed

section \<open>Orders and refunds\<close>

definition money :: "store \<Rightarrow> order_row list \<times> refund_row list" where
  "money st = (orders st, refunds st)"

text \<open>No other transaction touches orders or refunds while the turn runs.\<close>

definition quiet :: "db \<Rightarrow> bool" where
  "quiet d \<longleftrightarrow> (\<forall>st. money (others d st) = money st)"

definition money_kept :: "db \<Rightarrow> order_row list \<times> refund_row list \<Rightarrow> session \<Rightarrow> bool" where
  "money_kept d R ss \<longleftrightarrow> (quiet d \<longrightarrow> money (work ss) = R \<and> money (durable ss) = R)"

interpretation money_rows: steady_session p "money_kept (p_db p) R" for p :: "'e platform" and R
  by unfold_locales (auto simp: money_kept_def quiet_def rollback_def Let_def)

fun moves_money :: "tool_input \<Rightarrow> bool" where
  "moves_money (CancelArgs c i) = True"
| "moves_money (RefundArgs c i r) = True"
| "moves_money _ = False"

lemma execute_money:
  assumes "quiet d" and "\<And>st. money (snd (perform st)) = money st"
  shows "money (snd (execute_idempotent d sc op c a perform load st)) = money st"
proof -
  have o: "money (others d st) = money st" for st using assms(1) by (simp add: quiet_def)
  have f: "money (snd (flush_receipt d r st)) = money st" for r st
    using o by (simp add: flush_receipt_def Let_def money_def)
  have n: "money (snd (nested_action d sc op c g perform st)) = money st" for g st
    using o f assms(2) by (simp add: nested_action_def split: prod.split sum.split) (metis snd_conv)
  obtain r st1 where q: "nested_action d sc op c (fingerprint d a) perform st = (r, st1)" by fastforce
  then have "money st1 = money st" using n [of "fingerprint d a" st] by simp
  then show ?thesis
    by (simp add: execute_idempotent_def Let_def q replay_receipt_def split: option.split sum.split)
qed

lemma perform_money:
  assumes "quiet d"
  shows "money (snd (perform_ticket t c i k x d st)) = money st"
    and "money (snd (perform_escalation t c j i k y x d st)) = money st"
  using assms
  by (simp_all add: perform_defs flush_ticket_def flush_escalation_def Let_def money_def quiet_def
      split: sum.split)

lemma run_tool_money:
  assumes "quiet d" and "\<not> moves_money inp"
  shows "money (snd (run_tool d ctx name inp sc st)) = money st"
  using assms
  by (cases inp) (auto simp: run_tool_def scoped_def with_scope_def require_idempotency_def Let_def
      create_support_ticket_def escalate_to_human_def execute_money perform_money
      split: option.split sum.split)

lemma validated_moves:
  assumes "get_agent_tool_definition name = Some m" and "validate_input co m args = Inr inp"
    and "name \<notin> {''cancel_order'', ''request_refund''}"
  shows "\<not> moves_money inp"
proof -
  have "m \<in> {GetCustomerInput, GetOrderInput, GetTicketInput, CreateSupportTicketInput, EscalateToHumanInput}"
    using assms(1,3) by (auto simp: catalog_defs split: if_splits)
  then show ?thesis using assms(2) by (auto simp: result_simps)
qed

lemma steady_tool_money:
  "name \<notin> {''cancel_order'', ''request_refund''} \<Longrightarrow> steady_session.steady_tool p (money_kept (p_db p) R) ctx name args"
  using validated_moves run_tool_money
  by (intro money_rows.store_steady_tool) (auto simp: money_kept_def)

lemma judged_steady:
  assumes "judged PO_ALLOW s" and "s_context s = Some ctx" and "s_tool s = Some name"
  shows "steady_session.steady_tool p (money_kept (p_db p) R) ctx name (s_arguments s)"
  using assms by (intro steady_tool_money) (auto simp: judged_def policy_outcome_cases split: if_splits)

text \<open>Only the execution of a confirmed action can change the orders and refunds.\<close>

lemma only_confirmed_moves:
  assumes r: "reaches p s0 w0 n s w" and n: "n \<noteq> EXECUTE_CONFIRMED_ACTION"
  shows "steady_session.steady_call p (money_kept (p_db p) R) n s"
proof -
  have "judged PO_ALLOW s" if "n = EXECUTE_TOOL" using reaches_phase [OF r] that by simp
  then show ?thesis
    using n by (auto simp: money_rows.steady_call_def intro: judged_steady steady_tool_money)
qed

lemma business_tool:
  "revalidate_business st tenant name inp = Inr True \<Longrightarrow> name \<in> {''cancel_order'', ''request_refund''}"
  by (cases inp) (auto simp: revalidate_business_def split: if_splits)

lemma revalidated_tool:
  "revalidated p s st a inp \<Longrightarrow> pa_tool a \<in> {''cancel_order'', ''request_refund''}"
  unfolding revalidated_def using business_tool by blast

text \<open>A run that changed the durable orders or refunds has executed a confirmed action.\<close>

lemma changed_confirmed:
  assumes r: "run_from p LOAD_CONTEXT s0 w0 = (r, t, w', ns)" and q: "quiet (p_db p)"
    and c: "work (w_session w0) = durable (w_session w0)"
    and m: "money (durable (w_session w')) \<noteq> money (durable (w_session w0))"
  shows "\<exists>s w. reaches p s0 w0 EXECUTE_CONFIRMED_ACTION s w"
proof (rule ccontr)
  assume "\<not> ?thesis"
  then have "money_kept (p_db p) (money (durable (w_session w0))) (w_session w')"
    using c by (intro money_rows.run_kept [OF r] only_confirmed_moves) (auto simp: money_kept_def)
  then show False using q m by (simp add: money_kept_def)
qed

end
