(* ===== verification/Turn_Demo.thy ===== *)
theory Turn_Demo
  imports Graph Tools_Laws Compiler_Safety Retry_Laws
begin

text \<open>
  A concrete conversation, used to apply the theorems about turns: the customer asks to cancel order
  1 and then confirms. The services answer at once; the language model proposes the cancellation.
\<close>

definition no_trace :: revalidation_trace where
  "no_trace = \<lparr>tr_original_hash = None, tr_restored_hash = None, tr_diff = None, tr_original = None,
     tr_restored = None, tr_original_normalized = None, tr_restored_normalized = None, tr_stage = None,
     tr_result = None\<rparr>"

text \<open>The state of a conversation that has not started: every key absent.\<close>

definition fresh_state :: agent_state where
  "fresh_state =
     \<lparr>s_context = None, s_conversation = None, s_conv_tenant = None, s_conv_customer = None,
      s_conv_actor = None, s_conv_actor_type = None, s_messages = [], s_intent = None,
      s_request = None, s_decision = None, s_compiled = None, s_grounding = None,
      s_grounding_reference = None, s_grounding_source = None, s_target_validation = None,
      s_tool = None, s_arguments = [], s_result = None, s_pending = None, s_policy = None,
      s_confirmation = None, s_action_id = None, s_retrieval = False, s_query = None, s_chunks = [],
      s_answer_status = None, s_answer = None, s_citations = [], s_retry_count = 0,
      s_last_error = None, s_error = None, s_reason = None, s_response = [], s_run = [],
      s_execution = None, s_memory_context = [], s_memory_candidate = None, s_memory_key = None,
      s_memory_status = None, s_memory_outcome = None, s_failure = None, s_degraded = [],
      s_recovery = None, s_write_unknown = False, s_replay = False, s_idempotency = None,
      s_security = None, s_memory_security = None, s_summary_requested = False,
      s_previous_intent = None, s_workflow_decision = None, s_missing = [], s_entities = [],
      s_workflow_active = False, s_resume_status = None, s_workflow_state = None,
      s_interruption_pending = False, s_interruption_status = None,
      s_previous_workflow_intent = None, s_interruption_intent = None, s_resume_source = None,
      s_suspended = None, s_superseded = None, s_workflow_id = None, s_previous_workflow_id = None,
      s_superseded_by = None, s_transition = None, s_interruption_type = None, s_wf_arguments = [],
      s_wf_validation = [], s_wf_inputs = [], s_restored = False, s_restored_count = 0,
      s_resumed = False, s_trace = no_trace\<rparr>"

definition demo_digest :: "ustr \<Rightarrow> string" where
  "demo_digest u = dec (int (length u))"

definition demo_platform :: "nat platform" where
  "demo_platform =
     \<lparr>p_db = demo_db, p_coercion = plain_coercion, p_digest = demo_digest, p_text = (\<lambda>_. []),
      p_now = (\<lambda>e. (0, e)), p_uuid = (\<lambda>e. (''0000'' @ dec (int e), Suc e)), p_clock = (\<lambda>e. (0, e)),
      p_control_clock = (\<lambda>e. (0, e)), p_wall_clock = (\<lambda>e. (0, e)), p_random = (\<lambda>e. (0, e)),
      p_sleep = (\<lambda>_ e. e), p_identity = id, p_audit_fault = (\<lambda>_. None), p_ttl = 900,
      p_resilience = default_config, p_contract = ''semantic_decision_v2'', p_provider_name = ''m'',
      p_provider = (\<lambda>_ _ _ _. Inr (SemanticV2 (demo_decision ORDER_CANCEL 1 ''changed my mind''))),
      p_retriever_name = ''r'', p_retriever = (\<lambda>_ _. Inl OtherError), p_generator = (\<lambda>_ _. Inl OtherError),
      p_recall = (\<lambda>_ _ _ _. Inr []), p_remember = (\<lambda>_ _ _ _. Inl OtherError),
      p_forget = (\<lambda>_ _ _ _. Inl OtherError)\<rparr>"

definition demo_world :: "nat world" where
  "demo_world = \<lparr>w_session = \<lparr>work = demo_store, durable = demo_store\<rparr>, w_audit = MemoryLog 100 [],
     w_controller = None, w_env = 0, w_calls = 0\<rparr>"

text \<open>The state after the cancellation of order 1 was proposed and its confirmation requested.\<close>

definition demo_action :: pending_action where
  "demo_action =
     new_pending_action demo_platform (fresh_state\<lparr>s_arguments := dump_input (CancelArgs 7 1),
         s_intent := Some ORDER_CANCEL, s_reason := Some (lit ''changed my mind''),
         s_grounding := Some (lit ''grounded''), s_grounding_reference := Some (lit ''explicit_order''),
         s_grounding_source := Some (lit ''current_user_message''),
         s_target_validation := Some (lit ''validated'')\<rparr>)
       demo_context ''cancel_order''
       (evaluate_default_policy ''cancel_order'' demo_context (dump_input (CancelArgs 7 1))) ''act_00001'' 0"

definition demo_waiting :: agent_state where
  "demo_waiting =
     fresh_state\<lparr>s_conv_tenant := Some ''default'', s_conv_customer := Some 7, s_conv_actor := Some ''ada'',
       s_conv_actor_type := Some ''customer'', s_pending := Some demo_action,
       s_action_id := Some ''act_00001''\<rparr>"

definition demo_turn :: "exn option \<times> agent_state \<times> nat world \<times> node_name list" where
  "demo_turn = run_turn demo_platform demo_context ''run2'' (lit ''yes'') demo_waiting demo_world"

lemma demo_turn_run:
  "case demo_turn of (r, s, w, ns) \<Rightarrow>
     Option.is_none r \<and> map or_status (orders (durable (w_session w))) = [OS_CANCELLED, OS_DELIVERED] \<and>
     map_option pa_status (s_pending s) = Some PA_EXECUTED \<and> EXECUTE_CONFIRMED_ACTION \<in> set ns \<and>
     length (s_messages s) = 2"
  by code_simp

end
