(* ===== verification/Turn_Theorems.thy ===== *)
theory Turn_Theorems
  imports Turn_Effects Turn_Demo
begin

text \<open>
  The guarantees of a turn: it ends after a bounded walk with a reply or an exception, and it changes
  orders or refunds only by executing an action that the customer confirmed in this very message.
\<close>

section \<open>The walk\<close>

lemma run_from_walk:
  assumes "run_from p n s w = (r, t, w', ns)"
  shows "hd ns = n \<and> length ns \<le> Suc (rank n) \<and> distinct ns \<and> (\<forall>m \<in> set ns. rank m \<le> rank n) \<and>
    (r = None \<longleftrightarrow> last ns = RESPOND)"
  using assms
proof (induction "rank n" arbitrary: n s w ns rule: less_induct)
  case less
  from run_from_node [OF less.prems] show ?case
  proof (elim disjE exE conjE)
    fix u w1 m ms
    assume n: "run_node p n s w = (Inr u, w1)" "next_node n u = Some m"
      and r: "run_from p m u w1 = (r, t, w', ms)" and ns: "ns = n # ms"
    have k: "rank m < rank n" using next_node_rank [OF n(2)] .
    have "ms \<noteq> []" using run_from_node [OF r] by auto
    then show ?thesis using less.hyps [OF k r] k ns by (auto split: if_splits)
  next
    assume "next_node n t = None" "r = None" "ns = [n]"
    then show ?thesis by (cases n) auto
  next
    fix x assume "run_node p n s w = (Inl x, w')" "r = Some x" "ns = [n]"
    then show ?thesis by (cases n) (auto simp: respond_def Let_def)
  qed
qed

text \<open>C13. Every turn ends: it visits each node at most once and at most 18 nodes in all, and it either
  finishes with the reply node or stops at the node that raised.
\<close>

theorem turn_ends:
  "case run_turn p ctx run m s w of (r, t, w', ns) \<Rightarrow>
     hd ns = LOAD_CONTEXT \<and> distinct ns \<and> length ns \<le> 18 \<and> (r = None \<longleftrightarrow> last ns = RESPOND)"
  using run_from_walk [of p LOAD_CONTEXT] by (auto simp: run_turn_def split: prod.split)

section \<open>Money moves only when confirmed\<close>

lemma begin_turn_message: "latest_user_message (begin_turn ctx run m s) = m"
  by (simp add: latest_user_message_def begin_turn_def)

lemma restore_transition:
  "restore_pending_arguments (transition a k) = restore_pending_arguments a"
  "restore_policy_inputs (transition a k) = restore_policy_inputs a"
  unfolding restore_pending_arguments_def restore_policy_inputs_def transition_simps fun_eq_iff
  by (rule refl, intro allI, rule refl)

lemma revalidated_transition:
  "revalidated p s st (transition a k) inp = revalidated p s st a inp"
  by (simp add: revalidated_def restore_transition)

text \<open>C12. While no other transaction touches orders and refunds, a turn that changed any of them did so
  for a pending cancellation or refund of the same tenant, actor and customer, not yet expired, whose
  confirmation is this turn's message, and whose inputs, policy and business rules were revalidated
  on the very rows the turn started from.
\<close>

theorem money_needs_confirmation:
  assumes "run_turn p ctx run m s w = (r, t, w', ns)" and "quiet (p_db p)"
    and "work (w_session w) = durable (w_session w)"
    and "money (durable (w_session w')) \<noteq> money (durable (w_session w))"
  shows "EXECUTE_CONFIRMED_ACTION \<in> set ns \<and>
    (\<exists>a inp st. s_pending s = Some a \<and> pa_status a = PA_PENDING \<and> belongs_to_context a ctx \<and>
       (\<exists>e. \<not> is_expired a (fst (p_now p e)) (p_ttl p)) \<and>
       parse_confirmation m = ''confirmed'' \<and> pa_tool a \<in> {''cancel_order'', ''request_refund''} \<and>
       money st = money (durable (w_session w)) \<and>
       revalidated p (begin_turn ctx run m s) st a inp)"
proof -
  let ?s0 = "begin_turn ctx run m s"
  have r: "run_from p LOAD_CONTEXT ?s0 w = (r, t, w', ns)" using assms(1) by (simp add: run_turn_def)
  obtain u v where e: "reaches p ?s0 w EXECUTE_CONFIRMED_ACTION u v"
    using changed_confirmed [OF r assms(2,3,4)] by blast
  have "money_kept (p_db p) (money (durable (w_session w))) (w_session v)"
    using assms(3) by (intro money_rows.reaches_kept [OF e] only_confirmed_moves) (auto simp: money_kept_def)
  then have rows: "money (work (w_session v)) = money (durable (w_session w))"
    using assms(2) by (simp add: money_kept_def)
  obtain a inp b where a: "confirmable p ?s0 b" "s_pending u = Some (transition b PA_CONFIRMED)"
      "s_pending u = Some a" "revalidated p u (work (w_session v)) a inp" "same_turn ?s0 u"
    using reaches_phase [OF e] by (auto simp: confirmed_by_def)
  then have v: "revalidated p ?s0 (work (w_session v)) b inp"
    using revalidated_context [of ?s0 u p "work (w_session v)" b inp]
    by (auto simp: same_turn_def revalidated_transition)
  have "EXECUTE_CONFIRMED_ACTION \<in> set ns" using reaches_visited [OF e r] by simp
  then show ?thesis
    using a(1) v rows revalidated_tool [OF v] begin_turn_message
    by (auto simp: confirmable_def begin_turn_def)
qed

lemma money_needs_confirmation_witness:
  "\<exists>a inp st. s_pending demo_waiting = Some a \<and> pa_tool a \<in> {''cancel_order'', ''request_refund''} \<and>
     revalidated demo_platform (begin_turn demo_context ''run2'' (lit ''yes'') demo_waiting) st a inp"
proof -
  obtain r t w' ns where run: "demo_turn = (r, t, w', ns)" by (cases demo_turn) auto
  have q: "quiet (p_db demo_platform)" by (simp add: quiet_def demo_platform_def demo_db_def)
  have c: "work (w_session demo_world) = durable (w_session demo_world)" by (simp add: demo_world_def)
  have "map or_status (orders (durable (w_session w'))) = [OS_CANCELLED, OS_DELIVERED]"
    using demo_turn_run by (simp add: run)
  then have m: "money (durable (w_session w')) \<noteq> money (durable (w_session demo_world))"
    by (auto simp: money_def demo_world_def demo_store_def)
  show ?thesis using money_needs_confirmation [OF run [unfolded demo_turn_def] q c m] by blast
qed

end
