(* ===== verification/Lifecycle.thy ===== *)
theory Lifecycle
  imports Turn_Theorems
begin

text \<open>
  The life of a pending action as an abstract machine, and the proof that a turn runs it: the machine
  keeps only the action at hand and the one a suspended workflow holds, and at each node of the graph
  it allows the few changes the node may make to them, under their conditions. An action is requested,
  decided by the answer of its owner, executed once, or laid aside and taken up again.
\<close>

section \<open>The abstract machine\<close>

text \<open>The action at hand and the one a suspended workflow keeps.\<close>

type_synonym life = "pending_action option \<times> pending_action option"

definition life_of :: "agent_state \<Rightarrow> life" where
  "life_of s = (s_pending s, Option.bind (s_suspended s) sw_action)"

definition actions :: "life \<Rightarrow> pending_action set" where
  "actions l = set_option (fst l) \<union> set_option (snd l)"

definition owned :: "agent_state \<Rightarrow> pending_action \<Rightarrow> bool" where
  "owned s0 a \<longleftrightarrow> (\<exists>ctx. s_context s0 = Some ctx \<and> belongs_to_context a ctx)"

text \<open>The message of the turn that neither decides a waiting action nor clears a finished one.\<close>

definition unanswered :: "agent_state \<Rightarrow> pending_action \<Rightarrow> bool" where
  "unanswered s0 a \<longleftrightarrow>
     (if pa_status a = PA_PENDING
      then parse_confirmation (latest_user_message s0) \<notin> {''confirmed'', ''rejected''}
      else parse_confirmation (latest_user_message s0) = ''confirmed'')"

text \<open>A new action of the turn's own context, for which the policy requires a confirmation.\<close>

definition requested :: "agent_state \<Rightarrow> pending_action \<Rightarrow> bool" where
  "requested s0 a \<longleftrightarrow> pa_status a = PA_PENDING \<and>
     (\<exists>ctx. s_context s0 = Some ctx \<and> belongs_to_context a ctx \<and>
        d_outcome (evaluate_default_policy (pa_tool a) ctx (pa_arguments a)) = PO_REQUIRE_CONFIRMATION)"

text \<open>
  The steps, by the node that makes them; \<open>s0\<close> is the state the turn began with. Only the action at hand
  when the turn began can be confirmed, and only if it waits, belongs to the context, has not expired
  and the turn's message confirms it; only that action can then be revoked or concluded. All nodes that
  are not named leave both actions as they are.
\<close>

inductive life_step :: "'e platform \<Rightarrow> agent_state \<Rightarrow> node_name \<Rightarrow> life \<Rightarrow> life \<Rightarrow> bool" for p s0 where
  confirm: "confirmable p s0 a \<Longrightarrow>
     life_step p s0 CHECK_PENDING_ACTION (Some a, x) (Some (transition a PA_CONFIRMED), x)"
| refuse: "owned s0 a \<Longrightarrow> pa_status a = PA_PENDING \<Longrightarrow>
     parse_confirmation (latest_user_message s0) = ''rejected'' \<Longrightarrow>
     life_step p s0 CHECK_PENDING_ACTION (Some a, x) (Some (transition a PA_REJECTED), x)"
| expire: "owned s0 a \<Longrightarrow> pa_status a = PA_PENDING \<Longrightarrow> is_expired a (fst (p_now p e)) (p_ttl p) \<Longrightarrow>
     life_step p s0 CHECK_PENDING_ACTION (Some a, x) (Some (transition a PA_EXPIRED), x)"
| clear: "owned s0 a \<Longrightarrow> pa_status a \<noteq> PA_PENDING \<Longrightarrow>
     parse_confirmation (latest_user_message s0) \<noteq> ''confirmed'' \<Longrightarrow>
     life_step p s0 CHECK_PENDING_ACTION (Some a, x) (None, x)"
| leave: "\<not> owned s0 a \<or> unanswered s0 a \<Longrightarrow>
     life_step p s0 CHECK_PENDING_ACTION (Some a, x) (Some a, x)"
| absent: "life_step p s0 CHECK_PENDING_ACTION (None, x) (None, x)"
| request: "requested s0 a \<Longrightarrow> life_step p s0 CREATE_PENDING_ACTION (None, x) (Some a, x)"
| revoke: "confirmable p s0 a \<Longrightarrow> life_step p s0 POLICY_REVALIDATION
     (Some (transition a PA_CONFIRMED), x) (Some (transition a PA_FAILED), x)"
| conclude: "confirmable p s0 a \<Longrightarrow> k \<in> {PA_EXECUTED, PA_FAILED} \<Longrightarrow>
     life_step p s0 EXECUTE_CONFIRMED_ACTION (Some (transition a PA_CONFIRMED), x) (Some (transition a k), x)"
| block: "life_step p s0 SECURITY_BOUNDARY (c, x) (rejected_pending c, None)"
| disown: "life_step p s0 SECURITY_BOUNDARY (c, x) (None, x)"
| suspend: "life_step p s0 HANDLE_WORKFLOW_INTERRUPTION (c, x) (None, c)"
| supersede: "life_step p s0 HANDLE_WORKFLOW_INTERRUPTION (c, x) (None, None)"
| resume: "owned s0 a \<Longrightarrow> life_step p s0 RESTORE_SUSPENDED_WORKFLOW (c, Some a) (Some a, None)"
| refill: "life_step p s0 RESTORE_SUSPENDED_WORKFLOW (c, None) (None, None)"
| keep: "n \<notin> {CHECK_PENDING_ACTION, CREATE_PENDING_ACTION, EXECUTE_CONFIRMED_ACTION} \<Longrightarrow>
     life_step p s0 n l l"

lemmas life_intros = confirm refuse expire clear leave absent request revoke conclude block disown suspend
  supersede resume refill keep

inductive life_run :: "'e platform \<Rightarrow> agent_state \<Rightarrow> node_name list \<Rightarrow> life \<Rightarrow> life \<Rightarrow> bool" for p s0 where
  stop: "life_run p s0 [] l l"
| visit: "life_step p s0 n l l1 \<Longrightarrow> life_run p s0 ns l1 l2 \<Longrightarrow> life_run p s0 (n # ns) l l2"

section \<open>What the machine guarantees\<close>

text \<open>
  Every action a run ends with was there when it began, or got its status in it: a waiting one was
  requested; a confirmed, executed or failed one is the action at hand of the beginning, confirmed in
  this turn, and was executed at the node for confirmed actions; any other waited before.
\<close>

definition accounted :: "'e platform \<Rightarrow> agent_state \<Rightarrow> node_name list \<Rightarrow> life \<Rightarrow> pending_action \<Rightarrow> bool" where
  "accounted p s0 ns l b \<longleftrightarrow> b \<in> actions l \<or>
     (case pa_status b of
        PA_PENDING \<Rightarrow> CREATE_PENDING_ACTION \<in> set ns \<and> requested s0 b
      | PA_CONFIRMED \<Rightarrow> \<exists>a. confirmable p s0 a \<and> b = transition a PA_CONFIRMED
      | PA_EXECUTED \<Rightarrow> EXECUTE_CONFIRMED_ACTION \<in> set ns \<and>
          (\<exists>a. confirmable p s0 a \<and> b = transition a PA_EXECUTED)
      | PA_FAILED \<Rightarrow> {POLICY_REVALIDATION, EXECUTE_CONFIRMED_ACTION} \<inter> set ns \<noteq> {} \<and>
          (\<exists>a. confirmable p s0 a \<and> b = transition a PA_FAILED)
      | k \<Rightarrow> \<exists>a. pa_status a = PA_PENDING \<and> b = transition a k \<and>
          (a \<in> actions l \<or> CREATE_PENDING_ACTION \<in> set ns \<and> requested s0 a))"

lemma accounted_more: "accounted p s0 ms l b \<Longrightarrow> set ms \<subseteq> set ns \<Longrightarrow> accounted p s0 ns l b"
  by (auto simp: accounted_def split: action_status.splits)

text \<open>Withdrawing a waiting action.\<close>

lemma accounted_withdrawn:
  assumes "accounted p s0 ns l a" and "pa_status a = PA_PENDING" and "k \<in> {PA_REJECTED, PA_EXPIRED}"
  shows "accounted p s0 ns l (transition a k)"
  using assms by (auto simp: accounted_def)

lemma accounted_confirmed:
  assumes "confirmable p s0 a"
  shows "accounted p s0 ns l (transition a PA_CONFIRMED)"
    and "POLICY_REVALIDATION \<in> set ns \<Longrightarrow> accounted p s0 ns l (transition a PA_FAILED)"
    and "EXECUTE_CONFIRMED_ACTION \<in> set ns \<Longrightarrow> k \<in> {PA_EXECUTED, PA_FAILED} \<Longrightarrow>
      accounted p s0 ns l (transition a k)"
  using assms by (auto simp: accounted_def)

lemma step_accounted:
  assumes "life_step p s0 n l l1" and "\<And>b. b \<in> actions l \<Longrightarrow> accounted p s0 ms l0 b"
    and "set ms \<subseteq> set ns" and "n \<in> set ns" and "b \<in> actions l1"
  shows "accounted p s0 ns l0 b"
proof -
  have before: "accounted p s0 ns l0 a" if "a \<in> actions l" for a
    using accounted_more [OF assms(2) [OF that] assms(3)] .
  from assms(1) show ?thesis
  proof cases
    case (request a x)
    then show ?thesis using before assms(4,5) by (auto simp: actions_def accounted_def requested_def)
  next
    case (block c x)
    then show ?thesis using before assms(5)
      by (auto simp: actions_def rejected_pending_def intro: accounted_withdrawn split: option.splits if_splits)
  qed (use before assms(4,5) in \<open>auto simp: actions_def intro: accounted_withdrawn accounted_confirmed\<close>)
qed

lemma run_accounted:
  assumes "life_run p s0 ns l l'" and "\<And>b. b \<in> actions l \<Longrightarrow> accounted p s0 ms l0 b"
    and "b \<in> actions l'"
  shows "accounted p s0 (ms @ ns) l0 b"
  using assms
proof (induction arbitrary: ms rule: life_run.induct)
  case (visit n l l1 ns l2)
  have "accounted p s0 (ms @ [n]) l0 c" if "c \<in> actions l1" for c
    by (rule step_accounted [OF visit.hyps(1) visit.prems(1) _ _ that]) auto
  from visit.IH [OF this visit.prems(2)] show ?case by simp
qed simp

section \<open>The nodes\<close>

text \<open>Nodes that never touch the action or the suspended workflow.\<close>

definition same_action :: "agent_state \<Rightarrow> agent_state \<Rightarrow> bool" where
  "same_action s t \<longleftrightarrow> s_pending t = s_pending s \<and> s_suspended t = s_suspended s"

lemma same_action_life: "same_action s t \<Longrightarrow> life_of t = life_of s"
  by (simp add: same_action_def life_of_def)

lemma load_same: "load_context s w = (Inr t, w1) \<Longrightarrow> same_action s t"
  by (auto simp: same_action_def load_context_def reject_entry_def reset_turn_def split: option.splits if_splits)

lemma security_life:
  assumes "security_boundary s w = (Inr t, w1)"
  shows "life_step p s0 SECURITY_BOUNDARY (life_of s) (life_of t)"
proof -
  have "life_of (security_block signal b s) = (rejected_pending (fst (life_of s)), None)" for signal b
    by (simp add: life_of_def security_block_def Let_def)
  moreover have "life_of (ownership_block s) = (None, snd (life_of s))"
    by (simp add: life_of_def ownership_block_def)
  moreover have "life_of (s\<lparr>s_security := None\<rparr>) = life_of s" by (simp add: life_of_def)
  ultimately show ?thesis using assms block [of p s0 "fst (life_of s)" "snd (life_of s)"]
      disown [of p s0 "fst (life_of s)" "snd (life_of s)"]
    by (auto simp: security_boundary_def Let_def intro: keep split: option.splits if_splits)
qed

text \<open>At the check the action is the one the turn began with.\<close>

lemma check_action_life:
  assumes e: "entry_phase s0 s" and a: "s_pending s = Some a" and o: "owned s0 a"
    and u: "pa_status a = PA_PENDING \<Longrightarrow> u = fst (p_now p e)"
  shows "life_step p s0 CHECK_PENDING_ACTION (life_of s) (life_of (check_pending_action (p_ttl p) u s a))"
proof -
  define x where "x = snd (life_of s)"
  define m where "m = latest_user_message s0"
  have m: "latest_user_message s = m" and s: "life_of s = (Some a, x)" "s_pending s0 = Some a"
    using e a by (auto simp: entry_phase_def life_of_def x_def m_def dest: latest_message_same)
  show ?thesis
  proof (cases "pa_status a = PA_PENDING")
    case True
    note t = u [OF True]
    show ?thesis
    proof (cases "is_expired a u (p_ttl p)")
      case expired: True
      then show ?thesis using expire [OF o True, of p e x] True t s m
        by (simp add: check_pending_action_def Let_def life_of_def)
    next
      case False
      then have c: "parse_confirmation m = ''confirmed'' \<Longrightarrow> confirmable p s0 a"
        using True t s o by (auto simp: confirmable_def owned_def m_def)
      show ?thesis
        using True False confirm [OF c, of x] refuse [OF o True, of p x] leave [of s0 a p x] s m
        by (auto simp: check_pending_action_def Let_def life_of_def unanswered_def m_def)
    qed
  next
    case False
    then show ?thesis using clear [OF o False, of p x] leave [of s0 a p x] s m
      by (auto simp: check_pending_action_def Let_def life_of_def unanswered_def m_def)
  qed
qed

lemma check_life:
  assumes "entry_phase s0 s" and "check_pending p s w = (Inr t, w1)"
  shows "life_step p s0 CHECK_PENDING_ACTION (life_of s) (life_of t)"
proof -
  have ctx: "s_context s0 = s_context s" using assms(1) by (simp add: entry_phase_def same_turn_def)
  obtain w2 where i: "inspect_pending p s w = (t, w2)"
    using assms(2) by (auto simp: check_pending_def after_Inr_iff split: prod.splits)
  show ?thesis
  proof (cases "s_pending s")
    case None
    then have "life_of t = life_of s" "fst (life_of s) = None"
      using i by (auto simp: inspect_pending_def check_no_pending_def life_of_def Let_def)
    then show ?thesis using absent [of p s0 "snd (life_of s)"] by (metis prod.collapse)
  next
    case (Some a)
    show ?thesis
    proof (cases "owned s0 a")
      case True
      then obtain u where u: "t = check_pending_action (p_ttl p) u s a"
          "pa_status a = PA_PENDING \<Longrightarrow> u = fst (p_now p (w_env w))"
        using i Some ctx by (auto simp: inspect_pending_def owned_def now_def split: if_splits prod.splits)
      show ?thesis unfolding u(1) by (rule check_action_life [OF assms(1) Some True u(2)])
    next
      case False
      then have "life_of t = life_of s"
        using i Some ctx by (auto simp: inspect_pending_def owned_def life_of_def split: option.splits if_splits)
      then show ?thesis using leave [of s0 a p "snd (life_of s)"] False Some by (simp add: life_of_def)
    qed
  qed
qed

lemma interruption_life:
  assumes "handle_workflow_interruption s w = (Inr t, w1)"
  shows "life_step p s0 HANDLE_WORKFLOW_INTERRUPTION (life_of s) (life_of t)"
proof -
  have "life_step p s0 HANDLE_WORKFLOW_INTERRUPTION (life_of s) (life_of (leave_workflow k j s))" for k j
    by (cases "is_superseding_request s")
      (auto simp: life_of_def leave_workflow_def capture_workflow_def Let_def intro: suspend supersede split: option.split)
  moreover have "life_of (continue_workflow k s) = life_of s" for k
    by (simp add: life_of_def continue_workflow_def)
  ultimately show ?thesis using assms
    by (auto simp: handle_workflow_interruption_def intro: keep split: option.splits if_splits)
qed

lemma restore_suspended_life:
  assumes "same_turn s0 s" and "restore_suspended_workflow p s w = (Inr t, w1)"
  shows "life_step p s0 RESTORE_SUSPENDED_WORKFLOW (life_of s) (life_of t)"
proof -
  have d: "life_of (deny_resume r s) = life_of s" for r by (simp add: deny_resume_def life_of_def)
  show ?thesis
    using assms d
    by (auto simp: restore_suspended_workflow_def resume_common_def life_of_def owned_def same_turn_def
        intro!: resume [unfolded owned_def] refill intro: keep split: option.splits if_splits)
qed

lemma entry_same:
  "retrieve_memory p s w = (Inr t, w1) \<Longrightarrow> same_action s t"
  "restore_pending p s w = (Inr t, w1) \<Longrightarrow> same_action s t"
  by (auto simp: same_action_def retrieve_memory_def restore_pending_def deny_restore_def Let_def result_simps
      split: option.splits sum.splits prod.splits if_splits)

lemma resume_same: "resume_workflow s w = (Inr t, w1) \<Longrightarrow> same_action s t"
proof -
  have "same_action s (resume_reason m d es rs s)" for m d es rs
    by (simp add: same_action_def resume_reason_def interruption_or_wait_def partial_resume_def
        finish_resume_def Let_def)
  then show "resume_workflow s w = (Inr t, w1) \<Longrightarrow> same_action s t"
    by (auto simp: same_action_def resume_workflow_def reset_workflow_def interruption_or_wait_def Let_def
        split: option.splits if_splits)
qed

lemma ask_same: "ask_provider p ctx s w = (Inr t, w1) \<Longrightarrow> same_action s t"
proof -
  have "same_action s t'" if "accept_proposal m d s = Inr t'" for m d t'
    using that by (cases d) (auto simp: accept_proposal_def same_action_def result_simps)
  then show "ask_provider p ctx s w = (Inr t, w1) \<Longrightarrow> same_action s t"
    by (auto simp: ask_provider_def llm_failure_def same_action_def
        split: sum.splits prod.splits option.splits if_splits)
qed

lemma understand_same: "understand_request p s w = (Inr t, w1) \<Longrightarrow> same_action s t"
proof (cases "\<exists>ctx. ask_provider p ctx s w = (Inr t, w1)")
  case True
  then show ?thesis using ask_same by blast
next
  case False
  assume "understand_request p s w = (Inr t, w1)"
  then show ?thesis using False
    by (auto simp: understand_request_def understood_def same_action_def Let_def result_simps
        split: option.splits if_splits)
qed

lemma compile_same: "compile_decision p s w = (Inr t, w1) \<Longrightarrow> same_action s t"
proof -
  have "same_action s (compile_rejected r d g adm s)" "same_action s (compile_accepted r d g adm s)"
    for r d g adm
    by (simp_all add: compile_rejected_def compile_accepted_def same_action_def Let_def)
  then show "compile_decision p s w = (Inr t, w1) \<Longrightarrow> same_action s t"
    by (auto simp: compile_decision_def Let_def same_action_def split: option.splits if_splits)
qed

lemma select_same:
  "select_tool s w = (Inr t, w1) \<Longrightarrow> same_action s t"
  "validate_tool p s w = (Inr t, w1) \<Longrightarrow> same_action s t"
  "inspect_risk s w = (Inr t, w1) \<Longrightarrow> same_action s t"
  "respond p s w = (Inr t, w1) \<Longrightarrow> same_action s t"
  by (auto simp: select_tool_def validate_tool_def reject_tool_def inspect_risk_def respond_def
      same_action_def Let_def split: option.splits sum.splits if_splits)

lemma evaluate_same: "evaluate_policy p s w = (Inr t, w1) \<Longrightarrow> same_action s t"
  by (auto simp: evaluate_policy_def deny_node_def same_action_def after_Inr_iff Let_def
      split: option.splits prod.splits if_splits)

lemma memory_same: "memory_action p s w = (Inr t, w1) \<Longrightarrow> same_action s t"
  by (auto simp: memory_action_def remember_memory_def forget_memory_def memory_failure_def
      reject_memory_def same_action_def Let_def split: option.splits sum.splits if_splits)

lemma knowledge_same: "retrieve_knowledge p s w = (Inr t, w1) \<Longrightarrow> same_action s t"
  by (auto simp: retrieve_knowledge_def retrieval_failed_def same_action_def Let_def result_simps
      split: option.splits sum.splits prod.splits)

section \<open>The nodes that create, judge and execute\<close>

lemma create_life:
  assumes "same_turn s0 s" and "judged PO_REQUIRE_CONFIRMATION s" and "create_pending p s w = (Inr t, w1)"
  shows "life_step p s0 CREATE_PENDING_ACTION (life_of s) (life_of t)"
proof -
  obtain ctx name where j: "s_context s0 = Some ctx" "s_context s = Some ctx" "s_tool s = Some name" "s_pending s = None"
      "s_policy s = Some (evaluate_default_policy name ctx (s_arguments s))"
      "d_outcome (evaluate_default_policy name ctx (s_arguments s)) = PO_REQUIRE_CONFIRMATION"
    using assms(1,2) by (auto simp: judged_def same_turn_def)
  have "requested s0 (new_pending_action p s ctx name d i u)" for d i u
    using j by (simp add: requested_def new_pending_action_def belongs_to_context_def Let_def)
  then show ?thesis using assms(3) j
    by (auto simp: create_pending_def life_of_def split: prod.splits intro!: request)
qed

lemma stage_life [simp]: "life_of (stage a b s) = life_of s"
  by (simp add: life_of_def stage_def)

lemma trace_life: "life_of (trace_inputs p a r x s) = life_of s"
  by (simp add: life_of_def trace_inputs_def Let_def)

lemma restored_life: "life_of (restored_state a inp s) = life_of s"
  by (simp add: life_of_def restored_state_def Let_def split: option.split)

text \<open>A revalidation fails the action or leaves it.\<close>

lemma revalidate_life:
  assumes "revalidate p s w = (Inr t, w1)" and c: "confirmed_by p s0 s"
  shows "life_step p s0 POLICY_REVALIDATION (life_of s) (life_of t)"
proof -
  obtain a where a: "confirmable p s0 a" "s_pending s = Some (transition a PA_CONFIRMED)"
    using c by (auto simp: confirmed_by_def)
  have f: "life_step p s0 POLICY_REVALIDATION (life_of s) (life_of (fail_revalidation k m u))"
    if "life_of u = life_of s" for k m u
  proof -
    have "life_of (fail_revalidation k m u) = (Some (transition a PA_FAILED), snd (life_of s))"
      "life_of s = (Some (transition a PA_CONFIRMED), snd (life_of s))"
      using that a(2) by (auto simp: life_of_def fail_revalidation_def transition_def)
    then show ?thesis using revoke [OF a(1)] by metis
  qed
  have k: "life_step p s0 POLICY_REVALIDATION (life_of s) (life_of u)" if "life_of u = life_of s" for u
    using that by (auto intro: keep)
  have i: "life_step p s0 POLICY_REVALIDATION (life_of s) (life_of (revalidate_inputs p st ctx b inp s))"
    for st ctx b inp
    by (auto simp: revalidate_inputs_def Let_def trace_life restored_life intro!: f intro: k
        split: sum.split bool.split)
  have "t = revalidate_action p (work (w_session w)) (transition a PA_CONFIRMED) s"
    using assms(1) a(2) by (simp add: revalidate_def Let_def after_Inr_iff)
  then show ?thesis using i f [of s] by (auto simp: revalidate_action_def split: option.split sum.split)
qed

lemma execution_failed_same: "execution_failed p b s x w = (Inr t, w1) \<Longrightarrow> same_action s t"
  by (auto simp: execution_failed_def fail_execution_def same_action_def Let_def
      split: option.splits if_splits dest!: audited_result)

lemma run_execution_same: "run_execution p ctx name inp sc b c s w = (Inr t, w1) \<Longrightarrow> same_action s t"
  by (auto simp: run_execution_def execution_done_def same_action_def
      split: prod.splits sum.splits if_splits dest!: audited_result
        execution_failed_same [unfolded same_action_def])

lemma execute_tool_same: "execute_tool p s w = (Inr t, w1) \<Longrightarrow> same_action s t"
  by (auto simp: execute_tool_def start_write_def after_Inr_iff fail_execution_def
      split: option.splits sum.splits if_splits
      dest: run_execution_same) (simp_all add: same_action_def)

lemma execute_confirmed_life:
  assumes "execute_confirmed p s w = (Inr t, w1)" and "confirmed_by p s0 s"
  shows "life_step p s0 EXECUTE_CONFIRMED_ACTION (life_of s) (life_of t)"
proof -
  obtain u w2 where u: "execute_tool p s w = (Inr u, w2)"
    using assms(1) by (auto simp: execute_confirmed_def after_Inr_iff)
  obtain a where a: "confirmable p s0 a" "s_pending s = Some (transition a PA_CONFIRMED)"
    using assms(2) by (auto simp: confirmed_by_def)
  have "transition (transition a j) k = transition a k" for j k by (simp add: transition_def)
  then have "\<exists>k \<in> {PA_EXECUTED, PA_FAILED}. life_of t = (Some (transition a k), snd (life_of s))"
    "life_of s = (Some (transition a PA_CONFIRMED), snd (life_of s))"
    using assms(1) a(2) execute_tool_same [OF u]
    by (auto simp: execute_confirmed_def u same_action_def life_of_def)
  then show ?thesis using conclude [OF a(1)] by metis
qed

lemma execute_allowed_same:
  assumes "execute_confirmed p s w = (Inr t, w1)" and "s_pending s = None"
  shows "same_action s t"
proof -
  obtain u w2 where u: "execute_tool p s w = (Inr u, w2)"
    using assms(1) by (auto simp: execute_confirmed_def after_Inr_iff)
  then show ?thesis using assms execute_tool_same [OF u] by (auto simp: execute_confirmed_def u same_action_def)
qed

lemma escalation_failed_same: "escalation_failed p b s x w = (Inr t, w1) \<Longrightarrow> same_action s t"
  by (auto simp: escalation_failed_def fail_execution_def same_action_def after_Inr_iff Let_def
      split: if_splits)

lemma escalation_same: "execute_human_escalation p s w = (Inr t, w1) \<Longrightarrow> same_action s t"
  by (auto simp: execute_human_escalation_def start_escalation_def run_escalation_def execution_done_def
      fail_execution_def after_Inr_iff split: option.splits sum.splits prod.splits if_splits
      dest: escalation_failed_same) (simp_all add: same_action_def)

lemmas untouched = load_same entry_same resume_same understand_same compile_same select_same evaluate_same
  memory_same knowledge_same escalation_same

lemma same_life_step:
  "same_action s t \<Longrightarrow> n \<notin> {CHECK_PENDING_ACTION, CREATE_PENDING_ACTION, EXECUTE_CONFIRMED_ACTION} \<Longrightarrow>
     life_step p s0 n (life_of s) (life_of t)"
  by (simp add: same_action_life keep)

lemma node_life:
  assumes "reaches p s0 w0 n s w" and "run_node p n s w = (Inr t, w1)"
  shows "life_step p s0 n (life_of s) (life_of t)"
proof -
  note ph = reaches_phase [OF assms(1)]
  show ?thesis
  proof (cases n)
    case CHECK_PENDING_ACTION
    then show ?thesis using ph assms(2) check_life [of s0 s p w t w1] by simp
  next
    case CREATE_PENDING_ACTION
    then show ?thesis using ph assms(2) create_life [of s0 s p w t w1] by simp
  next
    case POLICY_REVALIDATION
    then show ?thesis using ph assms(2) revalidate_life [of p s w t w1 s0] by simp
  next
    case EXECUTE_TOOL
    then show ?thesis using ph assms(2) execute_allowed_same [of p s w t w1] same_life_step [of s t n p s0]
      by (simp add: judged_def)
  next
    case EXECUTE_CONFIRMED_ACTION
    then show ?thesis using ph assms(2) execute_confirmed_life [of p s w t w1 s0] by simp
  next
    case SECURITY_BOUNDARY
    then show ?thesis using assms(2) security_life by simp
  next
    case HANDLE_WORKFLOW_INTERRUPTION
    then show ?thesis using assms(2) interruption_life by simp
  next
    case RESTORE_SUSPENDED_WORKFLOW
    then show ?thesis using ph assms(2) restore_suspended_life [of s0 s p w t w1] by simp
  qed (use assms(2) in \<open>(simp, blast intro: same_life_step untouched)\<close>)+
qed

text \<open>The nodes a run completed: all of them, or all but the one that raised.\<close>

definition completed :: "exn option \<Rightarrow> node_name list \<Rightarrow> node_name list" where
  "completed r ns = (if r = None then ns else butlast ns)"

lemma run_life:
  assumes "run_from p n s w = (r, t, w', ns)" and "reaches p s0 w0 n s w"
  shows "life_run p s0 (completed r ns) (life_of s) (life_of t)"
  using assms
proof (induction "rank n" arbitrary: n s w ns rule: less_induct)
  case less
  from run_from_node [OF less.prems(1)] show ?case
  proof (elim disjE exE conjE)
    fix u w1 m ms
    assume n: "run_node p n s w = (Inr u, w1)" "next_node n u = Some m"
      and r: "run_from p m u w1 = (r, t, w', ms)" and ns: "ns = n # ms"
    have "ms \<noteq> []" using run_from_node [OF r] by auto
    then have "completed r ns = n # completed r ms" by (simp add: completed_def ns)
    then show ?thesis
      using visit [OF node_life [OF less.prems(2) n(1)]]
        less.hyps [OF next_node_rank [OF n(2)] r reaches.step [OF less.prems(2) n]] by simp
  next
    assume "run_node p n s w = (Inr t, w')" "r = None" "ns = [n]"
    then show ?thesis using visit [OF node_life [OF less.prems(2)] stop] by (simp add: completed_def)
  qed (simp add: completed_def stop)
qed

text \<open>C14. A turn runs the abstract machine along the nodes it completed, so every action it ends with, at
  hand or laid aside, is one it began with or is accounted for by the turn: a waiting one was requested by
  the context of the turn under a policy that requires a confirmation; a confirmed, executed or
  failed one is the action that was at hand and waiting, unchanged but for its status, which belongs to the
  context, had not expired and is confirmed by this turn's message, and it was executed at the node for
  confirmed actions; a rejected or expired one was waiting.
\<close>

theorem turn_refines_life:
  "case run_turn p ctx run m s w of (r, t, w', ns) \<Rightarrow>
     life_run p (begin_turn ctx run m s) (completed r ns) (life_of s) (life_of t) \<and>
     (\<forall>a \<in> actions (life_of t). accounted p (begin_turn ctx run m s) (completed r ns) (life_of s) a)"
proof -
  let ?s0 = "begin_turn ctx run m s"
  obtain r t w' ns where run: "run_from p LOAD_CONTEXT ?s0 w = (r, t, w', ns)" by (metis prod_cases4)
  have "life_of ?s0 = life_of s" by (simp add: life_of_def begin_turn_def)
  then have l: "life_run p ?s0 (completed r ns) (life_of s) (life_of t)"
    using run_life [OF run reaches.start] by simp
  moreover have "accounted p ?s0 ([] @ completed r ns) (life_of s) a" if "a \<in> actions (life_of t)" for a
    by (rule run_accounted [OF l _ that]) (simp add: accounted_def)
  ultimately show ?thesis by (simp add: run_turn_def run)
qed

text \<open>A confirmed cancellation: the action executed is the one that waited.\<close>

lemma turn_refines_life_witness:
  "\<exists>r t w' ns b. demo_turn = (r, t, w', ns) \<and> s_pending t = Some b \<and> pa_status b = PA_EXECUTED \<and>
     b = transition demo_action PA_EXECUTED \<and> EXECUTE_CONFIRMED_ACTION \<in> set ns"
proof -
  obtain r t w' ns where run: "demo_turn = (r, t, w', ns)" by (cases demo_turn) auto
  have "Option.is_none r" "map_option pa_status (s_pending t) = Some PA_EXECUTED"
    using demo_turn_run by (simp_all add: run)
  then obtain b where b: "r = None" "s_pending t = Some b" "pa_status b = PA_EXECUTED"
    by (auto simp: Option.is_none_def split: option.splits)
  have w: "life_of demo_waiting = (Some demo_action, None)" "pa_status demo_action = PA_PENDING"
    by (simp_all add: life_of_def demo_waiting_def fresh_state_def demo_action_def new_pending_action_def Let_def)
  have "b \<in> actions (life_of t)" using b by (simp add: actions_def life_of_def)
  then have "accounted demo_platform (begin_turn demo_context ''run2'' (lit ''yes'') demo_waiting) ns (life_of demo_waiting) b"
    using turn_refines_life [of demo_platform demo_context "''run2''" "lit ''yes''" demo_waiting demo_world] b
    by (simp add: run [unfolded demo_turn_def] completed_def)
  moreover have "b \<noteq> demo_action" using b(3) w(2) by auto
  ultimately show ?thesis using b run w(1)
    by (auto simp: accounted_def actions_def confirmable_def begin_turn_def demo_waiting_def)
qed

end
