(* ===== verification/Turn_Laws.thy ===== *)
theory Turn_Laws
  imports Lifecycle Turn_Demo
begin

text \<open>
  Further guarantees of a turn: that it keeps its context and run, that a flagged message or a foreign
  context reaches nothing, that every call a tool receives is typed and bound to the customer, and
  that an unchanged confirmed action passes its revalidation.
\<close>

section \<open>The turn is the same at every node\<close>

lemma phase_same_turn: "phase p s0 n s w \<Longrightarrow> same_turn s0 s"
  by (cases n) (auto simp: entry_phase_def)

section \<open>Refusals at the door\<close>

definition flagged :: "ustr \<Rightarrow> bool" where
  "flagged m \<longleftrightarrow> classify_memory_security_message m \<noteq> None \<or> is_instruction_override_attempt m \<or>
     is_authority_claim_attempt m \<or> is_cross_customer_access_attempt m"

lemma security_flagged:
  "flagged (latest_user_message s) \<Longrightarrow>
     \<exists>t. security_boundary s w = (Inr t, w) \<and> s_security t \<noteq> None"
  by (auto simp: flagged_def security_boundary_def security_block_def ownership_block_def Let_def
      split: option.splits)

lemma load_result:
  "\<exists>t. load_context s w = (Inr t, w) \<and> s_messages t = s_messages s \<and>
     (foreign_conversation s ctx \<longrightarrow> s_context s = Some ctx \<longrightarrow>
        s_error t \<noteq> None \<and> s_pending t = s_pending s \<and> s_suspended t = s_suspended s)"
  by (auto simp: load_context_def reject_entry_def reset_turn_def split: option.splits if_splits)

lemma respond_run:
  "\<exists>t. run_from p RESPOND s w = (None, t, w, [RESPOND]) \<and> s_pending t = s_pending s \<and>
     s_suspended t = s_suspended s"
  by (subst run_from.simps) (simp add: respond_def Let_def)

lemma begin_turn_kept [simp]:
  "s_context (begin_turn ctx run m s) = Some ctx" "s_pending (begin_turn ctx run m s) = s_pending s"
  "s_suspended (begin_turn ctx run m s) = s_suspended s"
  "foreign_conversation (begin_turn ctx run m s) c = foreign_conversation s c"
  by (simp_all add: begin_turn_def foreign_conversation_def)

text \<open>C17. A flagged message (an attempt to override instructions, to claim authority, to reach another
  customer's data or to plant such claims in memory) is answered at once: no model, memory, audit,
  tool or policy runs, and the world is left exactly as it was.
\<close>

theorem flagged_message_refused:
  assumes "flagged m"
  shows "case run_turn p ctx run m s w of (r, t, w', ns) \<Rightarrow>
    r = None \<and> w' = w \<and> ns \<in> {[LOAD_CONTEXT, RESPOND], [LOAD_CONTEXT, SECURITY_BOUNDARY, RESPOND]}"
proof -
  let ?s0 = "begin_turn ctx run m s"
  obtain t where t: "load_context ?s0 w = (Inr t, w)" "s_messages t = s_messages ?s0"
    using load_result by blast
  show ?thesis
  proof (cases "s_error t = None")
    case False
    obtain u where "run_from p RESPOND t w = (None, u, w, [RESPOND])" using respond_run by blast
    then show ?thesis using t False
      by (subst run_turn_def, subst run_from.simps) (simp add: after_context_def)
  next
    case True
    have "latest_user_message t = m" using t(2) begin_turn_message by (simp add: latest_user_message_def)
    then obtain v where v: "security_boundary t w = (Inr v, w)" "s_security v \<noteq> None"
      using security_flagged assms by metis
    obtain u where "run_from p RESPOND v w = (None, u, w, [RESPOND])" using respond_run by blast
    then have "run_from p SECURITY_BOUNDARY t w = (None, u, w, [SECURITY_BOUNDARY, RESPOND])"
      using v by (subst run_from.simps) (simp add: after_security_boundary_def)
    then show ?thesis using t True
      by (subst run_turn_def, subst run_from.simps) (simp add: after_context_def)
  qed
qed

lemma flagged_message_refused_witness:
  "case run_turn demo_platform demo_context ''r'' (lit ''another customer order'') demo_waiting demo_world of
     (r, t, w', ns) \<Rightarrow> r = None \<and> w' = demo_world \<and>
       ns \<in> {[LOAD_CONTEXT, RESPOND], [LOAD_CONTEXT, SECURITY_BOUNDARY, RESPOND]}"
proof -
  have "is_cross_customer_access_attempt (lit ''another customer order'')" by code_simp
  then have "flagged (lit ''another customer order'')" by (simp add: flagged_def)
  from flagged_message_refused [OF this] show ?thesis .
qed

text \<open>A conversation answers only its own tenant, customer and actor: with any other context the turn
  ends after the first check, nothing outside the state changes, and the pending action and the
  suspended workflow stay as they were.
\<close>

theorem foreign_context_refused:
  assumes "foreign_conversation s ctx"
  shows "case run_turn p ctx run m s w of (r, t, w', ns) \<Rightarrow>
    r = None \<and> w' = w \<and> ns = [LOAD_CONTEXT, RESPOND] \<and> s_pending t = s_pending s \<and>
    s_suspended t = s_suspended s"
proof -
  let ?s0 = "begin_turn ctx run m s"
  obtain t where t: "load_context ?s0 w = (Inr t, w)" "s_error t \<noteq> None" "s_pending t = s_pending s"
      "s_suspended t = s_suspended s"
    using load_result [of ?s0 w ctx] assms by auto
  obtain u where "run_from p RESPOND t w = (None, u, w, [RESPOND])" "s_pending u = s_pending t"
      "s_suspended u = s_suspended t" using respond_run by blast
  then show ?thesis using t
    by (subst run_turn_def, subst run_from.simps) (simp add: after_context_def)
qed

lemma foreign_context_refused_witness:
  "case run_turn demo_platform (demo_context\<lparr>ctx_tenant := ''other''\<rparr>) ''r'' (lit ''yes'') demo_waiting demo_world of
     (r, t, w', ns) \<Rightarrow> r = None \<and> w' = demo_world \<and> ns = [LOAD_CONTEXT, RESPOND] \<and>
       s_pending t = s_pending demo_waiting \<and> s_suspended t = s_suspended demo_waiting"
  by (rule foreign_context_refused)
     (simp add: foreign_conversation_def differs_def demo_waiting_def fresh_state_def demo_context_def)

section \<open>Typed calls\<close>

text \<open>The declared fields of every input model, as the JSON a tool receives must have them.\<close>

fun positive_value :: "pyval \<Rightarrow> bool" where
  "positive_value (PInt n) = (0 < n)"
| "positive_value _ = False"

definition optional_value :: "(pyval \<Rightarrow> bool) \<Rightarrow> pyval \<Rightarrow> bool" where
  "optional_value P v \<longleftrightarrow> v = PNone \<or> P v"

fun text_value :: "nat \<Rightarrow> pyval \<Rightarrow> bool" where
  "text_value hi (PStr t) = (1 \<le> length t \<and> length t \<le> hi)"
| "text_value hi _ = False"

definition priority_text :: "pyval \<Rightarrow> bool" where
  "priority_text v \<longleftrightarrow> v \<in> (\<lambda>p. pstr (priority_value p)) ` set all_priorities"

fun schema :: "input_model \<Rightarrow> (string \<times> (pyval \<Rightarrow> bool)) list" where
  "schema GetCustomerInput = [(''customer_id'', positive_value)]"
| "schema GetOrderInput = [(''order_id'', positive_value), (''customer_id'', positive_value)]"
| "schema GetTicketInput = [(''ticket_id'', positive_value), (''customer_id'', positive_value)]"
| "schema CreateSupportTicketInput =
     [(''customer_id'', positive_value), (''order_id'', optional_value positive_value),
      (''category'', text_value 100), (''description'', text_value 5000)]"
| "schema CancelOrderInput = [(''customer_id'', positive_value), (''order_id'', positive_value)]"
| "schema RequestRefundInput =
     [(''customer_id'', positive_value), (''order_id'', positive_value), (''reason'', text_value 2000)]"
| "schema EscalateToHumanInput =
     [(''customer_id'', positive_value), (''ticket_id'', optional_value positive_value),
      (''order_id'', optional_value positive_value), (''reason'', text_value 2000),
      (''priority'', priority_text), (''summary'', text_value 5000)]"

definition conforms :: "input_model \<Rightarrow> int \<Rightarrow> pyval dict \<Rightarrow> bool" where
  "conforms model customer args \<longleftrightarrow>
     list_all2 (\<lambda>(k, P) (j, v). j = k \<and> P v) (schema model) args \<and>
     pget args ''customer_id'' = PInt customer"

lemma all_priorities_full: "p \<in> set all_priorities"
  by (cases p) (simp_all add: all_priorities_def)

lemma field_value:
  "field_pos co a k = Inr n \<Longrightarrow> positive_value (PInt n)"
  "field_pos_opt co a k = Inr x \<Longrightarrow> optional_value positive_value (popt x)"
  "field_text co a k hi = Inr t \<Longrightarrow> text_value hi (PStr t)"
  "priority_text (pstr (priority_value q))"
  using field_got [of co a k] by (auto simp: optional_value_def popt_def priority_text_def
      all_priorities_full split: option.splits)

lemma validated_conforms:
  "validate_input co model args = Inr inp \<Longrightarrow> conforms model (input_customer inp) (dump_input inp)"
  by (cases model)
    (auto simp: and_then_Inr_iff conforms_def pget_def simp del: positive_value.simps text_value.simps
      intro: field_value)

lemma validate_customer:
  assumes "validate_input co model (dset ''customer_id'' (PInt c) args) = Inr inp" and "coercion_ok co"
  shows "input_customer inp = c"
  using assms by (cases model)
    (auto simp: and_then_Inr_iff field_pos_def coercion_ok_def split: if_splits)

section \<open>Where an acting node is reached from\<close>

lemma reaches_from:
  assumes "reaches p s0 w0 m t w1" and "m \<noteq> LOAD_CONTEXT"
  shows "\<exists>n s w. reaches p s0 w0 n s w \<and> run_node p n s w = (Inr t, w1) \<and> next_node n t = Some m"
  using assms by (cases rule: reaches.cases) auto

lemma comes_from:
  "next_node n t = Some EVALUATE_POLICY \<Longrightarrow> n = VALIDATE_TOOL"
  "next_node n t = Some INSPECT_RISK \<Longrightarrow> n = EVALUATE_POLICY"
  "next_node n t = Some EXECUTE_TOOL \<Longrightarrow> n = INSPECT_RISK"
  "next_node n t = Some CREATE_PENDING_ACTION \<Longrightarrow> n = INSPECT_RISK"
  "next_node n t = Some EXECUTE_HUMAN_ESCALATION \<Longrightarrow> n = INSPECT_RISK"
  by (cases n; auto simp: routing_defs Let_def split: if_splits option.splits)+

definition typed_call :: "agent_state \<Rightarrow> bool" where
  "typed_call s \<longleftrightarrow>
     (\<exists>ctx name model. s_context s = Some ctx \<and> s_tool s = Some name \<and>
        get_agent_tool_definition name = Some model \<and>
        conforms model (effective_customer ctx) (s_arguments s))"

lemma validated_typed:
  assumes "validate_tool p s w = (Inr t, w1)" and "s_error t = None" and "or_text (s_tool t) [] \<noteq> []"
    and "coercion_ok (p_coercion p)"
  shows "typed_call t"
proof -
  have e: "s_error s = None" and n: "or_text (s_tool s) [] \<noteq> []" and tool: "s_tool t = s_tool s"
    and ctx: "s_context t = s_context s"
    using assms(1,2,3) by (auto simp: validate_tool_def reject_tool_def Let_def
        split: option.splits sum.splits if_splits)
  obtain name where name: "s_tool s = Some name" using n by (auto simp: or_text_def split: option.splits)
  then have "or_text (s_tool s) [] = name" using n by (auto simp: or_text_def)
  then obtain model c inp where m: "get_agent_tool_definition name = Some model" "s_context s = Some c"
      "validate_input (p_coercion p) model (dset ''customer_id'' (PInt (effective_customer c)) (s_arguments s)) = Inr inp"
      "s_arguments t = dump_input inp"
    using assms(1,2) e n
    by (auto simp: validate_tool_def reject_tool_def Let_def split: option.splits sum.splits if_splits)
  have "conforms model (effective_customer c) (dump_input inp)"
    using validated_conforms [OF m(3)] validate_customer [OF m(3) assms(4)] by simp
  then show ?thesis using m name tool ctx by (auto simp: typed_call_def)
qed

lemma evaluate_call:
  "evaluate_policy p s w = (Inr t, w1) \<Longrightarrow>
     s_tool t = s_tool s \<and> s_arguments t = s_arguments s \<and> s_context t = s_context s"
  by (auto simp: evaluate_policy_def deny_node_def after_Inr_iff Let_def
      split: option.splits prod.splits if_splits)

text \<open>A judged call went through validation.\<close>

lemma inspected_typed:
  assumes r: "reaches p s0 w0 INSPECT_RISK s w" and "judged out s" and co: "coercion_ok (p_coercion p)"
  shows "typed_call s"
proof -
  obtain n1 s1 w1 where 1: "reaches p s0 w0 n1 s1 w1" "run_node p n1 s1 w1 = (Inr s, w)"
      "next_node n1 s = Some INSPECT_RISK" using reaches_from [OF r] by auto
  note n1 = comes_from(2) [OF 1(3)]
  have e: "evaluate_policy p s1 w1 = (Inr s, w)" using 1(2) n1 by simp
  obtain n2 s2 w2 where 2: "reaches p s0 w0 n2 s2 w2" "run_node p n2 s2 w2 = (Inr s1, w1)"
      "next_node n2 s1 = Some EVALUATE_POLICY" using reaches_from [OF 1(1)] n1 by auto
  note n2 = comes_from(1) [OF 2(3)]
  have v: "validate_tool p s2 w2 = (Inr s1, w1)" using 2(2) n2 by simp
  have "s_error s1 = None" using 2(3) n2 by (auto simp: after_validation_def split: if_splits)
  moreover have "or_text (s_tool s1) [] \<noteq> []"
    using assms(2) evaluate_call [OF e] by (auto simp: judged_def or_text_def)
  ultimately have "typed_call s1" using validated_typed [OF v _ _ co] by blast
  then show ?thesis using evaluate_call [OF e] by (simp add: typed_call_def)
qed

text \<open>C16. Whatever reaches a tool is typed: at every node that executes, escalates or parks an action, a
  registered tool is selected and its arguments are exactly the declared fields of its input model,
  within their bounds, for the customer of the authenticated context.
\<close>

theorem acting_nodes_typed:
  assumes "reaches p s0 w0 n s w"
    and "n \<in> {EXECUTE_TOOL, EXECUTE_CONFIRMED_ACTION, EXECUTE_HUMAN_ESCALATION, CREATE_PENDING_ACTION}"
    and "coercion_ok (p_coercion p)"
  shows "typed_call s"
proof (cases "n = EXECUTE_CONFIRMED_ACTION")
  case True
  then obtain a inp ctx model where a: "s_tool s = Some (pa_tool a)" "s_arguments s = dump_input inp"
      "s_context s = Some ctx" "get_agent_tool_definition (pa_tool a) = Some model"
      "validate_input (p_coercion p) model (restore_pending_arguments a) = Inr inp"
      "input_customer inp = effective_customer ctx"
    using reaches_phase [OF assms(1)] by (auto simp: revalidated_def)
  then show ?thesis using validated_conforms [OF a(5)] by (auto simp: typed_call_def)
next
  case False
  obtain n1 s1 w1 where 1: "reaches p s0 w0 n1 s1 w1" "run_node p n1 s1 w1 = (Inr s, w)"
      "next_node n1 s = Some n" using reaches_from [OF assms(1)] assms(2) by auto
  have n1: "n1 = INSPECT_RISK" using 1(3) False assms(2) comes_from by blast
  then have s1: "s1 = s" "w1 = w" using 1(2) by (simp_all add: policy_phase_identity)
  have "\<exists>out. judged out s" using reaches_phase [OF assms(1)] assms(2) False by auto
  then show ?thesis using inspected_typed [OF _ _ assms(3)] 1(1) n1 s1 by blast
qed

lemma acting_nodes_typed_witness:
  "\<exists>s w. reaches demo_platform (begin_turn demo_context ''run2'' (lit ''yes'') demo_waiting) demo_world
     EXECUTE_CONFIRMED_ACTION s w \<and> typed_call s"
proof -
  obtain r t w' ns where run: "demo_turn = (r, t, w', ns)" by (cases demo_turn) auto
  have "EXECUTE_CONFIRMED_ACTION \<in> set ns" using demo_turn_run by (simp add: run)
  then obtain s w where r: "reaches demo_platform (begin_turn demo_context ''run2'' (lit ''yes'') demo_waiting)
      demo_world EXECUTE_CONFIRMED_ACTION s w"
    using run_from_visited [OF run [unfolded demo_turn_def run_turn_def] reaches.start] by blast
  moreover have "coercion_ok (p_coercion demo_platform)" by (simp add: demo_platform_def plain_coercion_ok)
  ultimately show ?thesis using acting_nodes_typed [OF r] by blast
qed

section \<open>An unchanged action passes its revalidation\<close>

lemma field_cong:
  assumes "dget a k = dget b k"
  shows "field_pos co a k = field_pos co b k" "field_pos_opt co a k = field_pos_opt co b k"
    "field_text co a k hi = field_text co b k hi" "field_priority co a k = field_priority co b k"
proof -
  show p: "field_pos co a k = field_pos co b k" by (simp add: field_pos_def assms)
  show "field_pos_opt co a k = field_pos_opt co b k"
    unfolding field_pos_opt_def assms p by (rule refl)
  show "field_text co a k hi = field_text co b k hi" "field_priority co a k = field_priority co b k"
    by (simp_all add: field_text_def field_priority_def assms)
qed

lemma validate_cong:
  assumes "\<And>k. k \<in> fst ` set (schema model) \<Longrightarrow> dget a k = dget b k"
  shows "validate_input co model a = validate_input co model b"
  using assms by (cases model) (simp_all add: field_cong [of a _ b])

lemma dump_keys: "validate_input co model a = Inr inp \<Longrightarrow> fst ` set (schema model) = fst ` set (dump_input inp)"
  by (cases model) (auto simp: and_then_Inr_iff)

lemma dget_key: "k \<in> fst ` set d \<Longrightarrow> \<exists>v. dget d k = Some v"
  by (induction d) auto

text \<open>C15. A confirmed action is not lost: if it was parked with validated arguments under the policy's
  demand for confirmation, and the customer's context, the policy and the business rules are as they
  were, its revalidation succeeds and the turn goes on to execute it.
\<close>

theorem unchanged_action_executes:
  assumes a: "s_pending s = Some (transition (new_pending_action p s1 ctx tool d i t0) PA_CONFIRMED)"
    and ctx: "s_context s = Some ctx"
    and model: "get_agent_tool_definition tool = Some model"
    and args: "s_arguments s1 = dump_input inp" "validate_input (p_coercion p) model (dump_input inp) = Inr inp"
      "input_customer inp = effective_customer ctx"
    and d: "d = evaluate_default_policy tool ctx (dump_input inp)" "d_outcome d = PO_REQUIRE_CONFIRMATION"
    and rules: "revalidate_business (work (w_session w)) (ctx_tenant ctx) tool inp = Inr True"
    and run: "revalidate p s w = (Inr t, w1)"
  shows "next_node POLICY_REVALIDATION t = Some EXECUTE_CONFIRMED_ACTION"
proof -
  let ?b = "new_pending_action p s1 ctx tool d i t0"
  let ?a = "transition ?b PA_CONFIRMED"
  have f: "belongs_to_context ?b ctx" "pa_tool ?b = tool" "pa_inputs ?b = build_policy_inputs ctx tool (dump_input inp) d"
    by (simp_all add: new_pending_action_def belongs_to_context_def transition_def args(1) Let_def)
  have "pget (pa_inputs ?a) ''arguments'' = PDict (dump_input inp)"
    by (simp add: f(3) build_policy_inputs_def pget_def)
  then have "dget (restore_pending_arguments ?a) k = dget (dump_input inp) k"
    if "k \<in> fst ` set (schema model)" for k
    using restore_keeps dget_key dump_keys [OF args(2)] that by metis
  then have v: "validate_input (p_coercion p) model (restore_pending_arguments ?a) = Inr inp"
    using validate_cong [of model "restore_pending_arguments ?a" "dump_input inp"] args(2) by simp
  have r: "restore_policy_inputs ?a ctx (dump_input inp) = pa_inputs ?b"
    using restore_unchanged [of ?b ctx "dump_input inp" d] f by (simp add: restore_transition)
  have o: "d_outcome (evaluate_default_policy tool ctx (dump_input inp)) = PO_REQUIRE_CONFIRMATION"
    using d by simp
  have "s_error (revalidate_inputs p (work (w_session w)) ctx ?a inp s) = None"
    using args(3) o rules
    by (simp add: revalidate_inputs_def r f(2) Let_def restored_state_def stage_def split: option.split)
  then have "s_error (revalidate_action p (work (w_session w)) ?a s) = None"
    using ctx f model v by (simp add: revalidate_action_def)
  moreover have "t = revalidate_action p (work (w_session w)) ?a s"
    using run a by (simp add: revalidate_def Let_def after_Inr_iff)
  ultimately show ?thesis by (simp add: after_revalidation_def)
qed

lemma unchanged_action_executes_witness:
  "\<exists>t w1. revalidate demo_platform
      (demo_waiting\<lparr>s_context := Some demo_context, s_pending := Some (transition demo_action PA_CONFIRMED)\<rparr>)
      demo_world = (Inr t, w1) \<and> next_node POLICY_REVALIDATION t = Some EXECUTE_CONFIRMED_ACTION"
proof -
  let ?s = "demo_waiting\<lparr>s_context := Some demo_context, s_pending := Some (transition demo_action PA_CONFIRMED)\<rparr>"
  have "\<exists>t w1. revalidate demo_platform ?s demo_world = (Inr t, w1)"
    by (simp add: revalidate_def record_revalidation_event_def now_def write_audit_def make_event_def
        context_event_def append_policy_audit_def demo_platform_def demo_world_def demo_context_def Let_def)
  then obtain t w1 where run: "revalidate demo_platform ?s demo_world = (Inr t, w1)" by blast
  have m: "get_agent_tool_definition ''cancel_order'' = Some CancelOrderInput" by (simp add: catalog_defs)
  have v: "validate_input (p_coercion demo_platform) CancelOrderInput (dump_input (CancelArgs 7 1)) = Inr (CancelArgs 7 1)"
    by (simp add: demo_platform_def plain_coercion_def field_pos_def)
  have o: "d_outcome (evaluate_default_policy ''cancel_order'' demo_context (dump_input (CancelArgs 7 1))) =
      PO_REQUIRE_CONFIRMATION" by code_simp
  have b: "revalidate_business (work (w_session demo_world)) (ctx_tenant demo_context) ''cancel_order''
      (CancelArgs 7 1) = Inr True" by code_simp
  have "next_node POLICY_REVALIDATION t = Some EXECUTE_CONFIRMED_ACTION"
    by (rule unchanged_action_executes [OF _ _ m _ v _ refl o b run])
       (simp add: demo_action_def, simp_all add: demo_context_def)
  then show ?thesis using run by blast
qed

end
