(* ===== verification/Findings.thy ===== *)
theory Findings
  imports Turn_Safety
begin

text \<open>
  Behaviours of the code that differ from what its comments or its other parts say, each proved of
  the definitions: a confirmation in capitals, a question taken for a refund reason, an outage of the
  memory service that hides the result of a turn, an idempotency key that outlives its action, and
  a stored digest that decides nothing.
\<close>

text \<open>
  The Turkish capital mapping turns every ASCII capital I into a dotless one, so English phrases in
  capitals are not recognised.
\<close>

lemma capital_confirmation_ambiguous:
  "parse_confirmation (lit ''CONFIRM'') = ''ambiguous''" "parse_confirmation (lit ''confirm'') = ''confirmed''"
  by code_simp+

text \<open>
  When only the refund reason is missing, any text that is not an order number becomes the reason,
  questions and replacement requests included: the test for an interruption is reached only for the
  other texts.
\<close>

lemma reason_takes_interruptions:
  assumes "s_workflow_decision s = Some d" and "s_workflow_active s" and "s_missing s = [''reason'']"
    and "strip (latest_user_message s) = m" and "m \<noteq> []" and "parse_order_id m = None"
  shows "resume_workflow s w =
    (Inr (finish_resume (d\<lparr>sd_reason := m\<rparr>) (dset ''reason'' (PStr m) (s_entities s)) s), w)"
  using assms by (simp add: resume_workflow_def resume_reason_def Let_def)

lemma question_is_interruption:
  "is_interruption_candidate (lit ''what is it?'')" "parse_order_id (lit ''what is it?'') = None"
  by code_simp+

text \<open>
  A memory read that fails is meant to be survived (\<open>continue_without_memory\<close>), but the failure
  category it leaves decides the reply: after a transient database error, a turn that executed its
  action answers that the request could not be completed.
\<close>

lemma memory_outage_hides_reply:
  assumes "s_failure s = Some ''database_transient''" and "s_security s = None" and "s_suspended s = None"
    and "\<not> s_write_unknown s" and "\<not> s_summary_requested s" and "s_answer s = None"
  shows "reply p s = lit ''I couldn't complete that request safely. Please try again.''"
proof -
  have "reply p s = degraded_reply s ''database_transient''"
    using assms by (simp add: reply_def suspended_retrieval_unavailable_def has_suspended_mutation_def)
  also have "\<dots> = lit (degraded_message FC_DATABASE_TRANSIENT (s_result s = None))"
    by (simp add: degraded_reply_def enum_of_value_def all_failure_categories_def)
  finally show ?thesis by (simp add: degraded_message_def)
qed

lemma memory_outage_category:
  "classify_failure OperationalError ''memory'' ''read'' = FC_DATABASE_TRANSIENT"
  by (simp add: classify_failure_def)

lemma execution_keeps_failure: "s_failure (execution_done out s) = s_failure s"
  by (simp add: execution_done_def)

text \<open>
  The idempotency key of an action is never cleared: the next turn starts with it, and the policy
  node reuses it for the next write of the conversation.
\<close>

lemma action_id_outlives_turn:
  "load_context s w = (Inr t, w1) \<Longrightarrow> s_action_id t = s_action_id s"
  by (auto simp: load_context_def reject_entry_def reset_turn_def split: option.splits if_splits)

lemma action_id_reused:
  assumes "evaluate_policy p s w = (Inr t, w1)" and "s_action_id s = Some i" and "i \<noteq> []"
  shows "s_action_id t = Some i"
  using assms
  by (auto simp: evaluate_policy_def deny_node_def action_id_or_fresh_def or_text_def after_Inr_iff Let_def
      split: option.splits prod.splits if_splits)

text \<open>The stored digest of the policy inputs reaches the trace only.\<close>

lemma hash_fields:
  "pa_arguments (a\<lparr>pa_inputs_hash := h\<rparr>) = pa_arguments a" "pa_entities (a\<lparr>pa_inputs_hash := h\<rparr>) = pa_entities a"
  "pa_inputs (a\<lparr>pa_inputs_hash := h\<rparr>) = pa_inputs a" "pa_tool (a\<lparr>pa_inputs_hash := h\<rparr>) = pa_tool a"
  by simp_all

lemma restore_hash:
  "restore_pending_arguments (a\<lparr>pa_inputs_hash := h\<rparr>) = restore_pending_arguments a"
  "restore_policy_inputs (a\<lparr>pa_inputs_hash := h\<rparr>) = restore_policy_inputs a"
  "belongs_to_context (a\<lparr>pa_inputs_hash := h\<rparr>) ctx = belongs_to_context a ctx"
  unfolding restore_pending_arguments_def restore_policy_inputs_def belongs_to_context_def fun_eq_iff hash_fields
  by simp_all

lemma stored_hash_decides_nothing:
  "s_error (revalidate_action p st (a\<lparr>pa_inputs_hash := h\<rparr>) s) = s_error (revalidate_action p st a s)"
  by (simp add: revalidate_action_def revalidate_inputs_def restore_hash fail_revalidation_def stage_def
      trace_inputs_def restored_state_def Let_def split: option.split sum.split bool.split)

text \<open>
  A principal may carry fifty roles, an audit event only twenty: whoever has more cannot have any
  event stored, so every evaluation of the policy raises.
\<close>

lemma many_roles_refused:
  assumes "20 < length (roles (ctx_principal ctx))"
  shows "write_audit p (context_event i ctx run action tool risk out reasons st c t) w =
    (Inl PydanticValidationError, w)"
  using assms by (simp add: write_audit_def make_event_def context_event_def)

text \<open>The event of an action has the same identity in every turn that reuses the action's id.\<close>

lemma reused_event_id:
  "i \<noteq> [] \<Longrightarrow> event_id p run1 (Some i) st k = event_id p run2 (Some i) st k"
  by (simp add: event_id_def stable_policy_event_id_def or_text_def)

end
