(* ===== verification/Memory_Service.thy ===== *)
theory Memory_Service
  imports Memory_Policy
begin

text \<open>
  The customer's long-term memory: the table of records (memory/models.py), the queries of
  memory/repository.py, the relevance score (memory/retrieval.py), the compaction
  (memory/compaction.py) and the service that remembers, recalls and forgets (memory/service.py).

  An operation runs on the committed records and returns them as it leaves them. The identifier of a
  new record, the order in which a query without \<open>ORDER BY\<close> returns its records and the outcome of a
  commit belong to the database and are parameters. Times are seconds, scores exact rationals.
\<close>

section \<open>Records\<close>

datatype memory_status = MS_ACTIVE | MS_SUPERSEDED | MS_EXPIRED | MS_DELETED

datatype memory_source = USER_EXPLICIT | AGENT_INFERRED

text \<open>\<open>MemoryRecordView\<close> is the record without its tenant.\<close>

record memory_view =
  mm_id :: int
  mm_customer :: int
  mm_type :: memory_type
  mm_content :: ustr
  mm_key :: ustr
  mm_source :: memory_source
  mm_confidence :: rat
  mm_created :: rat
  mm_updated :: rat
  mm_expires :: "rat option"
  mm_status :: memory_status
  mm_sensitivity :: sensitivity_level
  mm_retention :: retention_policy
  mm_redaction :: redaction_state

record memory_row = memory_view +
  mm_tenant :: string

abbreviation view_of :: "memory_row \<Rightarrow> memory_view" where
  "view_of r \<equiv> memory_view.truncate r"

record memory_operation =
  mo_status :: string
  mo_record :: "memory_view option"
  mo_affected :: nat
  mo_reason :: "string option"
  mo_signal :: "string option"

record memory_db =
  mdb_new_id :: "memory_row list \<Rightarrow> int"
  mdb_order :: "memory_row list \<Rightarrow> memory_row list"
  mdb_fault :: "memory_row list \<Rightarrow> (exn \<times> bool) option"

record memory_config =
  cfg_enabled :: bool
  cfg_max_items :: int
  cfg_default_ttl :: int
  cfg_support_ttl :: int

section \<open>The repository\<close>

definition blank :: "string \<Rightarrow> bool" where
  "blank t \<longleftrightarrow> list_all is_space (lit t)"

definition require_tenant :: "string \<Rightarrow> exn + string" where
  "require_tenant t = (if blank t then Inl PyValueError else Inr t)"

definition active_row :: "int \<Rightarrow> string \<Rightarrow> memory_row \<Rightarrow> bool" where
  "active_row c t r \<longleftrightarrow> mm_customer r = c \<and> mm_tenant r = t \<and> mm_status r = MS_ACTIVE"

text \<open>Newest first; records of one time by descending identifier.\<close>

definition newest_first :: "memory_row list \<Rightarrow> memory_row list" where
  "newest_first rs = sort_key (\<lambda>r. - mm_updated r) (sort_key (\<lambda>r. - mm_id r) rs)"

definition active_for_customer ::
  "int \<Rightarrow> string \<Rightarrow> memory_row list \<Rightarrow> exn + memory_row list" where
  "active_for_customer c t rows =
     and_then (require_tenant t) (\<lambda>_. Inr (newest_first (filter (active_row c t) rows)))"

definition active_by_key ::
  "memory_db \<Rightarrow> int \<Rightarrow> ustr \<Rightarrow> string \<Rightarrow> memory_row list \<Rightarrow> exn + memory_row list" where
  "active_by_key d c k t rows =
     and_then (require_tenant t) (\<lambda>_.
       Inr (mdb_order d (filter (\<lambda>r. active_row c t r \<and> mm_key r = k) rows)))"

text \<open>An attribute set on a loaded record reaches the row of that identifier.\<close>

definition put_row :: "memory_row \<Rightarrow> memory_row list \<Rightarrow> memory_row list" where
  "put_row r rows = map (\<lambda>q. if mm_id q = mm_id r then r else q) rows"

definition mark_status :: "memory_status \<Rightarrow> rat \<Rightarrow> memory_row \<Rightarrow> memory_row list \<Rightarrow> memory_row list" where
  "mark_status s now r rows = put_row (r\<lparr>mm_status := s, mm_updated := now\<rparr>) rows"

text \<open>A commit of the session's records; one that fails may have been applied or not.\<close>

definition commit_rows ::
  "memory_db \<Rightarrow> memory_row list \<Rightarrow> memory_row list \<Rightarrow> 'a \<Rightarrow> (exn + 'a) \<times> memory_row list" where
  "commit_rows d old new a =
     (case mdb_fault d new of
        None \<Rightarrow> (Inr a, new)
      | Some (x, applied) \<Rightarrow> (Inl x, if applied then new else old))"

section \<open>Relevance\<close>

definition term_char :: "int \<Rightarrow> bool" where
  "term_char c \<longleftrightarrow> (97 \<le> c \<and> c \<le> 122) \<or> (48 \<le> c \<and> c \<le> 57)"

definition source_value :: "memory_source \<Rightarrow> string" where
  "source_value s = (case s of USER_EXPLICIT \<Rightarrow> ''user_explicit'' | AGENT_INFERRED \<Rightarrow> ''agent_inferred'')"

definition score_memory :: "memory_row \<Rightarrow> ustr \<Rightarrow> rat \<Rightarrow> rat" where
  "score_memory r query now =
     (let query_terms = runs term_char (casefold query);
          record_terms = runs term_char (casefold (mm_content r)) @ split_char 95 (mm_key r);
          lexical = length (filter (\<lambda>w. w \<in> set record_terms) (remdups query_terms));
          key_bonus = (if contains (casefold (mm_key r)) (casefold query) then 3 else 0);
          explicit_bonus = (if source_value (mm_source r) = ''user_explicit'' then 1 / 2 else 0);
          age_days = max ((now - mm_updated r) / 86400) 0;
          recency = 1 / (1 + age_days / 30) in
      of_nat lexical + key_bonus + explicit_bonus + recency)"

section \<open>Recall\<close>

definition tenant_or_default :: "string option \<Rightarrow> string" where
  "tenant_or_default t = (case t of None \<Rightarrow> ''default'' | Some s \<Rightarrow> if s = [] then ''default'' else s)"

definition can_retrieve :: "memory_row \<Rightarrow> int \<Rightarrow> principal option \<Rightarrow> bool" where
  "can_retrieve r c who \<longleftrightarrow>
     (if mm_customer r \<noteq> c then False
      else if (case who of None \<Rightarrow> False
               | Some p \<Rightarrow> (case principal_tenant p of None \<Rightarrow> False | Some t \<Rightarrow> mm_tenant r \<noteq> t))
      then False
      else if mm_sensitivity r = SL_RESTRICTED then False
      else case who of
        None \<Rightarrow> True
      | Some p \<Rightarrow>
          if actor_kind p = AT_CUSTOMER then principal_customer p = Some c
          else if actor_kind p = AT_SUPPORT_OPERATOR then ''support_operator'' \<in> set (roles p)
          else False)"

text \<open>\<open>xs[:n]\<close>: a negative bound counts from the end.\<close>

definition take_to :: "int \<Rightarrow> 'a list \<Rightarrow> 'a list" where
  "take_to n xs = (if 0 \<le> n then take (nat n) xs else take (length xs - nat (- n)) xs)"

definition alive :: "rat \<Rightarrow> memory_row \<Rightarrow> bool" where
  "alive now r \<longleftrightarrow> (case mm_expires r of None \<Rightarrow> True | Some t \<Rightarrow> now < t)"

definition ranked ::
  "int \<Rightarrow> ustr \<Rightarrow> rat \<Rightarrow> principal option \<Rightarrow> memory_row list \<Rightarrow> memory_row list" where
  "ranked c query now who rs =
     sort_key (\<lambda>r. - score_memory r query now)
       (filter (\<lambda>r. can_retrieve r c who) (filter (alive now) rs))"

definition retrieve ::
  "memory_config \<Rightarrow> int \<Rightarrow> ustr \<Rightarrow> rat \<Rightarrow> principal option \<Rightarrow> memory_row list \<Rightarrow>
     exn + memory_view list" where
  "retrieve cfg c query now who rows =
     (if \<not> cfg_enabled cfg then Inr []
      else and_then
        (active_for_customer c (tenant_or_default (case who of None \<Rightarrow> None | Some p \<Rightarrow> principal_tenant p)) rows)
        (\<lambda>active. Inr (map view_of (take_to (cfg_max_items cfg) (ranked c query now who active)))))"

section \<open>Remember\<close>

definition days :: "int \<Rightarrow> rat" where
  "days n = of_int n * 86400"

definition expiry_for :: "memory_config \<Rightarrow> memory_type \<Rightarrow> rat \<Rightarrow> retention_policy \<Rightarrow> rat option" where
  "expiry_for cfg k now retention =
     (if retention = RP_NO_STORE then Some now
      else if retention = RP_SHORT then Some (now + days (cfg_support_ttl cfg))
      else if k \<in> {MT_SUPPORT_CONTEXT, MT_UNRESOLVED_ISSUE, MT_INTERACTION_SUMMARY}
      then Some (now + days (cfg_support_ttl cfg))
      else if 0 < cfg_default_ttl cfg then Some (now + days (cfg_default_ttl cfg))
      else None)"

text \<open>
  The loop over the active records of the key: one with the same content is refreshed and ends the
  loop, one with another content is superseded.
\<close>

fun supersede ::
  "memory_candidate \<Rightarrow> rat \<Rightarrow> memory_row list \<Rightarrow> memory_row list \<Rightarrow>
     memory_row option \<times> memory_row list" where
  "supersede m now [] rows = (None, rows)"
| "supersede m now (r # rs) rows =
     (if mm_content r = mc_content m then
        (let r' = r\<lparr>mm_updated := now, mm_confidence := max (mm_confidence r) (mc_confidence m)\<rparr> in
         (Some r', put_row r' rows))
      else supersede m now rs (mark_status MS_SUPERSEDED now r rows))"

definition new_memory ::
  "memory_db \<Rightarrow> memory_config \<Rightarrow> int \<Rightarrow> string \<Rightarrow> memory_source \<Rightarrow> rat \<Rightarrow> memory_decision \<Rightarrow>
     memory_row list \<Rightarrow> memory_row" where
  "new_memory d cfg c t source now verdict rows =
     (let m = md_candidate verdict; k = md_class verdict in
      \<lparr>mm_id = mdb_new_id d rows, mm_customer = c, mm_type = mc_type m, mm_content = mc_content m,
       mm_key = mc_key m, mm_source = source, mm_confidence = mc_confidence m, mm_created = now,
       mm_updated = now, mm_expires = expiry_for cfg (mc_type m) now (dc_retention k),
       mm_status = MS_ACTIVE, mm_sensitivity = dc_sensitivity k, mm_retention = dc_retention k,
       mm_redaction = dc_redaction k, mm_tenant = t\<rparr>)"

definition not_stored :: "string \<Rightarrow> string \<Rightarrow> string option \<Rightarrow> memory_operation" where
  "not_stored status reason signal =
     \<lparr>mo_status = status, mo_record = None, mo_affected = 0, mo_reason = Some reason,
      mo_signal = signal\<rparr>"

definition stored :: "string \<Rightarrow> memory_row \<Rightarrow> memory_operation" where
  "stored status r =
     \<lparr>mo_status = status, mo_record = Some (view_of r), mo_affected = 0, mo_reason = None,
      mo_signal = None\<rparr>"

definition remember ::
  "memory_db \<Rightarrow> memory_config \<Rightarrow> int \<Rightarrow> memory_candidate \<Rightarrow> memory_source \<Rightarrow> rat \<Rightarrow> retention_policy \<Rightarrow>
     string \<Rightarrow> memory_row list \<Rightarrow> (exn + memory_operation) \<times> memory_row list" where
  "remember d cfg c m source now retention t rows =
     (if \<not> cfg_enabled cfg then (Inr (not_stored ''disabled'' ''memory_disabled'' None), rows)
      else if retention = RP_NO_STORE then
        (Inr (not_stored ''reject'' ''retention_policy_no_store'' None), rows)
      else
        (let verdict = evaluate_candidate m in
         if md_outcome verdict \<noteq> MO_ALLOW then
           (Inr (not_stored (memory_outcome_value (md_outcome verdict)) (md_reason verdict) (md_signal verdict)), rows)
         else case active_by_key d c (mc_key (md_candidate verdict)) t rows of
           Inl x \<Rightarrow> (Inl x, rows)
         | Inr existing \<Rightarrow>
             (case supersede (md_candidate verdict) now existing rows of
                (Some r, rows1) \<Rightarrow> commit_rows d rows rows1 (stored ''deduplicated'' r)
              | (None, rows1) \<Rightarrow>
                  (let r = new_memory d cfg c t source now verdict rows1 in
                   commit_rows d rows (rows1 @ [r]) (stored ''persisted'' r)))))"

section \<open>Forget and compact\<close>

definition forget ::
  "memory_db \<Rightarrow> memory_config \<Rightarrow> int \<Rightarrow> ustr \<Rightarrow> rat \<Rightarrow> string \<Rightarrow> memory_row list \<Rightarrow>
     (exn + memory_operation) \<times> memory_row list" where
  "forget d cfg c k now t rows =
     (if \<not> cfg_enabled cfg then (Inr (not_stored ''disabled'' ''memory_disabled'' None), rows)
      else case active_by_key d c k t rows of
        Inl x \<Rightarrow> (Inl x, rows)
      | Inr [] \<Rightarrow> (Inr (not_stored ''not_found'' ''memory_not_found'' None), rows)
      | Inr rs \<Rightarrow>
          commit_rows d rows (fold (mark_status MS_DELETED now) rs rows)
            \<lparr>mo_status = ''forgotten'', mo_record = None, mo_affected = length rs, mo_reason = None,
             mo_signal = None\<rparr>)"

text \<open>The loop of the compaction: the first record of a key is kept, later ones are superseded.\<close>

fun compact_loop ::
  "rat \<Rightarrow> ustr list \<Rightarrow> memory_row list \<Rightarrow> nat \<Rightarrow> memory_row list \<Rightarrow> nat \<times> memory_row list" where
  "compact_loop now kept [] n rows = (n, rows)"
| "compact_loop now kept (r # rs) n rows =
     (if mm_key r \<in> set kept
      then compact_loop now kept rs (Suc n) (mark_status MS_SUPERSEDED now r rows)
      else compact_loop now (mm_key r # kept) rs n rows)"

definition compact_customer_memory ::
  "memory_db \<Rightarrow> int \<Rightarrow> rat \<Rightarrow> string \<Rightarrow> memory_row list \<Rightarrow> (exn + nat) \<times> memory_row list" where
  "compact_customer_memory d c now t rows =
     (case active_for_customer c t rows of
        Inl x \<Rightarrow> (Inl x, rows)
      | Inr active \<Rightarrow>
          (case compact_loop now [] (newest_first active) 0 rows of
             (0, rows1) \<Rightarrow> (Inr 0, rows1)
           | (n, rows1) \<Rightarrow> commit_rows d rows rows1 n))"

end
