(* ===== verification/Sort_Laws.thy ===== *)
theory Sort_Laws
  imports Prelude
begin

text \<open>
  Stable sorts by several keys: sorting by a second key first and then by the first orders by both, and
  the first rows of such a list are its greatest.
\<close>

lemma sorted_wrt_insort_key:
  assumes "sorted_wrt (\<lambda>x y. f x < f y \<or> f x = f y \<and> R x y) ys" and "\<forall>y \<in> set ys. R x y"
  shows "sorted_wrt (\<lambda>x y. f x < f y \<or> f x = f y \<and> R x y) (insort_key f x ys)"
  using assms
proof (induction ys)
  case (Cons y ys)
  then show ?case by (force simp: set_insort_key)
qed simp

lemma sorted_wrt_sort_key:
  "sorted_wrt R xs \<Longrightarrow> sorted_wrt (\<lambda>x y. f x < f y \<or> f x = f y \<and> R x y) (sort_key f xs)"
  for f :: "'a \<Rightarrow> 'b::linorder"
  by (induction xs) (auto intro: sorted_wrt_insort_key)

lemma sorted_wrt_filter_kept: "sorted_wrt R xs \<Longrightarrow> sorted_wrt R (filter P xs)"
  by (induction xs) auto

text \<open>What a list ordered by a relation keeps when it is cut after \<open>n\<close> elements.\<close>

lemma sorted_wrt_cut:
  assumes "sorted_wrt R xs" and "x \<in> set xs" and "x \<notin> set (take n xs)"
  shows "length (take n xs) = n \<and> (\<forall>y \<in> set (take n xs). R y x)"
proof -
  have "x \<in> set (drop n xs)" using assms(2,3) by (metis Un_iff append_take_drop_id set_append)
  moreover have "sorted_wrt R (take n xs @ drop n xs)" using assms(1) by simp
  ultimately show ?thesis by (auto simp: sorted_wrt_append simp del: append_take_drop_id) (cases "n \<le> length xs"; simp)
qed

end
