(* ===== verification/Memory_Laws.thy ===== *)
theory Memory_Laws
  imports Memory_Service Sort_Laws
begin

text \<open>
  The laws of the memory: the checksum of a card number against its textbook definition, the
  invariant of the table under every operation of the service, what a recall returns, what a
  remember followed by a forget leaves, and the effect of a compaction.
\<close>

section \<open>The checksum of a card number\<close>

text \<open>
  The textbook algorithm: from the last digit on, every second digit is doubled and counts the sum
  of the decimal digits of the double.
\<close>

definition luhn_digit :: "bool \<Rightarrow> int \<Rightarrow> int" where
  "luhn_digit b n = (if b then 2 * n div 10 + 2 * n mod 10 else n)"

fun luhn_from_right :: "bool \<Rightarrow> int list \<Rightarrow> int" where
  "luhn_from_right b [] = 0"
| "luhn_from_right b (n # ns) = luhn_digit b n + luhn_from_right (\<not> b) ns"

definition luhn_valid :: "int list \<Rightarrow> bool" where
  "luhn_valid ns \<longleftrightarrow> luhn_from_right False (rev ns) mod 10 = 0"

lemma luhn_from_right_append:
  "luhn_from_right b (xs @ ys) = luhn_from_right b xs + luhn_from_right (b \<noteq> odd (length xs)) ys"
proof (induction xs arbitrary: b)
  case (Cons x xs)
  show ?case using Cons.IH [of "\<not> b"] by (cases b; cases "odd (length xs)") simp_all
qed simp

lemma luhn_digit_doubled:
  assumes "is_digit c"
  shows "luhn_digit True (c - 48) = (if 9 < 2 * (c - 48) then 2 * (c - 48) - 9 else 2 * (c - 48))"
proof -
  have "c - 48 \<in> {0, 1, 2, 3, 4, 5, 6, 7, 8, 9}"
    using assms unfolding is_digit_def by simp presburger
  then show ?thesis by (auto simp: luhn_digit_def)
qed

lemma luhn_sum_from_right:
  assumes "list_all is_digit cs"
  shows "luhn_sum ((i + length cs) mod 2) i cs = luhn_from_right False (rev (map (\<lambda>c. c - 48) cs))"
  using assms
proof (induction cs arbitrary: i)
  case (Cons c cs)
  have parity: "i mod 2 = (i + length (c # cs)) mod 2 \<longleftrightarrow> odd (length cs)"
    by simp presburger
  have "luhn_sum ((i + length (c # cs)) mod 2) i (c # cs) =
      luhn_digit (odd (length cs)) (c - 48) + luhn_sum ((Suc i + length cs) mod 2) (Suc i) cs"
    using Cons.prems luhn_digit_doubled [of c] unfolding luhn_sum.simps parity Let_def
    by (simp add: luhn_digit_def)
  also have "\<dots> = luhn_from_right False (rev (map (\<lambda>c. c - 48) (c # cs)))"
    using Cons.IH [of "Suc i"] Cons.prems by (simp add: luhn_from_right_append)
  finally show ?case .
qed simp

text \<open>C18. The card check accepts exactly the texts whose 13 to 19 digits pass the textbook Luhn
  checksum, although it runs from the left and subtracts 9 instead of adding decimal digits.\<close>

theorem card_check_is_luhn:
  "valid_card s \<longleftrightarrow>
     (let ns = map (\<lambda>c. c - 48) (filter is_digit s) in
      13 \<le> length ns \<and> length ns \<le> 19 \<and> luhn_valid ns)"
proof -
  have "list_all is_digit (filter is_digit s)" by (simp add: list_all_iff)
  from luhn_sum_from_right [OF this, of 0] show ?thesis
    by (simp add: valid_card_def luhn_valid_def Let_def)
qed

section \<open>The table under the operations\<close>

text \<open>
  What the service relies on in the database: a new identifier is unused, and a query returns the
  rows that satisfy it in some order.
\<close>

definition memory_db_ok :: "memory_db \<Rightarrow> bool" where
  "memory_db_ok d \<longleftrightarrow>
     (\<forall>rows. mdb_new_id d rows \<notin> mm_id ` set rows) \<and> (\<forall>rs. set (mdb_order d rs) = set rs \<and>
        length (mdb_order d rs) = length rs)"

text \<open>What no operation changes in a row; and a row that is no longer active stays so.\<close>

definition row_of :: "memory_row \<Rightarrow> memory_row \<Rightarrow> bool" where
  "row_of q r \<longleftrightarrow>
     q = r\<lparr>mm_status := mm_status q, mm_updated := mm_updated q, mm_confidence := mm_confidence q\<rparr> \<and>
     (mm_status q = MS_ACTIVE \<longrightarrow> mm_status r = MS_ACTIVE)"

definition rows_of :: "memory_row list \<Rightarrow> memory_row list \<Rightarrow> bool" where
  "rows_of new old \<longleftrightarrow> map mm_id new = map mm_id old \<and> (\<forall>q \<in> set new. \<exists>r \<in> set old. row_of q r)"

lemma rows_ofE:
  assumes "rows_of new old" and "q \<in> set new"
  obtains r where "r \<in> set old" "row_of q r"
  using assms unfolding rows_of_def by blast

lemma row_of_fields:
  assumes "row_of q r"
  shows "mm_id q = mm_id r" "mm_customer q = mm_customer r" "mm_tenant q = mm_tenant r"
    "mm_key q = mm_key r" "mm_content q = mm_content r" "mm_sensitivity q = mm_sensitivity r"
    "mm_retention q = mm_retention r" "mm_expires q = mm_expires r"
proof -
  obtain a b x where "q = r\<lparr>mm_status := a, mm_updated := b, mm_confidence := x\<rparr>"
    using assms unfolding row_of_def by blast
  then show "mm_id q = mm_id r" "mm_customer q = mm_customer r" "mm_tenant q = mm_tenant r"
    "mm_key q = mm_key r" "mm_content q = mm_content r" "mm_sensitivity q = mm_sensitivity r"
    "mm_retention q = mm_retention r" "mm_expires q = mm_expires r"
    by simp_all
qed

lemma row_of_active: "row_of q r \<Longrightarrow> active_row c t q \<Longrightarrow> active_row c t r"
  using row_of_fields [of q r] by (simp add: active_row_def row_of_def)

lemma row_of_refl: "row_of r r"
  by (cases r) (simp add: row_of_def)

lemma rows_of_refl: "rows_of rs rs"
  by (auto simp: rows_of_def intro: row_of_refl)

lemma put_row_ids [simp]: "map mm_id (put_row r rows) = map mm_id rows"
  by (induction rows) (auto simp: put_row_def)

lemma set_put_row: "q \<in> set (put_row r rows) \<longleftrightarrow>
    q \<in> set rows \<and> mm_id q \<noteq> mm_id r \<or> q = r \<and> mm_id r \<in> mm_id ` set rows"
  by (induction rows) (auto simp: put_row_def)

lemma rows_of_put:
  assumes "rows_of rows old" and "r \<in> set old" and "row_of q r"
  shows "rows_of (put_row q rows) old"
  using assms by (auto simp: rows_of_def set_put_row)

lemma row_of_mark: "s \<noteq> MS_ACTIVE \<Longrightarrow> row_of (r\<lparr>mm_status := s, mm_updated := now\<rparr>) r"
  by (cases r) (simp add: row_of_def)

lemma row_of_refresh: "row_of (r\<lparr>mm_updated := now, mm_confidence := x\<rparr>) r"
  by (cases r) (simp add: row_of_def)

lemma rows_of_mark:
  "rows_of rows old \<Longrightarrow> r \<in> set old \<Longrightarrow> s \<noteq> MS_ACTIVE \<Longrightarrow> rows_of (mark_status s now r rows) old"
  unfolding mark_status_def by (blast intro: rows_of_put row_of_mark)

lemma rows_of_supersede:
  "supersede m now rs rows = (x, rows1) \<Longrightarrow> set rs \<subseteq> set old \<Longrightarrow> rows_of rows old \<Longrightarrow> rows_of rows1 old"
  by (induction rs arbitrary: rows)
    (auto simp: Let_def split: if_splits intro: rows_of_mark rows_of_put row_of_refresh)

lemma rows_of_fold:
  "s \<noteq> MS_ACTIVE \<Longrightarrow> set rs \<subseteq> set old \<Longrightarrow> rows_of rows old \<Longrightarrow>
     rows_of (fold (mark_status s now) rs rows) old"
  by (induction rs arbitrary: rows) (auto intro: rows_of_mark)

lemma rows_of_compact:
  "set rs \<subseteq> set old \<Longrightarrow> rows_of rows old \<Longrightarrow> rows_of (snd (compact_loop now kept rs n rows)) old"
  by (induction rs arbitrary: rows n kept) (auto intro: rows_of_mark)

text \<open>The invariant: identifiers are unique, a customer has at most one active record of a key, and
  every record holds content that passed the policy.\<close>

definition one_active :: "memory_row list \<Rightarrow> bool" where
  "one_active rows \<longleftrightarrow>
     (\<forall>q \<in> set rows. \<forall>r \<in> set rows. mm_status q = MS_ACTIVE \<and>
        active_row (mm_customer q) (mm_tenant q) r \<and> mm_key r = mm_key q \<longrightarrow> mm_id q = mm_id r)"

definition screened :: "memory_row \<Rightarrow> bool" where
  "screened r \<longleftrightarrow>
     mm_sensitivity r \<noteq> SL_RESTRICTED \<and> mm_retention r \<noteq> RP_NO_STORE \<and>
     fullmatch key_pattern (mm_key r) \<and> length (mm_content r) \<le> 300 \<and>
     \<not> found_any authority_override_patterns (mm_content r) \<and>
     \<not> found_any authority_claim_patterns (mm_content r) \<and>
     \<not> list_ex (\<lambda>p. contains p (casefold (mm_content r))) rejected_patterns"

definition memory_ok :: "memory_row list \<Rightarrow> bool" where
  "memory_ok rows \<longleftrightarrow> distinct (map mm_id rows) \<and> one_active rows \<and> (\<forall>r \<in> set rows. screened r)"

lemma memory_ok_rows_of:
  assumes "rows_of new old" and "memory_ok old"
  shows "memory_ok new"
proof -
  have ids: "distinct (map mm_id new)" using assms by (simp add: rows_of_def memory_ok_def)
  have one: "one_active new" unfolding one_active_def
  proof (intro ballI impI, elim conjE)
    fix q r assume q: "q \<in> set new" "mm_status q = MS_ACTIVE"
      and r: "r \<in> set new" "active_row (mm_customer q) (mm_tenant q) r" "mm_key r = mm_key q"
    obtain q0 where q0: "q0 \<in> set old" "row_of q q0" by (rule rows_ofE [OF assms(1) q(1)])
    obtain r0 where r0: "r0 \<in> set old" "row_of r r0" by (rule rows_ofE [OF assms(1) r(1)])
    note old = q0 r0
    note fields = row_of_fields [OF old(2)] row_of_fields [OF old(4)]
    have "mm_status q0 = MS_ACTIVE" using old(2) q(2) unfolding row_of_def by blast
    moreover have "active_row (mm_customer q0) (mm_tenant q0) r0"
      using row_of_active [OF old(4) r(2)] fields(2,3) by simp
    moreover have "mm_key r0 = mm_key q0" using r(3) fields(4,12) by simp
    ultimately have "mm_id q0 = mm_id r0"
      using assms(2) old(1,3) unfolding memory_ok_def one_active_def by blast
    then show "mm_id q = mm_id r" using fields(1,9) by simp
  qed
  have "screened q" if q: "q \<in> set new" for q
  proof -
    obtain r where "r \<in> set old" "row_of q r" by (rule rows_ofE [OF assms(1) q])
    then show ?thesis
      using assms(2) row_of_fields [of q r] by (simp add: memory_ok_def screened_def)
  qed
  with ids one show ?thesis by (simp add: memory_ok_def)
qed

lemma superseded_slot:
  assumes "supersede m now rs rows = (None, rows1)" and "q \<in> set rows1" and "mm_status q = MS_ACTIVE"
  shows "q \<in> set rows \<and> mm_id q \<notin> mm_id ` set rs"
  using assms
proof (induction rs arbitrary: rows)
  case (Cons r rs)
  then have "supersede m now rs (mark_status MS_SUPERSEDED now r rows) = (None, rows1)"
    by (simp add: Let_def split: if_splits)
  from Cons.IH [OF this Cons.prems(2,3)] Cons.prems(3) show ?case
    by (auto simp: mark_status_def set_put_row)
qed simp

lemma classified_storable:
  "dc_eligibility (classify_candidate m) \<noteq> SE_REJECT \<Longrightarrow>
     dc_sensitivity (classify_candidate m) \<noteq> SL_RESTRICTED \<and>
     dc_retention (classify_candidate m) \<noteq> RP_NO_STORE"
  by (auto simp: classify_candidate_def Let_def split: if_splits)

text \<open>What the policy allows to be stored.\<close>

lemma evaluate_fields:
  "md_class (evaluate_candidate m) = classify_candidate (normalize_candidate m)"
  "md_candidate (evaluate_candidate m) = dc_candidate (classify_candidate (normalize_candidate m))"
  by (simp_all only: evaluate_candidate_def Let_def if_distrib [where f = md_class]
        if_distrib [where f = md_candidate] memory_decision.simps if_cancel)

lemma evaluate_allowed:
  fixes m :: memory_candidate
  defines "v \<equiv> md_candidate (evaluate_candidate m)"
  assumes "md_outcome (evaluate_candidate m) = MO_ALLOW"
  shows "dc_eligibility (md_class (evaluate_candidate m)) \<noteq> SE_REJECT"
    and "fullmatch key_pattern (mc_key v)" and "length (mc_content v) \<le> 300"
    and "\<not> found_any authority_override_patterns (mc_content v)"
    and "\<not> found_any authority_claim_patterns (mc_content v)"
    and "\<not> list_ex (\<lambda>p. contains p (casefold (mc_content v))) rejected_patterns"
    and "mc_type v = MT_PREFERENCE \<and> mc_key v \<in> set auto_preference_keys \<or> mc_explicit v"
  using assms(2) unfolding v_def evaluate_fields
  by (simp_all only: evaluate_candidate_def Let_def if_distrib [where f = md_outcome]
        memory_decision.simps memory_outcome.distinct not_less simp_thms split: if_splits)

lemma new_memory_fields [simp]:
  "mm_id (new_memory d cfg c t source now v rows) = mdb_new_id d rows"
  "mm_customer (new_memory d cfg c t source now v rows) = c"
  "mm_tenant (new_memory d cfg c t source now v rows) = t"
  "mm_key (new_memory d cfg c t source now v rows) = mc_key (md_candidate v)"
  "mm_content (new_memory d cfg c t source now v rows) = mc_content (md_candidate v)"
  "mm_status (new_memory d cfg c t source now v rows) = MS_ACTIVE"
  by (simp_all add: new_memory_def Let_def)

lemma allowed_screened:
  assumes "md_outcome (evaluate_candidate m) = MO_ALLOW"
  shows "screened (new_memory d cfg c t source now (evaluate_candidate m) rows)"
  using evaluate_allowed [OF assms] classified_storable [of "normalize_candidate m"]
  by (simp add: new_memory_def screened_def Let_def evaluate_fields(1))

text \<open>Nothing is stored without the customer's consent, except the low-risk preferences.\<close>

lemma allowed_consent:
  assumes "md_outcome (evaluate_candidate m) = MO_ALLOW"
  shows "mc_explicit m \<or> mc_type m = MT_PREFERENCE \<and>
    mc_key (md_candidate (evaluate_candidate m)) \<in> set auto_preference_keys"
proof -
  have "mc_explicit (dc_candidate (classify_candidate (normalize_candidate m))) = mc_explicit m"
    "mc_type (dc_candidate (classify_candidate (normalize_candidate m))) = mc_type m"
    by (simp_all add: classify_candidate_def normalize_candidate_def Let_def)
  then show ?thesis using evaluate_allowed(7) [OF assms] by (auto simp: evaluate_fields(2))
qed

text \<open>The three ends of a remember: nothing changes, a record is refreshed, or a new one is added.\<close>

lemma active_by_key_set:
  assumes "memory_db_ok d" and "active_by_key d c k t rows = Inr rs"
  shows "set rs = {r \<in> set rows. active_row c t r \<and> mm_key r = k}"
  using assms by (auto simp: active_by_key_def memory_db_ok_def result_simps)

lemma commit_rows_cases:
  "commit_rows d old new a = (r, rows') \<Longrightarrow> rows' = old \<or> rows' = new"
  by (auto simp: commit_rows_def split: option.splits if_splits)

lemma commit_rows_Inr:
  "commit_rows d old new a = (Inr b, rows') \<Longrightarrow> rows' = new \<and> b = a"
  by (auto simp: commit_rows_def split: option.splits if_splits)

lemma remember_cases:
  assumes "remember d cfg c m source now retention t rows = (r, rows')"
  obtains "rows' = rows"
  | rs x rows1 where "active_by_key d c (mc_key (md_candidate (evaluate_candidate m))) t rows = Inr rs"
      "supersede (md_candidate (evaluate_candidate m)) now rs rows = (Some x, rows1)" "rows' = rows1"
  | rs rows1 where "active_by_key d c (mc_key (md_candidate (evaluate_candidate m))) t rows = Inr rs"
      "supersede (md_candidate (evaluate_candidate m)) now rs rows = (None, rows1)"
      "md_outcome (evaluate_candidate m) = MO_ALLOW"
      "rows' = rows1 @ [new_memory d cfg c t source now (evaluate_candidate m) rows1]"
  using assms unfolding remember_def Let_def
  by (auto split: if_splits sum.splits prod.splits option.splits dest!: commit_rows_cases)

lemma memory_ok_snoc:
  assumes "memory_ok rows" and "mm_id q \<notin> mm_id ` set rows"
    and "\<And>p. p \<in> set rows \<Longrightarrow> \<not> (active_row (mm_customer q) (mm_tenant q) p \<and> mm_key p = mm_key q)"
    and "screened q"
  shows "memory_ok (rows @ [q])"
proof -
  have "one_active (rows @ [q])" unfolding one_active_def
  proof (intro ballI impI)
    fix x y assume x: "x \<in> set (rows @ [q])" and y: "y \<in> set (rows @ [q])"
      and same: "mm_status x = MS_ACTIVE \<and> active_row (mm_customer x) (mm_tenant x) y \<and>
        mm_key y = mm_key x"
    consider "x \<in> set rows" "y \<in> set rows" | "x \<in> set rows" "y = q" | "x = q" "y \<in> set rows"
      | "x = q" "y = q" using x y by auto
    then show "mm_id x = mm_id y"
    proof cases
      case 1
      then show ?thesis using assms(1) same unfolding memory_ok_def one_active_def by blast
    next
      case 2
      then show ?thesis using assms(3) [of x] same by (simp add: active_row_def)
    next
      case 3
      then show ?thesis using assms(3) [of y] same by simp
    qed simp
  qed
  then show ?thesis using assms(1,2,4) by (auto simp: memory_ok_def)
qed

lemma remember_ok:
  assumes "memory_db_ok d" and "memory_ok rows"
    and run: "remember d cfg c m source now retention t rows = (r, rows')"
  shows "memory_ok rows'"
  using run
proof (cases rule: remember_cases)
  case (2 rs x rows1)
  have "set rs \<subseteq> set rows" using active_by_key_set [OF assms(1) 2(1)] by auto
  then show ?thesis
    using memory_ok_rows_of [OF rows_of_supersede [OF 2(2) _ rows_of_refl] assms(2)] 2(3) by simp
next
  case (3 rs rows1)
  let ?v = "evaluate_candidate m"
  let ?q = "new_memory d cfg c t source now ?v rows1"
  note rs = active_by_key_set [OF assms(1) 3(1)]
  then have "set rs \<subseteq> set rows" by auto
  then have "memory_ok rows1"
    using memory_ok_rows_of [OF rows_of_supersede [OF 3(2) _ rows_of_refl] assms(2)] by simp
  moreover have "mm_id ?q \<notin> mm_id ` set rows1"
    using assms(1) by (simp add: memory_db_ok_def)
  moreover have "\<not> (active_row c t p \<and> mm_key p = mm_key ?q)" if "p \<in> set rows1" for p
    using superseded_slot [OF 3(2) that] rs unfolding new_memory_fields active_row_def by blast
  moreover note allowed_screened [OF 3(3), of d cfg c t source now rows1]
  ultimately show ?thesis
    unfolding 3(4) by (intro memory_ok_snoc) simp_all
qed (use assms in simp)

lemma forget_cases:
  assumes "forget d cfg c k now t rows = (r, rows')"
  obtains "rows' = rows"
  | rs where "active_by_key d c k t rows = Inr rs" "rows' = fold (mark_status MS_DELETED now) rs rows"
proof (cases "cfg_enabled cfg")
  case True
  show ?thesis
  proof (cases "active_by_key d c k t rows")
    case (Inl x)
    then have "rows' = rows" using assms True by (simp add: forget_def)
    then show ?thesis by (rule that(1))
  next
    case (Inr rs)
    show ?thesis
    proof (cases rs)
      case Nil
      then have "rows' = rows" using assms True Inr by (simp add: forget_def)
      then show ?thesis by (rule that(1))
    next
      case (Cons q qs)
      have "commit_rows d rows (fold (mark_status MS_DELETED now) rs rows)
          \<lparr>mo_status = ''forgotten'', mo_record = None, mo_affected = length rs, mo_reason = None,
           mo_signal = None\<rparr> = (r, rows')"
        using assms True Inr by (simp add: forget_def Cons)
      from commit_rows_cases [OF this] show ?thesis
        by (elim disjE) (erule that(1), erule that(2) [OF Inr])
    qed
  qed
next
  case False
  then have "rows' = rows" using assms by (simp add: forget_def)
  then show ?thesis by (rule that(1))
qed

lemma forget_ok:
  assumes "memory_db_ok d" and "memory_ok rows" and "forget d cfg c k now t rows = (r, rows')"
  shows "memory_ok rows'"
  using assms(3)
proof (cases rule: forget_cases)
  case (2 rs)
  have "set rs \<subseteq> set rows" using active_by_key_set [OF assms(1) 2(1)] by auto
  from memory_ok_rows_of [OF rows_of_fold [OF _ this rows_of_refl] assms(2)] show ?thesis
    by (simp add: 2(2))
qed (use assms in simp)

lemma set_newest_first [simp]: "set (newest_first rs) = set rs"
  by (simp add: newest_first_def)

lemma active_for_customer_set:
  "active_for_customer c t rows = Inr rs \<Longrightarrow> set rs = {r \<in> set rows. active_row c t r}"
  by (auto simp: active_for_customer_def result_simps)

lemma compact_cases:
  assumes "compact_customer_memory d c now t rows = (r, rows')"
  obtains "rows' = rows"
  | active where "active_for_customer c t rows = Inr active"
      "rows' = snd (compact_loop now [] (newest_first active) 0 rows)"
  using assms unfolding compact_customer_memory_def
  by (auto split: sum.splits prod.splits nat.splits dest!: commit_rows_cases)

lemma compact_ok:
  assumes "memory_ok rows" and "compact_customer_memory d c now t rows = (r, rows')"
  shows "memory_ok rows'"
  using assms(2)
proof (cases rule: compact_cases)
  case (2 active)
  have "set (newest_first active) \<subseteq> set rows" using active_for_customer_set [OF 2(1)] by auto
  from memory_ok_rows_of [OF rows_of_compact [OF this rows_of_refl] assms(1)] show ?thesis
    by (simp add: 2(2))
qed (use assms in simp)

text \<open>The operations of the service, in any order, from the empty table.\<close>

inductive memory_step :: "memory_db \<Rightarrow> memory_row list \<Rightarrow> memory_row list \<Rightarrow> bool"
  for d :: memory_db where
  step_remember: "remember d cfg c m source now retention t rows = (r, rows') \<Longrightarrow> memory_step d rows rows'"
| step_forget: "forget d cfg c k now t rows = (r, rows') \<Longrightarrow> memory_step d rows rows'"
| step_compact: "compact_customer_memory d c now t rows = (n, rows') \<Longrightarrow> memory_step d rows rows'"

lemma memory_step_ok: "memory_step d rows rows' \<Longrightarrow> memory_db_ok d \<Longrightarrow> memory_ok rows \<Longrightarrow> memory_ok rows'"
  by (induction rule: memory_step.induct) (blast intro: remember_ok forget_ok compact_ok)+

text \<open>C19. Whatever sequence of operations the memory service ran on an empty table, faults of the
  commits included: record identifiers are unique, a customer of a tenant has at most one active
  record of a key, and every record ever stored passed the policy: no restricted data class, no
  claim of authority, no override phrase, a well-formed key and at most 300 characters.\<close>

theorem reachable_memory_ok:
  assumes "memory_db_ok d" and "(memory_step d)\<^sup>*\<^sup>* [] rows"
  shows "distinct (map mm_id rows) \<and> one_active rows \<and> (\<forall>r \<in> set rows. screened r)"
  using assms(2)
proof (induction rule: rtranclp_induct)
  case base
  show ?case by (simp add: one_active_def)
next
  case (step y z)
  then show ?case using memory_step_ok [OF step(2) assms(1)] by (simp add: memory_ok_def)
qed

section \<open>Recall\<close>

lemma take_to_nonneg: "0 \<le> n \<Longrightarrow> take_to n xs = take (nat n) xs"
  by (simp add: take_to_def)

text \<open>What the principal may be shown of a customer.\<close>

definition recallable ::
  "int \<Rightarrow> rat \<Rightarrow> principal option \<Rightarrow> memory_row \<Rightarrow> bool" where
  "recallable c now who r \<longleftrightarrow>
     active_row c (tenant_or_default (case who of None \<Rightarrow> None | Some p \<Rightarrow> principal_tenant p)) r \<and>
     alive now r \<and> mm_sensitivity r \<noteq> SL_RESTRICTED \<and>
     (case who of None \<Rightarrow> True
      | Some p \<Rightarrow> actor_kind p = AT_CUSTOMER \<and> principal_customer p = Some c \<or>
          actor_kind p = AT_SUPPORT_OPERATOR \<and> ''support_operator'' \<in> set (roles p))"

lemma ranked_set:
  assumes "active_for_customer c (tenant_or_default (case who of None \<Rightarrow> None | Some p \<Rightarrow> principal_tenant p)) rows = Inr active"
    and "\<And>p. who = Some p \<Longrightarrow> principal_tenant p \<noteq> Some []"
  shows "set (ranked c query now who active) = {r \<in> set rows. recallable c now who r}"
  using active_for_customer_set [OF assms(1)] assms(2)
  by (auto simp: ranked_def recallable_def can_retrieve_def active_row_def tenant_or_default_def
      split: option.splits if_splits)

lemma length_ranked:
  assumes "active_for_customer c (tenant_or_default (case who of None \<Rightarrow> None | Some p \<Rightarrow> principal_tenant p)) rows = Inr active"
    and "\<And>p. who = Some p \<Longrightarrow> principal_tenant p \<noteq> Some []"
  shows "length (ranked c query now who active) = length (filter (recallable c now who) rows)"
proof -
  let ?t = "tenant_or_default (case who of None \<Rightarrow> None | Some p \<Rightarrow> principal_tenant p)"
  have active: "active = newest_first (filter (active_row c ?t) rows)"
    using assms(1) by (auto simp: active_for_customer_def result_simps)
  have "recallable c now who r \<longleftrightarrow> active_row c ?t r \<and> alive now r \<and> can_retrieve r c who" for r
    using assms(2)
    by (auto simp: recallable_def can_retrieve_def active_row_def tenant_or_default_def
        split: option.splits if_splits)
  then have "recallable c now who = (\<lambda>r. active_row c ?t r \<and> alive now r \<and> can_retrieve r c who)"
    by (intro ext)
  then show ?thesis
    by (simp only: active ranked_def newest_first_def filter_sort filter_filter length_sort conj_ac)
qed

text \<open>C20. A recall returns the records the principal may be shown and nothing else: active, not
  expired, of that customer in the principal's tenant, never restricted. They come by descending
  relevance; when there are more than the limit, none that was left out is more relevant than one
  that was returned, and when there are fewer, all of them are returned.\<close>

theorem recall_most_relevant:
  assumes "retrieve cfg c query now who rows = Inr vs" and "cfg_enabled cfg" and "0 \<le> cfg_max_items cfg"
    and "who = None \<or> principal_tenant (the who) \<noteq> Some []"
  shows "\<exists>rs. vs = map view_of rs \<and> set rs \<subseteq> {r \<in> set rows. recallable c now who r} \<and>
    length rs = min (nat (cfg_max_items cfg)) (length (filter (recallable c now who) rows)) \<and>
    sorted_wrt (\<lambda>q r. score_memory r query now \<le> score_memory q query now) rs \<and>
    (\<forall>r \<in> set rows. recallable c now who r \<and> r \<notin> set rs \<longrightarrow>
       (\<forall>q \<in> set rs. score_memory r query now \<le> score_memory q query now))"
proof -
  have tenant: "\<And>p. who = Some p \<Longrightarrow> principal_tenant p \<noteq> Some []" using assms(4) by simp
  obtain active where active: "active_for_customer c
      (tenant_or_default (case who of None \<Rightarrow> None | Some p \<Rightarrow> principal_tenant p)) rows = Inr active"
    and vs: "vs = map view_of (take (nat (cfg_max_items cfg)) (ranked c query now who active))"
    using assms(1-3) by (auto simp: retrieve_def result_simps take_to_nonneg)
  define xs n where "xs = ranked c query now who active" and "n = nat (cfg_max_items cfg)"
  have sorted: "sorted_wrt (\<lambda>q r. score_memory r query now \<le> score_memory q query now) xs"
    using sorted_sort_key [of "\<lambda>r. - score_memory r query now"]
    by (simp add: xs_def ranked_def sorted_map)
  have "sorted_wrt (\<lambda>q r. score_memory r query now \<le> score_memory q query now) (take n xs @ drop n xs)"
    using sorted by simp
  then have parts: "sorted_wrt (\<lambda>q r. score_memory r query now \<le> score_memory q query now) (take n xs)"
    "\<forall>q \<in> set (take n xs). \<forall>r \<in> set (drop n xs). score_memory r query now \<le> score_memory q query now"
    unfolding sorted_wrt_append by blast+
  have xs: "set xs = {r \<in> set rows. recallable c now who r}"
    "length xs = length (filter (recallable c now who) rows)"
    using ranked_set [OF active tenant] length_ranked [OF active tenant] by (auto simp: xs_def)
  have "r \<in> set (drop n xs)" if "r \<in> set xs" "r \<notin> set (take n xs)" for r
    using that append_take_drop_id [of n xs] by (metis Un_iff set_append)
  with parts xs vs show ?thesis
    by (intro exI [of _ "take n xs"]) (auto simp: xs_def n_def dest: in_set_takeD)
qed

section \<open>Remember and forget\<close>

definition actives :: "memory_row list \<Rightarrow> memory_row set" where
  "actives rows = {r \<in> set rows. mm_status r = MS_ACTIVE}"

definition in_slot :: "int \<Rightarrow> string \<Rightarrow> ustr \<Rightarrow> memory_row \<Rightarrow> bool" where
  "in_slot c t k r \<longleftrightarrow> active_row c t r \<and> mm_key r = k"

lemma in_slot_active: "in_slot c t k r \<Longrightarrow> mm_status r = MS_ACTIVE"
  by (simp add: in_slot_def active_row_def)

lemma same_id_same_row:
  "memory_ok rows \<Longrightarrow> q \<in> set rows \<Longrightarrow> r \<in> set rows \<Longrightarrow> mm_id q = mm_id r \<Longrightarrow> q = r"
  unfolding memory_ok_def distinct_map inj_on_def by blast

lemma one_in_slot:
  "memory_ok rows \<Longrightarrow> q \<in> set rows \<Longrightarrow> r \<in> set rows \<Longrightarrow> in_slot c t k q \<Longrightarrow> in_slot c t k r \<Longrightarrow> q = r"
proof (rule same_id_same_row)
  assume ok: "memory_ok rows" and q: "q \<in> set rows" and r: "r \<in> set rows"
    and "in_slot c t k q" and "in_slot c t k r"
  then have "mm_status q = MS_ACTIVE \<and> active_row (mm_customer q) (mm_tenant q) r \<and> mm_key r = mm_key q"
    by (simp add: in_slot_def active_row_def)
  then show "mm_id q = mm_id r" using ok q r unfolding memory_ok_def one_active_def by blast
qed

lemma actives_mark:
  "s \<noteq> MS_ACTIVE \<Longrightarrow> actives (mark_status s now r rows) = {q \<in> actives rows. mm_id q \<noteq> mm_id r}"
  by (auto simp: actives_def mark_status_def set_put_row)

lemma actives_snoc: "mm_status q = MS_ACTIVE \<Longrightarrow> actives (rows @ [q]) = insert q (actives rows)"
  by (auto simp: actives_def)

lemma actives_fold_mark:
  "s \<noteq> MS_ACTIVE \<Longrightarrow> actives (fold (mark_status s now) rs rows) =
     {q \<in> actives rows. mm_id q \<notin> mm_id ` set rs}"
  by (induction rs arbitrary: rows) (auto simp: actives_mark)

lemma actives_refresh:
  assumes "memory_ok rows" and "r \<in> set rows" and "mm_status q = MS_ACTIVE" and "mm_id q = mm_id r"
  shows "actives (put_row q rows) = insert q (actives rows - {r})"
  using assms same_id_same_row [OF assms(1) _ assms(2)]
  by (auto simp: actives_def set_put_row)

lemma distinct_same_length:
  assumes "distinct xs" and "\<And>x y. x \<in> set xs \<Longrightarrow> y \<in> set xs \<Longrightarrow> x = y"
  shows "length xs \<le> 1"
proof (cases xs)
  case (Cons x ys)
  show ?thesis
  proof (cases ys)
    case (Cons y zs)
    then have "x = y" using \<open>xs = x # ys\<close> by (intro assms(2)) simp_all
    then show ?thesis using assms(1) \<open>xs = x # ys\<close> Cons by simp
  qed (simp add: Cons)
qed simp

text \<open>The query for a key returns the record of the slot, if there is one.\<close>

lemma slot_list:
  assumes "memory_db_ok d" and "memory_ok rows" and "active_by_key d c k t rows = Inr rs"
  shows "rs = [] \<or> (\<exists>r \<in> set rows. rs = [r] \<and> in_slot c t k r)"
proof -
  let ?xs = "filter (\<lambda>r. active_row c t r \<and> mm_key r = k) rows"
  have rs: "length rs = length ?xs" "set rs = set ?xs"
    using assms(1,3) by (auto simp: active_by_key_def result_simps memory_db_ok_def)
  have "distinct ?xs"
    using assms(2) by (simp add: memory_ok_def distinct_map)
  moreover have "q = r" if "q \<in> set ?xs" "r \<in> set ?xs" for q r
    using that one_in_slot [OF assms(2), of q r c t k] by (simp add: in_slot_def)
  ultimately have "length ?xs \<le> 1" by (rule distinct_same_length)
  then have "length rs \<le> 1" by (simp add: rs(1))
  moreover have "\<forall>r \<in> set rs. r \<in> set rows \<and> in_slot c t k r" by (simp add: rs(2) in_slot_def)
  ultimately show ?thesis by (cases rs) simp_all
qed

lemma not_stored_status [simp]: "mo_status (not_stored s reason signal) = s"
  by (simp add: not_stored_def)

text \<open>What the loop over the slot leaves active: nothing of the slot, or its refreshed record.\<close>

lemma supersede_slot:
  assumes "memory_db_ok d" and "memory_ok rows" and "active_by_key d c k t rows = Inr rs"
    and "supersede m now rs rows = (x, rows1)"
  shows "case x of
      None \<Rightarrow> actives rows1 = {r \<in> actives rows. \<not> in_slot c t k r}
    | Some q \<Rightarrow> actives rows1 = insert q {r \<in> actives rows. \<not> in_slot c t k r} \<and> in_slot c t k q \<and>
        mm_content q = mc_content m"
  using slot_list [OF assms(1-3)]
proof (elim disjE bexE conjE)
  assume rs: "rs = []"
  then have "{r \<in> set rows. active_row c t r \<and> mm_key r = k} = {}"
    using active_by_key_set [OF assms(1,3)] by simp
  then have "\<forall>r \<in> actives rows. \<not> in_slot c t k r" by (auto simp: actives_def in_slot_def)
  then show ?thesis using assms(4) rs by auto
next
  fix r assume r: "r \<in> set rows" and rs: "rs = [r]" and slot: "in_slot c t k r"
  have slot_iff: "in_slot c t k q \<longleftrightarrow> q = r" if "q \<in> set rows" for q
    using one_in_slot [OF assms(2) that r _ slot] slot by blast
  have id_iff: "mm_id q = mm_id r \<longleftrightarrow> q = r" if "q \<in> set rows" for q
    using same_id_same_row [OF assms(2) that r] by blast
  have rest: "{q \<in> actives rows. \<not> in_slot c t k q} = actives rows - {r}"
    by (auto simp: actives_def slot_iff)
  have others: "{q \<in> actives rows. mm_id q \<noteq> mm_id r} = {q \<in> actives rows. \<not> in_slot c t k q}"
    by (auto simp: actives_def slot_iff id_iff)
  show ?thesis
  proof (cases "mm_content r = mc_content m")
    case True
    let ?q = "r\<lparr>mm_updated := now, mm_confidence := max (mm_confidence r) (mc_confidence m)\<rparr>"
    have x: "x = Some ?q" and rows1: "rows1 = put_row ?q rows"
      using assms(4) True unfolding rs by (simp_all add: Let_def)
    have "mm_status ?q = MS_ACTIVE" using in_slot_active [OF slot] by simp
    from actives_refresh [OF assms(2) r this] have "actives rows1 = insert ?q (actives rows - {r})"
      by (simp add: rows1)
    moreover have "in_slot c t k ?q" using slot by (simp add: in_slot_def active_row_def)
    ultimately show ?thesis using True by (simp add: x rest)
  next
    case False
    then have "x = None" and "rows1 = mark_status MS_SUPERSEDED now r rows"
      using assms(4) unfolding rs by simp_all
    then show ?thesis by (simp add: actives_mark others)
  qed
qed

lemma remember_status:
  assumes "remember d cfg c m source now retention t rows = (Inr out, rows1)"
  shows "mo_status out =
    (if \<not> cfg_enabled cfg then ''disabled''
     else if retention = RP_NO_STORE then ''reject''
     else if md_outcome (evaluate_candidate m) = MO_REJECT then ''reject''
     else if md_outcome (evaluate_candidate m) = MO_REQUIRE_EXPLICIT then ''require_explicit''
     else mo_status out)"
  using assms unfolding remember_def Let_def
  by (cases "md_outcome (evaluate_candidate m)") (simp_all split: if_splits, auto)

lemma remember_stored:
  assumes "memory_db_ok d" and "memory_ok rows"
    and run: "remember d cfg c m source now retention t rows = (Inr out, rows1)"
    and status: "mo_status out \<in> {''persisted'', ''deduplicated''}"
  obtains q where "in_slot c t (mc_key (md_candidate (evaluate_candidate m))) q"
    and "actives rows1 = insert q {r \<in> actives rows.
           \<not> in_slot c t (mc_key (md_candidate (evaluate_candidate m))) r}"
    and "mm_content q = mc_content (md_candidate (evaluate_candidate m))"
    and "mo_record out = Some (view_of q)" and "cfg_enabled cfg"
    and "md_outcome (evaluate_candidate m) = MO_ALLOW" and "\<not> blank t"
proof -
  let ?v = "evaluate_candidate m"
  let ?k = "mc_key (md_candidate ?v)"
  have on: "cfg_enabled cfg" "retention \<noteq> RP_NO_STORE" "md_outcome ?v = MO_ALLOW"
    using remember_status [OF run] status by (cases "md_outcome ?v"; auto split: if_splits)+
  then obtain rs where rs: "active_by_key d c ?k t rows = Inr rs"
    using run by (auto simp: remember_def Let_def split: sum.splits)
  then have "\<not> blank t" by (auto simp: active_by_key_def require_tenant_def split: if_splits)
  obtain x rows2 where loop: "supersede (md_candidate ?v) now rs rows = (x, rows2)" by fastforce
  note slot = supersede_slot [OF assms(1,2) rs loop]
  show thesis
  proof (cases x)
    case None
    let ?q = "new_memory d cfg c t source now ?v rows2"
    have "commit_rows d rows (rows2 @ [?q]) (stored ''persisted'' ?q) = (Inr out, rows1)"
      using run on rs loop None by (simp add: remember_def Let_def)
    note committed = commit_rows_Inr [OF this]
    have "actives rows1 = insert ?q {r \<in> actives rows. \<not> in_slot c t ?k r}"
      using slot committed None by (simp add: actives_snoc)
    moreover have "in_slot c t ?k ?q" by (simp add: in_slot_def active_row_def)
    ultimately show thesis
      using that [of ?q] on \<open>\<not> blank t\<close> committed by (simp add: stored_def)
  next
    case (Some q)
    have "commit_rows d rows rows2 (stored ''deduplicated'' q) = (Inr out, rows1)"
      using run on rs loop Some by (simp add: remember_def Let_def)
    note committed = commit_rows_Inr [OF this]
    show thesis
      using that [of q] slot Some on \<open>\<not> blank t\<close> committed by (simp add: stored_def)
  qed
qed

text \<open>Forgetting takes back a remember: after a fact was stored or refreshed, forgetting its key
  reports one forgotten record, and the active records are those from before the remember, without
  the one the key had then.\<close>

theorem remember_then_forget:
  assumes "memory_db_ok d" and "memory_ok rows"
    and "remember d cfg c m source now retention t rows = (Inr out, rows1)"
    and "mo_status out \<in> {''persisted'', ''deduplicated''}"
    and "forget d cfg c (mc_key (md_candidate (evaluate_candidate m))) now' t rows1 = (Inr out', rows2)"
  shows "mo_status out' = ''forgotten'' \<and> mo_affected out' = 1 \<and>
    actives rows2 = {r \<in> actives rows. \<not> in_slot c t (mc_key (md_candidate (evaluate_candidate m))) r}"
proof -
  let ?k = "mc_key (md_candidate (evaluate_candidate m))"
  from remember_stored [OF assms(1-4)] obtain q where q: "in_slot c t ?k q"
    and act: "actives rows1 = insert q {r \<in> actives rows. \<not> in_slot c t ?k r}"
    and on: "cfg_enabled cfg" "\<not> blank t" by metis
  have ok: "memory_ok rows1" by (rule remember_ok [OF assms(1-3)])
  have "q \<in> set rows1" using act by (auto simp: actives_def)
  obtain rs where rs: "active_by_key d c ?k t rows1 = Inr rs"
    using on(2) by (simp add: active_by_key_def require_tenant_def)
  then have "q \<in> set rs"
    using active_by_key_set [OF assms(1) rs] \<open>q \<in> set rows1\<close> q by (simp add: in_slot_def)
  with slot_list [OF assms(1) ok rs] have "rs = [q]" by auto
  with rs on have "commit_rows d rows1 (mark_status MS_DELETED now' q rows1)
      \<lparr>mo_status = ''forgotten'', mo_record = None, mo_affected = 1, mo_reason = None,
       mo_signal = None\<rparr> = (Inr out', rows2)"
    using assms(5) by (simp add: forget_def)
  note committed = commit_rows_Inr [OF this]
  have "actives rows2 = {r \<in> actives rows1. mm_id r \<noteq> mm_id q}"
    using committed by (simp add: actives_mark)
  also have "\<dots> = actives rows1 - {q}"
    using same_id_same_row [OF ok _ \<open>q \<in> set rows1\<close>] by (auto simp: actives_def)
  also have "\<dots> = {r \<in> actives rows. \<not> in_slot c t ?k r}" using act q by auto
  finally show ?thesis using committed by simp
qed

text \<open>
  An expired record keeps its key: remembering the same fact again refreshes the expired record,
  whose expiry stays, so the fact is reported as remembered and no recall returns it.
\<close>

lemma expired_memory_not_renewed:
  assumes "active_by_key d c (mc_key (md_candidate (evaluate_candidate m))) t rows = Inr [r]"
    and "mm_content r = mc_content (md_candidate (evaluate_candidate m))"
    and "\<not> alive now r" and "now \<le> now'"
    and "cfg_enabled cfg" and "retention \<noteq> RP_NO_STORE"
    and "md_outcome (evaluate_candidate m) = MO_ALLOW" and "mdb_fault d = (\<lambda>rows. None)"
  shows "\<exists>q. remember d cfg c m source now retention t rows =
      (Inr (stored ''deduplicated'' q), put_row q rows) \<and> \<not> alive now' q"
proof -
  let ?q = "r\<lparr>mm_updated := now, mm_confidence :=
      max (mm_confidence r) (mc_confidence (md_candidate (evaluate_candidate m)))\<rparr>"
  have "remember d cfg c m source now retention t rows =
      (Inr (stored ''deduplicated'' ?q), put_row ?q rows)"
    using assms by (simp add: remember_def Let_def commit_rows_def)
  moreover have "\<not> alive now' ?q"
    using assms(3,4) by (auto simp: alive_def split: option.splits)
  ultimately show ?thesis by blast
qed

section \<open>Compaction\<close>

text \<open>The records the loop supersedes: those whose key occurred before.\<close>

fun repeated :: "ustr list \<Rightarrow> memory_row list \<Rightarrow> memory_row list" where
  "repeated kept [] = []"
| "repeated kept (r # rs) =
     (if mm_key r \<in> set kept then r # repeated kept rs else repeated (mm_key r # kept) rs)"

lemma compact_loop_repeated:
  "compact_loop now kept rs n rows =
     (n + length (repeated kept rs), fold (mark_status MS_SUPERSEDED now) (repeated kept rs) rows)"
  by (induction rs arbitrary: kept n rows) auto

lemma repeated_subset: "set (repeated kept rs) \<subseteq> set rs"
  by (induction rs arbitrary: kept) auto

lemma distinct_repeated: "distinct rs \<Longrightarrow> distinct (repeated kept rs)"
  using repeated_subset by (induction rs arbitrary: kept) fastforce+

definition newer :: "memory_row \<Rightarrow> memory_row \<Rightarrow> bool" where
  "newer q r \<longleftrightarrow> mm_updated r < mm_updated q \<or> mm_updated r = mm_updated q \<and> mm_id r < mm_id q"

lemma set_repeated:
  assumes "sorted_wrt newer rs"
  shows "r \<in> set (repeated kept rs) \<longleftrightarrow>
    r \<in> set rs \<and> (mm_key r \<in> set kept \<or> (\<exists>q \<in> set rs. mm_key q = mm_key r \<and> newer q r))"
  using assms
proof (induction rs arbitrary: kept)
  case (Cons x xs)
  have irreflexive: "\<not> newer y y" for y by (simp add: newer_def)
  have first: "\<not> newer y x" if "y \<in> set xs" for y
    using that Cons.prems by (auto simp: newer_def)
  have rest: "\<And>kept. r \<in> set (repeated kept xs) \<longleftrightarrow>
      r \<in> set xs \<and> (mm_key r \<in> set kept \<or> (\<exists>q \<in> set xs. mm_key q = mm_key r \<and> newer q r))"
    using Cons by simp
  show ?case
    using Cons.prems irreflexive first by (auto simp: rest)
qed simp

lemma sorted_newest_first:
  assumes "distinct (map mm_id rs)"
  shows "sorted_wrt newer (newest_first rs)"
proof -
  have "distinct (map (\<lambda>r. - mm_id r) rs)"
    using assms by (auto simp: distinct_map inj_on_def)
  then have "distinct (map (\<lambda>r. - mm_id r) (sort_key (\<lambda>r. - mm_id r) rs))"
    by (simp add: distinct_map)
  then have "sorted_wrt (<) (map (\<lambda>r. - mm_id r) (sort_key (\<lambda>r. - mm_id r) rs))"
    by (simp only: strict_sorted_iff) simp
  then have "sorted_wrt (\<lambda>q r. mm_id r < mm_id q) (sort_key (\<lambda>r. - mm_id r) rs)"
    by (simp add: sorted_wrt_map)
  from sorted_wrt_sort_key [OF this, of "\<lambda>r. - mm_updated r"] show ?thesis
    unfolding newest_first_def newer_def by (simp add: eq_commute)
qed

text \<open>A compaction leaves, of the active records of the customer, exactly the newest of each key
  (the greater identifier among those of one time), supersedes the others and touches nobody
  else's; the number it returns is the number of records it superseded.\<close>

theorem compaction_keeps_newest:
  assumes "distinct (map mm_id rows)" and "compact_customer_memory d c now t rows = (Inr n, rows')"
  shows "actives rows' = {r \<in> actives rows. \<not> (active_row c t r \<and>
      (\<exists>q \<in> set rows. active_row c t q \<and> mm_key q = mm_key r \<and> newer q r))} \<and>
    n = card (actives rows - actives rows')"
proof -
  obtain active where active: "active_for_customer c t rows = Inr active"
    using assms(2) by (auto simp: compact_customer_memory_def split: sum.splits)
  define rs where "rs = newest_first active"
  define dropped where "dropped = repeated [] rs"
  have rs: "rs = newest_first (newest_first (filter (active_row c t) rows))"
    using active by (auto simp: active_for_customer_def result_simps rs_def)
  have set_rs: "set rs = {r \<in> set rows. active_row c t r}" by (simp add: rs)
  have ids: "distinct (map mm_id rs)"
    using assms(1) by (simp add: rs newest_first_def distinct_map inj_on_def)
  have dropped_iff: "r \<in> set dropped \<longleftrightarrow>
      r \<in> set rs \<and> (\<exists>q \<in> set rs. mm_key q = mm_key r \<and> newer q r)" for r
    using set_repeated [OF sorted_newest_first, of "newest_first (filter (active_row c t) rows)" r "[]"]
      ids by (simp add: dropped_def rs newest_first_def distinct_map)
  let ?rows = "fold (mark_status MS_SUPERSEDED now) dropped rows"
  have loop: "compact_loop now [] (newest_first active) 0 rows = (length dropped, ?rows)"
    by (simp add: compact_loop_repeated dropped_def rs_def)
  have rows': "rows' = ?rows \<and> n = length dropped"
  proof (cases "length dropped")
    case 0
    then show ?thesis using assms(2) active loop by (simp add: compact_customer_memory_def)
  next
    case (Suc k)
    then have "commit_rows d rows ?rows (length dropped) = (Inr n, rows')"
      using assms(2) active loop by (simp add: compact_customer_memory_def)
    from commit_rows_Inr [OF this] show ?thesis .
  qed
  have sub: "set dropped \<subseteq> actives rows" "set dropped \<subseteq> set rows"
    using dropped_iff set_rs by (auto simp: actives_def active_row_def)
  have "inj_on mm_id (set rows)" using assms(1) by (simp add: distinct_map)
  then have same: "mm_id r \<in> mm_id ` set dropped \<longleftrightarrow> r \<in> set dropped" if "r \<in> set rows" for r
    using that sub(2) by (rule inj_on_image_mem_iff)
  have act: "actives rows' = {r \<in> actives rows. r \<notin> set dropped}"
    using same rows' by (simp add: actives_fold_mark) (auto simp: actives_def)
  have "actives rows - actives rows' = set dropped" using sub(1) unfolding act by blast
  moreover have "distinct dropped"
    unfolding dropped_def using ids by (intro distinct_repeated) (simp add: distinct_map)
  ultimately have "n = card (actives rows - actives rows')"
    by (simp add: rows' distinct_card)
  moreover have "actives rows' = {r \<in> actives rows. \<not> (active_row c t r \<and>
      (\<exists>q \<in> set rows. active_row c t q \<and> mm_key q = mm_key r \<and> newer q r))}"
    unfolding act dropped_iff set_rs by (auto simp: actives_def)
  ultimately show ?thesis by simp
qed

section \<open>Concrete runs\<close>

definition demo_mdb :: memory_db where
  "demo_mdb = \<lparr>mdb_new_id = (\<lambda>rows. 1 + foldr max (map mm_id rows) 0), mdb_order = (\<lambda>rs. rs),
     mdb_fault = (\<lambda>rows. None)\<rparr>"

definition demo_memory_config :: memory_config where
  "demo_memory_config =
     \<lparr>cfg_enabled = True, cfg_max_items = 5, cfg_default_ttl = 365, cfg_support_ttl = 30\<rparr>"

definition demo_fact :: memory_candidate where
  "demo_fact = \<lparr>mc_type = MT_PREFERENCE, mc_content = lit ''sms'', mc_key = lit ''language'',
     mc_confidence = 1, mc_explicit = True\<rparr>"

definition demo_row :: "int \<Rightarrow> rat \<Rightarrow> memory_row" where
  "demo_row i t = \<lparr>mm_id = i, mm_customer = 7, mm_type = MT_PREFERENCE, mm_content = lit ''sms'',
     mm_key = lit ''language'', mm_source = USER_EXPLICIT, mm_confidence = 1, mm_created = t,
     mm_updated = t, mm_expires = Some (t + 365 * 86400), mm_status = MS_ACTIVE,
     mm_sensitivity = SL_INTERNAL, mm_retention = RP_STANDARD, mm_redaction = RD_NOT_REQUIRED,
     mm_tenant = ''default''\<rparr>"

lemma demo_mdb_ok: "memory_db_ok demo_mdb"
proof -
  have "mm_id r \<le> foldr max (map mm_id rows) 0" if "r \<in> set rows" for r :: memory_row and rows
    using that by (induction rows) (auto simp: le_max_iff_disj)
  then have "1 + foldr max (map mm_id rows) 0 \<notin> mm_id ` set rows" for rows :: "memory_row list"
    by fastforce
  then show ?thesis by (simp add: memory_db_ok_def demo_mdb_def)
qed

lemma demo_remember:
  "remember demo_mdb demo_memory_config 7 demo_fact USER_EXPLICIT 100 RP_STANDARD ''default'' [] =
     (Inr (stored ''persisted'' (demo_row 1 100)), [demo_row 1 100])"
  by code_simp

lemma demo_key: "mc_key (md_candidate (evaluate_candidate demo_fact)) = lit ''language''"
  by code_simp

lemma memory_ok_Nil: "memory_ok []"
  by (simp add: memory_ok_def one_active_def)

theorem reachable_memory_ok_witness:
  "(memory_step demo_mdb)\<^sup>*\<^sup>* [] [demo_row 1 100] \<and> screened (demo_row 1 100)"
proof -
  have "(memory_step demo_mdb)\<^sup>*\<^sup>* [] [demo_row 1 100]"
    using step_remember [OF demo_remember] by (rule r_into_rtranclp)
  with reachable_memory_ok [OF demo_mdb_ok this] show ?thesis by simp
qed

lemma demo_recall:
  "retrieve demo_memory_config 7 (lit ''language'') 200 None [demo_row 1 100] =
     Inr [view_of (demo_row 1 100)]"
  by code_simp

theorem recall_most_relevant_witness:
  "\<exists>rs. [view_of (demo_row 1 100)] = map view_of rs \<and>
    set rs \<subseteq> {r \<in> set [demo_row 1 100]. recallable 7 200 None r}"
proof -
  have "cfg_enabled demo_memory_config" and "0 \<le> cfg_max_items demo_memory_config"
    and "(None :: principal option) = None \<or> principal_tenant (the None) \<noteq> Some []"
    by (simp_all add: demo_memory_config_def)
  from recall_most_relevant [OF demo_recall this] show ?thesis
    by (elim ex_forward conjE) (intro conjI; assumption)
qed

lemma demo_forget:
  "forget demo_mdb demo_memory_config 7 (lit ''language'') 200 ''default'' [demo_row 1 100] =
     (Inr \<lparr>mo_status = ''forgotten'', mo_record = None, mo_affected = 1, mo_reason = None,
        mo_signal = None\<rparr>, [(demo_row 1 100)\<lparr>mm_status := MS_DELETED, mm_updated := 200\<rparr>])"
  by code_simp

theorem remember_then_forget_witness:
  "actives [(demo_row 1 100)\<lparr>mm_status := MS_DELETED, mm_updated := 200\<rparr>] = {}"
  using remember_then_forget [OF demo_mdb_ok memory_ok_Nil demo_remember _
      demo_forget [unfolded demo_key [symmetric]]]
  by (simp add: stored_def actives_def)

lemma demo_compact:
  "compact_customer_memory demo_mdb 7 300 ''default'' [demo_row 1 100, demo_row 2 200] =
     (Inr 1, [(demo_row 1 100)\<lparr>mm_status := MS_SUPERSEDED, mm_updated := 300\<rparr>, demo_row 2 200])"
  by code_simp

theorem compaction_keeps_newest_witness:
  "card (actives [demo_row 1 100, demo_row 2 200] -
     actives [(demo_row 1 100)\<lparr>mm_status := MS_SUPERSEDED, mm_updated := 300\<rparr>, demo_row 2 200]) = 1"
proof -
  have "distinct (map mm_id [demo_row 1 100, demo_row 2 200])" by code_simp
  from compaction_keeps_newest [OF this demo_compact] show ?thesis by simp
qed

end
