(* ===== verification/Auth.thy ===== *)
theory Auth
  imports Domain PyText
begin

text \<open>
  Authentication and the customer scope of a request: the failure reasons (auth/protocols.py), the
  static and the disabled authenticator (auth/backends.py), the OpenID Connect authenticator with its
  key cache (auth/oidc.py), and the dependencies that turn credentials into a principal, a customer
  scope and an execution context (auth/dependencies.py, api/dependencies.py).

  Parsing and verifying a token, reading a key and fetching a document are the work of libraries and
  servers: they are parameters. A claim is a JSON value; names in it are compared as they are.
\<close>

section \<open>Failures\<close>

datatype auth_reason =
    AR_MISSING_CREDENTIALS | AR_INVALID_CREDENTIALS | AR_EXPIRED | AR_INVALID_SIGNATURE
  | AR_WRONG_ISSUER | AR_WRONG_AUDIENCE | AR_MISSING_ROLE | AR_INVALID_CLAIMS | AR_UNAVAILABLE
  | AR_MISCONFIGURED

text \<open>\<open>AuthenticationError\<close> with its reason, or the \<open>ValueError\<close> of a rejected \<open>Principal\<close>.\<close>

datatype auth_error = AuthenticationError auth_reason | AuthValueError

abbreviation refuse :: "auth_reason \<Rightarrow> auth_error + 'a" where
  "refuse r \<equiv> Inl (AuthenticationError r)"

section \<open>Claims\<close>

datatype claim =
    CNull
  | CBool bool
  | CNum int
  | CReal rat
  | CText string
  | CList "claim list"
  | CDict "(string \<times> claim) list"

definition cget :: "claim dict \<Rightarrow> string \<Rightarrow> claim" where
  "cget d k = (case dget d k of None \<Rightarrow> CNull | Some v \<Rightarrow> v)"

definition name_space :: "char \<Rightarrow> bool" where
  "name_space c = is_space (of_char c)"

definition strip_name :: "string \<Rightarrow> string" where
  "strip_name s = rev (dropWhile name_space (rev (dropWhile name_space s)))"

definition required_string :: "nat \<Rightarrow> claim \<Rightarrow> auth_error + string" where
  "required_string n v =
     (case v of
        CText s \<Rightarrow>
          (let t = strip_name s in
           if t = [] \<or> n < length t then refuse AR_INVALID_CLAIMS else Inr t)
      | _ \<Rightarrow> refuse AR_INVALID_CLAIMS)"

fun collect_strings :: "string list \<Rightarrow> claim list \<Rightarrow> auth_error + string list" where
  "collect_strings acc [] = Inr acc"
| "collect_strings acc (v # vs) =
     and_then (required_string 200 v) (\<lambda>t.
       collect_strings (if t \<in> set acc then acc else acc @ [t]) vs)"

definition string_list :: "nat \<Rightarrow> claim \<Rightarrow> auth_error + string list" where
  "string_list n v =
     (case v of
        CList vs \<Rightarrow> if n < length vs then refuse AR_INVALID_CLAIMS else collect_strings [] vs
      | _ \<Rightarrow> refuse AR_INVALID_CLAIMS)"

fun collect_ids :: "int list \<Rightarrow> claim list \<Rightarrow> auth_error + int list" where
  "collect_ids acc [] = Inr acc"
| "collect_ids acc (v # vs) =
     (case v of
        CNum i \<Rightarrow>
          if i \<le> 0 then refuse AR_INVALID_CLAIMS
          else collect_ids (if i \<in> set acc then acc else acc @ [i]) vs
      | _ \<Rightarrow> refuse AR_INVALID_CLAIMS)"

definition claim_customer_ids :: "bool \<Rightarrow> claim \<Rightarrow> auth_error + int list" where
  "claim_customer_ids required v =
     (if v = CNull \<and> \<not> required then Inr []
      else let vs = (case v of CList xs \<Rightarrow> xs | _ \<Rightarrow> [v]) in
        if vs = [] \<or> 100 < length vs then refuse AR_INVALID_CLAIMS else collect_ids [] vs)"

section \<open>The principal of a token\<close>

record oidc_config =
  oc_issuer :: string
  oc_discovery :: "string option"
  oc_algorithm :: string
  oc_roles_claim :: string
  oc_groups_claim :: string
  oc_tenant_claim :: string
  oc_scope_claim :: string
  oc_email_claim :: string
  oc_support_role :: string
  oc_customer_role :: string
  oc_service_role :: string
  oc_require_tenant :: bool
  oc_require_scope :: bool
  oc_cache_ttl :: int

definition actor_roles :: "oidc_config \<Rightarrow> string list \<Rightarrow> string list" where
  "actor_roles cfg rs =
     remdups (filter (\<lambda>r. r \<in> set rs) [oc_support_role cfg, oc_customer_role cfg, oc_service_role cfg])"

definition claim_tenant :: "oidc_config \<Rightarrow> claim \<Rightarrow> auth_error + string option" where
  "claim_tenant cfg v =
     (if oc_require_tenant cfg \<or> v \<noteq> CNull
      then and_then (required_string 200 v) (\<lambda>t. Inr (Some t)) else Inr None)"

definition claim_actor ::
  "oidc_config \<Rightarrow> string \<Rightarrow> int list \<Rightarrow> auth_error + actor_type \<times> int option" where
  "claim_actor cfg role ids =
     (if role = oc_support_role cfg then Inr (AT_SUPPORT_OPERATOR, None)
      else if role = oc_customer_role cfg then
        (case ids of [i] \<Rightarrow> Inr (AT_CUSTOMER, Some i) | _ \<Rightarrow> refuse AR_INVALID_CLAIMS)
      else Inr (AT_SERVICE, None))"

text \<open>The address is validated and kept out of the model's principal; it has at least 3 characters.\<close>

definition claim_email :: "claim \<Rightarrow> auth_error + unit" where
  "claim_email v =
     (if v = CNull then Inr ()
      else and_then (required_string 320 v) (\<lambda>t. if length t < 3 then Inl AuthValueError else Inr ()))"

definition oidc_actor_id :: "(string \<Rightarrow> string) \<Rightarrow> oidc_config \<Rightarrow> string \<Rightarrow> string" where
  "oidc_actor_id digest cfg subject =
     ''oidc:'' @ take 40 (digest (oc_issuer cfg @ CHR 0x00 # subject))"

definition principal_from_claims ::
  "(string \<Rightarrow> string) \<Rightarrow> oidc_config \<Rightarrow> claim dict \<Rightarrow> auth_error + principal" where
  "principal_from_claims digest cfg cs =
     and_then (required_string 500 (cget cs ''sub'')) (\<lambda>subject.
     and_then (string_list 50 (cget cs (oc_roles_claim cfg))) (\<lambda>rs.
     and_then (string_list 100 (case dget cs (oc_groups_claim cfg) of None \<Rightarrow> CList [] | Some v \<Rightarrow> v)) (\<lambda>gs.
       case actor_roles cfg rs of
         [] \<Rightarrow> refuse AR_MISSING_ROLE
       | [role] \<Rightarrow>
           and_then (claim_tenant cfg (cget cs (oc_tenant_claim cfg))) (\<lambda>tenant.
           and_then (claim_customer_ids (oc_require_scope cfg \<and> role \<noteq> oc_service_role cfg)
                       (cget cs (oc_scope_claim cfg))) (\<lambda>ids.
           and_then (claim_actor cfg role ids) (\<lambda>(kind, customer).
           and_then (claim_email (cget cs (oc_email_claim cfg))) (\<lambda>_.
             Inr \<lparr>actor_id = oidc_actor_id digest cfg subject,
                  actor_kind = kind, principal_kind = PT_OIDC, roles = rs, groups = gs,
                  principal_tenant = tenant, principal_customer = customer, customer_ids = ids\<rparr>))))
       | _ \<Rightarrow> refuse AR_INVALID_CLAIMS)))"

section \<open>Keys and tokens\<close>

text \<open>
  What \<open>jwt.decode\<close> reports, after its audience, issuer, expiry and signature checks; and the outcome of
  a request for a document: \<open>None\<close> is a failed request or a body that is no JSON.
\<close>

datatype decoded =
    Claims claim
  | ExpiredSignature
  | InvalidIssuer
  | InvalidAudience
  | InvalidSignature
  | OtherJwtError

text \<open>The servers and the clock answer by the number of questions asked so far.\<close>

record 'k oidc_env =
  oe_header :: "string \<Rightarrow> claim dict option"
  oe_decode :: "nat \<Rightarrow> string \<Rightarrow> 'k \<Rightarrow> decoded"
  oe_fetch :: "nat \<Rightarrow> string \<Rightarrow> claim option"
  oe_key :: "claim dict \<Rightarrow> 'k option"
  oe_clock :: "nat \<Rightarrow> rat"
  oe_digest :: "string \<Rightarrow> string"

record 'k oidc_state =
  os_uri :: "string option"
  os_keys :: "'k dict"
  os_expiry :: rat
  os_asked :: nat

definition oidc_start :: "'k oidc_state" where
  "oidc_start = \<lparr>os_uri = None, os_keys = [], os_expiry = 0, os_asked = 0\<rparr>"

type_synonym ('k, 'a) oidc = "'k oidc_state \<Rightarrow> (auth_error + 'a) \<times> 'k oidc_state"

definition asked :: "'k oidc_state \<Rightarrow> 'k oidc_state" where
  "asked st = st\<lparr>os_asked := Suc (os_asked st)\<rparr>"

definition starts :: "string \<Rightarrow> string \<Rightarrow> bool" where
  "starts p s \<longleftrightarrow> take (length p) s = p"

definition strip_slashes :: "string \<Rightarrow> string" where
  "strip_slashes s = rev (dropWhile (\<lambda>c. c = CHR ''/'') (rev s))"

definition discovery_address :: "oidc_config \<Rightarrow> string" where
  "discovery_address cfg =
     (case oc_discovery cfg of
        Some u \<Rightarrow> if u = [] then strip_slashes (oc_issuer cfg) @ ''/.well-known/openid-configuration'' else u
      | None \<Rightarrow> strip_slashes (oc_issuer cfg) @ ''/.well-known/openid-configuration'')"

definition read_discovery :: "oidc_config \<Rightarrow> claim option \<Rightarrow> auth_error + string" where
  "read_discovery cfg doc =
     (case doc of
        Some (CDict d) \<Rightarrow>
          if cget d ''issuer'' \<noteq> CText (oc_issuer cfg) then refuse AR_UNAVAILABLE
          else (case cget d ''jwks_uri'' of
            CText u \<Rightarrow>
              if u = [] then refuse AR_UNAVAILABLE
              else if starts ''https://'' (oc_issuer cfg) \<and> \<not> starts ''https://'' u
              then refuse AR_UNAVAILABLE else Inr u
          | _ \<Rightarrow> refuse AR_UNAVAILABLE)
      | _ \<Rightarrow> refuse AR_UNAVAILABLE)"

definition discover_jwks_uri :: "oidc_config \<Rightarrow> 'k oidc_env \<Rightarrow> ('k, string) oidc" where
  "discover_jwks_uri cfg env st =
     (read_discovery cfg (oe_fetch env (os_asked st) (discovery_address cfg)), asked st)"

definition usable_key :: "oidc_config \<Rightarrow> claim dict \<Rightarrow> bool" where
  "usable_key cfg d \<longleftrightarrow>
     (case cget d ''kid'' of CText k \<Rightarrow> k \<noteq> [] \<and> length k \<le> 200 | _ \<Rightarrow> False) \<and>
     cget d ''kty'' = CText ''RSA'' \<and>
     (case dget d ''use'' of None \<Rightarrow> True | Some v \<Rightarrow> v = CText ''sig'') \<and>
     (case dget d ''alg'' of None \<Rightarrow> True | Some v \<Rightarrow> v = CText (oc_algorithm cfg))"

fun collect_keys :: "oidc_config \<Rightarrow> 'k oidc_env \<Rightarrow> 'k dict \<Rightarrow> claim list \<Rightarrow> 'k dict" where
  "collect_keys cfg env acc [] = acc"
| "collect_keys cfg env acc (v # vs) =
     collect_keys cfg env
       (case v of
          CDict d \<Rightarrow>
            if usable_key cfg d then
              (case (cget d ''kid'', oe_key env d) of
                 (CText k, Some key) \<Rightarrow> dset k key acc
               | _ \<Rightarrow> acc)
            else acc
        | _ \<Rightarrow> acc) vs"

definition parse_keys :: "oidc_config \<Rightarrow> 'k oidc_env \<Rightarrow> claim option \<Rightarrow> auth_error + 'k dict" where
  "parse_keys cfg env doc =
     (case doc of
        Some (CDict d) \<Rightarrow>
          (case cget d ''keys'' of
             CList vs \<Rightarrow> Inr (collect_keys cfg env [] vs)
           | _ \<Rightarrow> refuse AR_UNAVAILABLE)
      | _ \<Rightarrow> refuse AR_UNAVAILABLE)"

definition load_keys :: "oidc_config \<Rightarrow> 'k oidc_env \<Rightarrow> string \<Rightarrow> ('k, unit) oidc" where
  "load_keys cfg env uri st =
     (case parse_keys cfg env (oe_fetch env (os_asked st) uri) of
        Inl x \<Rightarrow> (Inl x, asked st)
      | Inr ks \<Rightarrow>
          if ks = [] then (refuse AR_UNAVAILABLE, asked st)
          else (Inr (), (asked st)\<lparr>os_keys := ks,
            os_expiry := oe_clock env (os_asked st) + of_int (oc_cache_ttl cfg)\<rparr>))"

definition refresh_keys :: "oidc_config \<Rightarrow> 'k oidc_env \<Rightarrow> bool \<Rightarrow> ('k, unit) oidc" where
  "refresh_keys cfg env force st =
     (case os_uri st of
        Some uri \<Rightarrow>
          if force then
            (case discover_jwks_uri cfg env st of
               (Inl x, st1) \<Rightarrow> (Inl x, st1)
             | (Inr u, st1) \<Rightarrow> load_keys cfg env u (st1\<lparr>os_uri := Some u\<rparr>))
          else load_keys cfg env uri st
      | None \<Rightarrow>
          (case discover_jwks_uri cfg env st of
             (Inl x, st1) \<Rightarrow> (Inl x, st1)
           | (Inr u, st1) \<Rightarrow> load_keys cfg env u (st1\<lparr>os_uri := Some u\<rparr>)))"

text \<open>A key that is still unknown after a refresh is looked for once more, after a new discovery.\<close>

definition find_key :: "string \<Rightarrow> ('k, 'k) oidc" where
  "find_key kid st =
     (case dget (os_keys st) kid of
        None \<Rightarrow> (refuse AR_INVALID_SIGNATURE, st)
      | Some k \<Rightarrow> (Inr k, st))"

definition look_again :: "oidc_config \<Rightarrow> 'k oidc_env \<Rightarrow> string \<Rightarrow> bool \<Rightarrow> ('k, 'k) oidc" where
  "look_again cfg env kid force st =
     (if dget (os_keys st) kid = None \<and> \<not> force then
        (case refresh_keys cfg env True st of
           (Inl x, st1) \<Rightarrow> (Inl x, st1)
         | (Inr _, st1) \<Rightarrow> find_key kid st1)
      else find_key kid st)"

definition resolve_key :: "oidc_config \<Rightarrow> 'k oidc_env \<Rightarrow> string \<Rightarrow> bool \<Rightarrow> ('k, 'k) oidc" where
  "resolve_key cfg env kid force st =
     (let now = oe_clock env (os_asked st); st0 = asked st in
      if force \<or> os_expiry st0 \<le> now \<or> dget (os_keys st0) kid = None then
        (case refresh_keys cfg env force st0 of
           (Inl x, st1) \<Rightarrow> (Inl x, st1)
         | (Inr _, st1) \<Rightarrow> look_again cfg env kid force st1)
      else look_again cfg env kid force st0)"

text \<open>\<open>_decode\<close>: \<open>None\<close> is the invalid signature, which the caller handles.\<close>

definition read_decoded :: "decoded \<Rightarrow> auth_error + claim dict option" where
  "read_decoded r =
     (case r of
        Claims (CDict d) \<Rightarrow> Inr (Some d)
      | Claims _ \<Rightarrow> refuse AR_INVALID_CLAIMS
      | ExpiredSignature \<Rightarrow> refuse AR_EXPIRED
      | InvalidIssuer \<Rightarrow> refuse AR_WRONG_ISSUER
      | InvalidAudience \<Rightarrow> refuse AR_WRONG_AUDIENCE
      | InvalidSignature \<Rightarrow> Inr None
      | OtherJwtError \<Rightarrow> refuse AR_INVALID_CLAIMS)"

definition decode_token :: "'k oidc_env \<Rightarrow> string \<Rightarrow> 'k \<Rightarrow> ('k, claim dict option) oidc" where
  "decode_token env token key st = (read_decoded (oe_decode env (os_asked st) token key), asked st)"

text \<open>An invalid signature refreshes the keys once: a provider may replace a key and keep its name.\<close>

definition retry_decode ::
  "oidc_config \<Rightarrow> 'k oidc_env \<Rightarrow> string \<Rightarrow> string \<Rightarrow> ('k, claim dict) oidc" where
  "retry_decode cfg env token kid st =
     (case resolve_key cfg env kid True st of
        (Inl x, st1) \<Rightarrow> (Inl x, st1)
      | (Inr key, st1) \<Rightarrow>
          (case decode_token env token key st1 of
             (Inl x, st2) \<Rightarrow> (Inl x, st2)
           | (Inr None, st2) \<Rightarrow> (refuse AR_INVALID_SIGNATURE, st2)
           | (Inr (Some d), st2) \<Rightarrow> (Inr d, st2)))"

definition verify_token ::
  "oidc_config \<Rightarrow> 'k oidc_env \<Rightarrow> string \<Rightarrow> string \<Rightarrow> ('k, claim dict) oidc" where
  "verify_token cfg env token kid st =
     (case resolve_key cfg env kid False st of
        (Inl x, st1) \<Rightarrow> (Inl x, st1)
      | (Inr key, st1) \<Rightarrow>
          (case decode_token env token key st1 of
             (Inl x, st2) \<Rightarrow> (Inl x, st2)
           | (Inr None, st2) \<Rightarrow> retry_decode cfg env token kid st2
           | (Inr (Some d), st2) \<Rightarrow> (Inr d, st2)))"

definition oidc_authenticate :: "oidc_config \<Rightarrow> 'k oidc_env \<Rightarrow> string \<Rightarrow> ('k, principal) oidc" where
  "oidc_authenticate cfg env token st =
     (case oe_header env token of
        None \<Rightarrow> (refuse AR_INVALID_CREDENTIALS, st)
      | Some h \<Rightarrow>
          (case cget h ''kid'' of
             CText kid \<Rightarrow>
               if cget h ''alg'' \<noteq> CText (oc_algorithm cfg) \<or> kid = [] \<or> 200 < length kid
               then (refuse AR_INVALID_SIGNATURE, st)
               else (case verify_token cfg env token kid st of
                  (Inl x, st1) \<Rightarrow> (Inl x, st1)
                | (Inr d, st1) \<Rightarrow> (principal_from_claims (oe_digest env) cfg d, st1))
           | _ \<Rightarrow> (refuse AR_INVALID_SIGNATURE, st)))"

section \<open>Static tokens\<close>

text \<open>The last configured entry with the digest of the token is the one returned.\<close>

definition static_authenticate ::
  "(string \<Rightarrow> string) \<Rightarrow> (string \<times> principal) list \<Rightarrow> string \<Rightarrow> auth_error + principal" where
  "static_authenticate digest table token =
     (case find (\<lambda>e. fst e = digest token) (rev table) of
        None \<Rightarrow> refuse AR_INVALID_CREDENTIALS
      | Some e \<Rightarrow> Inr (snd e))"

definition static_table ::
  "(string \<Rightarrow> string) \<Rightarrow> principal dict \<Rightarrow> auth_error + (string \<times> principal) list" where
  "static_table digest by_token =
     (if by_token = [] then refuse AR_MISCONFIGURED
      else let table = fold (\<lambda>(t, p). dset (digest t) p) (filter (\<lambda>e. fst e \<noteq> []) by_token) [] in
        if length table \<noteq> length by_token then refuse AR_MISCONFIGURED else Inr table)"

definition disabled_authenticate :: "string \<Rightarrow> auth_error + principal" where
  "disabled_authenticate token = refuse AR_UNAVAILABLE"

end
