(* ===== verification/Access.thy ===== *)
theory Access
  imports Auth
begin

text \<open>
  The dependencies of a request (auth/dependencies.py, api/dependencies.py): the bearer credentials
  become a principal, the principal and the requested customer become a scope, and both become the
  execution context of a turn. A response with an error status is a value of the left of a sum; an
  exception the framework does not translate is an internal error.
\<close>

datatype http_error = Http int string | Internal exn

section \<open>The current principal\<close>

definition unauthorized :: "string \<Rightarrow> http_error + 'a" where
  "unauthorized detail = Inl (Http 401 detail)"

text \<open>\<open>authenticate\<close> is one of the authenticators; only the scheme \<open>bearer\<close> is a credential scheme.\<close>

definition get_current_principal ::
  "(string \<Rightarrow> 's \<Rightarrow> (auth_error + principal) \<times> 's) \<Rightarrow> (string \<times> string) option \<Rightarrow> 's \<Rightarrow>
     (http_error + principal) \<times> 's" where
  "get_current_principal authenticate credentials st =
     (case credentials of
        None \<Rightarrow> (unauthorized ''Authentication required.'', st)
      | Some (scheme, secret) \<Rightarrow>
          if casefold (lit scheme) \<noteq> lit ''bearer''
          then (unauthorized ''Invalid authentication credentials.'', st)
          else (case authenticate secret st of
              (Inl x, st1) \<Rightarrow> (unauthorized ''Invalid authentication credentials.'', st1)
            | (Inr p, st1) \<Rightarrow> (Inr p, st1)))"

definition forbidden :: "http_error + 'a" where
  "forbidden = Inl (Http 403 ''Insufficient permissions.'')"

definition require_role :: "string \<Rightarrow> principal \<Rightarrow> http_error + principal" where
  "require_role role p = (if role \<in> set (roles p) then Inr p else forbidden)"

definition require_support_operator :: "principal \<Rightarrow> http_error + principal" where
  "require_support_operator p =
     (if actor_kind p \<noteq> AT_SUPPORT_OPERATOR \<or> ''support_operator'' \<notin> set (roles p)
      then forbidden else Inr p)"

section \<open>The customer scope\<close>

record customer_scope =
  cs_customer :: int
  cs_principal :: principal

definition make_customer_scope :: "int \<Rightarrow> principal \<Rightarrow> http_error + customer_scope" where
  "make_customer_scope c p =
     (if 0 < c then Inr \<lparr>cs_customer = c, cs_principal = p\<rparr> else Inl (Internal PydanticValidationError))"

definition resolve_customer_scope :: "principal \<Rightarrow> int option \<Rightarrow> http_error + customer_scope" where
  "resolve_customer_scope p requested =
     (if actor_kind p = AT_CUSTOMER then
        (case principal_customer p of
           None \<Rightarrow> Inl (Http 403 ''Customer identity is not scoped.'')
         | Some c \<Rightarrow>
             if requested \<noteq> None \<and> requested \<noteq> Some c then Inl (Http 404 ''Resource not found.'')
             else make_customer_scope c p)
      else if actor_kind p = AT_SUPPORT_OPERATOR then
        (if ''support_operator'' \<notin> set (roles p) then forbidden
         else (case requested of
             None \<Rightarrow> Inl (Http 400 ''Customer scope is required.'')
           | Some c \<Rightarrow>
               if principal_kind p = PT_OIDC \<and> c \<notin> set (customer_ids p)
               then Inl (Http 404 ''Resource not found.'')
               else make_customer_scope c p))
      else forbidden)"

section \<open>The execution context\<close>

definition request_tenant :: "principal \<Rightarrow> string" where
  "request_tenant p =
     (case principal_tenant p of None \<Rightarrow> ''default'' | Some t \<Rightarrow> if t = [] then ''default'' else t)"

text \<open>The length limits of the constructor precede its validator.\<close>

definition make_context :: "string \<Rightarrow> string \<Rightarrow> principal \<Rightarrow> string \<Rightarrow> int \<Rightarrow> exn + execution_context" where
  "make_context rid cid p tenant c =
     (if 1 \<le> length rid \<and> length rid \<le> 200 \<and> 1 \<le> length cid \<and> length cid \<le> 200 \<and>
         1 \<le> length tenant \<and> length tenant \<le> 200
      then validate_context \<lparr>request_id = rid, conversation_id = cid, ctx_principal = p,
             ctx_tenant = tenant, effective_customer = c\<rparr>
      else Inl PydanticValidationError)"

definition get_execution_context ::
  "string \<Rightarrow> string \<Rightarrow> int \<Rightarrow> principal \<Rightarrow> http_error + execution_context" where
  "get_execution_context rid cid customer p =
     and_then (resolve_customer_scope p (Some customer)) (\<lambda>scope.
       case make_context rid cid p (request_tenant p) (cs_customer scope) of
         Inl x \<Rightarrow> Inl (Internal x)
       | Inr ctx \<Rightarrow> Inr ctx)"

end
