(* ===== verification/Api.thy ===== *)
theory Api
  imports Access Tools_Laws Memory_Service
begin

text \<open>
  The HTTP endpoints on the business data and the memory (api/routes/customers.py, orders.py,
  tickets.py, escalations.py, memories.py), the translation of the tools' errors (api/errors.py) and
  the idempotency header (api/idempotency.py). The web framework validates bodies, query parameters
  and headers before an endpoint runs and answers 422; it passes any integer of a path.
\<close>

section \<open>Errors\<close>

fun http_of_tool_error :: "exn \<Rightarrow> http_error" where
  "http_of_tool_error (ResourceNotFoundError r i) = Http 404 (exn_message (ResourceNotFoundError r i))"
| "http_of_tool_error (OwnershipError r i c) = Http 404 ''Resource not found''"
| "http_of_tool_error (InvalidStateTransitionError m) = Http 409 m"
| "http_of_tool_error (DuplicateActionError m) = Http 409 m"
| "http_of_tool_error (ToolValidationError m) = Http 409 m"
| "http_of_tool_error x = Internal x"

definition http_unknown_write :: http_error where
  "http_unknown_write =
     Http 503 (''Write outcome is unknown. Do not submit a new request; retry with the same '' @
       ''Idempotency-Key to reconcile safely.'')"

definition unprocessable :: http_error where
  "unprocessable = Http 422 ''Unprocessable Content''"

section \<open>Requests\<close>

text \<open>The path parameter first, then the query or the body, then the idempotency header.\<close>

datatype http_request =
    ReadCustomer int
  | ReadOrders int
  | ReadTickets int
  | ReadOrder int "int option"
  | ReadTicket int "int option"
  | PostCancel int int string
  | PostRefund int int ustr string
  | PostTicket int "int option" ustr ustr string
  | PostEscalation int "int option" "int option" ustr priority ustr string

definition text_fits :: "nat \<Rightarrow> ustr \<Rightarrow> bool" where
  "text_fits n s \<longleftrightarrow> 1 \<le> length s \<and> length s \<le> n"

definition key_fits :: "string \<Rightarrow> bool" where
  "key_fits k \<longleftrightarrow> 8 \<le> length k \<and> length k \<le> 200"

text \<open>What the framework checks.\<close>

fun request_fits :: "http_request \<Rightarrow> bool" where
  "request_fits (ReadCustomer c) = True"
| "request_fits (ReadOrders c) = True"
| "request_fits (ReadTickets c) = True"
| "request_fits (ReadOrder i c) = positive c"
| "request_fits (ReadTicket i c) = positive c"
| "request_fits (PostCancel i c k) = (0 < c \<and> key_fits k)"
| "request_fits (PostRefund i c reason k) = (0 < c \<and> text_fits 2000 reason \<and> key_fits k)"
| "request_fits (PostTicket c i category description k) =
     (0 < c \<and> positive i \<and> text_fits 100 category \<and> text_fits 5000 description \<and> key_fits k)"
| "request_fits (PostEscalation c t i reason p summary k) =
     (0 < c \<and> positive t \<and> positive i \<and> text_fits 2000 reason \<and> text_fits 5000 summary \<and>
      key_fits k)"

section \<open>Reading endpoints\<close>

definition read_error :: "exn + 'a \<Rightarrow> http_error + 'a" where
  "read_error r = (case r of Inl x \<Rightarrow> Inl (http_of_tool_error x) | Inr a \<Rightarrow> Inr a)"

definition need_positive :: "int \<Rightarrow> http_error + unit" where
  "need_positive i = (if 0 < i then Inr () else Inl (Internal PydanticValidationError))"

definition read_customer ::
  "principal \<Rightarrow> int option \<Rightarrow> (int \<Rightarrow> string \<Rightarrow> exn + tool_output) \<Rightarrow> http_error + tool_output" where
  "read_customer p c tool =
     and_then (resolve_customer_scope p c) (\<lambda>scope. read_error (tool (cs_customer scope) (request_tenant p)))"

definition read_item ::
  "principal \<Rightarrow> int \<Rightarrow> int option \<Rightarrow> (string \<Rightarrow> int \<Rightarrow> int \<Rightarrow> exn + tool_output) \<Rightarrow> http_error + tool_output" where
  "read_item p i c tool =
     and_then (resolve_customer_scope p c) (\<lambda>scope.
       and_then (need_positive i) (\<lambda>_. read_error (tool (request_tenant p) i (cs_customer scope))))"

section \<open>Writing endpoints\<close>

text \<open>
  The body of the four endpoints: the tool runs and the write is committed; a tool's error rolls the
  session back, a write of unknown outcome is reported as such, and any other exception leaves the
  endpoint as it is.
\<close>

definition write_outcome ::
  "db \<Rightarrow> string \<Rightarrow> tool_output business \<Rightarrow> session \<Rightarrow> (exn + tool_output) \<times> session" where
  "write_outcome d operation tool ss =
     (case tool (work ss) of
        (Inl x, st) \<Rightarrow> (Inl x, ss\<lparr>work := st\<rparr>)
      | (Inr out, st) \<Rightarrow>
          (case commit_business_write d operation (ss\<lparr>work := st\<rparr>) of
             (Inl x, ss1) \<Rightarrow> (Inl x, ss1)
           | (Inr _, ss1) \<Rightarrow> (Inr out, ss1)))"

definition finish_write ::
  "db \<Rightarrow> (exn + tool_output) \<times> session \<Rightarrow> (http_error + tool_output) \<times> session" where
  "finish_write d rs =
     (case rs of
        (Inr out, ss) \<Rightarrow> (Inr out, ss)
      | (Inl x, ss) \<Rightarrow>
          if is_unknown_write x then (Inl http_unknown_write, ss)
          else if is_tool_error x then (Inl (http_of_tool_error x), rollback d ss)
          else (Inl (Internal x), ss))"

text \<open>\<open>with SessionLocal() as session\<close>: closing the session discards what was not committed.\<close>

definition close_session :: "db \<Rightarrow> 'a \<times> session \<Rightarrow> 'a \<times> session" where
  "close_session d rs = (case rs of (r, ss) \<Rightarrow> (r, rollback d ss))"

definition authorize_write :: "principal \<Rightarrow> int \<Rightarrow> string \<Rightarrow> http_error + int \<times> idempotency_scope" where
  "authorize_write p c key =
     and_then (require_support_operator p) (\<lambda>_.
     and_then (resolve_customer_scope p (Some c)) (\<lambda>scope.
       case make_scope (actor_id p) key (request_tenant p) of
         Inl x \<Rightarrow> Inl (Internal x)
       | Inr sc \<Rightarrow> Inr (cs_customer scope, sc)))"

definition submit ::
  "db \<Rightarrow> string \<Rightarrow> (http_error + int \<times> idempotency_scope) \<Rightarrow>
     (string \<Rightarrow> idempotency_scope \<Rightarrow> int \<Rightarrow> tool_output business) \<Rightarrow> string \<Rightarrow> session \<Rightarrow>
     (http_error + tool_output) \<times> session" where
  "submit d operation authorized tool tenant ss =
     (case authorized of
        Inl e \<Rightarrow> (Inl e, ss)
      | Inr (c, sc) \<Rightarrow> finish_write d (write_outcome d operation (tool tenant sc c) ss))"

definition with_positive :: "int \<Rightarrow> http_error + 'a \<Rightarrow> http_error + 'a" where
  "with_positive i r = and_then r (\<lambda>a. and_then (need_positive i) (\<lambda>_. Inr a))"

text \<open>The routes: customers.py, orders.py, tickets.py, escalations.py.\<close>

type_synonym endpoint_result = "(http_error + tool_output) \<times> session"

definition get_customer_by_id :: "principal \<Rightarrow> int \<Rightarrow> session \<Rightarrow> endpoint_result" where
  "get_customer_by_id p c ss = (read_customer p (Some c) (\<lambda>c t. get_customer (work ss) t c), ss)"

definition get_orders_of_customer :: "principal \<Rightarrow> int \<Rightarrow> session \<Rightarrow> endpoint_result" where
  "get_orders_of_customer p c ss =
     (read_customer p (Some c) (\<lambda>c t. get_customer_orders (work ss) t c), ss)"

definition get_tickets_of_customer :: "principal \<Rightarrow> int \<Rightarrow> session \<Rightarrow> endpoint_result" where
  "get_tickets_of_customer p c ss =
     (read_customer p (Some c) (\<lambda>c t. get_customer_tickets (work ss) t c), ss)"

definition get_order_by_id :: "principal \<Rightarrow> int \<Rightarrow> int option \<Rightarrow> session \<Rightarrow> endpoint_result" where
  "get_order_by_id p i c ss = (read_item p i c (get_order (work ss)), ss)"

definition get_ticket_by_id :: "principal \<Rightarrow> int \<Rightarrow> int option \<Rightarrow> session \<Rightarrow> endpoint_result" where
  "get_ticket_by_id p i c ss = (read_item p i c (get_ticket (work ss)), ss)"

definition cancel_order_by_id ::
  "db \<Rightarrow> principal \<Rightarrow> int \<Rightarrow> int \<Rightarrow> string \<Rightarrow> session \<Rightarrow> endpoint_result" where
  "cancel_order_by_id d p i c k ss =
     submit d ''cancel_order'' (with_positive i (authorize_write p c k))
       (\<lambda>t sc c. cancel_order d t sc c i) (request_tenant p) ss"

definition request_order_refund ::
  "db \<Rightarrow> principal \<Rightarrow> int \<Rightarrow> int \<Rightarrow> ustr \<Rightarrow> string \<Rightarrow> session \<Rightarrow> endpoint_result" where
  "request_order_refund d p i c reason k ss =
     submit d ''request_refund'' (with_positive i (authorize_write p c k))
       (\<lambda>t sc c. request_refund d t sc c i reason) (request_tenant p) ss"

definition create_ticket ::
  "db \<Rightarrow> principal \<Rightarrow> int \<Rightarrow> int option \<Rightarrow> ustr \<Rightarrow> ustr \<Rightarrow> string \<Rightarrow> session \<Rightarrow> endpoint_result" where
  "create_ticket d p c i category description k ss =
     submit d ''create_support_ticket'' (authorize_write p c k)
       (\<lambda>t sc c. create_support_ticket d t sc c i category description) (request_tenant p) ss"

definition create_escalation ::
  "db \<Rightarrow> principal \<Rightarrow> int \<Rightarrow> int option \<Rightarrow> int option \<Rightarrow> ustr \<Rightarrow> priority \<Rightarrow> ustr \<Rightarrow> string \<Rightarrow>
     session \<Rightarrow> endpoint_result" where
  "create_escalation d p c t i reason pr summary k ss =
     submit d ''escalate_to_human'' (authorize_write p c k)
       (\<lambda>tn sc c. escalate_to_human d tn sc c t i reason pr summary) (request_tenant p) ss"

lemmas route_defs = get_customer_by_id_def get_orders_of_customer_def get_tickets_of_customer_def
  get_order_by_id_def get_ticket_by_id_def cancel_order_by_id_def request_order_refund_def
  create_ticket_def create_escalation_def

fun endpoint :: "db \<Rightarrow> principal \<Rightarrow> http_request \<Rightarrow> session \<Rightarrow> endpoint_result" where
  "endpoint d p (ReadCustomer c) ss = get_customer_by_id p c ss"
| "endpoint d p (ReadOrders c) ss = get_orders_of_customer p c ss"
| "endpoint d p (ReadTickets c) ss = get_tickets_of_customer p c ss"
| "endpoint d p (ReadOrder i c) ss = get_order_by_id p i c ss"
| "endpoint d p (ReadTicket i c) ss = get_ticket_by_id p i c ss"
| "endpoint d p (PostCancel i c k) ss = cancel_order_by_id d p i c k ss"
| "endpoint d p (PostRefund i c reason k) ss = request_order_refund d p i c reason k ss"
| "endpoint d p (PostTicket c i category description k) ss =
     create_ticket d p c i category description k ss"
| "endpoint d p (PostEscalation c t i reason pr summary k) ss =
     create_escalation d p c t i reason pr summary k ss"

fun posts :: "http_request \<Rightarrow> bool" where
  "posts (PostCancel i c k) = True"
| "posts (PostRefund i c reason k) = True"
| "posts (PostTicket c i category description k) = True"
| "posts (PostEscalation c t i reason p summary k) = True"
| "posts _ = False"

text \<open>The dependencies of an endpoint run before its body and its parameters are validated.\<close>

definition serve :: "db \<Rightarrow> principal \<Rightarrow> http_request \<Rightarrow> session \<Rightarrow> endpoint_result" where
  "serve d p req ss =
     (if posts req \<and> \<not> is_ok (require_support_operator p) then (forbidden, ss)
      else if request_fits req then close_session d (endpoint d p req ss)
      else (Inl unprocessable, ss))"

section \<open>Memory endpoints\<close>

definition list_memories ::
  "memory_config \<Rightarrow> rat \<Rightarrow> principal \<Rightarrow> int \<Rightarrow> memory_row list \<Rightarrow> http_error + memory_view list" where
  "list_memories cfg now p c rows =
     (if c \<le> 0 then Inl (Http 400 ''Invalid customer ID'')
      else and_then (resolve_customer_scope p (Some c)) (\<lambda>scope.
        case retrieve cfg (cs_customer scope) [] now (Some (cs_principal scope)) rows of
          Inl x \<Rightarrow> Inl (Internal x)
        | Inr vs \<Rightarrow> Inr vs))"

definition delete_memory ::
  "memory_db \<Rightarrow> memory_config \<Rightarrow> rat \<Rightarrow> principal \<Rightarrow> int \<Rightarrow> int \<Rightarrow> memory_row list \<Rightarrow>
     (http_error + string) \<times> memory_row list" where
  "delete_memory d cfg now p c i rows =
     (if c \<le> 0 \<or> i \<le> 0 then (Inl (Http 400 ''Invalid memory ID''), rows)
      else case resolve_customer_scope p (Some c) of
        Inl e \<Rightarrow> (Inl e, rows)
      | Inr scope \<Rightarrow>
          (case find (\<lambda>r. mm_id r = i) rows of
             None \<Rightarrow> (Inl (Http 404 ''Memory not found''), rows)
           | Some r \<Rightarrow>
               if mm_customer r \<noteq> cs_customer scope \<or> mm_tenant r \<noteq> request_tenant (cs_principal scope)
               then (Inl (Http 404 ''Memory not found''), rows)
               else (case forget d cfg (cs_customer scope) (mm_key r) now
                             (request_tenant (cs_principal scope)) rows of
                   (Inl x, rows1) \<Rightarrow> (Inl (Internal x), rows1)
                 | (Inr out, rows1) \<Rightarrow> (Inr (mo_status out), rows1))))"

end
