(* ===== verification/Access_Laws.thy ===== *)
theory Access_Laws
  imports Access
begin

text \<open>
  The laws of authentication: a principal accepted from a token is well formed and carries claims
  that were verified under a key the issuer publishes, within a bounded number of questions to it;
  and the context of a request never reaches beyond the principal's customers and tenant.
\<close>

section \<open>Claims\<close>

definition name_ok :: "nat \<Rightarrow> string \<Rightarrow> bool" where
  "name_ok n s \<longleftrightarrow> s \<noteq> [] \<and> length s \<le> n"

lemma required_string_ok: "required_string n v = Inr t \<Longrightarrow> name_ok n t"
  by (auto simp: required_string_def name_ok_def Let_def split: claim.splits if_splits)

lemma collect_strings_ok:
  "collect_strings acc vs = Inr ts \<Longrightarrow> list_all (name_ok 200) acc \<Longrightarrow>
     list_all (name_ok 200) ts \<and> length ts \<le> length acc + length vs"
proof (induction vs arbitrary: acc)
  case (Cons v vs)
  from Cons.prems(1) obtain t where t: "required_string 200 v = Inr t"
    and rest: "collect_strings (if t \<in> set acc then acc else acc @ [t]) vs = Inr ts"
    by (auto simp: result_simps)
  have "list_all (name_ok 200) (if t \<in> set acc then acc else acc @ [t])"
    using Cons.prems(2) required_string_ok [OF t] by simp
  from Cons.IH [OF rest this] show ?case by (auto split: if_splits)
qed simp

lemma string_list_ok:
  assumes "string_list n v = Inr ts"
  shows "list_all (name_ok 200) ts \<and> length ts \<le> n"
proof -
  obtain vs where "length vs \<le> n" "collect_strings [] vs = Inr ts"
    using assms by (cases v) (simp_all add: string_list_def not_less split: if_splits)
  from collect_strings_ok [OF this(2)] this(1) show ?thesis by simp
qed

lemma collect_ids_Inr:
  "collect_ids acc (v # vs) = Inr is \<longleftrightarrow>
     (\<exists>i > 0. v = CNum i \<and> collect_ids (if i \<in> set acc then acc else acc @ [i]) vs = Inr is)"
  by (cases v) (simp_all add: not_less)

lemma collect_ids_ok:
  "collect_ids acc vs = Inr is \<Longrightarrow> list_all (\<lambda>i. 0 < i) acc \<Longrightarrow>
     list_all (\<lambda>i. 0 < i) is \<and> length is \<le> length acc + length vs"
proof (induction vs arbitrary: acc)
  case (Cons v vs)
  from Cons.prems(1) obtain i where i: "0 < i"
    and rest: "collect_ids (if i \<in> set acc then acc else acc @ [i]) vs = Inr is"
    unfolding collect_ids_Inr by blast
  have "list_all (\<lambda>i. 0 < i) (if i \<in> set acc then acc else acc @ [i])" using Cons.prems(2) i by simp
  from Cons.IH [OF rest this] show ?case by (auto split: if_splits)
qed simp

lemma claim_customer_ids_ok:
  assumes "claim_customer_ids required v = Inr is"
  shows "list_all (\<lambda>i. 0 < i) is \<and> length is \<le> 100"
proof (cases "is = []")
  case False
  let ?vs = "case v of CList xs \<Rightarrow> xs | _ \<Rightarrow> [v]"
  have "length ?vs \<le> 100 \<and> collect_ids [] ?vs = Inr is"
    using assms False unfolding claim_customer_ids_def Let_def by (simp add: not_less split: if_split_asm)
  then show ?thesis using collect_ids_ok [of "[]" ?vs "is"] by simp
qed simp

section \<open>Principals\<close>

text \<open>The field constraints of \<open>Principal\<close>, and what the actor types mean for a token's principal.\<close>

definition principal_ok :: "principal \<Rightarrow> bool" where
  "principal_ok p \<longleftrightarrow>
     name_ok 200 (actor_id p) \<and>
     list_all (name_ok 200) (roles p) \<and> length (roles p) \<le> 50 \<and>
     list_all (name_ok 200) (groups p) \<and> length (groups p) \<le> 100 \<and>
     (\<forall>t. principal_tenant p = Some t \<longrightarrow> name_ok 200 t) \<and>
     (\<forall>c. principal_customer p = Some c \<longrightarrow> 0 < c) \<and>
     list_all (\<lambda>c. 0 < c) (customer_ids p) \<and> length (customer_ids p) \<le> 100"

definition token_principal :: "oidc_config \<Rightarrow> principal \<Rightarrow> bool" where
  "token_principal cfg p \<longleftrightarrow>
     principal_ok p \<and> principal_kind p = PT_OIDC \<and>
     (oc_require_tenant cfg \<longrightarrow> principal_tenant p \<noteq> None) \<and>
     (actor_kind p = AT_CUSTOMER \<longrightarrow>
        (\<exists>c. customer_ids p = [c] \<and> principal_customer p = Some c) \<and> oc_customer_role cfg \<in> set (roles p)) \<and>
     (actor_kind p \<noteq> AT_CUSTOMER \<longrightarrow> principal_customer p = None) \<and>
     (actor_kind p = AT_SUPPORT_OPERATOR \<longrightarrow> oc_support_role cfg \<in> set (roles p))"

lemma actor_roles_single: "actor_roles cfg rs = [role] \<Longrightarrow>
    role \<in> set rs \<and> role \<in> {oc_support_role cfg, oc_customer_role cfg, oc_service_role cfg}"
proof -
  assume "actor_roles cfg rs = [role]"
  then have "role \<in> set (actor_roles cfg rs)" by simp
  then show ?thesis unfolding actor_roles_def set_remdups set_filter by auto
qed

lemma claims_principal:
  assumes "principal_from_claims digest cfg cs = Inr p"
  shows "token_principal cfg p"
proof -
  obtain subject rs gs role tenant ids kind customer where
    rs: "string_list 50 (cget cs (oc_roles_claim cfg)) = Inr rs"
    and gs: "string_list 100 (case dget cs (oc_groups_claim cfg) of None \<Rightarrow> CList [] | Some v \<Rightarrow> v) = Inr gs"
    and role: "actor_roles cfg rs = [role]"
    and tenant: "claim_tenant cfg (cget cs (oc_tenant_claim cfg)) = Inr tenant"
    and ids: "claim_customer_ids (oc_require_scope cfg \<and> role \<noteq> oc_service_role cfg)
                (cget cs (oc_scope_claim cfg)) = Inr ids"
    and actor: "claim_actor cfg role ids = Inr (kind, customer)"
    and p: "p = \<lparr>actor_id = oidc_actor_id digest cfg subject,
                  actor_kind = kind, principal_kind = PT_OIDC, roles = rs, groups = gs,
                  principal_tenant = tenant, principal_customer = customer, customer_ids = ids\<rparr>"
  proof -
    from assms obtain subject rs gs where sub: "required_string 500 (cget cs ''sub'') = Inr subject"
      and parts: "string_list 50 (cget cs (oc_roles_claim cfg)) = Inr rs"
        "string_list 100 (case dget cs (oc_groups_claim cfg) of None \<Rightarrow> CList [] | Some v \<Rightarrow> v) = Inr gs"
      unfolding principal_from_claims_def and_then_Inr_iff by blast
    show thesis
    proof (cases "actor_roles cfg rs" rule: remdups_adj.cases)
      case (2 role)
      with assms sub parts show thesis
        unfolding principal_from_claims_def
        by (simp add: result_simps split: prod.splits)
          (elim exE conjE, rule that; (assumption | erule sym))
    qed (use assms sub parts in \<open>simp_all add: principal_from_claims_def\<close>)
  qed
  have "\<forall>t. tenant = Some t \<longrightarrow> name_ok 200 t" "oc_require_tenant cfg \<longrightarrow> tenant \<noteq> None"
    using tenant by (auto simp: claim_tenant_def result_simps split: if_splits dest: required_string_ok)
  moreover have "(kind = AT_CUSTOMER \<longrightarrow> (\<exists>c. ids = [c] \<and> customer = Some c) \<and> oc_customer_role cfg \<in> set rs) \<and>
      (kind \<noteq> AT_CUSTOMER \<longrightarrow> customer = None) \<and>
      (kind = AT_SUPPORT_OPERATOR \<longrightarrow> oc_support_role cfg \<in> set rs)"
    using actor actor_roles_single [OF role]
    by (auto simp: claim_actor_def split: if_splits list.splits)
  ultimately show ?thesis
    using string_list_ok [OF rs] string_list_ok [OF gs] claim_customer_ids_ok [OF ids]
    by (auto simp: p token_principal_def principal_ok_def name_ok_def oidc_actor_id_def)
qed

section \<open>Tokens\<close>

text \<open>
  What a step of the authenticator that took the state from \<open>st\<close> to \<open>st'\<close> leaves: at most \<open>n\<close> more
  questions asked, and keys whose expiry lies after a time that was read during the step.
\<close>

definition fresh_keys :: "'k oidc_env \<Rightarrow> 'k oidc_state \<Rightarrow> 'k oidc_state \<Rightarrow> bool" where
  "fresh_keys env st st' \<longleftrightarrow>
     (\<exists>m. os_asked st \<le> m \<and> m < os_asked st' \<and> oe_clock env m < os_expiry st')"

definition asked_within :: "nat \<Rightarrow> 'k oidc_state \<Rightarrow> 'k oidc_state \<Rightarrow> bool" where
  "asked_within n st st' \<longleftrightarrow> os_asked st \<le> os_asked st' \<and> os_asked st' \<le> os_asked st + n"

lemma asked_simps [simp]:
  "os_asked (asked st) = Suc (os_asked st)" "os_keys (asked st) = os_keys st"
  "os_expiry (asked st) = os_expiry st" "os_uri (asked st) = os_uri st"
  by (simp_all add: asked_def)

lemma load_keys_asked:
  "load_keys cfg env uri st = (r, st') \<Longrightarrow> os_asked st' = Suc (os_asked st) \<and>
     (r = Inr () \<longrightarrow> 0 < oc_cache_ttl cfg \<longrightarrow> oe_clock env (os_asked st) < os_expiry st')"
  by (auto simp: load_keys_def split: sum.splits if_splits)

lemma refresh_keys_cases:
  assumes "refresh_keys cfg env force st = (r, st')"
  obtains x where "r = Inl x" "st' = asked st"
  | uri st1 where "load_keys cfg env uri st1 = (r, st')" "os_asked st1 \<in> {os_asked st, Suc (os_asked st)}"
  using assms unfolding refresh_keys_def discover_jwks_uri_def
  by (cases "read_discovery cfg (oe_fetch env (os_asked st) (discovery_address cfg))")
    (auto split: option.splits if_splits)

lemma refresh_keys_asked:
  assumes "refresh_keys cfg env force st = (r, st')"
  shows "asked_within 2 st st' \<and>
    (r = Inr () \<longrightarrow> 0 < oc_cache_ttl cfg \<longrightarrow> fresh_keys env st st')"
  using assms
proof (cases rule: refresh_keys_cases)
  case (2 uri st1)
  from load_keys_asked [OF 2(1)] 2(2) show ?thesis
    by (auto simp: asked_within_def fresh_keys_def intro!: exI [of _ "os_asked st1"])
qed (simp add: asked_within_def)

lemma fresh_keys_mono:
  "fresh_keys env st st1 \<Longrightarrow> os_asked st1 \<le> os_asked st2 \<Longrightarrow> os_expiry st2 = os_expiry st1 \<Longrightarrow>
     fresh_keys env st st2"
  unfolding fresh_keys_def by (metis order_less_le_trans)

lemma find_key_Inr: "find_key kid st = (Inr k, st') \<Longrightarrow> st' = st \<and> dget (os_keys st) kid = Some k"
  by (auto simp: find_key_def split: option.splits)

lemma look_again_asked:
  assumes "look_again cfg env kid force st = (Inr k, st')"
  shows "dget (os_keys st') kid = Some k \<and> asked_within (if force then 0 else 2) st st' \<and>
    (st' = st \<or> (0 < oc_cache_ttl cfg \<longrightarrow> fresh_keys env st st'))"
proof (cases "dget (os_keys st) kid = None \<and> \<not> force")
  case True
  then obtain st1 where st1: "refresh_keys cfg env True st = (Inr (), st1)"
    and "find_key kid st1 = (Inr k, st')"
    using assms by (auto simp: look_again_def split: prod.splits sum.splits)
  with find_key_Inr refresh_keys_asked [OF st1] True show ?thesis by fastforce
next
  case False
  then have "find_key kid st = (Inr k, st')" using assms by (auto simp: look_again_def)
  with find_key_Inr show ?thesis by (fastforce simp: asked_within_def)
qed

lemma resolve_key_asked:
  assumes "resolve_key cfg env kid force st = (Inr k, st')"
  shows "dget (os_keys st') kid = Some k \<and> asked_within (if force then 3 else 5) st st' \<and>
    (0 < oc_cache_ttl cfg \<longrightarrow> fresh_keys env st st')"
proof (cases "force \<or> os_expiry st \<le> oe_clock env (os_asked st) \<or> dget (os_keys st) kid = None")
  case True
  then obtain st1 where st1: "refresh_keys cfg env force (asked st) = (Inr (), st1)"
    and look: "look_again cfg env kid force st1 = (Inr k, st')"
    using assms by (auto simp: resolve_key_def Let_def split: prod.splits sum.splits)
  note bounds = refresh_keys_asked [OF st1] look_again_asked [OF look]
  have "fresh_keys env st st'" if "0 < oc_cache_ttl cfg"
  proof -
    have "fresh_keys env (asked st) st' \<or> fresh_keys env st1 st'" using bounds that by auto
    then show ?thesis
      using bounds by (auto simp: fresh_keys_def asked_within_def intro: le_trans Suc_leD)
  qed
  then show ?thesis
    using refresh_keys_asked [OF st1] look_again_asked [OF look] by (auto simp: asked_within_def)
next
  case False
  then have look: "look_again cfg env kid force (asked st) = (Inr k, st')"
    and kept: "\<not> force" "oe_clock env (os_asked st) < os_expiry st"
    using assms by (auto simp: resolve_key_def Let_def)
  from False have "st' = asked st"
    using look by (auto simp: look_again_def dest: find_key_Inr)
  then show ?thesis
    using look_again_asked [OF look] kept by (auto simp: asked_within_def fresh_keys_def)
qed

text \<open>What is left once a token was verified.\<close>

definition verified ::
  "oidc_config \<Rightarrow> 'k oidc_env \<Rightarrow> string \<Rightarrow> string \<Rightarrow> claim dict \<Rightarrow> 'k oidc_state \<Rightarrow> 'k oidc_state \<Rightarrow> bool" where
  "verified cfg env token kid d st st' \<longleftrightarrow>
     (\<exists>key n. dget (os_keys st') kid = Some key \<and> os_asked st \<le> n \<and> n < os_asked st' \<and>
        oe_decode env n token key = Claims (CDict d)) \<and>
     (0 < oc_cache_ttl cfg \<longrightarrow> fresh_keys env st st')"

lemma decode_token_Some:
  "decode_token env token key st = (Inr (Some d), st') \<Longrightarrow>
     oe_decode env (os_asked st) token key = Claims (CDict d) \<and> st' = asked st"
  by (auto simp: decode_token_def read_decoded_def split: decoded.splits claim.splits)

lemma decode_verified:
  assumes "resolve_key cfg env kid force st = (Inr key, st1)"
    and "decode_token env token key st1 = (Inr (Some d), st')"
  shows "verified cfg env token kid d st st' \<and> asked_within (if force then 4 else 6) st st'"
  using resolve_key_asked [OF assms(1)] decode_token_Some [OF assms(2)]
  by (auto simp: verified_def asked_within_def intro: fresh_keys_mono)

lemma verified_earlier:
  assumes "os_asked st \<le> os_asked st1" and "verified cfg env token kid d st1 st'"
  shows "verified cfg env token kid d st st'"
  using assms(2) le_trans [OF assms(1)] unfolding verified_def fresh_keys_def by blast

lemma verify_token_verified:
  assumes "verify_token cfg env token kid st = (Inr d, st')"
  shows "verified cfg env token kid d st st' \<and> asked_within 10 st st'"
proof -
  obtain key st1 where key: "resolve_key cfg env kid False st = (Inr key, st1)"
    using assms by (auto simp: verify_token_def split: prod.splits sum.splits)
  obtain r st2 where decode: "decode_token env token key st1 = (r, st2)" by fastforce
  consider "r = Inr (Some d)" "st2 = st'" | "r = Inr None" "retry_decode cfg env token kid st2 = (Inr d, st')"
    using assms key decode by (auto simp: verify_token_def split: sum.splits option.splits)
  then show ?thesis
  proof cases
    case 1
    with decode_verified [OF key, of token d st'] decode show ?thesis by (auto simp: asked_within_def)
  next
    case 2
    then obtain key' st3 where key': "resolve_key cfg env kid True st2 = (Inr key', st3)"
      and decode': "decode_token env token key' st3 = (Inr (Some d), st')"
      by (auto simp: retry_decode_def split: prod.splits sum.splits option.splits)
    have "asked_within 6 st st2"
      using resolve_key_asked [OF key] decode by (auto simp: asked_within_def decode_token_def)
    with decode_verified [OF key' decode'] verified_earlier [of st st2] show ?thesis
      by (auto simp: asked_within_def)
  qed
qed

lemma oidc_accepted:
  assumes "oidc_authenticate cfg env token st = (Inr p, st')"
  obtains h kid d where "oe_header env token = Some h" "cget h ''alg'' = CText (oc_algorithm cfg)"
    and "cget h ''kid'' = CText kid" "verified cfg env token kid d st st'" "asked_within 10 st st'"
    and "principal_from_claims (oe_digest env) cfg d = Inr p"
proof -
  from assms obtain h where h: "oe_header env token = Some h"
    by (cases "oe_header env token") (simp_all add: oidc_authenticate_def)
  obtain kid where kid: "cget h ''kid'' = CText kid"
    using assms h by (cases "cget h ''kid''") (simp_all add: oidc_authenticate_def)
  have alg: "cget h ''alg'' = CText (oc_algorithm cfg)"
    using assms h kid by (simp add: oidc_authenticate_def split: if_split_asm)
  obtain d where "verify_token cfg env token kid st = (Inr d, st')"
    and "principal_from_claims (oe_digest env) cfg d = Inr p"
    using assms h kid by (auto simp: oidc_authenticate_def split: if_split_asm prod.splits sum.splits)
  with verify_token_verified h kid alg that show thesis by blast
qed

section \<open>Scopes and contexts\<close>

lemma make_context_valid:
  assumes "principal_ok p" and "0 < c" and "name_ok 200 rid" and "name_ok 200 cid"
    and "actor_kind p = AT_CUSTOMER \<longrightarrow> principal_customer p = Some c"
  shows "make_context rid cid p (request_tenant p) c =
    Inr \<lparr>request_id = rid, conversation_id = cid, ctx_principal = p, ctx_tenant = request_tenant p,
         effective_customer = c\<rparr>"
proof -
  have tenant: "name_ok 200 (request_tenant p)"
    and same: "\<forall>t. principal_tenant p = Some t \<longrightarrow> request_tenant p = t"
    using assms(1) by (auto simp: request_tenant_def principal_ok_def name_ok_def split: option.split)
  have limits: "1 \<le> length s \<and> length s \<le> 200" if "name_ok 200 s" for s
    using that by (cases s) (auto simp: name_ok_def)
  show ?thesis
    using assms(2,5) limits [OF tenant] limits [OF assms(3)] limits [OF assms(4)] same
    by (auto simp: make_context_def validate_context_def bound_tenant_def Let_def split: option.split)
qed

lemma resolve_scope_Inr:
  assumes "resolve_customer_scope p (Some c) = Inr scope"
  shows "cs_customer scope = c \<and> 0 < c \<and>
    (actor_kind p = AT_CUSTOMER \<and> principal_customer p = Some c \<or>
     actor_kind p = AT_SUPPORT_OPERATOR \<and> ''support_operator'' \<in> set (roles p) \<and>
       (principal_kind p = PT_OIDC \<longrightarrow> c \<in> set (customer_ids p)))"
  using assms unfolding resolve_customer_scope_def make_customer_scope_def forbidden_def
  by (auto split: if_splits option.splits)

lemma resolve_scope_Inl:
  assumes "principal_ok p" and "0 < c" and "resolve_customer_scope p (Some c) = Inl e"
  shows "\<exists>status detail. e = Http status detail \<and> status \<in> {403, 404}"
  using assms unfolding resolve_customer_scope_def make_customer_scope_def forbidden_def
  by (auto simp: principal_ok_def split: if_splits option.splits)

text \<open>For a well-formed principal and request the dependencies of the chat endpoint answer with a
  context or with the status 403 or 404, never with an internal error. The context is valid, keeps
  the principal and its tenant and serves the requested customer: a customer only itself, an
  operator only with the operator role and, when it came with a token, only a customer the token
  lists; a service gets none.\<close>

theorem request_context_scoped:
  assumes "principal_ok p" and "0 < c" and "name_ok 200 rid" and "name_ok 200 cid"
  shows "case get_execution_context rid cid c p of
      Inl e \<Rightarrow> \<exists>status detail. e = Http status detail \<and> status \<in> {403, 404}
    | Inr ctx \<Rightarrow> context_ok ctx \<and> ctx_principal ctx = p \<and> ctx_tenant ctx = request_tenant p \<and>
        effective_customer ctx = c \<and>
        (actor_kind p = AT_CUSTOMER \<and> principal_customer p = Some c \<or>
         actor_kind p = AT_SUPPORT_OPERATOR \<and> ''support_operator'' \<in> set (roles p) \<and>
           (principal_kind p = PT_OIDC \<longrightarrow> c \<in> set (customer_ids p)))"
proof (cases "resolve_customer_scope p (Some c)")
  case (Inl e)
  with resolve_scope_Inl [OF assms(1,2) Inl] show ?thesis by (simp add: get_execution_context_def)
next
  case (Inr scope)
  note scope = resolve_scope_Inr [OF Inr]
  then have made: "make_context rid cid p (request_tenant p) c =
      Inr \<lparr>request_id = rid, conversation_id = cid, ctx_principal = p, ctx_tenant = request_tenant p,
           effective_customer = c\<rparr>"
    using make_context_valid [OF assms] by auto
  then have "context_ok \<lparr>request_id = rid, conversation_id = cid, ctx_principal = p,
      ctx_tenant = request_tenant p, effective_customer = c\<rparr>"
    by (auto simp: make_context_def split: if_splits dest: validate_context_ok)
  with made scope show ?thesis by (auto simp: get_execution_context_def Inr)
qed

text \<open>C21. A request that carries a token reaches a turn only if the token names the configured algorithm
  and its signature and claims were verified, during this request, under a key of that name which is
  in the cache and not expired at a time read during the request; the issuer was asked at most 10
  times. The turn serves a customer the claims list, in the tenant of the claims.\<close>

theorem token_request_scope:
  assumes "get_current_principal (oidc_authenticate cfg env) (Some (scheme, token)) st = (Inr p, st')"
    and "get_execution_context rid cid c p = Inr ctx" and "0 < oc_cache_ttl cfg"
  shows "(\<exists>h kid d. oe_header env token = Some h \<and> cget h ''alg'' = CText (oc_algorithm cfg) \<and>
      cget h ''kid'' = CText kid \<and> verified cfg env token kid d st st' \<and> fresh_keys env st st' \<and>
      principal_from_claims (oe_digest env) cfg d = Inr p) \<and>
    asked_within 10 st st' \<and> ctx_principal ctx = p \<and> context_ok ctx \<and>
    effective_customer ctx \<in> set (customer_ids p) \<and>
    (oc_require_tenant cfg \<longrightarrow> principal_tenant p = Some (ctx_tenant ctx))"
proof -
  have "oidc_authenticate cfg env token st = (Inr p, st')"
    using assms(1) by (auto simp: get_current_principal_def unauthorized_def split: if_splits prod.splits sum.splits)
  then obtain h kid d where token: "oe_header env token = Some h"
      "cget h ''alg'' = CText (oc_algorithm cfg)" "cget h ''kid'' = CText kid"
      "verified cfg env token kid d st st'" "asked_within 10 st st'"
    and claims: "principal_from_claims (oe_digest env) cfg d = Inr p"
    by (rule oidc_accepted)
  note p = claims_principal [OF claims]
  obtain scope where scope: "resolve_customer_scope p (Some c) = Inr scope"
    and made: "make_context rid cid p (request_tenant p) (cs_customer scope) = Inr ctx"
  proof -
    obtain scope where scope: "resolve_customer_scope p (Some c) = Inr scope"
      using assms(2) by (auto simp: get_execution_context_def result_simps)
    then show thesis using assms(2) that
      by (cases "make_context rid cid p (request_tenant p) (cs_customer scope)")
        (simp_all add: get_execution_context_def)
  qed
  have valid: "validate_context \<lparr>request_id = rid, conversation_id = cid, ctx_principal = p,
      ctx_tenant = request_tenant p, effective_customer = cs_customer scope\<rparr> = Inr ctx"
    using made by (auto simp: make_context_def split: if_splits)
  note ok = validate_context_ok [OF valid]
  have ctx: "ctx_principal ctx = p" "effective_customer ctx = c"
    using valid resolve_scope_Inr [OF scope] by (auto simp: validate_context_def Let_def split: if_splits)
  have "c \<in> set (customer_ids p)"
    using resolve_scope_Inr [OF scope] p by (auto simp: token_principal_def)
  moreover have "principal_tenant p = Some (ctx_tenant ctx)" if "oc_require_tenant cfg"
    using p that ok ctx(1) by (auto simp: token_principal_def context_ok_iff)
  ultimately show ?thesis
    using token claims ok ctx assms(3) by (auto simp: verified_def)
qed

section \<open>A concrete token\<close>

definition demo_oidc :: oidc_config where
  "demo_oidc = \<lparr>oc_issuer = ''https://id'', oc_discovery = None, oc_algorithm = ''RS256'',
     oc_roles_claim = ''roles'', oc_groups_claim = ''groups'', oc_tenant_claim = ''tenant_id'',
     oc_scope_claim = ''customer_ids'', oc_email_claim = ''email'',
     oc_support_role = ''support_operator'', oc_customer_role = ''customer'',
     oc_service_role = ''service'', oc_require_tenant = True, oc_require_scope = True,
     oc_cache_ttl = 300\<rparr>"

definition demo_claims :: "claim dict" where
  "demo_claims = [(''sub'', CText ''ann''), (''roles'', CList [CText ''customer'']),
     (''tenant_id'', CText ''acme''), (''customer_ids'', CNum 7)]"

definition demo_issuer :: "unit oidc_env" where
  "demo_issuer = \<lparr>oe_header = (\<lambda>t. Some [(''alg'', CText ''RS256''), (''kid'', CText ''k1'')]),
     oe_decode = (\<lambda>n t k. if t = ''good'' then Claims (CDict demo_claims) else InvalidSignature),
     oe_fetch = (\<lambda>n u. if u = ''https://keys'' then
         Some (CDict [(''keys'', CList [CDict [(''kid'', CText ''k1''), (''kty'', CText ''RSA'')]])])
       else Some (CDict [(''issuer'', CText ''https://id''), (''jwks_uri'', CText ''https://keys'')])),
     oe_key = (\<lambda>d. Some ()), oe_clock = of_nat, oe_digest = (\<lambda>s. ''0'')\<rparr>"

definition demo_customer :: principal where
  "demo_customer = \<lparr>actor_id = ''oidc:0'', actor_kind = AT_CUSTOMER, principal_kind = PT_OIDC,
     roles = [''customer''], groups = [], principal_tenant = Some ''acme'', principal_customer = Some 7,
     customer_ids = [7]\<rparr>"

definition demo_request_context :: execution_context where
  "demo_request_context = \<lparr>request_id = ''r1'', conversation_id = ''c1'', ctx_principal = demo_customer,
     ctx_tenant = ''acme'', effective_customer = 7\<rparr>"

lemma demo_authenticated:
  "get_current_principal (oidc_authenticate demo_oidc demo_issuer) (Some (''Bearer'', ''good'')) oidc_start =
     (Inr demo_customer, \<lparr>os_uri = Some ''https://keys'', os_keys = [(''k1'', ())], os_expiry = 302,
        os_asked = 4\<rparr>)"
  by code_simp

lemma demo_request: "get_execution_context ''r1'' ''c1'' 7 demo_customer = Inr demo_request_context"
  by code_simp

theorem token_request_scope_witness:
  "effective_customer demo_request_context \<in> set (customer_ids demo_customer) \<and>
     context_ok demo_request_context"
proof -
  have "0 < oc_cache_ttl demo_oidc" by (simp add: demo_oidc_def)
  from token_request_scope [OF demo_authenticated demo_request this] show ?thesis by simp
qed

theorem request_context_scoped_witness:
  "context_ok demo_request_context \<and> effective_customer demo_request_context = 7"
proof -
  have "principal_ok demo_customer" "name_ok 200 ''r1''" "name_ok 200 ''c1''"
    by (simp_all add: principal_ok_def demo_customer_def name_ok_def)
  from request_context_scoped [OF this(1) _ this(2,3), of 7] show ?thesis
    by (simp add: demo_request)
qed

text \<open>
  The role of an operator in the tokens can be configured, but the scope of a request asks for the
  role \<open>support_operator\<close>: with another name every operator is refused.
\<close>

lemma renamed_operator_role_refused:
  assumes "principal_from_claims digest cfg d = Inr p" and "actor_kind p = AT_SUPPORT_OPERATOR"
    and "''support_operator'' \<notin> set (roles p)"
  shows "oc_support_role cfg \<in> set (roles p) \<and> get_execution_context rid cid c p = forbidden"
  using claims_principal [OF assms(1)] assms(2,3)
  by (auto simp: token_principal_def get_execution_context_def resolve_customer_scope_def forbidden_def)

end
