(* ===== verification/Api_Laws.thy ===== *)
theory Api_Laws
  imports Api Access_Laws
begin

text \<open>
  The endpoints run the agent's tools: the same operation, on the same tenant and customer, as the
  turn of an agent would under the context of the request; and a writing endpoint may be called again
  with its idempotency key, whatever became of the first answer.
\<close>

section \<open>Endpoints and tools\<close>

text \<open>The tool an endpoint runs for a customer.\<close>

fun request_tool :: "http_request \<Rightarrow> int \<Rightarrow> string \<times> tool_input" where
  "request_tool (ReadCustomer i) c = (''get_customer'', GetCustomerArgs c)"
| "request_tool (ReadOrders i) c = (''get_customer_orders'', GetCustomerArgs c)"
| "request_tool (ReadTickets i) c = (''get_customer_tickets'', GetCustomerArgs c)"
| "request_tool (ReadOrder i x) c = (''get_order'', GetOrderArgs i c)"
| "request_tool (ReadTicket i x) c = (''get_ticket'', GetTicketArgs i c)"
| "request_tool (PostCancel i x k) c = (''cancel_order'', CancelArgs c i)"
| "request_tool (PostRefund i x reason k) c = (''request_refund'', RefundArgs c i reason)"
| "request_tool (PostTicket x i category description k) c =
     (''create_support_ticket'', CreateTicketArgs c i category description)"
| "request_tool (PostEscalation x t i reason p summary k) c =
     (''escalate_to_human'', EscalateArgs c t i reason p summary)"

fun request_customer :: "http_request \<Rightarrow> int option" where
  "request_customer (ReadCustomer c) = Some c"
| "request_customer (ReadOrders c) = Some c"
| "request_customer (ReadTickets c) = Some c"
| "request_customer (ReadOrder i c) = c"
| "request_customer (ReadTicket i c) = c"
| "request_customer (PostCancel i c k) = Some c"
| "request_customer (PostRefund i c reason k) = Some c"
| "request_customer (PostTicket c i category description k) = Some c"
| "request_customer (PostEscalation c t i reason p summary k) = Some c"

fun request_item :: "http_request \<Rightarrow> int option" where
  "request_item (ReadOrder i c) = Some i"
| "request_item (ReadTicket i c) = Some i"
| "request_item (PostCancel i c k) = Some i"
| "request_item (PostRefund i c reason k) = Some i"
| "request_item _ = None"

fun request_key :: "http_request \<Rightarrow> string" where
  "request_key (PostCancel i c k) = k"
| "request_key (PostRefund i c reason k) = k"
| "request_key (PostTicket c i category description k) = k"
| "request_key (PostEscalation c t i reason p summary k) = k"
| "request_key _ = []"

definition request_scope :: "principal \<Rightarrow> http_request \<Rightarrow> idempotency_scope" where
  "request_scope p req =
     \<lparr>sc_actor = actor_id p, sc_key = request_key req, sc_tenant = request_tenant p\<rparr>"

lemma request_tenant_ok: "principal_ok p \<Longrightarrow> name_ok 200 (request_tenant p)"
  by (auto simp: request_tenant_def principal_ok_def name_ok_def split: option.split)

lemma request_scope_made:
  assumes "principal_ok p" and "posts req" and "request_fits req"
  shows "make_scope (actor_id p) (request_key req) (request_tenant p) = Inr (request_scope p req)"
proof -
  have "key_fits (request_key req)" using assms(2,3) by (cases req) auto
  moreover have "name_ok 200 (actor_id p)" using assms(1) by (simp add: principal_ok_def)
  ultimately show ?thesis
    using request_tenant_ok [OF assms(1)]
    by (auto simp: make_scope_def request_scope_def key_fits_def name_ok_def Suc_le_eq)
qed

text \<open>What a request reaches, once it passed the checks in front of the tool.\<close>

definition reached :: "principal \<Rightarrow> http_request \<Rightarrow> int \<Rightarrow> bool" where
  "reached p req c \<longleftrightarrow>
     principal_ok p \<and> request_fits req \<and> positive (request_item req) \<and>
     (\<exists>scope. resolve_customer_scope p (request_customer req) = Inr scope \<and> cs_customer scope = c) \<and>
     (posts req \<longrightarrow> is_ok (require_support_operator p))"

lemma write_authorized:
  assumes "reached p req c" and "posts req"
  shows "authorize_write p (the (request_customer req)) (request_key req) = Inr (c, request_scope p req)"
proof -
  obtain scope where scope: "resolve_customer_scope p (request_customer req) = Inr scope" "cs_customer scope = c"
    using assms(1) by (auto simp: reached_def)
  have some: "request_customer req = Some (the (request_customer req))" using assms(2) by (cases req) auto
  have op: "require_support_operator p = Inr p"
    using assms by (auto simp: reached_def require_support_operator_def forbidden_def split: if_splits)
  show ?thesis
    using scope op request_scope_made [of p req] assms some
    by (auto simp: authorize_write_def reached_def)
qed

text \<open>What the endpoint of a request that reached its tool does.\<close>

lemma endpoint_runs:
  assumes "reached p req c" and "ctx_tenant ctx = request_tenant p" and "effective_customer ctx = c"
    and "request_tool req c = (name, inp)"
  shows "endpoint d p req ss =
    (if posts req
     then finish_write d (write_outcome d name (run_tool d ctx name inp (Some (request_scope p req))) ss)
     else (read_error (fst (run_tool d ctx name inp None (work ss))), ss))"
proof -
  obtain scope where scope: "resolve_customer_scope p (request_customer req) = Inr scope" "cs_customer scope = c"
    using assms(1) by (auto simp: reached_def)
  have item: "positive (request_item req)" using assms(1) by (simp add: reached_def)
  show ?thesis
  proof (cases "posts req")
    case True
    note auth = write_authorized [OF assms(1) True]
    show ?thesis
      using assms(2-4) auth item True
      by (cases req) (auto simp: route_defs submit_def with_positive_def need_positive_def positive_def run_tool_def
          scoped_def with_scope_def require_idempotency_def write_outcome_def)
  next
    case False
    then show ?thesis
      using assms(2-4) scope item
      by (cases req) (auto simp: route_defs read_customer_def read_item_def need_positive_def positive_def run_tool_def scoped_def
         )
  qed
qed

section \<open>Writing endpoints\<close>

lemma request_writes:
  "posts req \<Longrightarrow> request_tool req c = (name, inp) \<Longrightarrow> writes inp"
  by (cases req) auto

text \<open>How a write can end: refused by the tool, committed, or its commit failed, applied or not.\<close>

lemma write_outcome_cases:
  assumes "write_outcome d operation tool ss = (r, ss1)"
  obtains (refused) x st where "tool (work ss) = (Inl x, st)" "r = Inl x" "ss1 = ss\<lparr>work := st\<rparr>"
  | (committed) out st where "tool (work ss) = (Inr out, st)" "r = Inr out" "ss1 = \<lparr>work = st, durable = st\<rparr>"
  | (failed) out st x applied where "tool (work ss) = (Inr out, st)" "r = Inl x"
      "is_unknown_write x \<or> (\<exists>b. commit_fault d st = Some (x, b))" "ss1 = \<lparr>work = st, durable = (if applied then st else durable ss)\<rparr>"
proof (cases "tool (work ss)")
  case (Pair q st)
  show thesis
  proof (cases q)
    case (Inl x)
    then show thesis using assms Pair by (intro refused) (auto simp: write_outcome_def)
  next
    case (Inr out)
    show thesis
    proof (cases "commit_fault d st")
      case None
      then show thesis using assms Pair Inr
        by (intro committed) (auto simp: write_outcome_def commit_business_write_def commit_def)
    next
      case (Some f)
      obtain x applied where f: "f = (x, applied)" by (cases f)
      show thesis using assms Pair Inr Some
        by (intro failed [of out st "projl r" applied])
          (auto simp: write_outcome_def commit_business_write_def commit_def f split: if_splits)
    qed
  qed
qed

text \<open>A write that does not reach its tool is answered with an error, and the session only closed.\<close>

lemma scope_positive: "resolve_customer_scope p c = Inr scope \<Longrightarrow> 0 < cs_customer scope"
  by (auto simp: resolve_customer_scope_def make_customer_scope_def forbidden_def
      split: if_splits option.splits)

lemma not_reached:
  assumes "principal_ok p" and "posts req" and "\<And>c. \<not> reached p req c" and "serve d p req ss = (r, ss1)"
  shows "(\<exists>e. r = Inl e \<and> e \<noteq> http_unknown_write) \<and> (ss1 = ss \<or> ss1 = rollback d ss)"
proof (cases "is_ok (require_support_operator p) \<and> request_fits req")
  case False
  then show ?thesis using assms(2,4)
    by (auto simp: serve_def forbidden_def unprocessable_def http_unknown_write_def split: if_splits)
next
  case True
  have "\<exists>e. e \<noteq> http_unknown_write \<and> endpoint d p req ss = (Inl e, ss)"
  proof (cases "resolve_customer_scope p (request_customer req)")
    case (Inl e)
    then have "e \<noteq> http_unknown_write"
      by (auto simp: resolve_customer_scope_def make_customer_scope_def forbidden_def http_unknown_write_def
          split: if_splits option.splits)
    moreover obtain sc where "require_support_operator p = Inr sc" using True by (auto simp: is_ok_iff)
    ultimately show ?thesis using Inl assms(2)
      by (cases req) (auto simp: route_defs submit_def with_positive_def authorize_write_def)
  next
    case (Inr scope)
    then have "\<not> positive (request_item req)" using assms(1) assms(3) [of "cs_customer scope"] True
      by (auto simp: reached_def)
    moreover have "Internal PydanticValidationError \<noteq> http_unknown_write"
      by (simp add: http_unknown_write_def)
    moreover have "authorize_write p (the (request_customer req)) (request_key req) =
        Inr (cs_customer scope, request_scope p req)"
    proof -
      have "request_customer req = Some (the (request_customer req))" using assms(2) by (cases req) auto
      with Inr True request_scope_made [OF assms(1,2)] show ?thesis
        by (auto simp: authorize_write_def is_ok_iff)
    qed
    ultimately show ?thesis using assms(2)
      by (cases req) (auto simp: route_defs submit_def with_positive_def need_positive_def positive_def)
  qed
  then show ?thesis using True assms(2,4) by (auto simp: serve_def close_session_def)
qed

text \<open>C22. The endpoints are the agent's tools: a request that passes the checks in front of its tool is
  answered by the tool of the registry, run in the tenant of the principal for the customer of its
  scope, under the idempotency key of the request; reads write nothing.\<close>

theorem endpoint_is_tool:
  assumes "reached p req c" and "ctx_tenant ctx = request_tenant p" and "effective_customer ctx = c"
    and "request_tool req c = (name, inp)"
  shows "endpoint d p req ss =
    (if posts req
     then finish_write d (write_outcome d name (run_tool d ctx name inp (Some (request_scope p req))) ss)
     else (read_error (fst (run_tool d ctx name inp None (work ss))), ss))"
  using assms by (rule endpoint_runs)

definition business_error :: "http_error \<Rightarrow> bool" where
  "business_error e \<longleftrightarrow> (\<exists>status detail. e = Http status detail \<and> status \<noteq> 503)"

lemma finish_write_ok:
  "finish_write d (r, ss) = (Inr out, ss') \<longleftrightarrow> r = Inr out \<and> ss' = ss"
  by (auto simp: finish_write_def split: sum.splits if_splits)

lemma http_of_tool_error_503: "http_of_tool_error x \<noteq> http_unknown_write"
  by (cases x) (auto simp: http_unknown_write_def)

lemma finish_write_unknown:
  "finish_write d (r, ss) = (Inl http_unknown_write, ss') \<Longrightarrow>
     ss' = ss \<and> (\<exists>operation. r = Inl (UnknownWriteOutcomeError operation))"
  using http_of_tool_error_503
  by (auto simp: finish_write_def is_unknown_write_iff http_unknown_write_def
      split: sum.splits if_splits)

lemma finish_write_business:
  "finish_write d (r, ss) = (Inl (Http status detail), ss') \<Longrightarrow> status \<noteq> 503 \<Longrightarrow>
     ss' = rollback d ss \<and> (\<exists>x. r = Inl x \<and> is_tool_error x \<and> \<not> is_unknown_write x)"
  by (auto simp: finish_write_def http_unknown_write_def split: sum.splits if_splits)

text \<open>A tool never reports a write of unknown outcome by itself; the commit does.\<close>

lemma execute_not_unknown:
  assumes "execute_idempotent d sc operation c payload perform load st = (Inl x, st')"
    and "\<And>y s t. perform s = (Inl y, t) \<Longrightarrow> \<not> is_unknown_write y"
    and "\<And>i s y. load i s = Inl y \<Longrightarrow> \<not> is_unknown_write y"
  shows "\<not> is_unknown_write x"
  using assms
  by (auto simp: execute_idempotent_def nested_action_def replay_receipt_def validate_receipt_def
      flush_receipt_def Let_def and_then_Inl_iff split: option.splits prod.splits sum.splits if_splits)

lemma load_not_unknown:
  "load_cancelled t i st = Inl x \<Longrightarrow> \<not> is_unknown_write x"
  "load_refund t i st = Inl x \<Longrightarrow> \<not> is_unknown_write x"
  "load_ticket t i st = Inl x \<Longrightarrow> \<not> is_unknown_write x"
  "load_escalation t i st = Inl x \<Longrightarrow> \<not> is_unknown_write x"
  by (auto simp: load_cancelled_def load_refund_def load_ticket_def load_escalation_def lookup_or_def
      and_then_Inl_iff split: option.splits)

lemma check_not_unknown:
  "owned_order st t i c = Inl x \<Longrightarrow> \<not> is_unknown_write x"
  "check_order st t j c = Inl x \<Longrightarrow> \<not> is_unknown_write x"
  "check_ticket st t j c = Inl x \<Longrightarrow> \<not> is_unknown_write x"
  "lookup_or n i y = Inl x \<Longrightarrow> \<not> is_unknown_write x"
  by (auto simp: owned_order_def check_order_def check_ticket_def lookup_or_def and_then_Inl_iff
      split: option.splits if_splits)

lemma perform_not_unknown:
  "perform_cancel t c i d st = (Inl x, st') \<Longrightarrow> \<not> is_unknown_write x"
  "perform_refund t c i reason d st = (Inl x, st') \<Longrightarrow> \<not> is_unknown_write x"
  "perform_ticket t c j category description d st = (Inl x, st') \<Longrightarrow> \<not> is_unknown_write x"
  "perform_escalation t c k j reason p summary d st = (Inl x, st') \<Longrightarrow> \<not> is_unknown_write x"
  by (auto simp: perform_cancel_def validate_cancel_order_def perform_defs validate_refund_request_def
      flush_refund_def flush_ticket_def flush_escalation_def Let_def and_then_Inl_iff
      dest: load_not_unknown check_not_unknown split: perform_splits)

lemma duplicate_not_unknown:
  assumes "duplicate_on_conflict m q = (Inl x, st)"
  obtains "\<not> is_unknown_write x" | "q = (Inl x, st)"
  using assms by (auto simp: duplicate_on_conflict_def split: prod.splits if_splits)

lemma tool_not_unknown:
  assumes "writes inp" and "same_customer ctx inp" and "run_tool d ctx name inp (Some sc) st = (Inl x, st')"
  shows "\<not> is_unknown_write x"
  using assms(1) assms(3) [unfolded run_tool_write [OF assms(1,2)]]
  by (cases inp) (auto simp: tool_defs elim!: duplicate_not_unknown
      dest: execute_not_unknown [OF _ perform_not_unknown(1) load_not_unknown(1)]
        execute_not_unknown [OF _ perform_not_unknown(2) load_not_unknown(2)]
        execute_not_unknown [OF _ perform_not_unknown(3) load_not_unknown(3)]
        execute_not_unknown [OF _ perform_not_unknown(4) load_not_unknown(4)])


text \<open>Whether a commit fails is decided after the tool ran: the tools do not depend on it.\<close>

lemma commit_fault_only:
  "others (d\<lparr>commit_fault := f\<rparr>) = others d" "fingerprint (d\<lparr>commit_fault := f\<rparr>) = fingerprint d"
  "now_text (d\<lparr>commit_fault := f\<rparr>) = now_text d" "new_refund_id (d\<lparr>commit_fault := f\<rparr>) = new_refund_id d"
  "new_ticket_id (d\<lparr>commit_fault := f\<rparr>) = new_ticket_id d"
  "new_escalation_id (d\<lparr>commit_fault := f\<rparr>) = new_escalation_id d"
  by simp_all

lemma run_tool_any_commit: "run_tool (d\<lparr>commit_fault := f\<rparr>) ctx name inp sc = run_tool d ctx name inp sc"
proof -
  have flush: "flush_refund (d\<lparr>commit_fault := f\<rparr>) = flush_refund d" "flush_ticket (d\<lparr>commit_fault := f\<rparr>) = flush_ticket d"
    "flush_escalation (d\<lparr>commit_fault := f\<rparr>) = flush_escalation d" "flush_receipt (d\<lparr>commit_fault := f\<rparr>) = flush_receipt d"
    unfolding flush_refund_def [abs_def] flush_ticket_def [abs_def] flush_escalation_def [abs_def]
      flush_receipt_def [abs_def] commit_fault_only by (rule refl)+
  have perform: "perform_cancel t c i (d\<lparr>commit_fault := f\<rparr>) = perform_cancel t c i d"
    "perform_refund t c i reason (d\<lparr>commit_fault := f\<rparr>) = perform_refund t c i reason d"
    "perform_ticket t c j category description (d\<lparr>commit_fault := f\<rparr>) = perform_ticket t c j category description d"
    "perform_escalation t c k j reason p summary (d\<lparr>commit_fault := f\<rparr>) = perform_escalation t c k j reason p summary d"
    for t c i reason j category description k p summary
    unfolding perform_cancel_def perform_defs flush commit_fault_only by (rule refl)+
  have execute: "execute_idempotent (d\<lparr>commit_fault := f\<rparr>) s operation c payload act load =
      execute_idempotent d s operation c payload act load" for s operation c payload and act :: "('a \<times> int) business" and load
    unfolding execute_idempotent_def nested_action_def flush commit_fault_only by (rule refl)
  have tools: "cancel_order (d\<lparr>commit_fault := f\<rparr>) = cancel_order d" "request_refund (d\<lparr>commit_fault := f\<rparr>) = request_refund d"
    "create_support_ticket (d\<lparr>commit_fault := f\<rparr>) = create_support_ticket d" "escalate_to_human (d\<lparr>commit_fault := f\<rparr>) = escalate_to_human d"
    by (intro ext, simp only: tool_defs perform execute)+
  show ?thesis by (intro ext) (simp only: run_tool_def tools)
qed

text \<open>C23. A write that succeeded or whose outcome is unknown may be repeated under its idempotency key, whatever
  became of it. If it succeeded, the database holds what it wrote (and what others committed meanwhile);
  if its outcome is unknown, the database holds that or what it held before. Where it holds what the
  first attempt wrote, possibly with rows others added since, a repetition whose commit does not fail
  succeeds and changes nothing; where the rows are those before the first attempt, a repetition
  whose commit does not fail performs the write: it succeeds and stores what the first attempt would have.\<close>

theorem safe_retry:
  assumes "principal_ok p" and "others_ok d" and "posts req"
    and "serve d p req ss = (r, ss1)" and "r = Inr out \<or> r = Inl http_unknown_write"
    and "st = work (snd (endpoint d p req ss))"
  shows "(durable ss1 = others d st \<or> r = Inl http_unknown_write \<and> durable ss1 = others d (durable ss)) \<and>
    (\<forall>ss2 f. keeps st (work ss2) \<and> f (work ss2) = None \<longrightarrow>
      (\<exists>out'. serve (d\<lparr>commit_fault := f\<rparr>) p req ss2 = (Inr out', rollback d (ss2\<lparr>durable := work ss2\<rparr>)))) \<and>
    (\<forall>ss2 f. work ss2 = work ss \<and> f st = None \<longrightarrow>
      (\<exists>out'. serve (d\<lparr>commit_fault := f\<rparr>) p req ss2 = (Inr out', rollback d (ss2\<lparr>durable := st\<rparr>))))"
proof -
  obtain c where c: "reached p req c" using not_reached [OF assms(1,3) _ assms(4)] assms(5) by blast
  obtain name inp where tool: "request_tool req c = (name, inp)" by (cases "request_tool req c")
  define ctx where "ctx = \<lparr>request_id = [], conversation_id = [], ctx_principal = p,
    ctx_tenant = request_tenant p, effective_customer = c\<rparr>"
  define run where "run = run_tool d ctx name inp (Some (request_scope p req))"
  have w: "writes inp" by (rule request_writes [OF assms(3) tool])
  have scope: "same_customer ctx inp"
    using tool assms(3) by (cases req) (auto simp: same_customer_def ctx_def)
  have served: "serve d p req s = close_session d (finish_write d (write_outcome d name run s))" for s
    using c assms(3) endpoint_runs [OF c _ _ tool, of ctx d] by (auto simp: serve_def reached_def ctx_def run_def)
  have again: "serve (d\<lparr>commit_fault := f\<rparr>) p req s =
      close_session (d\<lparr>commit_fault := f\<rparr>) (finish_write (d\<lparr>commit_fault := f\<rparr>)
        (write_outcome (d\<lparr>commit_fault := f\<rparr>) name run s))" for s f
    using c assms(3) endpoint_runs [OF c _ _ tool, of ctx "d\<lparr>commit_fault := f\<rparr>"]
    by (auto simp: serve_def reached_def ctx_def run_def run_tool_any_commit)
  have committed: "\<exists>out'. serve (d\<lparr>commit_fault := f\<rparr>) p req s = (Inr out', rollback d (s\<lparr>durable := st2\<rparr>))"
    if "run (work s) = (Inr a, st2)" "f st2 = None" for s f a st2
    using that by (auto simp: again write_outcome_def commit_business_write_def commit_def finish_write_def
        close_session_def rollback_def Let_def)
  obtain q ss0 where q: "write_outcome d name run ss = (q, ss0)" by (cases "write_outcome d name run ss")
  have endpoint: "endpoint d p req ss = finish_write d (q, ss0)"
    using endpoint_runs [OF c _ _ tool, of ctx] assms(3) q by (simp add: ctx_def run_def)
  have first: "finish_write d (q, ss0) = (r, ss0)" "ss1 = rollback d ss0"
    "q = Inr out \<and> r = Inr out \<or> r = Inl http_unknown_write \<and> (\<exists>operation. q = Inl (UnknownWriteOutcomeError operation))"
    using assms(4,5) q finish_write_unknown [of d q ss0]
    by (auto simp: served close_session_def finish_write_ok split: prod.splits)
  have ran: "\<exists>a. run (work ss) = (Inr a, st) \<and>
      (durable ss0 = st \<or> r = Inl http_unknown_write \<and> durable ss0 = durable ss)"
    using q
  proof (cases rule: write_outcome_cases)
    case (refused x st')
    then have False using first(3) tool_not_unknown [OF w scope] by (fastforce simp: run_def)
    then show ?thesis ..
  qed (use first(1,3) assms(6) endpoint in auto)
  then obtain a where run: "run (work ss) = (Inr a, st)" by blast
  have "\<exists>out'. run s = (Inr out', s)" if "keeps st s" for s
    using write_tool_again [OF assms(2) w that, of ctx name "request_scope p req" "work ss" a] run
    by (auto simp: run_def)
  then show ?thesis
    using ran first(2) run committed by (auto simp: rollback_def Let_def) blast+
qed

text \<open>A failing commit raises errors of the database, not of the tools.\<close>

definition faults_ok :: "db \<Rightarrow> bool" where
  "faults_ok d \<longleftrightarrow> (\<forall>st x applied. commit_fault d st = Some (x, applied) \<longrightarrow> \<not> is_tool_error x)"

text \<open>C24. A write refused with a business error (any status but 503) leaves nothing behind: the database
  holds what it held before, with what other transactions committed meanwhile.\<close>

theorem refused_write_leaves_nothing:
  assumes "principal_ok p" and "posts req" and "serve d p req ss = (Inl (Http status detail), ss1)"
    and "status \<noteq> 503" and "faults_ok d"
  shows "\<exists>n. durable ss1 = (others d ^^ n) (durable ss)"
proof (cases "\<exists>c. reached p req c")
  case False
  then have "ss1 = ss \<or> ss1 = rollback d ss" using not_reached [OF assms(1,2) _ assms(3)] by blast
  then have "durable ss1 = (others d ^^ 0) (durable ss) \<or> durable ss1 = (others d ^^ 1) (durable ss)"
    by (auto simp: rollback_def Let_def)
  then show ?thesis by blast
next
  case True
  then obtain c where c: "reached p req c" by blast
  obtain name inp where tool: "request_tool req c = (name, inp)" by (cases "request_tool req c")
  define ctx where "ctx = \<lparr>request_id = [], conversation_id = [], ctx_principal = p,
    ctx_tenant = request_tenant p, effective_customer = c\<rparr>"
  define run where "run = run_tool d ctx name inp (Some (request_scope p req))"
  obtain q ss0 where q: "write_outcome d name run ss = (q, ss0)" by (cases "write_outcome d name run ss")
  have "close_session d (finish_write d (q, ss0)) = (Inl (Http status detail), ss1)"
    using assms(3) c assms(2) endpoint_runs [OF c _ _ tool, of ctx d ss] q
    by (auto simp: serve_def reached_def ctx_def run_def)
  then have ss1: "ss1 = rollback d (rollback d ss0)" and x: "\<exists>x. q = Inl x \<and> is_tool_error x \<and> \<not> is_unknown_write x"
    using finish_write_business [of d q ss0 status detail] assms(4)
    by (auto simp: close_session_def split: prod.splits)
  have "durable ss0 = durable ss"
    using q
  proof (cases rule: write_outcome_cases)
    case (failed out st y applied)
    then show ?thesis using x assms(5) by (auto simp: faults_ok_def)
  qed (use x in auto)
  then have "durable ss1 = (others d ^^ 2) (durable ss)"
    by (simp add: ss1 rollback_def Let_def eval_nat_numeral)
  then show ?thesis by blast
qed

section \<open>Witnesses\<close>

definition demo_operator :: principal where
  "demo_operator = \<lparr>actor_id = ''op'', actor_kind = AT_SUPPORT_OPERATOR, principal_kind = PT_STATIC,
     roles = [''support_operator''], groups = [], principal_tenant = None, principal_customer = None,
     customer_ids = []\<rparr>"

definition demo_session :: session where
  "demo_session = \<lparr>work = demo_store, durable = demo_store\<rparr>"

lemma demo_operator_ok: "principal_ok demo_operator"
  by (simp add: principal_ok_def demo_operator_def name_ok_def)

lemma demo_faults_ok: "faults_ok demo_db"
  by (simp add: faults_ok_def demo_db_def)

theorem endpoint_is_tool_witness:
  "endpoint demo_db demo_operator (ReadOrder 2 (Some 7)) demo_session =
     (read_error (fst (run_tool demo_db demo_context ''get_order'' (GetOrderArgs 2 7) None demo_store)),
      demo_session)"
proof -
  have "reached demo_operator (ReadOrder 2 (Some 7)) 7"
    using demo_operator_ok
    by (simp add: reached_def positive_def resolve_customer_scope_def make_customer_scope_def demo_operator_def)
  moreover have "ctx_tenant demo_context = request_tenant demo_operator" "effective_customer demo_context = 7"
    by (simp_all add: demo_context_def request_tenant_def demo_operator_def)
  ultimately show ?thesis
    using endpoint_is_tool [of demo_operator "ReadOrder 2 (Some 7)" 7 demo_context "''get_order''"
        "GetOrderArgs 2 7" demo_db demo_session]
    by (simp add: demo_session_def)
qed

definition demo_cancel_request :: http_request where
  "demo_cancel_request = PostCancel 1 7 ''request-1''"

definition failing_db :: db where
  "failing_db = demo_db\<lparr>commit_fault := \<lambda>_. Some (OtherDBAPIError True, False)\<rparr>"

text \<open>A first attempt that loses its connection before the commit, a second one that performs the write
  and a third one that repeats it.\<close>

theorem safe_retry_witness:
  "\<exists>ss1 out ss2 out' ss3.
     serve failing_db demo_operator demo_cancel_request demo_session = (Inl http_unknown_write, ss1) \<and>
     durable ss1 = demo_store \<and>
     serve demo_db demo_operator demo_cancel_request ss1 = (Inr out, ss2) \<and> durable ss2 \<noteq> demo_store \<and>
     serve demo_db demo_operator demo_cancel_request ss2 = (Inr out', ss3) \<and> durable ss3 = durable ss2"
proof -
  let ?first = "serve failing_db demo_operator demo_cancel_request demo_session"
  define st where "st = work (snd (endpoint failing_db demo_operator demo_cancel_request demo_session))"
  have lost: "fst ?first = Inl http_unknown_write" "work (snd ?first) = demo_store" "durable (snd ?first) = demo_store"
    by code_simp+
  have changed: "map or_status (orders st) = [OS_CANCELLED, OS_DELIVERED]"
    unfolding st_def by code_simp
  have posts: "posts demo_cancel_request" by (simp add: demo_cancel_request_def)
  have db: "failing_db\<lparr>commit_fault := \<lambda>_. None\<rparr> = demo_db" "others_ok failing_db"
    "rollback failing_db s = s\<lparr>work := durable s\<rparr>" for s
    using demo_others_ok by (simp_all add: failing_db_def demo_db_def others_ok_def rollback_def)
  have first: "?first = (Inl http_unknown_write, demo_session)"
    using lost by (cases ?first) (simp add: demo_session_def)
  note retry = safe_retry [OF demo_operator_ok db(2) posts first _ st_def, simplified db, THEN conjunct2]
  obtain out where second: "serve demo_db demo_operator demo_cancel_request demo_session =
      (Inr out, \<lparr>work = st, durable = st\<rparr>)"
    using retry [THEN conjunct2, THEN spec [where x = demo_session], THEN spec [where x = "\<lambda>_. None"]]
    by (auto simp: db demo_session_def)
  moreover have "\<exists>out'. serve demo_db demo_operator demo_cancel_request \<lparr>work = st, durable = st\<rparr> =
      (Inr out', \<lparr>work = st, durable = st\<rparr>)"
    using retry [THEN conjunct1, THEN spec [where x = "\<lparr>work = st, durable = st\<rparr>"], THEN spec [where x = "\<lambda>_. None"]]
    by (auto simp: db keeps_refl)
  moreover have "st \<noteq> demo_store" using changed by (auto simp: demo_store_def)
  ultimately show ?thesis using first by (auto simp: demo_session_def)
qed

theorem refused_write_leaves_nothing_witness:
  "\<exists>ss. serve demo_db demo_operator (PostCancel 2 7 ''request-2'') demo_session =
     (Inl (Http 409 ''Order 2 cannot be cancelled from status delivered''), ss) \<and> durable ss = demo_store"
proof -
  let ?serve = "serve demo_db demo_operator (PostCancel 2 7 ''request-2'')"
  have "fst (?serve demo_session) = Inl (Http 409 ''Order 2 cannot be cancelled from status delivered'')"
    by code_simp
  then obtain ss where ss: "?serve demo_session =
      (Inl (Http 409 ''Order 2 cannot be cancelled from status delivered''), ss)"
    by (metis prod.collapse)
  have "\<exists>n. durable ss = (others demo_db ^^ n) (durable demo_session)"
    by (rule refused_write_leaves_nothing [OF demo_operator_ok _ ss _ demo_faults_ok]) simp_all
  then have "durable ss = demo_store" by (auto simp: demo_others demo_session_def id_def [symmetric])
  with ss show ?thesis by blast
qed

text \<open>
  Findings. A path that names an id of zero or less is an internal error on the routes of customers,
  orders and tickets, while the routes of the memories answer it with the status 400.
\<close>

lemma zero_id_is_internal_error:
  assumes "resolve_customer_scope p (Some c) = Inr scope" and "0 < c" and "i \<le> 0"
  shows "fst (serve d p (ReadOrder i (Some c)) ss) = Inl (Internal PydanticValidationError)"
    and "fst (delete_memory md cfg now p c i rows) = Inl (Http 400 ''Invalid memory ID'')"
  using assms
  by (auto simp: serve_def close_session_def route_defs read_item_def need_positive_def delete_memory_def positive_def)

lemma zero_customer_is_internal_error:
  assumes "actor_kind p = AT_SUPPORT_OPERATOR" and "''support_operator'' \<in> set (roles p)"
    and "principal_kind p = PT_STATIC" and "c \<le> 0"
  shows "fst (serve d p (ReadCustomer c) ss) = Inl (Internal PydanticValidationError)"
    and "list_memories cfg now p c rows = Inl (Http 400 ''Invalid customer ID'')"
  using assms
  by (auto simp: serve_def close_session_def route_defs read_customer_def list_memories_def
      resolve_customer_scope_def make_customer_scope_def)

end
