(* ===== verification/Grounding.thy ===== *)
theory Grounding
  imports Nodes_Execution
begin

text \<open>
  Answers from retrieved knowledge (rag/context.py, rag/answer_generator.py, rag/schemas.py): the
  context is bounded and free of duplicates, irrelevant chunks are dropped, an extractive answer
  quotes one sentence per chunk with a citation marker, and a validator accepts the answer only if
  every claim is followed by a marker whose citation quotes it from the retrieved evidence.

  Scores are exact rationals; a score is never a NaN. The metrics and spans are not modelled.
\<close>

section \<open>Chunks, citations and answers\<close>

record chunk =
  ch_id :: ustr
  ch_document :: ustr
  ch_title :: ustr
  ch_category :: ustr
  ch_section :: ustr
  ch_source :: ustr
  ch_content :: ustr
  ch_score :: rat
  ch_rerank :: "rat option"

definition citation_id :: "chunk \<Rightarrow> ustr" where
  "citation_id c = ch_document c @ 35 # ch_section c"

record citation =
  ci_id :: ustr
  ci_document :: ustr
  ci_title :: ustr
  ci_chunk :: ustr
  ci_source :: ustr
  ci_relevance :: rat
  ci_excerpt :: ustr

datatype grounding_state = PASS | CONFLICT | INSUFFICIENT_EVIDENCE | REJECTED

fun grounding_state_value :: "grounding_state \<Rightarrow> string" where
  "grounding_state_value PASS = ''pass''"
| "grounding_state_value CONFLICT = ''conflict''"
| "grounding_state_value INSUFFICIENT_EVIDENCE = ''insufficient_evidence''"
| "grounding_state_value REJECTED = ''rejected''"

record grounding_result =
  gv_coverage :: rat
  gv_accepted :: bool
  gv_unsupported :: nat
  gv_reasons :: "string list"

record rag_answer =
  ra_text :: ustr
  ra_citations :: "citation list"
  ra_confidence :: rat
  ra_claims :: "ustr list"
  ra_unsupported :: "ustr list"
  ra_sources :: nat
  ra_status :: grounding_state
  ra_validation :: grounding_result
  ra_grounded :: bool

text \<open>\<open>dict.fromkeys\<close>: the first occurrences, in order.\<close>

definition first_ones :: "'a list \<Rightarrow> 'a list" where
  "first_ones xs = rev (remdups (rev xs))"

section \<open>The context\<close>

text \<open>
  \<open>sorted(..., reverse=True)\<close> on the pair of both scores: it keeps the order of equal chunks, so it is a
  stable sort by the second score and then by the first.
\<close>

definition rerank_or_zero :: "chunk \<Rightarrow> rat" where
  "rerank_or_zero c = (case ch_rerank c of None \<Rightarrow> 0 | Some s \<Rightarrow> s)"

definition by_scores :: "chunk list \<Rightarrow> chunk list" where
  "by_scores cs = sort_key (\<lambda>c. - rerank_or_zero c) (sort_key (\<lambda>c. - ch_score c) cs)"

definition norm_text :: "ustr \<Rightarrow> ustr" where
  "norm_text s = squeeze (casefold s)"

fun select_chunks :: "nat \<Rightarrow> ustr list \<Rightarrow> chunk list \<Rightarrow> chunk list \<Rightarrow> chunk list" where
  "select_chunks n seen sel [] = sel"
| "select_chunks n seen sel (c # cs) =
     (if norm_text (ch_content c) \<in> set seen then select_chunks n seen sel cs
      else if n \<le> length (sel @ [c]) then sel @ [c]
      else select_chunks n (norm_text (ch_content c) # seen) (sel @ [c]) cs)"

definition construct_context :: "nat \<Rightarrow> chunk list \<Rightarrow> chunk list" where
  "construct_context n cs = select_chunks n [] [] (by_scores cs)"

section \<open>Relevance\<close>

definition token_char :: "int \<Rightarrow> bool" where
  "token_char c \<longleftrightarrow> is_word c \<and> c \<noteq> 95"

definition stop_words :: "ustr list" where
  "stop_words = map lit [''about'', ''are'', ''can'', ''could'', ''does'', ''for'', ''from'', ''how'',
     ''is'', ''me'', ''my'', ''please'', ''tell'', ''the'', ''this'', ''what'', ''when'', ''where'',
     ''which'', ''with'', ''your'']"

definition evidence_reference_terms :: "ustr list" where
  "evidence_reference_terms =
     map lit [''article'', ''content'', ''document'', ''evidence'', ''note'', ''source'', ''text'']"

definition generic_query_terms :: "ustr list" where
  "generic_query_terms = map lit [''allow'', ''allowed'', ''answer'', ''apply'', ''but'', ''cant'',
     ''cannot'', ''control'', ''controls'', ''days'', ''eligibility'', ''eligible'', ''explain'',
     ''first'', ''how'', ''information'', ''long'', ''many'', ''order'', ''policy'', ''process'',
     ''product'', ''question'', ''refund'', ''return'', ''support'', ''yes'', ''why'', ''work'', ''works'']"

definition singular :: "ustr \<Rightarrow> ustr" where
  "singular w = (if 4 < length w \<and> last w = 115 then butlast w else w)"

text \<open>The set of terms, as a list of its members.\<close>

definition terms_of :: "ustr \<Rightarrow> ustr list" where
  "terms_of value =
     map singular (filter (\<lambda>w. w \<notin> set stop_words \<and> 3 \<le> length w) (runs token_char (casefold value)))"

definition term_matches :: "ustr \<Rightarrow> ustr list \<Rightarrow> bool" where
  "term_matches t ev \<longleftrightarrow>
     t \<in> set ev \<or>
     5 \<le> length t \<and>
     list_ex (\<lambda>e. 5 \<le> length e \<and> (has_prefix (take 5 e) t \<or> has_prefix (take 5 t) e)) ev"

definition chunk_text :: "chunk \<Rightarrow> ustr" where
  "chunk_text c = ch_title c @ 32 # ch_category c @ 32 # ch_section c @ 32 # ch_content c"

definition relevance_score :: "chunk \<Rightarrow> rat" where
  "relevance_score c = (case ch_rerank c of Some s \<Rightarrow> s | None \<Rightarrow> ch_score c)"

definition is_relevant :: "ustr \<Rightarrow> chunk \<Rightarrow> bool" where
  "is_relevant query c =
     (let q = terms_of query; score = relevance_score c in
      if q = [] then False
      else if list_ex (\<lambda>t. t \<in> set evidence_reference_terms) q then 7 / 20 \<le> score
      else
        (let ev = terms_of (chunk_text c);
             distinctive = filter (\<lambda>t. t \<notin> set generic_query_terms) q in
         if score < 7 / 20 \<and> (score < 1 / 5 \<or> distinctive = []) then False
         else list_ex (\<lambda>t. term_matches t ev) q \<and> list_all (\<lambda>t. term_matches t ev) distinctive))"

section \<open>Conflicting quantities\<close>

definition quantity_value :: rx where
  "quantity_value = rseq [RWb, rdigits, ropt (rseq [RSet (\<lambda>c. c = 46), rdigits])]"

definition quantity_unit :: rx where
  "quantity_unit =
     rseq [ralt [rseq [rlit ''day'', ropt (rlit ''s'')], rseq [rlit ''month'', ropt (rlit ''s'')],
      rseq [rlit ''year'', ropt (rlit ''s'')], rseq [rlit ''hour'', ropt (rlit ''s'')],
      RSet (\<lambda>c. c = 37), rlit ''usd'', rlit ''eur'', rlit ''gbp''], RWb]"

text \<open>The matches of the whole pattern at a position: the ends of the value, of the space, of the unit.\<close>

definition quantity_ends :: "pos \<Rightarrow> (pos \<times> pos \<times> pos) list" where
  "quantity_ends p =
     concat (map (\<lambda>v. concat (map (\<lambda>u. map (\<lambda>e. (v, u, e)) (ends quantity_unit u)) (ends rspaces0 v)))
       (ends quantity_value p))"

text \<open>\<open>findall\<close> with its two groups; the scan resumes after a match.\<close>

fun quantities_from :: "nat \<Rightarrow> ustr \<Rightarrow> ustr \<Rightarrow> (ustr \<times> ustr) list" where
  "quantities_from k pre [] = []"
| "quantities_from (Suc k) pre (c # cs) = quantities_from k (c # pre) cs"
| "quantities_from 0 pre (c # cs) =
     (case quantity_ends (pre, c # cs) of
        [] \<Rightarrow> quantities_from 0 (c # pre) cs
      | (v, u, e) # _ \<Rightarrow>
          (take (length (c # cs) - length (snd v)) (c # cs), take (length (snd u) - length (snd e)) (snd u)) #
          quantities_from (length (c # cs) - length (snd e) - 1) (c # pre) cs)"

definition quantities :: "ustr \<Rightarrow> (ustr \<times> ustr) list" where
  "quantities s = quantities_from 0 [] s"

definition unit_name :: "ustr \<Rightarrow> ustr" where
  "unit_name u = rev (dropWhile (\<lambda>c. c = 115) (rev (casefold u)))"

type_synonym facts = "(ustr \<times> (ustr \<times> chunk) list) list"

definition put_fact :: "chunk \<Rightarrow> ustr \<times> ustr \<Rightarrow> facts \<Rightarrow> facts" where
  "put_fact c f facts =
     (let u = unit_name (snd f);
          vs = (case map_of facts u of None \<Rightarrow> [] | Some vs \<Rightarrow> vs) in
      AList.update u (if map_of vs (fst f) = None then vs @ [(fst f, c)] else vs) facts)"

definition collect_facts :: "chunk list \<Rightarrow> facts" where
  "collect_facts cs = foldl (\<lambda>fs c. foldl (\<lambda>gs f. put_fact c f gs) fs (quantities (ch_content c))) [] cs"

definition find_conflict :: "chunk list \<Rightarrow> chunk list option" where
  "find_conflict cs =
     map_option (\<lambda>(u, vs). map snd (take 2 vs)) (find (\<lambda>(u, vs). 1 < length vs) (collect_facts cs))"

section \<open>Excerpts\<close>

definition sentence_end :: "int \<Rightarrow> bool" where
  "sentence_end c \<longleftrightarrow> c \<in> {46, 33, 63}"

text \<open>\<open>re.split(r"(?<=[.!?])\s+", s)\<close>; the first argument is the piece read so far, reversed.\<close>

function sentences_from :: "ustr \<Rightarrow> ustr \<Rightarrow> ustr list" where
  "sentences_from w [] = [rev w]"
| "sentences_from w (c # cs) =
     (if is_space c \<and> class_at sentence_end w then rev w # sentences_from [] (dropWhile is_space cs)
      else sentences_from (c # w) cs)"
  by pat_completeness auto
termination
  by (relation "measure (\<lambda>(w, cs). length cs)") (auto simp: le_imp_less_Suc length_dropWhile_le)

definition sentences :: "ustr \<Rightarrow> ustr list" where
  "sentences s = sentences_from [] s"

datatype focus = Timing | Eligibility

definition query_focus :: "ustr \<Rightarrow> focus option" where
  "query_focus q =
     (if contains (lit ''processing'') q \<or> contains (lit ''settlement'') q \<or> contains (lit ''review'') q
      then Some Timing
      else if contains (lit ''eligibility'') q \<or> contains (lit ''eligible'') q then Some Eligibility
      else None)"

definition timing_terms :: rx where
  "timing_terms =
     rseq [RWb, ralt [rlit ''processing'', rlit ''review'', rlit ''settlement'',
      rseq [rlit ''business'', rspaces, rlit ''day'', ropt (rlit ''s'')],
      rseq [rlit ''additional'', rspaces, rlit ''day'', ropt (rlit ''s'')],
      rseq [rlit ''3'', RSet (\<lambda>c. c = 8211 \<or> c = 45), rlit ''5'']], RWb]"

definition qualifying_terms :: rx where
  "qualifying_terms =
     rseq [RWb, ralt [rlit ''eligible'', rlit ''qualify'', rlit ''considered'', rlit ''delivered'',
      rlit ''damaged'', rseq [rlit ''30'', rspaces, rlit ''calendar'', rspaces, rlit ''day'',
      ropt (rlit ''s'')], rlit ''returned''], RWb]"

definition pick_sentence :: "focus option \<Rightarrow> ustr list \<Rightarrow> ustr" where
  "pick_sentence f ss =
     (case f of
        None \<Rightarrow> hd ss
      | Some Timing \<Rightarrow> (case find (found timing_terms) ss of None \<Rightarrow> hd ss | Some s \<Rightarrow> s)
      | Some Eligibility \<Rightarrow> (case find (found qualifying_terms) ss of None \<Rightarrow> hd ss | Some s \<Rightarrow> s))"

definition rstrip_of :: "(int \<Rightarrow> bool) \<Rightarrow> ustr \<Rightarrow> ustr" where
  "rstrip_of P s = rev (dropWhile P (rev s))"

definition excerpt :: "focus option \<Rightarrow> ustr \<Rightarrow> ustr" where
  "excerpt f content =
     rstrip_of sentence_end (rstrip_of is_space (take 320 (pick_sentence f (sentences (squeeze content)))))"

text \<open>A citation needs a text of 1 to 500 characters.\<close>

definition make_citation :: "chunk \<Rightarrow> ustr \<Rightarrow> exn + citation" where
  "make_citation c e =
     (let q = (if e = [] then excerpt None (ch_content c) else e) in
      if 1 \<le> length q \<and> length q \<le> 500
      then Inr \<lparr>ci_id = citation_id c, ci_document = ch_document c, ci_title = ch_title c,
             ci_chunk = ch_id c, ci_source = ch_source c,
             ci_relevance = max 0 (if rerank_or_zero c = 0 then ch_score c else rerank_or_zero c),
             ci_excerpt = q\<rparr>
      else Inl PydanticValidationError)"

section \<open>Validation\<close>

text \<open>\<open>s.find(p)\<close>: the text after the first occurrence.\<close>

fun after_first :: "ustr \<Rightarrow> ustr \<Rightarrow> ustr option" where
  "after_first p [] = (if p = [] then Some [] else None)"
| "after_first p (c # cs) = (if has_prefix p (c # cs) then Some (drop (length p) (c # cs)) else after_first p cs)"

text \<open>\<open>re.findall(r"\[([^\]]+)\]", s)\<close>\<close>

function markers :: "ustr \<Rightarrow> ustr list" where
  "markers [] = []"
| "markers (c # cs) =
     (if c = 91 \<and> takeWhile (\<lambda>d. d \<noteq> 93) cs \<noteq> [] \<and> dropWhile (\<lambda>d. d \<noteq> 93) cs \<noteq> []
      then takeWhile (\<lambda>d. d \<noteq> 93) cs # markers (tl (dropWhile (\<lambda>d. d \<noteq> 93) cs))
      else markers cs)"
  by pat_completeness auto
termination
  by (relation "measure length")
    (auto simp: less_Suc_eq_le intro: order.trans [OF diff_le_self length_dropWhile_le])

text \<open>Dictionaries built from a list: the last entry of a key wins.\<close>

definition chunk_by_id :: "chunk list \<Rightarrow> ustr \<Rightarrow> chunk option" where
  "chunk_by_id evidence i = find (\<lambda>c. ch_id c = i) (rev evidence)"

definition citation_by_id :: "citation list \<Rightarrow> ustr \<Rightarrow> citation option" where
  "citation_by_id cs i = find (\<lambda>c. ci_id c = i) (rev cs)"

definition check_citation :: "chunk list \<Rightarrow> citation \<Rightarrow> string option" where
  "check_citation evidence ct =
     (case chunk_by_id evidence (ci_chunk ct) of
        None \<Rightarrow> Some ''citation_not_in_retrieved_evidence''
      | Some c \<Rightarrow>
          if ci_document ct \<noteq> ch_document c then Some ''citation_not_in_retrieved_evidence''
          else if \<not> contains (norm_text (ci_excerpt ct)) (norm_text (ch_content c))
          then Some ''citation_excerpt_mismatch'' else None)"

definition valid_ids :: "chunk list \<Rightarrow> citation list \<Rightarrow> ustr list" where
  "valid_ids evidence cs = map ci_id (filter (\<lambda>ct. check_citation evidence ct = None) cs)"

text \<open>A claim is absent from the answer, supported by a citation behind it, or mismatched.\<close>

datatype claim_check = Absent | Supported | Mismatched

definition supports :: "citation list \<Rightarrow> ustr \<Rightarrow> ustr \<Rightarrow> bool" where
  "supports cs cl m \<longleftrightarrow>
     (case citation_by_id cs m of
        None \<Rightarrow> False
      | Some ct \<Rightarrow> contains (norm_text cl) (norm_text (ci_excerpt ct)))"

definition check_claim :: "chunk list \<Rightarrow> citation list \<Rightarrow> ustr \<Rightarrow> ustr \<Rightarrow> claim_check" where
  "check_claim evidence cs answer cl =
     (case after_first cl answer of
        None \<Rightarrow> Absent
      | Some rest \<Rightarrow>
          if list_ex (\<lambda>m. m \<in> set (valid_ids evidence cs) \<and> supports cs cl m) (markers (take 160 rest))
          then Supported else Mismatched)"

definition validate_grounding :: "rat \<Rightarrow> rag_answer \<Rightarrow> chunk list \<Rightarrow> grounding_result" where
  "validate_grounding minimum a evidence =
     (let cs = ra_citations a;
          checks = map (check_claim evidence cs (ra_text a)) (ra_claims a);
          failed = map fst (filter (\<lambda>(cl, k). k \<noteq> Supported) (zip (ra_claims a) checks));
          unsupported = ra_unsupported a @ failed;
          total = length (ra_claims a) + length (ra_unsupported a);
          coverage = (if total = 0 then 0
                      else of_nat (length (filter (\<lambda>k. k = Supported) checks)) / of_nat total);
          reasons =
            concat (map (\<lambda>ct. case check_citation evidence ct of None \<Rightarrow> [] | Some r \<Rightarrow> [r]) cs) @
            concat (map (\<lambda>k. if k = Mismatched then [''answer_evidence_mismatch''] else []) checks) @
            (if evidence = [] then [''empty_evidence''] else []) @
            (if ra_claims a \<noteq> [] \<and> cs = [] then [''citations_missing''] else []) @
            (if coverage < minimum then [''citation_coverage_below_threshold''] else []) @
            (if unsupported \<noteq> [] then [''unsupported_claims_present''] else [])
      in \<lparr>gv_coverage = coverage,
          gv_accepted = (evidence \<noteq> [] \<and> reasons = [] \<and> minimum \<le> coverage),
          gv_unsupported = length (remdups unsupported), gv_reasons = first_ones reasons\<rparr>)"

section \<open>The generator\<close>

definition unvalidated :: grounding_result where
  "unvalidated = \<lparr>gv_coverage = 0, gv_accepted = False, gv_unsupported = 0, gv_reasons = []\<rparr>"

definition safe_uncertainty :: ustr where
  "safe_uncertainty =
     lit (''The knowledge base does not contain enough information to answer this question from the '' @
       ''retrieved evidence. Please clarify the request or provide an applicable knowledge source.'')"

definition uncertain_answer :: rag_answer where
  "uncertain_answer =
     \<lparr>ra_text = safe_uncertainty, ra_citations = [], ra_confidence = 0, ra_claims = [],
      ra_unsupported = [], ra_sources = 0, ra_status = INSUFFICIENT_EVIDENCE,
      ra_validation = unvalidated\<lparr>gv_reasons := [''empty_or_irrelevant_evidence'']\<rparr>, ra_grounded = False\<rparr>"

definition rejected_answer :: "rag_answer \<Rightarrow> grounding_result \<Rightarrow> rag_answer" where
  "rejected_answer a v =
     \<lparr>ra_text = safe_uncertainty, ra_citations = [], ra_confidence = 0, ra_claims = [],
      ra_unsupported = take 20 (first_ones (ra_unsupported a @ ra_claims a)), ra_sources = 0,
      ra_status = REJECTED, ra_validation = v, ra_grounded = False\<rparr>"

text \<open>\<open>round(x, 4)\<close>, ties to even.\<close>

definition round_even :: "rat \<Rightarrow> int" where
  "round_even x =
     (let n = \<lfloor>x\<rfloor>; r = x - of_int n in
      if r < 1 / 2 \<or> (r = 1 / 2 \<and> even n) then n else n + 1)"

definition answer_confidence :: "citation list \<Rightarrow> rat" where
  "answer_confidence cs =
     (if cs = [] then 0
      else of_int (round_even (10000 *
        (sum_list (map (\<lambda>ct. min (ci_relevance ct) 1) cs) / of_nat (length cs)))) / 10000)"

text \<open>One claim with its marker, and the claims of an answer separated by spaces.\<close>

definition statement :: "ustr \<Rightarrow> ustr \<Rightarrow> ustr" where
  "statement cl i = cl @ lit '' ['' @ i @ lit ''].''"

definition statements :: "ustr list \<Rightarrow> citation list \<Rightarrow> ustr" where
  "statements claims cs = join_char 32 (map2 (\<lambda>cl ct. statement cl (ci_id ct)) claims cs)"

fun make_citations :: "(chunk \<times> ustr) list \<Rightarrow> exn + citation list" where
  "make_citations [] = Inr []"
| "make_citations ((c, e) # ps) =
     and_then (make_citation c e) (\<lambda>ct. and_then (make_citations ps) (\<lambda>cts. Inr (ct # cts)))"

definition conflict_opening :: ustr where
  "conflict_opening = lit ''The retrieved sources conflict: ''"

definition conflict_closing :: ustr where
  "conflict_closing = lit '' I cannot resolve the conflict from the available evidence.''"

definition evidence_opening :: ustr where
  "evidence_opening = lit ''Based on the retrieved evidence: ''"

definition synthesize :: "chunk list \<Rightarrow> ustr \<Rightarrow> exn + rag_answer" where
  "synthesize cs query =
     (let conflict = find_conflict cs;
          selected = (case conflict of Some xs \<Rightarrow> xs | None \<Rightarrow> take 2 cs);
          claims = map (\<lambda>c. excerpt (query_focus query) (ch_content c)) selected in
      and_then (make_citations (zip selected claims)) (\<lambda>cts.
        Inr \<lparr>ra_text = (if conflict \<noteq> None
               then conflict_opening @ statements claims cts @ conflict_closing
               else evidence_opening @ statements claims cts),
             ra_citations = cts,
             ra_confidence = (if conflict \<noteq> None then 1 / 4 else answer_confidence cts),
             ra_claims = claims, ra_unsupported = [],
             ra_sources = length (remdups (map ci_document cts)),
             ra_status = (if conflict \<noteq> None then CONFLICT else PASS),
             ra_validation = unvalidated, ra_grounded = False\<rparr>))"

record generator =
  gn_context :: nat
  gn_minimum :: rat

definition default_generator :: generator where
  "default_generator = \<lparr>gn_context = 4, gn_minimum = 19 / 20\<rparr>"

definition answer_question :: "generator \<Rightarrow> ustr \<Rightarrow> chunk list \<Rightarrow> exn + rag_answer" where
  "answer_question g query cs =
     (let q = normalize_knowledge_query query;
          relevant = filter (is_relevant q) (construct_context (gn_context g) cs) in
      if relevant = [] then Inr uncertain_answer
      else
        and_then (synthesize relevant q) (\<lambda>a.
          let v = validate_grounding (gn_minimum g) a relevant in
          Inr (if gv_accepted v then a\<lparr>ra_validation := v, ra_grounded := True\<rparr>
               else rejected_answer (a\<lparr>ra_validation := v, ra_grounded := False\<rparr>) v)))"

end
