(* ===== verification/Grounding_Laws.thy ===== *)
theory Grounding_Laws
  imports Grounding Text_Laws Sort_Laws
begin

text \<open>
  What an answer from retrieved knowledge may say: either the fixed text of uncertainty, or a fixed
  opening followed by claims that are quoted, up to case and white space, from retrieved chunks that
  the marker behind the claim cites. The context is the best of what was retrieved.
\<close>

section \<open>Texts\<close>

lemma after_first_split: "after_first p s = Some r \<Longrightarrow> \<exists>u. s = u @ p @ r"
proof (induction p s rule: after_first.induct)
  case (1 p)
  then show ?case by (auto split: if_splits)
next
  case (2 p c cs)
  have prefix: "has_prefix p s \<Longrightarrow> s = p @ drop (length p) s" for p s
    by (induction p s rule: has_prefix.induct) auto
  show ?case
  proof (cases "has_prefix p (c # cs)")
    case True
    then show ?thesis using 2(2) prefix [OF True] by (intro exI [of _ "[]"]) auto
  next
    case False
    then obtain u where "cs = u @ p @ r" using 2 by auto
    then show ?thesis by (intro exI [of _ "c # u"]) simp
  qed
qed

section \<open>The context\<close>

lemma set_by_scores [simp]: "set (by_scores cs) = set cs"
  by (simp add: by_scores_def)

lemma length_by_scores [simp]: "length (by_scores cs) = length cs"
  by (simp add: by_scores_def)

lemma select_chunks_set:
  "set sel \<subseteq> set (select_chunks n seen sel cs) \<and> set (select_chunks n seen sel cs) \<subseteq> set sel \<union> set cs"
proof (induction n seen sel cs rule: select_chunks.induct)
  case (2 n seen sel c cs)
  then show ?case by (simp split: if_split) blast
qed simp

lemma context_subset: "set (construct_context n cs) \<subseteq> set cs"
  using select_chunks_set [of "[]" n "[]" "by_scores cs"] by (simp add: construct_context_def)

text \<open>The order of the context: by the score of the reranker, then by the score of the retrieval.\<close>

definition at_least :: "chunk \<Rightarrow> chunk \<Rightarrow> bool" where
  "at_least c d \<longleftrightarrow> rerank_or_zero d < rerank_or_zero c \<or>
     rerank_or_zero c = rerank_or_zero d \<and> ch_score d \<le> ch_score c"

definition same_text :: "chunk \<Rightarrow> chunk \<Rightarrow> bool" where
  "same_text c d \<longleftrightarrow> norm_text (ch_content c) = norm_text (ch_content d)"

lemma at_least_refl [simp]: "at_least c c"
  by (simp add: at_least_def)

lemma sorted_by_scores: "sorted_wrt at_least (by_scores cs)"
proof -
  have "sorted_wrt (\<lambda>c d. - ch_score c \<le> - ch_score d) (sort_key (\<lambda>c. - ch_score c) cs)"
    using sorted_sort_key [of "\<lambda>c. - ch_score c" cs] by (simp add: sorted_wrt_map)
  from sorted_wrt_sort_key [OF this, of "\<lambda>c. - rerank_or_zero c"] show ?thesis
    unfolding by_scores_def at_least_def by simp
qed

text \<open>The invariant of the selection: what was kept, and why anything was left out.\<close>

definition selected_best :: "nat \<Rightarrow> chunk list \<Rightarrow> chunk list \<Rightarrow> bool" where
  "selected_best n sel cs \<longleftrightarrow>
     length sel \<le> max 1 n \<and> sorted_wrt at_least sel \<and> distinct (map (\<lambda>c. norm_text (ch_content c)) sel) \<and>
     (\<forall>c \<in> set cs. (\<exists>d \<in> set sel. same_text d c \<and> at_least d c) \<or>
        length sel = max 1 n \<and> (\<forall>d \<in> set sel. at_least d c))"

lemma select_chunks_best:
  assumes "sorted_wrt at_least (sel @ cs)" and "set seen = (\<lambda>c. norm_text (ch_content c)) ` set sel"
    and "distinct (map (\<lambda>c. norm_text (ch_content c)) sel)" and "length sel < max 1 n"
  shows "selected_best n (select_chunks n seen sel cs) (sel @ cs)"
  using assms
proof (induction n seen sel cs rule: select_chunks.induct)
  case (1 n seen sel)
  then show ?case by (auto simp: selected_best_def same_text_def)
next
  case (2 n seen sel c cs)
  have order: "\<forall>d \<in> set sel. at_least d c \<and> (\<forall>e \<in> set cs. at_least d e)" "\<forall>e \<in> set cs. at_least c e"
    using 2(3) by (auto simp: sorted_wrt_append)
  show ?case
  proof (cases "norm_text (ch_content c) \<in> set seen")
    case True
    then obtain d where d: "d \<in> set sel" "same_text d c" using 2(4) by (auto simp: same_text_def)
    have "sorted_wrt at_least (sel @ cs)" using 2(3) by (simp add: sorted_wrt_append)
    then have "selected_best n (select_chunks n seen sel cs) (sel @ cs)" using 2(1) True 2(4-6) by blast
    moreover have "d \<in> set (select_chunks n seen sel cs)" using select_chunks_set d(1) by blast
    ultimately show ?thesis using True d order by (auto simp: selected_best_def)
  next
    case False
    show ?thesis
    proof (cases "n \<le> length (sel @ [c])")
      case True
      then have full: "length (sel @ [c]) = max 1 n" using 2(6) by auto
      have "sorted_wrt at_least (sel @ [c])" using 2(3) by (simp add: sorted_wrt_append)
      moreover have "distinct (map (\<lambda>c. norm_text (ch_content c)) (sel @ [c]))"
        using 2(4,5) False by auto
      ultimately show ?thesis using False True full order
        by (auto simp: selected_best_def same_text_def)
    next
      case more: False
      have "selected_best n (select_chunks n (norm_text (ch_content c) # seen) (sel @ [c]) cs) ((sel @ [c]) @ cs)"
        using 2(2) [OF False more] 2(3-6) False more by auto
      then show ?thesis using False more by simp
    qed
  qed
qed

text \<open>The context of an answer is the best of what was retrieved: at most \<open>n\<close> chunks (one if \<open>n\<close> is
  zero) of different texts, in the order of the scores; a retrieved chunk that is left out has the
  text of a selected chunk that scores at least as high, or the context is full and every selected
  chunk scores at least as high.\<close>

theorem context_best:
  "set (construct_context n cs) \<subseteq> set cs \<and> selected_best n (construct_context n cs) cs"
proof -
  have "selected_best n (construct_context n cs) ([] @ by_scores cs)"
    unfolding construct_context_def by (rule select_chunks_best) (simp_all add: sorted_by_scores)
  then show ?thesis using context_subset by (simp add: selected_best_def)
qed

section \<open>Validation\<close>

lemma chunk_by_id_Some: "chunk_by_id ev i = Some c \<Longrightarrow> c \<in> set ev \<and> ch_id c = i"
  by (auto simp: chunk_by_id_def dest: find_Some_in)

lemma citation_by_id_Some: "citation_by_id cs i = Some ct \<Longrightarrow> ct \<in> set cs \<and> ci_id ct = i"
  by (auto simp: citation_by_id_def dest: find_Some_in)

text \<open>What a citation that passed the check and a claim that it supports have in common.\<close>

definition quoted_from :: "chunk list \<Rightarrow> citation \<Rightarrow> ustr \<Rightarrow> bool" where
  "quoted_from ev ct cl \<longleftrightarrow>
     (\<exists>c \<in> set ev. ci_chunk ct = ch_id c \<and> ci_document ct = ch_document c \<and>
        contains (norm_text cl) (norm_text (ch_content c)))"

lemma checked_citation:
  assumes "check_citation ev ct = None" and "contains (norm_text cl) (norm_text (ci_excerpt ct))"
  shows "quoted_from ev ct cl"
proof -
  obtain c where "chunk_by_id ev (ci_chunk ct) = Some c" and c: "ci_document ct = ch_document c"
      "contains (norm_text (ci_excerpt ct)) (norm_text (ch_content c))"
    using assms(1) by (auto simp: check_citation_def split: option.splits if_splits)
  then have "c \<in> set ev" "ch_id c = ci_chunk ct" by (auto dest: chunk_by_id_Some)
  with c(1) contains_trans [OF assms(2) c(2)] show ?thesis
    unfolding quoted_from_def by (intro bexI [of _ c]) simp_all
qed

text \<open>A claim with its marker: the answer contains the claim and, close behind it, the citation.\<close>

definition marked :: "ustr \<Rightarrow> ustr \<Rightarrow> citation \<Rightarrow> bool" where
  "marked answer cl ct \<longleftrightarrow> (\<exists>u v. answer = u @ cl @ v \<and> ci_id ct \<in> set (markers (take 160 v)))"

lemma supported_claim:
  assumes "check_claim ev cs answer cl = Supported" and "\<forall>ct \<in> set cs. check_citation ev ct = None"
  shows "\<exists>ct \<in> set cs. quoted_from ev ct cl \<and> marked answer cl ct"
proof -
  obtain v m where v: "after_first cl answer = Some v" "m \<in> set (markers (take 160 v))" "supports cs cl m"
    using assms(1) by (auto simp: check_claim_def list_ex_iff split: option.splits if_splits)
  obtain u where u: "answer = u @ cl @ v" using after_first_split [OF v(1)] by blast
  obtain ct where ct: "ct \<in> set cs" "ci_id ct = m" "contains (norm_text cl) (norm_text (ci_excerpt ct))"
    using v(3) citation_by_id_Some by (auto simp: supports_def split: option.splits)
  have "quoted_from ev ct cl" using assms(2) ct by (intro checked_citation) auto
  moreover have "marked answer cl ct" using u v(2) ct(2) by (auto simp: marked_def)
  ultimately show ?thesis using ct(1) by blast
qed

lemma accepted_claims:
  assumes "gv_accepted (validate_grounding m a ev)" and "cl \<in> set (ra_claims a)"
  shows "\<exists>ct \<in> set (ra_citations a). quoted_from ev ct cl \<and> marked (ra_text a) cl ct"
proof (rule supported_claim)
  let ?k = "check_claim ev (ra_citations a) (ra_text a)"
  have none: "filter (\<lambda>(cl, k). k \<noteq> Supported) (zip (ra_claims a) (map ?k (ra_claims a))) = []"
    and cited: "\<forall>ct \<in> set (ra_citations a). check_citation ev ct = None"
    using assms(1) by (auto simp: validate_grounding_def Let_def split: if_splits option.splits)
  show "\<forall>ct \<in> set (ra_citations a). check_citation ev ct = None" by (rule cited)
  have "(cl, ?k cl) \<in> set (zip (ra_claims a) (map ?k (ra_claims a)))"
    using assms(2) by (auto simp: zip_map2 zip_same_conv_map)
  then show "?k cl = Supported" using none by (fastforce simp: filter_empty_conv)
qed

section \<open>Answers\<close>

lemma make_citations_length: "make_citations ps = Inr cts \<Longrightarrow> length cts = length ps"
  by (induction ps arbitrary: cts rule: make_citations.induct) (auto simp: and_then_Inr_iff)

lemma synthesize_text:
  assumes "synthesize cs query = Inr a"
  shows "length (ra_citations a) = length (ra_claims a) \<and>
    (ra_text a = evidence_opening @ statements (ra_claims a) (ra_citations a) \<or>
     ra_text a = conflict_opening @ statements (ra_claims a) (ra_citations a) @ conflict_closing)"
  using assms by (auto simp: synthesize_def Let_def and_then_Inr_iff dest!: make_citations_length)

lemma accepted_nonempty:
  "gv_accepted (validate_grounding m a ev) \<Longrightarrow> 0 < m \<Longrightarrow> ra_unsupported a = [] \<Longrightarrow> ra_claims a \<noteq> []"
  by (auto simp: validate_grounding_def Let_def)

text \<open>An answer is uncertain or one that the validator accepted.\<close>

lemma answer_cases:
  assumes "answer_question g query cs = Inr a"
  obtains (uncertain) "\<not> ra_grounded a" "ra_text a = safe_uncertainty" "ra_citations a = []" "ra_claims a = []"
  | (accepted) rel q b where "set rel \<subseteq> set cs" "synthesize rel q = Inr b"
      "gv_accepted (validate_grounding (gn_minimum g) b rel)"
      "a = b\<lparr>ra_validation := validate_grounding (gn_minimum g) b rel, ra_grounded := True\<rparr>"
proof -
  let ?q = "normalize_knowledge_query query"
  let ?rel = "filter (is_relevant ?q) (construct_context (gn_context g) cs)"
  have sub: "set ?rel \<subseteq> set cs" using context_subset by fastforce
  show thesis
  proof (cases "?rel = []")
    case True
    then show thesis using assms(1) by (intro uncertain) (auto simp: answer_question_def uncertain_answer_def)
  next
    case False
    then obtain b where b: "synthesize ?rel ?q = Inr b"
      and a: "a = (let v = validate_grounding (gn_minimum g) b ?rel in
        if gv_accepted v then b\<lparr>ra_validation := v, ra_grounded := True\<rparr>
        else rejected_answer (b\<lparr>ra_validation := v, ra_grounded := False\<rparr>) v)"
      using assms(1) by (auto simp: answer_question_def Let_def and_then_Inr_iff split: if_splits)
    show thesis
    proof (cases "gv_accepted (validate_grounding (gn_minimum g) b ?rel)")
      case True
      then show thesis using accepted [OF sub b True] by (simp add: a Let_def)
    next
      case False
      then show thesis by (intro uncertain) (simp_all add: a Let_def rejected_answer_def)
    qed
  qed
qed

lemma synthesize_unsupported: "synthesize cs query = Inr a \<Longrightarrow> ra_unsupported a = []"
  by (auto simp: synthesize_def Let_def and_then_Inr_iff)

lemma grounded_claims:
  assumes "answer_question g query cs = Inr a" and "cl \<in> set (ra_claims a)"
  shows "\<exists>ct \<in> set (ra_citations a). quoted_from cs ct cl \<and> marked (ra_text a) cl ct"
  using assms(1)
proof (cases rule: answer_cases)
  case (accepted rel q b)
  then have "\<exists>ct \<in> set (ra_citations b). quoted_from rel ct cl \<and> marked (ra_text b) cl ct"
    using accepted_claims [OF accepted(3), of cl] assms(2) by simp
  then show ?thesis using accepted(1,4) by (fastforce simp: quoted_from_def)
qed (use assms(2) in simp)

text \<open>C33. An answer from retrieved knowledge is fail-closed. A grounded answer is a fixed opening followed
  by its claims, each with a marker; every claim is quoted, up to case and white space, from a
  retrieved chunk, and the citation of that chunk is named by a marker within 160 characters behind
  the claim. Any other answer is the fixed text of uncertainty, without claims or citations.\<close>

theorem grounded_or_uncertain:
  assumes "answer_question g query cs = Inr a" and "0 < gn_minimum g"
  shows "if ra_grounded a
    then ra_claims a \<noteq> [] \<and> length (ra_citations a) = length (ra_claims a) \<and>
      (ra_text a = evidence_opening @ statements (ra_claims a) (ra_citations a) \<or>
       ra_text a = conflict_opening @ statements (ra_claims a) (ra_citations a) @ conflict_closing) \<and>
      (\<forall>cl \<in> set (ra_claims a). \<exists>ct \<in> set (ra_citations a). quoted_from cs ct cl \<and> marked (ra_text a) cl ct)
    else ra_text a = safe_uncertainty \<and> ra_citations a = [] \<and> ra_claims a = []"
  using assms(1)
proof (cases rule: answer_cases)
  case (accepted rel q b)
  then show ?thesis
    using accepted_nonempty [OF accepted(3) assms(2) synthesize_unsupported [OF accepted(2)]]
      synthesize_text [OF accepted(2)] grounded_claims [OF assms(1)] by simp
qed simp

section \<open>Concrete answers\<close>

definition fees_chunk :: "string \<Rightarrow> string \<Rightarrow> chunk" where
  "fees_chunk i text = \<lparr>ch_id = lit i, ch_document = lit ''p'', ch_title = lit ''Fees'', ch_category = lit ''f'',
     ch_section = lit ''fees'', ch_source = [], ch_content = lit text, ch_score = 1 / 2, ch_rerank = None\<rparr>"

definition fees_answer :: "chunk list \<Rightarrow> exn + rag_answer" where
  "fees_answer cs = answer_question default_generator (lit ''fees?'') cs"

lemma answer_of:
  assumes "is_ok r" and "P (projr r)"
  shows "\<exists>a. r = Inr a \<and> P a"
  using assms by (cases r) auto

theorem grounded_or_uncertain_witness:
  "\<exists>a. fees_answer [fees_chunk ''0'' ''Fees are 3 usd. More.''] = Inr a \<and> ra_grounded a \<and>
     (\<forall>cl \<in> set (ra_claims a). \<exists>ct \<in> set (ra_citations a).
        quoted_from [fees_chunk ''0'' ''Fees are 3 usd. More.''] ct cl)"
proof -
  let ?cs = "[fees_chunk ''0'' ''Fees are 3 usd. More.'']"
  have "is_ok (fees_answer ?cs)" "ra_grounded (projr (fees_answer ?cs))" by code_simp+
  then obtain a where a: "fees_answer ?cs = Inr a" "ra_grounded a" using answer_of by metis
  have "0 < gn_minimum default_generator" by (simp add: default_generator_def)
  from grounded_or_uncertain [OF a(1) [unfolded fees_answer_def] this] a show ?thesis by (auto split: if_splits)
qed

text \<open>
  Findings. Chunks of one section share a citation, so two of them in an answer make the validator
  reject it although each alone is answered. A single source that names two quantities of one unit
  is reported as conflicting with itself. A percentage is only found before a letter or a digit.
\<close>

lemma same_section_rejected:
  "map_sum id ra_status (fees_answer [fees_chunk ''0'' ''Fees vary.'']) = Inr PASS"
  "map_sum id ra_status (fees_answer [fees_chunk ''1'' ''Fees are low.'']) = Inr PASS"
  "map_sum id ra_status (fees_answer [fees_chunk ''0'' ''Fees vary.'', fees_chunk ''1'' ''Fees are low.'']) = Inr REJECTED"
  by code_simp+

lemma source_conflicts_with_itself:
  "map_sum id (\<lambda>a. (ra_status a, ra_sources a)) (fees_answer [fees_chunk ''0'' ''Fees: 3 usd or 5 usd.'']) = Inr (CONFLICT, 1)"
  by code_simp

lemma percentages_not_found:
  "quantities (lit ''10% now'') = [] \<and> quantities (lit ''10 %, or 3 days'') = [(lit ''3'', lit ''days'')]"
  by code_simp

end
