(* ===== verification/Runtime.thy ===== *)
theory Runtime
  imports Graph Api
begin

text \<open>
  The runtime of a turn (agent/runtime.py): the identity of a conversation's checkpoint
  (persistence/checkpoint.py), the choice of the proposal provider, the run of the graph on the
  checkpointed state, the response built from the final state, and the chat endpoint in front of it
  (api/routes/agent.py). Names consist of single-byte characters, for which the length in characters
  and the bytes that \<open>quote\<close> reads agree. The labels of the provider's model and its usage figures
  are not modelled, nor which fields the route leaves out of the JSON of the response.
\<close>

section \<open>The identity of a checkpoint\<close>

definition url_safe :: "char \<Rightarrow> bool" where
  "url_safe c \<longleftrightarrow> (let n = (of_char c :: nat) in
     48 \<le> n \<and> n \<le> 57 \<or> 65 \<le> n \<and> n \<le> 90 \<or> 97 \<le> n \<and> n \<le> 122 \<or> n \<in> {45, 46, 95, 126})"

definition url_hex :: "nat \<Rightarrow> char" where
  "url_hex n = ''0123456789ABCDEF'' ! n"

text \<open>\<open>quote(s, safe="")\<close>\<close>

definition quote_char :: "char \<Rightarrow> string" where
  "quote_char c =
     (if url_safe c then [c] else [CHR ''%'', url_hex (of_char c div 16), url_hex (of_char c mod 16)])"

definition quote :: "string \<Rightarrow> string" where
  "quote s = concat (map quote_char s)"

definition thread_prefix :: "string \<Rightarrow> string" where
  "thread_prefix tenant = (if tenant = ''default'' then ''v1'' else ''v2:tenant-'' @ quote tenant)"

definition checkpoint_thread_id :: "execution_context \<Rightarrow> string" where
  "checkpoint_thread_id ctx =
     thread_prefix (ctx_tenant ctx) @ '':'' @ actor_type_value (actor_kind (ctx_principal ctx)) @ '':'' @
     quote (actor_id (ctx_principal ctx)) @ '':customer-'' @ dec (effective_customer ctx) @ '':'' @
     quote (conversation_id ctx)"

definition checkpoint_thread_id_hash :: "(string \<Rightarrow> string) \<Rightarrow> execution_context \<Rightarrow> string" where
  "checkpoint_thread_id_hash digest ctx = take 16 (digest (checkpoint_thread_id ctx))"

section \<open>The provider of a turn\<close>

datatype execution_mode = LIVE_PROPOSAL | RECORDED_REPLAY

definition known_contracts :: "string list" where
  "known_contracts = [''direct_tool_v1'', ''semantic_decision_v2'', ''semantic_decision_v3'']"

text \<open>An injected provider may declare its contract; \<open>None\<close> outside stands for no injected provider.\<close>

definition resolve_decision_contract ::
  "string \<Rightarrow> string option option \<Rightarrow> string option \<Rightarrow> string" where
  "resolve_decision_contract configured provider explicit =
     (case explicit of
        Some c \<Rightarrow> c
      | None \<Rightarrow>
          (case provider of
             None \<Rightarrow> configured
           | Some declared \<Rightarrow>
               (case declared of
                  Some c \<Rightarrow> if c \<in> set known_contracts then c else ''direct_tool_v1''
                | None \<Rightarrow> ''direct_tool_v1'')))"

definition is_openai_api_base_url :: "ustr \<Rightarrow> bool" where
  "is_openai_api_base_url url \<longleftrightarrow>
     casefold (rev (dropWhile (\<lambda>c. c = 47) (rev url))) = lit ''https://api.openai.com/v1''"

text \<open>The settings that decide it, and the two providers a turn may use instead of the default one.\<close>

type_synonym provider =
  "nat \<Rightarrow> (role \<times> ustr) list \<Rightarrow> int \<Rightarrow> pyval dict list \<Rightarrow> exn + proposal"

record 'e runtime =
  rt_platform :: "'e platform"
  rt_compatible :: bool
  rt_api_key :: string
  rt_base_url :: ustr
  rt_live :: provider
  rt_live_name :: string
  rt_replay :: provider
  rt_replay_name :: string

definition fallback_text :: ustr where
  "fallback_text = lit ''Live model unavailable. Showing bounded evidence replay.''"

definition with_provider :: "'e platform \<Rightarrow> provider \<Rightarrow> string \<Rightarrow> 'e platform" where
  "with_provider p f name =
     p\<lparr>p_provider := f, p_provider_name := name, p_contract := ''semantic_decision_v3''\<rparr>"

definition provider_for_execution ::
  "'e runtime \<Rightarrow> execution_mode \<Rightarrow> 'e platform \<times> execution_mode \<times> ustr option" where
  "provider_for_execution rt mode =
     (if mode \<noteq> LIVE_PROPOSAL then (rt_platform rt, mode, None)
      else if \<not> rt_compatible rt \<or> rt_api_key rt = [] \<or> \<not> is_openai_api_base_url (rt_base_url rt)
      then (with_provider (rt_platform rt) (rt_replay rt) (rt_replay_name rt), RECORDED_REPLAY,
            Some fallback_text)
      else (with_provider (rt_platform rt) (rt_live rt) (rt_live_name rt), LIVE_PROPOSAL, None))"

section \<open>The response\<close>

record tool_call =
  tc_name :: string
  tc_status :: string
  tc_result :: "pyval dict option"

datatype validation_status = VS_PENDING | VS_PASSED | VS_REJECTED

record agent_proposal =
  ap_intent :: string
  ap_action :: "string option"
  ap_fields :: "pyval dict"
  ap_references :: "ustr list"
  ap_validation :: validation_status

record agent_response =
  ar_conversation :: string
  ar_run :: string
  ar_message :: ustr
  ar_intent :: intent
  ar_request :: request_type
  ar_tool_call :: "tool_call option"
  ar_pending :: "pending_action option"
  ar_reason :: "ustr option"
  ar_error :: "error_category option"
  ar_citations :: "ustr list"
  ar_failure :: "string option"
  ar_degraded :: "string list"
  ar_recovery :: "string option"
  ar_security :: "string option"
  ar_write_unknown :: bool
  ar_mode :: execution_mode
  ar_provider :: string
  ar_fallback :: "ustr option"
  ar_proposal :: "agent_proposal option"

definition optional_field :: "string \<Rightarrow> pyval option \<Rightarrow> pyval dict" where
  "optional_field k v = (case v of None \<Rightarrow> [] | Some x \<Rightarrow> [(k, x)])"

definition target_fields :: "semantic_decision option \<Rightarrow> pyval dict" where
  "target_fields d =
     (case Option.bind d sd_target of
        None \<Rightarrow> []
      | Some t \<Rightarrow>
          (''target_type'', pstr (target_type_value (tg_type t))) #
          optional_field ''order_id'' (map_option PInt (tg_order t)) @
          optional_field ''ticket_id'' (map_option PInt (tg_ticket t)))"

definition proposal_validation :: "compiled_decision option \<Rightarrow> validation_status" where
  "proposal_validation c =
     (case c of
        None \<Rightarrow> VS_PENDING
      | Some r \<Rightarrow>
          if cd_status r \<in> {ST_COMPILE_REJECTED, ST_CLARIFICATION_REQUIRED} then VS_REJECTED else VS_PASSED)"

definition proposal_from_state :: "agent_state \<Rightarrow> agent_proposal option" where
  "proposal_from_state s =
     (if s_intent s = None \<and> s_decision s = None then None
      else Some \<lparr>ap_intent = (case s_intent s of None \<Rightarrow> ''unknown'' | Some i \<Rightarrow> intent_value i),
             ap_action = s_tool s, ap_fields = target_fields (s_decision s),
             ap_references = take 10 (filter (\<lambda>c. c \<noteq> []) (s_citations s)),
             ap_validation = proposal_validation (s_compiled s)\<rparr>)"

definition tool_call_of :: "agent_state \<Rightarrow> tool_call option" where
  "tool_call_of s =
     (case (s_tool s, s_execution s) of
        (Some name, Some status) \<Rightarrow>
          if name \<noteq> [] \<and> status \<in> {''executed'', ''failed''}
          then Some \<lparr>tc_name = name, tc_status = status, tc_result = s_result s\<rparr> else None
      | _ \<Rightarrow> None)"

definition response_from_state ::
  "execution_mode \<Rightarrow> ustr option \<Rightarrow> agent_state \<Rightarrow> agent_response" where
  "response_from_state mode fallback s =
     \<lparr>ar_conversation = or_text (s_conversation s) [], ar_run = s_run s, ar_message = s_response s,
      ar_intent = (case s_intent s of None \<Rightarrow> UNKNOWN | Some i \<Rightarrow> i),
      ar_request = (case s_request s of None \<Rightarrow> RT_UNCLEAR | Some r \<Rightarrow> r),
      ar_tool_call = tool_call_of s, ar_pending = s_pending s, ar_reason = s_reason s,
      ar_error = s_error s, ar_citations = s_citations s, ar_failure = s_failure s,
      ar_degraded = s_degraded s, ar_recovery = s_recovery s, ar_security = s_security s,
      ar_write_unknown = s_write_unknown s, ar_mode = mode,
      ar_provider = (if mode = LIVE_PROPOSAL then ''OpenAI'' else ''recorded_evidence''),
      ar_fallback = fallback, ar_proposal = proposal_from_state s\<rparr>"

section \<open>The run of a turn\<close>

text \<open>
  The checkpoints by thread, the world, and the operator's record of the runs, which an observer
  updates from the response. The observer works on the world of the turn, whose database session it
  shares, and may commit or roll it back; what it raises is only logged, what it did stays. The
  controller of the runtime is the one the nodes use.
\<close>

record ('e, 'v) server =
  sv_threads :: "string \<Rightarrow> agent_state option"
  sv_world :: "'e world"
  sv_runs :: 'v

type_synonym ('e, 'v) observer =
  "execution_context \<Rightarrow> agent_response \<Rightarrow> agent_state \<Rightarrow> 'e world \<Rightarrow> 'v \<Rightarrow> (exn + unit) \<times> 'e world \<times> 'v"

definition limit_requests ::
  "'e platform \<Rightarrow> execution_context \<Rightarrow> 'e world \<Rightarrow> exn option \<times> 'e world" where
  "limit_requests p ctx w =
     (case w_controller w of
        None \<Rightarrow> (None, w)
      | Some ctl \<Rightarrow>
          (case p_control_clock p (w_env w) of
             (t1, e1) \<Rightarrow>
               (case p_control_clock p e1 of
                  (t2, e2) \<Rightarrow>
                    (case enforce_request_limits (p_identity p) (p_resilience p) t1 t2
                            (actor_id (ctx_principal ctx)) (effective_customer ctx) ctl of
                       (x, ctl1) \<Rightarrow> (x, w\<lparr>w_controller := Some ctl1, w_env := e2\<rparr>)))))"

definition saved_state :: "('e, 'v) server \<Rightarrow> string \<Rightarrow> agent_state \<Rightarrow> agent_state" where
  "saved_state sv t fresh = (case sv_threads sv t of None \<Rightarrow> fresh | Some s \<Rightarrow> s)"

definition agent_run ::
  "'e runtime \<Rightarrow> ('e, 'v) observer \<Rightarrow> agent_state \<Rightarrow> execution_context \<Rightarrow> ustr \<Rightarrow> execution_mode \<Rightarrow>
     ('e, 'v) server \<Rightarrow> (exn + agent_response) \<times> ('e, 'v) server" where
  "agent_run rt observe fresh ctx message mode sv =
     (case limit_requests (rt_platform rt) ctx (sv_world sv) of
        (Some x, w) \<Rightarrow> (Inl x, sv\<lparr>sv_world := w\<rparr>)
      | (None, w) \<Rightarrow>
          (let thread = checkpoint_thread_id ctx in
           case provider_for_execution rt mode of
             (p, actual, fallback) \<Rightarrow>
               (case p_uuid p (w_env w) of
                  (run, e) \<Rightarrow>
                    (case run_turn p ctx run message (saved_state sv thread fresh) (w\<lparr>w_env := e\<rparr>) of
                       (raised, s, w1, nodes) \<Rightarrow>
                         (let sv1 = sv\<lparr>sv_threads := (sv_threads sv)(thread \<mapsto> s), sv_world := w1\<rparr> in
                          case raised of
                            Some x \<Rightarrow> (Inl x, sv1)
                          | None \<Rightarrow>
                              (let response = response_from_state actual fallback s in
                               (Inr response,
                                case observe ctx response s w1 (sv_runs sv) of
                                  (ignored, w2, v) \<Rightarrow> sv1\<lparr>sv_world := w2, sv_runs := v\<rparr>)))))))"

section \<open>The chat endpoint\<close>

record chat_request =
  cr_conversation :: string
  cr_customer :: int
  cr_message :: ustr
  cr_mode :: execution_mode

definition chat_request_fits :: "chat_request \<Rightarrow> bool" where
  "chat_request_fits r \<longleftrightarrow>
     1 \<le> length (cr_conversation r) \<and> length (cr_conversation r) \<le> 200 \<and> 0 < cr_customer r \<and>
     1 \<le> length (cr_message r) \<and> length (cr_message r) \<le> 5000"

definition http_of_run_error :: "exn \<Rightarrow> http_error" where
  "http_of_run_error x =
     (if is_rate_limited x then Http 429 ''Request rate limit exceeded.''
      else if is_tool_error x then http_of_tool_error x
      else Internal x)"

text \<open>The database session of a request is closed with it.\<close>

definition end_request :: "db \<Rightarrow> ('e, 'v) server \<Rightarrow> ('e, 'v) server" where
  "end_request d sv =
     sv\<lparr>sv_world := (sv_world sv)\<lparr>w_session := rollback d (w_session (sv_world sv))\<rparr>\<rparr>"

text \<open>The request identifier is a fresh UUID, drawn when the context is built.\<close>

definition chat ::
  "'e runtime \<Rightarrow> ('e, 'v) observer \<Rightarrow> agent_state \<Rightarrow> principal \<Rightarrow> chat_request \<Rightarrow> ('e, 'v) server \<Rightarrow>
     (http_error + agent_response) \<times> ('e, 'v) server" where
  "chat rt observe fresh p r sv =
     (if \<not> chat_request_fits r then (Inl unprocessable, sv)
      else case p_uuid (rt_platform rt) (w_env (sv_world sv)) of
        (rid, e) \<Rightarrow>
          (case get_execution_context rid (cr_conversation r) (cr_customer r) p of
             Inl x \<Rightarrow> (Inl x, sv)
           | Inr ctx \<Rightarrow>
               (case agent_run rt observe fresh ctx (cr_message r) (cr_mode r)
                       (sv\<lparr>sv_world := (sv_world sv)\<lparr>w_env := e\<rparr>\<rparr>) of
                  (Inl x, sv1) \<Rightarrow> (Inl (http_of_run_error x), end_request (p_db (rt_platform rt)) sv1)
                | (Inr a, sv1) \<Rightarrow> (Inr a, end_request (p_db (rt_platform rt)) sv1))))"

end
