(* ===== verification/Runtime_Laws.thy ===== *)
theory Runtime_Laws
  imports Runtime Turn_Laws Access_Laws
begin

text \<open>
  Conversations do not mix: the identity of a checkpoint determines tenant, actor, customer and
  conversation, a request touches the checkpoint of its own identity only, and what it finds there
  was left by a request of the same identity. The answers of the chat endpoint.
\<close>

section \<open>Quoting\<close>

lemma upper_hex_inj: "i < 16 \<Longrightarrow> j < 16 \<Longrightarrow> url_hex i = url_hex j \<Longrightarrow> i = j"
proof -
  assume "i < 16" "j < 16" "url_hex i = url_hex j"
  moreover have "distinct ''0123456789ABCDEF''" by simp
  moreover have "length ''0123456789ABCDEF'' = 16" by simp
  ultimately show "i = j" unfolding url_hex_def by (metis nth_eq_iff_index_eq)
qed

lemma char_less_256: "(of_char c :: nat) < 256"
  using of_char_mod_256 [of c, where 'a = nat] by (metis mod_less_divisor zero_less_numeral)

lemma quote_char_eq:
  assumes "quote_char c @ u = quote_char d @ v"
  shows "c = d \<and> u = v"
proof -
  have percent: "\<not> url_safe CHR ''%''" by (simp add: url_safe_def Let_def)
  have escaped: "(of_char c :: nat) = of_char d"
    if "url_hex (of_char c div 16) = url_hex (of_char d div 16)"
      "url_hex (of_char c mod 16) = url_hex (of_char d mod 16)"
  proof -
    have "(of_char c :: nat) div 16 = of_char d div 16"
      using that(1) char_less_256 [of c] char_less_256 [of d] by (intro upper_hex_inj) (simp_all add: less_mult_imp_div_less)
    moreover have "(of_char c :: nat) mod 16 = of_char d mod 16"
      using that(2) by (intro upper_hex_inj) simp_all
    ultimately show ?thesis by (metis div_mult_mod_eq)
  qed
  show ?thesis
    using assms percent escaped by (auto simp: quote_char_def split: if_splits)
qed

lemma quote_inj: "quote s = quote t \<Longrightarrow> s = t"
proof (induction s arbitrary: t)
  case Nil
  then show ?case by (cases t) (auto simp: quote_def quote_char_def split: if_splits)
next
  case (Cons c s)
  then obtain d t' where t: "t = d # t'" by (cases t) (auto simp: quote_def quote_char_def split: if_splits)
  then have "quote_char c @ quote s = quote_char d @ quote t'" using Cons.prems by (simp add: quote_def)
  then show ?case using quote_char_eq Cons.IH t by blast
qed

definition no_colon :: "string \<Rightarrow> bool" where
  "no_colon s \<longleftrightarrow> CHR '':'' \<notin> set s"

lemma url_hex_no_colon: "i < 16 \<Longrightarrow> url_hex i \<noteq> CHR '':''"
proof -
  assume "i < 16"
  then have "url_hex i \<in> set ''0123456789ABCDEF''" unfolding url_hex_def by (intro nth_mem) simp
  then show ?thesis by auto
qed

lemma quote_no_colon: "no_colon (quote s)"
proof -
  have "CHR '':'' \<notin> set (quote_char c)" for c
    using url_hex_no_colon [OF less_mult_imp_div_less, of "of_char c" 16] url_hex_no_colon [of "of_char c mod 16"]
      char_less_256 [of c]
    by (auto simp: quote_char_def url_safe_def Let_def)
  then show ?thesis by (auto simp: no_colon_def quote_def)
qed

text \<open>Texts without the separator are told apart by the first one.\<close>

lemma split_at_colon:
  "no_colon a \<Longrightarrow> no_colon b \<Longrightarrow> a @ CHR '':'' # u = b @ CHR '':'' # v \<longleftrightarrow> a = b \<and> u = v"
proof (induction a arbitrary: b)
  case Nil
  then show ?case by (cases b) (auto simp: no_colon_def)
next
  case (Cons x a)
  then show ?case by (cases b) (auto simp: no_colon_def)
qed

section \<open>Decimal numbers\<close>

definition decimal :: "char \<Rightarrow> bool" where
  "decimal c \<longleftrightarrow> 48 \<le> (of_char c :: nat) \<and> (of_char c :: nat) \<le> 57"

definition decimal_value :: "string \<Rightarrow> nat" where
  "decimal_value s = foldl (\<lambda>n c. 10 * n + (of_char c - 48)) 0 s"

lemma of_digit: "n < 10 \<Longrightarrow> (of_char (char_of (48 + n :: nat) :: char) :: nat) = 48 + n"
  by simp

lemma dec_nat_decimal: "list_all decimal (dec_nat n)"
proof (induction n rule: dec_nat.induct)
  case (1 n)
  then show ?case by (subst dec_nat.simps) (auto simp: of_digit decimal_def [of "char_of k" for k] simp del: of_char_of)
qed

lemma dec_nat_value: "decimal_value (dec_nat n) = n"
proof (induction n rule: dec_nat.induct)
  case (1 n)
  have "n mod 10 < 10" by simp
  from of_digit [OF this] 1 show ?case
    by (subst dec_nat.simps) (auto simp: decimal_value_def of_digit simp del: of_char_of)
qed

lemma dec_nat_nonempty: "dec_nat n \<noteq> []"
  by (subst dec_nat.simps) simp

lemma dec_no_colon: "no_colon (dec n)"
proof -
  have "\<not> decimal CHR '':''" by (simp add: decimal_def)
  then have "CHR '':'' \<notin> set (dec_nat m)" for m using dec_nat_decimal [of m] by (auto simp: list_all_iff)
  then show ?thesis by (auto simp: no_colon_def dec_def)
qed

lemma dec_inj: "dec m = dec n \<Longrightarrow> m = n"
proof -
  have minus: "dec_nat k \<noteq> CHR ''-'' # r" for k r
    using dec_nat_decimal [of k] by (auto simp: decimal_def)
  have nat: "dec_nat j = dec_nat k \<Longrightarrow> j = k" for j k by (metis dec_nat_value)
  assume "dec m = dec n"
  then show "m = n"
    using minus [of "nat m"] minus [of "nat n"]
    by (auto simp: dec_def dest!: nat split: if_splits) (metis minus)+
qed

section \<open>The identity of a checkpoint\<close>

lemma actor_type_no_colon: "no_colon (actor_type_value k)"
  by (cases k) (simp_all add: no_colon_def)

lemma actor_type_value_inj: "actor_type_value a = actor_type_value b \<Longrightarrow> a = b"
  by (cases a; cases b) simp_all

lemma prefix_v1_v2: "''v1'' @ CHR '':'' # u \<noteq> (''v2:tenant-'' @ quote x) @ CHR '':'' # v"
  by simp

lemma prefix_v2_v2:
  "(''v2:tenant-'' @ quote x) @ CHR '':'' # u = (''v2:tenant-'' @ quote y) @ CHR '':'' # v \<longleftrightarrow>
     x = y \<and> u = v"
  using split_at_colon [OF quote_no_colon quote_no_colon, of x u y v] quote_inj by auto

lemma thread_prefix_eq:
  "thread_prefix s @ CHR '':'' # u = thread_prefix t @ CHR '':'' # v \<longleftrightarrow> s = t \<and> u = v"
proof (cases "s = ''default''")
  case True
  then show ?thesis using prefix_v1_v2 [of u t v]
    by (cases "t = ''default''") (simp_all only: thread_prefix_def if_True if_False, simp_all)
next
  case False
  then show ?thesis using prefix_v1_v2 [of v s u, symmetric] prefix_v2_v2 [of s u t v]
    by (cases "t = ''default''") (simp_all only: thread_prefix_def if_True if_False, simp_all)
qed

text \<open>Two contexts share a checkpoint exactly if they agree on tenant, actor, customer and conversation.\<close>

definition same_identity :: "execution_context \<Rightarrow> execution_context \<Rightarrow> bool" where
  "same_identity c d \<longleftrightarrow>
     ctx_tenant c = ctx_tenant d \<and> actor_kind (ctx_principal c) = actor_kind (ctx_principal d) \<and>
     actor_id (ctx_principal c) = actor_id (ctx_principal d) \<and>
     effective_customer c = effective_customer d \<and> conversation_id c = conversation_id d"

definition customer_part :: "int \<Rightarrow> string" where
  "customer_part n = ''customer-'' @ dec n"

lemma customer_part: "no_colon (customer_part n)" "customer_part m = customer_part n \<Longrightarrow> m = n"
  using dec_no_colon [of n] by (auto simp: customer_part_def no_colon_def dest: dec_inj)

lemma thread_id_parts:
  "checkpoint_thread_id c =
     thread_prefix (ctx_tenant c) @ CHR '':'' # actor_type_value (actor_kind (ctx_principal c)) @ CHR '':'' #
     quote (actor_id (ctx_principal c)) @ CHR '':'' # customer_part (effective_customer c) @ CHR '':'' #
     quote (conversation_id c)"
  by (simp add: checkpoint_thread_id_def customer_part_def)

lemma thread_id_iff: "checkpoint_thread_id c = checkpoint_thread_id d \<longleftrightarrow> same_identity c d"
proof
  assume "checkpoint_thread_id c = checkpoint_thread_id d"
  then show "same_identity c d"
    unfolding thread_id_parts thread_prefix_eq split_at_colon [OF actor_type_no_colon actor_type_no_colon]
      split_at_colon [OF quote_no_colon quote_no_colon] split_at_colon [OF customer_part(1) customer_part(1)]
      same_identity_def
    by (auto dest: quote_inj customer_part(2) actor_type_value_inj)
qed (simp add: checkpoint_thread_id_def same_identity_def)

section \<open>What a request does to the checkpoints\<close>

text \<open>A turn leaves a state of its own context and run, with the message and at most one reply added.\<close>

lemma turn_leaves:
  assumes "run_turn p ctx run m s w = (r, t, w', ns)"
  shows "s_context t = Some ctx \<and> s_run t = run \<and> s_messages t =
    s_messages s @ (User, m) # (if r = None then [(Assistant, s_response t)] else [])"
proof -
  let ?s0 = "begin_turn ctx run m s"
  obtain n u v where n: "reaches p ?s0 w n u v"
      "case r of None \<Rightarrow> fst (run_node p n u v) = Inr t \<and> next_node n t = None
       | Some x \<Rightarrow> fst (run_node p n u v) = Inl x \<and> t = u"
    using run_from_last [OF assms [unfolded run_turn_def] reaches.start] by blast
  have "same_turn ?s0 u" by (rule phase_same_turn [OF reaches_phase [OF n(1)]])
  then have u: "s_context u = Some ctx" "s_run u = run" "s_messages u = s_messages s @ [(User, m)]"
    by (simp_all add: same_turn_def begin_turn_def)
  show ?thesis
  proof (cases r)
    case None
    then have "n = RESPOND" using n(2) by (cases n) auto
    then show ?thesis using None n(2) u by (auto simp: respond_def Let_def)
  next
    case (Some x)
    then show ?thesis using n(2) u by simp
  qed
qed

lemma limits_keep:
  "limit_requests p ctx w = (x, w') \<Longrightarrow>
     w_session w' = w_session w \<and> w_audit w' = w_audit w \<and> w_calls w' = w_calls w"
  by (auto simp: limit_requests_def split: option.splits prod.splits)

text \<open>The outcomes of a run: refused by a limit, ended by an exception, or answered.\<close>

lemma agent_run_cases:
  assumes "agent_run rt observe fresh ctx m mode sv = (a, sv')"
  obtains (limited) x w where "limit_requests (rt_platform rt) ctx (sv_world sv) = (Some x, w)" "a = Inl x"
      "sv' = sv\<lparr>sv_world := w\<rparr>"
  | (turn) w p actual fallback run e r s w1 ns where
      "limit_requests (rt_platform rt) ctx (sv_world sv) = (None, w)"
      "provider_for_execution rt mode = (p, actual, fallback)"
      "run_turn p ctx run m (saved_state sv (checkpoint_thread_id ctx) fresh) (w\<lparr>w_env := e\<rparr>) = (r, s, w1, ns)"
      "sv_threads sv' = (sv_threads sv)(checkpoint_thread_id ctx \<mapsto> s)"
      "a = (case r of Some x \<Rightarrow> Inl x | None \<Rightarrow> Inr (response_from_state actual fallback s))"
      "sv_world sv' = (case r of Some x \<Rightarrow> w1
         | None \<Rightarrow> fst (snd (observe ctx (response_from_state actual fallback s) s w1 (sv_runs sv))))"
  using assms
  by (auto simp: agent_run_def Let_def split: prod.splits option.splits sum.splits)

lemma agent_run_threads:
  assumes "agent_run rt observe fresh ctx m mode sv = (a, sv')"
  shows "sv_threads sv' = sv_threads sv \<or>
    (\<exists>s. s_context s = Some ctx \<and> sv_threads sv' = (sv_threads sv)(checkpoint_thread_id ctx \<mapsto> s))"
  using assms by (cases rule: agent_run_cases) (auto dest: turn_leaves)

text \<open>A request is served in the context built for it, or changes no checkpoint.\<close>

lemma chat_threads:
  assumes "chat rt observe fresh p r sv = (a, sv')"
  shows "sv_threads sv' = sv_threads sv \<or>
    (\<exists>rid ctx s. get_execution_context rid (cr_conversation r) (cr_customer r) p = Inr ctx \<and>
       s_context s = Some ctx \<and> sv_threads sv' = (sv_threads sv)(checkpoint_thread_id ctx \<mapsto> s))"
proof -
  obtain rid e where u: "p_uuid (rt_platform rt) (w_env (sv_world sv)) = (rid, e)"
    by (cases "p_uuid (rt_platform rt) (w_env (sv_world sv))")
  show ?thesis
  proof (cases "get_execution_context rid (cr_conversation r) (cr_customer r) p")
    case (Inl x)
    then show ?thesis using assms u by (auto simp: chat_def split: if_splits)
  next
    case (Inr ctx)
    define sv0 where "sv0 = sv\<lparr>sv_world := (sv_world sv)\<lparr>w_env := e\<rparr>\<rparr>"
    obtain b sv1 where run: "agent_run rt observe fresh ctx (cr_message r) (cr_mode r) sv0 = (b, sv1)"
      by (cases "agent_run rt observe fresh ctx (cr_message r) (cr_mode r) sv0")
    have "sv_threads sv0 = sv_threads sv" by (simp add: sv0_def)
    moreover have "sv_threads sv' = sv_threads sv \<or> sv_threads sv' = sv_threads sv1"
      using assms u Inr run
      by (auto simp: chat_def end_request_def sv0_def [symmetric] split: if_splits sum.splits)
    ultimately show ?thesis using agent_run_threads [OF run] Inr by metis
  qed
qed

text \<open>The servers that requests make from one without checkpoints.\<close>

inductive served :: "'e runtime \<Rightarrow> ('e, 'v) observer \<Rightarrow> agent_state \<Rightarrow> ('e, 'v) server \<Rightarrow> bool"
  for rt observe fresh where
  opened: "sv_threads sv = Map.empty \<Longrightarrow> served rt observe fresh sv"
| request: "served rt observe fresh sv \<Longrightarrow> chat rt observe fresh p r sv = (a, sv') \<Longrightarrow>
     served rt observe fresh sv'"

definition threads_identified :: "(string \<Rightarrow> agent_state option) \<Rightarrow> bool" where
  "threads_identified m \<longleftrightarrow>
     (\<forall>t s. m t = Some s \<longrightarrow> (\<exists>c. s_context s = Some c \<and> checkpoint_thread_id c = t))"

lemma served_identified: "served rt observe fresh sv \<Longrightarrow> threads_identified (sv_threads sv)"
proof (induction rule: served.induct)
  case (request sv p r a sv')
  then show ?case using chat_threads [OF request.hyps(2)] by (auto simp: threads_identified_def split: if_splits)
qed (simp add: threads_identified_def)

lemma validated_fields:
  "validate_context c = Inr d \<Longrightarrow> d = c\<lparr>ctx_tenant := bound_tenant c\<rparr>"
  by (simp add: validate_context_def Let_def split: if_splits)

definition principal_scope :: "principal \<Rightarrow> string" where
  "principal_scope p = (case principal_tenant p of None \<Rightarrow> ''default'' | Some t \<Rightarrow> t)"

lemma request_tenant_bound:
  "validate_context c = Inr d \<Longrightarrow> ctx_tenant c = request_tenant (ctx_principal c) \<Longrightarrow>
     bound_tenant c = principal_scope (ctx_principal c)"
  by (auto simp: validate_context_def bound_tenant_def request_tenant_def principal_scope_def Let_def
      split: option.splits if_splits)

lemma request_context_fields:
  assumes "get_execution_context rid cid c p = Inr ctx"
  shows "ctx_principal ctx = p \<and> ctx_tenant ctx = principal_scope p \<and> effective_customer ctx = c \<and>
     conversation_id ctx = cid"
proof -
  obtain scope where scope: "resolve_customer_scope p (Some c) = Inr scope"
    and made: "make_context rid cid p (request_tenant p) (cs_customer scope) = Inr ctx"
    using assms by (cases "resolve_customer_scope p (Some c)")
      (auto simp: get_execution_context_def split: sum.splits)
  let ?c = "\<lparr>request_id = rid, conversation_id = cid, ctx_principal = p, ctx_tenant = request_tenant p,
    effective_customer = cs_customer scope\<rparr>"
  have valid: "validate_context ?c = Inr ctx" using made by (simp add: make_context_def split: if_splits)
  from validated_fields [OF valid] request_tenant_bound [OF valid] resolve_scope_Inr [OF scope]
  show ?thesis by simp
qed

text \<open>Two contexts share a checkpoint exactly if they agree on the tenant, the kind and the identifier
  of the actor, the customer and the conversation, whatever separators and escapes the names contain.
\<close>

theorem checkpoint_identity:
  "checkpoint_thread_id c = checkpoint_thread_id d \<longleftrightarrow>
     ctx_tenant c = ctx_tenant d \<and> actor_kind (ctx_principal c) = actor_kind (ctx_principal d) \<and>
     actor_id (ctx_principal c) = actor_id (ctx_principal d) \<and>
     effective_customer c = effective_customer d \<and> conversation_id c = conversation_id d"
  by (simp add: thread_id_iff same_identity_def)

text \<open>C25. A chat request changes at most the checkpoint of its own principal, tenant, customer and
  conversation, and a checkpoint found there was left by a request that agrees on all of them: this
  holds in every server that chat requests make from one without checkpoints.
\<close>

theorem conversation_isolation:
  assumes "served rt observe fresh sv" and "chat rt observe fresh p r sv = (a, sv')"
    and "sv_threads sv' t \<noteq> sv_threads sv t"
  shows "\<exists>ctx. t = checkpoint_thread_id ctx \<and> ctx_principal ctx = p \<and> ctx_tenant ctx = principal_scope p \<and>
    effective_customer ctx = cr_customer r \<and> conversation_id ctx = cr_conversation r \<and>
    (\<forall>s. sv_threads sv t = Some s \<longrightarrow> (\<exists>d. s_context s = Some d \<and> same_identity d ctx))"
proof -
  obtain rid ctx s where ctx: "get_execution_context rid (cr_conversation r) (cr_customer r) p = Inr ctx"
      "sv_threads sv' = (sv_threads sv)(checkpoint_thread_id ctx \<mapsto> s)"
    using chat_threads [OF assms(2)] assms(3) by auto
  then have t: "t = checkpoint_thread_id ctx" using assms(3) by (auto split: if_splits)
  have "\<exists>d. s_context s = Some d \<and> same_identity d ctx" if "sv_threads sv t = Some s" for s
    using served_identified [OF assms(1)] that t by (force simp: threads_identified_def thread_id_iff)
  then show ?thesis using t request_context_fields [OF ctx(1)] by blast
qed

section \<open>The answer of a request\<close>

text \<open>The answer of a chat request is the state its checkpoint now keeps: its message is the last one
  of the conversation, after the customer's message, its pending action is the one kept, and a turn
  that was asked for the live model and ran on the recorded one says so.
\<close>

theorem chat_answer:
  assumes "chat rt observe fresh p r sv = (Inr a, sv')"
  shows "\<exists>ctx s ms. ctx_principal ctx = p \<and> effective_customer ctx = cr_customer r \<and> ar_run a = s_run s \<and>
    sv_threads sv' (checkpoint_thread_id ctx) = Some s \<and>
    s_messages s = ms @ [(User, cr_message r), (Assistant, ar_message a)] \<and> ar_pending a = s_pending s \<and>
    (ar_mode a = LIVE_PROPOSAL \<longrightarrow> cr_mode r = LIVE_PROPOSAL) \<and>
    (ar_fallback a = None \<longleftrightarrow> ar_mode a = cr_mode r)"
proof -
  obtain rid e where u: "p_uuid (rt_platform rt) (w_env (sv_world sv)) = (rid, e)"
    by (cases "p_uuid (rt_platform rt) (w_env (sv_world sv))")
  define sv0 where "sv0 = sv\<lparr>sv_world := (sv_world sv)\<lparr>w_env := e\<rparr>\<rparr>"
  obtain ctx sv1 where ctx: "get_execution_context rid (cr_conversation r) (cr_customer r) p = Inr ctx"
    and run: "agent_run rt observe fresh ctx (cr_message r) (cr_mode r) sv0 = (Inr a, sv1)"
    and sv': "sv' = end_request (p_db (rt_platform rt)) sv1"
    using assms u by (auto simp: chat_def sv0_def split: if_splits sum.splits prod.splits)
  have threads: "sv_threads sv' = sv_threads sv1" by (simp add: sv' end_request_def)
  from run show ?thesis
  proof (cases rule: agent_run_cases)
    case (turn w q actual fallback run e s0 s w1 ns)
    then have "s0 = None" and a: "a = response_from_state actual fallback s" by (auto split: option.splits)
    have "ar_mode a = actual" "ar_fallback a = fallback" "ar_run a = s_run s" "ar_message a = s_response s"
      "ar_pending a = s_pending s" by (simp_all add: a response_from_state_def)
    moreover have "(actual = LIVE_PROPOSAL \<longrightarrow> cr_mode r = LIVE_PROPOSAL) \<and>
        (fallback = None \<longleftrightarrow> actual = cr_mode r)"
      using turn(2) by (auto simp: provider_for_execution_def split: if_splits)
    moreover have "s_messages s = (s_messages (saved_state sv0 (checkpoint_thread_id ctx) fresh)) @
        [(User, cr_message r), (Assistant, s_response s)]"
      using turn_leaves [OF turn(3)] \<open>s0 = None\<close> by simp
    moreover have "sv_threads sv' (checkpoint_thread_id ctx) = Some s" using turn(4) threads by simp
    ultimately show ?thesis using request_context_fields [OF ctx]
      by (intro exI [of _ ctx] exI [of _ s] exI conjI) simp_all
  qed auto
qed

section \<open>A request\<close>

definition demo_ada :: principal where
  "demo_ada = ctx_principal demo_context"

definition demo_runtime :: "nat runtime" where
  "demo_runtime = \<lparr>rt_platform = demo_platform, rt_compatible = False, rt_api_key = [], rt_base_url = [],
     rt_live = p_provider demo_platform, rt_live_name = ''gpt'', rt_replay = p_provider demo_platform,
     rt_replay_name = ''recorded''\<rparr>"

definition failing_observer :: "(nat, unit) observer" where
  "failing_observer = (\<lambda>_ _ _ w v. (Inl OtherError, w, v))"

definition demo_server :: "(nat, unit) server" where
  "demo_server = \<lparr>sv_threads = Map.empty, sv_world = demo_world, sv_runs = ()\<rparr>"

definition demo_chat :: chat_request where
  "demo_chat = \<lparr>cr_conversation = ''c:1'', cr_customer = 7, cr_message = lit ''test mode'',
     cr_mode = LIVE_PROPOSAL\<rparr>"

definition demo_served :: "(http_error + agent_response) \<times> (nat, unit) server" where
  "demo_served = chat demo_runtime failing_observer fresh_state demo_ada demo_chat demo_server"

lemma demo_served_run:
  "case demo_served of (a, sv') \<Rightarrow> (case a of Inl _ \<Rightarrow> False | Inr b \<Rightarrow> ar_mode b = RECORDED_REPLAY) \<and>
     \<not> Option.is_none (sv_threads sv' ''v1:customer:ada:customer-7:c%3A1'')"
  unfolding demo_served_def by code_simp

lemma conversation_isolation_witness:
  "\<exists>ctx. ''v1:customer:ada:customer-7:c%3A1'' = checkpoint_thread_id ctx \<and> ctx_principal ctx = demo_ada \<and>
     effective_customer ctx = 7 \<and> conversation_id ctx = ''c:1''"
proof -
  obtain a sv' where run: "demo_served = (a, sv')" by (cases demo_served)
  have "served demo_runtime failing_observer fresh_state demo_server"
    by (rule served.opened) (simp add: demo_server_def)
  from conversation_isolation [OF this run [unfolded demo_served_def], of "''v1:customer:ada:customer-7:c%3A1''"]
  show ?thesis using demo_served_run
    by (auto simp: run demo_server_def demo_chat_def Option.is_none_def)
qed

lemma chat_answer_witness:
  "\<exists>a sv'. demo_served = (Inr a, sv') \<and> ar_fallback a \<noteq> None \<and>
     (\<exists>ctx s ms. sv_threads sv' (checkpoint_thread_id ctx) = Some s \<and>
        s_messages s = ms @ [(User, lit ''test mode''), (Assistant, ar_message a)])"
proof -
  obtain b sv' where run': "demo_served = (b, sv')" by (cases demo_served)
  with run' obtain a where run: "demo_served = (Inr a, sv')" and mode: "ar_mode a = RECORDED_REPLAY"
    using demo_served_run by (cases b) (simp_all add: run')
  from chat_answer [OF run [unfolded demo_served_def]] mode obtain ctx s ms where
      "sv_threads sv' (checkpoint_thread_id ctx) = Some s" "ar_fallback a \<noteq> None"
      "s_messages s = ms @ [(User, lit ''test mode''), (Assistant, ar_message a)]"
    by (auto simp: demo_chat_def)
  then show ?thesis using run by blast
qed

end
