(* ===== verification/Chunking.thy ===== *)
theory Chunking
  imports Grounding
begin

text \<open>
  Knowledge documents and their chunks (rag/ingestion/chunking.py, rag/schemas.py): a document is cut
  at its second-level headings, a section into paragraphs, and paragraphs are packed into chunks up to
  a number of characters; a longer paragraph is a chunk of its own.
\<close>

section \<open>Documents and chunks\<close>

record document =
  dc_id :: ustr
  dc_title :: ustr
  dc_category :: ustr
  dc_source :: ustr
  dc_content :: ustr

record piece =
  pc_id :: ustr
  pc_document :: ustr
  pc_title :: ustr
  pc_category :: ustr
  pc_section :: ustr
  pc_source :: ustr
  pc_index :: nat
  pc_content :: ustr

section \<open>Lines and sections\<close>

text \<open>\<open>s.splitlines()\<close>: a carriage return and the line feed behind it end one line.\<close>

definition line_break :: "int \<Rightarrow> bool" where
  "line_break c \<longleftrightarrow> c \<in> {10, 11, 12, 13, 28, 29, 30, 133, 8232, 8233}"

definition after_break :: "int \<Rightarrow> ustr \<Rightarrow> ustr" where
  "after_break c cs = (if c = 13 \<and> cs \<noteq> [] \<and> hd cs = 10 then tl cs else cs)"

lemma length_after_break [termination_simp]: "length (after_break c cs) < Suc (length cs)"
  by (cases cs) (simp_all add: after_break_def)

fun split_lines_from :: "ustr \<Rightarrow> ustr \<Rightarrow> ustr list" where
  "split_lines_from w [] = (if w = [] then [] else [rev w])"
| "split_lines_from w (c # cs) =
     (if line_break c then rev w # split_lines_from [] (after_break c cs)
      else split_lines_from (c # w) cs)"

definition split_lines :: "ustr \<Rightarrow> ustr list" where
  "split_lines s = split_lines_from [] s"

definition slug_char :: "int \<Rightarrow> bool" where
  "slug_char c \<longleftrightarrow> 97 \<le> c \<and> c \<le> 122 \<or> is_digit c"

definition strip_dashes :: "ustr \<Rightarrow> ustr" where
  "strip_dashes s = rev (dropWhile (\<lambda>c. c = 45) (rev (dropWhile (\<lambda>c. c = 45) s)))"

definition slugify :: "ustr \<Rightarrow> ustr" where
  "slugify s =
     (let t = strip_dashes (squash (\<lambda>c. \<not> slug_char c) 45 (casefold s)) in
      if t = [] then lit ''overview'' else t)"

definition section_of :: "ustr \<Rightarrow> ustr list \<Rightarrow> (ustr \<times> ustr) list" where
  "section_of title ls = (if ls = [] then [] else [(slugify title, join_char 10 ls)])"

definition section_heading :: "ustr \<Rightarrow> bool" where
  "section_heading l \<longleftrightarrow> has_prefix (lit ''## '') l"

definition document_heading :: "ustr \<Rightarrow> bool" where
  "document_heading l \<longleftrightarrow> has_prefix (lit ''# '') l"

fun sections_from :: "ustr \<Rightarrow> ustr list \<Rightarrow> ustr list \<Rightarrow> (ustr \<times> ustr) list" where
  "sections_from title ls [] = section_of title ls"
| "sections_from title ls (l # rest) =
     (if section_heading l then section_of title ls @ sections_from (strip (drop 3 l)) [] rest
      else if document_heading l then sections_from title ls rest
      else sections_from title (ls @ [l]) rest)"

definition sections_of :: "ustr \<Rightarrow> (ustr \<times> ustr) list" where
  "sections_of content = sections_from (lit ''overview'') [] (split_lines content)"

section \<open>Chunks\<close>

text \<open>\<open>content.split("\n\n")\<close>\<close>

fun split_blank_from :: "ustr \<Rightarrow> ustr \<Rightarrow> ustr list" where
  "split_blank_from w [] = [rev w]"
| "split_blank_from w [c] = [rev (c # w)]"
| "split_blank_from w (c # d # cs) =
     (if c = 10 \<and> d = 10 then rev w # split_blank_from [] cs
      else split_blank_from (c # w) (d # cs))"

definition paragraphs :: "ustr \<Rightarrow> ustr list" where
  "paragraphs content =
     map strip (filter (\<lambda>part. strip part \<noteq> []) (split_blank_from [] content))"

text \<open>The texts of the chunks: the current one is closed when the next paragraph does not fit.\<close>

fun pack :: "nat \<Rightarrow> ustr \<Rightarrow> ustr list \<Rightarrow> ustr list" where
  "pack n cur [] = (if cur = [] then [] else [cur])"
| "pack n cur (p # ps) =
     (if cur \<noteq> [] \<and> n < length cur + length p + 2 then cur # pack n (strip ([10, 10] @ p)) ps
      else pack n (strip (cur @ [10, 10] @ p)) ps)"

definition make_piece :: "document \<Rightarrow> ustr \<Rightarrow> nat \<Rightarrow> ustr \<Rightarrow> piece" where
  "make_piece d sec i text =
     \<lparr>pc_id = dc_id d @ 35 # sec @ 35 # lit (dec (int i)), pc_document = dc_id d, pc_title = dc_title d,
      pc_category = dc_category d, pc_section = sec, pc_source = dc_source d, pc_index = i,
      pc_content = text\<rparr>"

definition section_pieces :: "nat \<Rightarrow> document \<Rightarrow> ustr \<times> ustr \<Rightarrow> piece list" where
  "section_pieces n d sec =
     map (\<lambda>(i, text). make_piece d (fst sec) i text) (enumerate 0 (pack n [] (paragraphs (snd sec))))"

definition chunk_document :: "nat \<Rightarrow> document \<Rightarrow> piece list" where
  "chunk_document n d = concat (map (section_pieces n d) (sections_of (dc_content d)))"

end
