(* ===== verification/Retrieval.thy ===== *)
theory Retrieval
  imports Chunking
begin

text \<open>
  The local knowledge index (rag/retrieval/hybrid.py, rag/rerankers/deterministic.py,
  rag/retrieval/service.py): chunks are stored with their vectors; a query is answered by the best
  chunks of a dense and of a keyword search, fused, reranked and cut.

  Vectors and scores are exact rationals. The embedding provider, the reranker, the logarithm and the
  order in which Python enumerates a set of identifiers are parameters.
\<close>

section \<open>Tokens\<close>

definition tokens :: "ustr \<Rightarrow> ustr list" where
  "tokens s = runs slug_char (casefold s)"

section \<open>Rerankers\<close>

type_synonym reranker = "ustr \<Rightarrow> chunk list \<Rightarrow> exn + rat list"

definition overlap_score :: "ustr \<Rightarrow> chunk \<Rightarrow> rat" where
  "overlap_score query c =
     (let q = remdups (tokens query) in
      of_nat (length (filter (\<lambda>t. t \<in> set (tokens (ch_content c))) q)) / of_nat (max (length q) 1))"

definition deterministic_reranker :: reranker where
  "deterministic_reranker query cs = Inr (map (overlap_score query) cs)"

section \<open>The index\<close>

record hybrid =
  hr_embed_documents :: "ustr list \<Rightarrow> exn + rat list list"
  hr_embed_query :: "ustr \<Rightarrow> exn + rat list"
  hr_reranker :: reranker
  hr_enabled :: bool
  hr_dense :: nat
  hr_sparse :: nat
  hr_candidates :: nat
  hr_final :: nat
  hr_ln :: "rat \<Rightarrow> rat"
  hr_arrange :: "ustr list \<Rightarrow> ustr list"

text \<open>Both dictionaries keep the order of insertion.\<close>

record knowledge_index =
  ix_chunks :: "(ustr \<times> piece) list"
  ix_vectors :: "(ustr \<times> rat list) list"

definition empty_index :: knowledge_index where
  "empty_index = \<lparr>ix_chunks = [], ix_vectors = []\<rparr>"

text \<open>What \<open>zip\<close> pairs is written before a difference of the lengths is noticed.\<close>

definition put_piece :: "piece \<times> rat list \<Rightarrow> knowledge_index \<Rightarrow> knowledge_index" where
  "put_piece cv ix =
     \<lparr>ix_chunks = AList.update (pc_id (fst cv)) (fst cv) (ix_chunks ix),
      ix_vectors = AList.update (pc_id (fst cv)) (snd cv) (ix_vectors ix)\<rparr>"

definition upsert :: "hybrid \<Rightarrow> piece list \<Rightarrow> knowledge_index \<Rightarrow> (exn + nat) \<times> knowledge_index" where
  "upsert h cs ix =
     (case hr_embed_documents h (map pc_content cs) of
        Inl x \<Rightarrow> (Inl x, ix)
      | Inr vs \<Rightarrow>
          (if length vs = length cs then Inr (length cs) else Inl PyValueError,
           fold put_piece (zip cs vs) ix))"

definition ingest_documents ::
  "hybrid \<Rightarrow> nat \<Rightarrow> document list \<Rightarrow> knowledge_index \<Rightarrow> (exn + nat) \<times> knowledge_index" where
  "ingest_documents h n ds ix = upsert h (concat (map (chunk_document n) ds)) ix"

section \<open>The two searches\<close>

definition cosine :: "rat list \<Rightarrow> rat list \<Rightarrow> exn + rat" where
  "cosine u v = (if length u = length v then Inr (sum_list (map2 (*) u v)) else Inl PyValueError)"

fun try_map :: "('a \<Rightarrow> exn + 'b) \<Rightarrow> 'a list \<Rightarrow> exn + 'b list" where
  "try_map f [] = Inr []"
| "try_map f (x # xs) = and_then (f x) (\<lambda>y. and_then (try_map f xs) (\<lambda>ys. Inr (y # ys)))"

definition by_score :: "(ustr \<times> rat) list \<Rightarrow> (ustr \<times> rat) list" where
  "by_score xs = sort_key (\<lambda>x. - snd x) xs"

definition dense_search :: "hybrid \<Rightarrow> knowledge_index \<Rightarrow> ustr \<Rightarrow> exn + (ustr \<times> rat) list" where
  "dense_search h ix query =
     and_then (hr_embed_query h query) (\<lambda>q.
       and_then (try_map (\<lambda>(i, v). and_then (cosine q v) (\<lambda>s. Inr (i, s))) (ix_vectors ix)) (\<lambda>xs.
         Inr (take (hr_dense h) (by_score xs))))"

definition document_frequency :: "ustr list list \<Rightarrow> ustr \<Rightarrow> nat" where
  "document_frequency docs t = length (filter (\<lambda>ts. t \<in> set ts) docs)"

definition average_length :: "ustr list list \<Rightarrow> rat" where
  "average_length docs = of_nat (sum_list (map length docs)) / of_nat (max (length docs) 1)"

definition token_weight :: "(rat \<Rightarrow> rat) \<Rightarrow> ustr list list \<Rightarrow> ustr list \<Rightarrow> ustr \<Rightarrow> rat" where
  "token_weight ln_of docs ts t =
     (let df = of_nat (document_frequency docs t);
          tf = of_nat (count_list ts t);
          idf = ln_of ((of_nat (length docs) - df + 1 / 2) / (df + 1 / 2) + 1) in
      idf * tf * (5 / 2) /
        (tf + 3 / 2 * (1 / 4 + 3 / 4 * of_nat (length ts) / max (average_length docs) 1)))"

definition bm25_score :: "(rat \<Rightarrow> rat) \<Rightarrow> ustr list list \<Rightarrow> ustr list \<Rightarrow> ustr list \<Rightarrow> rat" where
  "bm25_score ln_of docs query ts =
     sum_list (map (token_weight ln_of docs ts) (filter (\<lambda>t. t \<in> set ts) query))"

definition bm25 :: "hybrid \<Rightarrow> knowledge_index \<Rightarrow> ustr \<Rightarrow> (ustr \<times> rat) list" where
  "bm25 h ix query =
     (let docs = map (\<lambda>(i, c). (i, tokens (pc_content c))) (ix_chunks ix) in
      by_score (map (\<lambda>(i, ts). (i, bm25_score (hr_ln h) (map snd docs) (tokens query) ts)) docs))"

section \<open>Fusion\<close>

text \<open>\<open>max(values, default=1.0) or 1.0\<close>\<close>

definition top_score :: "(ustr \<times> rat) list \<Rightarrow> rat" where
  "top_score xs =
     (if xs = [] then 1 else let m = Max (set (map snd xs)) in if m = 0 then 1 else m)"

definition score_or_zero :: "(ustr \<times> rat) list \<Rightarrow> ustr \<Rightarrow> rat" where
  "score_or_zero xs i = (case map_of xs i of None \<Rightarrow> 0 | Some s \<Rightarrow> s)"

definition fused_score :: "(ustr \<times> rat) list \<Rightarrow> (ustr \<times> rat) list \<Rightarrow> ustr \<Rightarrow> rat" where
  "fused_score dense sparse i =
     3 / 5 * score_or_zero dense i / top_score dense + 2 / 5 * score_or_zero sparse i / top_score sparse"

definition retrieved :: "piece \<Rightarrow> rat \<Rightarrow> chunk" where
  "retrieved c s =
     \<lparr>ch_id = pc_id c, ch_document = pc_document c, ch_title = pc_title c, ch_category = pc_category c,
      ch_section = pc_section c, ch_source = pc_source c, ch_content = pc_content c, ch_score = s,
      ch_rerank = None\<rparr>"

definition candidates :: "hybrid \<Rightarrow> (ustr \<times> rat) list \<Rightarrow> (ustr \<times> rat) list \<Rightarrow> ustr list" where
  "candidates h dense sparse = hr_arrange h (remdups (map fst dense @ map fst sparse))"

text \<open>A candidate without a chunk raises a \<open>KeyError\<close>.\<close>

definition fuse :: "hybrid \<Rightarrow> knowledge_index \<Rightarrow> (ustr \<times> rat) list \<Rightarrow> (ustr \<times> rat) list \<Rightarrow> exn + chunk list" where
  "fuse h ix dense sparse =
     and_then (try_map (\<lambda>i. case map_of (ix_chunks ix) i of
                 None \<Rightarrow> Inl OtherError
               | Some c \<Rightarrow> Inr (retrieved c (fused_score dense sparse i))) (candidates h dense sparse)) (\<lambda>cs.
       Inr (take (hr_candidates h) (sort_key (\<lambda>c. - ch_score c) cs)))"

section \<open>Reranking and the result\<close>

text \<open>
  A reranker that raises leaves the order of the fusion; so does one that returns another number of
  scores, but the chunks paired before that keep their score.
\<close>

fun assign_scores :: "rat list \<Rightarrow> chunk list \<Rightarrow> chunk list" where
  "assign_scores (s # ss) (c # cs) = c\<lparr>ch_rerank := Some s\<rparr> # assign_scores ss cs"
| "assign_scores ss cs = cs"

definition rerank_with :: "reranker \<Rightarrow> ustr \<Rightarrow> chunk list \<Rightarrow> chunk list \<times> string list" where
  "rerank_with f query cs =
     (case f query cs of
        Inl x \<Rightarrow> (cs, [''reranker''])
      | Inr ss \<Rightarrow>
          (if length ss = length cs then (by_scores (assign_scores ss cs), [])
           else (assign_scores ss cs, [''reranker''])))"

definition rerank :: "hybrid \<Rightarrow> ustr \<Rightarrow> chunk list \<Rightarrow> chunk list \<times> string list" where
  "rerank h query cs = (if hr_enabled h then rerank_with (hr_reranker h) query cs else (cs, []))"

record retrieval =
  rr_chunks :: "chunk list"
  rr_degraded :: "string list"
  rr_fallback :: string
  rr_dense :: nat
  rr_sparse :: nat

definition make_retrieval :: "chunk list \<Rightarrow> string list \<Rightarrow> nat \<Rightarrow> nat \<Rightarrow> retrieval" where
  "make_retrieval cs degraded dense sparse =
     \<lparr>rr_chunks = cs, rr_degraded = degraded,
      rr_fallback = (if degraded = [] then ''none'' else ''reranker''), rr_dense = dense,
      rr_sparse = sparse\<rparr>"

definition search_knowledge :: "hybrid \<Rightarrow> knowledge_index \<Rightarrow> ustr \<Rightarrow> exn + retrieval" where
  "search_knowledge h ix query =
     (if ix_chunks ix = [] then Inr (make_retrieval [] [] 0 0)
      else and_then (dense_search h ix query) (\<lambda>dense.
        let sparse = take (hr_sparse h) (bm25 h ix query) in
        and_then (fuse h ix dense sparse) (\<lambda>cs.
          case rerank h query cs of
            (rs, degraded) \<Rightarrow>
              Inr (make_retrieval (take (hr_final h) rs) degraded (length dense) (length sparse)))))"

end
