(* ===== verification/Chunking_Laws.thy ===== *)
theory Chunking_Laws
  imports Chunking Text_Laws
begin

text \<open>
  Cutting a document into chunks loses and repeats nothing: the words of the chunks are the words of
  the document's lines, headings apart, in their order; and a chunk is short enough or a single
  paragraph.
\<close>

section \<open>The words of a document\<close>

definition words :: "ustr list \<Rightarrow> ustr list" where
  "words ss = concat (map split_ws ss)"

lemma words_simps [simp]:
  "words [] = []" "words (s # ss) = split_ws s @ words ss" "words (ss @ ts) = words ss @ words ts"
  by (simp_all add: words_def)

lemma newline_space [simp]: "is_space 10"
  by (simp add: is_space_def)

lemma words_split_blank: "words (split_blank_from w s) = split_ws (rev w @ s)"
proof (induction w s rule: split_blank_from.induct)
  case (3 w c d cs)
  then show ?case
  proof (cases "c = 10 \<and> d = 10")
    case True
    from 3(1) [OF True] True show ?thesis
      using split_ws_sep [of 10 "rev w" "10 # cs"] split_ws_sep [of 10 "[]" cs] by simp
  next
    case False
    from 3(2) [OF False] False show ?thesis by auto
  qed
qed simp_all

lemma words_kept: "words (map strip (filter (\<lambda>s. strip s \<noteq> []) ss)) = words ss"
proof (induction ss)
  case (Cons s ss)
  have "split_ws s = []" if "strip s = []" using split_ws_strip [of s] that by simp
  then show ?case using Cons by simp
qed simp

lemma words_paragraphs: "words (paragraphs s) = split_ws s"
  by (simp add: paragraphs_def words_kept words_split_blank)

lemma words_pack: "words (pack n cur ps) = split_ws cur @ words ps"
proof (induction n cur ps rule: pack.induct)
  case (2 n cur p ps)
  have blank: "split_ws (10 # 10 # p) = split_ws p" using split_ws_left [of "[10, 10]" p] by simp
  have "split_ws (cur @ 10 # 10 # p) = split_ws cur @ split_ws p"
    using split_ws_sep [of 10 cur "10 # p"] split_ws_sep [of 10 "[]" p] by simp
  with 2 blank show ?case by simp
qed simp

lemma piece_texts:
  "map pc_content (map (\<lambda>(i, text). make_piece d sec i text) (enumerate k ts)) = ts"
  by (induction ts arbitrary: k) (simp_all add: make_piece_def)

lemma section_texts: "map pc_content (section_pieces n d sec) = pack n [] (paragraphs (snd sec))"
  unfolding section_pieces_def by (rule piece_texts)

lemma section_words: "words (map pc_content (section_pieces n d sec)) = split_ws (snd sec)"
  by (simp add: section_texts words_pack words_paragraphs)

definition body_lines :: "ustr \<Rightarrow> ustr list" where
  "body_lines content = filter (\<lambda>l. \<not> section_heading l \<and> \<not> document_heading l) (split_lines content)"

lemma words_section: "words (map snd (section_of title ls)) = words ls"
  by (simp add: section_of_def split_ws_join words_def)

lemma words_sections_from:
  "words (map snd (sections_from title ls rest)) =
     words ls @ words (filter (\<lambda>l. \<not> section_heading l \<and> \<not> document_heading l) rest)"
  by (induction title ls rest rule: sections_from.induct) (auto simp: words_section)

lemma words_document: "words (map pc_content (chunk_document n d)) = words (body_lines (dc_content d))"
proof -
  have "words (map pc_content (concat (map (section_pieces n d) ss))) = words (map snd ss)" for ss
    by (induction ss) (simp_all add: section_words)
  then show ?thesis
    by (simp add: chunk_document_def body_lines_def sections_of_def words_sections_from)
qed

section \<open>The sizes of chunks\<close>

lemma paragraphs_stripped: "p \<in> set (paragraphs s) \<Longrightarrow> stripped p"
  using strip_cases by (auto simp: paragraphs_def)

lemma pack_sizes:
  assumes "\<forall>p \<in> set ps. stripped p" and "cur = [] \<or> stripped cur \<and> (length cur \<le> n \<or> cur \<in> P)"
    and "set ps \<subseteq> P" and "t \<in> set (pack n cur ps)"
  shows "stripped t \<and> (length t \<le> n \<or> t \<in> P)"
  using assms
proof (induction n cur ps rule: pack.induct)
  case (1 n cur)
  then show ?case by (auto split: if_splits)
next
  case (2 n cur p ps)
  have p: "stripped p" "p \<in> P" using 2 by auto
  then have alone: "strip ([10, 10] @ p) = p"
    using strip_stripped [OF p(1)] by (simp add: strip_def)
  show ?case
  proof (cases "cur \<noteq> [] \<and> n < length cur + length p + 2")
    case True
    then show ?thesis using 2 p alone by auto
  next
    case False
    have "strip (cur @ [10, 10] @ p) = (if cur = [] then p else cur @ [10, 10] @ p)"
      using alone 2(4) strip_stripped [OF stripped_append [of cur p "[10, 10]"]] p by auto
    moreover have "stripped (cur @ [10, 10] @ p)" if "cur \<noteq> []"
      using 2(4) that stripped_append [of cur p "[10, 10]"] p by auto
    moreover have "length cur + length p + 2 \<le> n" if "cur \<noteq> []" using False that by simp
    ultimately show ?thesis using 2(2) [OF False] 2(3-6) False p by (auto split: if_splits)
  qed
qed

definition well_sized :: "nat \<Rightarrow> document \<Rightarrow> piece \<Rightarrow> bool" where
  "well_sized n d c \<longleftrightarrow> pc_content c \<noteq> [] \<and>
     (length (pc_content c) \<le> n \<or>
      (\<exists>sec \<in> set (sections_of (dc_content d)). pc_content c \<in> set (paragraphs (snd sec))))"

lemma pieces_well_sized: "c \<in> set (chunk_document n d) \<Longrightarrow> well_sized n d c"
proof -
  assume "c \<in> set (chunk_document n d)"
  then obtain sec where sec: "sec \<in> set (sections_of (dc_content d))" "c \<in> set (section_pieces n d sec)"
    by (auto simp: chunk_document_def)
  then have "pc_content c \<in> set (pack n [] (paragraphs (snd sec)))"
    unfolding section_texts [of n d sec, symmetric] by simp
  from pack_sizes [OF _ _ subset_refl this] paragraphs_stripped sec(1)
  show ?thesis by (auto simp: well_sized_def stripped_def)
qed

text \<open>C27. Cutting a document loses, repeats and reorders no word: the words of its chunks, in order, are
  the words of its lines that are not headings. Every chunk is at most \<open>n\<close> characters long or is a
  single paragraph.\<close>

theorem chunks_keep_words:
  "words (map pc_content (chunk_document n d)) = words (body_lines (dc_content d)) \<and>
   list_all (well_sized n d) (chunk_document n d)"
  by (simp add: words_document list_all_iff pieces_well_sized)

text \<open>
  Findings. Sections whose headings have the same ASCII letters and digits have the same slug, and the
  numbers of the chunks start again in every section: such chunks share their identifier. Headings
  without ASCII letters and digits (Chinese ones, for instance) all have the slug of the overview.
\<close>

definition two_sections :: document where
  "two_sections = \<lparr>dc_id = lit ''faq'', dc_title = lit ''FAQ'', dc_category = lit ''faq'', dc_source = [],
     dc_content = lit ''## '' @ [36864, 27454] @ [10] @ lit ''Seven days.'' @ [10] @ lit ''## '' @ [36865, 36135] @ [10] @ lit ''Two weeks.''\<rparr>"

lemma sections_share_identifiers:
  "map (\<lambda>c. (pc_id c, pc_content c)) (chunk_document 800 two_sections) =
     [(lit ''faq#overview#0'', lit ''Seven days.''), (lit ''faq#overview#0'', lit ''Two weeks.'')]"
  by code_simp

end
