(* ===== verification/Retrieval_Laws.thy ===== *)
theory Retrieval_Laws
  imports Retrieval Grounding_Laws Chunking_Laws
begin

text \<open>
  The local index: what is stored under an identifier, what a query returns, and that a grounded answer
  quotes a section of an ingested document.
\<close>

section \<open>The index\<close>

definition index_ok :: "knowledge_index \<Rightarrow> bool" where
  "index_ok ix \<longleftrightarrow> distinct (map fst (ix_chunks ix)) \<and> map fst (ix_vectors ix) = map fst (ix_chunks ix) \<and>
     (\<forall>(i, c) \<in> set (ix_chunks ix). pc_id c = i)"

lemma index_ok_empty [simp]: "index_ok empty_index"
  by (simp add: index_ok_def empty_index_def)

lemma set_update: "set (AList.update k v d) \<subseteq> insert (k, v) (set d)"
  by (induction d) auto

lemma put_piece_ok: "index_ok ix \<Longrightarrow> index_ok (put_piece cv ix)"
  using set_update [of "pc_id (fst cv)" "fst cv" "ix_chunks ix"]
  by (auto simp: index_ok_def put_piece_def update_keys distinct_update)

lemma fold_put_ok: "index_ok ix \<Longrightarrow> index_ok (fold put_piece cvs ix)"
  by (induction cvs arbitrary: ix) (simp_all add: put_piece_ok)

lemma upsert_ok: "index_ok ix \<Longrightarrow> upsert h cs ix = (r, ix') \<Longrightarrow> index_ok ix'"
  by (auto simp: upsert_def fold_put_ok split: sum.splits)

definition pieces_of :: "knowledge_index \<Rightarrow> piece set" where
  "pieces_of ix = snd ` set (ix_chunks ix)"

lemma pieces_put: "pieces_of (put_piece cv ix) \<subseteq> insert (fst cv) (pieces_of ix)"
  using set_update [of "pc_id (fst cv)" "fst cv" "ix_chunks ix"]
  by (auto simp: put_piece_def pieces_of_def)

lemma pieces_fold: "pieces_of (fold put_piece cvs ix) \<subseteq> fst ` set cvs \<union> pieces_of ix"
proof (induction cvs arbitrary: ix)
  case (Cons cv cvs)
  show ?case using Cons.IH [of "put_piece cv ix"] pieces_put [of cv ix] by simp blast
qed simp

lemma pieces_empty [simp]: "pieces_of empty_index = {}"
  by (simp add: pieces_of_def empty_index_def)

lemma upsert_pieces:
  assumes "upsert h cs empty_index = (r, ix)"
  shows "pieces_of ix \<subseteq> set cs"
proof (cases "hr_embed_documents h (map pc_content cs)")
  case (Inl x)
  then show ?thesis using assms by (simp add: upsert_def)
next
  case (Inr vs)
  then have "ix = fold put_piece (zip cs vs) empty_index" using assms by (simp add: upsert_def)
  moreover have "fst ` set (zip cs vs) \<subseteq> set cs" by (auto dest: set_zip_leftD)
  ultimately show ?thesis using pieces_fold [of "zip cs vs" empty_index] by simp
qed

lemma ingested_from:
  assumes "ingest_documents h n ds empty_index = (r, ix)" and "p \<in> pieces_of ix"
  shows "\<exists>d \<in> set ds. p \<in> set (chunk_document n d)"
  using upsert_pieces [OF assms(1) [unfolded ingest_documents_def]] assms(2) by auto

section \<open>What a query returns\<close>

definition arrange_ok :: "hybrid \<Rightarrow> bool" where
  "arrange_ok h \<longleftrightarrow> (\<forall>xs. distinct xs \<longrightarrow> distinct (hr_arrange h xs) \<and> set (hr_arrange h xs) = set xs)"

lemma try_map_all2: "try_map f xs = Inr ys \<Longrightarrow> list_all2 (\<lambda>x y. f x = Inr y) xs ys"
  by (induction xs arbitrary: ys) (auto simp: and_then_Inr_iff)

text \<open>A result is a stored chunk with scores.\<close>

definition stored :: "knowledge_index \<Rightarrow> chunk \<Rightarrow> bool" where
  "stored ix c \<longleftrightarrow> (\<exists>p. map_of (ix_chunks ix) (ch_id c) = Some p \<and>
     c = (retrieved p (ch_score c))\<lparr>ch_rerank := ch_rerank c\<rparr>)"

lemma stored_rerank [simp]: "stored ix (c\<lparr>ch_rerank := s\<rparr>) \<longleftrightarrow> stored ix c"
proof -
  have "c\<lparr>ch_rerank := s\<rparr> = (retrieved p (ch_score c))\<lparr>ch_rerank := s\<rparr> \<longleftrightarrow>
      c = (retrieved p (ch_score c))\<lparr>ch_rerank := ch_rerank c\<rparr>" for p
    by (cases c) (simp add: retrieved_def)
  then show ?thesis by (simp add: stored_def)
qed

definition by_fused :: "chunk list \<Rightarrow> chunk list" where
  "by_fused cs = sort_key (\<lambda>c. - ch_score c) cs"

lemma sorted_by_fused: "sorted_wrt (\<lambda>c d. ch_score d \<le> ch_score c) (by_fused cs)"
  using sorted_sort_key [of "\<lambda>c. - ch_score c" cs] by (simp add: by_fused_def sorted_wrt_map)

text \<open>The fused candidates, before the cut.\<close>

definition fused :: "hybrid \<Rightarrow> knowledge_index \<Rightarrow> (ustr \<times> rat) list \<Rightarrow> (ustr \<times> rat) list \<Rightarrow> chunk list \<Rightarrow> bool" where
  "fused h ix dense sparse cs \<longleftrightarrow> map ch_id cs = candidates h dense sparse \<and> list_all (stored ix) cs \<and>
     (\<forall>c \<in> set cs. ch_score c = fused_score dense sparse (ch_id c) \<and> ch_rerank c = None)"

lemma fuse_fused:
  assumes "fuse h ix dense sparse = Inr rs" and "index_ok ix"
  shows "\<exists>cs. fused h ix dense sparse cs \<and> rs = take (hr_candidates h) (by_fused cs)"
proof -
  obtain cs where cs: "try_map (\<lambda>i. case map_of (ix_chunks ix) i of None \<Rightarrow> Inl OtherError
      | Some c \<Rightarrow> Inr (retrieved c (fused_score dense sparse i))) (candidates h dense sparse) = Inr cs"
    and rs: "rs = take (hr_candidates h) (by_fused cs)"
    using assms(1) by (auto simp: fuse_def by_fused_def and_then_Inr_iff)
  have one: "ch_id c = i \<and> stored ix c \<and> ch_score c = fused_score dense sparse (ch_id c) \<and> ch_rerank c = None"
    if "(case map_of (ix_chunks ix) i of None \<Rightarrow> Inl OtherError
        | Some c \<Rightarrow> Inr (retrieved c (fused_score dense sparse i))) = Inr c" for i c
  proof -
    from that obtain p where p: "map_of (ix_chunks ix) i = Some p" "c = retrieved p (fused_score dense sparse i)"
      by (cases "map_of (ix_chunks ix) i") auto
    with assms(2) have "pc_id p = i" by (auto simp: index_ok_def dest!: map_of_SomeD)
    with p show ?thesis by (auto simp: stored_def retrieved_def)
  qed
  have "map ch_id cs = candidates h dense sparse" "list_all (stored ix) cs"
    "\<forall>c \<in> set cs. ch_score c = fused_score dense sparse (ch_id c) \<and> ch_rerank c = None"
    using try_map_all2 [OF cs] by (induction rule: list_all2_induct) (auto dest: one)
  then show ?thesis using rs by (auto simp: fused_def)
qed

lemma assign_scores_kept [simp]:
  "map ch_id (assign_scores ss cs) = map ch_id cs"
  "list_all (stored ix) (assign_scores ss cs) = list_all (stored ix) cs"
  by (induction ss cs rule: assign_scores.induct) simp_all

lemma by_scores_kept:
  "distinct (map ch_id (by_scores cs)) = distinct (map ch_id cs)"
  "list_all (stored ix) (by_scores cs) = list_all (stored ix) cs"
proof -
  have "mset (by_scores cs) = mset cs" by (simp add: by_scores_def)
  then have "mset (map ch_id (by_scores cs)) = mset (map ch_id cs)" by simp
  then show "distinct (map ch_id (by_scores cs)) = distinct (map ch_id cs)" by (rule mset_eq_imp_distinct_iff)
qed (simp add: list_all_iff)

lemma rerank_kept:
  assumes "rerank h query cs = (rs, degraded)"
  shows "length rs = length cs \<and> distinct (map ch_id rs) = distinct (map ch_id cs) \<and>
    list_all (stored ix) rs = list_all (stored ix) cs"
proof -
  have "length (assign_scores ss cs) = length cs" for ss
    using assign_scores_kept(1) [of ss cs] by (metis length_map)
  then show ?thesis
    using assms by (auto simp: rerank_def rerank_with_def by_scores_kept split: if_splits sum.splits)
qed

text \<open>The order of the results: by both scores after a rerank, else the best of the fusion.\<close>

definition best_fused ::
  "hybrid \<Rightarrow> (ustr \<times> rat) list \<Rightarrow> (ustr \<times> rat) list \<Rightarrow> chunk list \<Rightarrow> bool" where
  "best_fused h dense sparse cs \<longleftrightarrow> sorted_wrt (\<lambda>c d. ch_score d \<le> ch_score c) cs \<and>
     (\<forall>c \<in> set cs. ch_score c = fused_score dense sparse (ch_id c)) \<and>
     (\<forall>i \<in> fst ` set dense \<union> fst ` set sparse. i \<in> ch_id ` set cs \<or>
        length cs = min (hr_final h) (hr_candidates h) \<and>
        (\<forall>c \<in> set cs. fused_score dense sparse i \<le> ch_score c))"

lemma best_fused_cut:
  assumes "fused h ix dense sparse cs" and "arrange_ok h"
  shows "best_fused h dense sparse (take (hr_final h) (take (hr_candidates h) (by_fused cs)))"
proof -
  let ?n = "min (hr_final h) (hr_candidates h)"
  have set: "set (by_fused cs) = set cs" by (simp add: by_fused_def)
  have "fst ` set dense \<union> fst ` set sparse = ch_id ` set cs"
    using assms by (metis fused_def arrange_ok_def candidates_def distinct_remdups list.set_map set_append set_remdups)
  moreover have "ch_id c \<in> ch_id ` set (take ?n (by_fused cs)) \<or> length (take ?n (by_fused cs)) = ?n \<and>
      (\<forall>d \<in> set (take ?n (by_fused cs)). ch_score c \<le> ch_score d)" if "c \<in> set cs" for c
    using sorted_wrt_cut [OF sorted_by_fused, of c cs ?n] that set by blast
  moreover have "set (take ?n (by_fused cs)) \<subseteq> set cs" using set by (metis set_take_subset)
  ultimately show ?thesis
    using assms(1) sorted_wrt_take [OF sorted_by_fused, of ?n cs]
    by (auto simp: best_fused_def fused_def take_take min.commute)
qed

definition ranked :: "hybrid \<Rightarrow> knowledge_index \<Rightarrow> ustr \<Rightarrow> retrieval \<Rightarrow> bool" where
  "ranked h ix query r \<longleftrightarrow>
     (if \<not> hr_enabled h
      then ix_chunks ix = [] \<or>
        (\<exists>dense. dense_search h ix query = Inr dense \<and>
           best_fused h dense (take (hr_sparse h) (bm25 h ix query)) (rr_chunks r))
      else rr_degraded r = [] \<longrightarrow> sorted_wrt at_least (rr_chunks r))"

text \<open>The stages of a query of a filled index.\<close>

lemma search_stages:
  assumes "search_knowledge h ix query = Inr r" and "index_ok ix" and "arrange_ok h" and "ix_chunks ix \<noteq> []"
  obtains dense cs rs where "dense_search h ix query = Inr dense"
    "fused h ix dense (take (hr_sparse h) (bm25 h ix query)) cs"
    "rerank h query (take (hr_candidates h) (by_fused cs)) = (rs, rr_degraded r)"
    "rr_chunks r = take (hr_final h) rs"
proof -
  let ?sparse = "take (hr_sparse h) (bm25 h ix query)"
  obtain dense where d1: "dense_search h ix query = Inr dense"
    and rest: "and_then (fuse h ix dense ?sparse) (\<lambda>cs. case rerank h query cs of (rs, degraded) \<Rightarrow>
      Inr (make_retrieval (take (hr_final h) rs) degraded (length dense) (length ?sparse))) = Inr r"
    using assms(1,4)
    by (auto simp: search_knowledge_def and_then_Inr_iff [of "dense_search h ix query"] Let_def)
  obtain fs where d2: "fuse h ix dense ?sparse = Inr fs" using rest by (auto simp: and_then_Inr_iff)
  obtain rs degraded where d3: "rerank h query fs = (rs, degraded)" by (cases "rerank h query fs")
  have d: "dense_search h ix query = Inr dense" "fuse h ix dense ?sparse = Inr fs"
      "rerank h query fs = (rs, rr_degraded r)" "rr_chunks r = take (hr_final h) rs"
    using rest d1 d2 d3 by (auto simp: make_retrieval_def)
  obtain cs where "fused h ix dense ?sparse cs" "fs = take (hr_candidates h) (by_fused cs)"
    using fuse_fused [OF d(2) assms(2)] by blast
  then show thesis using that d by blast
qed

lemma fused_cut:
  assumes "fused h ix dense sparse cs" and "arrange_ok h"
  shows "distinct (map ch_id (take n (by_fused cs))) \<and> list_all (stored ix) (take n (by_fused cs)) \<and>
    length (take n (by_fused cs)) \<le> n"
proof -
  have "distinct (map ch_id cs)" and stored: "list_all (stored ix) cs"
    using assms by (simp_all add: fused_def candidates_def arrange_ok_def)
  moreover have "mset (map ch_id (by_fused cs)) = mset (map ch_id cs)" by (simp add: by_fused_def)
  ultimately have "distinct (map ch_id (by_fused cs))" using mset_eq_imp_distinct_iff by blast
  then have "distinct (map ch_id (take n (by_fused cs)))" by (simp add: take_map [symmetric] distinct_take)
  moreover have "set (take n (by_fused cs)) \<subseteq> set cs"
    using set_take_subset [of n "by_fused cs"] by (simp add: by_fused_def)
  ultimately show ?thesis using stored by (auto simp: list_all_iff)
qed

lemma retrieved_sound:
  assumes "search_knowledge h ix query = Inr r" and "index_ok ix" and "arrange_ok h"
  shows "length (rr_chunks r) \<le> min (hr_final h) (hr_candidates h) \<and> distinct (map ch_id (rr_chunks r)) \<and>
    list_all (stored ix) (rr_chunks r)"
proof (cases "ix_chunks ix = []")
  case True
  then show ?thesis using assms(1) by (auto simp: search_knowledge_def make_retrieval_def)
next
  case False
  obtain dense cs rs where d: "fused h ix dense (take (hr_sparse h) (bm25 h ix query)) cs"
      "rerank h query (take (hr_candidates h) (by_fused cs)) = (rs, rr_degraded r)"
      "rr_chunks r = take (hr_final h) rs"
    using search_stages [OF assms False] by blast
  have rs: "length rs \<le> hr_candidates h" "distinct (map ch_id rs)" "list_all (stored ix) rs"
    using rerank_kept [OF d(2), of ix] fused_cut [OF d(1) assms(3), of "hr_candidates h"] by simp_all
  have "distinct (map ch_id (take (hr_final h) rs))" using rs(2) by (simp add: take_map [symmetric] distinct_take)
  moreover have "list_all (stored ix) (take (hr_final h) rs)"
    using rs(3) set_take_subset [of "hr_final h" rs] by (auto simp: list_all_iff)
  ultimately show ?thesis using rs(1) by (simp add: d(3))
qed

lemma reranked_sorted:
  assumes "rerank h query cs = (rs, [])" and "hr_enabled h"
  shows "sorted_wrt at_least rs"
  using assms sorted_by_scores by (auto simp: rerank_def rerank_with_def split: sum.splits if_splits)

lemma search_ranked:
  assumes "search_knowledge h ix query = Inr r" and "index_ok ix" and "arrange_ok h"
  shows "ranked h ix query r"
proof (cases "ix_chunks ix = []")
  case True
  then show ?thesis using assms(1) by (auto simp: search_knowledge_def make_retrieval_def ranked_def)
next
  case False
  obtain dense cs rs where d: "dense_search h ix query = Inr dense"
      "fused h ix dense (take (hr_sparse h) (bm25 h ix query)) cs"
      "rerank h query (take (hr_candidates h) (by_fused cs)) = (rs, rr_degraded r)"
      "rr_chunks r = take (hr_final h) rs"
    using search_stages [OF assms False] by blast
  show ?thesis
  proof (cases "hr_enabled h")
    case True
    then show ?thesis using d(3,4) reranked_sorted sorted_wrt_take by (auto simp: ranked_def)
  next
    case off: False
    then have "rs = take (hr_candidates h) (by_fused cs)" using d(3) by (simp add: rerank_def)
    then show ?thesis using off d(1,4) best_fused_cut [OF d(2) assms(3)] by (auto simp: ranked_def)
  qed
qed

text \<open>C28. A query returns at most the configured number of results, each a stored chunk, none twice. After
  a rerank they are ordered by the score of the reranker and then by the fused score; without a
  reranker they are the best of the dense and the keyword search: whatever either search found and
  the result leaves out has no higher fused score, and then the result is full.\<close>

theorem retrieved_best:
  assumes "search_knowledge h ix query = Inr r" and "index_ok ix" and "arrange_ok h"
  shows "length (rr_chunks r) \<le> min (hr_final h) (hr_candidates h) \<and> distinct (map ch_id (rr_chunks r)) \<and>
    list_all (stored ix) (rr_chunks r) \<and> ranked h ix query r"
  using retrieved_sound [OF assms] search_ranked [OF assms] by simp

section \<open>From a document to an answer\<close>

lemma norm_words: "norm_text s = join_char 32 (map casefold (split_ws s))"
  by (simp add: norm_text_def squeeze_def split_ws_casefold)

lemma contains_join: "contains (join_char c ws) (join_char c (us @ ws @ vs))"
proof (cases "ws = []")
  case True
  have "contains [] s" for s by (cases s) simp_all
  then show ?thesis by (simp add: True)
next
  case False
  then have "join_char c (us @ ws @ vs) = (if us = [] then [] else join_char c us @ [c]) @ join_char c ws @
      (if vs = [] then [] else c # join_char c vs)"
    by (simp add: join_char_append)
  then show ?thesis unfolding contains_iff by blast
qed

lemma piece_in_section:
  assumes "c \<in> set (section_pieces n d sec)"
  shows "contains (norm_text (pc_content c)) (norm_text (snd sec))"
proof -
  obtain us vs where "map pc_content (section_pieces n d sec) = us @ pc_content c # vs"
    using assms split_list by fastforce
  then have "split_ws (snd sec) = words us @ split_ws (pc_content c) @ words vs"
    using section_words [of n d sec] by simp
  then show ?thesis unfolding norm_words by (simp add: contains_join)
qed

definition said_in :: "document \<Rightarrow> ustr \<Rightarrow> bool" where
  "said_in d cl \<longleftrightarrow> (\<exists>sec \<in> set (sections_of (dc_content d)). contains (norm_text cl) (norm_text (snd sec)))"

text \<open>C29. From ingestion to the answer: every claim of a grounded answer is said, up to case and white
  space, in one section of an ingested document, and a citation of the answer names that document.\<close>

theorem answers_quote_documents:
  assumes "ingest_documents h n ds empty_index = (k, ix)" and "search_knowledge h ix query = Inr r"
    and "answer_question g question (rr_chunks r) = Inr a" and "arrange_ok h" and "cl \<in> set (ra_claims a)"
  shows "\<exists>d \<in> set ds. \<exists>ct \<in> set (ra_citations a). ci_document ct = dc_id d \<and> said_in d cl \<and> marked (ra_text a) cl ct"
proof -
  have "index_ok ix" using upsert_ok [OF index_ok_empty assms(1) [unfolded ingest_documents_def]] .
  obtain ct where ct: "ct \<in> set (ra_citations a)" "quoted_from (rr_chunks r) ct cl" "marked (ra_text a) cl ct"
    using grounded_claims [OF assms(3,5)] by blast
  then obtain c where c: "c \<in> set (rr_chunks r)" "ci_document ct = ch_document c"
      "contains (norm_text cl) (norm_text (ch_content c))" by (auto simp: quoted_from_def)
  have "stored ix c"
    using retrieved_sound [OF assms(2) \<open>index_ok ix\<close> assms(4)] c(1) by (simp add: list_all_iff)
  then obtain p where p: "map_of (ix_chunks ix) (ch_id c) = Some p" and "c = (retrieved p (ch_score c))\<lparr>ch_rerank := ch_rerank c\<rparr>"
    by (auto simp: stored_def)
  then have pc: "ch_document c = pc_document p" "ch_content c = pc_content p"
    by (metis chunk.select_convs(2,7) chunk.update_convs(9) retrieved_def chunk.surjective)+
  have "p \<in> pieces_of ix" using map_of_SomeD [OF p] by (force simp: pieces_of_def)
  then obtain d where d: "d \<in> set ds" "p \<in> set (chunk_document n d)" using ingested_from [OF assms(1)] by blast
  then obtain sec where sec: "sec \<in> set (sections_of (dc_content d))" "p \<in> set (section_pieces n d sec)"
    by (auto simp: chunk_document_def)
  have "pc_document p = dc_id d" using sec(2) by (auto simp: section_pieces_def make_piece_def)
  moreover have "said_in d cl"
    using contains_trans [OF c(3)] piece_in_section [OF sec(2)] sec(1) by (auto simp: said_in_def pc)
  ultimately show ?thesis using d(1) ct(1,3) c(2) pc(1) by auto
qed

section \<open>A document and a question\<close>

definition demo_hybrid :: hybrid where
  "demo_hybrid = \<lparr>hr_embed_documents = (\<lambda>ts. Inr (map (\<lambda>_. [1]) ts)), hr_embed_query = (\<lambda>_. Inr [1]),
     hr_reranker = deterministic_reranker, hr_enabled = True, hr_dense = 8, hr_sparse = 8,
     hr_candidates = 12, hr_final = 4, hr_ln = (\<lambda>x. x - 1), hr_arrange = id\<rparr>"

definition fees_document :: document where
  "fees_document = \<lparr>dc_id = lit ''p'', dc_title = lit ''Fees'', dc_category = lit ''f'', dc_source = [],
     dc_content = lit ''# Fees'' @ [10] @ lit ''## Costs'' @ [10] @ lit ''Fees vary.''\<rparr>"

definition fees_index :: knowledge_index where
  "fees_index = snd (ingest_documents demo_hybrid 800 [fees_document] empty_index)"

definition fees_found :: "exn + retrieval" where
  "fees_found = search_knowledge demo_hybrid fees_index (lit ''fees?'')"

definition fees_said :: "exn + rag_answer" where
  "fees_said = and_then fees_found (\<lambda>r. answer_question default_generator (lit ''fees?'') (rr_chunks r))"

lemma demo_arrange: "arrange_ok demo_hybrid"
  by (simp add: arrange_ok_def demo_hybrid_def)

lemma fees_index_ok: "index_ok fees_index"
  unfolding fees_index_def ingest_documents_def
  by (rule upsert_ok [OF index_ok_empty]) (simp add: prod_eq_iff)

lemma fees_found_ok: "is_ok fees_found \<and> length (rr_chunks (projr fees_found)) = 1"
  by code_simp

lemma fees_said_ok: "is_ok fees_said \<and> ra_claims (projr fees_said) = [lit ''Fees vary'']"
  by code_simp

lemma retrieved_best_witness:
  "\<exists>r. fees_found = Inr r \<and> length (rr_chunks r) = 1 \<and> list_all (stored fees_index) (rr_chunks r) \<and>
     ranked demo_hybrid fees_index (lit ''fees?'') r"
proof -
  obtain r where r: "fees_found = Inr r" "length (rr_chunks r) = 1"
    using answer_of [of fees_found "\<lambda>r. length (rr_chunks r) = 1"] fees_found_ok by blast
  from retrieved_best [OF r(1) [unfolded fees_found_def] fees_index_ok demo_arrange] r show ?thesis by blast
qed

lemma answers_quote_documents_witness:
  "said_in fees_document (lit ''Fees vary'') \<and> dc_id fees_document = lit ''p''"
proof -
  obtain a where a: "fees_said = Inr a" "ra_claims a = [lit ''Fees vary'']"
    using answer_of [of fees_said "\<lambda>a. ra_claims a = [lit ''Fees vary'']"] fees_said_ok by blast
  then obtain r where r: "fees_found = Inr r" "answer_question default_generator (lit ''fees?'') (rr_chunks r) = Inr a"
    unfolding fees_said_def and_then_Inr_iff by blast
  have "ingest_documents demo_hybrid 800 [fees_document] empty_index =
      (fst (ingest_documents demo_hybrid 800 [fees_document] empty_index), fees_index)"
    by (simp add: fees_index_def)
  from answers_quote_documents [OF this r(1) [unfolded fees_found_def] r(2) demo_arrange, of "lit ''Fees vary''"] a
  show ?thesis by (auto simp: fees_document_def)
qed

text \<open>
  Findings. Chunks with one identifier overwrite each other, although the number reported counts both.
  When every similarity is negative, dividing by the greatest inverts the ranking of the dense search.
\<close>

lemma colliding_chunk_lost:
  "case ingest_documents demo_hybrid 800 [two_sections] empty_index of
     (n, ix) \<Rightarrow> n = Inr 2 \<and> map (\<lambda>(i, c). pc_content c) (ix_chunks ix) = [lit ''Two weeks.'']"
  by code_simp

lemma negative_similarities_inverted:
  assumes "distinct (map fst dense)" and "(i, a) \<in> set dense" and "(j, b) \<in> set dense" and "b < a"
    and "\<forall>x \<in> set dense. snd x < 0"
  shows "fused_score dense [] i < fused_score dense [] j"
proof -
  have "Max (set (map snd dense)) \<in> set (map snd dense)" using assms(2) by (intro Max_in) auto
  then have "top_score dense < 0" using assms(2,5) by (auto simp: top_score_def Let_def)
  moreover have "score_or_zero dense i = a" "score_or_zero dense j = b"
    using assms(1-3) by (simp_all add: score_or_zero_def)
  ultimately show ?thesis using assms(4)
    by (simp add: fused_score_def divide_strict_right_mono_neg) (simp add: score_or_zero_def divide_strict_right_mono_neg)
qed

end
