(* ===== verification/Lexical.thy ===== *)
theory Lexical
  imports Retrieval "HOL-Library.List_Lexorder"
begin

text \<open>
  The lexical index of the vector store (rag/retrieval/lexical.py): a vocabulary with weights, the
  sparse vectors of texts and queries, and its form as metadata of a collection, which is checked when
  it is read back. Weights are exact rationals; the logarithm is a parameter.
\<close>

section \<open>JSON values\<close>

datatype jval =
    JNull
  | JBool bool
  | JInt int
  | JReal rat
  | JText ustr
  | JList "jval list"
  | JObject "(ustr \<times> jval) list"

type_synonym jobject = "(ustr \<times> jval) list"

definition jget :: "jobject \<Rightarrow> string \<Rightarrow> jval option" where
  "jget d k = map_of d (lit k)"

text \<open>\<open>isinstance(v, int)\<close> and \<open>isinstance(v, (float, int))\<close>: a bool is an int.\<close>

fun jint :: "jval \<Rightarrow> int option" where
  "jint (JInt n) = Some n"
| "jint (JBool b) = Some (if b then 1 else 0)"
| "jint _ = None"

fun jnumber :: "jval \<Rightarrow> rat option" where
  "jnumber (JInt n) = Some (of_int n)"
| "jnumber (JBool b) = Some (if b then 1 else 0)"
| "jnumber (JReal r) = Some r"
| "jnumber _ = None"

text \<open>\<open>==\<close>: numbers by value.\<close>

definition jequal :: "jval \<Rightarrow> jval \<Rightarrow> bool" where
  "jequal u v \<longleftrightarrow>
     (case (jnumber u, jnumber v) of (Some m, Some n) \<Rightarrow> m = n | (None, None) \<Rightarrow> u = v | _ \<Rightarrow> False)"

definition jobject_of :: "jval option \<Rightarrow> jobject option" where
  "jobject_of v = (case v of Some (JObject d) \<Rightarrow> Some d | _ \<Rightarrow> None)"

section \<open>The index\<close>

record lexical_index =
  lx_vocabulary :: "(ustr \<times> int) list"
  lx_weights :: "(ustr \<times> rat) list"
  lx_average :: rat
  lx_documents :: int

definition weigh :: "lexical_index \<Rightarrow> (ustr \<Rightarrow> rat \<Rightarrow> rat) \<Rightarrow> ustr \<Rightarrow> (int \<times> rat) list" where
  "weigh ix f t =
     (case (map_of (lx_vocabulary ix) t, map_of (lx_weights ix) t) of
        (Some i, Some w) \<Rightarrow> [(i, f t w)]
      | _ \<Rightarrow> [])"

definition sparse_vector :: "(int \<times> rat) list \<Rightarrow> int list \<times> rat list" where
  "sparse_vector xs = (map fst xs, map snd xs)"

definition encode :: "lexical_index \<Rightarrow> ustr \<Rightarrow> int list \<times> rat list" where
  "encode ix text =
     (let ts = tokens text;
          denominator = 1 / 4 + 3 / 4 * of_nat (max (length ts) 1) / max (lx_average ix) 1 in
      sparse_vector (concat (map (weigh ix (\<lambda>t w. of_nat (count_list ts t) * w / denominator)) (sort (remdups ts)))))"

definition encode_query :: "lexical_index \<Rightarrow> ustr \<Rightarrow> int list \<times> rat list" where
  "encode_query ix text =
     (let ts = tokens text in
      sparse_vector (concat (map (weigh ix (\<lambda>t w. of_nat (count_list ts t) * w)) (sort (remdups ts)))))"

definition token_idf :: "(rat \<Rightarrow> rat) \<Rightarrow> ustr list list \<Rightarrow> ustr \<Rightarrow> rat" where
  "token_idf ln_of docs t =
     ln_of ((of_nat (length docs) + 1) / (of_nat (document_frequency docs t) + 1)) + 1"

text \<open>The weights are kept in the order of the vocabulary; they are only looked up.\<close>

definition build_lexical_index :: "(rat \<Rightarrow> rat) \<Rightarrow> piece list \<Rightarrow> exn + lexical_index" where
  "build_lexical_index ln_of cs =
     (let docs = map (\<lambda>c. tokens (pc_content c)) cs;
          ts = sort (remdups (concat docs)) in
      if length docs < 1 then Inl PyValueError
      else Inr \<lparr>lx_vocabulary = zip ts (map int [1..<length ts + 1]),
             lx_weights = map (\<lambda>t. (t, token_idf ln_of docs t)) ts,
             lx_average = of_nat (sum_list (map length docs)) / of_nat (length docs),
             lx_documents = int (length docs)\<rparr>)"

section \<open>The index as metadata\<close>

definition to_metadata :: "int \<Rightarrow> lexical_index \<Rightarrow> jobject" where
  "to_metadata version ix =
     [(lit ''version'', JInt version),
      (lit ''vocabulary'', JObject (map (\<lambda>(t, i). (t, JInt i)) (lx_vocabulary ix))),
      (lit ''inverse_document_frequency'', JObject (map (\<lambda>(t, w). (t, JReal w)) (lx_weights ix))),
      (lit ''average_document_length'', JReal (lx_average ix)),
      (lit ''document_count'', JInt (lx_documents ix))]"

definition read_token :: "jobject \<Rightarrow> ustr \<times> jval \<Rightarrow> exn + ustr \<times> int \<times> rat" where
  "read_token weights tv =
     (case jint (snd tv) of
        None \<Rightarrow> Inl PyValueError
      | Some i \<Rightarrow>
          if i < 1 then Inl PyValueError
          else (case Option.bind (map_of weights (fst tv)) jnumber of
              None \<Rightarrow> Inl PyValueError
            | Some w \<Rightarrow> if w \<le> 0 then Inl PyValueError else Inr (fst tv, i, w)))"

definition from_metadata :: "int \<Rightarrow> jval option \<Rightarrow> exn + lexical_index" where
  "from_metadata expected metadata =
     (case jobject_of metadata of
        None \<Rightarrow> Inl PyValueError
      | Some d \<Rightarrow>
          if \<not> jequal (case jget d ''version'' of None \<Rightarrow> JNull | Some v \<Rightarrow> v) (JInt expected) then Inl PyValueError
          else (case (jobject_of (jget d ''vocabulary''), jobject_of (jget d ''inverse_document_frequency'')) of
              (Some vocabulary, Some weights) \<Rightarrow>
                (case Option.bind (jget d ''average_document_length'') jnumber of
                   None \<Rightarrow> Inl PyValueError
                 | Some average \<Rightarrow>
                     (case Option.bind (jget d ''document_count'') jint of
                        None \<Rightarrow> Inl PyValueError
                      | Some size_of \<Rightarrow>
                          if size_of < 1 then Inl PyValueError
                          else and_then (try_map (read_token weights) vocabulary) (\<lambda>xs.
                            Inr \<lparr>lx_vocabulary = map (\<lambda>(t, i, w). (t, i)) xs,
                                 lx_weights = map (\<lambda>(t, i, w). (t, w)) xs,
                                 lx_average = average, lx_documents = size_of\<rparr>)))
            | _ \<Rightarrow> Inl PyValueError))"

section \<open>Writing the metadata and reading it back\<close>

definition lexical_ok :: "lexical_index \<Rightarrow> bool" where
  "lexical_ok ix \<longleftrightarrow> distinct (map fst (lx_vocabulary ix)) \<and> map fst (lx_weights ix) = map fst (lx_vocabulary ix) \<and>
     (\<forall>(t, i) \<in> set (lx_vocabulary ix). 1 \<le> i) \<and> (\<forall>(t, w) \<in> set (lx_weights ix). 0 < w) \<and> 1 \<le> lx_documents ix"

lemma token_idf_pos:
  assumes "\<And>x. 1 \<le> x \<Longrightarrow> 0 \<le> ln_of x"
  shows "0 < token_idf ln_of docs t"
proof -
  have "document_frequency docs t \<le> length docs" by (simp add: document_frequency_def)
  then have "1 \<le> (of_nat (length docs) + 1) / (of_nat (document_frequency docs t) + 1 :: rat)"
    by (simp add: le_divide_eq)
  from assms [OF this] show ?thesis by (simp add: token_idf_def)
qed

lemma build_lexical_ok:
  assumes "build_lexical_index ln_of cs = Inr ix" and "\<And>x. 1 \<le> x \<Longrightarrow> 0 \<le> ln_of x"
  shows "lexical_ok ix"
proof -
  let ?docs = "map (\<lambda>c. tokens (pc_content c)) cs"
  let ?ts = "sort (remdups (concat ?docs))"
  have ix: "lx_vocabulary ix = zip ?ts (map int [1..<length ?ts + 1])"
      "lx_weights ix = map (\<lambda>t. (t, token_idf ln_of ?docs t)) ?ts" "lx_documents ix = int (length cs)" "cs \<noteq> []"
    using assms(1) by (auto simp: build_lexical_index_def Let_def split: if_splits)
  have "map fst (lx_vocabulary ix) = ?ts" by (simp add: ix del: upt_Suc)
  moreover have "map fst (lx_weights ix) = ?ts" by (simp add: ix comp_def)
  moreover have "\<forall>(t, i) \<in> set (lx_vocabulary ix). 1 \<le> i"
    by (auto simp: ix simp del: upt_Suc dest!: set_zip_rightD)
  moreover have "\<forall>(t, w) \<in> set (lx_weights ix). 0 < w"
    using token_idf_pos [OF assms(2)] by (auto simp: ix)
  moreover have "1 \<le> lx_documents ix" using ix(3,4) by (cases cs) simp_all
  ultimately show ?thesis by (simp add: lexical_ok_def)
qed

lemma jget_Cons:
  "jget ((lit j, v) # d) k = (if j = k then Some v else jget d k)" "jget [] k = None"
  by (auto simp: jget_def)

lemma read_tokens_written:
  assumes "map fst ws = map fst vs" and "distinct (map fst vs)"
    and "\<forall>(t, i) \<in> set vs. 1 \<le> i" and "\<forall>(t, w) \<in> set ws. 0 < w"
    and "\<And>t w. (t, w) \<in> set ws \<Longrightarrow> map_of all t = Some (JReal w)"
  shows "try_map (read_token all) (map (\<lambda>(t, i). (t, JInt i)) vs) = Inr (map2 (\<lambda>(t, i) (u, w). (t, i, w)) vs ws)"
  using assms
proof (induction vs ws rule: list_induct2')
  case (4 v vs w ws)
  obtain t i x where v: "v = (t, i)" "w = (t, x)" using 4(2) by (cases v; cases w) auto
  then have "map_of all t = Some (JReal x)" using 4(6) by auto
  moreover have "1 \<le> i" "0 < x" using 4(4,5) v by auto
  ultimately have "read_token all (t, JInt i) = Inr (t, i, x)" by (simp add: read_token_def)
  then show ?case using 4 v by simp
qed simp_all

lemma from_to_metadata:
  assumes "lexical_ok ix"
  shows "from_metadata v (Some (JObject (to_metadata v ix))) = Inr ix"
proof -
  let ?vs = "lx_vocabulary ix" and ?ws = "lx_weights ix"
  let ?all = "map (\<lambda>(t, w). (t, JReal w)) ?ws"
  note ok = assms [unfolded lexical_ok_def]
  have "map_of ?all t = Some (JReal w)" if "(t, w) \<in> set ?ws" for t w
    using that ok map_of_is_SomeI [of ?ws t w] by (simp add: map_of_map)
  from read_tokens_written [OF _ _ _ _ this] ok
  have "try_map (read_token ?all) (map (\<lambda>(t, i). (t, JInt i)) ?vs) = Inr (map2 (\<lambda>(t, i) (u, w). (t, i, w)) ?vs ?ws)"
    by simp
  moreover have "map (\<lambda>(t, i, w). (t, i)) (map2 (\<lambda>(t, i) (u, w). (t, i, w)) vs ws) = vs \<and>
      map (\<lambda>(t, i, w). (t, w)) (map2 (\<lambda>(t, i) (u, w). (t, i, w)) vs ws) = ws"
    if "map fst ws = map fst vs" for vs :: "(ustr \<times> int) list" and ws :: "(ustr \<times> rat) list"
    using that by (induction vs ws rule: list_induct2') auto
  ultimately show ?thesis using ok
    by (simp add: from_metadata_def to_metadata_def jget_Cons jobject_of_def jequal_def)
qed

text \<open>Every token of an indexed chunk has an entry in its sparse vector.\<close>

lemma weigh_known:
  "lexical_ok ix \<Longrightarrow> t \<in> fst ` set (lx_vocabulary ix) \<Longrightarrow> \<exists>i w. weigh ix f t = [(i, f t w)]"
proof -
  assume ok: "lexical_ok ix" and t: "t \<in> fst ` set (lx_vocabulary ix)"
  then have "t \<in> fst ` set (lx_weights ix)" unfolding lexical_ok_def by (metis list.set_map)
  then obtain w where "map_of (lx_weights ix) t = Some w" by (metis map_of_eq_None_iff not_None_eq)
  moreover obtain i where "map_of (lx_vocabulary ix) t = Some i" using t by (metis map_of_eq_None_iff not_None_eq)
  ultimately have "weigh ix f t = [(i, f t w)]" by (simp add: weigh_def)
  then show ?thesis by blast
qed

end
