(* ===== verification/Snapshots.thy ===== *)
theory Snapshots
  imports Lexical
begin

text \<open>
  Snapshots of the knowledge in the vector store (rag/storage/qdrant.py): a snapshot is a collection of
  its own, named by a hash of what it was built from; it is validated before the alias that answers
  queries is switched to it.

  The client of the vector store is a parameter: every call acts on the state of the server and may
  raise. So are the embedding provider, the digest of a JSON value, the identifier of a point, the text
  of a value that is no string and the reading of a number from a text. Which of the program's own
  errors is raised is modelled, its message is not; \<open>RuntimeError\<close> is \<open>OtherError\<close>.
\<close>

section \<open>The client\<close>

record point =
  pt_id :: ustr
  pt_vector :: "rat list"
  pt_sparse :: "int list \<times> rat list"
  pt_payload :: piece

text \<open>What \<open>get_collection\<close> reports of a collection: the metadata, the number of points if it is an integer, the
  size and distance of the unnamed vector if there is one, and whether the lexical vector is indexed.\<close>

record collection =
  cl_metadata :: "jval option"
  cl_points :: "int option"
  cl_vector :: "(int \<times> string) option"
  cl_lexical :: bool

type_synonym ('s, 'a) step = "'s \<Rightarrow> (exn + 'a) \<times> 's"

record 's client =
  qc_exists :: "ustr \<Rightarrow> ('s, bool) step"
  qc_get :: "ustr \<Rightarrow> ('s, collection) step"
  qc_aliases :: "('s, (ustr \<times> ustr) list) step"
  qc_create :: "ustr \<Rightarrow> int \<Rightarrow> jobject \<Rightarrow> ('s, unit) step"
  qc_upsert :: "ustr \<Rightarrow> point list \<Rightarrow> ('s, unit) step"
  qc_update :: "ustr \<Rightarrow> jobject \<Rightarrow> ('s, unit) step"
  qc_delete :: "ustr \<Rightarrow> ('s, unit) step"
  qc_switch :: "bool \<Rightarrow> ustr \<Rightarrow> ustr \<Rightarrow> ('s, unit) step"

section \<open>The store\<close>

record 's knowledge_store =
  ks_client :: "'s client"
  ks_alias :: ustr
  ks_provider_type :: ustr
  ks_model :: ustr
  ks_dimension :: "int option"
  ks_schema :: int
  ks_chunking :: int
  ks_lexical :: int
  ks_embed :: "ustr list \<Rightarrow> exn + rat list list"
  ks_ln :: "rat \<Rightarrow> rat"
  ks_digest :: "jval \<Rightarrow> ustr"
  ks_point_id :: "ustr \<Rightarrow> ustr"
  ks_repr :: "jval \<Rightarrow> ustr"
  ks_parse :: "ustr \<Rightarrow> int option"

definition provider_name :: "'s knowledge_store \<Rightarrow> ustr" where
  "provider_name st = casefold (strip (ks_provider_type st))"

definition model_name :: "'s knowledge_store \<Rightarrow> ustr" where
  "model_name st = strip (ks_model st)"

definition snapshot_building :: ustr where "snapshot_building = lit ''building''"
definition snapshot_failed :: ustr where "snapshot_failed = lit ''failed''"
definition snapshot_complete :: ustr where "snapshot_complete = lit ''complete''"

record snapshot =
  sn_id :: ustr
  sn_hash :: ustr
  sn_collection :: ustr
  sn_corpus :: ustr
  sn_count :: int
  sn_provider :: ustr
  sn_model :: ustr
  sn_dimension :: int
  sn_schema :: int
  sn_chunking :: int
  sn_lexical :: int
  sn_lexical_hash :: ustr
  sn_created :: ustr
  sn_state :: ustr

record snapshot_spec =
  ss_corpus :: ustr
  ss_provider :: ustr
  ss_model :: ustr
  ss_dimension :: int
  ss_schema :: int
  ss_chunking :: int
  ss_lexical :: int

definition canonical_payload :: "snapshot_spec \<Rightarrow> jobject" where
  "canonical_payload s =
     [(lit ''chunking_version'', JInt (ss_chunking s)), (lit ''corpus_hash'', JText (ss_corpus s)),
      (lit ''dense_distance'', JText (lit ''Cosine'')), (lit ''embedding_dimension'', JInt (ss_dimension s)),
      (lit ''embedding_model'', JText (ss_model s)), (lit ''embedding_provider'', JText (ss_provider s)),
      (lit ''knowledge_schema_version'', JInt (ss_schema s)), (lit ''lexical_index_version'', JInt (ss_lexical s)),
      (lit ''sparse_vector_name'', JText (lit ''lexical'')), (lit ''snapshot_spec_version'', JInt 1)]"

definition spec_hash :: "(jval \<Rightarrow> ustr) \<Rightarrow> snapshot_spec \<Rightarrow> ustr" where
  "spec_hash digest s = digest (JObject (canonical_payload s))"

definition spec_of :: "snapshot \<Rightarrow> snapshot_spec" where
  "spec_of sn = \<lparr>ss_corpus = sn_corpus sn, ss_provider = sn_provider sn, ss_model = sn_model sn,
     ss_dimension = sn_dimension sn, ss_schema = sn_schema sn, ss_chunking = sn_chunking sn,
     ss_lexical = sn_lexical sn\<rparr>"

section \<open>Reading a collection\<close>

definition metadata_of :: "collection \<Rightarrow> jobject" where
  "metadata_of c = (case jobject_of (cl_metadata c) of None \<Rightarrow> [] | Some d \<Rightarrow> d)"

definition provenance_of :: "collection \<Rightarrow> jobject option" where
  "provenance_of c = jobject_of (jget (metadata_of c) ''knowledge_snapshot'')"

definition jis :: "jobject \<Rightarrow> string \<Rightarrow> jval \<Rightarrow> bool" where
  "jis d k v \<longleftrightarrow> (case jget d k of None \<Rightarrow> False | Some u \<Rightarrow> jequal u v)"

text \<open>Equality of dictionaries outside the fields of the life cycle.\<close>

definition lifecycle_keys :: "ustr list" where
  "lifecycle_keys = map lit [''build_id'', ''created_at'', ''completed_at'', ''build_state'', ''expected_chunk_count'']"

definition same_entry :: "jobject \<Rightarrow> jobject \<Rightarrow> ustr \<Rightarrow> bool" where
  "same_entry d e k \<longleftrightarrow> k \<in> set lifecycle_keys \<or>
     (case (map_of d k, map_of e k) of (Some u, Some v) \<Rightarrow> jequal u v | (None, None) \<Rightarrow> True | _ \<Rightarrow> False)"

definition same_provenance :: "jobject \<Rightarrow> jobject \<Rightarrow> bool" where
  "same_provenance d e \<longleftrightarrow> list_all (same_entry d e) (map fst d @ map fst e)"

text \<open>\<open>str(v)\<close> and \<open>int(v)\<close>\<close>

definition jstr :: "(jval \<Rightarrow> ustr) \<Rightarrow> jval \<Rightarrow> ustr" where
  "jstr repr v = (case v of JText t \<Rightarrow> t | _ \<Rightarrow> repr v)"

definition jtoint :: "'s knowledge_store \<Rightarrow> jval \<Rightarrow> int option" where
  "jtoint st v =
     (case v of
        JText t \<Rightarrow> ks_parse st t
      | JReal r \<Rightarrow> Some (if 0 \<le> r then \<lfloor>r\<rfloor> else \<lceil>r\<rceil>)
      | _ \<Rightarrow> jint v)"

definition text_entry :: "'s knowledge_store \<Rightarrow> jobject \<Rightarrow> string \<Rightarrow> exn + ustr" where
  "text_entry st d k = (case jget d k of None \<Rightarrow> Inl PyValueError | Some v \<Rightarrow> Inr (jstr (ks_repr st) v))"

definition int_entry :: "'s knowledge_store \<Rightarrow> jobject \<Rightarrow> string \<Rightarrow> exn + int" where
  "int_entry st d k =
     (case Option.bind (jget d k) (jtoint st) of None \<Rightarrow> Inl PyValueError | Some n \<Rightarrow> Inr n)"

definition read_snapshot :: "'s knowledge_store \<Rightarrow> ustr \<Rightarrow> collection \<Rightarrow> exn + snapshot" where
  "read_snapshot st name c =
     (case provenance_of c of
        None \<Rightarrow> Inl PyValueError
      | Some d \<Rightarrow>
          and_then (text_entry st d ''snapshot_id'') (\<lambda>i.
          and_then (text_entry st d ''snapshot_spec_hash'') (\<lambda>h.
          and_then (text_entry st d ''corpus_hash'') (\<lambda>corpus.
          and_then (int_entry st d ''chunk_count'') (\<lambda>n.
          and_then (text_entry st d ''embedding_provider'') (\<lambda>provider.
          and_then (text_entry st d ''embedding_model'') (\<lambda>model.
          and_then (int_entry st d ''embedding_dimension'') (\<lambda>dim.
          and_then (int_entry st d ''schema_version'') (\<lambda>schema.
          and_then (int_entry st d ''chunking_version'') (\<lambda>chunking.
          and_then (int_entry st d ''lexical_index_version'') (\<lambda>lexical.
          and_then (text_entry st d ''lexical_index_hash'') (\<lambda>lexhash.
          and_then (text_entry st d ''created_at'') (\<lambda>created.
          and_then (text_entry st d ''build_state'') (\<lambda>state.
            Inr \<lparr>sn_id = i, sn_hash = h, sn_collection = name, sn_corpus = corpus, sn_count = n,
              sn_provider = provider, sn_model = model, sn_dimension = dim, sn_schema = schema,
              sn_chunking = chunking, sn_lexical = lexical, sn_lexical_hash = lexhash,
              sn_created = created, sn_state = state\<rparr>))))))))))))))"

definition snapshot_from_collection :: "'s knowledge_store \<Rightarrow> ustr \<Rightarrow> ('s, snapshot) step" where
  "snapshot_from_collection st name s =
     after (qc_get (ks_client st) name s) (\<lambda>c s1. (read_snapshot st name c, s1))"

section \<open>Validation\<close>

definition required_keys :: "string list" where
  "required_keys = [''snapshot_id'', ''snapshot_spec_hash'', ''snapshot_spec_version'', ''corpus_hash'',
     ''chunk_count'', ''expected_chunk_count'', ''embedding_provider'', ''embedding_model'',
     ''embedding_dimension'', ''lexical_index_version'', ''lexical_index_hash'', ''schema_version'',
     ''chunking_version'', ''dense_distance'', ''sparse_vector_name'', ''created_at'', ''build_state'']"

definition has_key :: "jobject \<Rightarrow> string \<Rightarrow> bool" where
  "has_key d k \<longleftrightarrow> jget d k \<noteq> None"

definition state_known :: "jobject \<Rightarrow> bool" where
  "state_known d \<longleftrightarrow> list_ex (\<lambda>v. jis d ''build_state'' (JText v)) [snapshot_building, snapshot_failed, snapshot_complete]"

definition completed_text :: "jobject \<Rightarrow> bool" where
  "completed_text d \<longleftrightarrow> (case jget d ''completed_at'' of Some (JText t) \<Rightarrow> True | _ \<Rightarrow> False)"

definition expected_provenance :: "'s knowledge_store \<Rightarrow> snapshot \<Rightarrow> (string \<times> jval) list" where
  "expected_provenance st sn =
     [(''snapshot_id'', JText (sn_id sn)), (''snapshot_spec_hash'', JText (spec_hash (ks_digest st) (spec_of sn))),
      (''snapshot_spec_version'', JInt 1), (''corpus_hash'', JText (sn_corpus sn)),
      (''embedding_provider'', JText (sn_provider sn)), (''embedding_model'', JText (sn_model sn)),
      (''embedding_dimension'', JInt (sn_dimension sn)), (''lexical_index_version'', JInt (sn_lexical sn)),
      (''lexical_index_hash'', JText (sn_lexical_hash sn)), (''schema_version'', JInt (sn_schema sn)),
      (''chunking_version'', JInt (sn_chunking sn)), (''dense_distance'', JText (lit ''Cosine'')),
      (''sparse_vector_name'', JText (lit ''lexical'')), (''build_state'', JText (sn_state sn))]"

definition provenance_valid :: "'s knowledge_store \<Rightarrow> snapshot \<Rightarrow> bool \<Rightarrow> jobject \<Rightarrow> bool" where
  "provenance_valid st sn done_only d \<longleftrightarrow>
     sn_hash sn = spec_hash (ks_digest st) (spec_of sn) \<and> list_all (has_key d) required_keys \<and> state_known d \<and>
     (done_only \<longrightarrow> jis d ''build_state'' (JText snapshot_complete)) \<and>
     jis d ''expected_chunk_count'' (JInt (sn_count sn)) \<and> jis d ''chunk_count'' (JInt (sn_count sn)) \<and>
     (done_only \<longrightarrow> completed_text d) \<and> list_all (\<lambda>(k, v). jis d k v) (expected_provenance st sn)"

definition lexical_valid :: "'s knowledge_store \<Rightarrow> snapshot \<Rightarrow> jobject \<Rightarrow> bool" where
  "lexical_valid st sn md \<longleftrightarrow>
     (case jobject_of (jget md ''lexical_index'') of
        None \<Rightarrow> False
      | Some l \<Rightarrow> ks_digest st (JObject l) = sn_lexical_hash sn \<and> jis l ''version'' (JInt (sn_lexical sn)))"

definition schema_valid :: "snapshot \<Rightarrow> collection \<Rightarrow> bool" where
  "schema_valid sn c \<longleftrightarrow> cl_points c = Some (sn_count sn) \<and> cl_vector c = Some (sn_dimension sn, ''Cosine'') \<and> cl_lexical c"

definition store_matches :: "'s knowledge_store \<Rightarrow> snapshot \<Rightarrow> bool" where
  "store_matches st sn \<longleftrightarrow> sn_provider sn = provider_name st \<and> sn_model sn = model_name st \<and>
     (ks_dimension st = None \<or> ks_dimension st = Some (sn_dimension sn)) \<and> sn_schema sn = ks_schema st \<and>
     sn_chunking sn = ks_chunking st \<and> sn_lexical sn = ks_lexical st"

definition snapshot_valid :: "'s knowledge_store \<Rightarrow> snapshot \<Rightarrow> bool \<Rightarrow> collection \<Rightarrow> bool" where
  "snapshot_valid st sn done_only c \<longleftrightarrow>
     (case provenance_of c of
        None \<Rightarrow> False
      | Some d \<Rightarrow> provenance_valid st sn done_only d \<and> lexical_valid st sn (metadata_of c) \<and> schema_valid sn c \<and>
          store_matches st sn)"

definition validate_snapshot :: "'s knowledge_store \<Rightarrow> snapshot \<Rightarrow> bool \<Rightarrow> ('s, unit) step" where
  "validate_snapshot st sn done_only s =
     after (qc_get (ks_client st) (sn_collection sn) s) (\<lambda>c s1.
       (if snapshot_valid st sn done_only c then Inr () else Inl OtherError, s1))"

section \<open>The alias\<close>

definition alias_target :: "'s knowledge_store \<Rightarrow> ('s, ustr option) step" where
  "alias_target st s = after (qc_aliases (ks_client st) s) (\<lambda>xs s1. (Inr (map_of xs (ks_alias st)), s1))"

definition activate :: "'s knowledge_store \<Rightarrow> ustr \<Rightarrow> ('s, unit) step" where
  "activate st name s =
     after (qc_exists (ks_client st) name s) (\<lambda>there s1.
       if \<not> there then (Inl PyValueError, s1)
       else after (snapshot_from_collection st name s1) (\<lambda>sn s2.
         after (validate_snapshot st sn True s2) (\<lambda>_ s3.
           after (alias_target st s3) (\<lambda>current s4.
             qc_switch (ks_client st) (current \<noteq> None) name (ks_alias st) s4))))"

text \<open>The stored fields are read as by \<open>_snapshot_from_collection\<close>.\<close>

definition rollback_to :: "'s knowledge_store \<Rightarrow> ustr \<Rightarrow> ('s, unit) step" where
  "rollback_to st name s =
     after (snapshot_from_collection st name s) (\<lambda>sn s1.
       after (validate_snapshot st sn True s1) (\<lambda>_ s2. activate st name s2))"

section \<open>Changing provenance\<close>

definition update_provenance :: "'s knowledge_store \<Rightarrow> ustr \<Rightarrow> jobject \<Rightarrow> ('s, unit) step" where
  "update_provenance st name d s =
     after (qc_get (ks_client st) name s) (\<lambda>c s1.
       qc_update (ks_client st) name (AList.update (lit ''knowledge_snapshot'') (JObject d) (metadata_of c)) s1)"

text \<open>Whatever fails here is ignored.\<close>

definition mark_failed :: "'s knowledge_store \<Rightarrow> ustr \<Rightarrow> jobject \<Rightarrow> ('s, unit) step" where
  "mark_failed st name expected s =
     after (qc_exists (ks_client st) name s) (\<lambda>there s1.
       if \<not> there then (Inr (), s1)
       else after (alias_target st s1) (\<lambda>current s2.
         if current = Some name then (Inr (), s2)
         else after (qc_get (ks_client st) name s2) (\<lambda>c s3.
           case provenance_of c of
             None \<Rightarrow> (Inr (), s3)
           | Some d \<Rightarrow>
               if \<not> same_provenance d expected then (Inr (), s3)
               else if \<not> (case (jget d ''build_id'', jget expected ''build_id'') of
                   (Some u, Some v) \<Rightarrow> jequal u v | (None, None) \<Rightarrow> True | _ \<Rightarrow> False) then (Inr (), s3)
               else update_provenance st name
                 (AList.update (lit ''build_state'') (JText snapshot_failed) d) s3)))"

definition or_mark_failed :: "'s knowledge_store \<Rightarrow> ustr \<Rightarrow> jobject \<Rightarrow> ('s, 'a) step \<Rightarrow> ('s, 'a) step" where
  "or_mark_failed st name d m s =
     (case m s of
        (Inl x, s1) \<Rightarrow> (Inl x, snd (mark_failed st name d s1))
      | (Inr a, s1) \<Rightarrow> (Inr a, s1))"

definition delete_inactive :: "'s knowledge_store \<Rightarrow> ustr \<Rightarrow> jobject \<Rightarrow> jobject \<Rightarrow> ('s, unit) step" where
  "delete_inactive st name existing expected s =
     after (alias_target st s) (\<lambda>current s1.
       if current = Some name then (Inl OtherError, s1)
       else if \<not> same_provenance existing expected then (Inl OtherError, s1)
       else qc_delete (ks_client st) name s1)"

section \<open>Building a snapshot\<close>

text \<open>What the environment supplies to one build: its identifier and the times it starts and completes.\<close>

record build_stamp =
  bs_id :: ustr
  bs_started :: ustr
  bs_completed :: ustr

definition vector_dimension :: "'s knowledge_store \<Rightarrow> rat list list \<Rightarrow> exn + int" where
  "vector_dimension st vs =
     (case vs of
        [] \<Rightarrow> Inl PyValueError
      | v # _ \<Rightarrow>
          (let n = int (length v) in
           if ks_dimension st \<noteq> None \<and> ks_dimension st \<noteq> Some n then Inl PyValueError
           else if list_ex (\<lambda>w. int (length w) \<noteq> n) vs then Inl PyValueError
           else Inr n))"

definition piece_json :: "piece \<Rightarrow> jval" where
  "piece_json c =
     JObject [(lit ''chunk_id'', JText (pc_id c)), (lit ''document_id'', JText (pc_document c)),
       (lit ''title'', JText (pc_title c)), (lit ''category'', JText (pc_category c)),
       (lit ''section'', JText (pc_section c)), (lit ''source'', JText (pc_source c)),
       (lit ''chunk_index'', JInt (int (pc_index c))), (lit ''content'', JText (pc_content c))]"

definition corpus_hash :: "(jval \<Rightarrow> ustr) \<Rightarrow> piece list \<Rightarrow> ustr" where
  "corpus_hash digest cs = digest (JList (map piece_json cs))"

text \<open>What is computed before the server is asked: the chunks in order, their vectors and the metadata.\<close>

record build_plan =
  bp_chunks :: "piece list"
  bp_vectors :: "rat list list"
  bp_dimension :: int
  bp_index :: lexical_index
  bp_corpus :: ustr
  bp_lexical_hash :: ustr
  bp_hash :: ustr
  bp_name :: ustr

definition plan_build :: "'s knowledge_store \<Rightarrow> piece list \<Rightarrow> exn + build_plan" where
  "plan_build st chunks =
     (let cs = sort_key pc_id chunks in
      if cs = [] then Inl PyValueError
      else if \<not> distinct (map pc_id cs) then Inl PyValueError
      else and_then (ks_embed st (map pc_content cs)) (\<lambda>vs.
        and_then (vector_dimension st vs) (\<lambda>n.
        and_then (build_lexical_index (ks_ln st) cs) (\<lambda>ix.
          let corpus = corpus_hash (ks_digest st) cs;
              h = spec_hash (ks_digest st) \<lparr>ss_corpus = corpus, ss_provider = provider_name st,
                    ss_model = model_name st, ss_dimension = n, ss_schema = ks_schema st,
                    ss_chunking = ks_chunking st, ss_lexical = ks_lexical st\<rparr> in
          Inr \<lparr>bp_chunks = cs, bp_vectors = vs, bp_dimension = n, bp_index = ix, bp_corpus = corpus,
                bp_lexical_hash = ks_digest st (JObject (to_metadata (ks_lexical st) ix)), bp_hash = h,
                bp_name = ks_alias st @ lit ''_v_'' @ take 16 h\<rparr>))))"

definition plan_provenance :: "'s knowledge_store \<Rightarrow> build_stamp \<Rightarrow> build_plan \<Rightarrow> jobject" where
  "plan_provenance st b p =
     (let n = JInt (int (length (bp_chunks p))) in
      [(lit ''snapshot_id'', JText (bp_hash p)), (lit ''snapshot_spec_hash'', JText (bp_hash p)),
       (lit ''snapshot_spec_version'', JInt 1), (lit ''corpus_hash'', JText (bp_corpus p)),
       (lit ''corpus_version'', JText (bp_corpus p)), (lit ''chunk_count'', n), (lit ''expected_chunk_count'', n),
       (lit ''embedding_provider'', JText (provider_name st)), (lit ''embedding_model'', JText (model_name st)),
       (lit ''embedding_dimension'', JInt (bp_dimension p)), (lit ''lexical_index_version'', JInt (ks_lexical st)),
       (lit ''lexical_index_hash'', JText (bp_lexical_hash p)), (lit ''schema_version'', JInt (ks_schema st)),
       (lit ''chunking_version'', JInt (ks_chunking st)), (lit ''dense_distance'', JText (lit ''Cosine'')),
       (lit ''sparse_vector_name'', JText (lit ''lexical'')), (lit ''created_at'', JText (bs_started b)),
       (lit ''build_state'', JText snapshot_building), (lit ''build_id'', JText (bs_id b))])"

definition plan_snapshot :: "'s knowledge_store \<Rightarrow> build_stamp \<Rightarrow> build_plan \<Rightarrow> snapshot" where
  "plan_snapshot st b p =
     \<lparr>sn_id = bp_hash p, sn_hash = bp_hash p, sn_collection = bp_name p, sn_corpus = bp_corpus p,
      sn_count = int (length (bp_chunks p)), sn_provider = provider_name st, sn_model = model_name st,
      sn_dimension = bp_dimension p, sn_schema = ks_schema st, sn_chunking = ks_chunking st,
      sn_lexical = ks_lexical st, sn_lexical_hash = bp_lexical_hash p, sn_created = bs_started b,
      sn_state = snapshot_building\<rparr>"

text \<open>
  An existing collection of the name: reused (\<open>Some\<close>), deleted to be built again (\<open>None\<close>), or a reason
  to stop. Any failure of its validation counts as invalid.
\<close>

definition existing_snapshot ::
  "'s knowledge_store \<Rightarrow> bool \<Rightarrow> ustr \<Rightarrow> jobject \<Rightarrow> ('s, snapshot option) step" where
  "existing_snapshot st activated name expected s =
     after (qc_get (ks_client st) name s) (\<lambda>c s1.
       case provenance_of c of
         None \<Rightarrow> (Inl OtherError, s1)
       | Some d \<Rightarrow>
           if \<not> same_provenance d expected then (Inl OtherError, s1)
           else after (alias_target st s1) (\<lambda>current s2.
             if jis d ''build_state'' (JText snapshot_building) then (Inl OtherError, s2)
             else if jis d ''build_state'' (JText snapshot_complete) then
               after (snapshot_from_collection st name s2) (\<lambda>sn s3.
                 case validate_snapshot st sn True s3 of
                   (Inl x, s4) \<Rightarrow>
                     if current = Some name then (Inl OtherError, s4)
                     else after (delete_inactive st name d expected s4) (\<lambda>_ s5. (Inr None, s5))
                 | (Inr _, s4) \<Rightarrow>
                     if activated \<and> current \<noteq> Some name
                     then after (activate st name s4) (\<lambda>_ s5. (Inr (Some sn), s5))
                     else (Inr (Some sn), s4))
             else if current = Some name then (Inl OtherError, s2)
             else after (delete_inactive st name d expected s2) (\<lambda>_ s3. (Inr None, s3))))"

definition make_point :: "'s knowledge_store \<Rightarrow> lexical_index \<Rightarrow> piece \<times> rat list \<Rightarrow> point" where
  "make_point st ix cv =
     \<lparr>pt_id = ks_point_id st (pc_id (fst cv)), pt_vector = snd cv,
      pt_sparse = encode ix (pc_content (fst cv)), pt_payload = fst cv\<rparr>"

fun batches :: "'a list \<Rightarrow> 'a list list" where
  "batches [] = []"
| "batches (x # xs) = take 128 (x # xs) # batches (drop 127 xs)"

fun upsert_batches :: "'s knowledge_store \<Rightarrow> ustr \<Rightarrow> point list list \<Rightarrow> ('s, unit) step" where
  "upsert_batches st name [] s = (Inr (), s)"
| "upsert_batches st name (ps # pss) s =
     after (qc_upsert (ks_client st) name ps s) (\<lambda>_ s1. upsert_batches st name pss s1)"

definition fill_collection :: "'s knowledge_store \<Rightarrow> build_plan \<Rightarrow> jobject \<Rightarrow> ('s, unit) step" where
  "fill_collection st p d s =
     after (qc_create (ks_client st) (bp_name p) (bp_dimension p)
              [(lit ''lexical_index'', JObject (to_metadata (ks_lexical st) (bp_index p))),
               (lit ''knowledge_snapshot'', JObject d)] s) (\<lambda>_ s1.
       if length (bp_vectors p) \<noteq> length (bp_chunks p) then (Inl PyValueError, s1)
       else upsert_batches st (bp_name p)
              (batches (map (make_point st (bp_index p)) (zip (bp_chunks p) (bp_vectors p)))) s1)"

definition completed_provenance :: "build_stamp \<Rightarrow> jobject \<Rightarrow> jobject" where
  "completed_provenance b d =
     AList.update (lit ''completed_at'') (JText (bs_completed b))
       (AList.update (lit ''build_state'') (JText snapshot_complete) d)"

definition seal_snapshot ::
  "'s knowledge_store \<Rightarrow> build_stamp \<Rightarrow> snapshot \<Rightarrow> jobject \<Rightarrow> ('s, unit) step" where
  "seal_snapshot st b sn d s =
     after (validate_snapshot st sn False s) (\<lambda>_ s1.
       after (update_provenance st (sn_collection sn) (completed_provenance b d) s1) (\<lambda>_ s2.
         validate_snapshot st (sn\<lparr>sn_state := snapshot_complete\<rparr>) True s2))"

text \<open>
  A failed seal is marked under the provenance at hand, which differs in fields of the life cycle only;
  its build identifier is the same.
\<close>

definition build_snapshot ::
  "'s knowledge_store \<Rightarrow> build_stamp \<Rightarrow> bool \<Rightarrow> piece list \<Rightarrow> ('s, snapshot) step" where
  "build_snapshot st b activated chunks s =
     (case plan_build st chunks of
        Inl x \<Rightarrow> (Inl x, s)
      | Inr p \<Rightarrow>
          (let name = bp_name p; d = plan_provenance st b p; sn = plan_snapshot st b p in
           after (qc_exists (ks_client st) name s) (\<lambda>there s1.
             after (if there then existing_snapshot st activated name d s1 else (Inr None, s1)) (\<lambda>found s2.
               case found of
                 Some old \<Rightarrow> (Inr old, s2)
               | None \<Rightarrow>
                   after (or_mark_failed st name d (fill_collection st p d) s2) (\<lambda>_ s3.
                     after (or_mark_failed st name d (seal_snapshot st b sn d) s3) (\<lambda>_ s4.
                       let ready = sn\<lparr>sn_state := snapshot_complete\<rparr> in
                       if activated then after (activate st name s4) (\<lambda>_ s5. (Inr ready, s5))
                       else (Inr ready, s4)))))))"

definition upsert_store :: "'s knowledge_store \<Rightarrow> build_stamp \<Rightarrow> piece list \<Rightarrow> ('s, int) step" where
  "upsert_store st b chunks s =
     after (qc_exists (ks_client st) (ks_alias st) s) (\<lambda>there s1.
       after (if there then alias_target st s1 else (Inr (Some []), s1)) (\<lambda>current s2.
         if there \<and> current = None then (Inl OtherError, s2)
         else after (build_snapshot st b True chunks s2) (\<lambda>sn s3. (Inr (sn_count sn), s3))))"

end
