(* ===== verification/Snapshots_Laws.thy ===== *)
theory Snapshots_Laws
  imports Snapshots Text_Laws
begin

text \<open>
  Publishing a snapshot is safe: the alias that answers queries is only ever switched to a collection
  that is complete and valid at that moment, and the collection it points to is not touched by a build,
  whatever fails. What is relied on of the vector store is \<open>client_ok\<close>: its state has a view, calls that
  read keep the view and report it, calls that write change the named collection only, and the switch
  of the alias is atomic. No other client changes the collections meanwhile, and no alias is
  set on an inactive snapshot, whose deletion would remove the alias too.
\<close>

section \<open>The view of the server\<close>

record server_view =
  vw_collections :: "ustr \<Rightarrow> collection option"
  vw_aliases :: "ustr \<Rightarrow> ustr option"

text \<open>A call may write to one collection only, and leaves the aliases alone.\<close>

definition frame :: "ustr \<Rightarrow> server_view \<Rightarrow> server_view \<Rightarrow> bool" where
  "frame n v w \<longleftrightarrow> vw_aliases w = vw_aliases v \<and> (\<forall>m. m \<noteq> n \<longrightarrow> vw_collections w m = vw_collections v m)"

definition switched :: "ustr \<Rightarrow> ustr \<Rightarrow> server_view \<Rightarrow> server_view" where
  "switched a n v = v\<lparr>vw_aliases := (vw_aliases v)(a \<mapsto> n)\<rparr>"

definition reads_ok :: "'s client \<Rightarrow> ('s \<Rightarrow> server_view) \<Rightarrow> bool" where
  "reads_ok q view \<longleftrightarrow> (\<forall>s n.
     view (snd (qc_exists q n s)) = view s \<and> view (snd (qc_get q n s)) = view s \<and>
     view (snd (qc_aliases q s)) = view s \<and>
     (\<forall>b. vw_aliases (view s) n = None \<longrightarrow> fst (qc_exists q n s) = Inr b \<longrightarrow> (b \<longleftrightarrow> vw_collections (view s) n \<noteq> None)) \<and>
     (\<forall>c. vw_aliases (view s) n = None \<longrightarrow> fst (qc_get q n s) = Inr c \<longrightarrow> vw_collections (view s) n = Some c) \<and>
     (\<forall>xs. fst (qc_aliases q s) = Inr xs \<longrightarrow> map_of xs = vw_aliases (view s)))"

definition writes_ok :: "'s client \<Rightarrow> ('s \<Rightarrow> server_view) \<Rightarrow> bool" where
  "writes_ok q view \<longleftrightarrow> (\<forall>s n k d ps.
     frame n (view s) (view (snd (qc_create q n k d s))) \<and> frame n (view s) (view (snd (qc_upsert q n ps s))) \<and>
     frame n (view s) (view (snd (qc_update q n d s))) \<and> frame n (view s) (view (snd (qc_delete q n s))))"

definition switch_ok :: "'s client \<Rightarrow> ('s \<Rightarrow> server_view) \<Rightarrow> bool" where
  "switch_ok q view \<longleftrightarrow> (\<forall>s b n a.
     (case qc_switch q b n a s of
        (Inl x, s') \<Rightarrow> view s' = view s \<or> view s' = switched a n (view s)
      | (Inr _, s') \<Rightarrow> view s' = switched a n (view s)))"

definition client_ok :: "'s client \<Rightarrow> ('s \<Rightarrow> server_view) \<Rightarrow> bool" where
  "client_ok q view \<longleftrightarrow> reads_ok q view \<and> writes_ok q view \<and> switch_ok q view"

text \<open>No alias of the server has the name of a snapshot of this store.\<close>

definition names_apart :: "'s knowledge_store \<Rightarrow> server_view \<Rightarrow> bool" where
  "names_apart st v \<longleftrightarrow> (\<forall>h. vw_aliases v (ks_alias st @ lit ''_v_'' @ h) = None)"

section \<open>Frames of the operations\<close>

lemma frame_refl [simp]: "frame n v v"
  by (simp add: frame_def)

lemma frame_trans [trans]: "frame n u v \<Longrightarrow> frame n v w \<Longrightarrow> frame n u w"
  by (simp add: frame_def)

text \<open>
  Rules to follow a program from call to call: what is shown of the view holds after a step if the step
  establishes it and the continuation keeps it.
\<close>

lemma after_rule:
  assumes "P (snd q)" and "\<And>a t. q = (Inr a, t) \<Longrightarrow> P t \<Longrightarrow> P (snd (f a t))"
  shows "P (snd (after q f))"
proof (cases q)
  case (Pair r t)
  then show ?thesis using assms by (cases r) auto
qed

definition seen :: "(server_view \<Rightarrow> bool) \<Rightarrow> ('s \<Rightarrow> server_view) \<Rightarrow> 's \<Rightarrow> bool" where
  "seen R view s \<longleftrightarrow> R (view s)"

definition frame_closed :: "ustr \<Rightarrow> (server_view \<Rightarrow> bool) \<Rightarrow> bool" where
  "frame_closed n R \<longleftrightarrow> (\<forall>v w. R v \<longrightarrow> frame n v w \<longrightarrow> R w)"

lemma seen_control:
  "seen R view (snd q) \<Longrightarrow> (\<And>a t. q = (Inr a, t) \<Longrightarrow> seen R view t \<Longrightarrow> seen R view (snd (f a t))) \<Longrightarrow>
     seen R view (snd (after q f))"
  "(b \<Longrightarrow> seen R view (snd x)) \<Longrightarrow> (\<not> b \<Longrightarrow> seen R view (snd y)) \<Longrightarrow> seen R view (snd (if b then x else y))"
  "seen R view s \<Longrightarrow> seen R view (snd (r, s))"
  "(ox = None \<Longrightarrow> seen R view (snd x)) \<Longrightarrow> (\<And>a. ox = Some a \<Longrightarrow> seen R view (snd (g a))) \<Longrightarrow>
     seen R view (snd (case ox of None \<Rightarrow> x | Some a \<Rightarrow> g a))"
  by (rule after_rule) (auto split: option.split)

lemma seen_calls:
  assumes "client_ok (ks_client st) view" and "seen R view s"
  shows "seen R view (snd (qc_exists (ks_client st) m s))" "seen R view (snd (qc_get (ks_client st) m s))"
    "seen R view (snd (qc_aliases (ks_client st) s))"
  using assms unfolding seen_def client_ok_def reads_ok_def by metis+

lemma seen_writes:
  assumes "client_ok (ks_client st) view" and "frame_closed n R" and "seen R view s"
  shows "seen R view (snd (qc_create (ks_client st) n k d s))" "seen R view (snd (qc_upsert (ks_client st) n ps s))"
    "seen R view (snd (qc_update (ks_client st) n d s))" "seen R view (snd (qc_delete (ks_client st) n s))"
  using assms unfolding seen_def client_ok_def writes_ok_def frame_closed_def by metis+

lemma seen_reads:
  assumes "client_ok (ks_client st) view" and "seen R view s"
  shows "seen R view (snd (alias_target st s))" "seen R view (snd (snapshot_from_collection st m s))"
    "seen R view (snd (validate_snapshot st sn b s))"
  unfolding alias_target_def snapshot_from_collection_def validate_snapshot_def
  by (assumption | rule seen_control seen_calls assms)+

lemma seen_changes:
  assumes "client_ok (ks_client st) view" and "frame_closed n R" and "seen R view s"
  shows "seen R view (snd (update_provenance st n d s))" "seen R view (snd (mark_failed st n d s))"
    "seen R view (snd (delete_inactive st n d e s))" "seen R view (snd (upsert_batches st n pss s))"
proof -
  note calls = seen_control seen_calls [OF assms(1)] seen_reads [OF assms(1)] seen_writes [OF assms(1,2)]
  have u: "seen R view (snd (update_provenance st n d s))" if "seen R view s" for s d
    unfolding update_provenance_def by (assumption | rule calls that)+
  show "seen R view (snd (update_provenance st n d s))" by (rule u [OF assms(3)])
  show "seen R view (snd (mark_failed st n d s))"
    unfolding mark_failed_def by (assumption | rule calls u assms(3))+
  show "seen R view (snd (delete_inactive st n d e s))"
    unfolding delete_inactive_def by (assumption | rule calls assms(3))+
  show "seen R view (snd (upsert_batches st n pss s))"
    using assms(3)
    by (induction pss arbitrary: s) (simp, simp only: upsert_batches.simps, (assumption | rule calls | elim meta_mp)+)
qed

lemma seen_or_mark:
  assumes "client_ok (ks_client st) view" and "frame_closed n R" and "seen R view (snd (m s))"
  shows "seen R view (snd (or_mark_failed st n d m s))"
  using assms seen_changes(2) [OF assms(1,2)]
  by (auto simp: or_mark_failed_def split: prod.splits sum.splits)

lemma seen_build_steps:
  assumes "client_ok (ks_client st) view" and "frame_closed (bp_name p) R" and "seen R view s"
  shows "seen R view (snd (or_mark_failed st (bp_name p) d (fill_collection st p e) s))"
    and "sn_collection sn = bp_name p \<Longrightarrow>
      seen R view (snd (or_mark_failed st (bp_name p) d (seal_snapshot st b sn e) s))"
proof -
  note calls = seen_control seen_reads [OF assms(1)] seen_writes [OF assms(1,2)] seen_changes [OF assms(1,2)]
  show "seen R view (snd (or_mark_failed st (bp_name p) d (fill_collection st p e) s))"
    by (rule seen_or_mark [OF assms(1,2)], unfold fill_collection_def) (assumption | rule calls assms(3))+
  show "sn_collection sn = bp_name p \<Longrightarrow>
      seen R view (snd (or_mark_failed st (bp_name p) d (seal_snapshot st b sn e) s))"
    by (rule seen_or_mark [OF assms(1,2)], simp only: seal_snapshot_def) (assumption | rule calls assms(3))+
qed

section \<open>Switching the alias\<close>

lemma alias_read:
  assumes "client_ok (ks_client st) view" and "alias_target st s = (Inr current, t)"
  shows "current = vw_aliases (view s) (ks_alias st) \<and> view t = view s"
proof -
  obtain xs where "qc_aliases (ks_client st) s = (Inr xs, t)" "current = map_of xs (ks_alias st)"
    using assms(2) by (cases "qc_aliases (ks_client st) s"; cases "fst (qc_aliases (ks_client st) s)")
      (auto simp: alias_target_def)
  then show ?thesis using assms(1) by (metis client_ok_def reads_ok_def fst_conv snd_conv)
qed

lemma after_result:
  "after q f = (r, t) \<Longrightarrow> (\<exists>x. q = (Inl x, t) \<and> r = Inl x) \<or> (\<exists>a s. q = (Inr a, s) \<and> f a s = (r, t))"
  by (cases q; cases "fst q") auto

lemma snd_after_return [simp]: "snd (after q (\<lambda>a t. (Inr (g a), t))) = snd q"
  by (cases q; cases "fst q") auto

text \<open>A read leaves the view as it was.\<close>

lemma silent_reads:
  assumes "client_ok (ks_client st) view"
  shows "qc_exists (ks_client st) n s = (r1, t) \<Longrightarrow> view t = view s"
    "qc_get (ks_client st) n s = (r2, t) \<Longrightarrow> view t = view s"
    "alias_target st s = (r3, t) \<Longrightarrow> view t = view s"
    "snapshot_from_collection st n s = (r4, t) \<Longrightarrow> view t = view s"
    "validate_snapshot st sn b s = (r5, t) \<Longrightarrow> view t = view s"
  using seen_calls [OF assms, of "\<lambda>w. w = view s" s] seen_reads [OF assms, of "\<lambda>w. w = view s" s]
  unfolding seen_def by (metis snd_conv)+

lemma validated:
  assumes "client_ok (ks_client st) view" and "validate_snapshot st sn b s = (Inr u, t)"
    and "vw_aliases (view s) (sn_collection sn) = None"
  shows "\<exists>c. vw_collections (view s) (sn_collection sn) = Some c \<and> snapshot_valid st sn b c"
proof -
  obtain c t' where "qc_get (ks_client st) (sn_collection sn) s = (Inr c, t')" "snapshot_valid st sn b c"
    using assms(2) by (auto simp: validate_snapshot_def dest!: after_result split: if_splits)
  then show ?thesis using assms(1,3) by (metis client_ok_def reads_ok_def fst_conv)
qed

lemma snapshot_from_name: "snapshot_from_collection st n s = (Inr sn, t) \<Longrightarrow> sn_collection sn = n"
  by (auto simp: snapshot_from_collection_def read_snapshot_def and_then_Inr_iff dest!: after_result
      split: option.splits)

text \<open>The collection that an alias is switched to, at the moment of the switch.\<close>

definition publishable :: "'s knowledge_store \<Rightarrow> server_view \<Rightarrow> ustr \<Rightarrow> bool" where
  "publishable st v n \<longleftrightarrow>
     (\<exists>c sn. vw_collections v n = Some c \<and> sn_collection sn = n \<and> snapshot_valid st sn True c)"

lemma switch_result:
  assumes "client_ok (ks_client st) view" and "qc_switch (ks_client st) b n a s = (r, t)"
  shows "view t = view s \<and> r \<noteq> Inr () \<or> view t = switched a n (view s)"
proof -
  have "case qc_switch (ks_client st) b n a s of
      (Inl x, s') \<Rightarrow> view s' = view s \<or> view s' = switched a n (view s)
    | (Inr _, s') \<Rightarrow> view s' = switched a n (view s)"
    using assms(1) unfolding client_ok_def switch_ok_def by (elim conjE allE)
  then show ?thesis using assms(2) by (cases r) auto
qed

lemma activate_effect:
  assumes "client_ok (ks_client st) view" and "activate st n s = (r, t)" and "vw_aliases (view s) n = None"
  shows "view t = view s \<and> r \<noteq> Inr () \<or> view t = switched (ks_alias st) n (view s) \<and> publishable st (view s) n"
proof -
  note silent = silent_reads [OF assms(1)]
  obtain r1 s1 where 1: "qc_exists (ks_client st) n s = (r1, s1)" by fastforce
  then have v1: "view s1 = view s" by (rule silent)
  show ?thesis
  proof (cases "r1 = Inr True")
    case False
    then show ?thesis using assms(2) 1 v1 by (cases r1) (auto simp: activate_def)
  next
    case True
    obtain r2 s2 where 2: "snapshot_from_collection st n s1 = (r2, s2)" by fastforce
    show ?thesis
    proof (cases r2)
      case (Inl x)
      then show ?thesis using assms(2) 1 2 v1 True silent(4) [OF 2] by (auto simp: activate_def)
    next
      case (Inr sn)
      obtain r3 s3 where 3: "validate_snapshot st sn True s2 = (r3, s3)" by fastforce
      obtain r4 s4 where 4: "alias_target st s3 = (r4, s4)" by fastforce
      have v: "view s2 = view s" "view s3 = view s" "view s4 = view s"
        using v1 silent(4) [OF 2] silent(5) [OF 3] silent(3) [OF 4] by simp_all
      show ?thesis
      proof (cases "\<exists>x. r3 = Inl x \<or> r4 = Inl x")
        case True
        then show ?thesis using assms(2) 1 2 3 4 \<open>r1 = Inr True\<close> Inr v by (cases r3) (auto simp: activate_def)
      next
        case False
        then obtain u current where ok: "r3 = Inr u" "r4 = Inr current" by (cases r3; cases r4) auto
        have "qc_switch (ks_client st) (current \<noteq> None) n (ks_alias st) s4 = (r, t)"
          using assms(2) 1 2 3 4 \<open>r1 = Inr True\<close> Inr ok by (simp add: activate_def)
        then have "view t = view s4 \<and> r \<noteq> Inr () \<or> view t = switched (ks_alias st) n (view s4)"
          by (rule switch_result [OF assms(1)])
        moreover have "publishable st (view s) n"
          using validated [OF assms(1) 3 [unfolded ok]] snapshot_from_name [OF 2 [unfolded Inr]] assms(3)
          by (auto simp: publishable_def v)
        ultimately show ?thesis by (simp add: v)
      qed
    qed
  qed
qed

section \<open>Operations of the store\<close>

datatype store_op = Build build_stamp bool "piece list" | Upsert build_stamp "piece list" | Activate ustr | Rollback ustr

fun run_op :: "'s knowledge_store \<Rightarrow> store_op \<Rightarrow> ('s, int) step" where
  "run_op st (Build b activated cs) s = after (build_snapshot st b activated cs s) (\<lambda>sn t. (Inr (sn_count sn), t))"
| "run_op st (Upsert b cs) s = upsert_store st b cs s"
| "run_op st (Activate n) s = after (activate st n s) (\<lambda>_ t. (Inr 0, t))"
| "run_op st (Rollback n) s = after (rollback_to st n s) (\<lambda>_ t. (Inr 0, t))"

text \<open>The collection an operator names is no alias.\<close>

fun names_ok :: "'s knowledge_store \<Rightarrow> store_op \<Rightarrow> server_view \<Rightarrow> bool" where
  "names_ok st (Activate n) v = (vw_aliases v n = None)"
| "names_ok st (Rollback n) v = (vw_aliases v n = None)"
| "names_ok st _ v = names_apart st v"

text \<open>From one view to another: the alias stays, or is switched to a publishable collection.\<close>

definition published :: "'s knowledge_store \<Rightarrow> server_view \<Rightarrow> server_view \<Rightarrow> bool" where
  "published st v w \<longleftrightarrow> vw_aliases w = vw_aliases v \<or>
     (\<exists>n. vw_aliases w = (vw_aliases v)(ks_alias st \<mapsto> n) \<and> publishable st w n)"

lemma published_same: "vw_aliases w = vw_aliases v \<Longrightarrow> published st v w"
  by (simp add: published_def)

lemma activate_published:
  assumes "client_ok (ks_client st) view" and "vw_aliases v n = None" and "vw_aliases (view s) = vw_aliases v"
  shows "published st v (view (snd (activate st n s)))"
  using activate_effect [OF assms(1), of n s "fst (activate st n s)" "snd (activate st n s)"] assms(2,3)
  by (auto simp: published_def switched_def publishable_def)

text \<open>Results of a step from a view: the alias stays or is published, and a result without a snapshot leaves it.\<close>

definition settled ::
  "'s knowledge_store \<Rightarrow> ('s \<Rightarrow> server_view) \<Rightarrow> server_view \<Rightarrow> ('a \<Rightarrow> bool) \<Rightarrow> (exn + 'a) \<times> 's \<Rightarrow> bool" where
  "settled st view v leaves q \<longleftrightarrow> published st v (view (snd q)) \<and>
     (\<forall>a. fst q = Inr a \<longrightarrow> leaves a \<longrightarrow> vw_aliases (view (snd q)) = vw_aliases v)"

lemma settled_control:
  "vw_aliases (view t) = vw_aliases v \<Longrightarrow> settled st view v leaves (r, t)"
  "(b \<Longrightarrow> settled st view v leaves x) \<Longrightarrow> (\<not> b \<Longrightarrow> settled st view v leaves y) \<Longrightarrow>
     settled st view v leaves (if b then x else y)"
  "(ox = None \<Longrightarrow> settled st view v leaves x) \<Longrightarrow> (\<And>a. ox = Some a \<Longrightarrow> settled st view v leaves (g a)) \<Longrightarrow>
     settled st view v leaves (case ox of None \<Rightarrow> x | Some a \<Rightarrow> g a)"
  "vw_aliases (view (snd q)) = vw_aliases v \<Longrightarrow>
     (\<And>a t. q = (Inr a, t) \<Longrightarrow> vw_aliases (view t) = vw_aliases v \<Longrightarrow> settled st view v leaves (f a t)) \<Longrightarrow>
     settled st view v leaves (after q f)"
proof -
  show "settled st view v leaves (after q f)"
    if "vw_aliases (view (snd q)) = vw_aliases v"
      "\<And>a t. q = (Inr a, t) \<Longrightarrow> vw_aliases (view t) = vw_aliases v \<Longrightarrow> settled st view v leaves (f a t)"
  proof (cases q)
    case (Pair r t)
    then show ?thesis using that by (cases r) (auto simp: settled_def published_same)
  qed
qed (auto simp: settled_def published_same split: option.split)

lemma same_aliases:
  assumes "client_ok (ks_client st) view" and "vw_aliases (view s) = A"
  shows "vw_aliases (view (snd (qc_exists (ks_client st) m s))) = A"
    "vw_aliases (view (snd (qc_get (ks_client st) m s))) = A"
    "vw_aliases (view (snd (alias_target st s))) = A"
    "vw_aliases (view (snd (snapshot_from_collection st m s))) = A"
    "vw_aliases (view (snd (validate_snapshot st sn b s))) = A"
    "vw_aliases (view (snd (delete_inactive st m d e s))) = A"
    "vw_aliases (view (snd (or_mark_failed st (bp_name p) d (fill_collection st p e) s))) = A"
    "sn_collection sn = bp_name p \<Longrightarrow>
      vw_aliases (view (snd (or_mark_failed st (bp_name p) d (seal_snapshot st bs sn e) s))) = A"
proof -
  have R: "seen (\<lambda>w. vw_aliases w = A) view s" using assms(2) by (simp add: seen_def)
  have closed: "frame_closed n (\<lambda>w. vw_aliases w = A)" for n by (simp add: frame_closed_def frame_def)
  note all = seen_calls [OF assms(1) R] seen_reads [OF assms(1) R] seen_changes [OF assms(1) closed R]
    seen_build_steps [OF assms(1) closed R]
  show "vw_aliases (view (snd (qc_exists (ks_client st) m s))) = A"
    "vw_aliases (view (snd (qc_get (ks_client st) m s))) = A"
    "vw_aliases (view (snd (alias_target st s))) = A"
    "vw_aliases (view (snd (snapshot_from_collection st m s))) = A"
    "vw_aliases (view (snd (validate_snapshot st sn b s))) = A"
    "vw_aliases (view (snd (delete_inactive st m d e s))) = A"
    "vw_aliases (view (snd (or_mark_failed st (bp_name p) d (fill_collection st p e) s))) = A"
    "sn_collection sn = bp_name p \<Longrightarrow>
      vw_aliases (view (snd (or_mark_failed st (bp_name p) d (seal_snapshot st bs sn e) s))) = A"
    by (rule all [unfolded seen_def] | assumption)+
qed

lemma settled_activate:
  assumes "client_ok (ks_client st) view" and "vw_aliases v n = None" and "vw_aliases (view s) = vw_aliases v"
    and "\<not> leaves b"
  shows "settled st view v leaves (after (activate st n s) (\<lambda>_ t. (Inr b, t)))"
proof -
  obtain r t where a: "activate st n s = (r, t)" by fastforce
  have "published st v (view t)" using activate_published [OF assms(1-3)] a by simp
  then show ?thesis using a assms(4) by (cases r) (auto simp: settled_def)
qed

lemma rollback_settled:
  assumes "client_ok (ks_client st) view" and "vw_aliases v n = None" and "vw_aliases (view s) = vw_aliases v"
  shows "settled st view v (\<lambda>_. False) (rollback_to st n s)"
  unfolding rollback_to_def
  apply (rule settled_control(4), rule same_aliases [OF assms(1,3)])
  apply (rule settled_control(4), erule same_aliases [OF assms(1)])
  apply (simp add: settled_def activate_published [OF assms(1,2)])
  done

lemma settled_weaken: "settled st view v p q \<Longrightarrow> published st v (view (snd q))"
  by (simp add: settled_def)

lemma settled_case:
  assumes "vw_aliases (view (snd q)) = vw_aliases v"
    and "\<And>x t. q = (Inl x, t) \<Longrightarrow> vw_aliases (view t) = vw_aliases v \<Longrightarrow> settled st view v leaves (g x t)"
    and "\<And>u t. q = (Inr u, t) \<Longrightarrow> vw_aliases (view t) = vw_aliases v \<Longrightarrow> settled st view v leaves (h u t)"
  shows "settled st view v leaves (case q of (Inl x, t) \<Rightarrow> g x t | (Inr u, t) \<Rightarrow> h u t)"
  using assms by (cases q; cases "fst q") auto

lemma settled_after:
  assumes "settled st view v p q"
    and "\<And>a t. p a \<Longrightarrow> vw_aliases (view t) = vw_aliases v \<Longrightarrow> settled st view v leaves (f a t)"
    and "\<And>a t. \<not> p a \<Longrightarrow> published st v (view t) \<Longrightarrow> settled st view v leaves (f a t)"
  shows "settled st view v leaves (after q f)"
proof (cases q)
  case (Pair r t)
  show ?thesis
  proof (cases r)
    case (Inr a)
    then show ?thesis using assms(1) Pair assms(2,3) [of a t] by (cases "p a") (auto simp: settled_def)
  qed (use assms(1) Pair in \<open>auto simp: settled_def\<close>)
qed

lemma existing_settled:
  assumes "client_ok (ks_client st) view" and "vw_aliases v n = None" and "vw_aliases (view s) = vw_aliases v"
  shows "settled st view v (\<lambda>found. found = None) (existing_snapshot st activated n e s)"
  unfolding existing_snapshot_def
  by (assumption | rule settled_activate [OF assms(1,2)] settled_control settled_case same_aliases [OF assms(1)]
      assms(3) | simp)+

lemma plan_name:
  assumes "plan_build st cs = Inr p"
  shows "bp_name p = ks_alias st @ lit ''_v_'' @ take 16 (bp_hash p)"
  using assms by (auto simp: plan_build_def Let_def and_then_Inr_iff split: if_splits)

lemma build_settled:
  assumes ok: "client_ok (ks_client st) view" and "names_apart st v" and "vw_aliases (view s) = vw_aliases v"
  shows "settled st view v (\<lambda>_. False) (build_snapshot st b activated cs s)"
proof (cases "plan_build st cs")
  case (Inl x)
  then show ?thesis using assms(3) by (simp add: build_snapshot_def settled_control(1))
next
  case (Inr p)
  have name: "vw_aliases v (bp_name p) = None"
    using assms(2) plan_name [OF Inr] by (auto simp: names_apart_def)
  note steps = same_aliases [OF ok]
  show ?thesis
    unfolding build_snapshot_def Inr sum.case Let_def
    apply (rule settled_control(4), rule steps(1), rule assms(3))
    apply (rule settled_after [where p = "\<lambda>found. found = None"])
      apply (rule settled_control(2))
       apply (erule existing_settled [OF ok name])
      apply (simp add: settled_control(1))
     apply (simp only: option.case)
     apply (rule settled_control(4), erule steps)+
      apply (simp add: plan_snapshot_def)
     apply (rule settled_control(2))
      apply (rule settled_activate [OF ok name], assumption, simp)
     apply (erule settled_control(1))
    apply (auto simp: settled_def)
    done
qed

lemma upsert_settled:
  assumes ok: "client_ok (ks_client st) view" and "names_apart st v" and "vw_aliases (view s) = vw_aliases v"
  shows "settled st view v (\<lambda>_. False) (upsert_store st b cs s)"
  unfolding upsert_store_def
  apply (rule settled_control(4), rule same_aliases [OF ok assms(3)])
  apply (rule settled_control(4))
   apply (auto intro: same_aliases [OF ok]) []
  apply (rule settled_control(2), erule settled_control(1))
  apply (rule settled_after, erule build_settled [OF ok assms(2)])
   apply (auto simp: settled_def)
  done

section \<open>The collection that answers queries\<close>

lemma seen_switch:
  assumes "client_ok (ks_client st) view" and "\<And>a m v. R v \<Longrightarrow> R (switched a m v)" and "seen R view s"
  shows "seen R view (snd (qc_switch (ks_client st) b n a s))"
    "seen R view (snd (activate st n s))"
proof -
  have sw: "seen R view (snd (qc_switch (ks_client st) b n a s))" if "seen R view s" for b a s
    using switch_result [OF assms(1), of b n a s "fst (qc_switch (ks_client st) b n a s)"
        "snd (qc_switch (ks_client st) b n a s)"] assms(2) that
    by (auto simp: seen_def)
  show "seen R view (snd (qc_switch (ks_client st) b n a s))" by (rule sw [OF assms(3)])
  show "seen R view (snd (activate st n s))"
    unfolding activate_def
    by (assumption | rule seen_control sw seen_calls [OF assms(1)] seen_reads [OF assms(1)] assms(3))+
qed

lemma seen_case:
  assumes "seen R view (snd q)"
    and "\<And>x t. q = (Inl x, t) \<Longrightarrow> seen R view t \<Longrightarrow> seen R view (snd (g x t))"
    and "\<And>u t. q = (Inr u, t) \<Longrightarrow> seen R view t \<Longrightarrow> seen R view (snd (h u t))"
  shows "seen R view (snd (case q of (Inl x, t) \<Rightarrow> g x t | (Inr u, t) \<Rightarrow> h u t))"
  using assms by (cases q; cases "fst q") auto

lemma seen_build:
  assumes ok: "client_ok (ks_client st) view" and "plan_build st cs = Inr p"
    and cl: "frame_closed (bp_name p) R" and sw: "\<And>a m v. R v \<Longrightarrow> R (switched a m v)" and "seen R view s"
  shows "seen R view (snd (build_snapshot st b activated cs s))"
proof -
  note calls = seen_control seen_case seen_calls [OF ok] seen_reads [OF ok] seen_changes [OF ok cl]
    seen_build_steps [OF ok cl]
    seen_switch(2) [OF ok, of R, OF sw]
  have "seen R view (snd (existing_snapshot st activated (bp_name p) e s))" if "seen R view s" for e s
    unfolding existing_snapshot_def by (assumption | rule calls that)+
  note calls = this calls
  show ?thesis
    unfolding build_snapshot_def assms(2) sum.case Let_def
    by (assumption | rule calls assms(5) | simp add: plan_snapshot_def)+
qed

text \<open>The collection behind the alias is never deleted to be built again.\<close>

lemma existing_active:
  assumes ok: "client_ok (ks_client st) view" and "vw_aliases (view s) (ks_alias st) = Some n"
    and "existing_snapshot st activated n e s = (r, t)"
  shows "view t = view s \<and> r \<noteq> Inr None"
proof -
  have raised: "alias_target st s = (Inl x, t) \<Longrightarrow> view t = view s" for s x t by (rule silent_reads(3) [OF ok])
  note silent = silent_reads(1,2,4,5) [OF ok] raised alias_read [OF ok]
  show ?thesis
    using assms(2,3)
    by (auto simp: existing_snapshot_def delete_inactive_def dest!: after_result silent
        split: option.splits if_splits prod.splits sum.splits)
qed

lemma exists_read:
  assumes "client_ok (ks_client st) view" and "qc_exists (ks_client st) n s = (Inr b, t)"
    and "vw_aliases (view s) n = None"
  shows "b \<longleftrightarrow> vw_collections (view s) n \<noteq> None"
  using assms by (metis client_ok_def reads_ok_def fst_conv)

lemma build_active:
  assumes ok: "client_ok (ks_client st) view" and plan: "plan_build st cs = Inr p"
    and active: "vw_aliases (view s) (ks_alias st) = Some (bp_name p)"
    and name: "vw_aliases (view s) (bp_name p) = None" and "vw_collections (view s) (bp_name p) \<noteq> None"
  shows "view (snd (build_snapshot st b activated cs s)) = view s"
proof -
  obtain r t where e: "qc_exists (ks_client st) (bp_name p) s = (r, t)" by fastforce
  then have v: "view t = view s" by (rule silent_reads [OF ok])
  obtain r' t' where ex: "existing_snapshot st activated (bp_name p) (plan_provenance st b p) t = (r', t')"
    by fastforce
  have t': "view t' = view t \<and> r' \<noteq> Inr None" using existing_active [OF ok _ ex] active v by simp
  show ?thesis
  proof (cases r)
    case (Inr there)
    then have there using exists_read [OF ok e [unfolded Inr] name] assms(5) by simp
    then show ?thesis using plan e ex Inr t' v by (cases r') (auto simp: build_snapshot_def Let_def)
  qed (use plan e v in \<open>simp add: build_snapshot_def Let_def\<close>)
qed

lemma build_keeps:
  assumes ok: "client_ok (ks_client st) view" and "names_apart st (view s)"
    and active: "vw_aliases (view s) (ks_alias st) = Some n" and c: "vw_collections (view s) n = Some c"
  shows "vw_collections (view (snd (build_snapshot st b activated cs s))) n = Some c"
proof (cases "plan_build st cs")
  case (Inr p)
  have name: "vw_aliases (view s) (bp_name p) = None"
    using assms(2) plan_name [OF Inr] by (simp add: names_apart_def)
  show ?thesis
  proof (cases "n = bp_name p")
    case True
    then show ?thesis using build_active [OF ok Inr _ name] active c by simp
  next
    case False
    have "seen (\<lambda>w. vw_collections w n = Some c) view (snd (build_snapshot st b activated cs s))"
      by (rule seen_build [OF ok Inr]) (use False c in \<open>auto simp: frame_closed_def frame_def switched_def seen_def\<close>)
    then show ?thesis by (simp add: seen_def)
  qed
qed (use c in \<open>simp add: build_snapshot_def\<close>)

lemma seen_step:
  assumes "seen R view (snd q)" and "\<And>w. R w \<Longrightarrow> S w" and "\<And>a t. seen R view t \<Longrightarrow> seen S view (snd (f a t))"
  shows "seen S view (snd (after q f))"
  using assms by (cases q; cases "fst q") (auto simp: seen_def)

lemma upsert_keeps:
  assumes ok: "client_ok (ks_client st) view" and apart: "names_apart st (view s)"
    and active: "vw_aliases (view s) (ks_alias st) = Some n" and c: "vw_collections (view s) n = Some c"
  shows "vw_collections (view (snd (upsert_store st b cs s))) n = Some c"
proof -
  let ?R = "seen (\<lambda>w. vw_aliases w = vw_aliases (view s) \<and> vw_collections w n = Some c) view"
  let ?S = "seen (\<lambda>w. vw_collections w n = Some c) view"
  have R: "?R s" using c by (simp add: seen_def)
  have weaken: "?R w \<Longrightarrow> ?S w" for w by (simp add: seen_def)
  note step = seen_step [where R = "\<lambda>w. vw_aliases w = vw_aliases (view s) \<and> vw_collections w n = Some c"]
  have build: "?S (snd (build_snapshot st b True cs w))" if "?R w" for w
    using build_keeps [OF ok, of w n c b True cs] that apart active by (auto simp: seen_def names_apart_def)
  have "?S (snd (upsert_store st b cs s))"
    unfolding upsert_store_def
    apply (rule step, rule seen_calls [OF ok R], erule conjunct2)
    apply (rule step [rotated], erule conjunct2)
     prefer 2 apply (rule seen_control(2), erule seen_reads [OF ok], erule seen_control(3))
    apply (rule seen_control(2), rule seen_control(3), erule weaken)
    apply (rule seen_control(1), erule build, erule seen_control(3))
    done
  then show ?thesis by (simp add: seen_def)
qed

section \<open>A successful build\<close>

text \<open>The alias points to the collection of the snapshot, which is complete and valid.\<close>

definition serves :: "'s knowledge_store \<Rightarrow> server_view \<Rightarrow> snapshot \<Rightarrow> bool" where
  "serves st v sn \<longleftrightarrow> vw_aliases v (ks_alias st) = Some (sn_collection sn) \<and>
     (\<exists>c. vw_collections v (sn_collection sn) = Some c \<and> snapshot_valid st sn True c)"

lemma serves_switched: "serves st (switched (ks_alias st) (sn_collection sn) v) sn \<longleftrightarrow>
    (\<exists>c. vw_collections v (sn_collection sn) = Some c \<and> snapshot_valid st sn True c)"
  by (simp add: serves_def switched_def)

lemma activated_serves:
  assumes ok: "client_ok (ks_client st) view" and "activate st (sn_collection sn) s = (Inr u, t)"
    and "vw_aliases (view s) (sn_collection sn) = None"
    and "\<exists>c. vw_collections (view s) (sn_collection sn) = Some c \<and> snapshot_valid st sn True c"
  shows "serves st (view t) sn"
  using activate_effect [OF ok assms(2,3)] assms(4) by (auto simp: serves_switched)

lemma existing_reused:
  assumes ok: "client_ok (ks_client st) view" and name: "vw_aliases (view s) n = None"
    and run: "existing_snapshot st True n e s = (Inr (Some sn), t)"
  shows "serves st (view t) sn"
proof -
  obtain s2 s3 s4 current u where a: "alias_target st s2 = (Inr current, s3)" and v2: "view s2 = view s"
    and r: "snapshot_from_collection st n s3 = (Inr sn, s4)"
    and q: "(\<exists>w. validate_snapshot st sn True s4 = (Inr u, w) \<and>
      (current \<noteq> Some n \<and> activate st n w = (Inr u, t) \<or> current = Some n \<and> w = t))"
    using run by (auto simp: existing_snapshot_def dest!: after_result silent_reads(2) [OF ok]
      split: option.splits if_splits prod.splits sum.splits)
  then obtain w where val: "validate_snapshot st sn True s4 = (Inr u, w)"
    and w: "current \<noteq> Some n \<and> activate st n w = (Inr u, t) \<or> current = Some n \<and> w = t" by blast
  have n: "sn_collection sn = n" by (rule snapshot_from_name [OF r])
  have v: "view s4 = view s" "view w = view s" and c: "current = vw_aliases (view s) (ks_alias st)"
    using alias_read [OF ok a] silent_reads(4) [OF ok r] silent_reads(5) [OF ok val] v2 by simp_all
  have valid: "\<exists>c. vw_collections (view s) n = Some c \<and> snapshot_valid st sn True c"
    using validated [OF ok val] name by (simp add: v n)
  from w show ?thesis
  proof
    assume "current \<noteq> Some n \<and> activate st n w = (Inr u, t)"
    then show ?thesis using activated_serves [OF ok, of sn w u t] valid name by (simp add: n v)
  next
    assume "current = Some n \<and> w = t"
    then show ?thesis using valid c v by (simp add: serves_def n)
  qed
qed

lemma sealed:
  assumes ok: "client_ok (ks_client st) view" and name: "vw_aliases (view s) (sn_collection sn) = None"
    and run: "or_mark_failed st m d (seal_snapshot st b sn e) s = (Inr u, t)"
  shows "\<exists>c. vw_collections (view t) (sn_collection sn) = Some c \<and>
    snapshot_valid st (sn\<lparr>sn_state := snapshot_complete\<rparr>) True c"
proof -
  have seal: "seal_snapshot st b sn e s = (Inr u, t)"
    using run by (auto simp: or_mark_failed_def split: prod.splits sum.splits)
  then obtain s1 s2 u1 u2 where 1: "validate_snapshot st sn False s = (Inr u1, s1)"
    and 2: "update_provenance st (sn_collection sn) (completed_provenance b e) s1 = (Inr u2, s2)"
    and 3: "validate_snapshot st (sn\<lparr>sn_state := snapshot_complete\<rparr>) True s2 = (Inr u, t)"
    by (auto simp: seal_snapshot_def dest!: after_result)
  let ?A = "\<lambda>w. vw_aliases w (sn_collection sn) = None"
  have "seen ?A view s1" using silent_reads(5) [OF ok 1] name by (simp add: seen_def)
  then have "seen ?A view s2"
    using seen_changes(1) [OF ok, of "sn_collection sn" ?A s1] 2
    by (metis (mono_tags, lifting) frame_closed_def frame_def snd_conv)
  then show ?thesis using validated [OF ok 3] silent_reads(5) [OF ok 3] by (simp add: seen_def)
qed

lemma build_serves:
  assumes ok: "client_ok (ks_client st) view" and apart: "names_apart st (view s)"
    and run: "build_snapshot st b True cs s = (Inr sn, t)"
  shows "serves st (view t) sn"
proof -
  obtain p where p: "plan_build st cs = Inr p"
    using run by (auto simp: build_snapshot_def split: sum.splits)
  let ?n = "bp_name p" and ?d = "plan_provenance st b p" and ?sn = "plan_snapshot st b p"
  have col: "sn_collection ?sn = ?n" by (simp add: plan_snapshot_def)
  have name: "vw_aliases (view s) ?n = None" using apart plan_name [OF p] by (simp add: names_apart_def)
  from run obtain there s1 found s2 where 1: "qc_exists (ks_client st) ?n s = (Inr there, s1)"
    and 2: "(if there then existing_snapshot st True ?n ?d s1 else (Inr None, s1)) = (Inr found, s2)"
    and 3: "(case found of Some old \<Rightarrow> (Inr old, s2) | None \<Rightarrow>
      after (or_mark_failed st ?n ?d (fill_collection st p ?d) s2) (\<lambda>_ s3.
        after (or_mark_failed st ?n ?d (seal_snapshot st b ?sn ?d) s3) (\<lambda>_ s4.
          after (activate st ?n s4) (\<lambda>_ s5. (Inr (?sn\<lparr>sn_state := snapshot_complete\<rparr>), s5))))) = (Inr sn, t)"
    unfolding build_snapshot_def p sum.case Let_def if_True by (auto dest!: after_result)
  have v1: "view s1 = view s" by (rule silent_reads(1) [OF ok 1])
  show ?thesis
  proof (cases found)
    case (Some old)
    then show ?thesis using 2 3 existing_reused [OF ok, of s1 ?n ?d sn t] name v1 by (simp split: if_splits)
  next
    case None
    have "settled st view (view s) (\<lambda>found. found = None) (if there then existing_snapshot st True ?n ?d s1 else (Inr None, s1))"
      using existing_settled [OF ok name, of s1] v1 by (simp add: settled_control(1))
    then have a2: "vw_aliases (view s2) = vw_aliases (view s)" using 2 None by (simp add: settled_def)
    obtain s3 s4 u where f: "or_mark_failed st ?n ?d (fill_collection st p ?d) s2 = (Inr u, s3)"
      and g: "or_mark_failed st ?n ?d (seal_snapshot st b ?sn ?d) s3 = (Inr u, s4)"
      and h: "activate st ?n s4 = (Inr u, t)" and sn: "sn = ?sn\<lparr>sn_state := snapshot_complete\<rparr>"
      using 3 None by (auto dest!: after_result)
    have a3: "vw_aliases (view s3) = vw_aliases (view s)"
      using same_aliases(7) [OF ok a2, of p ?d ?d] f by simp
    have a4: "vw_aliases (view s4) = vw_aliases (view s)"
      using same_aliases(8) [OF ok a3 col, of ?d b ?d] g by simp
    have "\<exists>c. vw_collections (view s4) ?n = Some c \<and> snapshot_valid st sn True c"
      using sealed [OF ok _ g] a3 name sn col by simp
    then show ?thesis using activated_serves [OF ok, of sn s4 u t] h a4 name sn col by simp
  qed
qed

lemma upsert_serves:
  assumes ok: "client_ok (ks_client st) view" and apart: "names_apart st (view s)"
    and run: "upsert_store st b cs s = (Inr n, t)"
  shows "\<exists>sn. serves st (view t) sn \<and> sn_count sn = n"
proof -
  obtain there s1 where 1: "qc_exists (ks_client st) (ks_alias st) s = (Inr there, s1)"
    and "after (if there then alias_target st s1 else (Inr (Some []), s1)) (\<lambda>current s2.
         if there \<and> current = None then (Inl OtherError, s2)
         else after (build_snapshot st b True cs s2) (\<lambda>sn s3. (Inr (sn_count sn), s3))) = (Inr n, t)"
    using run by (auto simp: upsert_store_def dest!: after_result)
  then obtain current s2 sn where 2: "(if there then alias_target st s1 else (Inr (Some []), s1)) = (Inr current, s2)"
    and 3: "build_snapshot st b True cs s2 = (Inr sn, t)" "n = sn_count sn"
    by (auto dest!: after_result split: if_splits)
  have "view s2 = view s"
    using silent_reads(1) [OF ok 1] 2 silent_reads(3) [OF ok, of s1 "Inr current" s2] by (auto split: if_splits)
  then show ?thesis using build_serves [OF ok _ 3(1)] apart 3(2) by auto
qed

section \<open>A server in memory\<close>

record vector_server =
  ds_collections :: "(ustr \<times> collection) list"
  ds_aliases :: "(ustr \<times> ustr) list"

definition demo_change :: "ustr \<Rightarrow> (collection \<Rightarrow> collection) \<Rightarrow> (vector_server, unit) step" where
  "demo_change n f s =
     (case map_of (ds_collections s) n of
        None \<Rightarrow> (Inl OtherError, s)
      | Some c \<Rightarrow> (Inr (), s\<lparr>ds_collections := AList.update n (f c) (ds_collections s)\<rparr>))"

definition demo_client :: "vector_server client" where
  "demo_client = \<lparr>
     qc_exists = (\<lambda>n s. (Inr (map_of (ds_collections s) n \<noteq> None), s)),
     qc_get = (\<lambda>n s. (case map_of (ds_collections s) n of None \<Rightarrow> Inl OtherError | Some c \<Rightarrow> Inr c, s)),
     qc_aliases = (\<lambda>s. (Inr (ds_aliases s), s)),
     qc_create = (\<lambda>n k d s. (Inr (), s\<lparr>ds_collections := AList.update n
        \<lparr>cl_metadata = Some (JObject d), cl_points = Some 0, cl_vector = Some (k, ''Cosine''), cl_lexical = True\<rparr>
        (ds_collections s)\<rparr>)),
     qc_upsert = (\<lambda>n ps. demo_change n (\<lambda>c. c\<lparr>cl_points := map_option (\<lambda>k. k + int (length ps)) (cl_points c)\<rparr>)),
     qc_update = (\<lambda>n d. demo_change n (\<lambda>c. c\<lparr>cl_metadata := Some (JObject d)\<rparr>)),
     qc_delete = (\<lambda>n s. (Inr (), s\<lparr>ds_collections := AList.delete n (ds_collections s)\<rparr>)),
     qc_switch = (\<lambda>_ n a s. (Inr (), s\<lparr>ds_aliases := AList.update a n (ds_aliases s)\<rparr>))\<rparr>"

definition demo_view :: "vector_server \<Rightarrow> server_view" where
  "demo_view s = \<lparr>vw_collections = map_of (ds_collections s), vw_aliases = map_of (ds_aliases s)\<rparr>"

lemma demo_client_ok: "client_ok demo_client demo_view"
  by (auto simp: client_ok_def reads_ok_def writes_ok_def switch_ok_def demo_client_def demo_view_def demo_change_def
      frame_def switched_def AList.update_conv' AList.delete_conv' split: option.splits)

definition demo_text :: "ustr \<times> jval \<Rightarrow> ustr" where
  "demo_text e = (case snd e of JText t \<Rightarrow> t | _ \<Rightarrow> [1])"

definition vector_store :: "vector_server knowledge_store" where
  "vector_store = \<lparr>ks_client = demo_client, ks_alias = lit ''k'', ks_provider_type = lit ''hash'', ks_model = lit ''m'',
     ks_dimension = Some 2, ks_schema = 1, ks_chunking = 1, ks_lexical = 1,
     ks_embed = (\<lambda>ts. Inr (map (\<lambda>t. [of_nat (length t), 1]) ts)), ks_ln = (\<lambda>x. x),
     ks_digest = (\<lambda>v. case v of JObject d \<Rightarrow> concat (map demo_text d) | JList xs \<Rightarrow> [int (length xs)] | _ \<Rightarrow> []),
     ks_point_id = (\<lambda>t. t), ks_repr = (\<lambda>_. []), ks_parse = (\<lambda>_. None)\<rparr>"

definition demo_stamp :: build_stamp where
  "demo_stamp = \<lparr>bs_id = lit ''b1'', bs_started = lit ''t0'', bs_completed = lit ''t1''\<rparr>"

definition demo_piece :: "ustr \<Rightarrow> piece" where
  "demo_piece i = \<lparr>pc_id = i, pc_document = lit ''d'', pc_title = lit ''T'', pc_category = lit ''c'', pc_section = lit ''s'',
     pc_source = lit ''f'', pc_index = 0, pc_content = lit ''ab''\<rparr>"

definition demo_empty :: vector_server where "demo_empty = \<lparr>ds_collections = [], ds_aliases = []\<rparr>"

definition demo_ready :: vector_server where "demo_ready = snd (upsert_store vector_store demo_stamp [demo_piece (lit ''a'')] demo_empty)"
definition demo_name :: ustr where
  "demo_name = lit ''k_v_'' @ [1, 1] @ lit ''Cosine'' @ [1] @ lit ''mhash'' @ [1, 1]"

lemma demo_first: "fst (upsert_store vector_store demo_stamp [demo_piece (lit ''a'')] demo_empty) = Inr 1"
  by code_simp

lemma demo_ready_value:
  "ds_aliases demo_ready = [(lit ''k'', demo_name)] \<and> map_of (ds_collections demo_ready) demo_name \<noteq> None"
  by code_simp

lemma demo_facts:
  "client_ok (ks_client vector_store) demo_view" "ks_alias vector_store = lit ''k''"
  "names_apart vector_store (demo_view demo_empty)" "names_apart vector_store (demo_view demo_ready)"
  using demo_ready_value
  by (auto simp: vector_store_def demo_client_ok names_apart_def demo_view_def demo_empty_def lit_def)

section \<open>Properties\<close>

text \<open>C30. The alias that answers queries is only ever switched to a collection that is complete and valid at
  that moment: after a build, an upsert, an activation or a rollback, failed or not, the aliases are as
  before, or only the alias of the store has changed and points to such a collection.\<close>

theorem alias_switch_validated:
  assumes ok: "client_ok (ks_client st) view" and names: "names_ok st op (view s)"
  shows "vw_aliases (view (snd (run_op st op s))) = vw_aliases (view s) \<or>
    (\<exists>n. vw_aliases (view (snd (run_op st op s))) = (vw_aliases (view s))(ks_alias st \<mapsto> n) \<and>
       publishable st (view (snd (run_op st op s))) n)"
proof -
  have act: "published st (view s) (view (snd (activate st n w)))"
    if "vw_aliases (view s) n = None" "view w = view s" for n w
    by (rule activate_published [OF ok]) (use that in simp_all)
  have "published st (view s) (view (snd (run_op st op s)))"
  proof (cases op)
    case (Rollback n)
    have "published st (view s) (view (snd (rollback_to st n s)))"
      using settled_weaken [OF rollback_settled [OF ok _ refl]] names Rollback by simp
    then show ?thesis using Rollback by simp
  qed (use names settled_weaken [OF build_settled [OF ok _ refl]] settled_weaken [OF upsert_settled [OF ok _ refl]]
      in \<open>auto intro!: act\<close>)
  then show ?thesis by (simp add: published_def)
qed

lemma operation_keeps:
  assumes ok: "client_ok (ks_client st) view" and apart: "names_apart st (view s)"
    and "vw_aliases (view s) (ks_alias st) = Some n" and c: "vw_collections (view s) n = Some c"
  shows "vw_collections (view (snd (run_op st op s))) n = Some c"
proof -
  let ?S = "seen (\<lambda>w. vw_collections w n = Some c) view"
  have s: "?S s" using c by (simp add: seen_def)
  have act: "?S (snd (activate st m w))" if "?S w" for m w
    by (rule seen_switch(2) [OF ok _ that]) (simp add: switched_def)
  have "?S (snd (run_op st op s))"
  proof (cases op)
    case (Rollback m)
    have "?S (snd (rollback_to st m s))"
      unfolding rollback_to_def by (assumption | rule seen_control(1) seen_reads [OF ok] act s)+
    then show ?thesis using Rollback by simp
  qed (use build_keeps [OF assms] upsert_keeps [OF assms] act [OF s] in \<open>auto simp: seen_def\<close>)
  then show ?thesis by (simp add: seen_def)
qed

theorem alias_switch_validated_witness:
  "\<exists>w. w = demo_view (snd (run_op vector_store (Upsert demo_stamp [demo_piece (lit ''a''), demo_piece (lit ''b'')]) demo_ready)) \<and>
    (vw_aliases w = vw_aliases (demo_view demo_ready) \<or>
     (\<exists>n. vw_aliases w = (vw_aliases (demo_view demo_ready))(lit ''k'' \<mapsto> n) \<and> publishable vector_store w n))"
  using alias_switch_validated [of vector_store demo_view
      "Upsert demo_stamp [demo_piece (lit ''a''), demo_piece (lit ''b'')]" demo_ready] demo_facts
  by (simp del: run_op.simps)

text \<open>C31. The collection that answers queries is not touched by the store: no build, upsert, activation or
  rollback deletes it, writes to it or marks it as failed, at whichever call it fails.\<close>

theorem active_untouched:
  assumes "client_ok (ks_client st) view" and "names_apart st (view s)"
    and "vw_aliases (view s) (ks_alias st) = Some n" and "vw_collections (view s) n = Some c"
  shows "vw_collections (view (snd (run_op st op s))) n = Some c"
  by (rule operation_keeps [OF assms])

theorem active_untouched_witness:
  "\<exists>c. vw_collections (demo_view demo_ready) demo_name = Some c \<and>
    vw_collections (demo_view (snd (run_op vector_store
      (Upsert demo_stamp [demo_piece (lit ''a''), demo_piece (lit ''b'')]) demo_ready))) demo_name = Some c"
  using active_untouched [of vector_store demo_view demo_ready demo_name _
      "Upsert demo_stamp [demo_piece (lit ''a''), demo_piece (lit ''b'')]"] demo_facts demo_ready_value
  by (auto simp: demo_view_def simp del: run_op.simps)

text \<open>C32. An upsert that returns has published: the alias of the store points to a collection that is complete
  and valid, and the number returned is the number of chunks of its snapshot.\<close>

theorem upsert_publishes:
  assumes "client_ok (ks_client st) view" and "names_apart st (view s)"
    and "upsert_store st b cs s = (Inr n, t)"
  shows "\<exists>sn c. vw_aliases (view t) (ks_alias st) = Some (sn_collection sn) \<and>
    vw_collections (view t) (sn_collection sn) = Some c \<and> snapshot_valid st sn True c \<and> sn_count sn = n"
  using upsert_serves [OF assms] by (auto simp: serves_def)

theorem upsert_publishes_witness:
  "\<exists>sn c. vw_aliases (demo_view demo_ready) (lit ''k'') = Some (sn_collection sn) \<and>
    vw_collections (demo_view demo_ready) (sn_collection sn) = Some c \<and> snapshot_valid vector_store sn True c \<and>
    sn_count sn = 1"
  using upsert_publishes [of vector_store demo_view demo_empty demo_stamp "[demo_piece (lit ''a'')]" 1 demo_ready]
    demo_facts demo_first
  by (simp add: demo_ready_def prod_eq_iff)

end
