(* ===== verification/Vector_Backend.thy ===== *)
theory Vector_Backend
  imports Snapshots
begin

text \<open>
  The retrieval backend on the vector store (rag/backends/qdrant.py): it answers queries from the
  collection behind the alias, and reports ready only if that collection is a complete snapshot built
  for the running configuration.

  The client, the query of the client, the embedding of a query, the reranker, the digest, the text of
  a value, the reading of a number from a text and whether an error says that a collection is missing
  are parameters. The lexical index that the backend remembers is never read and left out, as are the
  names of the fusion in the metadata, which only telemetry reads.
\<close>

section \<open>Configuration\<close>

datatype readiness =
    RC_READY | RC_UNREACHABLE | RC_COLLECTION_MISSING | RC_VECTOR_SCHEMA | RC_VECTOR_DIMENSION
  | RC_NOT_INGESTED | RC_ALIAS_MISSING | RC_PROVENANCE

fun readiness_value :: "readiness \<Rightarrow> string" where
  "readiness_value RC_READY = ''ready''"
| "readiness_value RC_UNREACHABLE = ''qdrant_unreachable''"
| "readiness_value RC_COLLECTION_MISSING = ''collection_missing''"
| "readiness_value RC_VECTOR_SCHEMA = ''vector_schema_mismatch''"
| "readiness_value RC_VECTOR_DIMENSION = ''vector_dimension_mismatch''"
| "readiness_value RC_NOT_INGESTED = ''knowledge_not_ingested''"
| "readiness_value RC_ALIAS_MISSING = ''alias_missing''"
| "readiness_value RC_PROVENANCE = ''provenance_mismatch''"

record knowledge_filter =
  kf_category :: "ustr option"
  kf_document :: "ustr option"
  kf_source :: "ustr option"

record hit =
  ht_payload :: "jobject option"
  ht_score :: rat

datatype vector_query =
    DenseQuery "rat list"
  | HybridQuery "rat list" nat "int list \<times> rat list" nat

type_synonym query_filter = "(string \<times> ustr) list option"

record 's backend =
  kb_client :: "'s client"
  kb_query :: "ustr \<Rightarrow> vector_query \<Rightarrow> query_filter \<Rightarrow> nat \<Rightarrow> ('s, hit list) step"
  kb_alias :: ustr
  kb_embed :: "ustr \<Rightarrow> exn + rat list"
  kb_provider_type :: ustr
  kb_model :: "ustr option"
  kb_dimension :: "int option"
  kb_reranker :: "reranker option"
  kb_enabled :: bool
  kb_candidates :: nat
  kb_final :: nat
  kb_dense :: nat
  kb_sparse :: nat
  kb_require_alias :: bool
  kb_schema :: int
  kb_chunking :: int
  kb_lexical :: int
  kb_filters :: "knowledge_filter option"
  kb_digest :: "jval \<Rightarrow> ustr"
  kb_repr :: "jval \<Rightarrow> ustr"
  kb_float :: "ustr \<Rightarrow> rat option"
  kb_missing :: "exn \<Rightarrow> bool"

text \<open>\<open>embedding_dimension or getattr(embedding_provider, "dimension", None)\<close>\<close>

definition backend_dimension :: "int option \<Rightarrow> int option \<Rightarrow> int option" where
  "backend_dimension configured provider =
     (case configured of None \<Rightarrow> provider | Some d \<Rightarrow> if d = 0 then provider else Some d)"

section \<open>Answering a query\<close>

definition query_filter :: "'s backend \<Rightarrow> query_filter" where
  "query_filter b =
     (case kb_filters b of
        None \<Rightarrow> None
      | Some f \<Rightarrow>
          (let conditions = concat (map (\<lambda>(k, v). case v of None \<Rightarrow> [] | Some t \<Rightarrow> [(k, t)])
                 [(''category'', kf_category f), (''document_id'', kf_document f), (''source'', kf_source f)]) in
           if conditions = [] then None else Some conditions))"

definition lexical_index_for_query :: "'s backend \<Rightarrow> ('s, lexical_index) step" where
  "lexical_index_for_query b s =
     after (qc_get (kb_client b) (kb_alias b) s) (\<lambda>c s1.
       (from_metadata (kb_lexical b) (jget (metadata_of c) ''lexical_index''), s1))"

text \<open>A payload is a chunk if its texts are texts and its rerank score, if there is one, is a number.\<close>

definition text_field :: "jobject \<Rightarrow> string \<Rightarrow> ustr option" where
  "text_field d k = (case jget d k of Some (JText t) \<Rightarrow> Some t | _ \<Rightarrow> None)"

definition rerank_field :: "(ustr \<Rightarrow> rat option) \<Rightarrow> jobject \<Rightarrow> rat option option" where
  "rerank_field parse d =
     (case jget d ''rerank_score'' of
        None \<Rightarrow> Some None
      | Some JNull \<Rightarrow> Some None
      | Some (JText t) \<Rightarrow> map_option Some (parse t)
      | Some v \<Rightarrow> map_option Some (jnumber v))"

definition validated_chunk :: "(ustr \<Rightarrow> rat option) \<Rightarrow> hit \<Rightarrow> chunk option" where
  "validated_chunk parse h =
     Option.bind (ht_payload h) (\<lambda>d.
     Option.bind (text_field d ''chunk_id'') (\<lambda>i.
     Option.bind (text_field d ''document_id'') (\<lambda>document.
     Option.bind (text_field d ''title'') (\<lambda>title.
     Option.bind (text_field d ''category'') (\<lambda>category.
     Option.bind (text_field d ''section'') (\<lambda>sec.
     Option.bind (text_field d ''source'') (\<lambda>source.
     Option.bind (text_field d ''content'') (\<lambda>content.
     Option.bind (rerank_field parse d) (\<lambda>r.
       Some \<lparr>ch_id = i, ch_document = document, ch_title = title, ch_category = category, ch_section = sec,
         ch_source = source, ch_content = content, ch_score = ht_score h, ch_rerank = r\<rparr>)))))))))"

definition validated_results :: "(ustr \<Rightarrow> rat option) \<Rightarrow> hit list \<Rightarrow> chunk list" where
  "validated_results parse hs = List.map_filter (validated_chunk parse) hs"

definition vector_query :: "'s backend \<Rightarrow> rat list \<Rightarrow> int list \<times> rat list \<Rightarrow> vector_query" where
  "vector_query b v sparse =
     (if fst sparse \<noteq> [] then HybridQuery v (kb_dense b) sparse (kb_sparse b) else DenseQuery v)"

definition rerank_hits :: "'s backend \<Rightarrow> ustr \<Rightarrow> chunk list \<Rightarrow> chunk list \<times> string list" where
  "rerank_hits b query cs =
     (case kb_reranker b of
        Some f \<Rightarrow> if kb_enabled b \<and> cs \<noteq> [] then rerank_with f query cs else (cs, [])
      | None \<Rightarrow> (cs, []))"

definition search_vectors :: "'s backend \<Rightarrow> ustr \<Rightarrow> ('s, retrieval) step" where
  "search_vectors b query s =
     (case kb_embed b query of
        Inl x \<Rightarrow> (Inl x, s)
      | Inr v \<Rightarrow>
          after (lexical_index_for_query b s) (\<lambda>ix s1.
            let sparse = encode_query ix query in
            after (kb_query b (kb_alias b) (vector_query b v sparse) (query_filter b) (kb_candidates b) s1) (\<lambda>hs s2.
              case rerank_hits b query (validated_results (kb_float b) hs) of
                (rs, degraded) \<Rightarrow>
                  (Inr (make_retrieval (take (kb_final b) rs) degraded (kb_dense b)
                          (if fst sparse \<noteq> [] then kb_sparse b else 0)), s2))))"

section \<open>Readiness\<close>

definition runtime_keys :: "string list" where
  "runtime_keys = required_keys @ [''corpus_version'', ''completed_at'']"

text \<open>What the running configuration expects of a snapshot of the given corpus and stored model.\<close>

definition runtime_spec :: "'s backend \<Rightarrow> int \<Rightarrow> ustr \<Rightarrow> ustr \<Rightarrow> snapshot_spec" where
  "runtime_spec b n corpus stored =
     \<lparr>ss_corpus = corpus, ss_provider = casefold (strip (kb_provider_type b)),
      ss_model = (case kb_model b of None \<Rightarrow> stored | Some m \<Rightarrow> strip m), ss_dimension = n,
      ss_schema = kb_schema b, ss_chunking = kb_chunking b, ss_lexical = kb_lexical b\<rparr>"

definition runtime_provenance :: "'s backend \<Rightarrow> snapshot_spec \<Rightarrow> jobject \<Rightarrow> (string \<times> jval) list" where
  "runtime_provenance b e lexical =
     (let h = spec_hash (kb_digest b) e in
      [(''snapshot_id'', JText h), (''snapshot_spec_hash'', JText h), (''snapshot_spec_version'', JInt 1),
       (''embedding_provider'', JText (ss_provider e)), (''embedding_model'', JText (ss_model e)),
       (''embedding_dimension'', JInt (ss_dimension e)), (''schema_version'', JInt (ss_schema e)),
       (''chunking_version'', JInt (ss_chunking e)), (''lexical_index_version'', JInt (ss_lexical e)),
       (''lexical_index_hash'', JText (kb_digest b (JObject lexical))), (''dense_distance'', JText (lit ''Cosine'')),
       (''sparse_vector_name'', JText (lit ''lexical''))])"

definition stored_str :: "'s backend \<Rightarrow> jobject \<Rightarrow> string \<Rightarrow> ustr" where
  "stored_str b d k = (case jget d k of None \<Rightarrow> [] | Some v \<Rightarrow> jstr (kb_repr b) v)"

definition positive_count :: "jobject \<Rightarrow> string \<Rightarrow> int option" where
  "positive_count d k = (case Option.bind (jget d k) jint of None \<Rightarrow> None | Some n \<Rightarrow> if n < 1 then None else Some n)"

definition provenance_ready :: "'s backend \<Rightarrow> int \<Rightarrow> jobject \<Rightarrow> int option \<Rightarrow> jobject \<Rightarrow> bool" where
  "provenance_ready b n lexical points d \<longleftrightarrow>
     list_all (has_key d) runtime_keys \<and> jis d ''build_state'' (JText snapshot_complete) \<and>
     positive_count d ''embedding_dimension'' \<noteq> None \<and>
     list_all (\<lambda>(k, v). jis d k v)
       (runtime_provenance b (runtime_spec b n (stored_str b d ''corpus_hash'') (stored_str b d ''embedding_model'')) lexical) \<and>
     (case jget d ''chunk_count'' of None \<Rightarrow> False | Some v \<Rightarrow> jis d ''expected_chunk_count'' v) \<and>
     positive_count d ''chunk_count'' \<noteq> None \<and> points = positive_count d ''chunk_count''"

text \<open>The lexical index of a collection that is ready, or the category of the first failed check.\<close>

definition collection_readiness :: "'s backend \<Rightarrow> collection \<Rightarrow> readiness + lexical_index" where
  "collection_readiness b c =
     (case cl_vector c of
        None \<Rightarrow> Inl RC_VECTOR_SCHEMA
      | Some (n, distance) \<Rightarrow>
          if \<not> cl_lexical c then Inl RC_VECTOR_SCHEMA
          else if kb_dimension b \<noteq> Some n then Inl RC_VECTOR_DIMENSION
          else if distance \<noteq> ''Cosine'' then Inl RC_VECTOR_SCHEMA
          else (case jobject_of (cl_metadata c) of
              None \<Rightarrow> Inl RC_PROVENANCE
            | Some md \<Rightarrow>
                (case (from_metadata (kb_lexical b) (jget md ''lexical_index''), jobject_of (jget md ''lexical_index'')) of
                   (Inr ix, Some lexical) \<Rightarrow>
                     if kb_require_alias b \<and> \<not> (case jobject_of (jget md ''knowledge_snapshot'') of
                          None \<Rightarrow> False | Some d \<Rightarrow> provenance_ready b n lexical (cl_points c) d) then Inl RC_PROVENANCE
                     else if (case cl_points c of None \<Rightarrow> True | Some k \<Rightarrow> k < 1) then Inl RC_NOT_INGESTED
                     else Inr ix
                 | _ \<Rightarrow> Inl RC_VECTOR_SCHEMA)))"

definition backend_alias :: "'s backend \<Rightarrow> ('s, ustr option) step" where
  "backend_alias b s = after (qc_aliases (kb_client b) s) (\<lambda>xs s1. (Inr (map_of xs (kb_alias b)), s1))"

definition inspect :: "'s backend \<Rightarrow> ('s, collection option) step" where
  "inspect b s =
     after (if kb_require_alias b then backend_alias b s else (Inr (Some []), s)) (\<lambda>target s1.
       if target = None then (Inr None, s1)
       else after (qc_get (kb_client b) (kb_alias b) s1) (\<lambda>c s2. (Inr (Some c), s2)))"

definition readiness_after :: "'s backend \<Rightarrow> exn + collection option \<Rightarrow> readiness" where
  "readiness_after b r =
     (case r of
        Inl x \<Rightarrow> if kb_missing b x then RC_COLLECTION_MISSING else RC_UNREACHABLE
      | Inr None \<Rightarrow> RC_ALIAS_MISSING
      | Inr (Some c) \<Rightarrow> (case collection_readiness b c of Inl k \<Rightarrow> k | Inr ix \<Rightarrow> RC_READY))"

text \<open>The answer, and the category it leaves behind for \<open>readiness_category\<close>.\<close>

definition is_ready :: "'s backend \<Rightarrow> 's \<Rightarrow> (bool \<times> string) \<times> 's" where
  "is_ready b s =
     (case inspect b s of
        (r, s1) \<Rightarrow> ((readiness_after b r = RC_READY, readiness_value (readiness_after b r)), s1))"

end
