(* ===== verification/Vector_Laws.thy ===== *)
theory Vector_Laws
  imports Vector_Backend Snapshots_Laws
begin

text \<open>
  Two checks of a snapshot, written apart, agree: the store validates a collection before it is
  published, the running backend before it serves queries from it. What the backend asks for beyond the
  store is named by \<open>fit_to_serve\<close>; the rest is the same for collections whose metadata has values of
  the kinds that a build writes. So a backend that reports ready serves a valid snapshot.
\<close>

section \<open>Values of the metadata\<close>

lemma jequal_text [simp]: "jequal v (JText t) \<longleftrightarrow> v = JText t"
  by (cases v) (auto simp: jequal_def)

lemma jequal_int: "jequal v (JInt n) \<longleftrightarrow> jnumber v = Some (of_int n)"
  by (auto simp: jequal_def split: option.splits)

lemma jis_text: "jis d k (JText t) \<longleftrightarrow> jget d k = Some (JText t)"
  by (auto simp: jis_def split: option.splits)

lemma jis_int: "jis d k (JInt n) \<longleftrightarrow> (\<exists>v. jget d k = Some v \<and> jnumber v = Some (of_int n))"
  by (auto simp: jis_def jequal_int split: option.splits)

lemma jis_same: "jnumber v = Some (of_int n) \<Longrightarrow> jis d k v \<longleftrightarrow> jis d k (JInt n)"
  by (auto simp: jis_def jequal_def split: option.splits)

lemma jint_number: "jint v = Some n \<Longrightarrow> jnumber v = Some (of_int n)"
  by (cases v) (auto split: if_splits)

lemma int_read: "jnumber v = Some (of_int n) \<Longrightarrow> jtoint st v = Some n"
  by (cases v) (auto simp: jtoint_def split: if_splits)

lemma entries_read:
  "jis d k (JText t) \<Longrightarrow> text_entry st d k = Inr t"
  "jis d k (JInt n) \<Longrightarrow> int_entry st d k = Inr n"
  by (auto simp: jis_text jis_int text_entry_def int_entry_def jstr_def int_read)

section \<open>Configurations\<close>

definition same_configuration :: "'s knowledge_store \<Rightarrow> 's backend \<Rightarrow> bool" where
  "same_configuration st b \<longleftrightarrow>
     ks_client st = kb_client b \<and> ks_alias st = kb_alias b \<and> ks_digest st = kb_digest b \<and> ks_repr st = kb_repr b \<and>
     provider_name st = casefold (strip (kb_provider_type b)) \<and> map_option strip (kb_model b) = Some (model_name st) \<and>
     (ks_dimension st = None \<or> ks_dimension st = kb_dimension b) \<and> ks_schema st = kb_schema b \<and>
     ks_chunking st = kb_chunking b \<and> ks_lexical st = kb_lexical b"

text \<open>The kinds of values that a build writes.\<close>

definition has_text :: "jobject \<Rightarrow> string \<Rightarrow> bool" where
  "has_text d k \<longleftrightarrow> (case jget d k of Some (JText t) \<Rightarrow> True | _ \<Rightarrow> False)"

definition has_int :: "jobject \<Rightarrow> string \<Rightarrow> bool" where
  "has_int d k \<longleftrightarrow> Option.bind (jget d k) jint \<noteq> None"

definition kinds_ok :: "collection \<Rightarrow> bool" where
  "kinds_ok c \<longleftrightarrow> (case provenance_of c of None \<Rightarrow> True | Some d \<Rightarrow>
     (has_key d ''completed_at'' \<longrightarrow> has_text d ''completed_at'') \<and> (has_key d ''corpus_hash'' \<longrightarrow> has_text d ''corpus_hash'') \<and>
     (has_key d ''chunk_count'' \<longrightarrow> has_int d ''chunk_count'') \<and>
     (has_key d ''embedding_dimension'' \<longrightarrow> has_int d ''embedding_dimension''))"

text \<open>What the backend asks of a snapshot beyond the validation of the store.\<close>

definition fit_to_serve :: "'s backend \<Rightarrow> collection \<Rightarrow> snapshot \<Rightarrow> bool" where
  "fit_to_serve b c sn \<longleftrightarrow> sn_id sn = sn_hash sn \<and> 1 \<le> sn_count sn \<and> 1 \<le> sn_dimension sn \<and>
     kb_dimension b = Some (sn_dimension sn) \<and>
     (case provenance_of c of None \<Rightarrow> False | Some d \<Rightarrow> has_key d ''corpus_version'') \<and>
     is_ok (from_metadata (kb_lexical b) (jget (metadata_of c) ''lexical_index''))"

section \<open>The runtime's checks\<close>

lemma readiness_iff:
  "collection_readiness b c = Inr ix \<longleftrightarrow>
     (\<exists>n md l. cl_vector c = Some (n, ''Cosine'') \<and> cl_lexical c \<and> kb_dimension b = Some n \<and>
        jobject_of (cl_metadata c) = Some md \<and> from_metadata (kb_lexical b) (jget md ''lexical_index'') = Inr ix \<and>
        jobject_of (jget md ''lexical_index'') = Some l \<and>
        (kb_require_alias b \<longrightarrow> (\<exists>d. jobject_of (jget md ''knowledge_snapshot'') = Some d \<and>
           provenance_ready b n l (cl_points c) d)) \<and>
        (\<exists>k. cl_points c = Some k \<and> 1 \<le> k))"
  by (auto simp: collection_readiness_def split: option.splits if_splits sum.splits prod.splits)

lemma parsed_version:
  assumes "from_metadata k v = Inr ix" and "jobject_of v = Some l"
  shows "jis l ''version'' (JInt k)"
  using assms by (auto simp: from_metadata_def jis_def jequal_def split: if_splits option.splits)

lemma keys_listed: "list_all (has_key d) runtime_keys \<longleftrightarrow>
    list_all (has_key d) required_keys \<and> has_key d ''corpus_version'' \<and> has_key d ''completed_at''"
  by (auto simp: runtime_keys_def)

lemma ready_entries:
  assumes "provenance_ready b n l points d" and "kb_model b = Some m"
    and e: "e = runtime_spec b n (stored_str b d ''corpus_hash'') (stored_str b d ''embedding_model'')"
    and h: "h = spec_hash (kb_digest b) e"
  shows "jis d ''snapshot_id'' (JText h)" "jis d ''snapshot_spec_hash'' (JText h)"
    "jis d ''snapshot_spec_version'' (JInt 1)" "jis d ''embedding_provider'' (JText (ss_provider e))"
    "jis d ''embedding_model'' (JText (strip m))" "jis d ''embedding_dimension'' (JInt n)"
    "jis d ''schema_version'' (JInt (kb_schema b))" "jis d ''chunking_version'' (JInt (kb_chunking b))"
    "jis d ''lexical_index_version'' (JInt (kb_lexical b))"
    "jis d ''lexical_index_hash'' (JText (kb_digest b (JObject l)))" "jis d ''dense_distance'' (JText (lit ''Cosine''))"
    "jis d ''sparse_vector_name'' (JText (lit ''lexical''))" "jis d ''build_state'' (JText snapshot_complete)"
  using assms by (simp_all add: provenance_ready_def runtime_provenance_def runtime_spec_def Let_def)

lemma ready_count:
  assumes "provenance_ready b n l points d"
  obtains k where "points = Some k" "1 \<le> k" "jis d ''chunk_count'' (JInt k)" "jis d ''expected_chunk_count'' (JInt k)"
proof -
  obtain v where v: "jget d ''chunk_count'' = Some v" "jis d ''expected_chunk_count'' v"
    using assms by (auto simp: provenance_ready_def split: option.splits)
  obtain k where k: "jint v = Some k" "1 \<le> k" "points = Some k"
    using assms v(1) by (auto simp: provenance_ready_def positive_count_def split: option.splits if_splits)
  have "jnumber v = Some (of_int k)" by (rule jint_number [OF k(1)])
  then show thesis using that [of k] v k jis_same by (auto simp: jis_int)
qed

lemma has_text_iff: "has_text d k \<longleftrightarrow> (\<exists>t. jis d k (JText t))"
  by (auto simp: has_text_def jis_text split: option.splits jval.splits)

section \<open>Ready is valid\<close>

lemma ready_read:
  assumes conf: "same_configuration st b" and prov: "provenance_of c = Some d" and ready: "provenance_ready b n l points d"
    and corpus: "jis d ''corpus_hash'' (JText t)" and count: "jis d ''chunk_count'' (JInt k)"
  obtains sn where "read_snapshot st name c = Inr sn" "spec_hash (ks_digest st) (spec_of sn) = sn_hash sn"
    "sn_id sn = sn_hash sn" "sn_corpus sn = t" "sn_count sn = k" "sn_dimension sn = n" "sn_lexical_hash sn = kb_digest b (JObject l)"
    "sn_state sn = snapshot_complete" "sn_provider sn = provider_name st" "sn_model sn = model_name st"
    "sn_schema sn = ks_schema st" "sn_chunking sn = ks_chunking st" "sn_lexical sn = ks_lexical st"
    "list_all (\<lambda>(k, v). jis d k v) (expected_provenance st sn)"
proof -
  obtain m where m: "kb_model b = Some m" "model_name st = strip m" using conf by (auto simp: same_configuration_def)
  let ?e = "runtime_spec b n (stored_str b d ''corpus_hash'') (stored_str b d ''embedding_model'')"
  let ?h = "spec_hash (kb_digest b) ?e"
  note ready_entries = ready_entries [OF ready m(1) refl refl]
  note texts = entries_read(1) [where st = st] and ints = entries_read(2) [where st = st]
  have t: "stored_str b d ''corpus_hash'' = t" using corpus by (simp add: stored_str_def jis_text jstr_def)
  obtain created where created: "text_entry st d ''created_at'' = Inr created"
    using ready by (auto simp: provenance_ready_def runtime_keys_def required_keys_def has_key_def text_entry_def)
  define sn where "sn = \<lparr>sn_id = ?h, sn_hash = ?h, sn_collection = name, sn_corpus = t, sn_count = k,
    sn_provider = ss_provider ?e, sn_model = strip m, sn_dimension = n, sn_schema = kb_schema b,
    sn_chunking = kb_chunking b, sn_lexical = kb_lexical b, sn_lexical_hash = kb_digest b (JObject l),
    sn_created = created, sn_state = snapshot_complete\<rparr>"
  have "read_snapshot st name c = Inr sn"
    using texts [OF ready_entries(1)] texts [OF ready_entries(2)] texts [OF ready_entries(4)] texts [OF ready_entries(5)]
      ints [OF ready_entries(6)] ints [OF ready_entries(7)] ints [OF ready_entries(8)] ints [OF ready_entries(9)]
      texts [OF ready_entries(10)] texts [OF ready_entries(13)] texts [OF corpus] ints [OF count] created
    by (simp add: read_snapshot_def prov sn_def)
  moreover have spec: "spec_of sn = ?e"
    using m t by (simp add: spec_of_def sn_def runtime_spec_def)
  moreover have "spec_hash (ks_digest st) ?e = ?h" using conf by (simp add: same_configuration_def)
  moreover have "list_all (\<lambda>(k, v). jis d k v) (expected_provenance st sn)"
    using ready_entries corpus conf spec
    by (simp add: expected_provenance_def sn_def same_configuration_def)
  moreover have "ss_provider ?e = provider_name st" using conf by (simp add: same_configuration_def runtime_spec_def)
  ultimately show thesis using that [of sn] m conf by (simp add: sn_def same_configuration_def)
qed

lemma ready_valid:
  assumes required: "kb_require_alias b" and conf: "same_configuration st b" and kinds: "kinds_ok c"
    and ready: "collection_readiness b c = Inr ix"
  shows "\<exists>sn. read_snapshot st name c = Inr sn \<and> snapshot_valid st sn True c \<and> fit_to_serve b c sn"
proof -
  obtain n md l d where r: "cl_vector c = Some (n, ''Cosine'')" "cl_lexical c" "kb_dimension b = Some n"
      "jobject_of (cl_metadata c) = Some md" "from_metadata (kb_lexical b) (jget md ''lexical_index'') = Inr ix"
      "jobject_of (jget md ''lexical_index'') = Some l" "jobject_of (jget md ''knowledge_snapshot'') = Some d"
      "provenance_ready b n l (cl_points c) d"
    using ready required unfolding readiness_iff by blast
  have md: "metadata_of c = md" and prov: "provenance_of c = Some d"
    using r(4,7) by (simp_all add: metadata_of_def provenance_of_def)
  have keys: "list_all (has_key d) required_keys" "has_key d ''corpus_version''" "has_key d ''completed_at''"
    using r(8) by (simp_all add: provenance_ready_def keys_listed)
  have "has_key d ''corpus_hash''" using keys(1) by (simp add: required_keys_def)
  then obtain t where corpus: "jis d ''corpus_hash'' (JText t)"
    using kinds prov by (auto simp: kinds_ok_def has_text_iff)
  obtain k where k: "cl_points c = Some k" "1 \<le> k" "jis d ''chunk_count'' (JInt k)" "jis d ''expected_chunk_count'' (JInt k)"
    using ready_count [OF r(8)] .
  obtain sn where sn: "read_snapshot st name c = Inr sn" "spec_hash (ks_digest st) (spec_of sn) = sn_hash sn"
    "sn_id sn = sn_hash sn" "sn_corpus sn = t" "sn_count sn = k" "sn_dimension sn = n" "sn_lexical_hash sn = kb_digest b (JObject l)"
    "sn_state sn = snapshot_complete" "sn_provider sn = provider_name st" "sn_model sn = model_name st"
    "sn_schema sn = ks_schema st" "sn_chunking sn = ks_chunking st" "sn_lexical sn = ks_lexical st"
    "list_all (\<lambda>(k, v). jis d k v) (expected_provenance st sn)"
    using ready_read [OF conf prov r(8) corpus k(3), where name = name] .
  have complete: "jis d ''build_state'' (JText snapshot_complete)" using r(8) by (simp add: provenance_ready_def)
  have "completed_text d"
    using kinds prov keys(3) by (auto simp: kinds_ok_def has_text_def completed_text_def)
  then have "provenance_valid st sn True d"
    using sn keys complete k(3,4) by (simp add: provenance_valid_def state_known_def)
  moreover have "lexical_valid st sn md"
    using r(5,6) sn conf parsed_version [OF r(5,6)] by (simp add: lexical_valid_def same_configuration_def)
  moreover have "schema_valid sn c" "store_matches st sn" 
    using r(1-3) k(1) sn conf by (auto simp: schema_valid_def store_matches_def same_configuration_def)
  moreover have "1 \<le> n"
    using r(8) ready_entries(6) [OF r(8) _ refl refl] conf
    by (auto simp: provenance_ready_def positive_count_def same_configuration_def jis_int dest!: jint_number
        split: option.splits if_splits)
  then have "fit_to_serve b c sn"
    using sn k(2) r(3,5) keys(2) prov md by (simp add: fit_to_serve_def)
  ultimately show ?thesis using sn(1) prov md by (auto simp: snapshot_valid_def)
qed

section \<open>Valid is ready\<close>

lemma spec_of_fields [simp]:
  "ss_corpus (spec_of sn) = sn_corpus sn" "ss_provider (spec_of sn) = sn_provider sn" "ss_model (spec_of sn) = sn_model sn"
  "ss_dimension (spec_of sn) = sn_dimension sn" "ss_schema (spec_of sn) = sn_schema sn"
  "ss_chunking (spec_of sn) = sn_chunking sn" "ss_lexical (spec_of sn) = sn_lexical sn"
  by (simp_all add: spec_of_def)

lemma jis_key: "jis d k v \<Longrightarrow> has_key d k"
  by (auto simp: jis_def has_key_def split: option.splits)

lemma positive_read: "jis d k (JInt n) \<Longrightarrow> has_int d k \<Longrightarrow> 1 \<le> n \<Longrightarrow> positive_count d k = Some n"
  by (auto simp: jis_int has_int_def positive_count_def dest!: jint_number)

lemma valid_ready:
  assumes conf: "same_configuration st b" and kinds: "kinds_ok c" and read: "read_snapshot st name c = Inr sn"
    and valid: "snapshot_valid st sn True c" and fit: "fit_to_serve b c sn"
  shows "\<exists>ix. collection_readiness b c = Inr ix"
proof -
  obtain d where prov: "provenance_of c = Some d" and v: "provenance_valid st sn True d"
      "lexical_valid st sn (metadata_of c)" "schema_valid sn c" "store_matches st sn"
    using valid by (auto simp: snapshot_valid_def split: option.splits)
  obtain md where md: "jobject_of (cl_metadata c) = Some md" "metadata_of c = md" "jobject_of (jget md ''knowledge_snapshot'') = Some d"
    using prov by (auto simp: provenance_of_def metadata_of_def jget_def jobject_of_def split: option.splits)
  obtain l where l: "jobject_of (jget md ''lexical_index'') = Some l" "ks_digest st (JObject l) = sn_lexical_hash sn"
    using v(2) md(2) by (auto simp: lexical_valid_def split: option.splits)
  obtain ix where ix: "from_metadata (kb_lexical b) (jget md ''lexical_index'') = Inr ix"
    using fit md(2) by (auto simp: fit_to_serve_def is_ok_iff)
  have expected: "list_all (\<lambda>(k, v). jis d k v) (expected_provenance st sn)"
    and keys: "list_all (has_key d) required_keys" and hash: "sn_hash sn = spec_hash (ks_digest st) (spec_of sn)"
    and complete: "jis d ''build_state'' (JText snapshot_complete)" "completed_text d"
    and counts: "jis d ''chunk_count'' (JInt (sn_count sn))" "jis d ''expected_chunk_count'' (JInt (sn_count sn))"
    using v(1) by (auto simp: provenance_valid_def)
  have dims: "1 \<le> sn_count sn" "1 \<le> sn_dimension sn" "kb_dimension b = Some (sn_dimension sn)" "sn_id sn = sn_hash sn"
    "has_key d ''corpus_version''" using fit prov by (simp_all add: fit_to_serve_def)
  have same: "jis d ''corpus_hash'' (JText (sn_corpus sn))" "jis d ''embedding_dimension'' (JInt (sn_dimension sn))"
    using expected by (simp_all add: expected_provenance_def)
  have "has_key d ''completed_at''" using complete(2) by (auto simp: completed_text_def has_key_def split: option.splits)
  then have ready_keys: "list_all (has_key d) runtime_keys" using keys dims(5) by (simp add: keys_listed)
  have ints: "positive_count d ''embedding_dimension'' = Some (sn_dimension sn)"
      "positive_count d ''chunk_count'' = Some (sn_count sn)"
    using kinds prov positive_read [OF same(2) _ dims(2)] positive_read [OF counts(1) _ dims(1)]
    by (simp_all add: kinds_ok_def jis_key [OF same(2)] jis_key [OF counts(1)])
  have spec: "runtime_spec b (sn_dimension sn) (stored_str b d ''corpus_hash'') (stored_str b d ''embedding_model'') = spec_of sn"
    using conf v(4) same(1)
    by (auto simp: runtime_spec_def spec_of_def stored_str_def jis_text jstr_def same_configuration_def store_matches_def)
  have "list_all (\<lambda>(k, v). jis d k v) (runtime_provenance b (spec_of sn) l)"
    using expected hash dims(4) l(2) conf by (simp add: runtime_provenance_def expected_provenance_def same_configuration_def Let_def)
  moreover have "(case jget d ''chunk_count'' of None \<Rightarrow> False | Some v \<Rightarrow> jis d ''expected_chunk_count'' v)"
    using counts jis_same by (auto simp: jis_int)
  moreover have "cl_points c = Some (sn_count sn)" using v(3) by (simp add: schema_valid_def)
  ultimately have "provenance_ready b (sn_dimension sn) l (cl_points c) d"
    using ready_keys ints complete(1) spec by (simp add: provenance_ready_def)
  then show ?thesis
    using v(3) dims md l(1) ix unfolding readiness_iff by (auto simp: schema_valid_def)
qed

section \<open>A backend on the server in memory\<close>

definition vector_backend :: "vector_server backend" where
  "vector_backend = \<lparr>kb_client = demo_client, kb_query = (\<lambda>_ _ _ _ s. (Inr [], s)), kb_alias = lit ''k'',
     kb_embed = (\<lambda>t. Inr [of_nat (length t), 1]), kb_provider_type = lit ''hash'', kb_model = Some (lit ''m''),
     kb_dimension = Some 2, kb_reranker = None, kb_enabled = False, kb_candidates = 4, kb_final = 2, kb_dense = 4,
     kb_sparse = 4, kb_require_alias = True, kb_schema = 1, kb_chunking = 1, kb_lexical = 1, kb_filters = None,
     kb_digest = ks_digest vector_store, kb_repr = ks_repr vector_store, kb_float = (\<lambda>_. None), kb_missing = (\<lambda>_. True)\<rparr>"

definition demo_collection :: collection where
  "demo_collection = the (map_of (ds_collections demo_ready) demo_name)"

lemma demo_kinds: "kinds_ok demo_collection"
  by code_simp

lemma vector_served: "(case collection_readiness vector_backend demo_collection of Inl k \<Rightarrow> False | Inr ix \<Rightarrow> True)"
  by code_simp

lemma demo_configured: "same_configuration vector_store vector_backend" "kb_require_alias vector_backend"
  by (auto simp: same_configuration_def vector_backend_def vector_store_def provider_name_def model_name_def lit_def)

text \<open>C34. The check of the running backend agrees with the validation of the store that publishes: with one
  configuration for both, a collection whose entries have the kinds that a build writes is reported
  ready exactly if it is read as a snapshot that is valid and complete for the store, is named by its
  own hash, is not empty, has the dimension of the backend, names a version of the corpus and has a
  lexical index that can be parsed.\<close>

theorem readiness_is_validation:
  assumes "same_configuration st b" and "kb_require_alias b" and "kinds_ok c"
  shows "(\<exists>ix. collection_readiness b c = Inr ix) \<longleftrightarrow>
    (\<exists>sn. read_snapshot st name c = Inr sn \<and> snapshot_valid st sn True c \<and> fit_to_serve b c sn)"
  using ready_valid [OF assms(2,1,3)] valid_ready [OF assms(1,3)] by blast

lemma readiness_is_validation_witness:
  "\<exists>sn. read_snapshot vector_store demo_name demo_collection = Inr sn \<and> snapshot_valid vector_store sn True demo_collection \<and>
    fit_to_serve vector_backend demo_collection sn"
  using readiness_is_validation [OF demo_configured demo_kinds, of demo_name] vector_served
  by (auto split: sum.splits)

end
