(* ===== verification/Run_View.thy ===== *)
theory Run_View
  imports Runtime Lexical
begin

text \<open>
  What an operator sees of a run (ui/schemas.py, ui/trace.py, ui/projection.py): a read model built
  from the recorded nodes, the response, the final state and the audit events of the run. It has the
  evidence of the decision, the tool, the policy events, the documents, the use of memory and the trace.

  The state's entries that no other part of this model reads are arguments: the retrieved chunks with
  their scores, the metadata of retrieval and of the provider, and the grounding figures. Durations and
  times are those of the clock. \<open>um_count\<close> stands for the three equal counts of a memory usage and \<open>um_usage\<close>
  for its two equal descriptions; the name of the model is not an entry of the view here.
\<close>

section \<open>Stages of the trace\<close>

datatype trace_stage =
    TS_USER_REQUEST | TS_INTENT_DETECTION | TS_CONTEXT_RETRIEVAL | TS_GROUNDING | TS_TARGET_VALIDATION
  | TS_POLICY_EVALUATION | TS_CONFIRMATION | TS_EXECUTION_AUTHORITY | TS_MEMORY_CONTEXT | TS_ROUTING
  | TS_RESPONSE | TS_INTERNAL

definition node_to_stage :: "(string \<times> trace_stage) list" where
  "node_to_stage =
     [(''load_context'', TS_USER_REQUEST), (''understand_request'', TS_INTENT_DETECTION),
      (''retrieve_memory'', TS_MEMORY_CONTEXT), (''retrieve_knowledge'', TS_CONTEXT_RETRIEVAL),
      (''compile_decision'', TS_GROUNDING), (''validate_tool'', TS_TARGET_VALIDATION),
      (''evaluate_policy'', TS_POLICY_EVALUATION), (''policy_revalidate'', TS_POLICY_EVALUATION),
      (''inspect_risk'', TS_POLICY_EVALUATION), (''check_pending_action'', TS_CONFIRMATION),
      (''handle_workflow_interruption'', TS_ROUTING), (''restore_suspended_workflow'', TS_ROUTING),
      (''create_pending_action'', TS_CONFIRMATION), (''execute_tool'', TS_EXECUTION_AUTHORITY),
      (''escalate'', TS_EXECUTION_AUTHORITY), (''memory_action'', TS_MEMORY_CONTEXT),
      (''route_request'', TS_ROUTING), (''respond'', TS_RESPONSE)]"

definition node_to_event :: "(string \<times> string) list" where
  "node_to_event =
     [(''load_context'', ''request.received''), (''retrieve_memory'', ''context.loaded''),
      (''retrieve_knowledge'', ''context.loaded''), (''understand_request'', ''proposal.generated''),
      (''compile_decision'', ''proposal.validated''), (''validate_tool'', ''decision.compiled''),
      (''evaluate_policy'', ''policy.checked''), (''policy_revalidate'', ''policy.checked''),
      (''check_pending_action'', ''confirmation.resolved''),
      (''handle_workflow_interruption'', ''workflow.suspended''),
      (''restore_suspended_workflow'', ''workflow.resumed''),
      (''create_pending_action'', ''confirmation.required''), (''execute_tool'', ''authority.executed''),
      (''escalate'', ''authority.executed''), (''respond'', ''evidence.persisted'')]"

definition trace_stage_for_node :: "string \<Rightarrow> trace_stage" where
  "trace_stage_for_node n = (case map_of node_to_stage n of None \<Rightarrow> TS_INTERNAL | Some t \<Rightarrow> t)"

definition trace_event_key_for_node :: "string \<Rightarrow> string option" where
  "trace_event_key_for_node n = map_of node_to_event n"

section \<open>The view\<close>

type_synonym metadata = "(string \<times> jval) list"

record node_event =
  ne_name :: string
  ne_status :: string
  ne_duration :: rat
  ne_time :: rat
  ne_metadata :: metadata

record ui_tool_event =
  ue_name :: string
  ue_risk :: "int option"
  ue_status :: string
  ue_duration :: rat
  ue_fields :: "string list"

record ui_policy_event =
  up_event :: string
  up_request :: string
  up_conversation :: string
  up_action :: "string option"
  up_time :: rat
  up_stage :: string
  up_confirmation :: "string option"
  up_revalidation :: bool
  up_execution :: "string option"
  up_actor :: string
  up_actor_type :: string
  up_roles :: "string list"
  up_customer :: int
  up_tool :: string
  up_risk :: int
  up_outcome :: string
  up_reasons :: "string list"

record ui_rag_document =
  ur_citation :: ustr
  ur_title :: ustr
  ur_section :: ustr
  ur_source :: ustr
  ur_score :: rat

record ui_retrieval =
  ut_backend :: string
  ut_provider :: string
  ut_reranker :: bool
  ut_count :: int
  ut_latency :: rat
  ut_fallback :: string
  ut_hybrid :: bool
  ut_fusion :: string
  ut_dense :: int
  ut_sparse :: int

record ui_grounding =
  ug_status :: string
  ug_sources :: int
  ug_citations :: int
  ug_coverage :: "rat option"
  ug_unsupported :: int
  ug_confidence :: "rat option"
  ug_accepted :: bool

record ui_memory =
  um_count :: nat
  um_keys :: "ustr list"
  um_types :: "ustr list"
  um_retrieved :: bool
  um_usage :: string
  um_decision :: string
  um_authority :: string

record ui_evidence =
  ee_decision :: string
  ee_reason :: "ustr option"
  ee_stage :: string
  ee_execution :: string
  ee_authority :: string
  ee_grounding :: ustr
  ee_reference :: "ustr option"
  ee_source :: "ustr option"
  ee_compiler :: string
  ee_tool :: "string option"
  ee_retrieval :: bool
  ee_compiler_reason :: "ustr option"
  ee_target :: ustr
  ee_confirmation :: string
  ee_required :: bool
  ee_action :: "string option"
  ee_risk :: "int option"
  ee_write :: string

record ui_trace_event =
  ux_name :: string
  ux_key :: "string option"
  ux_stage :: trace_stage
  ux_status :: string
  ux_duration :: rat
  ux_time :: rat
  ux_metadata :: metadata

record run_view =
  rn_run :: string
  rn_request :: string
  rn_conversation :: string
  rn_tenant :: string
  rn_action :: "string option"
  rn_customer :: int
  rn_actor :: string
  rn_actor_type :: string
  rn_roles :: "string list"
  rn_intent :: string
  rn_request_type :: string
  rn_operation :: string
  rn_status :: string
  rn_started :: rat
  rn_duration :: rat
  rn_trace_id :: "string option"
  rn_path :: "string list"
  rn_failure :: "string option"
  rn_degraded :: "string list"
  rn_recovery :: "string option"
  rn_memory :: ui_memory
  rn_tools :: "ui_tool_event list"
  rn_policy :: "ui_policy_event list"
  rn_documents :: "ui_rag_document list"
  rn_retrieval :: ui_retrieval
  rn_grounding :: ui_grounding
  rn_trace :: "ui_trace_event list"
  rn_reason :: "ustr option"
  rn_security :: "string option"
  rn_evidence :: ui_evidence
  rn_mode :: string
  rn_provider :: string
  rn_fallback :: "ustr option"
  rn_proposal :: "agent_proposal option"

section \<open>Texts\<close>

definition bounded_text :: "ustr \<Rightarrow> ustr option" where
  "bounded_text t = (if t = [] then None else Some (take 300 t))"

definition safe_text :: "jval option \<Rightarrow> ustr \<Rightarrow> ustr" where
  "safe_text v fallback =
     (case v of Some (JText t) \<Rightarrow> if strip t = [] then fallback else take 200 (squeeze t) | _ \<Rightarrow> fallback)"

definition slash :: int where "slash = 47"
definition backslash :: int where "backslash = 92"
definition dot :: int where "dot = 46"

text \<open>\<open>s.rsplit(".", 1)[0]\<close> if there is a dot, else the text; and the name of a path without slashes.\<close>

definition before_last_dot :: "ustr \<Rightarrow> ustr" where
  "before_last_dot s =
     (if dot \<in> set s then rev (tl (dropWhile (\<lambda>c. c \<noteq> dot) (rev s))) else s)"

definition safe_rag_source :: "jval option \<Rightarrow> ustr \<Rightarrow> ustr" where
  "safe_rag_source v title =
     (case v of
        Some (JText t) \<Rightarrow>
          (let candidate = map (\<lambda>c. if c = backslash then slash else c) t;
               stem = before_last_dot candidate;
               label = take 200 (squeeze (map (\<lambda>c. if c \<in> {95, 45} then 32 else c) stem)) in
           if strip t = [] \<or> slash \<in> set candidate \<or> candidate \<in> {[dot], [dot, dot]} then title
           else if has_prefix (lit ''.venv'') stem \<or> stem \<in> {lit ''site-packages'', lit ''app''} then title
           else if label = [] then title else label)
      | _ \<Rightarrow> title)"

section \<open>Evidence of the decision\<close>

definition business_validation_errors :: "error_category set" where
  "business_validation_errors = {EC_RESOURCE_NOT_FOUND, EC_DUPLICATE_ACTION, EC_INVALID_STATE}"

definition unfinished :: "compiled_decision option \<Rightarrow> compiled_decision option" where
  "unfinished c =
     (case c of
        None \<Rightarrow> None
      | Some r \<Rightarrow> if cd_status r \<in> {ST_CLARIFICATION_REQUIRED, ST_COMPILE_REJECTED} then Some r else None)"

text \<open>\<open>rejection_reason or reason\<close>, bounded\<close>

definition compiler_reason :: "compiled_decision \<Rightarrow> ustr option" where
  "compiler_reason r =
     bounded_text (if or_text (cd_rejection r) [] \<noteq> [] then lit (or_text (cd_rejection r) []) else cd_reason r)"

definition validation_reason :: "error_category \<Rightarrow> ustr" where
  "validation_reason e =
     lit (if e = EC_RESOURCE_NOT_FOUND then ''Referenced business resource was not found.''
          else if e = EC_DUPLICATE_ACTION then ''Duplicate business action was prevented.''
          else ''Current business state does not permit the requested action.'')"

definition decision_reason :: "agent_state \<Rightarrow> audit_event list \<Rightarrow> agent_response \<Rightarrow> ustr option" where
  "decision_reason s evs r =
     (if or_text (s_security s) [] \<noteq> [] then Some (lit (or_text (s_security s) []))
      else if s_replay s then Some (lit ''idempotency_replay_prevented'')
      else case unfinished (s_compiled s) of
        Some c \<Rightarrow> compiler_reason c
      | None \<Rightarrow>
          (case ar_error r of
             Some e \<Rightarrow>
               if e \<in> business_validation_errors then bounded_text (validation_reason e)
               else if e = EC_OWNERSHIP_VIOLATION then Some (lit ''cross_customer_access_attempt'')
               else if e = EC_POLICY_DENIED then Some (lit ''Policy verification denied execution authority.'')
               else if evs \<noteq> [] then bounded_text (lit (''Policy outcome: '' @ outcome_value (ev_outcome (last evs)) @ ''.''))
               else bounded_text (lit (''Request blocked: '' @ error_category_value e @ ''.''))
           | None \<Rightarrow>
               if evs \<noteq> [] then bounded_text (lit (''Policy outcome: '' @ outcome_value (ev_outcome (last evs)) @ ''.''))
               else None))"

definition decision_status :: "agent_state \<Rightarrow> audit_event list \<Rightarrow> agent_response \<Rightarrow> string" where
  "decision_status s evs r =
     (if s_security s \<noteq> None then ''deny''
      else if s_replay s then ''already_completed''
      else if ar_error r = Some EC_OWNERSHIP_VIOLATION then ''deny''
      else if ar_error r \<in> Some ` business_validation_errors then ''validation_failed''
      else if ar_error r = Some EC_POLICY_DENIED then ''deny''
      else case unfinished (s_compiled s) of
        Some c \<Rightarrow> compile_status_value (cd_status c)
      | None \<Rightarrow>
          if evs \<noteq> [] then outcome_value (ev_outcome (last evs))
          else case s_compiled s of Some c \<Rightarrow> compile_status_value (cd_status c) | None \<Rightarrow> ''not_recorded'')"

text \<open>\<open>state.get("target_validation_status") not in {None, "not_recorded"}\<close> is the last test.\<close>

definition validation_stage :: "agent_state \<Rightarrow> audit_event list \<Rightarrow> agent_response \<Rightarrow> string" where
  "validation_stage s evs r =
     (if or_text (tr_stage (s_trace s)) [] \<noteq> [] then or_text (tr_stage (s_trace s)) []
      else if s_replay s then ''idempotency''
      else if ar_error r = Some EC_OWNERSHIP_VIOLATION then ''authorization''
      else if ar_error r \<in> Some ` business_validation_errors then ''business_validation''
      else if ar_error r = Some EC_POLICY_DENIED \<or> evs \<noteq> [] then ''policy_evaluation''
      else if s_compiled s \<noteq> None then ''decision_compiler''
      else if s_target_validation s \<notin> {None, Some (lit ''not_recorded'')} then ''target_validation''
      else ''not_recorded'')"

definition write_outcome_status :: "agent_state \<Rightarrow> agent_response \<Rightarrow> string" where
  "write_outcome_status s r =
     (if s_security s \<noteq> None then ''not_attempted''
      else if s_replay s then ''not_repeated''
      else if ar_error r = Some EC_OWNERSHIP_VIOLATION then ''not_attempted''
      else if ar_write_unknown r \<or> s_write_unknown s then ''unknown''
      else case s_tool s of
        None \<Rightarrow> ''not_applicable''
      | Some t \<Rightarrow>
          if \<not> is_write_tool t then ''not_applicable''
          else if s_execution s = Some ''executed'' then ''executed''
          else if s_execution s = Some ''failed'' then ''failed''
          else case map_option pa_status (s_pending s) of
            Some PA_PENDING \<Rightarrow> ''pending_confirmation''
          | Some PA_REJECTED \<Rightarrow> ''blocked''
          | Some PA_EXPIRED \<Rightarrow> ''blocked''
          | _ \<Rightarrow> ''not_attempted'')"

definition authority_status :: "string option \<Rightarrow> string \<Rightarrow> bool \<Rightarrow> string" where
  "authority_status tool execution required =
     (if execution = ''executed''
      then (if or_text tool [] \<noteq> [] \<and> is_write_tool (or_text tool []) then ''controlled_execution'' else ''read_access'')
      else if required \<or> execution = ''pending_confirmation'' then ''confirmation_required''
      else ''not_granted'')"

definition confirmation_needed :: "agent_state \<Rightarrow> bool" where
  "confirmation_needed s \<longleftrightarrow> map_option d_outcome (s_policy s) = Some PO_REQUIRE_CONFIRMATION"

definition decision_evidence :: "agent_state \<Rightarrow> audit_event list \<Rightarrow> agent_response \<Rightarrow> ui_evidence" where
  "decision_evidence s evs r =
     (let required = confirmation_needed s; write = write_outcome_status s r in
      \<lparr>ee_decision = decision_status s evs r, ee_reason = decision_reason s evs r,
       ee_stage = validation_stage s evs r, ee_execution = write,
       ee_authority = authority_status (s_tool s) write required,
       ee_grounding = (case s_grounding s of None \<Rightarrow> lit ''not_recorded'' | Some g \<Rightarrow> g),
       ee_reference = s_grounding_reference s, ee_source = s_grounding_source s,
       ee_compiler = (case s_compiled s of None \<Rightarrow> ''not_applicable'' | Some c \<Rightarrow> compile_status_value (cd_status c)),
       ee_tool = Option.bind (s_compiled s) cd_tool,
       ee_retrieval = (case s_compiled s of None \<Rightarrow> False | Some c \<Rightarrow> cd_retrieval c),
       ee_compiler_reason = Option.bind (unfinished (s_compiled s)) compiler_reason,
       ee_target = (case s_target_validation s of None \<Rightarrow> lit ''not_recorded'' | Some t \<Rightarrow> t),
       ee_confirmation =
         (case s_pending s of
            Some a \<Rightarrow> action_status_value (pa_status a)
          | None \<Rightarrow> or_text (s_confirmation s) (if required then ''required'' else ''not_required'')),
       ee_required = required,
       ee_action = (case s_pending s of Some a \<Rightarrow> Some (pa_id a) | None \<Rightarrow> s_action_id s),
       ee_risk = (case s_pending s of Some a \<Rightarrow> Some (pa_risk a) | None \<Rightarrow> map_option d_risk (s_policy s)),
       ee_write = write\<rparr>)"

section \<open>Tools, policy, documents and memory\<close>

text \<open>The capture of a run: its nodes in order and the identity of the request.\<close>

record run_projection =
  pj_run :: string
  pj_context :: execution_context
  pj_started :: rat
  pj_trace_id :: "string option"
  pj_nodes :: "node_event list"

text \<open>Entries of the state that only the view reads, and \<open>str\<close> of values that are no texts.\<close>

record run_extras =
  xe_chunks :: "jval list"
  xe_retrieval :: ui_retrieval
  xe_grounding :: ui_grounding
  xe_provider :: "metadata option"
  xe_str :: "pyval \<Rightarrow> ustr"
  xe_json_str :: "jval \<Rightarrow> ustr"

definition node_duration :: "node_event list \<Rightarrow> string \<Rightarrow> rat" where
  "node_duration ns name = sum_list (map ne_duration (filter (\<lambda>n. ne_name n = name) ns))"

definition tool_projection_status :: "string option \<Rightarrow> node_event list \<Rightarrow> string" where
  "tool_projection_status execution ns =
     (if execution = Some ''executed'' then ''completed''
      else if execution = Some ''failed'' \<and> list_ex (\<lambda>n. ne_name n = ''execute_tool'') ns
      then ''failed_during_execution'' else ''blocked_before_execution'')"

definition tool_events :: "agent_state \<Rightarrow> node_event list \<Rightarrow> ui_tool_event list" where
  "tool_events s ns =
     (case s_tool s of
        None \<Rightarrow> []
      | Some t \<Rightarrow>
          [\<lparr>ue_name = t, ue_risk = map_option (\<lambda>m. risk_value (tool_risk m)) (get_tool t),
            ue_status = tool_projection_status (s_execution s) ns,
            ue_duration = node_duration ns ''execute_tool'',
            ue_fields = (case s_result s of None \<Rightarrow> [] | Some d \<Rightarrow> take 12 (sort_key lit (map fst d)))\<rparr>])"

definition policy_event_view :: "audit_event \<Rightarrow> ui_policy_event" where
  "policy_event_view e =
     \<lparr>up_event = ev_id e, up_request = ev_request e, up_conversation = ev_conversation e, up_action = ev_action e,
      up_time = ev_time e, up_stage = ev_stage e, up_confirmation = ev_confirmation e,
      up_revalidation = ev_revalidation e, up_execution = ev_execution e, up_actor = ev_actor e,
      up_actor_type = actor_type_value (ev_actor_kind e), up_roles = ev_roles e, up_customer = ev_customer e,
      up_tool = ev_tool e, up_risk = ev_risk e, up_outcome = outcome_value (ev_outcome e),
      up_reasons = take 10 (ev_reasons e)\<rparr>"

fun jtruthy :: "jval \<Rightarrow> bool" where
  "jtruthy JNull = False"
| "jtruthy (JBool b) = b"
| "jtruthy (JInt n) = (n \<noteq> 0)"
| "jtruthy (JReal r) = (r \<noteq> 0)"
| "jtruthy (JText t) = (t \<noteq> [])"
| "jtruthy (JList xs) = (xs \<noteq> [])"
| "jtruthy (JObject d) = (d \<noteq> [])"

text \<open>\<open>d.get(j) or d.get(k) or z\<close>\<close>

definition first_true :: "jobject \<Rightarrow> string list \<Rightarrow> jval \<Rightarrow> jval" where
  "first_true d ks z =
     (case filter jtruthy (List.map_filter (jget d) ks) of [] \<Rightarrow> z | v # _ \<Rightarrow> v)"

definition rag_document :: "(jval \<Rightarrow> ustr) \<Rightarrow> jobject \<Rightarrow> ui_rag_document" where
  "rag_document str d =
     (let title = safe_text (jget d ''title'') (lit ''Knowledge document'');
          cite = first_true d [''chunk_id'', ''citation_id''] (JText (lit ''unknown''));
          score = first_true d [''rerank_score'', ''score''] (JReal 0) in
      \<lparr>ur_citation = (case cite of JText t \<Rightarrow> t | _ \<Rightarrow> str cite), ur_title = title,
       ur_section = safe_text (jget d ''section'') (lit ''Unknown section''),
       ur_source = safe_rag_source (jget d ''source'') title,
       ur_score = (case jnumber score of None \<Rightarrow> 0 | Some r \<Rightarrow> r)\<rparr>)"

definition rag_documents :: "(jval \<Rightarrow> ustr) \<Rightarrow> jval list \<Rightarrow> ui_rag_document list" where
  "rag_documents str chunks =
     concat (map (\<lambda>c. case c of JObject d \<Rightarrow> [rag_document str d] | _ \<Rightarrow> []) (take 10 chunks))"

definition memory_texts :: "(pyval \<Rightarrow> ustr) \<Rightarrow> string \<Rightarrow> pyval dict list \<Rightarrow> ustr list" where
  "memory_texts str k items =
     take 10 (sort (map (\<lambda>d. case pget d k of PStr t \<Rightarrow> t | v \<Rightarrow> str v) (filter (\<lambda>d. truthy (pget d k)) items)))"

definition memory_usage :: "(pyval \<Rightarrow> ustr) \<Rightarrow> pyval dict list \<Rightarrow> ui_memory" where
  "memory_usage str items =
     (let used = items \<noteq> [] in
      \<lparr>um_count = length items, um_keys = memory_texts str ''normalized_key'' items,
       um_types = memory_texts str ''memory_type'' items, um_retrieved = used,
       um_usage = (if used then ''context_enrichment'' else ''not_used''),
       um_decision = (if used then ''context_only'' else ''not_used''),
       um_authority = (if used then ''none'' else ''not_applicable'')\<rparr>)"

section \<open>The trace\<close>

fun jscalar :: "jval \<Rightarrow> bool" where
  "jscalar JNull = False"
| "jscalar (JList xs) = False"
| "jscalar (JObject d) = False"
| "jscalar _ = True"

definition meta_update :: "metadata \<Rightarrow> metadata \<Rightarrow> metadata" where
  "meta_update d extra = fold (\<lambda>(k, v). AList.update k v) (filter (\<lambda>e. jscalar (snd e)) extra) d"

definition optional_real :: "string \<Rightarrow> rat option \<Rightarrow> metadata" where
  "optional_real k v = (case v of None \<Rightarrow> [] | Some r \<Rightarrow> [(k, JReal r)])"

definition grounding_payload :: "ui_grounding \<Rightarrow> metadata" where
  "grounding_payload g =
     [(''status'', JText (lit (ug_status g))), (''sources_used'', JInt (ug_sources g)),
      (''citation_count'', JInt (ug_citations g))] @ optional_real ''citation_coverage'' (ug_coverage g) @
     [(''unsupported_claim_count'', JInt (ug_unsupported g))] @ optional_real ''confidence'' (ug_confidence g) @
     [(''accepted'', JBool (ug_accepted g))]"

definition event_key :: "node_event \<Rightarrow> string option" where
  "event_key n =
     (if ne_name n = ''handle_workflow_interruption'' \<and>
         map_of (ne_metadata n) ''workflow_state'' = Some (JText (lit ''superseded''))
      then Some ''workflow.superseded'' else trace_event_key_for_node (ne_name n))"

definition trace_metadata :: "nat \<Rightarrow> run_extras \<Rightarrow> node_event \<Rightarrow> metadata" where
  "trace_metadata items x n =
     (let base = (if trace_stage_for_node (ne_name n) = TS_MEMORY_CONTEXT
                  then [(''items_used'', JInt (int items)),
                        (''role'', JText (lit (if items \<noteq> 0 then ''context_enrichment'' else ''not_used'')))]
                  else ne_metadata n);
          grounded = (if ne_name n = ''retrieve_knowledge'' then meta_update base (grounding_payload (xe_grounding x)) else base) in
      case xe_provider x of
        Some d \<Rightarrow> if ne_name n = ''understand_request'' then meta_update grounded d else grounded
      | None \<Rightarrow> grounded)"

definition trace_event :: "nat \<Rightarrow> run_extras \<Rightarrow> node_event \<Rightarrow> ui_trace_event" where
  "trace_event items x n =
     \<lparr>ux_name = ne_name n, ux_key = event_key n, ux_stage = trace_stage_for_node (ne_name n),
      ux_status = ne_status n, ux_duration = ne_duration n, ux_time = ne_time n,
      ux_metadata = trace_metadata items x n\<rparr>"

section \<open>The view of a run\<close>

definition mode_text :: "execution_mode \<Rightarrow> string" where
  "mode_text m = (case m of LIVE_PROPOSAL \<Rightarrow> ''live_proposal'' | RECORDED_REPLAY \<Rightarrow> ''recorded_replay'')"

definition run_status :: "agent_state \<Rightarrow> agent_response \<Rightarrow> string" where
  "run_status s r =
     (if ar_error r \<noteq> None then ''error''
      else if map_option pa_status (s_pending s) = Some PA_PENDING then ''waiting_confirmation''
      else ''completed'')"

definition view_action_id :: "agent_state \<Rightarrow> string option" where
  "view_action_id s =
     (if or_text (s_action_id s) [] \<noteq> [] then Some (or_text (s_action_id s) []) else map_option pa_id (s_pending s))"

definition build_view ::
  "run_projection \<Rightarrow> run_extras \<Rightarrow> agent_response \<Rightarrow> agent_state \<Rightarrow> audit_event list \<Rightarrow> rat \<Rightarrow> run_view" where
  "build_view pj x r s evs duration =
     (let ctx = pj_context pj; who = ctx_principal ctx; items = s_memory_context s in
      \<lparr>rn_run = pj_run pj, rn_request = request_id ctx, rn_conversation = conversation_id ctx,
       rn_tenant = ctx_tenant ctx, rn_action = view_action_id s, rn_customer = effective_customer ctx,
       rn_actor = actor_id who, rn_actor_type = actor_type_value (actor_kind who), rn_roles = roles who,
       rn_intent = intent_value (ar_intent r), rn_request_type = request_type_value (ar_request r),
       rn_operation = (if s_replay s then ''idempotency_replay''
                       else if s_summary_requested s then ''memory_summary'' else ''agent_request''),
       rn_status = run_status s r, rn_started = pj_started pj, rn_duration = duration,
       rn_trace_id = pj_trace_id pj, rn_path = map ne_name (pj_nodes pj), rn_failure = ar_failure r,
       rn_degraded = ar_degraded r, rn_recovery = ar_recovery r, rn_memory = memory_usage (xe_str x) items,
       rn_tools = tool_events s (pj_nodes pj),
       rn_policy = map policy_event_view (filter (\<lambda>e. ev_run e = pj_run pj) evs),
       rn_documents = rag_documents (xe_json_str x) (xe_chunks x), rn_retrieval = xe_retrieval x,
       rn_grounding = xe_grounding x, rn_trace = map (trace_event (length items) x) (pj_nodes pj),
       rn_reason = decision_reason s evs r, rn_security = s_security s,
       rn_evidence = decision_evidence s evs r, rn_mode = mode_text (ar_mode r), rn_provider = ar_provider r,
       rn_fallback = ar_fallback r, rn_proposal = ar_proposal r\<rparr>)"

end
