(* ===== verification/Run_Store.thy ===== *)
theory Run_Store
  imports Run_View "HOL-Library.Product_Lexorder"
begin

text \<open>
  The record of the runs (ui/repository.py): a bounded dictionary in memory, and a table whose rows
  keep the fields without a column of their own inside the JSON of the retrieval metadata.

  The JSON columns of tools, policy events, documents and trace are kept as the values they stand for.
  The conversions of the validation library between a nested value and its JSON are the parameter
  \<open>view_codec\<close>; so is the rounding of the duration by its column. The name of the model and the metadata
  of the provider are not entries of the view here.
\<close>

section \<open>Queries\<close>

definition projection_limit :: "int \<Rightarrow> nat" where
  "projection_limit limit = nat (min (max limit 1) 100)"

text \<open>\<open>sorted(..., reverse=True)\<close> keeps the order of equal keys.\<close>

definition sort_recent :: "run_view list \<Rightarrow> int \<Rightarrow> run_view list" where
  "sort_recent vs limit =
     take (projection_limit limit) (rev (sort_key (\<lambda>v. (rn_started v, lit (rn_run v))) (rev vs)))"

section \<open>The repository in memory\<close>

record run_memory =
  rm_limit :: nat
  rm_views :: "(string \<times> run_view) list"

definition new_run_memory :: "int \<Rightarrow> exn + run_memory" where
  "new_run_memory limit =
     (if limit < 1 then Inl PyValueError else Inr \<lparr>rm_limit = nat limit, rm_views = []\<rparr>)"

definition oldest_run :: "(string \<times> run_view) list \<Rightarrow> string" where
  "oldest_run d = fst (hd (sort_key (\<lambda>(k, v). (rn_started v, lit k)) d))"

lemma oldest_run_in: "d \<noteq> [] \<Longrightarrow> oldest_run d \<in> fst ` set d"
proof -
  assume "d \<noteq> []"
  then have "hd (sort_key (\<lambda>(k, v). (rn_started v, lit k)) d) \<in> set d"
    by (metis hd_in_set length_0_conv length_sort set_sort)
  then show ?thesis by (simp add: oldest_run_def)
qed

lemma length_delete_less: "k \<in> fst ` set d \<Longrightarrow> length (AList.delete k d) < length d"
  unfolding AList.delete_eq by (auto intro: length_filter_less)

function evict :: "nat \<Rightarrow> (string \<times> run_view) list \<Rightarrow> (string \<times> run_view) list" where
  "evict n d = (if length d \<le> n then d else evict n (AList.delete (oldest_run d) d))"
  by pat_completeness auto

termination evict
  by (relation "measure (\<lambda>(n, d). length d)") (auto intro!: length_delete_less oldest_run_in)

declare evict.simps [simp del]

definition upsert_run :: "run_view \<Rightarrow> run_memory \<Rightarrow> run_memory" where
  "upsert_run v m =
     (let w = (case map_of (rm_views m) (rn_run v) of None \<Rightarrow> v | Some old \<Rightarrow> v\<lparr>rn_started := rn_started old\<rparr>) in
      m\<lparr>rm_views := evict (rm_limit m) (AList.update (rn_run v) w (rm_views m))\<rparr>)"

definition get_by_run_id :: "run_memory \<Rightarrow> string \<Rightarrow> string \<Rightarrow> run_view option" where
  "get_by_run_id m run tenant =
     (case map_of (rm_views m) run of
        None \<Rightarrow> None
      | Some v \<Rightarrow> if rn_tenant v = tenant then Some v else None)"

definition list_recent :: "run_memory \<Rightarrow> string \<Rightarrow> int \<Rightarrow> run_view list" where
  "list_recent m tenant limit =
     sort_recent (filter (\<lambda>v. rn_tenant v = tenant) (map snd (rm_views m))) limit"

definition runs_for_customer :: "run_memory \<Rightarrow> int \<Rightarrow> string \<Rightarrow> int \<Rightarrow> run_view list" where
  "runs_for_customer m customer tenant limit =
     sort_recent (filter (\<lambda>v. rn_customer v = customer \<and> rn_tenant v = tenant) (map snd (rm_views m))) limit"

definition runs_for_conversation :: "run_memory \<Rightarrow> string \<Rightarrow> string \<Rightarrow> int \<Rightarrow> run_view list" where
  "runs_for_conversation m c tenant limit =
     rev (sort_recent (filter (\<lambda>v. rn_conversation v = c \<and> rn_tenant v = tenant) (map snd (rm_views m))) limit)"

section \<open>Rows of the table\<close>

record stored_run =
  sr_id :: nat
  sr_run :: string
  sr_request :: string
  sr_conversation :: string
  sr_tenant :: string
  sr_action :: "string option"
  sr_customer :: int
  sr_actor :: string
  sr_actor_type :: string
  sr_roles :: "string list"
  sr_intent :: string
  sr_request_type :: string
  sr_status :: string
  sr_started :: rat
  sr_duration :: rat
  sr_trace_id :: "string option"
  sr_path :: "string list"
  sr_failure :: "string option"
  sr_degraded :: "string list"
  sr_recovery :: "string option"
  sr_memory_count :: nat
  sr_memory_keys :: "ustr list"
  sr_memory_types :: "ustr list"
  sr_tools :: "ui_tool_event list"
  sr_policy :: "ui_policy_event list"
  sr_documents :: "ui_rag_document list"
  sr_metadata :: jobject
  sr_trace :: "ui_trace_event list"
  sr_created :: rat
  sr_updated :: rat

text \<open>
  \<open>model_dump\<close> and \<open>model_validate\<close> of the nested values. A memory usage is validated from its own dump or
  from the three columns of an older row.
\<close>

record view_codec =
  vc_retrieval :: "ui_retrieval \<Rightarrow> jobject"
  vc_read_retrieval :: "jobject \<Rightarrow> exn + ui_retrieval"
  vc_evidence :: "ui_evidence \<Rightarrow> jval"
  vc_read_evidence :: "jval \<Rightarrow> exn + ui_evidence"
  vc_memory :: "ui_memory \<Rightarrow> jval"
  vc_read_memory :: "jval \<Rightarrow> exn + ui_memory"
  vc_grounding :: "ui_grounding \<Rightarrow> jval"
  vc_read_grounding :: "jval \<Rightarrow> exn + ui_grounding"
  vc_proposal :: "agent_proposal option \<Rightarrow> jval"
  vc_read_proposal :: "jval \<Rightarrow> exn + agent_proposal option"
  vc_duration :: "rat \<Rightarrow> rat"

definition opt_text :: "ustr option \<Rightarrow> jval" where
  "opt_text t = (case t of None \<Rightarrow> JNull | Some s \<Rightarrow> JText s)"

definition execution_metadata :: "run_view \<Rightarrow> jval" where
  "execution_metadata v =
     JObject [(lit ''execution_mode'', JText (lit (rn_mode v))), (lit ''provider'', JText (lit (rn_provider v))),
       (lit ''fallback_message'', opt_text (rn_fallback v))]"

definition operator_fields :: "view_codec \<Rightarrow> run_view \<Rightarrow> (string \<times> jval) list" where
  "operator_fields c v =
     [(''_operator_decision_evidence'', vc_evidence c (rn_evidence v)),
      (''_operator_decision_reason'', opt_text (rn_reason v)), (''_operator_memory_usage'', vc_memory c (rn_memory v)),
      (''_operator_execution_metadata'', execution_metadata v), (''_operator_proposal'', vc_proposal c (rn_proposal v)),
      (''_operator_answer_grounding'', vc_grounding c (rn_grounding v)),
      (''_operator_security_signal'', opt_text (map_option lit (rn_security v))),
      (''_operator_operation_type'', JText (lit (rn_operation v)))]"

definition put_fields :: "(string \<times> jval) list \<Rightarrow> jobject \<Rightarrow> jobject" where
  "put_fields fs d = fold (\<lambda>(k, v). AList.update (lit k) v) fs d"

definition to_record :: "view_codec \<Rightarrow> nat \<Rightarrow> rat \<Rightarrow> run_view \<Rightarrow> stored_run" where
  "to_record c i stamp v =
     \<lparr>sr_id = i, sr_run = rn_run v, sr_request = rn_request v, sr_conversation = rn_conversation v,
      sr_tenant = rn_tenant v, sr_action = rn_action v, sr_customer = rn_customer v, sr_actor = rn_actor v,
      sr_actor_type = rn_actor_type v, sr_roles = rn_roles v, sr_intent = rn_intent v,
      sr_request_type = rn_request_type v, sr_status = rn_status v, sr_started = rn_started v,
      sr_duration = vc_duration c (rn_duration v), sr_trace_id = rn_trace_id v, sr_path = rn_path v,
      sr_failure = rn_failure v, sr_degraded = rn_degraded v, sr_recovery = rn_recovery v,
      sr_memory_count = um_count (rn_memory v), sr_memory_keys = um_keys (rn_memory v),
      sr_memory_types = um_types (rn_memory v), sr_tools = rn_tools v, sr_policy = rn_policy v,
      sr_documents = rn_documents v,
      sr_metadata = put_fields (operator_fields c v) (vc_retrieval c (rn_retrieval v)),
      sr_trace = rn_trace v, sr_created = rn_started v, sr_updated = stamp\<rparr>"

text \<open>The time of the update is later than the stored one by a microsecond at least.\<close>

definition update_record :: "view_codec \<Rightarrow> rat \<Rightarrow> run_view \<Rightarrow> stored_run \<Rightarrow> stored_run" where
  "update_record c stamp v r =
     (to_record c (sr_id r) (if stamp \<le> sr_updated r then sr_updated r + 1 / 1000000 else stamp) v)
       \<lparr>sr_run := sr_run r, sr_started := sr_started r, sr_created := sr_created r\<rparr>"

section \<open>Reading a row\<close>

definition unlit :: "ustr \<Rightarrow> string" where
  "unlit s = map char_of s"

text \<open>\<open>d.pop(k, default)\<close>\<close>

definition popped :: "jobject \<Rightarrow> string \<Rightarrow> jval \<Rightarrow> jval" where
  "popped d k z = (case jget d k of None \<Rightarrow> z | Some v \<Rightarrow> v)"

definition read_opt_text :: "jval \<Rightarrow> exn + ustr option" where
  "read_opt_text v = (case v of JNull \<Rightarrow> Inr None | JText t \<Rightarrow> Inr (Some t) | _ \<Rightarrow> Inl PydanticValidationError)"

definition read_text :: "jval \<Rightarrow> exn + ustr" where
  "read_text v = (case v of JText t \<Rightarrow> Inr t | _ \<Rightarrow> Inl PydanticValidationError)"

definition operator_keys :: "string list" where
  "operator_keys = [''_operator_decision_evidence'', ''_operator_decision_reason'', ''_operator_memory_usage'',
     ''_operator_execution_metadata'', ''_operator_proposal'', ''_operator_answer_grounding'',
     ''_operator_security_signal'', ''_operator_operation_type'']"

definition without_operator_keys :: "jobject \<Rightarrow> jobject" where
  "without_operator_keys d = fold (\<lambda>k. AList.delete (lit k)) operator_keys d"

definition memory_columns :: "stored_run \<Rightarrow> jval" where
  "memory_columns r =
     JObject [(lit ''item_count'', JInt (int (sr_memory_count r))), (lit ''keys'', JList (map JText (sr_memory_keys r))),
       (lit ''types'', JList (map JText (sr_memory_types r)))]"

definition operation_types :: "string list" where
  "operation_types = [''agent_request'', ''memory_summary'', ''idempotency_replay'']"

definition from_record :: "view_codec \<Rightarrow> stored_run \<Rightarrow> exn + run_view" where
  "from_record c r =
     (let d = sr_metadata r;
          memory = popped d ''_operator_memory_usage'' JNull;
          execution = (case popped d ''_operator_execution_metadata'' JNull of JObject e \<Rightarrow> e | _ \<Rightarrow> []) in
      and_then (read_text (popped d ''_operator_operation_type'' (JText (lit ''agent_request'')))) (\<lambda>operation.
      and_then (if unlit operation \<in> set operation_types then Inr () else Inl PydanticValidationError) (\<lambda>_.
      and_then (vc_read_memory c (if jtruthy memory then memory else memory_columns r)) (\<lambda>mem.
      and_then (vc_read_retrieval c (without_operator_keys d)) (\<lambda>ret.
      and_then (vc_read_grounding c (popped d ''_operator_answer_grounding'' JNull)) (\<lambda>gr.
      and_then (read_opt_text (popped d ''_operator_decision_reason'' JNull)) (\<lambda>reason.
      and_then (read_opt_text (popped d ''_operator_security_signal'' JNull)) (\<lambda>security.
      and_then (vc_read_evidence c (popped d ''_operator_decision_evidence'' JNull)) (\<lambda>ev.
      and_then (read_text (popped execution ''execution_mode'' (JText (lit ''recorded_replay'')))) (\<lambda>mode.
      and_then (read_text (popped execution ''provider'' (JText (lit ''recorded_evidence'')))) (\<lambda>provider.
      and_then (read_opt_text (popped execution ''fallback_message'' JNull)) (\<lambda>fallback.
      and_then (vc_read_proposal c (popped d ''_operator_proposal'' JNull)) (\<lambda>proposal.
        Inr \<lparr>rn_run = sr_run r, rn_request = sr_request r, rn_conversation = sr_conversation r,
          rn_tenant = sr_tenant r, rn_action = sr_action r, rn_customer = sr_customer r, rn_actor = sr_actor r,
          rn_actor_type = sr_actor_type r, rn_roles = sr_roles r, rn_intent = sr_intent r,
          rn_request_type = sr_request_type r, rn_operation = unlit operation, rn_status = sr_status r,
          rn_started = sr_started r, rn_duration = sr_duration r, rn_trace_id = sr_trace_id r, rn_path = sr_path r,
          rn_failure = sr_failure r, rn_degraded = sr_degraded r, rn_recovery = sr_recovery r, rn_memory = mem,
          rn_tools = sr_tools r, rn_policy = sr_policy r, rn_documents = sr_documents r, rn_retrieval = ret,
          rn_grounding = gr, rn_trace = sr_trace r, rn_reason = reason, rn_security = map_option unlit security,
          rn_evidence = ev, rn_mode = unlit mode, rn_provider = unlit provider, rn_fallback = fallback,
          rn_proposal = proposal\<rparr>)))))))))))))"

section \<open>The repository in the database\<close>

definition same_row :: "run_view \<Rightarrow> stored_run \<Rightarrow> bool" where
  "same_row v r \<longleftrightarrow> sr_run r = rn_run v \<and> sr_tenant r = rn_tenant v"

definition next_row_id :: "stored_run list \<Rightarrow> nat" where
  "next_row_id rs = Suc (fold max (map sr_id rs) 0)"

definition replace_row :: "view_codec \<Rightarrow> rat \<Rightarrow> run_view \<Rightarrow> stored_run list \<Rightarrow> stored_run list" where
  "replace_row c stamp v rs = map (\<lambda>r. if same_row v r then update_record c stamp v r else r) rs"

text \<open>
  An insert fails with an \<open>IntegrityError\<close> if another transaction has committed rows it conflicts with;
  \<open>rivals\<close> are those rows. The row is then looked up again and updated.
\<close>

definition upsert_row ::
  "view_codec \<Rightarrow> rat \<Rightarrow> stored_run list option \<Rightarrow> run_view \<Rightarrow> stored_run list \<Rightarrow> (exn + unit) \<times> stored_run list" where
  "upsert_row c stamp rivals v rs =
     (if list_ex (same_row v) rs then (Inr (), replace_row c stamp v rs)
      else case rivals of
        None \<Rightarrow> (Inr (), rs @ [to_record c (next_row_id rs) stamp v])
      | Some committed \<Rightarrow>
          if list_ex (same_row v) (rs @ committed) then (Inr (), replace_row c stamp v (rs @ committed))
          else (Inl IntegrityError, rs @ committed))"

definition list_rows :: "view_codec \<Rightarrow> (stored_run \<Rightarrow> bool) \<Rightarrow> int \<Rightarrow> bool \<Rightarrow> stored_run list \<Rightarrow> exn + run_view list" where
  "list_rows c P limit newest rs =
     (let picked = take (projection_limit limit) (rev (sort_key (\<lambda>r. (sr_created r, sr_id r)) (filter P rs))) in
      try_map (from_record c) (if newest then picked else rev picked))"

definition row_by_run_id :: "view_codec \<Rightarrow> stored_run list \<Rightarrow> string \<Rightarrow> string \<Rightarrow> exn + run_view option" where
  "row_by_run_id c rs run tenant =
     (case find (\<lambda>r. sr_run r = run \<and> sr_tenant r = tenant) rs of
        None \<Rightarrow> Inr None
      | Some r \<Rightarrow> and_then (from_record c r) (\<lambda>v. Inr (Some v)))"

definition recent_rows :: "view_codec \<Rightarrow> stored_run list \<Rightarrow> string \<Rightarrow> int \<Rightarrow> exn + run_view list" where
  "recent_rows c rs tenant limit = list_rows c (\<lambda>r. sr_tenant r = tenant) limit True rs"

definition rows_for_customer :: "view_codec \<Rightarrow> stored_run list \<Rightarrow> int \<Rightarrow> string \<Rightarrow> int \<Rightarrow> exn + run_view list" where
  "rows_for_customer c rs customer tenant limit =
     list_rows c (\<lambda>r. sr_customer r = customer \<and> sr_tenant r = tenant) limit True rs"

definition rows_for_conversation :: "view_codec \<Rightarrow> stored_run list \<Rightarrow> string \<Rightarrow> string \<Rightarrow> int \<Rightarrow> exn + run_view list" where
  "rows_for_conversation c rs conversation tenant limit =
     list_rows c (\<lambda>r. sr_conversation r = conversation \<and> sr_tenant r = tenant) limit False rs"

end
