(* ===== verification/Console.thy ===== *)
theory Console
  imports Run_Store Api
begin

text \<open>
  The operator console (api/routes/ui.py) and the choice of the repository of the runs
  (ui/repository.py): every route needs a support operator, looks up the runs of the operator's tenant
  and removes the entries of the trace that could hold an input, a prompt or a hash. The recorded
  demonstration runs and the health of the system are elsewhere; settings are arguments.
\<close>

section \<open>The repository of the runs\<close>

datatype run_repository = RunMemory run_memory | RunTable view_codec "stored_run list"

definition build_run_repository :: "string \<Rightarrow> run_memory \<Rightarrow> (view_codec \<times> stored_run list) option \<Rightarrow> exn + run_repository" where
  "build_run_repository backend m session =
     (if backend = ''memory'' then Inr (RunMemory m)
      else case session of None \<Rightarrow> Inl PyValueError | Some (c, rs) \<Rightarrow> Inr (RunTable c rs))"

text \<open>The operations of the interface; \<open>stamp\<close> and \<open>rivals\<close> are the clock and the rows of another transaction.\<close>

fun save_run :: "rat \<Rightarrow> stored_run list option \<Rightarrow> run_view \<Rightarrow> run_repository \<Rightarrow> (exn + unit) \<times> run_repository" where
  "save_run stamp rivals v (RunMemory m) = (Inr (), RunMemory (upsert_run v m))"
| "save_run stamp rivals v (RunTable c rs) = map_prod id (RunTable c) (upsert_row c stamp rivals v rs)"

fun find_run :: "run_repository \<Rightarrow> string \<Rightarrow> string \<Rightarrow> exn + run_view option" where
  "find_run (RunMemory m) run tenant = Inr (get_by_run_id m run tenant)"
| "find_run (RunTable c rs) run tenant = row_by_run_id c rs run tenant"

fun recent_runs :: "run_repository \<Rightarrow> string \<Rightarrow> int \<Rightarrow> exn + run_view list" where
  "recent_runs (RunMemory m) tenant limit = Inr (list_recent m tenant limit)"
| "recent_runs (RunTable c rs) tenant limit = recent_rows c rs tenant limit"

fun customer_runs :: "run_repository \<Rightarrow> int \<Rightarrow> string \<Rightarrow> int \<Rightarrow> exn + run_view list" where
  "customer_runs (RunMemory m) customer tenant limit = Inr (runs_for_customer m customer tenant limit)"
| "customer_runs (RunTable c rs) customer tenant limit = rows_for_customer c rs customer tenant limit"

fun conversation_runs :: "run_repository \<Rightarrow> string \<Rightarrow> string \<Rightarrow> int \<Rightarrow> exn + run_view list" where
  "conversation_runs (RunMemory m) conversation tenant limit = Inr (runs_for_conversation m conversation tenant limit)"
| "conversation_runs (RunTable c rs) conversation tenant limit = rows_for_conversation c rs conversation tenant limit"

section \<open>The bounded view\<close>

definition sensitive_fragments :: "string list" where
  "sensitive_fragments = [''policy_input'', ''action_argument'', ''tool_argument'', ''prompt'', ''raw'', ''hash'']"

definition sensitive_key :: "string \<Rightarrow> bool" where
  "sensitive_key k \<longleftrightarrow> list_ex (\<lambda>f. contains (lit f) (casefold (lit k))) sensitive_fragments"

definition bounded_event :: "ui_trace_event \<Rightarrow> ui_trace_event" where
  "bounded_event e = e\<lparr>ux_metadata := filter (\<lambda>(k, v). \<not> sensitive_key k) (ux_metadata e)\<rparr>"

definition bounded_operator_view :: "run_view \<Rightarrow> run_view" where
  "bounded_operator_view v = v\<lparr>rn_trace := map bounded_event (rn_trace v)\<rparr>"

section \<open>The routes\<close>

record conversation_view =
  cw_conversation :: string
  cw_customer :: int
  cw_count :: nat
  cw_runs :: "run_view list"
  cw_messages :: "(string \<times> bool) list"

record memory_entry =
  me_id :: int
  me_customer :: int
  me_type :: string
  me_key :: ustr
  me_source :: string
  me_status :: string
  me_created :: rat
  me_updated :: rat
  me_expires :: "rat option"

datatype console_request =
    AgentRuns "int option" int
  | Conversation string
  | AgentRun string
  | ToolEvents string
  | PolicyEvents string
  | PolicyAudit string
  | RagEvents string
  | Traces string
  | Memories int

datatype console_answer =
    Runs "run_view list"
  | Conversed conversation_view
  | Run run_view
  | Tools "ui_tool_event list"
  | Policies "ui_policy_event list"
  | Documents "ui_rag_document list"
  | Trace "ui_trace_event list"
  | Remembered "memory_entry list"

record console =
  cn_runs :: run_repository
  cn_audit :: "audit_event list"
  cn_memory :: memory_config
  cn_rows :: "memory_row list"
  cn_now :: rat
  cn_run_limit :: int
  cn_audit_limit :: int

definition as_internal :: "exn + 'a \<Rightarrow> http_error + 'a" where
  "as_internal r = (case r of Inl x \<Rightarrow> Inl (Internal x) | Inr a \<Rightarrow> Inr a)"

definition run_or_404 :: "console \<Rightarrow> string \<Rightarrow> string \<Rightarrow> http_error + run_view" where
  "run_or_404 cn run tenant =
     and_then (as_internal (find_run (cn_runs cn) run tenant)) (\<lambda>found.
       case found of
         None \<Rightarrow> Inl (Http 404 ''Agent run not found'')
       | Some v \<Rightarrow> Inr (bounded_operator_view v))"

definition agent_runs :: "console \<Rightarrow> principal \<Rightarrow> int option \<Rightarrow> int \<Rightarrow> http_error + run_view list" where
  "agent_runs cn p customer limit =
     (if limit < 1 \<or> 100 < limit then Inl unprocessable
      else and_then (as_internal (case customer of
             Some c \<Rightarrow> customer_runs (cn_runs cn) c (request_tenant p) limit
           | None \<Rightarrow> recent_runs (cn_runs cn) (request_tenant p) limit))
        (\<lambda>vs. Inr (map bounded_operator_view vs)))"

definition conversation_answer :: "console \<Rightarrow> principal \<Rightarrow> string \<Rightarrow> http_error + conversation_view" where
  "conversation_answer cn p c =
     and_then (as_internal (conversation_runs (cn_runs cn) c (request_tenant p) (cn_run_limit cn))) (\<lambda>vs.
       if vs = [] then Inl (Http 404 ''Conversation not found'')
       else Inr \<lparr>cw_conversation = c, cw_customer = rn_customer (last (map bounded_operator_view vs)),
         cw_count = length vs, cw_runs = map bounded_operator_view vs,
         cw_messages = concat (replicate (length vs) [(''user'', False), (''assistant'', False)])\<rparr>)"

definition audit_answer :: "audit_event list \<Rightarrow> http_error + ui_policy_event list" where
  "audit_answer es =
     (if es = [] then Inl (Http 404 ''Policy audit not found'') else Inr (map policy_event_view es))"

fun memory_source_value :: "memory_source \<Rightarrow> string" where
  "memory_source_value USER_EXPLICIT = ''user_explicit''"
| "memory_source_value AGENT_INFERRED = ''agent_inferred''"

fun memory_status_value :: "memory_status \<Rightarrow> string" where
  "memory_status_value MS_ACTIVE = ''active''"
| "memory_status_value MS_SUPERSEDED = ''superseded''"
| "memory_status_value MS_EXPIRED = ''expired''"
| "memory_status_value MS_DELETED = ''deleted''"

definition memory_entry_of :: "memory_view \<Rightarrow> memory_entry" where
  "memory_entry_of m =
     \<lparr>me_id = mm_id m, me_customer = mm_customer m, me_type = memory_type_value (mm_type m), me_key = mm_key m,
      me_source = memory_source_value (mm_source m), me_status = memory_status_value (mm_status m),
      me_created = mm_created m, me_updated = mm_updated m, me_expires = mm_expires m\<rparr>"

definition console_memory :: "console \<Rightarrow> principal \<Rightarrow> int \<Rightarrow> http_error + memory_entry list" where
  "console_memory cn p c =
     (if c \<le> 0 then Inl (Http 400 ''Invalid customer ID'')
      else and_then (as_internal (retrieve ((cn_memory cn)\<lparr>cfg_max_items := 20\<rparr>) c [] (cn_now cn) (Some p) (cn_rows cn)))
        (\<lambda>ms. Inr (map memory_entry_of ms)))"

definition answer :: "('a \<Rightarrow> console_answer) \<Rightarrow> http_error + 'a \<Rightarrow> http_error + console_answer" where
  "answer f r = and_then r (\<lambda>a. Inr (f a))"

fun console_route :: "console \<Rightarrow> principal \<Rightarrow> console_request \<Rightarrow> http_error + console_answer" where
  "console_route cn p (AgentRuns c limit) = answer Runs (agent_runs cn p c limit)"
| "console_route cn p (Conversation c) = answer Conversed (conversation_answer cn p c)"
| "console_route cn p (AgentRun run) = answer Run (run_or_404 cn run (request_tenant p))"
| "console_route cn p (ToolEvents run) = answer (\<lambda>v. Tools (rn_tools v)) (run_or_404 cn run (request_tenant p))"
| "console_route cn p (PolicyEvents run) =
     answer Policies (audit_answer (list_for_agent_run run (request_tenant p) (cn_audit_limit cn) (SqlLog (cn_audit cn))))"
| "console_route cn p (PolicyAudit c) =
     answer Policies (audit_answer (list_for_conversation c (request_tenant p) (cn_audit_limit cn) (SqlLog (cn_audit cn))))"
| "console_route cn p (RagEvents run) = answer (\<lambda>v. Documents (rn_documents v)) (run_or_404 cn run (request_tenant p))"
| "console_route cn p (Traces run) = answer (\<lambda>v. Trace (rn_trace v)) (run_or_404 cn run (request_tenant p))"
| "console_route cn p (Memories c) = answer Remembered (console_memory cn p c)"

text \<open>The dependency of the router runs before the parameters are validated.\<close>

definition serve_console :: "console \<Rightarrow> principal \<Rightarrow> console_request \<Rightarrow> http_error + console_answer" where
  "serve_console cn p req = and_then (require_support_operator p) (\<lambda>q. console_route cn q req)"

end
