(* ===== verification/Run_Laws.thy ===== *)
theory Run_Laws
  imports Run_Store Sort_Laws Text_Laws
begin

text \<open>
  What the record of the runs promises. The repository in memory stays within its bound and forgets the
  oldest runs first; a row of the table gives back the view that was stored; the evidence of a run claims
  a write only if a write tool was executed; and the source of a document never shows a path.
\<close>

section \<open>The bound of the memory\<close>

definition run_memory_ok :: "run_memory \<Rightarrow> bool" where
  "run_memory_ok m \<longleftrightarrow> 1 \<le> rm_limit m \<and> distinct (map fst (rm_views m)) \<and> length (rm_views m) \<le> rm_limit m \<and>
     (\<forall>(k, v) \<in> set (rm_views m). rn_run v = k)"

abbreviation run_key :: "string \<times> run_view \<Rightarrow> rat \<times> int list" where
  "run_key \<equiv> \<lambda>(k, v). (rn_started v, lit k)"

lemma hd_sort_key_least: "y \<in> set xs \<Longrightarrow> f (hd (sort_key f xs)) \<le> f y"
proof -
  assume "y \<in> set xs"
  then obtain z zs where z: "sort_key f xs = z # zs" by (cases "sort_key f xs") (auto simp flip: set_sort [of f xs])
  have "sorted (map f (z # zs))" "y \<in> set (z # zs)" using \<open>y \<in> set xs\<close> unfolding z [symmetric] by simp_all
  then show ?thesis by (auto simp: z)
qed

lemma oldest_run_least:
  assumes "y \<in> set d"
  shows "\<exists>w. (oldest_run d, w) \<in> set d \<and> run_key (oldest_run d, w) \<le> run_key y"
proof -
  have "hd (sort_key run_key d) \<in> set d"
    using assms(1) by (metis empty_iff empty_set hd_in_set set_sort)
  then show ?thesis
    using hd_sort_key_least [OF assms(1), of run_key]
    by (intro exI [of _ "snd (hd (sort_key run_key d))"]) (simp add: oldest_run_def split: prod.splits)
qed

text \<open>What an eviction keeps is a part of what there was, and nothing it drops is later than what it keeps.\<close>

definition evicted :: "(string \<times> run_view) list \<Rightarrow> (string \<times> run_view) list \<Rightarrow> bool" where
  "evicted d e \<longleftrightarrow> distinct (map fst e) \<and> set e \<subseteq> set d \<and> (\<forall>x \<in> set d - set e. \<forall>y \<in> set e. run_key x \<le> run_key y)"

lemma evict_stop: "length d \<le> n \<Longrightarrow> evict n d = d"
  by (subst evict.simps) simp

lemma evict_step: "\<not> length d \<le> n \<Longrightarrow> evict n d = evict n (AList.delete (oldest_run d) d)"
  by (subst evict.simps) simp

lemma evicted_evict:
  assumes "distinct (map fst d)"
  shows "evicted d (evict n d) \<and> length (evict n d) \<le> n"
  using assms
proof (induction n d rule: evict.induct)
  case (1 n d)
  show ?case
  proof (cases "length d \<le> n")
    case True
    then show ?thesis using 1(2) by (simp add: evict_stop evicted_def)
  next
    case False
    let ?e = "AList.delete (oldest_run d) d"
    have "distinct (map fst ?e)" using 1(2) by (rule AList.distinct_delete)
    then have ih: "evicted ?e (evict n ?e) \<and> length (evict n ?e) \<le> n" by (rule 1(1) [OF False])
    have sub: "set ?e \<subseteq> set d" by (auto simp: AList.delete_eq)
    have "run_key x \<le> run_key y" if x: "x \<in> set d - set (evict n ?e)" and y: "y \<in> set (evict n ?e)" for x y
    proof (cases "x \<in> set ?e")
      case True
      then show ?thesis using ih x y unfolding evicted_def by blast
    next
      case False
      then have x1: "fst x = oldest_run d" using x by (auto simp: AList.delete_eq)
      have "y \<in> set d" using ih y sub unfolding evicted_def by blast
      then obtain w where w: "(oldest_run d, w) \<in> set d" "run_key (oldest_run d, w) \<le> run_key y"
        using oldest_run_least by blast
      have "(oldest_run d, snd x) \<in> set d" using x x1 by (metis DiffD1 prod.collapse)
      then have "snd x = w" using eq_key_imp_eq_value [OF 1(2) _ w(1)] by blast
      then show ?thesis using w(2) x1 by (metis prod.collapse)
    qed
    then have later: "\<forall>x \<in> set d - set (evict n ?e). \<forall>y \<in> set (evict n ?e). run_key x \<le> run_key y" by blast
    have "set (evict n ?e) \<subseteq> set d" using ih sub unfolding evicted_def by blast
    moreover have "distinct (map fst (evict n ?e))" "length (evict n ?e) \<le> n"
      using ih unfolding evicted_def by simp_all
    ultimately show ?thesis using later unfolding evict_step [OF False] evicted_def by simp
  qed
qed

lemma update_subset: "set (AList.update k w d) \<subseteq> insert (k, w) (set d)"
  by (induction d) auto

lemma update_ok:
  assumes "run_memory_ok m" and "rn_run w = k"
  shows "distinct (map fst (AList.update k w (rm_views m)))" "\<forall>(j, v) \<in> set (AList.update k w (rm_views m)). rn_run v = j"
  using assms update_subset [of k w "rm_views m"] by (auto simp: run_memory_ok_def AList.distinct_update)

text \<open>A dictionary with new entries: what is read under their keys, and how to take them out again.\<close>

lemma update_absent: "k \<notin> fst ` set d \<Longrightarrow> AList.update k v d = d @ [(k, v)]"
  by (induction d) auto

definition lit_entries :: "(string \<times> jval) list \<Rightarrow> jobject" where
  "lit_entries fs = map (\<lambda>(k, v). (lit k, v)) fs"

lemma put_fields_absent:
  assumes "distinct (map fst fs)" and "\<forall>k \<in> set (map fst fs). lit k \<notin> fst ` set d"
  shows "put_fields fs d = d @ lit_entries fs"
  using assms
proof (induction fs arbitrary: d)
  case (Cons f fs)
  obtain k v where f: "f = (k, v)" by (cases f)
  have "put_fields (f # fs) d = put_fields fs (d @ [(lit k, v)])"
    using Cons.prems(2) by (simp add: f put_fields_def update_absent)
  also have "\<dots> = (d @ [(lit k, v)]) @ lit_entries fs"
    using Cons.prems by (intro Cons.IH) (auto simp: f)
  finally show ?case by (simp add: f lit_entries_def)
qed (simp add: put_fields_def lit_entries_def)

lemma deleted_all: "fold (\<lambda>k. AList.delete (lit k)) ks d = filter (\<lambda>e. fst e \<notin> set (map lit ks)) d"
  by (induction ks arbitrary: d) (auto simp: AList.delete_eq intro: filter_cong)

section \<open>A row gives back its view\<close>

lemma unlit_lit [simp]: "unlit (lit s) = s"
  by (induction s) (simp_all add: unlit_def lit_def)

text \<open>
  What is documented of the validation library for the values of one view: validating the dump of a value
  gives the value, the dump of a memory usage is not empty, and the dump of the retrieval metadata has
  the names of its fields as keys.
\<close>

definition codec_ok :: "view_codec \<Rightarrow> run_view \<Rightarrow> bool" where
  "codec_ok c v \<longleftrightarrow>
     vc_read_retrieval c (vc_retrieval c (rn_retrieval v)) = Inr (rn_retrieval v) \<and>
     (\<forall>k \<in> set operator_keys. lit k \<notin> fst ` set (vc_retrieval c (rn_retrieval v))) \<and>
     vc_read_evidence c (vc_evidence c (rn_evidence v)) = Inr (rn_evidence v) \<and>
     jtruthy (vc_memory c (rn_memory v)) \<and> vc_read_memory c (vc_memory c (rn_memory v)) = Inr (rn_memory v) \<and>
     vc_read_grounding c (vc_grounding c (rn_grounding v)) = Inr (rn_grounding v) \<and>
     vc_read_proposal c (vc_proposal c (rn_proposal v)) = Inr (rn_proposal v)"

lemma fields_keys: "map fst (operator_fields c v) =
    [''_operator_decision_evidence'', ''_operator_decision_reason'', ''_operator_memory_usage'',
     ''_operator_execution_metadata'', ''_operator_proposal'', ''_operator_answer_grounding'',
     ''_operator_security_signal'', ''_operator_operation_type'']"
  by (simp add: operator_fields_def)

lemma stored_metadata:
  assumes "codec_ok c v"
  shows "put_fields (operator_fields c v) (vc_retrieval c (rn_retrieval v)) =
    vc_retrieval c (rn_retrieval v) @ lit_entries (operator_fields c v)"
  using assms by (intro put_fields_absent) (simp_all add: fields_keys codec_ok_def operator_keys_def)

lemma popped_stored:
  assumes "codec_ok c v" and "k \<in> set operator_keys"
  shows "popped (vc_retrieval c (rn_retrieval v) @ lit_entries (operator_fields c v)) k z =
    popped (lit_entries (operator_fields c v)) k z"
proof -
  have "lit k \<notin> fst ` set (vc_retrieval c (rn_retrieval v))" using assms by (auto simp: codec_ok_def)
  then have "map_of (vc_retrieval c (rn_retrieval v)) (lit k) = None" by (simp add: map_of_eq_None_iff)
  then show ?thesis by (simp add: popped_def jget_def map_add_def)
qed

lemma without_stored:
  assumes "codec_ok c v"
  shows "without_operator_keys (vc_retrieval c (rn_retrieval v) @ lit_entries (operator_fields c v)) =
    vc_retrieval c (rn_retrieval v)"
proof -
  have keys: "map fst (operator_fields c v) = operator_keys" by (simp add: fields_keys operator_keys_def)
  have "filter (\<lambda>e. fst e \<notin> set (map lit operator_keys)) (lit_entries (operator_fields c v)) = []"
    unfolding keys [symmetric] by (force simp: lit_entries_def filter_empty_conv)
  moreover have "filter (\<lambda>e. fst e \<notin> set (map lit operator_keys)) (vc_retrieval c (rn_retrieval v)) =
      vc_retrieval c (rn_retrieval v)"
    using assms by (force simp: codec_ok_def filter_id_conv)
  ultimately show ?thesis by (simp add: without_operator_keys_def deleted_all)
qed

lemma popped_operator:
  "popped (lit_entries (operator_fields c v)) ''_operator_decision_evidence'' z = vc_evidence c (rn_evidence v)"
  "popped (lit_entries (operator_fields c v)) ''_operator_decision_reason'' z = opt_text (rn_reason v)"
  "popped (lit_entries (operator_fields c v)) ''_operator_memory_usage'' z = vc_memory c (rn_memory v)"
  "popped (lit_entries (operator_fields c v)) ''_operator_execution_metadata'' z = execution_metadata v"
  "popped (lit_entries (operator_fields c v)) ''_operator_proposal'' z = vc_proposal c (rn_proposal v)"
  "popped (lit_entries (operator_fields c v)) ''_operator_answer_grounding'' z = vc_grounding c (rn_grounding v)"
  "popped (lit_entries (operator_fields c v)) ''_operator_security_signal'' z = opt_text (map_option lit (rn_security v))"
  "popped (lit_entries (operator_fields c v)) ''_operator_operation_type'' z = JText (lit (rn_operation v))"
  by (simp_all add: lit_entries_def operator_fields_def popped_def jget_def)

lemma read_opt_text_opt [simp]: "read_opt_text (opt_text t) = Inr t"
  by (simp add: read_opt_text_def opt_text_def split: option.splits)

lemma map_unlit_lit [simp]: "map_option unlit (map_option lit t) = t"
  by (cases t) simp_all

lemma popped_execution:
  "popped [(lit ''execution_mode'', a), (lit ''provider'', b), (lit ''fallback_message'', f)] ''execution_mode'' z = a"
  "popped [(lit ''execution_mode'', a), (lit ''provider'', b), (lit ''fallback_message'', f)] ''provider'' z = b"
  "popped [(lit ''execution_mode'', a), (lit ''provider'', b), (lit ''fallback_message'', f)] ''fallback_message'' z = f"
  by (simp_all add: popped_def jget_def)

lemma from_to_record:
  assumes "codec_ok c v" and "rn_operation v \<in> set operation_types"
  shows "from_record c (to_record c i stamp v) = Inr (v\<lparr>rn_duration := vc_duration c (rn_duration v)\<rparr>)"
proof -
  have m: "sr_metadata (to_record c i stamp v) = vc_retrieval c (rn_retrieval v) @ lit_entries (operator_fields c v)"
    by (simp add: to_record_def stored_metadata [OF assms(1)])
  note get = popped_stored [OF assms(1)] popped_operator without_stored [OF assms(1)]
  show ?thesis
    using assms unfolding from_record_def m Let_def
    by (simp add: get operator_keys_def execution_metadata_def popped_execution read_text_def codec_ok_def to_record_def)
qed

lemma from_update:
  assumes "codec_ok c v" and "rn_operation v \<in> set operation_types" and "same_row v r"
  shows "from_record c (update_record c stamp v r) =
    Inr (v\<lparr>rn_started := sr_started r, rn_duration := vc_duration c (rn_duration v)\<rparr>)"
proof -
  have m: "sr_metadata (update_record c stamp v r) = vc_retrieval c (rn_retrieval v) @ lit_entries (operator_fields c v)"
    by (simp add: update_record_def to_record_def stored_metadata [OF assms(1)])
  note get = popped_stored [OF assms(1)] popped_operator without_stored [OF assms(1)]
  show ?thesis
    using assms unfolding from_record_def m Let_def
    by (simp add: get operator_keys_def execution_metadata_def popped_execution read_text_def codec_ok_def
        update_record_def to_record_def same_row_def)
qed

section \<open>The table after a write\<close>

text \<open>The rows the write is applied to, and the time at which the run was first stored.\<close>

definition rows_at_write :: "stored_run list option \<Rightarrow> run_view \<Rightarrow> stored_run list \<Rightarrow> stored_run list" where
  "rows_at_write rivals v rs = (if list_ex (same_row v) rs then rs else rs @ (case rivals of None \<Rightarrow> [] | Some xs \<Rightarrow> xs))"

definition first_started :: "run_view \<Rightarrow> stored_run list \<Rightarrow> rat" where
  "first_started v rs = (case find (same_row v) rs of None \<Rightarrow> rn_started v | Some r \<Rightarrow> sr_started r)"

definition find_row :: "string \<Rightarrow> string \<Rightarrow> stored_run list \<Rightarrow> stored_run option" where
  "find_row run tenant rs = find (\<lambda>r. sr_run r = run \<and> sr_tenant r = tenant) rs"

lemma row_by_run_id_row:
  "row_by_run_id c rs run tenant =
     (case find_row run tenant rs of None \<Rightarrow> Inr None | Some r \<Rightarrow> and_then (from_record c r) (\<lambda>v. Inr (Some v)))"
  by (simp add: row_by_run_id_def find_row_def)

lemma find_row_same: "find_row (rn_run v) (rn_tenant v) rs = find (same_row v) rs"
  by (simp add: find_row_def same_row_def [abs_def])

lemma updated_place:
  assumes "same_row v r"
  shows "sr_run (update_record c stamp v r) = sr_run r" "sr_tenant (update_record c stamp v r) = sr_tenant r"
  using assms by (simp_all add: update_record_def to_record_def same_row_def)

lemma find_row_replaced:
  "find_row run tenant (replace_row c stamp v rs) =
     map_option (\<lambda>r. if same_row v r then update_record c stamp v r else r) (find_row run tenant rs)"
  unfolding find_row_def replace_row_def by (rule find_map_kept) (simp add: updated_place)

lemma new_place: "sr_run (to_record c i stamp v) = rn_run v" "sr_tenant (to_record c i stamp v) = rn_tenant v"
  by (simp_all add: to_record_def)

lemma upsert_cases:
  assumes "upsert_row c stamp rivals v rs = (Inr (), rs')"
  obtains "list_ex (same_row v) (rows_at_write rivals v rs)" "rs' = replace_row c stamp v (rows_at_write rivals v rs)"
  | "rivals = None" "\<not> list_ex (same_row v) rs" "rs' = rs @ [to_record c (next_row_id rs) stamp v]"
  using assms by (auto simp: upsert_row_def rows_at_write_def split: if_splits option.splits)

section \<open>Sources without paths\<close>

lemma set_split_ws_from: "x \<in> set (split_ws_from w s) \<Longrightarrow> set x \<subseteq> set w \<union> set s"
proof (induction s arbitrary: w)
  case (Cons c s)
  then show ?case by (fastforce split: if_splits dest: Cons.IH)
qed (auto split: if_splits)

lemma set_join_char: "set (join_char c ws) \<subseteq> insert c (\<Union> (set ` set ws))"
  by (induction c ws rule: join_char.induct) auto

lemma set_squeeze: "set (squeeze s) \<subseteq> insert 32 (set s)"
  using set_join_char [of 32 "split_ws s"] set_split_ws_from [of _ "[]" s]
  by (fastforce simp: squeeze_def split_ws_def)

lemma set_before_last_dot: "set (before_last_dot s) \<subseteq> set s"
proof -
  have "set (tl (dropWhile P (rev s))) \<subseteq> set s" for P
    by (metis list.set_sel(2) set_dropWhileD set_rev subsetI tl_Nil)
  then show ?thesis by (simp add: before_last_dot_def)
qed

lemma no_slash:
  assumes "set l \<subseteq> insert 32 S" and "slash \<notin> S" and "backslash \<notin> S"
  shows "set l \<inter> {slash, backslash} = {}"
  using assms by (fastforce simp: slash_def backslash_def)

lemma safe_source: "safe_rag_source v title = title \<or> set (safe_rag_source v title) \<inter> {slash, backslash} = {}"
proof (cases v)
  case (Some u)
  show ?thesis
  proof (cases u)
    case (JText t)
    let ?c = "map (\<lambda>c. if c = backslash then slash else c) t"
    let ?l = "take 200 (squeeze (map (\<lambda>c. if c \<in> {95, 45} then 32 else c) (before_last_dot ?c)))"
    have "set ?l \<subseteq> insert 32 (set ?c)"
      using set_squeeze [of "map (\<lambda>c. if c \<in> {95, 45} then 32 else c) (before_last_dot ?c)"] set_before_last_dot [of ?c]
        set_take_subset [of 200 "squeeze (map (\<lambda>c. if c \<in> {95, 45} then 32 else c) (before_last_dot ?c))"]
      by fastforce
    moreover have "backslash \<notin> set ?c" by (auto simp: slash_def backslash_def)
    ultimately have "slash \<notin> set ?c \<Longrightarrow> set ?l \<inter> {slash, backslash} = {}" by (intro no_slash)
    moreover have "safe_rag_source v title = title \<or> slash \<notin> set ?c \<and> safe_rag_source v title = ?l"
      using Some JText by (simp add: safe_rag_source_def Let_def)
    ultimately show ?thesis by (elim disjE conjE) simp_all
  qed (use Some in \<open>simp_all add: safe_rag_source_def\<close>)
qed (simp add: safe_rag_source_def)

lemma rag_document_source: "ur_source (rag_document str d) = ur_title (rag_document str d) \<or>
    set (ur_source (rag_document str d)) \<inter> {slash, backslash} = {}"
  using safe_source by (simp add: rag_document_def Let_def)

lemma rag_documents_from: "d \<in> set (rag_documents str chunks) \<Longrightarrow> \<exists>x. d = rag_document str x"
  by (auto simp: rag_documents_def split: jval.splits)

lemma length_concat_le: "(\<And>x. length (f x) \<le> 1) \<Longrightarrow> length (concat (map f xs)) \<le> length xs"
proof (induction xs)
  case (Cons x xs)
  then show ?case using add_mono [OF Cons.prems [of x] Cons.IH [OF Cons.prems]] by simp
qed simp

lemma length_rag_documents: "length (rag_documents str chunks) \<le> 10"
proof -
  have "length (rag_documents str chunks) \<le> length (take 10 chunks)"
    unfolding rag_documents_def by (rule length_concat_le) (simp split: jval.splits)
  then show ?thesis by simp
qed

section \<open>A run, a repository and a codec\<close>

definition plain_grounding :: ui_grounding where
  "plain_grounding = \<lparr>ug_status = ''not_used'', ug_sources = 0, ug_citations = 0, ug_coverage = None, ug_unsupported = 0,
     ug_confidence = None, ug_accepted = True\<rparr>"

definition plain_retrieval :: ui_retrieval where
  "plain_retrieval = \<lparr>ut_backend = ''local'', ut_provider = ''hash'', ut_reranker = False, ut_count = 0, ut_latency = 0,
     ut_fallback = ''none'', ut_hybrid = False, ut_fusion = ''none'', ut_dense = 0, ut_sparse = 0\<rparr>"

definition plain_evidence :: ui_evidence where
  "plain_evidence = \<lparr>ee_decision = ''not_recorded'', ee_reason = None, ee_stage = ''not_recorded'',
     ee_execution = ''not_attempted'', ee_authority = ''not_granted'', ee_grounding = lit ''not_recorded'',
     ee_reference = None, ee_source = None, ee_compiler = ''not_recorded'', ee_tool = None, ee_retrieval = False,
     ee_compiler_reason = None, ee_target = lit ''not_recorded'', ee_confirmation = ''not_required'', ee_required = False,
     ee_action = None, ee_risk = None, ee_write = ''not_attempted''\<rparr>"

definition plain_run :: "string \<Rightarrow> string \<Rightarrow> rat \<Rightarrow> run_view" where
  "plain_run i tenant started = \<lparr>rn_run = i, rn_request = ''q'', rn_conversation = ''c'', rn_tenant = tenant, rn_action = None,
     rn_customer = 7, rn_actor = ''ada'', rn_actor_type = ''customer'', rn_roles = [], rn_intent = ''general'',
     rn_request_type = ''unclear'', rn_operation = ''agent_request'', rn_status = ''completed'', rn_started = started,
     rn_duration = 5, rn_trace_id = None, rn_path = [''respond''], rn_failure = None, rn_degraded = [], rn_recovery = None,
     rn_memory = memory_usage (\<lambda>_. []) [], rn_tools = [], rn_policy = [], rn_documents = [], rn_retrieval = plain_retrieval,
     rn_grounding = plain_grounding,
     rn_trace = [\<lparr>ux_name = ''respond'', ux_key = None, ux_stage = TS_RESPONSE, ux_status = ''ok'', ux_duration = 1, ux_time = 1,
       ux_metadata = [(''items'', JInt 2), (''Raw_Prompt'', JText (lit ''secret''))]\<rparr>],
     rn_reason = None, rn_security = None, rn_evidence = plain_evidence, rn_mode = ''recorded_replay'',
     rn_provider = ''replay'', rn_fallback = None, rn_proposal = None\<rparr>"

definition plain_codec :: view_codec where
  "plain_codec = \<lparr>vc_retrieval = (\<lambda>r. [(lit ''backend'', JText (lit (ut_backend r)))]),
     vc_read_retrieval = (\<lambda>d. Inr plain_retrieval), vc_evidence = (\<lambda>e. JText (lit (ee_decision e))),
     vc_read_evidence = (\<lambda>v. Inr plain_evidence), vc_memory = (\<lambda>m. JObject [(lit ''item_count'', JInt (int (um_count m)))]),
     vc_read_memory = (\<lambda>v. Inr (memory_usage (\<lambda>_. []) [])), vc_grounding = (\<lambda>g. JText (lit (ug_status g))),
     vc_read_grounding = (\<lambda>v. Inr plain_grounding), vc_proposal = (\<lambda>p. JNull), vc_read_proposal = (\<lambda>v. Inr None),
     vc_duration = (\<lambda>r. r)\<rparr>"

lemma plain_codec_ok: "codec_ok plain_codec (plain_run i tenant started)"
  by (simp add: codec_ok_def plain_codec_def plain_run_def operator_keys_def)

section \<open>Properties\<close>

text \<open>The memory of the runs keeps its bound and forgets the oldest first: an update leaves at most as many
  runs as the limit allows, each under its own id, and no run it drops started after one it keeps.\<close>

theorem run_memory_keeps_latest:
  assumes "run_memory_ok m"
  shows "run_memory_ok (upsert_run v m) \<and>
    (\<forall>k w j u. map_of (rm_views m) k = Some w \<longrightarrow> k \<noteq> rn_run v \<longrightarrow> map_of (rm_views (upsert_run v m)) k = None \<longrightarrow>
       map_of (rm_views (upsert_run v m)) j = Some u \<longrightarrow> (rn_started w, lit k) \<le> (rn_started u, lit j))"
proof -
  define w where "w = (case map_of (rm_views m) (rn_run v) of None \<Rightarrow> v | Some old \<Rightarrow> v\<lparr>rn_started := rn_started old\<rparr>)"
  let ?d = "AList.update (rn_run v) w (rm_views m)" and ?e = "rm_views (upsert_run v m)"
  have "rn_run w = rn_run v" by (simp add: w_def split: option.splits)
  note d = update_ok [OF assms this]
  have e: "?e = evict (rm_limit m) ?d" and limit: "rm_limit (upsert_run v m) = rm_limit m"
    by (simp_all add: upsert_run_def w_def Let_def)
  have ev: "evicted ?d ?e" and bound: "length ?e \<le> rm_limit m"
    using evicted_evict [OF d(1)] by (simp_all add: e)
  have "run_memory_ok (upsert_run v m)"
    using assms ev bound d(2) limit unfolding run_memory_ok_def evicted_def by auto
  moreover have "(rn_started x, lit k) \<le> (rn_started u, lit j)"
    if "map_of (rm_views m) k = Some x" "k \<noteq> rn_run v" "map_of ?e k = None" "map_of ?e j = Some u" for k x j u
  proof -
    have "(k, x) \<in> set ?d" using that(1,2) by (intro map_of_SomeD) (simp add: AList.update_conv')
    moreover have "(k, x) \<notin> set ?e" using that(3) by (force simp: map_of_eq_None_iff)
    ultimately have "run_key (k, x) \<le> run_key (j, u)"
      using ev map_of_SomeD [OF that(4)] unfolding evicted_def by blast
    then show ?thesis by simp
  qed
  ultimately show ?thesis by blast
qed

lemma run_memory_keeps_latest_witness:
  "run_memory_ok (upsert_run (plain_run ''b'' ''default'' 3) \<lparr>rm_limit = 1, rm_views = [(''a'', plain_run ''a'' ''default'' 2)]\<rparr>)"
  using run_memory_keeps_latest [of "\<lparr>rm_limit = 1, rm_views = [(''a'', plain_run ''a'' ''default'' 2)]\<rparr>"
      "plain_run ''b'' ''default'' 3"]
  by (simp add: run_memory_ok_def plain_run_def)

text \<open>C38. A stored run can be read again: after a successful write the row of the run gives back the view that
  was stored, with the time at which the run was first stored and the duration as its column rounds it,
  and the rows of all other runs read as before, also if the write lost a race for the insert.\<close>

theorem stored_run_restored:
  assumes "codec_ok c v" and "rn_operation v \<in> set operation_types"
    and "upsert_row c stamp rivals v rs = (Inr (), rs')"
  shows "row_by_run_id c rs' (rn_run v) (rn_tenant v) =
      Inr (Some (v\<lparr>rn_started := first_started v (rows_at_write rivals v rs), rn_duration := vc_duration c (rn_duration v)\<rparr>)) \<and>
    (\<forall>run tenant. (run, tenant) \<noteq> (rn_run v, rn_tenant v) \<longrightarrow>
       row_by_run_id c rs' run tenant = row_by_run_id c (rows_at_write rivals v rs) run tenant)"
  using assms(3)
proof (cases rule: upsert_cases)
  case 1
  let ?b = "rows_at_write rivals v rs"
  obtain r where r: "find (same_row v) ?b = Some r" "same_row v r"
    using 1(1) find_Some_in [of "same_row v" ?b] find_None_all [of "same_row v" ?b]
    by (cases "find (same_row v) ?b") (auto simp: list_ex_iff)
  have "find_row (rn_run v) (rn_tenant v) rs' = Some (update_record c stamp v r)"
    using r by (simp add: 1(2) find_row_replaced find_row_same)
  moreover have "row_by_run_id c rs' run tenant = row_by_run_id c ?b run tenant"
    if "(run, tenant) \<noteq> (rn_run v, rn_tenant v)" for run tenant
  proof (cases "find_row run tenant ?b")
    case (Some q)
    then have "\<not> same_row v q"
      using that find_Some_in [of _ ?b q] by (auto simp: find_row_def same_row_def)
    then show ?thesis using Some by (simp add: row_by_run_id_row 1(2) find_row_replaced)
  qed (simp add: row_by_run_id_row 1(2) find_row_replaced)
  ultimately show ?thesis
    using r from_update [OF assms(1,2) r(2)] by (simp add: row_by_run_id_row first_started_def)
next
  case 2
  let ?n = "to_record c (next_row_id rs) stamp v"
  have b: "rows_at_write rivals v rs = rs" using 2(1) by (simp add: rows_at_write_def)
  have none: "find (same_row v) rs = None" using 2(2) by (simp add: find_None_all list_ex_iff)
  have "find_row (rn_run v) (rn_tenant v) rs' = Some ?n"
    using none find_append_miss [OF none, of "[?n]"] by (simp add: 2(3) find_row_same same_row_def new_place)
  moreover have "find_row run tenant rs' = find_row run tenant rs" if "(run, tenant) \<noteq> (rn_run v, rn_tenant v)" for run tenant
    using that unfolding 2(3) find_row_def
    by (cases "find (\<lambda>r. sr_run r = run \<and> sr_tenant r = tenant) rs") (auto simp: find_append_hit find_append_miss new_place)
  ultimately show ?thesis
    using none from_to_record [OF assms(1,2)] by (auto simp: row_by_run_id_row first_started_def b)
qed

lemma stored_run_restored_witness:
  "row_by_run_id plain_codec [to_record plain_codec 1 9 (plain_run ''a'' ''default'' 2)] ''a'' ''default'' =
    Inr (Some (plain_run ''a'' ''default'' 2))"
proof -
  have "upsert_row plain_codec 9 None (plain_run ''a'' ''default'' 2) [] =
      (Inr (), [to_record plain_codec 1 9 (plain_run ''a'' ''default'' 2)])"
    by (simp add: upsert_row_def next_row_id_def)
  from stored_run_restored [OF plain_codec_ok _ this] show ?thesis
    by (simp add: plain_run_def plain_codec_def operation_types_def first_started_def rows_at_write_def)
qed

text \<open>The evidence never claims more than happened: it says that a write was executed exactly if a write tool was
  selected and its execution recorded, in a turn without a security signal, a replay, an ownership
  violation or an unknown outcome; it shows controlled authority exactly then; and it never shows the
  authority of a read.\<close>

theorem write_evidence_sound:
  "(ee_execution (decision_evidence s evs r) = ''executed'') =
     (s_execution s = Some ''executed'' \<and> (\<exists>t. s_tool s = Some t \<and> is_write_tool t) \<and> s_security s = None \<and>
      \<not> s_replay s \<and> ar_error r \<noteq> Some EC_OWNERSHIP_VIOLATION \<and> \<not> ar_write_unknown r \<and> \<not> s_write_unknown s) \<and>
   (ee_authority (decision_evidence s evs r) = ''controlled_execution'') =
     (ee_execution (decision_evidence s evs r) = ''executed'') \<and>
   ee_authority (decision_evidence s evs r) \<noteq> ''read_access''"
proof -
  have w: "(write_outcome_status s r = ''executed'') =
     (s_execution s = Some ''executed'' \<and> (\<exists>t. s_tool s = Some t \<and> is_write_tool t) \<and> s_security s = None \<and>
      \<not> s_replay s \<and> ar_error r \<noteq> Some EC_OWNERSHIP_VIOLATION \<and> \<not> ar_write_unknown r \<and> \<not> s_write_unknown s)"
    by (auto simp: write_outcome_status_def split: option.splits action_status.splits)
  have e: "ee_execution (decision_evidence s evs r) = write_outcome_status s r"
    "ee_authority (decision_evidence s evs r) = authority_status (s_tool s) (write_outcome_status s r) (confirmation_needed s)"
    by (simp_all add: decision_evidence_def Let_def)
  have "\<not> is_write_tool []" by code_simp
  then show ?thesis unfolding e w by (auto simp: authority_status_def or_text_def w)
qed

section \<open>What the code does otherwise\<close>

text \<open>
  A tool counts as executed in the view only under the node \<open>execute_tool\<close>. An escalation runs under the
  name \<open>escalate\<close>, so one that failed while it ran, even with an unknown outcome, is shown as blocked before
  its execution, and without a duration.
\<close>

lemma failed_escalation_shown_blocked:
  assumes "\<forall>n \<in> set ns. ne_name n \<noteq> ''execute_tool''"
  shows "tool_projection_status (Some ''failed'') (ns @ [n\<lparr>ne_name := ''escalate''\<rparr>]) = ''blocked_before_execution'' \<and>
    node_duration (ns @ [n\<lparr>ne_name := ''escalate''\<rparr>]) ''execute_tool'' = 0"
  using assms by (auto simp: tool_projection_status_def node_duration_def list_ex_iff intro: filter_False)

end
