(* ===== verification/Console_Laws.thy ===== *)
theory Console_Laws
  imports Console Run_Laws
begin

text \<open>
  The console shows an operator the runs of the operator's own tenant only. What the routes rely on is
  stated as the contract of a source of runs, which both repositories keep.
\<close>

section \<open>The contract of a source of runs\<close>

definition listed :: "(run_view \<Rightarrow> bool) \<Rightarrow> run_view list \<Rightarrow> bool" where
  "listed P vs \<longleftrightarrow> length vs \<le> 100 \<and> (\<forall>v \<in> set vs. P v)"

locale run_source =
  fixes find_in :: "'r \<Rightarrow> string \<Rightarrow> string \<Rightarrow> exn + run_view option"
    and recent_in :: "'r \<Rightarrow> string \<Rightarrow> int \<Rightarrow> exn + run_view list"
    and customer_in :: "'r \<Rightarrow> int \<Rightarrow> string \<Rightarrow> int \<Rightarrow> exn + run_view list"
    and conversation_in :: "'r \<Rightarrow> string \<Rightarrow> string \<Rightarrow> int \<Rightarrow> exn + run_view list"
  assumes found: "find_in r run tenant = Inr (Some v) \<Longrightarrow> rn_tenant v = tenant"
    and recent: "recent_in r tenant limit = Inr vs \<Longrightarrow> listed (\<lambda>v. rn_tenant v = tenant) vs"
    and of_customer: "customer_in r customer tenant limit = Inr vs \<Longrightarrow>
          listed (\<lambda>v. rn_tenant v = tenant \<and> rn_customer v = customer) vs"
    and of_conversation: "conversation_in r conversation tenant limit = Inr vs \<Longrightarrow>
          listed (\<lambda>v. rn_tenant v = tenant \<and> rn_conversation v = conversation) vs"
begin

text \<open>Whatever a query asks for, its answer is of one tenant and has at most a hundred runs.\<close>

lemma any_listed:
  assumes "(case customer of Some c \<Rightarrow> customer_in r c tenant limit | None \<Rightarrow> recent_in r tenant limit) = Inr vs"
  shows "listed (\<lambda>v. rn_tenant v = tenant \<and> (case customer of Some c \<Rightarrow> rn_customer v = c | None \<Rightarrow> True)) vs"
  using assms by (cases customer) (auto dest: recent of_customer)

end

section \<open>Both repositories keep it\<close>

lemma projection_limit_le: "projection_limit l \<le> 100"
  by (simp add: projection_limit_def)

lemma length_take_le: "length (take n xs) \<le> n"
  by simp

lemma sort_recent_listed: "(\<And>v. v \<in> set vs \<Longrightarrow> P v) \<Longrightarrow> listed P (sort_recent vs limit)"
  by (auto simp: listed_def sort_recent_def projection_limit_def dest: in_set_takeD)

lemma listed_rev: "listed P (rev vs) = listed P vs"
  by (simp add: listed_def)

lemma from_record_place:
  assumes "from_record c r = Inr v"
  shows "rn_run v = sr_run r" "rn_tenant v = sr_tenant r" "rn_customer v = sr_customer r"
    "rn_conversation v = sr_conversation r"
  using assms by (auto simp: from_record_def Let_def and_then_Inr_iff split: if_splits)

lemma try_map_from:
  "try_map f xs = Inr ys \<Longrightarrow> length ys = length xs \<and> (\<forall>y \<in> set ys. \<exists>x \<in> set xs. f x = Inr y)"
proof (induction xs arbitrary: ys)
  case (Cons x xs)
  then show ?case by (fastforce simp: and_then_Inr_iff)
qed simp

lemma list_rows_listed:
  assumes "list_rows c P limit newest rs = Inr vs" and "\<And>r v. P r \<Longrightarrow> from_record c r = Inr v \<Longrightarrow> Q v"
  shows "listed Q vs"
proof -
  let ?picked = "take (projection_limit limit) (rev (sort_key (\<lambda>r. (sr_created r, sr_id r)) (filter P rs)))"
  let ?xs = "if newest then ?picked else rev ?picked"
  have "try_map (from_record c) ?xs = Inr vs"
    using assms(1) by (simp add: list_rows_def Let_def)
  note from_xs = try_map_from [OF this]
  have same: "set ?xs = set ?picked" "length ?xs = length ?picked" by simp_all
  have rows: "\<forall>v \<in> set vs. \<exists>r \<in> set ?picked. from_record c r = Inr v"
    using from_xs unfolding same by blast
  have "length vs = length ?picked" using from_xs unfolding same by blast
  also have "\<dots> \<le> projection_limit limit" by (rule length_take_le)
  also have "\<dots> \<le> 100" by (rule projection_limit_le)
  finally have "length vs \<le> 100" .
  moreover have "Q v" if v: "v \<in> set vs" for v
  proof -
    obtain r where r: "r \<in> set ?picked" "from_record c r = Inr v" using bspec [OF rows v] by (rule bexE)
    have "P r" using in_set_takeD [OF r(1)] by simp
    then show ?thesis using r(2) by (rule assms(2))
  qed
  ultimately show ?thesis by (simp add: listed_def)
qed

lemma row_by_run_id_found:
  "row_by_run_id c rs run tenant = Inr (Some v) \<Longrightarrow> rn_run v = run \<and> rn_tenant v = tenant"
  by (auto simp: row_by_run_id_def and_then_Inr_iff from_record_place dest!: find_Some_in split: option.splits)

interpretation runs: run_source find_run recent_runs customer_runs conversation_runs
proof unfold_locales
  show "find_run r run tenant = Inr (Some v) \<Longrightarrow> rn_tenant v = tenant" for r run tenant v
    by (cases r) (auto simp: get_by_run_id_def row_by_run_id_found split: option.splits if_splits)
  show "recent_runs r tenant limit = Inr vs \<Longrightarrow> listed (\<lambda>v. rn_tenant v = tenant) vs" for r tenant limit vs
    by (cases r) (auto simp: list_recent_def recent_rows_def from_record_place
        intro!: sort_recent_listed elim!: list_rows_listed)
  show "customer_runs r customer tenant limit = Inr vs \<Longrightarrow>
      listed (\<lambda>v. rn_tenant v = tenant \<and> rn_customer v = customer) vs" for r customer tenant limit vs
    by (cases r) (auto simp: runs_for_customer_def rows_for_customer_def from_record_place
        intro!: sort_recent_listed elim!: list_rows_listed)
  show "conversation_runs r conversation tenant limit = Inr vs \<Longrightarrow>
      listed (\<lambda>v. rn_tenant v = tenant \<and> rn_conversation v = conversation) vs" for r conversation tenant limit vs
    by (cases r) (auto simp: runs_for_conversation_def rows_for_conversation_def from_record_place listed_rev
        intro!: sort_recent_listed elim!: list_rows_listed)
qed

section \<open>Bounded views\<close>

definition redacted :: "ui_trace_event \<Rightarrow> bool" where
  "redacted e \<longleftrightarrow> list_all (\<lambda>(k, v). \<not> sensitive_key k) (ux_metadata e)"

lemma bounded_event_redacted [simp]: "redacted (bounded_event e)"
  by (auto simp: redacted_def bounded_event_def list_all_iff)

definition showable :: "string \<Rightarrow> run_view \<Rightarrow> bool" where
  "showable tenant v \<longleftrightarrow> rn_tenant v = tenant \<and> list_all redacted (rn_trace v)"

lemma showable_bounded: "rn_tenant v = tenant \<Longrightarrow> showable tenant (bounded_operator_view v)"
  by (simp add: showable_def bounded_operator_view_def list_all_iff)

lemma listed_bounded:
  "listed (\<lambda>v. rn_tenant v = tenant \<and> R v) vs \<Longrightarrow> listed (showable tenant) (map bounded_operator_view vs)"
  by (auto simp: listed_def showable_bounded)

lemma as_internal_Inr: "as_internal r = Inr a \<longleftrightarrow> r = Inr a"
  by (simp add: as_internal_def split: sum.splits)

lemma run_or_404_showable: "run_or_404 cn run tenant = Inr v \<Longrightarrow> showable tenant v"
  by (auto simp: run_or_404_def and_then_Inr_iff as_internal_Inr showable_bounded runs.found split: option.splits)

lemma agent_runs_showable: "agent_runs cn p c limit = Inr vs \<Longrightarrow> listed (showable (request_tenant p)) vs"
  by (auto simp: agent_runs_def and_then_Inr_iff as_internal_Inr split: if_splits
      dest!: runs.any_listed intro: listed_bounded)

lemma conversation_showable:
  "conversation_answer cn p c = Inr w \<Longrightarrow> listed (showable (request_tenant p)) (cw_runs w)"
  by (auto simp: conversation_answer_def and_then_Inr_iff as_internal_Inr split: if_splits
      dest!: runs.of_conversation intro: listed_bounded)

section \<open>Properties\<close>

text \<open>The runs an answer shows, and the events of a trace it shows.\<close>

fun shown_runs :: "console_answer \<Rightarrow> run_view list" where
  "shown_runs (Runs vs) = vs"
| "shown_runs (Conversed w) = cw_runs w"
| "shown_runs (Run v) = [v]"
| "shown_runs _ = []"

fun shown_trace :: "console_answer \<Rightarrow> ui_trace_event list" where
  "shown_trace (Trace es) = es"
| "shown_trace a = concat (map rn_trace (shown_runs a))"

text \<open>C37. The console answers support operators only, and shows an operator at most a hundred runs, all of the
  operator's own tenant, with no entry of a trace whose key could name an input, a prompt or a hash.\<close>

theorem console_scoped:
  assumes "serve_console cn p req = Inr ans"
  shows "actor_kind p = AT_SUPPORT_OPERATOR \<and> ''support_operator'' \<in> set (roles p) \<and> length (shown_runs ans) \<le> 100 \<and>
    (\<forall>v \<in> set (shown_runs ans). rn_tenant v = request_tenant p) \<and>
    (\<forall>e \<in> set (shown_trace ans). \<forall>(k, x) \<in> set (ux_metadata e). \<not> sensitive_key k)"
proof -
  have op: "actor_kind p = AT_SUPPORT_OPERATOR" "''support_operator'' \<in> set (roles p)"
    and route: "console_route cn p req = Inr ans"
    using assms by (auto simp: serve_console_def require_support_operator_def forbidden_def split: if_splits)
  have "listed (showable (request_tenant p)) (shown_runs ans) \<and> list_all redacted (shown_trace ans)"
    using route
    by (cases req)
      (auto simp: answer_def and_then_Inr_iff listed_def showable_def list_all_iff
        dest!: run_or_404_showable agent_runs_showable conversation_showable)
  then show ?thesis
    using op by (auto simp: listed_def showable_def redacted_def list_all_iff)
qed

definition plain_console :: console where
  "plain_console = \<lparr>cn_runs = RunMemory \<lparr>rm_limit = 5, rm_views = [(''a'', plain_run ''a'' ''t1'' 2), (''b'', plain_run ''b'' ''t2'' 3)]\<rparr>,
     cn_audit = [], cn_memory = \<lparr>cfg_enabled = True, cfg_max_items = 3, cfg_default_ttl = 1, cfg_support_ttl = 1\<rparr>,
     cn_rows = [], cn_now = 5, cn_run_limit = 50, cn_audit_limit = 50\<rparr>"

definition plain_operator :: principal where
  "plain_operator = \<lparr>actor_id = ''op'', actor_kind = AT_SUPPORT_OPERATOR, principal_kind = PT_STATIC,
     roles = [''support_operator''], groups = [], principal_tenant = Some ''t1'', principal_customer = None, customer_ids = []\<rparr>"

lemma console_scoped_witness:
  "rn_tenant (bounded_operator_view (plain_run ''a'' ''t1'' 2)) = request_tenant plain_operator \<and>
   serve_console plain_console plain_operator (AgentRun ''b'') = Inl (Http 404 ''Agent run not found'')"
proof -
  have shown: "serve_console plain_console plain_operator (AgentRun ''a'') =
      Inr (Run (bounded_operator_view (plain_run ''a'' ''t1'' 2)))"
    by (simp add: serve_console_def plain_operator_def require_support_operator_def run_or_404_def plain_console_def
        as_internal_def get_by_run_id_def request_tenant_def answer_def plain_run_def)
  have other: "serve_console plain_console plain_operator (AgentRun ''b'') = Inl (Http 404 ''Agent run not found'')"
    by (simp add: serve_console_def plain_operator_def require_support_operator_def run_or_404_def plain_console_def
        as_internal_def get_by_run_id_def request_tenant_def answer_def plain_run_def)
  from console_scoped [OF shown]
  have "\<forall>v \<in> set (shown_runs (Run (bounded_operator_view (plain_run ''a'' ''t1'' 2)))). rn_tenant v = request_tenant plain_operator"
    by blast
  then have "rn_tenant (bounded_operator_view (plain_run ''a'' ''t1'' 2)) = request_tenant plain_operator"
    by (rule bspec) simp
  with other show ?thesis by blast
qed

section \<open>What the code does otherwise\<close>

text \<open>
  A token may limit an operator to some customers, and the routes of the business data and of the memory
  answer such an operator with 404 for any other customer. The console does not ask.
\<close>

lemma console_ignores_customer_scope:
  "resolve_customer_scope (plain_operator\<lparr>principal_kind := PT_OIDC\<rparr>) (Some 7) = Inl (Http 404 ''Resource not found.'') \<and>
   agent_runs plain_console (plain_operator\<lparr>principal_kind := PT_OIDC\<rparr>) (Some 7) 50 =
     Inr [bounded_operator_view (plain_run ''a'' ''t1'' 2)]"
  by code_simp

text \<open>The memory keeps a run under its id alone, the table under its tenant and id.\<close>

lemma run_of_other_tenant_replaced:
  "get_by_run_id (upsert_run (plain_run ''a'' ''t2'' 3) \<lparr>rm_limit = 5, rm_views = [(''a'', plain_run ''a'' ''t1'' 2)]\<rparr>) ''a'' ''t1'' = None"
  by code_simp

end
