(* ===== verification/Run_Observer.thy ===== *)
theory Run_Observer
  imports Console Run_Laws Runtime_Laws
begin

text \<open>
  Recording a run (agent/runtime.py, step 8, and ui/repository.py): at the end of a turn the view of the
  run is built from the response, the final state and the run's audit events and saved in the
  repository of the runs. The repository of the database shares the session of the turn: it commits
  what is in it, or rolls it back after a lost race for the insert. Every request leaves its session
  without uncommitted rows, so recording changes neither answers nor checkpoints nor business rows.
\<close>

section \<open>Saving a view in the session of the turn\<close>

text \<open>A commit that fails may still have reached the database, with the business rows of the session.\<close>

definition commit_rows ::
  "db \<Rightarrow> session \<Rightarrow> stored_run list \<Rightarrow> stored_run list \<Rightarrow> (exn + unit) \<times> session \<times> stored_run list" where
  "commit_rows d ss rs rs' =
     (case commit_fault d (work ss) of
        None \<Rightarrow> (Inr (), ss\<lparr>durable := work ss\<rparr>, rs')
      | Some (x, applied) \<Rightarrow>
          if applied then (Inl x, ss\<lparr>durable := work ss\<rparr>, rs') else (Inl x, ss, rs))"

text \<open>The handler of an \<open>IntegrityError\<close>: a new transaction looks the row up again and updates it.\<close>

definition resolve_conflict ::
  "db \<Rightarrow> view_codec \<Rightarrow> rat \<Rightarrow> run_view \<Rightarrow> session \<Rightarrow> stored_run list \<Rightarrow> (exn + unit) \<times> session \<times> stored_run list" where
  "resolve_conflict d c stamp v ss rs =
     (let ss1 = rollback d ss in
      if list_ex (same_row v) rs then commit_rows d ss1 rs (replace_row c stamp v rs)
      else (Inl IntegrityError, ss1, rs))"

definition save_or_resolve ::
  "db \<Rightarrow> view_codec \<Rightarrow> rat \<Rightarrow> run_view \<Rightarrow> session \<Rightarrow> stored_run list \<Rightarrow> stored_run list \<Rightarrow>
     (exn + unit) \<times> session \<times> stored_run list" where
  "save_or_resolve d c stamp v ss rs rs' =
     (case commit_rows d ss rs rs' of
        (Inr u, ss1, rs1) \<Rightarrow> (Inr u, ss1, rs1)
      | (Inl x, ss1, rs1) \<Rightarrow>
          if x = IntegrityError then resolve_conflict d c stamp v ss1 rs1 else (Inl x, ss1, rs1))"

definition upsert_in_session ::
  "db \<Rightarrow> view_codec \<Rightarrow> rat \<Rightarrow> stored_run list option \<Rightarrow> run_view \<Rightarrow> session \<Rightarrow> stored_run list \<Rightarrow>
     (exn + unit) \<times> session \<times> stored_run list" where
  "upsert_in_session d c stamp rivals v ss rs =
     (if list_ex (same_row v) rs then save_or_resolve d c stamp v ss rs (replace_row c stamp v rs)
      else case rivals of
        None \<Rightarrow> save_or_resolve d c stamp v ss rs (rs @ [to_record c (next_row_id rs) stamp v])
      | Some committed \<Rightarrow> resolve_conflict d c stamp v ss (rs @ committed))"

text \<open>While commits do not fail, the rows are those of the repository on its own.\<close>

lemma upsert_in_session_rows:
  assumes "commit_fault d = (\<lambda>_. None)"
  shows "upsert_row c stamp rivals v rs =
    (case upsert_in_session d c stamp rivals v ss rs of (r, ss', rs') \<Rightarrow> (r, rs'))"
  using assms
  by (simp add: upsert_in_session_def upsert_row_def save_or_resolve_def resolve_conflict_def commit_rows_def Let_def
      split: option.split)

section \<open>The observer of the runtime\<close>

text \<open>What the view takes from elsewhere: the captured nodes, entries of the state that only the view
  reads, the clocks, a failure of reading the audit events and a concurrent insert.\<close>

record run_observation =
  ob_projection :: run_projection
  ob_extras :: run_extras
  ob_duration :: rat
  ob_stamp :: rat
  ob_audit_fault :: "exn option"
  ob_rivals :: "stored_run list option"

definition observe_run ::
  "db \<Rightarrow> (execution_context \<Rightarrow> agent_state \<Rightarrow> 'e world \<Rightarrow> run_observation) \<Rightarrow> ('e, run_repository) observer" where
  "observe_run d look ctx response s w repo =
     (let ob = look ctx s w in
      case ob_audit_fault ob of
        Some x \<Rightarrow> (Inl x, w, repo)
      | None \<Rightarrow>
          (let events = list_for_agent_run (ar_run response) (ctx_tenant ctx) 50 (w_audit w);
               v = build_view (ob_projection ob) (ob_extras ob) response s events (ob_duration ob) in
           case repo of
             RunMemory m \<Rightarrow> (Inr (), w, RunMemory (upsert_run v m))
           | RunTable c rs \<Rightarrow>
               (case upsert_in_session d c (ob_stamp ob) (ob_rivals ob) v (w_session w) rs of
                  (r, ss, rs') \<Rightarrow> (r, w\<lparr>w_session := ss\<rparr>, RunTable c rs'))))"

text \<open>An observer that does nothing, to compare with.\<close>

definition no_observer :: "('e, 'v) observer" where
  "no_observer ctx response s w v = (Inr (), w, v)"

section \<open>Recording keeps a clean session and its rows\<close>

text \<open>The sessions a clean one can become: the same rows, or those others committed since.\<close>

definition followed_by :: "db \<Rightarrow> session \<Rightarrow> session \<Rightarrow> bool" where
  "followed_by d ss ss' \<longleftrightarrow> session_clean ss' \<and> (\<exists>k. durable ss' = (others d ^^ k) (durable ss))"

lemma followed_refl: "session_clean ss \<Longrightarrow> followed_by d ss ss"
  by (auto simp: followed_by_def intro: exI [of _ 0])

lemma followed_rollback: "followed_by d ss ss' \<Longrightarrow> followed_by d ss (rollback d ss')"
proof -
  assume "followed_by d ss ss'"
  then obtain k where "durable ss' = (others d ^^ k) (durable ss)" by (auto simp: followed_by_def)
  then have "durable (rollback d ss') = (others d ^^ Suc k) (durable ss)" by (simp add: rollback_def Let_def)
  then show ?thesis unfolding followed_by_def using rollback_clean by blast
qed

lemma followed_commit: "followed_by d ss ss' \<Longrightarrow> followed_by d ss (ss'\<lparr>durable := work ss'\<rparr>)"
  by (simp add: followed_by_def session_clean_def)

lemma commit_rows_followed:
  "followed_by d ss ss' \<Longrightarrow> followed_by d ss (fst (snd (commit_rows d ss' rs rs')))"
  by (auto simp: commit_rows_def followed_commit split: option.split)

lemma resolve_followed:
  "followed_by d ss ss' \<Longrightarrow> followed_by d ss (fst (snd (resolve_conflict d c stamp v ss' rs)))"
  by (simp add: resolve_conflict_def Let_def commit_rows_followed followed_rollback)

lemma save_followed:
  assumes "followed_by d ss ss'"
  shows "followed_by d ss (fst (snd (save_or_resolve d c stamp v ss' rs rs')))"
proof -
  obtain r ss1 rs1 where q: "commit_rows d ss' rs rs' = (r, ss1, rs1)" by (metis prod_cases3)
  then have "followed_by d ss ss1" using commit_rows_followed [OF assms, of rs rs'] by simp
  then show ?thesis by (simp add: save_or_resolve_def q resolve_followed split: sum.split)
qed

lemma upsert_followed:
  "followed_by d ss ss' \<Longrightarrow> followed_by d ss (fst (snd (upsert_in_session d c stamp rivals v ss' rs)))"
  by (simp add: upsert_in_session_def save_followed resolve_followed split: option.split)

text \<open>The rest of the world is left alone.\<close>

definition same_but_session :: "db \<Rightarrow> 'e world \<Rightarrow> 'e world \<Rightarrow> bool" where
  "same_but_session d w w' \<longleftrightarrow>
     w' = w\<lparr>w_session := w_session w'\<rparr> \<and> followed_by d (w_session w) (w_session w')"

lemma observe_run_world:
  assumes "session_clean (w_session w)"
  shows "same_but_session d w (fst (snd (observe_run d look ctx response s w repo)))"
proof -
  have same: "same_but_session d w w" by (simp add: same_but_session_def followed_refl assms)
  have "same_but_session d w (w\<lparr>w_session := ss\<rparr>)"
    if "upsert_in_session d c stamp rivals v (w_session w) rs = (r, ss, rs')" for c stamp rivals v rs r ss rs'
    using upsert_followed [OF followed_refl [OF assms], of d c stamp rivals v rs] that
    by (simp add: same_but_session_def)
  then show ?thesis using same
    by (auto simp: observe_run_def Let_def split: option.split run_repository.split prod.split)
qed

section \<open>A request with and without a record\<close>

lemma provider_db: "provider_for_execution rt mode = (q, actual, fallback) \<Longrightarrow> p_db q = p_db (rt_platform rt)"
  by (auto simp: provider_for_execution_def with_provider_def split: if_splits)

lemma agent_run_observed:
  fixes rt ctx m mode fresh and sv :: "('e, run_repository) server" and look
  defines "plain \<equiv> agent_run rt no_observer fresh ctx m mode sv"
    and "seen \<equiv> agent_run rt (observe_run (p_db (rt_platform rt)) look) fresh ctx m mode sv"
  assumes "session_clean (w_session (sv_world sv))"
  shows "fst seen = fst plain \<and> sv_threads (snd seen) = sv_threads (snd plain) \<and>
    same_but_session (p_db (rt_platform rt)) (sv_world (snd plain)) (sv_world (snd seen))"
proof -
  let ?d = "p_db (rt_platform rt)"
  obtain x w where l: "limit_requests (rt_platform rt) ctx (sv_world sv) = (x, w)" by fastforce
  then have w: "session_clean (w_session w)" using limits_keep [OF l] assms(3) by simp
  obtain q actual fallback where q: "provider_for_execution rt mode = (q, actual, fallback)" by (metis prod_cases3)
  obtain run e where u: "p_uuid q (w_env w) = (run, e)" by fastforce
  obtain r s w1 ns where t: "run_turn q ctx run m (saved_state sv (checkpoint_thread_id ctx) fresh) (w\<lparr>w_env := e\<rparr>) =
      (r, s, w1, ns)" by (metis prod_cases4)
  have w1: "session_clean (w_session w1)"
    using run_clean [OF t [unfolded run_turn_def]] w by simp
  have same: "same_but_session ?d v v" if "session_clean (w_session v)" for v :: "'e world"
    using that by (simp add: same_but_session_def followed_refl)
  show ?thesis
    using observe_run_world [OF w1, of ?d look ctx "response_from_state actual fallback s" s "sv_runs sv"] same [OF w]
      same [OF w1]
    by (cases x; cases r) (auto simp: plain_def seen_def agent_run_def l q u t Let_def no_observer_def split: prod.split)
qed

lemma end_request_same:
  assumes "same_but_session d (sv_world sv) (sv_world sv')" and "sv_threads sv' = sv_threads sv"
  shows "sv_threads (end_request d sv') = sv_threads (end_request d sv) \<and>
    same_but_session d (sv_world (end_request d sv)) (sv_world (end_request d sv'))"
proof -
  let ?s = "w_session (sv_world sv)" and ?s' = "w_session (sv_world sv')"
  obtain k where k: "durable ?s' = (others d ^^ k) (durable ?s)"
    using assms(1) by (auto simp: same_but_session_def followed_by_def)
  have "durable (rollback d ?s') = (others d ^^ k) (durable (rollback d ?s))"
    by (simp add: rollback_def Let_def k funpow_swap1)
  then have "followed_by d (rollback d ?s) (rollback d ?s')" unfolding followed_by_def using rollback_clean by blast
  moreover have w: "sv_world sv' = (sv_world sv)\<lparr>w_session := ?s'\<rparr>"
    using assms(1) by (simp add: same_but_session_def)
  have "(sv_world sv')\<lparr>w_session := y\<rparr> = (sv_world sv)\<lparr>w_session := y\<rparr>" for y
    using arg_cong [OF w, of "\<lambda>v. v\<lparr>w_session := y\<rparr>"] by simp
  ultimately show ?thesis using assms(2) by (simp add: end_request_def same_but_session_def)
qed

text \<open>C26. Recording a run is observational: although the repository of the runs commits and rolls back the
  database session of the turn, a chat request gets the same answer, leaves the same checkpoints and the
  same world as without it, whether saving succeeds, loses a race, fails in its commit or is not
  reached; the business rows differ at most by what other transactions committed meanwhile, and the
  session is left without uncommitted rows, which is what the next request needs.\<close>

theorem recording_is_observational:
  assumes "session_clean (w_session (sv_world sv))"
    and "chat rt (observe_run (p_db (rt_platform rt)) look) fresh p r sv = (a, sv')"
    and "chat rt no_observer fresh p r sv = (b, sv'')"
  shows "a = b \<and> sv_threads sv' = sv_threads sv'' \<and>
    sv_world sv' = (sv_world sv'')\<lparr>w_session := w_session (sv_world sv')\<rparr> \<and>
    (\<exists>k. durable (w_session (sv_world sv')) =
       (others (p_db (rt_platform rt)) ^^ k) (durable (w_session (sv_world sv'')))) \<and>
    session_clean (w_session (sv_world sv'))"
proof -
  let ?d = "p_db (rt_platform rt)"
  have "a = b \<and> sv_threads sv' = sv_threads sv'' \<and> same_but_session ?d (sv_world sv'') (sv_world sv')"
  proof (cases "chat_request_fits r")
    case fits: True
    obtain rid e where u: "p_uuid (rt_platform rt) (w_env (sv_world sv)) = (rid, e)" by fastforce
    show ?thesis
    proof (cases "get_execution_context rid (cr_conversation r) (cr_customer r) p")
      case (Inl x)
      then show ?thesis using assms fits u by (auto simp: chat_def same_but_session_def followed_refl)
    next
      case (Inr ctx)
      let ?sv = "sv\<lparr>sv_world := (sv_world sv)\<lparr>w_env := e\<rparr>\<rparr>"
      obtain x sv1 where seen: "agent_run rt (observe_run ?d look) fresh ctx (cr_message r) (cr_mode r) ?sv = (x, sv1)"
        by fastforce
      obtain y sv2 where plain: "agent_run rt no_observer fresh ctx (cr_message r) (cr_mode r) ?sv = (y, sv2)"
        by fastforce
      have e: "x = y" "sv_threads sv1 = sv_threads sv2" "same_but_session ?d (sv_world sv2) (sv_world sv1)"
        using agent_run_observed [where sv = ?sv and rt = rt and fresh = fresh and ctx = ctx and look = look
            and m = "cr_message r" and mode = "cr_mode r"] assms(1) seen plain by simp_all
      show ?thesis using assms(2,3) fits u Inr seen plain end_request_same [OF e(3,2)] e(1)
        by (cases y) (auto simp: chat_def)
    qed
  qed (use assms in \<open>auto simp: chat_def same_but_session_def followed_refl\<close>)
  then show ?thesis by (auto simp: same_but_session_def followed_by_def)
qed

text \<open>Saving loses the race for the insert to a row of another run, so that it rolls back and raises.\<close>

definition demo_observation :: run_observation where
  "demo_observation =
     \<lparr>ob_projection = \<lparr>pj_run = ''run'', pj_context = demo_context, pj_started = 0, pj_trace_id = None, pj_nodes = []\<rparr>,
      ob_extras = \<lparr>xe_chunks = [], xe_retrieval = plain_retrieval, xe_grounding = plain_grounding, xe_provider = None,
        xe_str = (\<lambda>_. []), xe_json_str = (\<lambda>_. [])\<rparr>,
      ob_duration = 1, ob_stamp = 9, ob_audit_fault = None, ob_rivals = Some []\<rparr>"

definition demo_recorded_server :: "(nat, run_repository) server" where
  "demo_recorded_server = \<lparr>sv_threads = Map.empty, sv_world = demo_world, sv_runs = RunTable plain_codec []\<rparr>"

lemma recording_is_observational_witness:
  "\<exists>a sv' sv''.
     chat demo_runtime (observe_run (p_db demo_platform) (\<lambda>_ _ _. demo_observation)) fresh_state demo_ada demo_chat
       demo_recorded_server = (a, sv') \<and>
     chat demo_runtime no_observer fresh_state demo_ada demo_chat demo_recorded_server = (a, sv'') \<and>
     sv_threads sv' = sv_threads sv'' \<and>
     durable (w_session (sv_world sv')) = durable (w_session (sv_world sv''))"
proof -
  let ?observe = "observe_run (p_db demo_platform) (\<lambda>_ _ _. demo_observation)"
  have db: "p_db (rt_platform demo_runtime) = p_db demo_platform" by (simp add: demo_runtime_def)
  have id: "(others (p_db demo_platform) ^^ k) st = st" for k st
    by (induction k) (simp_all add: demo_platform_def demo_others)
  have clean: "session_clean (w_session (sv_world demo_recorded_server))"
    by (simp add: session_clean_def demo_recorded_server_def demo_world_def)
  obtain a sv' where seen: "chat demo_runtime ?observe fresh_state demo_ada demo_chat demo_recorded_server = (a, sv')"
    by fastforce
  obtain b sv'' where plain: "chat demo_runtime no_observer fresh_state demo_ada demo_chat demo_recorded_server = (b, sv'')"
    by fastforce
  from recording_is_observational [OF clean seen [folded db] plain] show ?thesis
    using seen plain by (auto simp: db id)
qed

end
