(* ===== verification/Settings.thy ===== *)
theory Settings
  imports Auth Failures
begin

text \<open>
  The settings (core/config.py): the fields that decide the mode of the service, their normalisation and
  the validator that rejects unsafe combinations. Numeric limits are checked by the validation library
  field by field and are arguments where they are used.
\<close>

datatype authentication_mode = AM_DISABLED | AM_LOCAL_DEMO | AM_STATIC | AM_OIDC

datatype llm_provider = LP_OPENAI_COMPATIBLE | LP_DETERMINISTIC_INTEGRATION

text \<open>
  \<open>sg_tokens\<close> is the JSON of the static tokens as parsed: \<open>None\<close> if it is no dictionary or cannot be parsed,
  and for each token whether its value is a valid principal.
\<close>

record settings =
  sg_env :: ustr
  sg_auth :: authentication_mode
  sg_demo_token :: "ustr option"
  sg_tokens :: "(ustr \<times> bool) list option"
  sg_issuer :: "ustr option"
  sg_audience :: "ustr option"
  sg_discovery :: "ustr option"
  sg_checkpoints :: string
  sg_audit :: string
  sg_runs :: string
  sg_rag :: string
  sg_provider :: llm_provider
  sg_model :: ustr
  sg_base_url :: ustr
  sg_memory :: bool
  sg_evidence :: string
  sg_bucket :: "ustr option"
  sg_otel :: bool
  sg_otlp :: ustr

definition empty_to_none :: "ustr option \<Rightarrow> ustr option" where
  "empty_to_none v = (if v = Some [] then None else v)"

definition normalize_settings :: "settings \<Rightarrow> settings" where
  "normalize_settings g = g\<lparr>sg_issuer := empty_to_none (sg_issuer g), sg_audience := empty_to_none (sg_audience g),
     sg_discovery := empty_to_none (sg_discovery g)\<rparr>"

definition patterns_fit :: "settings \<Rightarrow> bool" where
  "patterns_fit g \<longleftrightarrow> sg_checkpoints g \<in> {''postgres'', ''memory''} \<and> sg_audit g \<in> {''postgres'', ''memory''} \<and>
     sg_runs g \<in> {''postgres'', ''memory''} \<and> sg_rag g \<in> {''qdrant'', ''local''} \<and> sg_evidence g \<in> {''local'', ''s3''}"

definition text_present :: "ustr option \<Rightarrow> bool" where
  "text_present v \<longleftrightarrow> (case v of None \<Rightarrow> False | Some t \<Rightarrow> t \<noteq> [])"

definition in_env :: "settings \<Rightarrow> string list \<Rightarrow> bool" where
  "in_env g names \<longleftrightarrow> casefold (sg_env g) \<in> set (map lit names)"

definition https :: "ustr \<Rightarrow> bool" where
  "https t \<longleftrightarrow> has_prefix (lit ''https://'') t"

definition demo_mode_ok :: "settings \<Rightarrow> bool" where
  "demo_mode_ok g \<longleftrightarrow> sg_auth g = AM_LOCAL_DEMO \<longrightarrow>
     in_env g [''development'', ''demo'', ''test'', ''integration''] \<and> text_present (sg_demo_token g)"

definition static_mode_ok :: "settings \<Rightarrow> bool" where
  "static_mode_ok g \<longleftrightarrow> sg_auth g = AM_STATIC \<longrightarrow>
     (case sg_tokens g of None \<Rightarrow> False | Some ts \<Rightarrow> ts \<noteq> [] \<and> list_all (\<lambda>(t, valid). t \<noteq> [] \<and> valid) ts)"

definition oidc_mode_ok :: "settings \<Rightarrow> bool" where
  "oidc_mode_ok g \<longleftrightarrow> sg_auth g = AM_OIDC \<longrightarrow>
     text_present (sg_issuer g) \<and> text_present (sg_audience g) \<and>
     (in_env g [''production''] \<longrightarrow>
        (case sg_issuer g of None \<Rightarrow> False | Some t \<Rightarrow> https t) \<and>
        (case sg_discovery g of None \<Rightarrow> True | Some t \<Rightarrow> https t))"

definition storage_ok :: "settings \<Rightarrow> bool" where
  "storage_ok g \<longleftrightarrow> (in_env g [''production''] \<longrightarrow> sg_auth g = AM_OIDC) \<and>
     (in_env g [''production'', ''integration''] \<longrightarrow> sg_audit g = ''postgres'' \<and> sg_runs g = ''postgres'')"

definition provider_ok :: "settings \<Rightarrow> bool" where
  "provider_ok g \<longleftrightarrow> sg_provider g = LP_DETERMINISTIC_INTEGRATION \<longrightarrow>
     in_env g [''integration''] \<and> sg_auth g = AM_LOCAL_DEMO"

definition validate_authentication_mode :: "settings \<Rightarrow> exn + settings" where
  "validate_authentication_mode g =
     (if demo_mode_ok g \<and> static_mode_ok g \<and> oidc_mode_ok g \<and> storage_ok g \<and> provider_ok g
      then Inr g else Inl PyValueError)"

text \<open>A violated pattern and an error of the validator are both a validation error of the constructor.\<close>

definition load_settings :: "settings \<Rightarrow> exn + settings" where
  "load_settings raw =
     (let g = normalize_settings raw in
      if \<not> patterns_fit g then Inl PydanticValidationError
      else case validate_authentication_mode g of Inl x \<Rightarrow> Inl PydanticValidationError | Inr h \<Rightarrow> Inr h)"

lemmas mode_checks = demo_mode_ok_def static_mode_ok_def oidc_mode_ok_def storage_ok_def provider_ok_def

section \<open>Properties\<close>

text \<open>Settings that load for production are safe: tokens of an OpenID Connect provider with an issuer and an
  audience, its issuer and discovery reached by HTTPS only, the audit trail and the record of the runs
  in the database, and no deterministic model; and no settings load with the deterministic model
  outside an integration run with demonstration authentication.\<close>

theorem production_settings_safe:
  assumes "load_settings raw = Inr g"
  shows "(casefold (sg_env g) = lit ''production'' \<longrightarrow>
      sg_auth g = AM_OIDC \<and> (\<exists>t. sg_issuer g = Some t \<and> https t) \<and> (\<exists>a. sg_audience g = Some a \<and> a \<noteq> []) \<and>
      (\<forall>t. sg_discovery g = Some t \<longrightarrow> https t) \<and> sg_audit g = ''postgres'' \<and> sg_runs g = ''postgres'' \<and>
      sg_provider g = LP_OPENAI_COMPATIBLE) \<and>
    (sg_provider g = LP_DETERMINISTIC_INTEGRATION \<longrightarrow>
      casefold (sg_env g) = lit ''integration'' \<and> sg_auth g = AM_LOCAL_DEMO \<and> text_present (sg_demo_token g))"
proof -
  have "demo_mode_ok g \<and> oidc_mode_ok g \<and> storage_ok g \<and> provider_ok g"
    using assms by (auto simp: load_settings_def validate_authentication_mode_def Let_def split: if_splits sum.splits)
  then show ?thesis
    by (cases "sg_provider g")
      (auto simp: mode_checks in_env_def text_present_def split: option.splits)
qed

definition production_demo :: settings where
  "production_demo = \<lparr>sg_env = lit ''Production'', sg_auth = AM_OIDC, sg_demo_token = None, sg_tokens = None,
     sg_issuer = Some (lit ''https://i''), sg_audience = Some (lit ''a''), sg_discovery = Some [],
     sg_checkpoints = ''memory'', sg_audit = ''postgres'', sg_runs = ''postgres'', sg_rag = ''qdrant'',
     sg_provider = LP_OPENAI_COMPATIBLE, sg_model = lit ''m'', sg_base_url = lit ''u'', sg_memory = True,
     sg_evidence = ''s3'', sg_bucket = Some (lit ''b''), sg_otel = True, sg_otlp = lit ''o''\<rparr>"

lemma production_loads: "load_settings production_demo = Inr (production_demo\<lparr>sg_discovery := None\<rparr>)"
  by code_simp

lemma production_settings_safe_witness:
  "\<exists>t. sg_issuer (production_demo\<lparr>sg_discovery := None\<rparr>) = Some t \<and> https t"
proof -
  have "casefold (sg_env (production_demo\<lparr>sg_discovery := None\<rparr>)) = lit ''production''" by code_simp
  then show ?thesis using production_settings_safe [OF production_loads] by blast
qed

end
