(* ===== verification/Service.thy ===== *)
theory Service
  imports Settings Agent_State Lexical
begin

text \<open>
  The life of the service around the graph (persistence/checkpoint.py, main.py): the checkpoint provider
  with its connection pool, the serializer that refuses types it does not know, and the start and the
  shut-down of the application.

  Opening, probing and closing the pool, setting up its tables, building the runtime and the library's
  deserializer are parameters.
\<close>

section \<open>The checkpoint provider\<close>

datatype checkpoint_backend = CB_POSTGRES | CB_MEMORY

fun checkpoint_backend_value :: "checkpoint_backend \<Rightarrow> string" where
  "checkpoint_backend_value CB_POSTGRES = ''postgres''"
| "checkpoint_backend_value CB_MEMORY = ''memory''"

type_synonym ('p, 'a) pooled = "'p \<Rightarrow> (exn + 'a) \<times> 'p"

record 'p pool =
  po_open :: "('p, unit) pooled"
  po_setup :: "('p, unit) pooled"
  po_probe :: "('p, unit) pooled"
  po_close :: "('p, unit) pooled"

datatype 'p checkpoint_provider = MemoryProvider | PostgresProvider "'p pool" bool

fun provider_backend :: "'p checkpoint_provider \<Rightarrow> checkpoint_backend" where
  "provider_backend MemoryProvider = CB_MEMORY"
| "provider_backend (PostgresProvider q i) = CB_POSTGRES"

text \<open>An exception of \<open>close\<close> in the handler replaces the one that is handled.\<close>

fun provider_initialize :: "'p checkpoint_provider \<Rightarrow> 'p \<Rightarrow> (exn + unit) \<times> 'p checkpoint_provider \<times> 'p" where
  "provider_initialize MemoryProvider s = (Inr (), MemoryProvider, s)"
| "provider_initialize (PostgresProvider q i) s =
     (if i then (Inr (), PostgresProvider q True, s)
      else case after (po_open q s) (\<lambda>_ s1. po_setup q s1) of
        (Inr _, s2) \<Rightarrow> (Inr (), PostgresProvider q True, s2)
      | (Inl x, s2) \<Rightarrow>
          (case po_close q s2 of
             (Inl y, s3) \<Rightarrow> (Inl y, PostgresProvider q i, s3)
           | (Inr _, s3) \<Rightarrow> (Inl OtherError, PostgresProvider q i, s3)))"

fun provider_ready :: "'p checkpoint_provider \<Rightarrow> 'p \<Rightarrow> bool \<times> 'p" where
  "provider_ready MemoryProvider s = (True, s)"
| "provider_ready (PostgresProvider q i) s =
     (if \<not> i then (False, s) else case po_probe q s of (r, s1) \<Rightarrow> (is_ok r, s1))"

fun provider_close :: "'p checkpoint_provider \<Rightarrow> 'p \<Rightarrow> (exn + unit) \<times> 'p checkpoint_provider \<times> 'p" where
  "provider_close MemoryProvider s = (Inr (), MemoryProvider, s)"
| "provider_close (PostgresProvider q i) s =
     (if \<not> i then (Inr (), PostgresProvider q i, s)
      else case po_close q s of
        (Inl x, s1) \<Rightarrow> (Inl x, PostgresProvider q i, s1)
      | (Inr _, s1) \<Rightarrow> (Inr (), PostgresProvider q False, s1))"

definition build_checkpoint_provider :: "settings \<Rightarrow> 'p pool \<Rightarrow> exn + 'p checkpoint_provider" where
  "build_checkpoint_provider g q =
     (if sg_checkpoints g = ''memory'' then Inr MemoryProvider
      else if sg_checkpoints g = ''postgres'' then Inr (PostgresProvider q False)
      else Inl PyValueError)"

definition psycopg_conninfo :: "ustr \<Rightarrow> ustr" where
  "psycopg_conninfo url =
     (if has_prefix (lit ''postgresql+psycopg://'') url then lit ''postgresql://'' @ drop 21 url
      else if has_prefix (lit ''postgres+psycopg://'') url then lit ''postgresql://'' @ drop 19 url
      else url)"

section \<open>The serializer\<close>

type_synonym symbol = "string \<times> string"

definition checkpoint_allowed :: "symbol list" where
  "checkpoint_allowed =
     [(''app.agent.schemas'', ''AgentErrorCategory''), (''app.agent.schemas'', ''AgentRequestType''),
      (''app.agent.schemas'', ''Intent''), (''app.agent.schemas'', ''SemanticDecision''),
      (''app.agent.schemas'', ''SemanticTarget''), (''app.agent.decision_compiler'', ''CompiledDecision''),
      (''app.agent.decision_compiler'', ''CompileStatus''), (''app.auth.models'', ''ActorType''),
      (''app.auth.models'', ''Principal''), (''app.auth.models'', ''PrincipalType''),
      (''app.core.context'', ''ExecutionContext''), (''app.memory.schemas'', ''MemoryCandidate''),
      (''app.memory.schemas'', ''MemoryType''), (''app.policies.models'', ''PendingAction''),
      (''app.policies.models'', ''PendingActionStatus''), (''app.policies.models'', ''PolicyDecision''),
      (''app.policies.models'', ''PolicyOutcome'')]"

datatype serde_event_kind = MsgpackBlocked | MsgpackMethodBlocked | OtherSerdeEvent

record serde_event =
  se_kind :: serde_event_kind
  se_symbol :: symbol

text \<open>
  \<open>StrictCheckpointSerializer.loads_typed\<close>: what the library's deserializer returns, if it reported no
  blocked type while it ran.
\<close>

definition strict_loads :: "('d \<Rightarrow> (exn + 'a) \<times> serde_event list) \<Rightarrow> 'd \<Rightarrow> exn + 'a" where
  "strict_loads loads data =
     (case loads data of
        (Inl x, es) \<Rightarrow> Inl x
      | (Inr v, es) \<Rightarrow>
          if list_ex (\<lambda>e. se_kind e \<in> {MsgpackBlocked, MsgpackMethodBlocked}) es then Inl OtherError else Inr v)"

section \<open>What a state is made of\<close>

text \<open>
  The classes of this program in a saved state (agent/state.py): of the value of each entry and of the
  enumerations among its fields. A model inside a model is saved as a dictionary. The metadata of a call
  to the model provider is the entry that this model of the state does not have.
\<close>

record provider_run_metadata =
  pm_provider :: string
  pm_model :: "ustr option"
  pm_latency :: "rat option"
  pm_input :: "int option"
  pm_output :: "int option"
  pm_cost :: "rat option"

definition schema_symbols :: "string list \<Rightarrow> symbol list" where
  "schema_symbols = map (\<lambda>n. (''app.agent.schemas'', n))"

definition when_some :: "'a option \<Rightarrow> symbol list \<Rightarrow> symbol list" where
  "when_some v xs = (if v = None then [] else xs)"

definition decision_symbols :: "semantic_decision option \<Rightarrow> symbol list" where
  "decision_symbols v = when_some v (schema_symbols [''SemanticDecision'', ''Intent'', ''AgentRequestType''] @
     when_some (Option.bind v sd_memory) [(''app.memory.schemas'', ''MemoryType'')])"

definition action_symbols :: "pending_action option \<Rightarrow> symbol list" where
  "action_symbols v = when_some v [(''app.policies.models'', ''PendingAction''), (''app.policies.models'', ''PendingActionStatus''),
     (''app.auth.models'', ''ActorType'')]"

definition suspended_symbols :: "suspended option \<Rightarrow> symbol list" where
  "suspended_symbols v = (case v of None \<Rightarrow> [] | Some w \<Rightarrow>
     schema_symbols [''Intent''] @ action_symbols (sw_action w) @ decision_symbols (sw_decision w))"

definition state_symbols :: "agent_state \<Rightarrow> provider_run_metadata option \<Rightarrow> symbol list" where
  "state_symbols s m =
     when_some (s_context s) [(''app.core.context'', ''ExecutionContext''), (''app.auth.models'', ''Principal''),
       (''app.auth.models'', ''PrincipalType''), (''app.auth.models'', ''ActorType'')] @
     concat (map (\<lambda>v. when_some v (schema_symbols [''Intent'']))
       [s_intent s, s_previous_intent s, s_previous_workflow_intent s, s_interruption_intent s]) @
     when_some (s_request s) (schema_symbols [''AgentRequestType'']) @
     when_some (s_error s) (schema_symbols [''AgentErrorCategory'']) @
     concat (map decision_symbols [s_decision s, s_workflow_decision s]) @
     when_some (s_compiled s) ([(''app.agent.decision_compiler'', ''CompiledDecision''),
       (''app.agent.decision_compiler'', ''CompileStatus'')] @ schema_symbols [''Intent'', ''AgentRequestType''] @
       when_some (Option.bind (s_compiled s) cd_memory) [(''app.memory.schemas'', ''MemoryType'')]) @
     action_symbols (s_pending s) @
     when_some (s_policy s) [(''app.policies.models'', ''PolicyDecision''), (''app.policies.models'', ''PolicyOutcome'')] @
     when_some (s_memory_candidate s) [(''app.memory.schemas'', ''MemoryCandidate''), (''app.memory.schemas'', ''MemoryType'')] @
     concat (map suspended_symbols [s_suspended s, s_superseded s]) @
     when_some m (schema_symbols [''ProviderRunMetadata''])"

text \<open>\<open>_provider_metadata\<close> (agent/nodes/understand_request.py): the entry, from what the provider recorded.\<close>

definition metadata_keys :: "string list" where
  "metadata_keys = [''provider'', ''model'', ''latency_ms'', ''input_tokens'', ''output_tokens'', ''cost_usd'']"

definition provider_metadata ::
  "(jobject \<Rightarrow> exn + provider_run_metadata) \<Rightarrow> jobject option \<Rightarrow> exn + provider_run_metadata option" where
  "provider_metadata validate recorded =
     (case recorded of
        None \<Rightarrow> Inr None
      | Some d \<Rightarrow>
          (let safe = concat (map (\<lambda>k. case jget d k of None \<Rightarrow> [] | Some JNull \<Rightarrow> [] | Some v \<Rightarrow> [(lit k, v)]) metadata_keys) in
           if safe = [] then Inr None else and_then (validate safe) (\<lambda>m. Inr (Some m))))"

text \<open>What the provider on the model records before and after a call (agent/llm/provider.py).\<close>

definition initial_call_metadata :: "ustr \<Rightarrow> jobject" where
  "initial_call_metadata model =
     [(lit ''provider'', JText (lit ''OpenAI'')), (lit ''model'', JText model), (lit ''latency_ms'', JNull),
      (lit ''input_tokens'', JNull), (lit ''output_tokens'', JNull), (lit ''cost_usd'', JNull)]"

definition first_key :: "jobject \<Rightarrow> string list \<Rightarrow> jval option" where
  "first_key d ks = (case List.map_filter (jget d) ks of [] \<Rightarrow> None | v # _ \<Rightarrow> Some v)"

definition put_count :: "string \<Rightarrow> jval option \<Rightarrow> jobject \<Rightarrow> jobject" where
  "put_count k v d =
     (case v of
        None \<Rightarrow> d
      | Some j \<Rightarrow> (case jint j of None \<Rightarrow> d | Some n \<Rightarrow> if 0 \<le> n then AList.update (lit k) j d else d))"

text \<open>\<open>usage\<close> is the usage dictionary of the response, if it has one; \<open>latency\<close> is rounded already.\<close>

definition call_metadata :: "jobject option \<Rightarrow> jobject \<Rightarrow> rat \<Rightarrow> jobject" where
  "call_metadata usage current latency =
     (let d = AList.update (lit ''latency_ms'') (JReal latency) current in
      case usage of
        None \<Rightarrow> d
      | Some u \<Rightarrow>
          (let d1 = put_count ''input_tokens'' (first_key u [''input_tokens'', ''prompt_tokens'']) d;
               d2 = put_count ''output_tokens'' (first_key u [''output_tokens'', ''completion_tokens'']) d1 in
           case Option.bind (jget u ''cost_usd'') jnumber of
             None \<Rightarrow> d2
           | Some r \<Rightarrow> if 0 \<le> r then AList.update (lit ''cost_usd'') (JReal r) d2 else d2))"

section \<open>The application\<close>

text \<open>
  The life of the application: the parts that start and that are closed, in a world of their own. The
  names of the parts closed are kept in order; what closing raises is only logged.
\<close>

record 'w app_parts =
  ap_checkpoints :: "'w \<Rightarrow> (exn + unit) \<times> 'w"
  ap_runtime :: "'w \<Rightarrow> (exn + unit) \<times> 'w"
  ap_serve :: "'w \<Rightarrow> (exn + unit) \<times> 'w"
  ap_close :: "string \<Rightarrow> 'w \<Rightarrow> (exn + unit) \<times> 'w"

record 'w lifespan_end =
  le_result :: "exn + unit"
  le_served :: bool
  le_closed :: "string list"
  le_world :: 'w

definition safe_close :: "'w app_parts \<Rightarrow> string \<Rightarrow> 'w \<Rightarrow> 'w" where
  "safe_close a name w = snd (ap_close a name w)"

definition parts_to_close :: "bool \<Rightarrow> string list" where
  "parts_to_close runtime = (if runtime then [''knowledge''] else []) @ [''checkpoint'', ''database'', ''telemetry'']"

definition shut_down :: "'w app_parts \<Rightarrow> bool \<Rightarrow> bool \<Rightarrow> (exn + unit) \<times> 'w \<Rightarrow> 'w lifespan_end" where
  "shut_down a runtime served rw =
     \<lparr>le_result = fst rw, le_served = served, le_closed = parts_to_close runtime,
      le_world = fold (safe_close a) (parts_to_close runtime) (snd rw)\<rparr>"

definition lifespan :: "'w app_parts \<Rightarrow> 'w \<Rightarrow> 'w lifespan_end" where
  "lifespan a w =
     (case ap_checkpoints a w of
        (Inl x, w1) \<Rightarrow> shut_down a False False (Inl x, w1)
      | (Inr _, w1) \<Rightarrow>
          (case ap_runtime a w1 of
             (Inl x, w2) \<Rightarrow> shut_down a False False (Inl x, w2)
           | (Inr _, w2) \<Rightarrow> shut_down a True True (ap_serve a w2)))"

text \<open>\<open>bounded_validation_error\<close>: a message that is too long has an answer of its own.\<close>

record validation_item =
  vi_location :: "string list"
  vi_type :: string

definition too_long_message :: "string \<Rightarrow> validation_item list \<Rightarrow> bool" where
  "too_long_message path errors \<longleftrightarrow> path = ''/agent/chat'' \<and>
     list_ex (\<lambda>e. vi_location e \<noteq> [] \<and> last (vi_location e) = ''message'' \<and>
       vi_type e \<in> {''string_too_long'', ''value_error.any_str.max_length''}) errors"

definition validation_error_detail :: "string \<Rightarrow> validation_item list \<Rightarrow> string option" where
  "validation_error_detail path errors = (if too_long_message path errors then Some ''input_too_long'' else None)"

end
