(* ===== verification/Health.thy ===== *)
theory Health
  imports Service Vector_Backend Access
begin

text \<open>
  The health of the service (health.py, api/routes/health.py): one component per dependency, the readiness
  of the whole, and the operational status. The probes are arguments, with the exceptions they may
  raise; latencies and counters, which are only reported, are left out.
\<close>

section \<open>Components\<close>

datatype component_status = CH_HEALTHY | CH_UNAVAILABLE | CH_INCOMPATIBLE | CH_CONFIGURED | CH_NOT_CONFIGURED | CH_NOT_PROBED

datatype operational_state = OH_HEALTHY | OH_DEGRADED | OH_UNAVAILABLE | OH_DEPENDENCY_FAILURE

record health_component =
  hc_name :: string
  hc_status :: component_status
  hc_detail :: string

definition component :: "string \<Rightarrow> component_status \<Rightarrow> string \<Rightarrow> health_component" where
  "component n st d = \<lparr>hc_name = n, hc_status = st, hc_detail = d\<rparr>"

record probes =
  pb_accepting :: bool
  pb_database :: "exn + unit"
  pb_checkpoint :: "exn + bool"
  pb_backend :: checkpoint_backend
  pb_retriever :: "exn + bool"
  pb_category :: "exn + ustr"
  pb_evidence_directory :: bool

definition lifecycle_component :: "probes \<Rightarrow> health_component" where
  "lifecycle_component p =
     (if pb_accepting p then component ''lifecycle'' CH_HEALTHY ''Backend accepting requests''
      else component ''lifecycle'' CH_UNAVAILABLE ''Backend is not accepting requests'')"

definition database_component :: "probes \<Rightarrow> health_component" where
  "database_component p =
     (case pb_database p of
        Inl x \<Rightarrow> component ''database'' CH_UNAVAILABLE ''PostgreSQL unavailable''
      | Inr _ \<Rightarrow> component ''database'' CH_HEALTHY ''PostgreSQL reachable'')"

definition checkpoint_component :: "probes \<Rightarrow> health_component" where
  "checkpoint_component p =
     (if pb_checkpoint p = Inr True
      then component ''checkpoint'' CH_HEALTHY
        ((case pb_backend p of CB_POSTGRES \<Rightarrow> ''Postgres'' | CB_MEMORY \<Rightarrow> ''Memory'') @ '' checkpoint persistence reachable'')
      else component ''checkpoint'' CH_UNAVAILABLE ''Checkpoint persistence unavailable'')"

text \<open>\<open>_readiness_category\<close> handles three classes of exceptions; any other one leaves the snapshot.\<close>

definition safe_category :: "exn + ustr \<Rightarrow> exn + ustr" where
  "safe_category c =
     (case c of
        Inr t \<Rightarrow> Inr (casefold t)
      | Inl x \<Rightarrow> if x \<in> {PyTypeError, PyValueError, PydanticValidationError} then Inr (lit ''not_ready'') else Inl x)"

definition retriever_component :: "settings \<Rightarrow> probes \<Rightarrow> exn + health_component" where
  "retriever_component g p =
     (case pb_retriever p of
        Inl x \<Rightarrow> Inr (component ''retriever'' CH_UNAVAILABLE ''Retrieval backend unavailable'')
      | Inr ready \<Rightarrow>
          if casefold (lit (sg_rag g)) = lit ''local''
          then Inr (if ready then component ''retriever'' CH_HEALTHY ''Local retrieval backend usable''
                    else component ''retriever'' CH_UNAVAILABLE ''Local retrieval backend unavailable'')
          else if ready then Inr (component ''retriever'' CH_HEALTHY ''Qdrant active snapshot compatible'')
          else and_then (safe_category (pb_category p)) (\<lambda>c.
            Inr (if c \<in> {lit ''qdrant_unreachable'', lit ''collection_missing''}
                 then component ''retriever'' CH_UNAVAILABLE ''Qdrant unavailable''
                 else component ''retriever'' CH_INCOMPATIBLE ''Qdrant active snapshot incompatible'')))"

text \<open>The provider of the settings is an enumeration and never empty.\<close>

definition llm_component :: "settings \<Rightarrow> health_component" where
  "llm_component g =
     (if sg_model g = [] \<or> sg_base_url g = []
      then component ''llm'' CH_NOT_CONFIGURED ''LLM provider is not configured''
      else component ''llm'' CH_NOT_PROBED ''LLM provider configured; availability not actively probed'')"

definition memory_component :: "settings \<Rightarrow> health_component" where
  "memory_component g =
     (if sg_memory g
      then component ''memory'' CH_CONFIGURED ''Persistent memory configured; operation not independently probed''
      else component ''memory'' CH_NOT_CONFIGURED ''Persistent memory is disabled'')"

definition evidence_component :: "settings \<Rightarrow> probes \<Rightarrow> health_component" where
  "evidence_component g p =
     (if casefold (lit (sg_evidence g)) = lit ''local''
      then (if pb_evidence_directory p then component ''evidence_store'' CH_HEALTHY ''Local evidence store configured''
            else component ''evidence_store'' CH_NOT_CONFIGURED ''Local evidence store path is not available'')
      else if casefold (lit (sg_evidence g)) = lit ''s3'' \<and> text_present (sg_bucket g)
      then component ''evidence_store'' CH_CONFIGURED ''S3-compatible evidence store configured; availability not actively probed''
      else component ''evidence_store'' CH_NOT_CONFIGURED ''Evidence store is not configured'')"

definition authentication_component :: "settings \<Rightarrow> health_component" where
  "authentication_component g =
     (if sg_auth g = AM_OIDC \<and> text_present (sg_issuer g) \<and> text_present (sg_audience g) \<or>
         sg_auth g \<in> {AM_LOCAL_DEMO, AM_STATIC, AM_DISABLED}
      then component ''authentication_provider'' CH_CONFIGURED
        ''Authentication boundary configured; provider availability not actively probed''
      else component ''authentication_provider'' CH_NOT_CONFIGURED ''Authentication provider configuration is incomplete'')"

definition telemetry_component :: "settings \<Rightarrow> health_component" where
  "telemetry_component g =
     (if sg_otel g \<and> sg_otlp g \<noteq> []
      then component ''opentelemetry'' CH_CONFIGURED ''OpenTelemetry pipeline configured; export availability not actively probed''
      else component ''opentelemetry'' CH_NOT_CONFIGURED ''OpenTelemetry export is disabled'')"

section \<open>The snapshot\<close>

record health_snapshot =
  hs_ready :: bool
  hs_components :: "health_component list"

definition healthy :: "health_component \<Rightarrow> bool" where
  "healthy c \<longleftrightarrow> hc_status c = CH_HEALTHY"

definition health_of :: "settings \<Rightarrow> probes \<Rightarrow> exn + health_snapshot" where
  "health_of g p =
     and_then (retriever_component g p) (\<lambda>retriever.
       let required = [lifecycle_component p, database_component p, checkpoint_component p, retriever] in
       Inr \<lparr>hs_ready = list_all healthy required,
         hs_components = required @ [llm_component g, memory_component g, evidence_component g p,
           authentication_component g, telemetry_component g]\<rparr>)"

definition find_component :: "health_snapshot \<Rightarrow> string \<Rightarrow> health_component option" where
  "find_component h n = find (\<lambda>c. hc_name c = n) (hs_components h)"

definition status_of :: "health_snapshot \<Rightarrow> string \<Rightarrow> component_status" where
  "status_of h n = (case find_component h n of None \<Rightarrow> CH_UNAVAILABLE | Some c \<Rightarrow> hc_status c)"

definition dependency_names :: "string list" where
  "dependency_names =
     [''database'', ''retriever'', ''evidence_store'', ''authentication_provider'', ''llm'', ''opentelemetry'']"

definition operational_status :: "settings \<Rightarrow> probes \<Rightarrow> exn + operational_state" where
  "operational_status g p =
     and_then (health_of g p) (\<lambda>h.
       Inr (if status_of h ''lifecycle'' \<noteq> CH_HEALTHY then OH_UNAVAILABLE
         else if list_ex (\<lambda>n. status_of h n \<noteq> CH_HEALTHY) [''database'', ''checkpoint'', ''retriever''] \<or>
              list_ex (\<lambda>n. status_of h n \<in> {CH_UNAVAILABLE, CH_INCOMPATIBLE}) dependency_names
         then OH_DEPENDENCY_FAILURE
         else if list_ex (\<lambda>n. status_of h n \<notin> {CH_HEALTHY, CH_CONFIGURED}) (drop 2 dependency_names)
         then OH_DEGRADED else OH_HEALTHY))"

section \<open>Routes\<close>

text \<open>The status code and the body of \<open>/ready\<close>, and the component that is logged when it is not.\<close>

definition ready_route :: "settings \<Rightarrow> probes \<Rightarrow> http_error + int \<times> string \<times> string option" where
  "ready_route g p =
     (case health_of g p of
        Inl x \<Rightarrow> Inl (Internal x)
      | Inr h \<Rightarrow>
          if hs_ready h then Inr (200, ''ready'', None)
          else Inr (503, ''not_ready'',
            Some (case find (\<lambda>c. hc_name c \<in> {''lifecycle'', ''database'', ''checkpoint'', ''retriever''} \<and> \<not> healthy c) (hs_components h) of
              None \<Rightarrow> ''runtime'' | Some c \<Rightarrow> hc_name c)))"

text \<open>\<open>/ui/system-health\<close> (api/routes/ui.py) answers the status and the components.\<close>

definition system_health :: "settings \<Rightarrow> probes \<Rightarrow> http_error + string \<times> health_component list" where
  "system_health g p =
     (case health_of g p of
        Inl x \<Rightarrow> Inl (Internal x)
      | Inr h \<Rightarrow> Inr (if hs_ready h then ''ready'' else ''not_ready'', hs_components h))"

text \<open>\<open>/ui/runtime-config\<close>: what the console shows of the settings.\<close>

record runtime_config =
  rv_provider :: string
  rv_model :: ustr
  rv_environment :: ustr
  rv_live :: bool

definition without_slashes :: "ustr \<Rightarrow> ustr" where
  "without_slashes t = rev (dropWhile (\<lambda>c. c = 47) (rev t))"

definition runtime_config_view :: "settings \<Rightarrow> string \<Rightarrow> runtime_config" where
  "runtime_config_view g api_key =
     (let live = sg_provider g = LP_OPENAI_COMPATIBLE \<and> api_key \<noteq> [] \<and>
            casefold (without_slashes (sg_base_url g)) = lit ''https://api.openai.com/v1'' in
      \<lparr>rv_provider = (if live then ''OpenAI'' else ''Configured provider''), rv_model = sg_model g,
       rv_environment = sg_env g, rv_live = live\<rparr>)"

text \<open>The probes of a service with the given backend: its check of readiness, and the category it leaves.\<close>

definition probes_of :: "'s backend \<Rightarrow> 's \<Rightarrow> 'p checkpoint_provider \<Rightarrow> 'p \<Rightarrow> bool \<Rightarrow> exn + unit \<Rightarrow> bool \<Rightarrow> probes" where
  "probes_of b s cp q accepting database directory =
     \<lparr>pb_accepting = accepting, pb_database = database, pb_checkpoint = Inr (fst (provider_ready cp q)),
      pb_backend = provider_backend cp, pb_retriever = Inr (fst (fst (is_ready b s))),
      pb_category = Inr (lit (snd (fst (is_ready b s)))), pb_evidence_directory = directory\<rparr>"

end
