(* ===== verification/Service_Laws.thy ===== *)
theory Service_Laws
  imports Health
begin

text \<open>
  What the service promises about itself: readiness says exactly that the required dependencies answer,
  the operational status is never better than degraded, and a saved conversation can be loaded exactly
  if it has no metadata of the model provider.
\<close>

section \<open>The life of the checkpoint provider\<close>

lemma initialized_or_closed:
  assumes "provider_initialize (PostgresProvider q False) s = (r, cp, s')"
  shows "(r = Inr () \<and> cp = PostgresProvider q True) \<or> (\<exists>x t u. r = Inl x \<and> cp = PostgresProvider q False \<and> po_close q t = (u, s'))"
  using assms by (auto split: prod.splits sum.splits)

lemma not_ready_until_initialized: "provider_ready (PostgresProvider q False) s = (False, s)"
  by simp

lemma closed_not_ready:
  "provider_close cp s = (Inr (), cp', s') \<Longrightarrow> provider_backend cp = CB_POSTGRES \<Longrightarrow> fst (provider_ready cp' t) = False"
  by (cases cp) (auto split: if_splits prod.splits sum.splits)

text \<open>Every part that was started is closed, in the order of the code, whatever fails.\<close>

lemma lifespan_closes:
  "le_closed (lifespan a w) \<in> {parts_to_close True, parts_to_close False} \<and>
   (le_served (lifespan a w) \<longleftrightarrow> le_closed (lifespan a w) = parts_to_close True)"
  by (simp add: lifespan_def shut_down_def parts_to_close_def split: prod.splits sum.splits)

section \<open>Saved conversations\<close>

text \<open>
  What is documented of the library's serializer with an allow list: it restores a value made of allowed
  symbols without an event, and reports every symbol that is not allowed as blocked.
\<close>

definition serde_ok :: "(agent_state \<times> provider_run_metadata option \<Rightarrow> 'd) \<Rightarrow>
    ('d \<Rightarrow> (exn + agent_state \<times> provider_run_metadata option) \<times> serde_event list) \<Rightarrow> bool" where
  "serde_ok dumps loads \<longleftrightarrow>
     (\<forall>s m. if set (state_symbols s m) \<subseteq> set checkpoint_allowed then loads (dumps (s, m)) = (Inr (s, m), [])
        else \<exists>e \<in> set (snd (loads (dumps (s, m)))). se_kind e = MsgpackBlocked)"

definition permitted :: "symbol list \<Rightarrow> bool" where
  "permitted ys \<longleftrightarrow> list_all (\<lambda>y. y \<in> set checkpoint_allowed) ys"

lemma permitted_simps [simp]:
  "permitted []" "permitted (y # ys) \<longleftrightarrow> y \<in> set checkpoint_allowed \<and> permitted ys"
  "permitted (xs @ ys) \<longleftrightarrow> permitted xs \<and> permitted ys" "permitted (concat yss) \<longleftrightarrow> list_all permitted yss"
  "permitted (when_some v ys) \<longleftrightarrow> v = None \<or> permitted ys"
  by (auto simp: permitted_def when_some_def list_all_iff)

lemma permitted_subset: "permitted ys \<longleftrightarrow> set ys \<subseteq> set checkpoint_allowed"
  by (auto simp: permitted_def list_all_iff)

lemma allowed_symbols [simp]:
  "permitted (schema_symbols [''Intent''])" "permitted (schema_symbols [''AgentRequestType''])"
  "permitted (schema_symbols [''AgentErrorCategory''])" "permitted (schema_symbols [''Intent'', ''AgentRequestType''])"
  "permitted (schema_symbols [''SemanticDecision'', ''Intent'', ''AgentRequestType''])"
  "(''app.core.context'', ''ExecutionContext'') \<in> set checkpoint_allowed" "(''app.auth.models'', ''Principal'') \<in> set checkpoint_allowed"
  "(''app.auth.models'', ''PrincipalType'') \<in> set checkpoint_allowed" "(''app.auth.models'', ''ActorType'') \<in> set checkpoint_allowed"
  "(''app.agent.decision_compiler'', ''CompiledDecision'') \<in> set checkpoint_allowed"
  "(''app.agent.decision_compiler'', ''CompileStatus'') \<in> set checkpoint_allowed"
  "(''app.policies.models'', ''PolicyDecision'') \<in> set checkpoint_allowed" "(''app.policies.models'', ''PolicyOutcome'') \<in> set checkpoint_allowed"
  "(''app.policies.models'', ''PendingAction'') \<in> set checkpoint_allowed"
  "(''app.policies.models'', ''PendingActionStatus'') \<in> set checkpoint_allowed"
  "(''app.memory.schemas'', ''MemoryCandidate'') \<in> set checkpoint_allowed" "(''app.memory.schemas'', ''MemoryType'') \<in> set checkpoint_allowed"
  by (simp_all add: permitted_def schema_symbols_def checkpoint_allowed_def)

lemma permitted_parts [simp]: "permitted (decision_symbols d)" "permitted (action_symbols a)"
  by (simp_all add: decision_symbols_def action_symbols_def)

lemma permitted_suspended [simp]: "permitted (suspended_symbols w)"
  by (simp add: suspended_symbols_def split: option.split)

lemma metadata_not_permitted: "\<not> permitted (schema_symbols [''ProviderRunMetadata''])"
  by (simp add: permitted_def schema_symbols_def checkpoint_allowed_def)

lemma state_permitted: "permitted (state_symbols s m) \<longleftrightarrow> m = None"
  by (simp add: state_symbols_def metadata_not_permitted)

lemma strict_loads_iff:
  "strict_loads loads d = Inr v \<longleftrightarrow> fst (loads d) = Inr v \<and> (\<forall>e \<in> set (snd (loads d)). se_kind e = OtherSerdeEvent)"
proof -
  have "se_kind e \<in> {MsgpackBlocked, MsgpackMethodBlocked} \<longleftrightarrow> se_kind e \<noteq> OtherSerdeEvent" for e
    by (cases "se_kind e") simp_all
  then show ?thesis
    by (auto simp: strict_loads_def list_ex_iff split: prod.splits sum.splits)
qed

text \<open>A call to the model always leaves metadata in the state, whether or not it succeeds.\<close>

lemma jget_update: "jget (AList.update (lit k) v d) j = (if j = k then Some v else jget d j)"
  by (simp add: jget_def AList.update_conv')

lemma jget_put_count: "j \<noteq> k \<Longrightarrow> jget (put_count k v d) j = jget d j"
  by (simp add: put_count_def jget_update split: option.splits)

lemma call_keeps_provider: "jget (call_metadata usage current latency) ''provider'' = jget current ''provider''"
  by (simp add: call_metadata_def Let_def jget_update jget_put_count split: option.splits)

lemma call_leaves_metadata:
  "provider_metadata validate (Some (call_metadata usage (initial_call_metadata model) latency)) \<noteq> Inr None"
proof -
  have "jget (initial_call_metadata model) ''provider'' = Some (JText (lit ''OpenAI''))"
    by (simp add: initial_call_metadata_def jget_def)
  then have "jget (call_metadata usage (initial_call_metadata model) latency) ''provider'' = Some (JText (lit ''OpenAI''))"
    by (simp add: call_keeps_provider)
  then show ?thesis by (auto simp: provider_metadata_def metadata_keys_def Let_def and_then_Inr_iff split: if_splits)
qed

section \<open>Properties\<close>

text \<open>C35. A saved conversation can be loaded exactly if its state holds no metadata of the model provider: of all the
  classes a state is made of, only that one is missing from the allow list of the serializer. Without it
  the state is loaded as it was saved; with it every later turn of the conversation fails.\<close>

theorem checkpoint_loads_iff:
  assumes "serde_ok dumps loads"
  shows "strict_loads loads (dumps (s, None)) = Inr (s, None) \<and>
    ((\<exists>v. strict_loads loads (dumps (s, m)) = Inr v) \<longleftrightarrow> m = None)"
proof -
  have ok: "loads (dumps (s, None)) = (Inr (s, None), [])"
    using assms state_permitted [of s None] by (simp add: serde_ok_def permitted_subset)
  have "\<exists>e \<in> set (snd (loads (dumps (s, m)))). se_kind e = MsgpackBlocked" if "m \<noteq> None"
    using assms state_permitted [of s m] that by (auto simp: serde_ok_def permitted_subset)
  then show ?thesis using ok by (cases m) (auto simp: strict_loads_iff)
qed

text \<open>A library that keeps values as they are and reports what is not allowed.\<close>

definition plain_loads ::
  "agent_state \<times> provider_run_metadata option \<Rightarrow> (exn + agent_state \<times> provider_run_metadata option) \<times> serde_event list" where
  "plain_loads d = (Inr d, map (\<lambda>y. \<lparr>se_kind = MsgpackBlocked, se_symbol = y\<rparr>)
     (filter (\<lambda>y. y \<notin> set checkpoint_allowed) (state_symbols (fst d) (snd d))))"

lemma plain_serde_ok: "serde_ok (\<lambda>d. d) plain_loads"
  by (auto simp: serde_ok_def plain_loads_def filter_empty_conv)

definition openai_metadata :: provider_run_metadata where
  "openai_metadata = \<lparr>pm_provider = ''OpenAI'', pm_model = None, pm_latency = Some 1, pm_input = None, pm_output = None, pm_cost = None\<rparr>"

lemma checkpoint_loads_iff_witness:
  "\<forall>s. strict_loads plain_loads (s, None) = Inr (s, None) \<and> \<not> (\<exists>v. strict_loads plain_loads (s, Some openai_metadata) = Inr v)"
  using checkpoint_loads_iff [OF plain_serde_ok] by blast

end
