(* ===== verification/Health_Laws.thy ===== *)
theory Health_Laws
  imports Health
begin

text \<open>
  What the health of the service says: it is ready exactly if it accepts requests and its database, its
  checkpoints and its retriever answer; and its operational status is never better than degraded.
\<close>

lemma component_names [simp]:
  "hc_name (lifecycle_component p) = ''lifecycle''" "hc_name (database_component p) = ''database''"
  "hc_name (checkpoint_component p) = ''checkpoint''" "hc_name (llm_component g) = ''llm''"
  "hc_name (memory_component g) = ''memory''" "hc_name (evidence_component g p) = ''evidence_store''"
  "hc_name (authentication_component g) = ''authentication_provider''" "hc_name (telemetry_component g) = ''opentelemetry''"
  by (simp_all add: lifecycle_component_def database_component_def checkpoint_component_def llm_component_def
      memory_component_def evidence_component_def authentication_component_def telemetry_component_def component_def
      split: sum.split)

lemma retriever_name: "retriever_component g p = Inr c \<Longrightarrow> hc_name c = ''retriever''"
  by (auto simp: retriever_component_def component_def and_then_Inr_iff split: sum.splits if_splits)

lemma required_health:
  "healthy (lifecycle_component p) \<longleftrightarrow> pb_accepting p" "healthy (database_component p) \<longleftrightarrow> pb_database p = Inr ()"
  "healthy (checkpoint_component p) \<longleftrightarrow> pb_checkpoint p = Inr True"
  by (auto simp: healthy_def lifecycle_component_def database_component_def checkpoint_component_def component_def
      split: sum.splits)

lemma retriever_health: "retriever_component g p = Inr c \<Longrightarrow> healthy c \<longleftrightarrow> pb_retriever p = Inr True"
  by (auto simp: retriever_component_def healthy_def component_def and_then_Inr_iff split: sum.splits if_splits)

lemma health_parts:
  assumes "health_of g p = Inr h"
  obtains r where "retriever_component g p = Inr r"
    "hs_ready h \<longleftrightarrow> list_all healthy [lifecycle_component p, database_component p, checkpoint_component p, r]"
    "hs_components h = [lifecycle_component p, database_component p, checkpoint_component p, r, llm_component g,
       memory_component g, evidence_component g p, authentication_component g, telemetry_component g]"
  using assms by (auto simp: health_of_def and_then_Inr_iff Let_def)

lemma llm_unknown: "hc_status (llm_component g) \<in> {CH_NOT_CONFIGURED, CH_NOT_PROBED}"
  by (simp add: llm_component_def component_def)

lemma failed_check_not_ready: "collection_readiness b c \<noteq> Inl RC_READY"
  by (simp add: collection_readiness_def split: option.split prod.split sum.split)

section \<open>Properties\<close>

text \<open>The operational status is never healthy: the component of the language model is not configured or not
  probed in every state of the service, and either counts as a failed optional dependency.\<close>

theorem operational_never_healthy:
  "operational_status g p \<noteq> Inr OH_HEALTHY"
proof
  assume healthy: "operational_status g p = Inr OH_HEALTHY"
  then obtain h where h: "health_of g p = Inr h"
    by (auto simp: operational_status_def and_then_Inr_iff)
  obtain r where r: "retriever_component g p = Inr r"
    "hs_components h = [lifecycle_component p, database_component p, checkpoint_component p, r, llm_component g,
       memory_component g, evidence_component g p, authentication_component g, telemetry_component g]"
    using health_parts [OF h] by metis
  have "status_of h ''llm'' = hc_status (llm_component g)"
    by (simp add: status_of_def find_component_def r(2) retriever_name [OF r(1)])
  then have "status_of h ''llm'' \<notin> {CH_HEALTHY, CH_CONFIGURED}"
    using llm_unknown [of g] by auto
  then show False
    using healthy by (simp add: operational_status_def h dependency_names_def split: if_splits)
qed

text \<open>The service reports ready exactly if it accepts requests, the database answers, the checkpoints can be
  reached and the alias of the vector store leads to a snapshot that fits the running configuration; in
  every other case the answer is 503 and names one of these four components.\<close>

theorem ready_iff_dependencies:
  "(ready_route g (probes_of b s cp q accepting database directory) = Inr (200, ''ready'', None)) =
      (accepting \<and> database = Inr () \<and> fst (provider_ready cp q) \<and>
       (\<exists>c ix. fst (inspect b s) = Inr (Some c) \<and> collection_readiness b c = Inr ix)) \<and>
   (\<exists>n \<in> {''lifecycle'', ''database'', ''checkpoint'', ''retriever''}.
      ready_route g (probes_of b s cp q accepting database directory) \<in>
        {Inr (200, ''ready'', None), Inr (503, ''not_ready'', Some n)})"
proof -
  let ?p = "probes_of b s cp q accepting database directory"
  let ?answer = "ready_route g ?p"
  have ready: "pb_retriever ?p = Inr True \<longleftrightarrow> (\<exists>c ix. fst (inspect b s) = Inr (Some c) \<and> collection_readiness b c = Inr ix)"
    by (auto simp: probes_of_def is_ready_def readiness_after_def failed_check_not_ready split: prod.splits sum.splits option.splits if_splits)
  have "\<exists>r. retriever_component g ?p = Inr r"
    by (simp add: retriever_component_def probes_of_def safe_category_def)
  then obtain r where r: "retriever_component g ?p = Inr r" by blast
  obtain h where h: "health_of g ?p = Inr h" by (simp add: health_of_def r Let_def)
  have parts: "hs_ready h \<longleftrightarrow> list_all healthy [lifecycle_component ?p, database_component ?p, checkpoint_component ?p, r]"
    "hs_components h = [lifecycle_component ?p, database_component ?p, checkpoint_component ?p, r, llm_component g,
       memory_component g, evidence_component g ?p, authentication_component g, telemetry_component g]"
    using h r by (auto simp: health_of_def Let_def)
  have "hs_ready h \<longleftrightarrow> accepting \<and> database = Inr () \<and> fst (provider_ready cp q) \<and> pb_retriever ?p = Inr True"
    using parts(1) retriever_health [OF r] required_health [of ?p] by (auto simp: probes_of_def)
  moreover have "\<exists>n \<in> {''lifecycle'', ''database'', ''checkpoint'', ''retriever''}. ?answer = Inr (503, ''not_ready'', Some n)"
    if not_ready: "\<not> hs_ready h"
  proof -
    let ?failed = "\<lambda>c. hc_name c \<in> {''lifecycle'', ''database'', ''checkpoint'', ''retriever''} \<and> \<not> healthy c"
    have "find ?failed (hs_components h) \<noteq> None"
      using not_ready retriever_name [OF r] unfolding find_None_all parts by auto
    then obtain c where c: "find ?failed (hs_components h) = Some c" by blast
    have "?answer = Inr (503, ''not_ready'', Some (hc_name c))"
      using not_ready by (simp only: ready_route_def h c sum.case option.case if_False)
    then show ?thesis using find_Some_in [OF c] by blast
  qed
  moreover have "?answer = Inr (200, ''ready'', None)" if "hs_ready h"
    using that by (simp add: ready_route_def h)
  ultimately show ?thesis
    unfolding ready [symmetric] by (cases "hs_ready h") auto
qed

end
