(* ===== verification/Reason_Laws.thy ===== *)
theory Reason_Laws
  imports Run_View Compiler_Safety
begin

text \<open>
  The reason an operator sees is one of the program's own sentences: the compiler explains what it does not
  execute in fixed words, whatever the proposal of the model says, and the rest of the view adds only
  the names of outcomes and errors.
\<close>

section \<open>The words of the compiler\<close>

definition compiler_phrases :: "string list" where
  "compiler_phrases =
     [''Semantic intent has no compiler route.'', ''The request needs a specific, authorized target.'',
      ''The cancellation request is contradictory and needs clarification.'', ''The request needs clarification.'',
      ''Order action received a ticket target.'', ''A specific order is required.'', ''A refund reason is required.'',
      ''The refund reason must come from the customer request.'', ''Ticket category and description are required.'',
      ''The customer must explicitly request a support ticket.'', ''Ticket creation received a ticket target.'',
      ''The referenced order could not be resolved.'', ''Escalation details are required.'',
      ''Unsupported escalation priority.'', ''Executable semantic intent is unsupported.'',
      ''Customer lookup does not accept a target.'', ''Order list does not accept a target.'',
      ''Ticket list does not accept a target.'', ''Order lookup received a ticket target.'',
      ''A latest-order reference is not grounded in the current request.'', ''A specific ticket is required.'',
      ''Ticket lookup received a non-ticket target.'', ''Read semantic intent is unsupported.'',
      ''The knowledge request needs clarification.'', ''Knowledge-and-action request received a ticket target.'',
      ''A specific memory is required.'', ''A memory key is required.'']"

definition spoken :: "compiled_decision \<Rightarrow> bool" where
  "spoken c \<longleftrightarrow> cd_status c \<in> {ST_CLARIFICATION_REQUIRED, ST_COMPILE_REJECTED} \<longrightarrow>
     compiler_reason c \<in> (\<lambda>p. Some (lit p)) ` set compiler_phrases"

lemma phrases_fit: "list_all (\<lambda>p. p \<noteq> [] \<and> length p \<le> 300) compiler_phrases"
  by (simp add: compiler_phrases_def)

lemma bounded_phrase:
  assumes "p \<in> set compiler_phrases"
  shows "p \<noteq> []" "bounded_text (lit p) = Some (lit p)"
proof -
  have "p \<noteq> [] \<and> length p \<le> 300" using phrases_fit assms by (simp add: list_all_iff)
  then show "p \<noteq> []" "bounded_text (lit p) = Some (lit p)"
    using lit_inject [of p "[]"] by (auto simp: bounded_text_def simp del: lit_inject)
qed

lemma spoken_clarification: "p \<in> set compiler_phrases \<Longrightarrow> spoken (clarification_with s v c d p)"
  by (simp add: spoken_def compiler_reason_def clarification_with_def blank_compiled_def or_text_def bounded_phrase)

lemma spoken_rejected: "p \<in> set compiler_phrases \<Longrightarrow> spoken (rejected d p)"
  using bounded_phrase [of p]
  by (simp add: spoken_def compiler_reason_def rejected_def blank_compiled_def or_text_def)

lemma spoken_action: "spoken (action_with u v d ctx t a)"
  by (simp add: spoken_def)

lemma phrase_members:
  "''Semantic intent has no compiler route.'' \<in> set compiler_phrases"
  "''The request needs a specific, authorized target.'' \<in> set compiler_phrases"
  "''The cancellation request is contradictory and needs clarification.'' \<in> set compiler_phrases"
  "''The request needs clarification.'' \<in> set compiler_phrases"
  "''Order action received a ticket target.'' \<in> set compiler_phrases"
  "''A specific order is required.'' \<in> set compiler_phrases"
  "''A refund reason is required.'' \<in> set compiler_phrases"
  "''The refund reason must come from the customer request.'' \<in> set compiler_phrases"
  "''Ticket category and description are required.'' \<in> set compiler_phrases"
  "''The customer must explicitly request a support ticket.'' \<in> set compiler_phrases"
  "''Ticket creation received a ticket target.'' \<in> set compiler_phrases"
  "''The referenced order could not be resolved.'' \<in> set compiler_phrases"
  "''Escalation details are required.'' \<in> set compiler_phrases"
  "''Unsupported escalation priority.'' \<in> set compiler_phrases"
  "''Executable semantic intent is unsupported.'' \<in> set compiler_phrases"
  "''Customer lookup does not accept a target.'' \<in> set compiler_phrases"
  "''Order list does not accept a target.'' \<in> set compiler_phrases"
  "''Ticket list does not accept a target.'' \<in> set compiler_phrases"
  "''Order lookup received a ticket target.'' \<in> set compiler_phrases"
  "''A latest-order reference is not grounded in the current request.'' \<in> set compiler_phrases"
  "''A specific ticket is required.'' \<in> set compiler_phrases"
  "''Ticket lookup received a non-ticket target.'' \<in> set compiler_phrases"
  "''Read semantic intent is unsupported.'' \<in> set compiler_phrases"
  "''The knowledge request needs clarification.'' \<in> set compiler_phrases"
  "''Knowledge-and-action request received a ticket target.'' \<in> set compiler_phrases"
  "''A specific memory is required.'' \<in> set compiler_phrases"
  "''A memory key is required.'' \<in> set compiler_phrases"
  by (simp_all add: compiler_phrases_def)

lemmas spoken_intros = spoken_clarification spoken_rejected spoken_action phrase_members

lemma spoken_refund: "spoken (compile_refund d ctx m restored oid)"
  by (simp add: compile_refund_def spoken_intros)

lemma spoken_ticket: "spoken (compile_ticket st d ctx m)"
  by (simp add: compile_ticket_def Let_def spoken_intros split: option.split)

lemma spoken_escalation: "spoken (compile_escalation st d ctx)"
  by (simp add: compile_escalation_def Let_def spoken_intros split: option.split)

lemma spoken_read: "spoken (compile_read st d ctx m)"
  by (cases "sd_intent d") (simp_all add: compile_read_def spoken_intros split: option.split)

lemma spoken_knowledge: "spoken (compile_knowledge d)"
  by (simp add: compile_knowledge_def spoken_intros) (simp add: spoken_def blank_compiled_def)

lemma spoken_both: "spoken (compile_knowledge_and_action st d ctx)"
  by (simp add: compile_knowledge_and_action_def spoken_intros split: option.split) (simp add: spoken_def blank_compiled_def)

lemma spoken_memory: "spoken (compile_memory d)"
  by (simp add: compile_memory_def spoken_intros) (simp add: spoken_def blank_compiled_def)

lemma spoken_compile_action: "spoken (compile_action st d ctx m restored)"
  by (simp add: compile_action_def spoken_intros spoken_refund spoken_ticket spoken_escalation split: option.split)

lemma spoken_compile: "spoken (compile st d ctx g m restored)"
  by (simp add: compile_def route_of spoken_intros spoken_compile_action spoken_read spoken_knowledge spoken_both spoken_memory)

section \<open>The reason of a run\<close>

definition fixed_reasons :: "ustr set" where
  "fixed_reasons = lit ` (set compiler_phrases \<union>
     {''idempotency_replay_prevented'', ''cross_customer_access_attempt'', ''Policy verification denied execution authority.'',
      ''Referenced business resource was not found.'', ''Duplicate business action was prevented.'',
      ''Current business state does not permit the requested action.''} \<union>
     range (\<lambda>p. ''Policy outcome: '' @ outcome_value p @ ''.'') \<union> range (\<lambda>e. ''Request blocked: '' @ error_category_value e @ ''.''))"

lemma bounded_lit: "p \<noteq> [] \<Longrightarrow> length p \<le> 300 \<Longrightarrow> bounded_text (lit p) = Some (lit p)"
  using lit_inject [of p "[]"] by (simp add: bounded_text_def del: lit_inject)

definition outcome_reason :: "outcome \<Rightarrow> ustr" where
  "outcome_reason p = lit (''Policy outcome: '' @ outcome_value p @ ''.'')"

definition error_reason :: "error_category \<Rightarrow> ustr" where
  "error_reason e = lit (''Request blocked: '' @ error_category_value e @ ''.'')"

lemma short_values: "length (outcome_value p) \<le> 40" "length (error_category_value e) \<le> 40"
  by (cases p, simp_all) (cases e, simp_all)

lemma bounded_outcome: "bounded_text (outcome_reason p) = Some (outcome_reason p)"
  unfolding outcome_reason_def using short_values(1) [of p] by (intro bounded_lit) simp_all

lemma bounded_error: "bounded_text (error_reason e) = Some (error_reason e)"
  unfolding error_reason_def using short_values(2) [of e] by (intro bounded_lit) simp_all

lemma bounded_validation: "bounded_text (validation_reason e) = Some (validation_reason e)"
  unfolding validation_reason_def by (rule bounded_lit) simp_all

lemma fixed_members:
  "lit ''idempotency_replay_prevented'' \<in> fixed_reasons" "lit ''cross_customer_access_attempt'' \<in> fixed_reasons"
  "lit ''Policy verification denied execution authority.'' \<in> fixed_reasons" "validation_reason e \<in> fixed_reasons"
  "outcome_reason p \<in> fixed_reasons" "error_reason e \<in> fixed_reasons"
  unfolding fixed_reasons_def validation_reason_def outcome_reason_def error_reason_def by auto

lemma unfinished_reason:
  "unfinished v = Some c \<Longrightarrow> v = Some c \<and> cd_status c \<in> {ST_CLARIFICATION_REQUIRED, ST_COMPILE_REJECTED}"
  by (simp add: unfinished_def split: option.splits if_splits)

section \<open>Properties\<close>

text \<open>C40. The reason shown for a run is never the model's own wording: for a decision that the compiler made from
  any proposal, it is missing, the security signal of the turn, or one of the program's fixed sentences.\<close>

theorem shown_reason_is_fixed:
  assumes "s_compiled s = None \<or> (\<exists>st d ctx g m restored. s_compiled s = Some (compile st d ctx g m restored))"
  shows "decision_reason s evs r \<in> insert None (Some ` insert (lit (or_text (s_security s) [])) fixed_reasons)"
proof (cases "unfinished (s_compiled s)")
  case None
  then show ?thesis
    unfolding decision_reason_def outcome_reason_def [symmetric] error_reason_def [symmetric]
    by (auto simp: bounded_outcome bounded_error bounded_validation fixed_members split: option.splits)
next
  case (Some c)
  then have c: "s_compiled s = Some c" "cd_status c \<in> {ST_CLARIFICATION_REQUIRED, ST_COMPILE_REJECTED}"
    using unfinished_reason by blast+
  then have "spoken c" using assms spoken_compile by auto
  then obtain p where "compiler_reason c = Some (lit p)" "p \<in> set compiler_phrases"
    using c(2) by (auto simp: spoken_def)
  then have "compiler_reason c \<in> Some ` fixed_reasons" by (auto simp: fixed_reasons_def)
  then show ?thesis by (auto simp: decision_reason_def Some fixed_members)
qed

lemma shown_reason_is_fixed_witness:
  "\<forall>(s :: agent_state) evs r.
     decision_reason (s\<lparr>s_security := None,
       s_compiled := Some (compile demo_store (demo_decision REFUND_REQUEST 12 ''because I say so'') demo_context None [] False)\<rparr>) evs r \<in>
       insert None (Some ` insert [] fixed_reasons)"
proof (intro allI)
  fix s :: agent_state and evs r
  let ?s = "s\<lparr>s_security := None,
    s_compiled := Some (compile demo_store (demo_decision REFUND_REQUEST 12 ''because I say so'') demo_context None [] False)\<rparr>"
  have "s_compiled ?s = None \<or> (\<exists>st d ctx g m restored. s_compiled ?s = Some (compile st d ctx g m restored))" by simp blast
  from shown_reason_is_fixed [OF this, of evs r] show "decision_reason ?s evs r \<in> insert None (Some ` insert [] fixed_reasons)"
    by (simp add: or_text_def)
qed

end
