(* ===== verification/Providers.thy ===== *)
theory Providers
  imports Runtime Service
begin

text \<open>
  The deterministic providers of proposals (agent/llm/integration.py), which read a decision off the last
  message of the user, and the choice of a provider from the settings (agent/runtime.py). The provider on
  a language model is in Model_Provider.
\<close>

section \<open>The deterministic providers\<close>

text \<open>\<open>next((m["content"] for m in reversed(messages) if m["role"] == "user"), "")\<close>\<close>

definition latest_user_text :: "(role \<times> ustr) list \<Rightarrow> ustr" where
  "latest_user_text ms = (case find (\<lambda>m. fst m = User) (rev ms) of None \<Rightarrow> [] | Some m \<Rightarrow> snd m)"

definition fixture_text :: "ustr \<Rightarrow> ustr" where
  "fixture_text s = squeeze (strip (casefold s))"

definition fixture_v1 :: "(role \<times> ustr) list \<Rightarrow> int \<Rightarrow> structured_decision" where
  "fixture_v1 ms customer =
     (if customer = 2 \<and> fixture_text (latest_user_text ms) = lit ''cancel order 3''
      then \<lparr>v1_intent = ORDER_CANCEL, v1_request = RT_WRITE_ACTION, v1_tool = Some ''cancel_order'',
            v1_arguments = [(''customer_id'', PInt 2), (''order_id'', PInt 3)],
            v1_reason = lit ''Canonical deterministic integration cancellation scenario.'',
            v1_retrieval = False, v1_query = None, v1_memory = None, v1_memory_key = None\<rparr>
      else \<lparr>v1_intent = UNKNOWN, v1_request = RT_UNCLEAR, v1_tool = None, v1_arguments = [],
            v1_reason = lit ''Unsupported deterministic integration scenario.'',
            v1_retrieval = False, v1_query = None, v1_memory = None, v1_memory_key = None\<rparr>)"

text \<open>A decision with the defaults of its class.\<close>

definition simple_decision :: "intent \<Rightarrow> request_type \<Rightarrow> 't option \<Rightarrow> ustr \<Rightarrow> 't decision_of" where
  "simple_decision i r t reason =
     \<lparr>sd_intent = i, sd_request = r, sd_target = t, sd_reason = reason, sd_category = None,
      sd_description = None, sd_priority = None, sd_summary = None, sd_clarification = False,
      sd_retrieval = False, sd_query = None, sd_memory = None, sd_memory_key = None\<rparr>"

definition fixture_v2 :: "(role \<times> ustr) list \<Rightarrow> exn + semantic_decision" where
  "fixture_v2 ms =
     (if fixture_text (latest_user_text ms) = lit ''cancel order 3''
      then and_then (make_target EXPLICIT_ORDER (Some 3) None) (\<lambda>t.
        Inr (simple_decision ORDER_CANCEL RT_WRITE_ACTION (Some t)
          (lit ''Canonical deterministic integration cancellation scenario.'')))
      else Inr (simple_decision UNKNOWN RT_UNCLEAR None
        (lit ''Unsupported deterministic integration scenario.'')))"

text \<open>\<open>\border\s*(?:number|id)?\s*#?\s*(\d+)\b\<close>; the group is the run of digits that ends the match.\<close>

definition order_id_pattern :: rx where
  "order_id_pattern =
     rseq [RWb, rlit ''order'', rspaces0, ropt (rwords [''number'', ''id'']), rspaces0,
           ropt (RSet (\<lambda>c. c = 35)), rspaces0, rdigits, RWb]"

text \<open>\<open>int(s)\<close> refuses a text of more than 4300 digits.\<close>

definition int_of_digits :: "ustr \<Rightarrow> exn + int" where
  "int_of_digits ds = (if 4300 < length ds then Inl PyValueError else Inr (digits_value ds))"

definition named_order :: "ustr \<Rightarrow> exn + target_v3 option" where
  "named_order message =
     (case search order_id_pattern message of
        None \<Rightarrow> Inr None
      | Some q \<Rightarrow> and_then (int_of_digits (rev (takeWhile is_digit (fst q)))) (\<lambda>n.
          if 0 < n then Inr (Some (OrderV3 n)) else Inl PydanticValidationError))"

definition mentions :: "string list \<Rightarrow> ustr \<Rightarrow> bool" where
  "mentions ws n = list_ex (\<lambda>w. contains (lit w) n) ws"

definition fixture_remember :: "memory_candidate \<Rightarrow> ustr option \<Rightarrow> decision_v3" where
  "fixture_remember candidate key =
     (simple_decision MEMORY_REMEMBER RT_MEMORY_ACTION None
        (lit ''The customer explicitly requested a bounded memory update.''))
       \<lparr>sd_memory := Some candidate, sd_memory_key := key\<rparr>"

definition fixture_choice :: "ustr \<Rightarrow> ustr \<Rightarrow> target_v3 option \<Rightarrow> decision_v3" where
  "fixture_choice n message target =
     (if mentions [''refund''] n \<and> mentions [''policy'', ''how'', ''eligibility'', ''return process''] n
      then (simple_decision REFUND_POLICY RT_KNOWLEDGE_ONLY None
              (lit ''The customer asked for refund policy information.''))
             \<lparr>sd_retrieval := True, sd_query := Some (strip message)\<rparr>
      else if mentions [''refund'', ''reimburse'', ''money back''] n
      then simple_decision REFUND_REQUEST RT_WRITE_ACTION target
             (if mentions [''damaged''] n \<and> mentions [''product''] n then lit ''damaged product''
              else if mentions [''damaged''] n then lit ''damaged'' else [])
      else if mentions [''cancel'', ''cancellation''] n
      then simple_decision ORDER_CANCEL RT_WRITE_ACTION target
             (lit ''The customer requested order cancellation.'')
      else if mentions [''where is my order'', ''order status'', ''check my order''] n
      then simple_decision ORDER_LOOKUP RT_READ_ACTION target
             (lit ''The customer requested order status information.'')
      else if mentions [''human agent'', ''human specialist'', ''speak with a human''] n
      then simple_decision HUMAN_ESCALATION RT_ESCALATION None
             (lit ''The customer requested human support.'')
      else (simple_decision UNKNOWN RT_UNCLEAR None
              (lit ''The request could not be classified by the deterministic provider.''))
             \<lparr>sd_clarification := True\<rparr>)"

definition fixture_payload :: "ustr \<Rightarrow> ustr \<Rightarrow> exn + decision_v3" where
  "fixture_payload n message =
     and_then (extract_memory_request message) (\<lambda>(candidate, key).
       case candidate of
         Some c \<Rightarrow> Inr (fixture_remember c key)
       | None \<Rightarrow> and_then (named_order message) (\<lambda>target. Inr (fixture_choice n message target)))"

text \<open>\<open>SemanticDecisionV3.model_validate\<close> of a payload whose members are valid.\<close>

definition validate_v3 :: "decision_v3 \<Rightarrow> exn + decision_v3" where
  "validate_v3 d =
     (if decision_fits d \<and> (case sd_target d of None \<Rightarrow> True | Some t \<Rightarrow> target_v3_ok t)
      then Inr d else Inl PydanticValidationError)"

definition fixture_v3 :: "(role \<times> ustr) list \<Rightarrow> exn + decision_v3" where
  "fixture_v3 ms =
     and_then (fixture_payload (fixture_text (latest_user_text ms)) (latest_user_text ms)) validate_v3"

section \<open>The choice of a provider\<close>

datatype provider_choice = Fixture_V1 | Fixture_V2 | Fixture_V3 | Model_Provider string

text \<open>\<open>_build_decision_provider\<close>: \<open>contract_version or settings.agent_decision_contract_version\<close>.\<close>

definition build_decision_provider :: "llm_provider \<Rightarrow> string \<Rightarrow> string option \<Rightarrow> provider_choice" where
  "build_decision_provider configured configured_contract contract =
     (let selected = (case contract of None \<Rightarrow> configured_contract | Some c \<Rightarrow> if c = [] then configured_contract else c) in
      if configured = LP_DETERMINISTIC_INTEGRATION
      then (if selected = ''semantic_decision_v2'' then Fixture_V2
            else if selected = ''semantic_decision_v3'' then Fixture_V3 else Fixture_V1)
      else Model_Provider selected)"

text \<open>A chosen provider as the platform calls it; \<open>live\<close> is the one on the model, for a contract.\<close>

definition provided ::
  "(string \<Rightarrow> nat \<Rightarrow> (role \<times> ustr) list \<Rightarrow> int \<Rightarrow> pyval dict list \<Rightarrow> exn + proposal) \<Rightarrow>
     provider_choice \<Rightarrow> nat \<Rightarrow> (role \<times> ustr) list \<Rightarrow> int \<Rightarrow> pyval dict list \<Rightarrow> exn + proposal" where
  "provided live choice i ms customer memory =
     (case choice of
        Fixture_V1 \<Rightarrow> Inr (DirectV1 (fixture_v1 ms customer))
      | Fixture_V2 \<Rightarrow> and_then (fixture_v2 ms) (\<lambda>d. Inr (SemanticV2 d))
      | Fixture_V3 \<Rightarrow> and_then (fixture_v3 ms) (\<lambda>d. Inr (SemanticV3 d))
      | Model_Provider contract \<Rightarrow> live contract i ms customer memory)"

end
