(* ===== verification/Provider_Laws.thy ===== *)
theory Provider_Laws
  imports Model_Provider
begin

text \<open>
  What a provider keeps and lets through: the diagnostics of a refused answer depend on its shape only,
  a decision comes back only if the model's answer was parsed and fits its contract, and a deterministic
  provider targets no order but one that the customer wrote.
\<close>

section \<open>Values that are blanked\<close>

text \<open>The shape of a JSON value: its keys and types, with the names of the target variants.\<close>

definition blank_text :: "ustr \<Rightarrow> ustr" where
  "blank_text s = (if list_ex (\<lambda>t. s = lit t) target_variants then s else [])"

primrec blanked :: "jval \<Rightarrow> jval" where
  "blanked JNull = JNull"
| "blanked (JBool b) = JBool False"
| "blanked (JInt n) = JInt 0"
| "blanked (JReal r) = JReal 0"
| "blanked (JText s) = JText (blank_text s)"
| "blanked (JList xs) = JList (map blanked xs)"
| "blanked (JObject d) = JObject (map (map_prod id blanked) d)"

definition blank_object :: "jobject \<Rightarrow> jobject" where
  "blank_object d = map (map_prod id blanked) d"

definition same_shape :: "response_view \<Rightarrow> response_view \<Rightarrow> bool" where
  "same_shape r s \<longleftrightarrow>
     map_option (map blanked) (rs_tools r) = map_option (map blanked) (rs_tools s) \<and> rs_invalid r = rs_invalid s"

definition same_detail :: "error_detail \<Rightarrow> error_detail \<Rightarrow> bool" where
  "same_detail e f \<longleftrightarrow> ed_type e = ed_type f \<and> ed_loc e = ed_loc f \<and> blanked (ed_input e) = blanked (ed_input f)"

text \<open>Two failures that differ in the refused values only, or in what else was raised.\<close>

fun same_failure :: "call_failure \<Rightarrow> call_failure \<Rightarrow> bool" where
  "same_failure (Invalid es) (Invalid fs) = list_all2 same_detail es fs"
| "same_failure (Mistyped k) (Mistyped l) = (k = l)"
| "same_failure (Raised x) (Raised y) = True"
| "same_failure f g = False"

lemma jget_blank: "jget (blank_object d) k = map_option blanked (jget d k)"
  by (induction d) (auto simp: jget_def blank_object_def)

lemma entry_blank: "entry (blank_object d) k = blanked (entry d k)"
  by (simp add: entry_def jget_blank split: option.split)

lemma keys_blank: "map fst (blank_object d) = map fst d"
  by (induction d) (auto simp: blank_object_def)

lemma blank_JObject: "blanked (JObject d) = JObject (blank_object d)"
  by (simp add: blank_object_def)

lemma json_type_blank: "json_type (blanked v) = json_type v"
  by (cases v) auto

lemma variant_texts: "set target_variants = {''explicit_order'', ''latest_order'', ''explicit_ticket''}"
  by (simp add: target_variants_def)

lemma blank_text_kept: "t \<in> set target_variants \<Longrightarrow> blank_text (lit t) = lit t"
  by (auto simp: blank_text_def list_ex_iff)

lemma blank_text_other: "\<not> list_ex (\<lambda>t. s = lit t) target_variants \<Longrightarrow> blank_text s = []"
  by (simp add: blank_text_def)

lemma variant_of_blank: "find (\<lambda>t. blank_text s = lit t) target_variants = find (\<lambda>t. s = lit t) target_variants"
proof (cases "list_ex (\<lambda>t. s = lit t) target_variants")
  case True
  then show ?thesis by (simp add: blank_text_def)
next
  case False
  then show ?thesis by (simp add: blank_text_other) (auto simp: target_variants_def lit_def)
qed

lemma target_variant_blank: "target_variant (blanked v) = target_variant v"
  by (cases v) (auto simp: variant_of_blank)

lemma is_text_blank: "is_text (map_option blanked v) = is_text v"
  by (cases v; cases "the v") auto

lemma identifier_blank: "identifier_key (blank_object d) = identifier_key d"
  by (simp add: identifier_key_def jget_blank)

lemmas blank_reads =
  entry_blank json_type_blank target_variant_blank identifier_blank jget_blank is_text_blank keys_blank

lemma note_target_blank: "note_target (blank_object d) sh = note_target d sh"
  by (simp add: note_target_def blank_reads mapping_keys_def cong: option.case_cong)

lemma call_parts_blank:
  "call_parts (blank_object d) = (fst (call_parts d), blanked (snd (call_parts d)))"
  by (cases "entry d ''function''") (simp_all add: call_parts_def blank_reads blank_JObject [unfolded blanked.simps])

lemma note_arguments_blank: "note_arguments (blanked v) sh = note_arguments v sh"
proof (cases v)
  case (JObject d)
  then show ?thesis
    unfolding JObject blank_JObject
    by (cases "entry d ''target''")
      (simp_all add: note_arguments_def blank_reads note_target_blank blank_JObject del: blanked.simps(7))
qed (simp_all add: note_arguments_def)

lemma note_call_blank: "note_call (blanked v) sh = note_call v sh"
proof (cases v)
  case (JObject d)
  then show ?thesis
    unfolding JObject blank_JObject
    by (simp add: note_call_def call_parts_blank note_arguments_blank)
qed (simp_all add: note_call_def)

lemma note_calls_blank: "note_calls (map blanked vs) = note_calls vs"
proof (induction vs)
  case (Cons v vs)
  then show ?case by (intro ext) (simp add: note_call_blank)
qed (rule ext, simp)

definition blank_view :: "response_view \<Rightarrow> response_view" where
  "blank_view r = \<lparr>rs_tools = map_option (map blanked) (rs_tools r), rs_invalid = rs_invalid r, rs_usage = None\<rparr>"

lemma metadata_blank: "structured_call_metadata (blank_view r) = structured_call_metadata r"
  by (cases "rs_tools r") (simp_all add: structured_call_metadata_def blank_view_def note_calls_blank Let_def)

lemma same_shape_metadata:
  assumes "same_shape r s"
  shows "structured_call_metadata r = structured_call_metadata s"
proof -
  have "blank_view r = blank_view s" using assms by (simp add: same_shape_def blank_view_def)
  then show ?thesis by (metis metadata_blank)
qed

section \<open>Diagnostics of alike failures\<close>

lemma blank_is_object: "blanked v = JObject d \<longleftrightarrow> (\<exists>e. v = JObject e \<and> d = blank_object e)"
  by (cases v) (auto simp: blank_object_def)

lemma same_keys:
  assumes "same_detail e f"
  shows "top_keys e = top_keys f"
proof (cases "ed_input e")
  case (JObject d)
  then obtain d' where "ed_input f = JObject d'" "blank_object d = blank_object d'"
    using assms by (metis same_detail_def blank_JObject blank_is_object)
  moreover have "map fst d = map fst d'" using \<open>blank_object d = blank_object d'\<close> by (metis keys_blank)
  ultimately show ?thesis using JObject by (simp add: top_keys_def)
next
  case other: (JText t)
  then show ?thesis using assms by (cases "ed_input f") (auto simp: same_detail_def top_keys_def)
qed (use assms in \<open>(cases "ed_input f"; auto simp: same_detail_def top_keys_def)+\<close>)

lemma from_same_details:
  assumes "list_all2 same_detail es fs"
  shows "from_validation_error es contract at_stage layer success constructed call =
    from_validation_error fs contract at_stage layer success constructed call"
proof -
  have "map (\<lambda>e. (ed_type e, field_location (ed_loc e))) es = map (\<lambda>e. (ed_type e, field_location (ed_loc e))) fs"
    using assms by (induction rule: list_all2_induct) (auto simp: same_detail_def)
  moreover have "map top_keys es = map top_keys fs"
    using assms by (induction rule: list_all2_induct) (auto simp: same_keys)
  ultimately show ?thesis by (simp add: from_validation_error_def shape_metadata_def)
qed

text \<open>
  Two calls that answer alike: they fail alike, or their answers have the same shape, the parsers fail
  alike or give results of the same shape, and the contract accepts both or refuses both alike. The
  prompts, the texts, the numbers and the decisions may differ.
\<close>

definition answers_alike :: "'o model_client \<Rightarrow> 'p model_client \<Rightarrow> prompt_message list \<Rightarrow> prompt_message list \<Rightarrow> bool" where
  "answers_alike c c' prompt prompt' \<longleftrightarrow>
     rel_sum same_failure (\<lambda>x x'.
       same_shape (ml_view c x) (ml_view c' x') \<and>
       rel_sum same_failure (\<lambda>y y'.
         same_shape (ml_view c y) (ml_view c' y') \<and>
         rel_sum (list_all2 same_detail) (\<lambda>_ _. True) (ml_validate c y) (ml_validate c' y'))
       (parse_all (ml_parsers c) x) (parse_all (ml_parsers c') x'))
     (ml_call c prompt) (ml_call c' prompt')"

definition same_record :: "provider_state \<Rightarrow> provider_state \<Rightarrow> bool" where
  "same_record st st' \<longleftrightarrow> ps_diagnostic st = ps_diagnostic st' \<and> ps_shape st = ps_shape st'"

lemma note_same_failure:
  assumes "same_failure f g" "same_record st st'"
  shows "same_record (log_refusal contract took sh f st) (log_refusal contract took' sh g st')"
  using assms from_same_details by (cases f; cases g) (auto simp: log_refusal_def same_record_def Let_def)

lemma check_same_answer:
  assumes "same_shape (ml_view c y) (ml_view c' y')"
    and "rel_sum (list_all2 same_detail) (\<lambda>_ _. True) (ml_validate c y) (ml_validate c' y')"
    and "same_record st st'"
  shows "same_record (snd (check_contract c contract took y st)) (snd (check_contract c' contract took' y' st'))"
proof (cases "ml_validate c y")
  case (Inl es)
  with assms(2) obtain fs where fs: "ml_validate c' y' = Inl fs" "list_all2 same_detail es fs"
    by (cases "ml_validate c' y'") auto
  show ?thesis
    using Inl fs(1) assms(3) from_same_details [OF fs(2)] same_shape_metadata [OF assms(1), symmetric]
    by (cases "structured_call_metadata (ml_view c y)") (auto simp: check_contract_def same_record_def Let_def)
next
  case (Inr d)
  with assms(2) obtain e where "ml_validate c' y' = Inr e" by (cases "ml_validate c' y'") auto
  with Inr assms(3) show ?thesis by (simp add: check_contract_def)
qed

lemma same_failure_refl: "same_failure f f"
  by (cases f) (auto simp: list.rel_refl same_detail_def)

lemma transport_alike:
  assumes "answers_alike c c' prompt prompt'"
  shows "fst (transport c prompt) = fst (transport c' prompt') \<and>
    rel_sum same_failure (\<lambda>(x, y) (x', y').
      same_shape (ml_view c y) (ml_view c' y') \<and>
      rel_sum (list_all2 same_detail) (\<lambda>_ _. True) (ml_validate c y) (ml_validate c' y'))
     (snd (transport c prompt)) (snd (transport c' prompt'))"
proof (cases "ml_call c prompt")
  case (Inl f)
  with assms show ?thesis by (cases "ml_call c' prompt'") (auto simp: answers_alike_def transport_def)
next
  case (Inr x)
  with assms obtain x' where x': "ml_call c' prompt' = Inr x'" and shape: "same_shape (ml_view c x) (ml_view c' x')"
    and parsed: "rel_sum same_failure (\<lambda>y y'. same_shape (ml_view c y) (ml_view c' y') \<and>
       rel_sum (list_all2 same_detail) (\<lambda>_ _. True) (ml_validate c y) (ml_validate c' y'))
     (parse_all (ml_parsers c) x) (parse_all (ml_parsers c') x')"
    by (cases "ml_call c' prompt'") (auto simp: answers_alike_def)
  show ?thesis
    using Inr x' parsed same_shape_metadata [OF shape, symmetric] same_failure_refl
    by (cases "structured_call_metadata (ml_view c x)"; cases "parse_all (ml_parsers c) x";
        cases "parse_all (ml_parsers c') x'") (auto simp: transport_def)
qed

text \<open>C39. Diagnostics hold no content: what a provider records of a call besides its usage figures (the
  diagnostic of a refusal and the shape of the call) depends on the keys and types of the answer only. Two
  calls for different conversations, customers and memories whose answers are alike up to texts, numbers and
  truth values leave the same record.\<close>

theorem diagnostics_hold_no_content:
  assumes "answers_alike c c' (build_prompt shown system contract ms customer memory)
      (build_prompt shown' system' contract ms' customer' memory')"
    and "ps_shape st = ps_shape st'"
  shows "same_record (snd (decide c shown took system contract ms customer memory st))
    (snd (decide c' shown' took' system' contract ms' customer' memory' st'))"
proof -
  let ?t = "transport c (build_prompt shown system contract ms customer memory)"
  let ?t' = "transport c' (build_prompt shown' system' contract ms' customer' memory')"
  from transport_alike [OF assms(1)] have sh: "fst ?t' = fst ?t"
    and outcome: "rel_sum same_failure (\<lambda>(x, y) (x', y').
      same_shape (ml_view c y) (ml_view c' y') \<and>
      rel_sum (list_all2 same_detail) (\<lambda>_ _. True) (ml_validate c y) (ml_validate c' y')) (snd ?t) (snd ?t')"
    by auto
  show ?thesis
  proof (cases "snd ?t")
    case (Inl f)
    with outcome obtain g where "snd ?t' = Inl g" "same_failure f g" by (cases "snd ?t'") auto
    with Inl sh show ?thesis
      using note_same_failure [of f g "st\<lparr>ps_diagnostic := None\<rparr>" "st'\<lparr>ps_diagnostic := None\<rparr>"] assms(2)
      by (cases ?t; cases ?t') (auto simp: decide_def same_record_def)
  next
    case (Inr xy)
    with outcome obtain x y x' y' where xy: "snd ?t = Inr (x, y)" "snd ?t' = Inr (x', y')"
      and alike: "same_shape (ml_view c y) (ml_view c' y')"
        "rel_sum (list_all2 same_detail) (\<lambda>_ _. True) (ml_validate c y) (ml_validate c' y')"
      by (cases "snd ?t'") auto
    from check_same_answer [OF alike] show ?thesis
      using xy sh by (cases ?t; cases ?t') (auto simp: decide_def same_record_def Let_def)
  qed
qed

definition demo_answer :: "int \<Rightarrow> response_view" where
  "demo_answer n =
     \<lparr>rs_tools = Some [JObject [(lit ''name'', JText (lit ''SemanticDecisionV3'')),
        (lit ''args'', JObject [(lit ''target'', JObject [(lit ''type'', JText (lit ''explicit_order'')),
                                                   (lit ''order_id'', JInt n)])])]],
      rs_invalid = False, rs_usage = Some [(lit ''input_tokens'', JInt 10)]\<rparr>"

text \<open>A parsed result has no attribute \<open>tool_calls\<close>; here its contract refuses it.\<close>

definition demo_model :: "int \<Rightarrow> response_view model_client" where
  "demo_model n =
     \<lparr>ml_call = (\<lambda>_. Inr (demo_answer n)),
      ml_parsers = [\<lambda>_. Inr \<lparr>rs_tools = None, rs_invalid = False, rs_usage = None\<rparr>], ml_view = id,
      ml_validate = (\<lambda>_. Inl [\<lparr>ed_type = lit ''missing'', ed_loc = JList [JText (lit ''intent'')],
                               ed_input = JObject [(lit ''target'', JInt n)]\<rparr>])\<rparr>"

definition silent_model :: "response_view model_client" where
  "silent_model = (demo_model 0)\<lparr>ml_call := \<lambda>_. Inl (Mistyped (lit ''ValueError''))\<rparr>"

lemmas call_reads = structured_call_metadata_def note_call_def call_parts_def note_arguments_def note_target_def
  entry_def jget_def identifier_key_def Let_def

lemmas demo_runs = decide_def transport_def check_contract_def log_refusal_def demo_model_def demo_answer_def
  silent_model_def from_validation_error_def from_exception_def new_provider_def

abbreviation ask_model :: "response_view model_client \<Rightarrow> provider_state \<Rightarrow> (call_failure + proposal) \<times> provider_state" where
  "ask_model c st \<equiv> decide c (\<lambda>_. []) (\<lambda>_. 1) [] ''semantic_decision_v3'' [] 1 [] st"

lemma diagnostics_hold_no_content_witness:
  "same_record (snd (ask_model (demo_model 3) (new_provider []))) (snd (ask_model (demo_model 7) (new_provider [])))"
proof (rule diagnostics_hold_no_content)
  show "answers_alike (demo_model 3) (demo_model 7) (build_prompt (\<lambda>_. []) [] ''semantic_decision_v3'' [] 1 [])
      (build_prompt (\<lambda>_. []) [] ''semantic_decision_v3'' [] 1 [])"
    by (simp add: answers_alike_def demo_model_def demo_answer_def same_shape_def same_detail_def)
qed (simp add: new_provider_def)

section \<open>What a call lets through\<close>

lemma target_variant_Inl: "target_variant v = Inl f \<Longrightarrow> f = Mistyped (lit ''TypeError'')"
  by (cases v) auto

lemma note_call_Inl: "note_call v sh = Inl f \<Longrightarrow> f = Mistyped (lit ''TypeError'')"
  by (auto simp: note_call_def note_arguments_def note_target_def Let_def and_then_Inl_iff
      dest: target_variant_Inl split: jval.splits)

lemma note_calls_Inl: "note_calls vs sh = Inl f \<Longrightarrow> f = Mistyped (lit ''TypeError'')"
  by (induction vs arbitrary: sh) (auto simp: and_then_Inl_iff dest: note_call_Inl)

lemma metadata_Inl: "structured_call_metadata r = Inl f \<Longrightarrow> f = Mistyped (lit ''TypeError'')"
  by (auto simp: structured_call_metadata_def Let_def and_then_Inl_iff dest: note_calls_Inl)

text \<open>A decision comes back from the model exactly if the model answered, the answer's calls could be
  read, every parser went through and the contract accepted the result; then no diagnostic stands. A refusal
  with a diagnostic counts the errors of the validation and names their types, for the contract in use.\<close>

theorem decide_accepts_iff:
  assumes "prompt = build_prompt shown system contract ms customer memory"
    and "(out, st') = decide c shown took system contract ms customer memory st"
  shows "(out = Inr d \<longleftrightarrow>
      (\<exists>x sh y. ml_call c prompt = Inr x \<and> structured_call_metadata (ml_view c x) = Inr sh \<and>
        parse_all (ml_parsers c) x = Inr y \<and> ml_validate c y = Inr d)) \<and>
    (out = Inr d \<longrightarrow> ps_diagnostic st' = None) \<and>
    (\<forall>es. out = Inl (Invalid es) \<longrightarrow> (\<exists>dg. ps_diagnostic st' = Some dg \<and> dg_contract dg = contract \<and>
        dg_count dg = length es \<and> set (dg_types dg) = ed_type ` set es))"
proof -
  have types: "set (dg_types (from_validation_error es contract at_stage layer success constructed call)) = ed_type ` set es"
    for es at_stage layer success constructed call
    by (auto simp: from_validation_error_def Let_def sorted_set_def image_image)
  show ?thesis
    using assms types
    by (auto dest: metadata_Inl simp: decide_def transport_def check_contract_def log_refusal_def Let_def from_validation_error_def
        split: sum.splits call_failure.splits prod.splits)
qed

lemma decide_accepts_iff_witness:
  "\<exists>dg. ps_diagnostic (snd (ask_model (demo_model 3) (new_provider []))) = Some dg \<and> dg_count dg = 1 \<and>
    set (dg_types dg) = {lit ''missing''}"
proof -
  let ?es = "[\<lparr>ed_type = lit ''missing'', ed_loc = JList [JText (lit ''intent'')],
                               ed_input = JObject [(lit ''target'', JInt 3)]\<rparr>]"
  have "fst (ask_model (demo_model 3) (new_provider [])) = Inl (Invalid ?es)"
    by (simp add: demo_runs call_reads)
  moreover have "ask_model (demo_model 3) (new_provider []) =
      (fst (ask_model (demo_model 3) (new_provider [])), snd (ask_model (demo_model 3) (new_provider [])))"
    by simp
  ultimately show ?thesis
    using decide_accepts_iff [OF refl, of "fst (ask_model (demo_model 3) (new_provider []))"
        "snd (ask_model (demo_model 3) (new_provider []))" "demo_model 3" "\<lambda>_. []" "\<lambda>_. 1" "[]" "''semantic_decision_v3''" "[]" 1 "[]" "new_provider []" "DirectV1 (fixture_v1 [] 1)"]
    by auto
qed

section \<open>The deterministic provider\<close>

lemma search_from_whole: "search_from r pre s = Some q \<Longrightarrow> whole q = rev pre @ s"
proof (induction r pre s rule: search_from.induct)
  case (1 r pre)
  then have "q \<in> set (ends r (pre, []))" by (auto split: list.splits)
  then show ?case by (auto simp: whole_def ends_iff_matches dest!: matches_whole)
next
  case (2 r pre c cs)
  show ?case
  proof (cases "ends r (pre, c # cs)")
    case Nil
    then show ?thesis using 2 by auto
  next
    case (Cons p ps)
    then have "q \<in> set (ends r (pre, c # cs))" using 2 by auto
    then show ?thesis by (auto simp: whole_def ends_iff_matches dest!: matches_whole)
  qed
qed

lemma named_order_written:
  assumes "named_order message = Inr (Some t)"
  shows "\<exists>pre ds post. message = pre @ ds @ post \<and> ds \<noteq> [] \<and> list_all is_digit ds \<and>
    t = OrderV3 (digits_value ds) \<and> 0 < digits_value ds"
proof -
  obtain q where q: "search order_id_pattern message = Some q"
    and t: "t = OrderV3 (digits_value (rev (takeWhile is_digit (fst q))))"
      "0 < digits_value (rev (takeWhile is_digit (fst q)))"
    using assms by (auto simp: named_order_def int_of_digits_def and_then_Inr_iff split: option.splits if_splits)
  let ?ds = "rev (takeWhile is_digit (fst q))"
  have "message = rev (fst q) @ snd q"
    using search_from_whole q by (fastforce simp: search_def whole_def)
  then have "message = rev (dropWhile is_digit (fst q)) @ ?ds @ snd q"
    by (metis append.assoc rev_append takeWhile_dropWhile_id)
  moreover have "?ds \<noteq> []" using t(2) by (auto simp: digits_value_def)
  moreover have "list_all is_digit ?ds" by (auto simp: list_all_iff dest: set_takeWhileD)
  ultimately show ?thesis using t by blast
qed

lemma choice_target: "sd_target (fixture_choice n message target) = None \<or> sd_target (fixture_choice n message target) = target"
  by (simp add: fixture_choice_def simple_decision_def)

lemma choice_writes:
  "sd_request (fixture_choice n message target) = RT_WRITE_ACTION \<longrightarrow>
     sd_intent (fixture_choice n message target) \<in> {REFUND_REQUEST, ORDER_CANCEL}"
  by (simp add: fixture_choice_def simple_decision_def)

lemma payload_cases:
  assumes "fixture_payload n message = Inr d"
  obtains (remembered) c key where "d = fixture_remember c key"
    | (chosen) target where "named_order message = Inr target" "d = fixture_choice n message target"
  using assms by (auto simp: fixture_payload_def and_then_Inr_iff split: option.splits)

text \<open>C36. The deterministic provider proposes no target of its own: its decision keeps the limits of its
  contract, a proposal to write is a refund or a cancellation, and a target is an order whose number the
  customer wrote in the last message.\<close>

theorem fixture_targets_written:
  assumes "fixture_v3 ms = Inr d"
  shows "decision_fits d \<and>
    (sd_request d = RT_WRITE_ACTION \<longrightarrow> sd_intent d = REFUND_REQUEST \<or> sd_intent d = ORDER_CANCEL) \<and>
    (\<forall>t. sd_target d = Some t \<longrightarrow> (\<exists>pre ds post. latest_user_text ms = pre @ ds @ post \<and> ds \<noteq> [] \<and>
        list_all is_digit ds \<and> t = OrderV3 (digits_value ds) \<and> 0 < digits_value ds))"
proof -
  have payload: "fixture_payload (fixture_text (latest_user_text ms)) (latest_user_text ms) = Inr d"
    and fits: "decision_fits d"
    using assms by (auto simp: fixture_v3_def and_then_Inr_iff validate_v3_def split: if_splits)
  from payload show ?thesis
  proof (cases rule: payload_cases)
    case (remembered c key)
    with fits show ?thesis by (simp add: fixture_remember_def simple_decision_def)
  next
    case (chosen target)
    with fits choice_target [of "fixture_text (latest_user_text ms)" "latest_user_text ms" target]
      choice_writes [of "fixture_text (latest_user_text ms)" "latest_user_text ms" target]
    show ?thesis using named_order_written by auto
  qed
qed

lemma fixture_targets_written_witness:
  "\<exists>d. fixture_v3 [(User, lit ''refund order 12'')] = Inr d \<and> sd_target d = Some (OrderV3 12) \<and> decision_fits d"
proof -
  have run: "fixture_v3 [(User, lit ''refund order 12'')] =
      Inr (simple_decision REFUND_REQUEST RT_WRITE_ACTION (Some (OrderV3 12)) [])"
    by code_simp
  from this fixture_targets_written [OF this] show ?thesis by (simp add: simple_decision_def)
qed

section \<open>What the code does otherwise\<close>

text \<open>
  Findings. A refusal of the contract is described by the shape of the parsed result, which has no calls: the
  diagnostic says that no structured call was present although there was one. The usage figures of a call
  that reports none are those of an earlier call. And a target whose type is a list raises an error of
  its own while the shape is taken, before the parser can refuse the answer.
\<close>

lemma refusal_denies_its_call:
  "map_option (\<lambda>dg. sh_present (dg_call dg)) (ps_diagnostic (snd (ask_model (demo_model 3) (new_provider [])))) =
     Some (Some False) \<and>
   sh_present (ps_shape (snd (ask_model (demo_model 3) (new_provider [])))) = Some True"
  by (simp add: demo_runs call_reads)

lemma stale_usage:
  "jget (ps_metadata (snd (ask_model silent_model (snd (ask_model (demo_model 3) (new_provider [])))))) ''input_tokens'' =
     Some (JInt 10)"
  by (simp add: demo_runs call_reads call_metadata_def initial_call_metadata_def put_count_def first_key_def map_filter_simps)

lemma listed_type_unreadable:
  "structured_call_metadata \<lparr>rs_tools = Some [JObject [(lit ''args'',
      JObject [(lit ''target'', JObject [(lit ''type'', JList [])])])]], rs_invalid = False, rs_usage = None\<rparr> =
    Inl (Mistyped (lit ''TypeError''))"
  by (simp add: call_reads)

end
