(* ===== verification/Spec2Isabelle.thy ===== *)
theory Spec2Isabelle
  imports Regex Circuit_Safety Retry_Laws Tools_Laws Audit_Trail Compiler_Safety Turn_Laws Findings
    Memory_Laws Api_Laws Grounding_Laws Runtime_Laws Retrieval_Laws Snapshots_Laws Vector_Laws
    Console_Laws Run_Observer Service_Laws Health_Laws Reason_Laws Provider_Laws
begin

text \<open>
  A model of the customer-support agent of this repository (src/sky-agent/app) and the proofs that
  make its core correct.

  The program. One turn of a conversation runs a graph of nodes (agent/graph.py) over a checkpointed
  state. A language model proposes what the customer wants; a deterministic compiler turns the
  proposal into a registered tool with arguments bound to the authenticated context; a policy
  decides whether the tool runs at once, waits for the customer's confirmation or goes to a human; a
  confirmed action is rebuilt, compared with what was confirmed and revalidated before it runs; the
  tools write through idempotency receipts; every decision leaves an audit event; calls to models,
  retrievers, memory and tools go through a reliability controller. Around the graph stand the HTTP
  routes with their authentication, the knowledge retrieval with its published snapshots, the customer's
  long-term memory, and the console in which an operator follows the runs.

  Which theory models what.
  Prelude, PyText, Regex: Python's strings (lists of code points), dictionaries (association lists),
  dynamic values, case folding, white space, and backtracking regular expressions.
  Enums, Failures: the string enumerations, the exceptions and both classifiers of failures.
  Circuit (resilience/control.py, config.py), Retry (resilience/retry.py): the controller's circuits,
  bulkheads, budgets and rate limits, and the retry loop, on explicit clocks.
  Domain, Store, Tools, Catalog: the context (core/context.py), the tables (models/entities.py), the
  session with savepoints, commits and receipts (services/idempotency.py), the nine tools (tools/*.py)
  and their registry (tools/registry.py, agent/tool_catalog.py).
  Policy, Audit_Trail: the rules, confirmations and ownership (policies/rules.py, confirmation.py,
  models.py) and the audit repositories (policies/repository.py).
  Decision, Compiler: semantic decisions, grounding and the compiler (agent/schemas.py,
  semantic_grounding.py, target_admissibility.py, decision_compiler.py).
  Messages: the screening of user messages (agent/nodes/workflow_lifecycle.py).
  Memory_Policy: data loss prevention and the memory policy (memory/dlp.py, policy.py, extraction.py).
  Pending: the stored payload of a pending action (agent/nodes/pending_payload.py).
  Agent_State: the state of a conversation (agent/state.py), the world of a turn, the platform.
  Nodes_Entry, Nodes_Workflow, Nodes_Policy, Nodes_Execution, Respond: the nodes (agent/nodes/*.py).
  Graph: nodes, routing and the run of a turn (agent/graph.py).
  Runtime: the runtime of a turn and the chat endpoint (agent/runtime.py, api/routes/agent.py,
  persistence/checkpoint.py): the state of a conversation is loaded, run through the graph and saved
  under an identity built from tenant, actor, customer and conversation.
  Memory_Service: records, relevance, compaction and the service of the memory (memory/*.py).
  Auth, Access, Api: token and static authentication (auth/backends.py, oidc.py), the dependencies of a
  request (auth/dependencies.py, api/dependencies.py), the routes on business data (api/routes/*.py).
  Grounding: contexts, extractive answers, citations and their validator (rag/context.py,
  answer_generator.py, schemas.py).
  Chunking, Retrieval, Lexical: documents cut into chunks, the local hybrid index and the lexical index
  of the vector store (rag/ingestion/chunking.py, rag/retrieval/*.py, rag/rerankers/deterministic.py).
  Snapshots, Vector_Backend: the snapshots of the vector store with their publication, and the backend
  that serves queries from the active one (rag/storage/qdrant.py, rag/backends/qdrant.py).
  Run_View, Run_Store, Console: the view of a run (ui/projection.py, trace.py, schemas.py), its two
  repositories (ui/repository.py) and the console's routes (api/routes/ui.py). Run_Observer: the end of
  a turn (agent/runtime.py, step 8), which saves the view of the run in the turn's own session.
  Providers, Model_Provider: the deterministic providers of proposals and the provider on a language
  model with its prompt, its checks and its diagnostics (agent/llm/*.py).
  Settings, Service, Health: the settings that decide the mode (core/config.py), the checkpoint
  provider, the serializer and the life of the application (persistence/checkpoint.py, main.py), and the
  health of the service (health.py, api/routes/health.py).

  What is shown.
  Circuit_Laws, Circuit_Safety: windows, budgets and probes are bounded in every reachable state.
  Retry_Laws: attempts are bounded, a write is never replayed, permits come back on every path.
  Store_Laws, Tools_Laws: the four write tools are idempotent actions (a locale they interpret),
  failures leave no trace, reads stay in scope, and what a cancellation and a refund change.
  Audit_Trail: both repositories answer the same bounded, scoped queries.
  Compiler_Laws, Compiler_Safety: a compiled action is typed and registered, destructive targets are the
  customer's own words, and a refund request is compiled exactly for a reason in the customer's words.
  Pending_Laws: an untouched payload is rebuilt exactly.
  Turn_Phases, Turn_Safety: what holds when a turn reaches each node, by rule induction over
  the graph. Turn_Effects: an interface for facts of the session that a turn keeps, instantiated for
  the orders and refunds. Turn_Theorems: a turn ends, and money moves only when confirmed.
  Turn_Effects also shows that a turn leaves no uncommitted rows. Lifecycle: an abstract machine of the
  action at hand and the one laid aside, with guarded steps per node; a turn runs it along its nodes.
  Turn_Laws: a turn keeps its context and run, a flagged message or a foreign context reaches nothing.
  Findings: behaviours of the code that differ from what its comments or other parts say. Turn_Demo:
  complete turns on a small database, the concrete inputs of the witnesses.
  Text_Laws, Sort_Laws: words of a text, substrings, and stable sorts by several keys.
  Memory_Laws: the checksum against its textbook definition, the table's invariant, remember and forget.
  Access_Laws, Api_Laws: an accepted principal is verified and bounded, and an endpoint does what the
  tool of a turn would do, in the scope of the request.
  Grounding_Laws: what an answer may say, every claim quoted from evidence. Chunking_Laws,
  Retrieval_Laws: cutting loses no words, and what a query returns is stored and the best there is.
  Runtime_Laws: the identity of a checkpoint separates conversations. Run_Observer: recording a run,
  which commits or rolls back the session of the turn, changes neither answer nor business rows.
  Snapshots_Laws, Vector_Laws: the alias is only ever switched to a complete and valid snapshot, whatever
  fails, and the store's validation agrees with the backend's readiness.
  Run_Laws, Console_Laws, Reason_Laws: the record of the runs keeps the latest and gives back what was
  stored; the console (a locale over any source of runs, interpreted for the repositories) shows an
  operator only the own tenant; and the reason shown for a decision is one of the program's sentences.
  Provider_Laws: diagnostics depend on the shape of an answer only, a decision passed its contract, and a
  deterministic provider targets no order the customer did not write.
  Service_Laws, Health_Laws: readiness is the health of the required dependencies, and which saved
  states can be loaded again.

  Conventions. Identifiers and names are character lists; text written by users or models is a list
  of code points. Times are rational seconds, so no rounding is modelled. An exception is a
  value of the type exn on the left of a sum; a Python KeyError of a state access is OtherError.
  Everything outside this code is a parameter: the platform record (validation library's conversions,
  digest, clocks, identifiers, language model, retriever, generator, memory service) and the
  database record (identifiers, other transactions, commit faults). What is relied on of them is
  stated where it is used (others_ok, coercion_ok, quiet) and holds of the demonstration database.
  Whether a commit fails is a function of the rows; a theorem on a repetition quantifies over it anew.

  Bounds. Regular expressions iterate with a fuel of the remaining text's length, enough because an
  iteration that consumes nothing is not repeated. The retry loop recurses on the attempts left. The
  graph is acyclic: a rank decreases along every edge, so runs are total functions.

  Rerun of a conversation. The runtime restores a saved state as it was. The code's serializer refuses
  a state that carries metadata of a language model provider (checkpoint_loads_iff in Service_Laws), so
  the theorems on later turns speak of conversations whose calls left none.

  Not modelled. The clients of language models, embedding and reranking models; the signature check and
  the fetches of token verification; the client of the vector store and of the database engine with its
  connection options (all of these are parameters or are only called); telemetry, metrics, spans, the
  trace metadata of the wrappers around the nodes (an argument of the view) and the counters of the
  detailed health report; the hashes of the schemas that are sent to a model; the fake providers of
  tests; the recorded demonstration runs (constant fixtures of
  ui/demo.py); the numeric limits that the validation library checks on single settings; reading a
  directory of documents; the listing of snapshots; migrations and command-line scripts.
\<close>

end
